(* ===== verification/Prelude.thy ===== *)
theory Prelude
  imports Main "HOL-Library.Char_ord" "HOL-Library.List_Lexorder"
begin

text \<open>
  Shared vocabulary of the development: byte strings, the error sum and its bind, Go's
  decimal formatting (\<^verbatim>\<open>%d\<close> and \<^verbatim>\<open>%09d\<close>), and the generic lemmas on lists and sums that the
  component theories use.

  Go strings and \<^verbatim>\<open>[]byte\<close> values are both sequences of bytes; they are modelled by
  \<^typ>\<open>string\<close> (a list of 8-bit characters).  A Go function that returns \<^verbatim>\<open>(T, error)\<close> is a
  function into \<^typ>\<open>'e + 't\<close>, \<open>Inl\<close> being the error return.  Counters (event sequence
  numbers, attempts) start at zero and move by one, so Go's 64-bit \<^verbatim>\<open>int\<close> is \<^typ>\<open>int\<close>
  for them.
\<close>

named_theorems bind_simps \<open>inversion of the error bind\<close>

type_synonym bytes = string

section \<open>Errors as values\<close>

definition bindE :: "'e + 'a \<Rightarrow> ('a \<Rightarrow> 'e + 'b) \<Rightarrow> 'e + 'b" where
  "bindE m f = (case m of Inl e \<Rightarrow> Inl e | Inr x \<Rightarrow> f x)"

definition orErr :: "'e \<Rightarrow> 'a option \<Rightarrow> 'e + 'a" where
  "orErr e m = (case m of None \<Rightarrow> Inl e | Some x \<Rightarrow> Inr x)"

definition mapErr :: "('e \<Rightarrow> 'f) \<Rightarrow> 'e + 'a \<Rightarrow> 'f + 'a" where
  "mapErr f m = map_sum f id m"

lemma bindE_Inl [simp]: "bindE (Inl e) f = Inl e"
  by (simp add: bindE_def)

lemma bindE_Inr [simp]: "bindE (Inr x) f = f x"
  by (simp add: bindE_def)

lemma orErr_None [simp]: "orErr e None = Inl e"
  by (simp add: orErr_def)

lemma orErr_Some [simp]: "orErr e (Some x) = Inr x"
  by (simp add: orErr_def)

lemma bindE_eq_Inr [bind_simps]: "bindE m f = Inr y \<longleftrightarrow> (\<exists>x. m = Inr x \<and> f x = Inr y)"
  by (simp add: bindE_def split: sum.splits)

lemma bindE_eq_Inl [bind_simps]:
  "bindE m f = Inl e \<longleftrightarrow> m = Inl e \<or> (\<exists>x. m = Inr x \<and> f x = Inl e)"
  by (auto simp: bindE_def split: sum.splits)

lemma orErr_eq_Inr [bind_simps]: "orErr e m = Inr x \<longleftrightarrow> m = Some x"
  by (simp add: orErr_def split: option.splits)

lemma orErr_eq_Inl [bind_simps]: "orErr e m = Inl e' \<longleftrightarrow> m = None \<and> e' = e"
  by (auto simp: orErr_def split: option.splits)

lemma mapErr_eq_Inr [bind_simps]: "mapErr f m = Inr x \<longleftrightarrow> m = Inr x"
  by (cases m) (auto simp: mapErr_def)

lemma mapErr_eq_Inl [bind_simps]: "mapErr f m = Inl y \<longleftrightarrow> (\<exists>x. m = Inl x \<and> y = f x)"
  by (cases m) (auto simp: mapErr_def)

lemma if_Inl_eq_Inr [bind_simps]: "(if b then Inl e else r) = Inr y \<longleftrightarrow> \<not> b \<and> r = Inr y"
  by simp

lemma if_Inl_eq_Inl [bind_simps]:
  "(if b then Inl e else r) = Inl e' \<longleftrightarrow> b \<and> e = e' \<or> \<not> b \<and> r = Inl e'"
  by auto

section \<open>Decimal formatting\<close>

definition digit :: "nat \<Rightarrow> char" where
  "digit d = char_of (48 + d)"

definition undigit :: "char \<Rightarrow> nat" where
  "undigit c = of_char c - 48"

fun dec :: "nat \<Rightarrow> string" where
  "dec n = (if n < 10 then [digit n] else dec (n div 10) @ [digit (n mod 10)])"

declare dec.simps [simp del]

definition undec :: "string \<Rightarrow> nat" where
  "undec s = foldl (\<lambda>a c. 10 * a + undigit c) 0 s"

definition zpad :: "nat \<Rightarrow> string \<Rightarrow> string" where
  "zpad w s = replicate (w - length s) (digit 0) @ s"

text \<open>\<^verbatim>\<open>fmt.Sprintf("%d", n)\<close> and \<^verbatim>\<open>strconv.Itoa(n)\<close>.\<close>

definition fmt_d :: "int \<Rightarrow> string" where
  "fmt_d n = (if n < 0 then ''-'' @ dec (nat (- n)) else dec (nat n))"

text \<open>\<^verbatim>\<open>fmt.Sprintf("%09d", n)\<close>: the sign counts towards the width.\<close>

definition fmt_09d :: "int \<Rightarrow> string" where
  "fmt_09d n = (if n < 0 then ''-'' @ zpad 8 (dec (nat (- n))) else zpad 9 (dec (nat n)))"

text \<open>The fixed-width reading of a padded number, on which ordering is proved.\<close>

fun fixdig :: "nat \<Rightarrow> nat \<Rightarrow> string" where
  "fixdig 0 n = []"
| "fixdig (Suc w) n = fixdig w (n div 10) @ [digit (n mod 10)]"

lemma undigit_digit [simp]: "d < 10 \<Longrightarrow> undigit (digit d) = d"
  by (simp add: undigit_def digit_def)

lemma digit_less_iff: "a < 10 \<Longrightarrow> b < 10 \<Longrightarrow> digit a < digit b \<longleftrightarrow> a < b"
  by (simp add: digit_def less_char_def)

lemma undec_snoc: "undec (s @ [c]) = 10 * undec s + undigit c"
  by (simp add: undec_def)

lemma undec_dec [simp]: "undec (dec n) = n"
proof (induction n rule: dec.induct)
  case (1 n)
  show ?case
  proof (cases "n < 10")
    case True
    then show ?thesis by (simp add: dec.simps [of n] undec_def)
  next
    case False
    then show ?thesis using 1 by (simp add: dec.simps [of n] undec_snoc)
  qed
qed

lemma foldl_zeros:
  "foldl (\<lambda>a c. 10 * a + undigit c) 0 (replicate k (digit 0)) = 0"
  by (induction k) (simp_all add: undigit_def digit_def)

lemma undec_zpad [simp]: "undec (zpad w s) = undec s"
  by (simp add: undec_def zpad_def foldl_zeros)

lemma undigit_minus: "undigit (CHR ''-'') = 0"
  by (simp add: undigit_def)

lemma undec_fmt_09d_abs: "int (undec (fmt_09d n)) = \<bar>n\<bar>"
proof (cases "n < 0")
  case True
  have "undec (CHR ''-'' # s) = undec s" for s
    by (simp add: undec_def undigit_minus)
  with True show ?thesis by (simp add: fmt_09d_def)
qed (simp add: fmt_09d_def)

lemma digit_not_minus: "d < 10 \<Longrightarrow> digit d \<noteq> CHR ''-''"
proof -
  assume "d < 10"
  then have "(of_char (digit d) :: nat) \<noteq> of_char (CHR ''-'')" by (simp add: digit_def)
  then show ?thesis by metis
qed

lemma minus_notin_dec: "CHR ''-'' \<notin> set (dec n)"
proof (induction n rule: dec.induct)
  case (1 n)
  have "CHR ''-'' \<noteq> digit (n mod 10)" using digit_not_minus [of "n mod 10"] by simp
  then show ?case using 1 digit_not_minus [of n] by (auto simp: dec.simps [of n])
qed

lemma fmt_09d_sign: "CHR ''-'' \<in> set (fmt_09d n) \<longleftrightarrow> n < 0"
  using minus_notin_dec digit_not_minus [of 0] by (auto simp: fmt_09d_def zpad_def)

lemma fmt_09d_inj [simp]: "fmt_09d m = fmt_09d n \<longleftrightarrow> m = n"
proof
  assume eq: "fmt_09d m = fmt_09d n"
  then have "\<bar>m\<bar> = \<bar>n\<bar>" using undec_fmt_09d_abs by metis
  moreover have "m < 0 \<longleftrightarrow> n < 0" using eq fmt_09d_sign by metis
  ultimately show "m = n" by linarith
qed simp

lemma length_fixdig [simp]: "length (fixdig w n) = w"
  by (induction w arbitrary: n) simp_all

lemma fixdig_zero: "fixdig w 0 = replicate w (digit 0)"
  by (induction w) (simp_all add: replicate_append_same)

lemma length_dec_le: "n < 10 ^ Suc w \<Longrightarrow> length (dec n) \<le> Suc w"
proof (induction w arbitrary: n)
  case 0
  then show ?case by (simp add: dec.simps [of n])
next
  case (Suc w)
  show ?case
  proof (cases "n < 10")
    case True
    then show ?thesis by (simp add: dec.simps [of n])
  next
    case False
    have "n div 10 < 10 ^ Suc w" using Suc.prems by (simp add: less_mult_imp_div_less)
    then have "length (dec (n div 10)) \<le> Suc w" by (rule Suc.IH)
    then show ?thesis using False by (simp add: dec.simps [of n])
  qed
qed

lemma zpad_snoc: "zpad (Suc w) (s @ [c]) = zpad w s @ [c]"
  by (simp add: zpad_def)

lemma zpad_dec_fixdig: "n < 10 ^ Suc w \<Longrightarrow> zpad (Suc w) (dec n) = fixdig (Suc w) n"
proof (induction w arbitrary: n)
  case 0
  then show ?case by (simp add: dec.simps [of n] zpad_def)
next
  case (Suc w)
  show ?case
  proof (cases "n < 10")
    case True
    then show ?thesis
      by (simp add: dec.simps [of n] zpad_def fixdig_zero flip: replicate_append_same)
  next
    case False
    have "n div 10 < 10 ^ Suc w" using Suc.prems by (simp add: less_mult_imp_div_less)
    then have "zpad (Suc w) (dec (n div 10)) = fixdig (Suc w) (n div 10)" by (rule Suc.IH)
    then show ?thesis using False by (simp add: dec.simps [of n] zpad_snoc)
  qed
qed

lemma snoc_less_iff:
  fixes xs ys :: string
  assumes "length xs = length ys"
  shows "xs @ [a] < ys @ [b] \<longleftrightarrow> xs < ys \<or> xs = ys \<and> a < b"
  using assms by (induction xs ys rule: list_induct2) auto

lemma append_same_length_less:
  fixes xs ys zs :: string
  assumes "length xs = length ys"
  shows "xs @ zs < ys @ zs \<longleftrightarrow> xs < ys"
  using assms by (induction xs ys rule: list_induct2) auto

lemma prepend_less [simp]:
  fixes xs ys zs :: string
  shows "zs @ xs < zs @ ys \<longleftrightarrow> xs < ys"
  by (induction zs) auto

lemma less_div_mod_iff:
  fixes m n :: nat
  shows "m < n \<longleftrightarrow> m div 10 < n div 10 \<or> m div 10 = n div 10 \<and> m mod 10 < n mod 10"
proof -
  have split: "10 * a + c < 10 * b + d \<longleftrightarrow> a < b \<or> a = b \<and> c < d"
    if "c < 10" "d < 10" for a b c d :: nat
    using that by auto
  have "m = 10 * (m div 10) + m mod 10" "n = 10 * (n div 10) + n mod 10" by simp_all
  then show ?thesis using split [of "m mod 10" "n mod 10" "m div 10" "n div 10"] by simp
qed

lemma fixdig_less_iff:
  "m < 10 ^ w \<Longrightarrow> n < 10 ^ w \<Longrightarrow> fixdig w m < fixdig w n \<longleftrightarrow> m < n"
proof (induction w arbitrary: m n)
  case 0
  then show ?case by simp
next
  case (Suc w)
  have bounds: "m div 10 < 10 ^ w" "n div 10 < 10 ^ w"
    using Suc.prems by (simp_all add: less_mult_imp_div_less)
  have lt: "fixdig w (m div 10) < fixdig w (n div 10) \<longleftrightarrow> m div 10 < n div 10"
    using bounds by (rule Suc.IH)
  have gt: "fixdig w (n div 10) < fixdig w (m div 10) \<longleftrightarrow> n div 10 < m div 10"
    using bounds(2,1) by (rule Suc.IH)
  have eq: "fixdig w (m div 10) = fixdig w (n div 10) \<longleftrightarrow> m div 10 = n div 10"
  proof
    assume "fixdig w (m div 10) = fixdig w (n div 10)"
    then have "\<not> m div 10 < n div 10" "\<not> n div 10 < m div 10" using lt gt by simp_all
    then show "m div 10 = n div 10" by linarith
  qed simp
  show ?case
    by (simp add: snoc_less_iff lt eq digit_less_iff less_div_mod_iff [of m n])
qed

lemma fmt_09d_fixdig:
  assumes n: "0 \<le> n" "n < 10 ^ 9"
  shows "fmt_09d n = fixdig 9 (nat n)"
proof -
  from n have "nat n < 10 ^ Suc 8" by simp
  then have "zpad (Suc 8) (dec (nat n)) = fixdig (Suc 8) (nat n)" by (rule zpad_dec_fixdig)
  moreover have "Suc 8 = 9" by simp
  ultimately show ?thesis using n by (simp only: fmt_09d_def) simp
qed

text \<open>Zero padding makes the byte order of the formatted numbers their numeric order.\<close>

lemma fmt_09d_less_iff:
  assumes "0 \<le> m" "m < 10 ^ 9" "0 \<le> n" "n < 10 ^ 9"
  shows "fmt_09d m < fmt_09d n \<longleftrightarrow> m < n"
proof -
  have "nat m < 10 ^ 9" "nat n < 10 ^ 9" using assms by simp_all
  then have "fixdig 9 (nat m) < fixdig 9 (nat n) \<longleftrightarrow> nat m < nat n" by (rule fixdig_less_iff)
  also have "nat m < nat n \<longleftrightarrow> m < n" using assms by auto
  finally show ?thesis using assms by (simp add: fmt_09d_fixdig del: fixdig.simps)
qed

lemma length_fmt_09d: "0 \<le> n \<Longrightarrow> n < 10 ^ 9 \<Longrightarrow> length (fmt_09d n) = 9"
  by (simp add: fmt_09d_fixdig)

lemma keyed_list_unique:
  fixes xs ys :: "('k::linorder \<times> 'v) list"
  assumes "sorted (map fst xs)" "distinct (map fst xs)" "sorted (map fst ys)" "distinct (map fst ys)"
    and "set xs = set ys"
  shows "xs = ys"
proof -
  have "inj_on fst (set xs \<union> set ys)" using assms(2,5) by (simp add: distinct_map)
  then show ?thesis using assms by (intro map_sorted_distinct_set_unique [where f = fst]) simp_all
qed

lemma strict_sorted_map_upt:
  fixes f :: "nat \<Rightarrow> 'k::linorder"
  assumes "\<And>m n. m < n \<Longrightarrow> n < N \<Longrightarrow> f m < f n"
  shows "sorted (map f [0..<N]) \<and> distinct (map f [0..<N])"
proof -
  have "sorted_wrt (<) (map f [0..<N])"
    using assms by (simp add: sorted_wrt_iff_nth_less)
  then show ?thesis by (simp add: strict_sorted_iff)
qed

end
