(* ===== verification/Chaincode_Stub.thy ===== *)
theory Chaincode_Stub
  imports Prelude "HOL-Library.AList"
begin

text \<open>
  The Fabric chaincode stub, as the two contracts use it.  The shim itself is a third-party
  package, so the contracts take its operations as one argument, a record of functions
  (\<open>stub_ops\<close>); every operation may fail, \<open>None\<close> being the shim's error return.  The locale
  \<open>fabric_stub\<close> states the documented behaviour the contracts rely on.  The unit-test stub
  of the repository (\<^verbatim>\<open>fakestub_test.go\<close>) is modelled as well, and is shown to satisfy that
  interface once its key builder refuses the key delimiter inside an attribute, as the
  shim documents.

  On the shim, the writes of an invocation that returns an error are discarded; a contract
  operation therefore returns either an error or the new state.
\<close>

record ('s, 'v) stub_ops =
  opCreateCompositeKey :: "string \<Rightarrow> string list \<Rightarrow> string option"
  opGetState :: "'s \<Rightarrow> string \<Rightarrow> 'v option option"
  opPutState :: "'s \<Rightarrow> string \<Rightarrow> 'v \<Rightarrow> 's option"
  opScan :: "'s \<Rightarrow> string \<Rightarrow> string list \<Rightarrow> (string \<times> 'v) list option"
  opSetEvent :: "'s \<Rightarrow> string \<Rightarrow> 'v \<Rightarrow> 's option"

text \<open>The value stored under an object type and its attributes, if any.\<close>

definition look :: "('s, 'v) stub_ops \<Rightarrow> 's \<Rightarrow> string \<times> string list \<Rightarrow> 'v option" where
  "look stub s oa =
     (case opCreateCompositeKey stub (fst oa) (snd oa) of
        None \<Rightarrow> None
      | Some k \<Rightarrow> (case opGetState stub s k of Some (Some v) \<Rightarrow> Some v | _ \<Rightarrow> None))"

lemma look_eq_Some:
  "look stub s oa = Some v \<longleftrightarrow>
     (\<exists>k. opCreateCompositeKey stub (fst oa) (snd oa) = Some k \<and> opGetState stub s k = Some (Some v))"
  by (auto simp: look_def split: option.splits)

locale fabric_stub =
  fixes stub :: "('s, 'v) stub_ops"
    and wf :: "'s \<Rightarrow> bool"
  assumes key_inj: "opCreateCompositeKey stub ot as = Some k \<Longrightarrow>
      opCreateCompositeKey stub ot' as' = Some k \<Longrightarrow> ot = ot' \<and> as = as'"
    and key_less: "opCreateCompositeKey stub ot (as @ [a]) = Some k \<Longrightarrow>
      opCreateCompositeKey stub ot (as @ [b]) = Some k' \<Longrightarrow> length a = length b \<Longrightarrow>
      k < k' \<longleftrightarrow> a < b"
    and get_put: "opPutState stub s k v = Some s' \<Longrightarrow>
      opGetState stub s' k' = (if k' = k then Some (Some v) else opGetState stub s k')"
    and get_set_event: "opSetEvent stub s n v = Some s' \<Longrightarrow>
      opGetState stub s' k' = opGetState stub s k'"
    and wf_put: "wf s \<Longrightarrow> opCreateCompositeKey stub ot as = Some k \<Longrightarrow>
      opPutState stub s k v = Some s' \<Longrightarrow> wf s'"
    and wf_set_event: "wf s \<Longrightarrow> opSetEvent stub s n v = Some s' \<Longrightarrow> wf s'"
    and scan_sorted: "wf s \<Longrightarrow> opScan stub s ot as = Some kvs \<Longrightarrow>
      sorted (map fst kvs) \<and> distinct (map fst kvs)"
    and scan_set: "wf s \<Longrightarrow> opScan stub s ot as = Some kvs \<Longrightarrow>
      (k, v) \<in> set kvs \<longleftrightarrow>
        opGetState stub s k = Some (Some v) \<and>
        (\<exists>as'. opCreateCompositeKey stub ot (as @ as') = Some k)"
begin

text \<open>Through \<^const>\<open>look\<close> the world state is a finite map from object type and attributes.\<close>

lemma look_put:
  assumes "opCreateCompositeKey stub ot as = Some k" "opPutState stub s k v = Some s'"
  shows "look stub s' = (look stub s)((ot, as) \<mapsto> v)"
proof
  fix oa
  show "look stub s' oa = ((look stub s)((ot, as) \<mapsto> v)) oa"
  proof (cases "oa = (ot, as)")
    case True
    then show ?thesis using assms by (simp add: look_def get_put [OF assms(2)])
  next
    case False
    then have "opCreateCompositeKey stub (fst oa) (snd oa) \<noteq> Some k"
      using key_inj [OF assms(1)] by (metis prod.collapse)
    with False show ?thesis
      by (auto simp: look_def get_put [OF assms(2)] split: option.splits)
  qed
qed

lemma look_set_event: "opSetEvent stub s n v = Some s' \<Longrightarrow> look stub s' = look stub s"
  by (auto simp: look_def get_set_event fun_eq_iff split: option.splits)

lemma get_absent_look:
  "opCreateCompositeKey stub ot as = Some k \<Longrightarrow> opGetState stub s k = Some None \<Longrightarrow>
     look stub s (ot, as) = None"
  by (simp add: look_def)

lemma get_present_look:
  "opCreateCompositeKey stub ot as = Some k \<Longrightarrow> opGetState stub s k = Some (Some v) \<Longrightarrow>
     look stub s (ot, as) = Some v"
  by (simp add: look_def)

text \<open>A scan returns exactly the entries whose attributes extend the given ones.\<close>

lemma scan_look:
  assumes "wf s" "opScan stub s ot as = Some kvs"
  shows "(k, v) \<in> set kvs \<longleftrightarrow>
    (\<exists>as'. opCreateCompositeKey stub ot (as @ as') = Some k \<and> look stub s (ot, as @ as') = Some v)"
  using scan_set [OF assms, of k v] by (auto simp: look_eq_Some)

text \<open>
  Entries keyed by consecutive zero-padded numbers come back in numeric order, as long as
  there are fewer than \<open>10\<^sup>9\<close> of them.
\<close>

lemma numbered_scan:
  assumes wf: "wf s" and few: "int N < 10 ^ 9" and scan: "opScan stub s ot [i] = Some kvs"
    and at: "\<And>n. n < N \<Longrightarrow> look stub s (ot, [i] @ [fmt_09d (int n + 1)]) = Some (f n)"
    and only: "\<And>as' v. look stub s (ot, [i] @ as') = Some v \<Longrightarrow>
      \<exists>n < N. as' = [fmt_09d (int n + 1)] \<and> v = f n"
  obtains key where "kvs = map (\<lambda>n. (key n, f n)) [0..<N]"
proof -
  let ?ck = "\<lambda>n. opCreateCompositeKey stub ot ([i] @ [fmt_09d (int n + 1)])"
  define key where "key n = the (?ck n)" for n
  let ?kvs = "map (\<lambda>n. (key n, f n)) [0..<N]"
  have ck: "?ck n = Some (key n)" if "n < N" for n
    using at [OF that] by (auto simp: look_eq_Some key_def)
  have "key m < key n" if "m < n" "n < N" for m n
  proof -
    have "length (fmt_09d (int m + 1)) = length (fmt_09d (int n + 1))"
      using that few by (simp add: length_fmt_09d)
    then have "key m < key n \<longleftrightarrow> fmt_09d (int m + 1) < fmt_09d (int n + 1)"
      using key_less [OF ck [of m] ck [of n]] that by simp
    then show ?thesis using that few by (simp add: fmt_09d_less_iff)
  qed
  then have sorted: "sorted (map key [0..<N]) \<and> distinct (map key [0..<N])"
    by (rule strict_sorted_map_upt)
  have "(k, v) \<in> set kvs \<longleftrightarrow> (k, v) \<in> set ?kvs" for k v
  proof
    assume "(k, v) \<in> set kvs"
    then obtain as' where k: "opCreateCompositeKey stub ot ([i] @ as') = Some k"
      and l: "look stub s (ot, [i] @ as') = Some v"
      using scan_look [OF wf scan] by auto
    from only [OF l] obtain n where n: "n < N" "as' = [fmt_09d (int n + 1)]" "v = f n" by blast
    then have "k = key n" using ck [of n] k by simp
    with n show "(k, v) \<in> set ?kvs" by auto
  next
    assume "(k, v) \<in> set ?kvs"
    then obtain n where "n < N" "k = key n" "v = f n" by auto
    then have "opCreateCompositeKey stub ot ([i] @ [fmt_09d (int n + 1)]) = Some k"
      and "look stub s (ot, [i] @ [fmt_09d (int n + 1)]) = Some v"
      using at ck by auto
    then show "(k, v) \<in> set kvs" using scan_look [OF wf scan, of k v] by blast
  qed
  then have "set kvs = set ?kvs" by auto
  then have "kvs = ?kvs"
    using scan_sorted [OF wf scan] sorted by (intro keyed_list_unique) (simp_all add: comp_def)
  then show ?thesis by (rule that)
qed

end

section \<open>The repository's in-memory stub\<close>

record 'v fakeStub =
  fsState :: "(string \<times> 'v) list"
  fsEvents :: "(string \<times> 'v) list"

definition newFakeStub :: "'v fakeStub" where
  "newFakeStub = \<lparr>fsState = [], fsEvents = []\<rparr>"

definition compositeKeyDelimiter :: char where
  "compositeKeyDelimiter = CHR 0x00"

definition buildCompositeKey :: "string \<Rightarrow> string list \<Rightarrow> string" where
  "buildCompositeKey objectType attributes =
     [compositeKeyDelimiter] @ objectType @ [compositeKeyDelimiter]
       @ concat (map (\<lambda>a. a @ [compositeKeyDelimiter]) attributes)"

definition fakeGetState :: "'v fakeStub \<Rightarrow> string \<Rightarrow> 'v option option" where
  "fakeGetState f key = Some (map_of (fsState f) key)"

definition fakePutState :: "'v fakeStub \<Rightarrow> string \<Rightarrow> 'v \<Rightarrow> 'v fakeStub option" where
  "fakePutState f key v = Some (f\<lparr>fsState := AList.update key v (fsState f)\<rparr>)"

definition fakeSetEvent :: "'v fakeStub \<Rightarrow> string \<Rightarrow> 'v \<Rightarrow> 'v fakeStub option" where
  "fakeSetEvent f n v = Some (f\<lparr>fsEvents := fsEvents f @ [(n, v)]\<rparr>)"

fun hasPrefix :: "string \<Rightarrow> string \<Rightarrow> bool" where
  "hasPrefix s [] = True"
| "hasPrefix [] (p # ps) = False"
| "hasPrefix (c # s) (p # ps) = (c = p \<and> hasPrefix s ps)"

definition fakeScan :: "'v fakeStub \<Rightarrow> string \<Rightarrow> string list \<Rightarrow> (string \<times> 'v) list option" where
  "fakeScan f objectType attributes =
     (let prefix = buildCompositeKey objectType attributes;
          keys = sort (filter (\<lambda>k. hasPrefix k prefix) (map fst (fsState f)))
      in Some (map (\<lambda>k. (k, the (map_of (fsState f) k))) keys))"

text \<open>
  The shim refuses an object type or attribute that contains the delimiter U+0000, when it
  builds a key and when it scans.
\<close>

definition delimiterFree :: "string \<Rightarrow> string list \<Rightarrow> bool" where
  "delimiterFree objectType attributes = list_all (\<lambda>a. compositeKeyDelimiter \<notin> set a) (objectType # attributes)"

definition shimCompositeKey :: "string \<Rightarrow> string list \<Rightarrow> string option" where
  "shimCompositeKey objectType attributes =
     (if delimiterFree objectType attributes then Some (buildCompositeKey objectType attributes) else None)"

definition shimScan :: "'v fakeStub \<Rightarrow> string \<Rightarrow> string list \<Rightarrow> (string \<times> 'v) list option" where
  "shimScan f objectType attributes =
     (if delimiterFree objectType attributes then fakeScan f objectType attributes else None)"

definition fakeOps :: "('v fakeStub, 'v) stub_ops" where
  "fakeOps = \<lparr>opCreateCompositeKey = shimCompositeKey, opGetState = fakeGetState,
     opPutState = fakePutState, opScan = shimScan, opSetEvent = fakeSetEvent\<rparr>"

definition fakeWf :: "'v fakeStub \<Rightarrow> bool" where
  "fakeWf f \<longleftrightarrow> distinct (map fst (fsState f)) \<and>
     (\<forall>k \<in> set (map fst (fsState f)). \<exists>ot as. shimCompositeKey ot as = Some k)"

lemmas fake_defs = fakeOps_def fakeGetState_def fakePutState_def fakeSetEvent_def

lemma hasPrefix_append: "hasPrefix s p \<longleftrightarrow> (\<exists>r. s = p @ r)"
  by (induction s p rule: hasPrefix.induct) auto

text \<open>Delimiter-terminated attributes parse back uniquely.\<close>

lemma append_delim_eq:
  assumes "d \<notin> set a" "d \<notin> set b" "a @ d # xs = b @ d # ys"
  shows "a = b \<and> xs = ys"
  using assms
proof (induction a arbitrary: b)
  case Nil
  then show ?case by (cases b) auto
next
  case (Cons x a)
  then show ?case by (cases b) auto
qed

lemma attributes_prefix:
  assumes "list_all (\<lambda>a. d \<notin> set a) as" "list_all (\<lambda>a. d \<notin> set a) bs"
    and "concat (map (\<lambda>a. a @ [d]) bs) = concat (map (\<lambda>a. a @ [d]) as) @ r"
  shows "\<exists>cs. bs = as @ cs"
  using assms
proof (induction as arbitrary: bs)
  case Nil
  then show ?case by simp
next
  case (Cons a as)
  show ?case
  proof (cases bs)
    case Nil
    with Cons.prems show ?thesis by simp
  next
    case (Cons b bs')
    with Cons.prems
    have "b = a" and "concat (map (\<lambda>a. a @ [d]) bs') = concat (map (\<lambda>a. a @ [d]) as) @ r"
      using append_delim_eq [of d b a] by auto
    with Cons Cons.IH [of bs'] Cons.prems show ?thesis by auto
  qed
qed

lemma buildCompositeKey_prefix:
  assumes "delimiterFree ot as" "delimiterFree ot' bs"
    and "buildCompositeKey ot' bs = buildCompositeKey ot as @ r"
  shows "ot' = ot \<and> (\<exists>cs. bs = as @ cs)"
proof -
  have "ot' = ot" and rest: "concat (map (\<lambda>a. a @ [compositeKeyDelimiter]) bs)
      = concat (map (\<lambda>a. a @ [compositeKeyDelimiter]) as) @ r"
    using assms append_delim_eq [of compositeKeyDelimiter ot' ot]
    by (auto simp: buildCompositeKey_def delimiterFree_def)
  then show ?thesis
    using attributes_prefix [OF _ _ rest] assms by (simp add: delimiterFree_def)
qed

lemma buildCompositeKey_inj:
  assumes "delimiterFree ot as" "delimiterFree ot' bs"
    and "buildCompositeKey ot as = buildCompositeKey ot' bs"
  shows "ot = ot' \<and> as = bs"
  using buildCompositeKey_prefix [of ot as ot' bs "[]"] buildCompositeKey_prefix [of ot' bs ot as "[]"]
    assms by auto

lemma buildCompositeKey_append:
  "buildCompositeKey ot (as @ bs)
     = buildCompositeKey ot as @ concat (map (\<lambda>a. a @ [compositeKeyDelimiter]) bs)"
  by (simp add: buildCompositeKey_def)

lemma delimiterFree_append:
  "delimiterFree ot (as @ bs) \<longleftrightarrow>
     delimiterFree ot as \<and> list_all (\<lambda>a. compositeKeyDelimiter \<notin> set a) bs"
  by (auto simp: delimiterFree_def)

lemma shimCompositeKey_eq_Some:
  "shimCompositeKey ot as = Some k \<longleftrightarrow> delimiterFree ot as \<and> k = buildCompositeKey ot as"
  by (auto simp: shimCompositeKey_def)

lemma fakeScan_keys:
  assumes "fakeWf f" "delimiterFree ot as" "k \<in> set (map fst (fsState f))"
  shows "hasPrefix k (buildCompositeKey ot as) \<longleftrightarrow> (\<exists>as'. shimCompositeKey ot (as @ as') = Some k)"
proof
  assume "hasPrefix k (buildCompositeKey ot as)"
  then obtain r where r: "k = buildCompositeKey ot as @ r" by (auto simp: hasPrefix_append)
  obtain ot' bs where kb: "delimiterFree ot' bs" "k = buildCompositeKey ot' bs"
    using assms(1,3) by (auto simp: fakeWf_def shimCompositeKey_eq_Some)
  then have "ot' = ot \<and> (\<exists>cs. bs = as @ cs)"
    using buildCompositeKey_prefix [OF assms(2) kb(1), of r] r by metis
  with kb show "\<exists>as'. shimCompositeKey ot (as @ as') = Some k"
    by (auto simp: shimCompositeKey_eq_Some)
next
  assume "\<exists>as'. shimCompositeKey ot (as @ as') = Some k"
  then show "hasPrefix k (buildCompositeKey ot as)"
    by (auto simp: shimCompositeKey_eq_Some hasPrefix_append buildCompositeKey_append)
qed

lemma fakeScan_props:
  assumes "fakeWf f" "shimScan f ot as = Some kvs"
  shows "sorted (map fst kvs) \<and> distinct (map fst kvs)"
    and "(k, v) \<in> set kvs \<longleftrightarrow>
      map_of (fsState f) k = Some v \<and> (\<exists>as'. shimCompositeKey ot (as @ as') = Some k)"
proof -
  let ?keys = "sort (filter (\<lambda>k. hasPrefix k (buildCompositeKey ot as)) (map fst (fsState f)))"
  have free: "delimiterFree ot as"
    and kvs: "kvs = map (\<lambda>k. (k, the (map_of (fsState f) k))) ?keys"
    using assms(2) by (auto simp: shimScan_def fakeScan_def Let_def split: if_splits)
  have fst_kvs: "map fst kvs = ?keys" by (simp add: kvs comp_def)
  show "sorted (map fst kvs) \<and> distinct (map fst kvs)"
    using assms(1) by (simp add: fst_kvs fakeWf_def distinct_filter)
  have mem: "k \<in> set ?keys \<longleftrightarrow>
      k \<in> set (map fst (fsState f)) \<and> (\<exists>as'. shimCompositeKey ot (as @ as') = Some k)" for k
    using fakeScan_keys [OF assms(1) free, of k] by auto
  have dom: "k \<in> set (map fst (fsState f)) \<longleftrightarrow> (\<exists>v. map_of (fsState f) k = Some v)" for k
    by (metis dom_map_of_conv_image_fst domI domIff list.set_map not_Some_eq)
  show "(k, v) \<in> set kvs \<longleftrightarrow>
      map_of (fsState f) k = Some v \<and> (\<exists>as'. shimCompositeKey ot (as @ as') = Some k)"
    using mem [of k] dom [of k] unfolding kvs by auto
qed

lemma fakeWf_put:
  assumes "fakeWf f" "shimCompositeKey ot as = Some k" "fakePutState f k v = Some f'"
  shows "fakeWf f'"
proof -
  have f': "f' = f\<lparr>fsState := AList.update k v (fsState f)\<rparr>"
    using assms(3) by (simp add: fakePutState_def)
  then have "set (map fst (fsState f')) = insert k (set (map fst (fsState f)))"
    using dom_update [of k v "fsState f"] by simp
  moreover have "distinct (map fst (fsState f'))"
    using assms(1) f' by (simp add: fakeWf_def distinct_update)
  ultimately show ?thesis
    using assms(1,2) unfolding fakeWf_def by auto
qed

lemma shim_key_less:
  assumes "shimCompositeKey ot (as @ [a]) = Some k" "shimCompositeKey ot (as @ [b]) = Some k'"
    and "length a = length b"
  shows "k < k' \<longleftrightarrow> a < b"
  using assms append_same_length_less [of a b "[compositeKeyDelimiter]"]
  by (simp add: shimCompositeKey_eq_Some buildCompositeKey_append)

interpretation fake: fabric_stub fakeOps fakeWf
proof (unfold_locales, goal_cases)
  case (1 ot as k ot' as')
  then show ?case by (auto simp: fake_defs shimCompositeKey_eq_Some dest: buildCompositeKey_inj)
next
  case (2 ot as a k b k')
  then show ?case by (simp add: fake_defs shim_key_less)
next
  case (3 s k v s' k')
  then show ?case by (auto simp: fake_defs update_conv')
next
  case (4 s n v s' k')
  then show ?case by (auto simp: fake_defs)
next
  case (5 s ot as k v s')
  then show ?case by (auto simp: fakeOps_def intro: fakeWf_put)
next
  case (6 s n v s')
  then have "fsState s' = fsState s" by (auto simp: fake_defs)
  with 6 show ?case by (simp add: fakeWf_def)
next
  case (7 s ot as kvs)
  then show ?case using fakeScan_props(1) [of s ot as kvs] by (simp add: fakeOps_def)
next
  case (8 s ot as kvs k v)
  then show ?case using fakeScan_props(2) [of s ot as kvs k v] by (simp add: fake_defs)
qed

lemma fakeWf_new [simp]: "fakeWf newFakeStub"
  by (simp add: fakeWf_def newFakeStub_def)

lemma look_new [simp]: "look fakeOps newFakeStub = Map.empty"
  by (auto simp: look_def fake_defs newFakeStub_def fun_eq_iff split: option.splits)

end
