(* ===== verification/Transaction_Contract.thy ===== *)
theory Transaction_Contract
  imports Chaincode_Stub
begin

text \<open>
  The transaction/approval smart contract, \<^verbatim>\<open>chaincode/transaction/chaincode/contract.go\<close>:
  its status graph, its on-chain records, and the operations \<^verbatim>\<open>CreateTransaction\<close>,
  \<^verbatim>\<open>GetTransaction\<close>, \<^verbatim>\<open>RecordEvent\<close>, \<^verbatim>\<open>GetEventHistory\<close> and \<^verbatim>\<open>Approve\<close>, over an arbitrary
  Fabric stub.  A JSON document is represented by the value it encodes: a marshalled record
  is a constructor of \<open>txn_value\<close>, unmarshalling is the partial inverse, and the JSON text
  an operation receives is \<open>None\<close> when it does not parse.

  Unmarshalling a value of another kind does not arise on a ledger that only the contract
  writes, because the object type is part of every key; the model reports it as an error.
  What the checks achieve over a run is stated and proved in \<open>Transaction_Ledger\<close>.
\<close>

section \<open>Data\<close>

definition allowedAlgorithmSuite :: string where
  "allowedAlgorithmSuite = ''HYBRID_ED25519_MLDSA65_V1''"

definition allowedTransitions :: "string \<Rightarrow> string list" where
  "allowedTransitions current =
     (if current = ''DRAFT'' then [''VERIFIED'', ''CANCELLED'']
      else if current = ''VERIFIED'' then [''ENDORSED'', ''REJECTED'', ''CANCELLED'']
      else if current = ''ENDORSED'' then [''COMMITTED'', ''REJECTED'']
      else if current = ''COMMITTED'' then [''SETTLED'', ''REJECTED'']
      else if current = ''SETTLED'' then [''SUPERSEDED'']
      else [])"

definition isTransitionAllowed :: "string \<Rightarrow> string \<Rightarrow> bool" where
  "isTransitionAllowed current nxt =
     (if nxt = ''REVOKED'' then current \<noteq> ''REVOKED''
      else list_ex (\<lambda>allowed. allowed = nxt) (allowedTransitions current))"

record Transaction =
  txID :: string
  txOrganizationID :: string
  txWorkflowType :: string
  txSchemaVersion :: string
  txCreatedBy :: string
  txStatus :: string
  txLatestEventSequence :: int
  txLatestEventPayloadHash :: string

record TransactionEvent =
  evTransactionID :: string
  evEventSequence :: int
  evEventType :: string
  evPayloadHash :: string
  evPreviousEventHash :: string
  evAlgorithmSuite :: string
  evClassicalKeyID :: string
  evPQCKeyID :: string
  evClassicalSignature :: bytes
  evPQCSignature :: bytes
  evIdempotencyKey :: string
  evCreatedAtServer :: string
  evNewStatus :: string

record Approval =
  apTransactionID :: string
  apEventSequence :: int
  apApproverID :: string
  apDecision :: string
  apPolicyVersion :: string

datatype txn_value =
    VTransaction Transaction
  | VEvent TransactionEvent
  | VKey string
  | VApproval Approval

datatype cc_error =
    StubError
  | UnmarshalError
  | InvalidEventPayload
  | IDRequired
  | TransactionIDRequired
  | IdempotencyKeyRequired
  | SuiteNotAllowed string
  | SignaturesRequired
  | TransactionExists string
  | TransactionMissing string
  | InvalidStatusTransition string string
  | WrongSequence int int
  | PreviousHashMismatch string string
  | DuplicateIdempotencyKey string
  | BadDecision string
  | SelfApproval string
  | AlreadyDecided string int
  | CannotReject string

section \<open>Keys\<close>

definition transactionKey :: "('s, 'v) stub_ops \<Rightarrow> string \<Rightarrow> cc_error + string" where
  "transactionKey stub i = orErr StubError (opCreateCompositeKey stub ''transaction'' [i])"

definition eventKey :: "('s, 'v) stub_ops \<Rightarrow> string \<Rightarrow> int \<Rightarrow> cc_error + string" where
  "eventKey stub transactionID sequence =
     orErr StubError (opCreateCompositeKey stub ''transaction_event'' [transactionID, fmt_09d sequence])"

definition idempotencyKey :: "('s, 'v) stub_ops \<Rightarrow> string \<Rightarrow> cc_error + string" where
  "idempotencyKey stub key = orErr StubError (opCreateCompositeKey stub ''idempotency'' [key])"

definition approvalKey :: "('s, 'v) stub_ops \<Rightarrow> string \<Rightarrow> int \<Rightarrow> string \<Rightarrow> cc_error + string" where
  "approvalKey stub transactionID sequence approverID =
     orErr StubError (opCreateCompositeKey stub ''approval'' [transactionID, fmt_09d sequence, approverID])"

definition getState :: "('s, 'v) stub_ops \<Rightarrow> 's \<Rightarrow> string \<Rightarrow> cc_error + 'v option" where
  "getState stub s key = orErr StubError (opGetState stub s key)"

definition putState :: "('s, 'v) stub_ops \<Rightarrow> 's \<Rightarrow> string \<Rightarrow> 'v \<Rightarrow> cc_error + 's" where
  "putState stub s key v = orErr StubError (opPutState stub s key v)"

definition setEvent :: "('s, 'v) stub_ops \<Rightarrow> 's \<Rightarrow> string \<Rightarrow> 'v \<Rightarrow> cc_error + 's" where
  "setEvent stub s n v = orErr StubError (opSetEvent stub s n v)"

section \<open>Operations\<close>

definition CreateTransaction ::
  "('s, txn_value) stub_ops \<Rightarrow> 's \<Rightarrow> string \<Rightarrow> string \<Rightarrow> string \<Rightarrow> string \<Rightarrow> string \<Rightarrow> cc_error + 's" where
  "CreateTransaction stub s i organizationID workflowType schemaVersion createdBy =
     (if i = [] then Inl IDRequired
      else bindE (transactionKey stub i) (\<lambda>key.
           bindE (getState stub s key) (\<lambda>existing.
             if existing \<noteq> None then Inl (TransactionExists i)
             else
               let data = VTransaction
                     \<lparr>txID = i, txOrganizationID = organizationID, txWorkflowType = workflowType,
                      txSchemaVersion = schemaVersion, txCreatedBy = createdBy, txStatus = ''DRAFT'',
                      txLatestEventSequence = 0, txLatestEventPayloadHash = []\<rparr>
               in bindE (putState stub s key data) (\<lambda>s'.
                    setEvent stub s' ''TransactionCreated'' data))))"

definition GetTransaction :: "('s, txn_value) stub_ops \<Rightarrow> 's \<Rightarrow> string \<Rightarrow> cc_error + Transaction" where
  "GetTransaction stub s i =
     bindE (transactionKey stub i) (\<lambda>key.
     bindE (getState stub s key) (\<lambda>data.
       case data of
         None \<Rightarrow> Inl (TransactionMissing i)
       | Some (VTransaction txn) \<Rightarrow> Inr txn
       | Some _ \<Rightarrow> Inl UnmarshalError))"

definition RecordEvent ::
  "('s, txn_value) stub_ops \<Rightarrow> 's \<Rightarrow> TransactionEvent option \<Rightarrow> cc_error + 's" where
  "RecordEvent stub s eventJSON =
     (case eventJSON of
        None \<Rightarrow> Inl InvalidEventPayload
      | Some event \<Rightarrow>
          if evTransactionID event = [] then Inl TransactionIDRequired
          else if evIdempotencyKey event = [] then Inl IdempotencyKeyRequired
          else if evAlgorithmSuite event \<noteq> allowedAlgorithmSuite
            then Inl (SuiteNotAllowed (evAlgorithmSuite event))
          else if length (evClassicalSignature event) = 0 \<or> length (evPQCSignature event) = 0
            then Inl SignaturesRequired
          else
            bindE (GetTransaction stub s (evTransactionID event)) (\<lambda>txn.
            if evNewStatus event \<noteq> [] \<and> \<not> isTransitionAllowed (txStatus txn) (evNewStatus event)
              then Inl (InvalidStatusTransition (txStatus txn) (evNewStatus event))
            else if evEventSequence event \<noteq> txLatestEventSequence txn + 1
              then Inl (WrongSequence (txLatestEventSequence txn + 1) (evEventSequence event))
            else if evPreviousEventHash event \<noteq> txLatestEventPayloadHash txn
              then Inl (PreviousHashMismatch (txLatestEventPayloadHash txn) (evPreviousEventHash event))
            else
              bindE (idempotencyKey stub (evIdempotencyKey event)) (\<lambda>idemKey.
              bindE (getState stub s idemKey) (\<lambda>existingIdem.
              if existingIdem \<noteq> None then Inl (DuplicateIdempotencyKey (evIdempotencyKey event))
              else
                bindE (eventKey stub (evTransactionID event) (evEventSequence event)) (\<lambda>evtKey.
                bindE (putState stub s evtKey (VEvent event)) (\<lambda>s1.
                bindE (putState stub s1 idemKey (VKey evtKey)) (\<lambda>s2.
                let txn' = txn\<lparr>txLatestEventSequence := evEventSequence event,
                               txLatestEventPayloadHash := evPayloadHash event\<rparr>;
                    txn'' = (if evNewStatus event \<noteq> [] then txn'\<lparr>txStatus := evNewStatus event\<rparr> else txn')
                in bindE (transactionKey stub (evTransactionID event)) (\<lambda>txnKey.
                   bindE (putState stub s2 txnKey (VTransaction txn'')) (\<lambda>s3.
                     setEvent stub s3 ''TransactionEventRecorded'' (VEvent event))))))))))"

fun unmarshalEvents :: "(string \<times> txn_value) list \<Rightarrow> cc_error + TransactionEvent list" where
  "unmarshalEvents [] = Inr []"
| "unmarshalEvents ((k, VEvent evt) # kvs) = bindE (unmarshalEvents kvs) (\<lambda>evts. Inr (evt # evts))"
| "unmarshalEvents ((k, _) # kvs) = Inl UnmarshalError"

definition GetEventHistory ::
  "('s, txn_value) stub_ops \<Rightarrow> 's \<Rightarrow> string \<Rightarrow> cc_error + TransactionEvent list" where
  "GetEventHistory stub s transactionID =
     bindE (orErr StubError (opScan stub s ''transaction_event'' [transactionID])) unmarshalEvents"

definition Approve ::
  "('s, txn_value) stub_ops \<Rightarrow> 's \<Rightarrow> string \<Rightarrow> int \<Rightarrow> string \<Rightarrow> string \<Rightarrow> string \<Rightarrow> cc_error + 's" where
  "Approve stub s transactionID eventSequence approverID decision policyVersion =
     (if decision \<noteq> ''approve'' \<and> decision \<noteq> ''reject'' then Inl (BadDecision decision)
      else
        bindE (GetTransaction stub s transactionID) (\<lambda>txn.
        if approverID = txCreatedBy txn then Inl (SelfApproval approverID)
        else
          bindE (approvalKey stub transactionID eventSequence approverID) (\<lambda>key.
          bindE (getState stub s key) (\<lambda>existing.
          if existing \<noteq> None then Inl (AlreadyDecided approverID eventSequence)
          else
            let data = VApproval
                  \<lparr>apTransactionID = transactionID, apEventSequence = eventSequence,
                   apApproverID = approverID, apDecision = decision, apPolicyVersion = policyVersion\<rparr>
            in bindE (putState stub s key data) (\<lambda>s1.
               bindE (if decision = ''reject''
                      then if \<not> isTransitionAllowed (txStatus txn) ''REJECTED''
                           then Inl (CannotReject (txStatus txn))
                           else bindE (transactionKey stub transactionID) (\<lambda>txnKey.
                                putState stub s1 txnKey (VTransaction (txn\<lparr>txStatus := ''REJECTED''\<rparr>)))
                      else Inr s1) (\<lambda>s2.
                 setEvent stub s2 ''ApprovalRecorded'' data))))))"

end
