(* ===== verification/Transaction_Ledger.thy ===== *)
theory Transaction_Ledger
  imports Transaction_Contract
begin

text \<open>
  What the transaction contract promises: an abstract ledger of append-only event lists, the
  same operations on it, and the proof that the key-value contract of
  \<open>Transaction_Contract\<close> refines it over every stub that behaves as documented.
\<close>

section \<open>The abstract ledger\<close>

record spec_ledger =
  spHeader :: "string \<Rightarrow> Transaction option"
  spEvents :: "string \<Rightarrow> TransactionEvent list"
  spUsed :: "string \<Rightarrow> bool"
  spApproval :: "string \<times> int \<times> string \<Rightarrow> Approval option"

definition spec_empty :: spec_ledger where
  "spec_empty = \<lparr>spHeader = Map.empty, spEvents = (\<lambda>_. []), spUsed = (\<lambda>_. False), spApproval = Map.empty\<rparr>"

definition draftHeader :: "string \<Rightarrow> string \<Rightarrow> string \<Rightarrow> string \<Rightarrow> string \<Rightarrow> Transaction" where
  "draftHeader i organizationID workflowType schemaVersion createdBy =
     \<lparr>txID = i, txOrganizationID = organizationID, txWorkflowType = workflowType,
      txSchemaVersion = schemaVersion, txCreatedBy = createdBy, txStatus = ''DRAFT'',
      txLatestEventSequence = 0, txLatestEventPayloadHash = []\<rparr>"

definition advanceHeader :: "Transaction \<Rightarrow> TransactionEvent \<Rightarrow> Transaction" where
  "advanceHeader txn event =
     (let txn' = txn\<lparr>txLatestEventSequence := evEventSequence event,
                     txLatestEventPayloadHash := evPayloadHash event\<rparr>
      in if evNewStatus event \<noteq> [] then txn'\<lparr>txStatus := evNewStatus event\<rparr> else txn')"

lemma advanceHeader_alt:
  "advanceHeader txn event =
     (if evNewStatus event \<noteq> []
      then txn\<lparr>txLatestEventSequence := evEventSequence event, txLatestEventPayloadHash := evPayloadHash event,
             txStatus := evNewStatus event\<rparr>
      else txn\<lparr>txLatestEventSequence := evEventSequence event, txLatestEventPayloadHash := evPayloadHash event\<rparr>)"
  by (simp add: advanceHeader_def Let_def)

definition spec_create ::
  "spec_ledger \<Rightarrow> string \<Rightarrow> string \<Rightarrow> string \<Rightarrow> string \<Rightarrow> string \<Rightarrow> cc_error + spec_ledger" where
  "spec_create A i organizationID workflowType schemaVersion createdBy =
     (if i = [] then Inl IDRequired
      else if spHeader A i \<noteq> None then Inl (TransactionExists i)
      else Inr (A\<lparr>spHeader := (spHeader A)(i \<mapsto>
             draftHeader i organizationID workflowType schemaVersion createdBy)\<rparr>))"

definition eventWellFormed :: "TransactionEvent \<Rightarrow> bool" where
  "eventWellFormed event \<longleftrightarrow>
     evTransactionID event \<noteq> [] \<and> evIdempotencyKey event \<noteq> [] \<and>
     evAlgorithmSuite event = allowedAlgorithmSuite \<and>
     evClassicalSignature event \<noteq> [] \<and> evPQCSignature event \<noteq> []"

definition spec_append :: "spec_ledger \<Rightarrow> TransactionEvent \<Rightarrow> Transaction \<Rightarrow> spec_ledger" where
  "spec_append A event txn =
     A\<lparr>spHeader := (spHeader A)(evTransactionID event \<mapsto> advanceHeader txn event),
       spEvents := (spEvents A)(evTransactionID event := spEvents A (evTransactionID event) @ [event]),
       spUsed := (spUsed A)(evIdempotencyKey event := True)\<rparr>"

definition spec_record :: "spec_ledger \<Rightarrow> TransactionEvent option \<Rightarrow> cc_error + spec_ledger" where
  "spec_record A eventJSON =
     (case eventJSON of
        None \<Rightarrow> Inl InvalidEventPayload
      | Some event \<Rightarrow>
          if evTransactionID event = [] then Inl TransactionIDRequired
          else if evIdempotencyKey event = [] then Inl IdempotencyKeyRequired
          else if evAlgorithmSuite event \<noteq> allowedAlgorithmSuite
            then Inl (SuiteNotAllowed (evAlgorithmSuite event))
          else if evClassicalSignature event = [] \<or> evPQCSignature event = [] then Inl SignaturesRequired
          else (case spHeader A (evTransactionID event) of
              None \<Rightarrow> Inl (TransactionMissing (evTransactionID event))
            | Some txn \<Rightarrow>
                if evNewStatus event \<noteq> [] \<and> \<not> isTransitionAllowed (txStatus txn) (evNewStatus event)
                  then Inl (InvalidStatusTransition (txStatus txn) (evNewStatus event))
                else if evEventSequence event \<noteq> txLatestEventSequence txn + 1
                  then Inl (WrongSequence (txLatestEventSequence txn + 1) (evEventSequence event))
                else if evPreviousEventHash event \<noteq> txLatestEventPayloadHash txn
                  then Inl (PreviousHashMismatch (txLatestEventPayloadHash txn) (evPreviousEventHash event))
                else if spUsed A (evIdempotencyKey event)
                  then Inl (DuplicateIdempotencyKey (evIdempotencyKey event))
                else Inr (spec_append A event txn)))"

definition spec_approve ::
  "spec_ledger \<Rightarrow> string \<Rightarrow> int \<Rightarrow> string \<Rightarrow> string \<Rightarrow> string \<Rightarrow> cc_error + spec_ledger" where
  "spec_approve A i sequence approverID decision policyVersion =
     (if decision \<noteq> ''approve'' \<and> decision \<noteq> ''reject'' then Inl (BadDecision decision)
      else (case spHeader A i of
          None \<Rightarrow> Inl (TransactionMissing i)
        | Some txn \<Rightarrow>
            if approverID = txCreatedBy txn then Inl (SelfApproval approverID)
            else if spApproval A (i, sequence, approverID) \<noteq> None
              then Inl (AlreadyDecided approverID sequence)
            else if decision = ''reject'' \<and> \<not> isTransitionAllowed (txStatus txn) ''REJECTED''
              then Inl (CannotReject (txStatus txn))
            else Inr (A\<lparr>spApproval := (spApproval A)((i, sequence, approverID) \<mapsto>
                          \<lparr>apTransactionID = i, apEventSequence = sequence, apApproverID = approverID,
                           apDecision = decision, apPolicyVersion = policyVersion\<rparr>),
                        spHeader := (if decision = ''reject''
                          then (spHeader A)(i \<mapsto> txn\<lparr>txStatus := ''REJECTED''\<rparr>) else spHeader A)\<rparr>)))"

section \<open>Calls and runs\<close>

datatype cc_call =
    CallCreate string string string string string
  | CallRecord "TransactionEvent option"
  | CallApprove string int string string string

fun invoke :: "('s, txn_value) stub_ops \<Rightarrow> 's \<Rightarrow> cc_call \<Rightarrow> cc_error + 's" where
  "invoke stub s (CallCreate i org wt sv cb) = CreateTransaction stub s i org wt sv cb"
| "invoke stub s (CallRecord e) = RecordEvent stub s e"
| "invoke stub s (CallApprove i n a d p) = Approve stub s i n a d p"

fun spec_invoke :: "spec_ledger \<Rightarrow> cc_call \<Rightarrow> cc_error + spec_ledger" where
  "spec_invoke A (CallCreate i org wt sv cb) = spec_create A i org wt sv cb"
| "spec_invoke A (CallRecord e) = spec_record A e"
| "spec_invoke A (CallApprove i n a d p) = spec_approve A i n a d p"

text \<open>Reachable world states: any sequence of accepted calls from an empty one.\<close>

inductive ledger_reach :: "('s, txn_value) stub_ops \<Rightarrow> ('s \<Rightarrow> bool) \<Rightarrow> 's \<Rightarrow> bool"
  for stub :: "('s, txn_value) stub_ops" and wf :: "'s \<Rightarrow> bool" where
  reach_init: "wf s \<Longrightarrow> look stub s = Map.empty \<Longrightarrow> ledger_reach stub wf s"
| reach_call: "ledger_reach stub wf s \<Longrightarrow> invoke stub s c = Inr s' \<Longrightarrow> ledger_reach stub wf s'"

section \<open>The abstraction relation\<close>

definition absEvents :: "spec_ledger \<Rightarrow> string list \<Rightarrow> txn_value option \<Rightarrow> bool" where
  "absEvents A as v \<longleftrightarrow>
     (\<forall>x. v = Some x \<longrightarrow>
        (\<exists>i n. as = [i, fmt_09d (int n + 1)] \<and> n < length (spEvents A i) \<and> x = VEvent (spEvents A i ! n)))"

definition refines :: "(string \<times> string list \<Rightarrow> txn_value option) \<Rightarrow> spec_ledger \<Rightarrow> bool" where
  "refines L A \<longleftrightarrow>
     (\<forall>i. L (''transaction'', [i]) = map_option VTransaction (spHeader A i)) \<and>
     (\<forall>as. absEvents A as (L (''transaction_event'', as))) \<and>
     (\<forall>i n. n < length (spEvents A i) \<longrightarrow>
        L (''transaction_event'', [i, fmt_09d (int n + 1)]) = Some (VEvent (spEvents A i ! n))) \<and>
     (\<forall>k. L (''idempotency'', [k]) \<noteq> None \<longleftrightarrow> spUsed A k) \<and>
     (\<forall>i n a. L (''approval'', [i, fmt_09d n, a]) = map_option VApproval (spApproval A (i, n, a)))"

definition lastHash :: "TransactionEvent list \<Rightarrow> string" where
  "lastHash es = (if es = [] then [] else evPayloadHash (last es))"

definition chained :: "string \<Rightarrow> TransactionEvent list \<Rightarrow> bool" where
  "chained i es \<longleftrightarrow>
     (\<forall>n < length es.
        eventWellFormed (es ! n) \<and> evTransactionID (es ! n) = i \<and> evEventSequence (es ! n) = int n + 1 \<and>
        evPreviousEventHash (es ! n) = lastHash (take n es))"

definition header_ok :: "string \<Rightarrow> Transaction \<Rightarrow> TransactionEvent list \<Rightarrow> bool" where
  "header_ok i t es \<longleftrightarrow>
     txID t = i \<and> txLatestEventSequence t = int (length es) \<and> txLatestEventPayloadHash t = lastHash es \<and>
     isTransitionAllowed\<^sup>*\<^sup>* ''DRAFT'' (txStatus t)"

definition spec_inv :: "spec_ledger \<Rightarrow> bool" where
  "spec_inv A \<longleftrightarrow>
     (\<forall>i. spHeader A i = None \<longrightarrow> spEvents A i = []) \<and>
     (\<forall>i t. spHeader A i = Some t \<longrightarrow> header_ok i t (spEvents A i)) \<and>
     (\<forall>i. chained i (spEvents A i)) \<and>
     (\<forall>i. \<forall>e \<in> set (spEvents A i). spUsed A (evIdempotencyKey e)) \<and>
     (\<forall>i. distinct (map evIdempotencyKey (spEvents A i))) \<and>
     (\<forall>i j. i \<noteq> j \<longrightarrow> evIdempotencyKey ` set (spEvents A i) \<inter> evIdempotencyKey ` set (spEvents A j) = {})"

section \<open>The abstract operations keep the invariant\<close>

lemma spec_inv_empty [simp]: "spec_inv spec_empty"
  by (simp add: spec_inv_def spec_empty_def chained_def)

lemma chained_snoc:
  "chained i (es @ [e]) \<longleftrightarrow>
     chained i es \<and> eventWellFormed e \<and> evTransactionID e = i \<and>
     evEventSequence e = int (length es) + 1 \<and> evPreviousEventHash e = lastHash es"
proof -
  let ?P = "\<lambda>es n. eventWellFormed (es ! n) \<and> evTransactionID (es ! n) = i \<and>
    evEventSequence (es ! n) = int n + 1 \<and> evPreviousEventHash (es ! n) = lastHash (take n es)"
  have "chained i (es @ [e]) \<longleftrightarrow> (\<forall>n < length es. ?P (es @ [e]) n) \<and> ?P (es @ [e]) (length es)"
    unfolding chained_def length_append_singleton less_Suc_eq by blast
  moreover have "(\<forall>n < length es. ?P (es @ [e]) n) \<longleftrightarrow> chained i es"
    unfolding chained_def by (simp add: nth_append)
  ultimately show ?thesis by simp
qed

lemma lastHash_snoc [simp]: "lastHash (es @ [e]) = evPayloadHash e"
  by (simp add: lastHash_def)

lemma header_ok_draft: "header_ok i (draftHeader i org wt sv cb) []"
  by (simp add: header_ok_def draftHeader_def lastHash_def)

lemma header_ok_advance:
  assumes "header_ok i t es" "evEventSequence e = int (length es) + 1"
    and "evNewStatus e \<noteq> [] \<longrightarrow> isTransitionAllowed (txStatus t) (evNewStatus e)"
  shows "header_ok i (advanceHeader t e) (es @ [e])"
  using assms by (auto simp: header_ok_def advanceHeader_def Let_def intro: rtranclp.rtrancl_into_rtrancl)

lemma spec_inv_create:
  assumes inv: "spec_inv A" and ok: "spec_create A i org wt sv cb = Inr A'"
  shows "spec_inv A'"
proof -
  have A': "A' = A\<lparr>spHeader := (spHeader A)(i \<mapsto> draftHeader i org wt sv cb)\<rparr>"
    and none: "spHeader A i = None"
    using ok by (auto simp: spec_create_def split: if_splits)
  have "spEvents A i = []" using inv none by (simp add: spec_inv_def)
  with inv show ?thesis
    by (simp add: A' spec_inv_def header_ok_draft)
qed

lemma spec_record_Inr:
  "spec_record A (Some e) = Inr A' \<longleftrightarrow>
     (\<exists>t. eventWellFormed e \<and> spHeader A (evTransactionID e) = Some t \<and>
        (evNewStatus e \<noteq> [] \<longrightarrow> isTransitionAllowed (txStatus t) (evNewStatus e)) \<and>
        evEventSequence e = txLatestEventSequence t + 1 \<and>
        evPreviousEventHash e = txLatestEventPayloadHash t \<and>
        \<not> spUsed A (evIdempotencyKey e) \<and> A' = spec_append A e t)"
  by (auto simp: spec_record_def eventWellFormed_def split: option.splits)

lemma spec_inv_append:
  assumes inv: "spec_inv A" and e: "eventWellFormed e"
    and t: "spHeader A (evTransactionID e) = Some t"
    and tr: "evNewStatus e \<noteq> [] \<longrightarrow> isTransitionAllowed (txStatus t) (evNewStatus e)"
    and sq: "evEventSequence e = txLatestEventSequence t + 1"
    and prev: "evPreviousEventHash e = txLatestEventPayloadHash t"
    and fresh: "\<not> spUsed A (evIdempotencyKey e)"
  shows "spec_inv (spec_append A e t)"
proof -
  let ?i = "evTransactionID e"
  have hok: "header_ok ?i t (spEvents A ?i)"
    using inv t by (simp add: spec_inv_def)
  then have sq': "evEventSequence e = int (length (spEvents A ?i)) + 1"
    and prev': "evPreviousEventHash e = lastHash (spEvents A ?i)"
    using sq prev by (simp_all add: header_ok_def)
  have "header_ok ?i (advanceHeader t e) (spEvents A ?i @ [e])"
    using hok sq' tr by (rule header_ok_advance)
  moreover have "chained ?i (spEvents A ?i @ [e])"
    using inv e sq' prev' by (simp add: chained_snoc spec_inv_def)
  moreover have "evIdempotencyKey e \<notin> evIdempotencyKey ` set (spEvents A j)" for j
    using inv fresh by (auto simp: spec_inv_def)
  ultimately show ?thesis
    using inv by (auto simp: spec_inv_def spec_append_def)
qed

lemma spec_inv_record: "spec_inv A \<Longrightarrow> spec_record A e = Inr A' \<Longrightarrow> spec_inv A'"
proof (cases e)
  case None
  then show "spec_record A e = Inr A' \<Longrightarrow> spec_inv A'" by (simp add: spec_record_def)
next
  case (Some ev)
  then show "spec_inv A \<Longrightarrow> spec_record A e = Inr A' \<Longrightarrow> spec_inv A'"
    by (auto simp: spec_record_Inr intro: spec_inv_append)
qed

lemma spec_inv_reheader:
  assumes "spec_inv A" "spEvents A' = spEvents A" "spUsed A' = spUsed A"
    and "\<And>i. spHeader A' i = None \<Longrightarrow> spHeader A i = None"
    and "\<And>i t. spHeader A' i = Some t \<Longrightarrow> header_ok i t (spEvents A i)"
  shows "spec_inv A'"
  using assms by (simp add: spec_inv_def)

lemma header_ok_restatus:
  "header_ok i t es \<Longrightarrow> isTransitionAllowed (txStatus t) st \<Longrightarrow> header_ok i (t\<lparr>txStatus := st\<rparr>) es"
  by (auto simp: header_ok_def intro: rtranclp.rtrancl_into_rtrancl)

lemma spec_inv_approve:
  assumes inv: "spec_inv A" and ok: "spec_approve A i n a d p = Inr A'"
  shows "spec_inv A'"
proof (rule spec_inv_reheader [OF inv])
  have hok: "header_ok j t (spEvents A j)" if "spHeader A j = Some t" for j t
    using inv that by (simp add: spec_inv_def)
  show "header_ok j t (spEvents A j)" if "spHeader A' j = Some t" for j t
    using ok that hok header_ok_restatus
    by (auto simp: spec_approve_def split: if_splits option.splits)
qed (use ok in \<open>auto simp: spec_approve_def split: if_splits option.splits\<close>)

lemma spec_inv_invoke: "spec_inv A \<Longrightarrow> spec_invoke A c = Inr A' \<Longrightarrow> spec_inv A'"
  by (cases c) (auto intro: spec_inv_create spec_inv_record spec_inv_approve)

section \<open>The contract refines the abstract ledger\<close>

lemma refines_empty [simp]: "refines Map.empty spec_empty"
  by (simp add: refines_def spec_empty_def absEvents_def)

lemma refines_header:
  "refines L A \<Longrightarrow> refines (L((''transaction'', [i]) \<mapsto> VTransaction t)) (A\<lparr>spHeader := (spHeader A)(i \<mapsto> t)\<rparr>)"
  by (auto simp: refines_def absEvents_def)

lemma refines_approval:
  "refines L A \<Longrightarrow> refines (L((''approval'', [i, fmt_09d n, a]) \<mapsto> VApproval p))
     (A\<lparr>spApproval := (spApproval A)((i, n, a) \<mapsto> p)\<rparr>)"
  by (auto simp: refines_def absEvents_def)

lemma refines_append:
  assumes L: "refines L A" and sq: "evEventSequence e = int (length (spEvents A (evTransactionID e))) + 1"
  shows "refines (L((''transaction_event'', [evTransactionID e, fmt_09d (evEventSequence e)]) \<mapsto> VEvent e,
      (''idempotency'', [evIdempotencyKey e]) \<mapsto> VKey k,
      (''transaction'', [evTransactionID e]) \<mapsto> VTransaction (advanceHeader t e))) (spec_append A e t)"
proof -
  let ?i = "evTransactionID e" and ?es = "spEvents A (evTransactionID e)"
  let ?L = "L((''transaction_event'', [?i, fmt_09d (evEventSequence e)]) \<mapsto> VEvent e,
      (''idempotency'', [evIdempotencyKey e]) \<mapsto> VKey k,
      (''transaction'', [?i]) \<mapsto> VTransaction (advanceHeader t e))"
  let ?A = "spec_append A e t"
  have evs: "spEvents ?A j = (if j = ?i then ?es @ [e] else spEvents A j)" for j
    by (simp add: spec_append_def)
  have old: "L (''transaction_event'', [j, fmt_09d (int n + 1)]) = Some (VEvent (spEvents A j ! n))"
    if "n < length (spEvents A j)" for j n
    using L that by (simp add: refines_def)
  have "?L (''transaction_event'', [j, fmt_09d (int n + 1)]) = Some (VEvent (spEvents ?A j ! n))"
    if "n < length (spEvents ?A j)" for j n
    using that old [of n j] sq by (auto simp: evs nth_append less_Suc_eq split: if_splits)
  moreover have "absEvents ?A as (?L (''transaction_event'', as))" for as
  proof (cases "as = [?i, fmt_09d (evEventSequence e)]")
    case True
    then show ?thesis
      by (auto simp: absEvents_def evs sq intro!: exI [of _ ?i] exI [of _ "length ?es"])
  next
    case False
    then have "absEvents A as (?L (''transaction_event'', as))"
      using L by (simp add: refines_def)
    moreover have "n < length (spEvents ?A j) \<and> spEvents ?A j ! n = spEvents A j ! n"
      if "n < length (spEvents A j)" for j n
      using that by (auto simp: evs nth_append)
    ultimately show ?thesis unfolding absEvents_def by metis
  qed
  ultimately show ?thesis
    using L by (auto simp: refines_def spec_append_def)
qed

text \<open>A call agrees with the abstract one up to a failure of the stub itself.\<close>

definition simulates :: "('s, txn_value) stub_ops \<Rightarrow> cc_error + 's \<Rightarrow> cc_error + spec_ledger \<Rightarrow> bool" where
  "simulates stub r r' \<longleftrightarrow>
     (case r of
        Inl e \<Rightarrow> e = StubError \<or> r' = Inl e
      | Inr s' \<Rightarrow> (\<exists>A'. r' = Inr A' \<and> refines (look stub s') A'))"

lemma simulates_Inl [simp]: "simulates stub (Inl e) r' \<longleftrightarrow> e = StubError \<or> r' = Inl e"
  by (simp add: simulates_def)

lemma simulates_Inr [simp]:
  "simulates stub (Inr s') r' \<longleftrightarrow> (\<exists>A'. r' = Inr A' \<and> refines (look stub s') A')"
  by (simp add: simulates_def)

lemma simulates_orErr:
  "(\<And>x. m = Some x \<Longrightarrow> simulates stub (f x) r') \<Longrightarrow> simulates stub (bindE (orErr StubError m) f) r'"
  by (cases m) simp_all

lemmas stub_call_defs = transactionKey_def eventKey_def idempotencyKey_def approvalKey_def
  getState_def putState_def setEvent_def

lemma unmarshalEvents_map:
  "unmarshalEvents (map (\<lambda>n. (key n, VEvent (f n))) ns) = Inr (map f ns)"
  by (induction ns) simp_all

locale txn_ledger = fabric_stub stub wf
  for stub :: "('s, txn_value) stub_ops" and wf :: "'s \<Rightarrow> bool"
begin

lemma look_transaction:
  assumes "refines (look stub s) A" "opCreateCompositeKey stub ''transaction'' [i] = Some k"
    and "opGetState stub s k = Some v"
  shows "v = map_option VTransaction (spHeader A i)"
proof -
  have "look stub s (''transaction'', [i]) = v"
    using assms(2,3) by (simp add: look_def split: option.splits)
  then show ?thesis using assms(1) by (simp add: refines_def)
qed

lemma GetTransaction_cases:
  assumes "refines (look stub s) A"
  obtains "GetTransaction stub s i = Inl StubError"
  | "spHeader A i = None" "GetTransaction stub s i = Inl (TransactionMissing i)"
  | t where "spHeader A i = Some t" "GetTransaction stub s i = Inr t"
proof -
  consider "opCreateCompositeKey stub ''transaction'' [i] = None"
    | k where "opCreateCompositeKey stub ''transaction'' [i] = Some k" "opGetState stub s k = None"
    | k v where "opCreateCompositeKey stub ''transaction'' [i] = Some k" "opGetState stub s k = Some v"
    by (metis not_Some_eq)
  then show ?thesis
  proof cases
    case 1
    then show ?thesis using that(1) by (simp add: GetTransaction_def stub_call_defs)
  next
    case 2
    then show ?thesis using that(1) by (simp add: GetTransaction_def stub_call_defs)
  next
    case (3 k v)
    then have v: "v = map_option VTransaction (spHeader A i)" by (rule look_transaction [OF assms])
    show ?thesis
    proof (cases "spHeader A i")
      case None
      then show ?thesis using that(2) 3 v by (simp add: GetTransaction_def stub_call_defs)
    next
      case (Some t)
      then show ?thesis using that(3) 3 v by (simp add: GetTransaction_def stub_call_defs)
    qed
  qed
qed

lemma CreateTransaction_simulates:
  assumes "refines (look stub s) A"
  shows "simulates stub (CreateTransaction stub s i org wt sv cb) (spec_create A i org wt sv cb)"
proof (cases "i = []")
  case True
  then show ?thesis by (simp add: CreateTransaction_def spec_create_def)
next
  case False
  show ?thesis
    unfolding CreateTransaction_def stub_call_defs Let_def draftHeader_def [symmetric] if_not_P [OF False]
  proof (intro simulates_orErr)
    fix key existing
    let ?data = "VTransaction (draftHeader i org wt sv cb)"
    assume key: "opCreateCompositeKey stub ''transaction'' [i] = Some key"
      and get: "opGetState stub s key = Some existing"
    have ex: "existing = map_option VTransaction (spHeader A i)"
      using look_transaction [OF assms key get] .
    have "simulates stub (orErr StubError (opSetEvent stub s1 ''TransactionCreated'' ?data))
        (spec_create A i org wt sv cb)"
      if "opPutState stub s key ?data = Some s1" "spHeader A i = None" for s1
      using False that look_put [OF key that(1)] refines_header [OF assms]
      by (auto simp: spec_create_def look_set_event orErr_def split: option.splits)
    then show "simulates stub
       (if existing \<noteq> None then Inl (TransactionExists i)
        else bindE (orErr StubError (opPutState stub s key ?data)) (\<lambda>s'.
             orErr StubError (opSetEvent stub s' ''TransactionCreated'' ?data)))
       (spec_create A i org wt sv cb)"
      using False ex by (auto simp: spec_create_def intro: simulates_orErr)
  qed
qed

lemma look_idempotency:
  assumes "refines (look stub s) A" "opCreateCompositeKey stub ''idempotency'' [key] = Some k"
    and "opGetState stub s k = Some v"
  shows "v \<noteq> None \<longleftrightarrow> spUsed A key"
proof -
  have "look stub s (''idempotency'', [key]) = v"
    using assms(2,3) by (simp add: look_def split: option.splits)
  then show ?thesis using assms(1) unfolding refines_def by metis
qed

lemma look_approval:
  assumes "refines (look stub s) A" "opCreateCompositeKey stub ''approval'' [i, fmt_09d n, a] = Some k"
    and "opGetState stub s k = Some v"
  shows "v = map_option VApproval (spApproval A (i, n, a))"
proof -
  have "look stub s (''approval'', [i, fmt_09d n, a]) = v"
    using assms(2,3) by (simp add: look_def split: option.splits)
  then show ?thesis using assms(1) by (simp add: refines_def)
qed

text \<open>The four writes of an accepted event, as one update of the abstract ledger.\<close>

lemma record_writes:
  assumes ref: "refines (look stub s) A"
    and sq: "evEventSequence e = int (length (spEvents A (evTransactionID e))) + 1"
    and ik: "opCreateCompositeKey stub ''idempotency'' [evIdempotencyKey e] = Some ik"
    and ek: "opCreateCompositeKey stub ''transaction_event''
               [evTransactionID e, fmt_09d (evEventSequence e)] = Some ek"
    and tk: "opCreateCompositeKey stub ''transaction'' [evTransactionID e] = Some tk"
    and p1: "opPutState stub s ek (VEvent e) = Some s1"
    and p2: "opPutState stub s1 ik (VKey ek) = Some s2"
    and p3: "opPutState stub s2 tk (VTransaction (advanceHeader t e)) = Some s3"
    and ev: "opSetEvent stub s3 n v = Some s4"
  shows "refines (look stub s4) (spec_append A e t)"
  unfolding look_set_event [OF ev] look_put [OF tk p3] look_put [OF ik p2] look_put [OF ek p1]
  by (rule refines_append [OF ref sq])

lemma RecordEvent_Inr:
  assumes "RecordEvent stub s (Some e) = Inr s'"
  obtains t ik ek tk s1 s2 s3 where
    "eventWellFormed e" "GetTransaction stub s (evTransactionID e) = Inr t"
    "evNewStatus e \<noteq> [] \<longrightarrow> isTransitionAllowed (txStatus t) (evNewStatus e)"
    "evEventSequence e = txLatestEventSequence t + 1"
    "evPreviousEventHash e = txLatestEventPayloadHash t"
    "opCreateCompositeKey stub ''idempotency'' [evIdempotencyKey e] = Some ik"
    "opGetState stub s ik = Some None"
    "opCreateCompositeKey stub ''transaction_event''
       [evTransactionID e, fmt_09d (evEventSequence e)] = Some ek"
    "opCreateCompositeKey stub ''transaction'' [evTransactionID e] = Some tk"
    "opPutState stub s ek (VEvent e) = Some s1"
    "opPutState stub s1 ik (VKey ek) = Some s2"
    "opPutState stub s2 tk (VTransaction (advanceHeader t e)) = Some s3"
    "opSetEvent stub s3 ''TransactionEventRecorded'' (VEvent e) = Some s'"
  using assms
  unfolding RecordEvent_def option.case stub_call_defs Let_def advanceHeader_alt [symmetric] bind_simps
  by (auto simp: eventWellFormed_def)

lemma RecordEvent_Inl:
  assumes ref: "refines (look stub s) A"
    and err: "RecordEvent stub s (Some e) = Inl x" and x: "x \<noteq> StubError"
  shows "spec_record A (Some e) = Inl x"
proof (cases "eventWellFormed e")
  case False
  then show ?thesis using err by (auto simp: RecordEvent_def spec_record_def eventWellFormed_def)
next
  case True
  show ?thesis
  proof (cases rule: GetTransaction_cases [OF ref, where i = "evTransactionID e"])
    case (3 t)
    show ?thesis
      using err x True 3 look_idempotency [OF ref]
      unfolding RecordEvent_def option.case stub_call_defs Let_def bind_simps
      by (auto simp: spec_record_def eventWellFormed_def)
  qed (use err x True in \<open>simp_all add: RecordEvent_def spec_record_def eventWellFormed_def\<close>)
qed

lemma RecordEvent_simulates:
  assumes ref: "refines (look stub s) A" and inv: "spec_inv A"
  shows "simulates stub (RecordEvent stub s (Some e)) (spec_record A (Some e))"
proof (cases "RecordEvent stub s (Some e)")
  case (Inl x)
  then show ?thesis using RecordEvent_Inl [OF ref] by auto
next
  case (Inr s')
  then obtain t ik ek tk s1 s2 s3 where
    w: "eventWellFormed e" and t: "GetTransaction stub s (evTransactionID e) = Inr t"
    and tr: "evNewStatus e \<noteq> [] \<longrightarrow> isTransitionAllowed (txStatus t) (evNewStatus e)"
    and sq: "evEventSequence e = txLatestEventSequence t + 1"
    and prev: "evPreviousEventHash e = txLatestEventPayloadHash t"
    and ik: "opCreateCompositeKey stub ''idempotency'' [evIdempotencyKey e] = Some ik"
    and none: "opGetState stub s ik = Some None"
    and writes: "opCreateCompositeKey stub ''transaction_event''
       [evTransactionID e, fmt_09d (evEventSequence e)] = Some ek"
    "opCreateCompositeKey stub ''transaction'' [evTransactionID e] = Some tk"
    "opPutState stub s ek (VEvent e) = Some s1"
    "opPutState stub s1 ik (VKey ek) = Some s2"
    "opPutState stub s2 tk (VTransaction (advanceHeader t e)) = Some s3"
    "opSetEvent stub s3 ''TransactionEventRecorded'' (VEvent e) = Some s'"
    by (rule RecordEvent_Inr)
  have hdr: "spHeader A (evTransactionID e) = Some t"
    using t by (cases rule: GetTransaction_cases [OF ref, where i = "evTransactionID e"]) auto
  then have "evEventSequence e = int (length (spEvents A (evTransactionID e))) + 1"
    using inv sq by (simp add: spec_inv_def header_ok_def)
  then have "refines (look stub s') (spec_append A e t)"
    by (rule record_writes [OF ref _ ik writes])
  moreover have "spec_record A (Some e) = Inr (spec_append A e t)"
    using w hdr tr sq prev look_idempotency [OF ref ik none] by (auto simp: spec_record_Inr)
  ultimately show ?thesis using Inr by simp
qed

lemma Approve_Inr:
  assumes "Approve stub s i n a d p = Inr s'"
  obtains t ak s1 s2 where
    "d = ''approve'' \<or> d = ''reject''" "GetTransaction stub s i = Inr t" "a \<noteq> txCreatedBy t"
    "opCreateCompositeKey stub ''approval'' [i, fmt_09d n, a] = Some ak" "opGetState stub s ak = Some None"
    "opPutState stub s ak (VApproval \<lparr>apTransactionID = i, apEventSequence = n, apApproverID = a,
       apDecision = d, apPolicyVersion = p\<rparr>) = Some s1"
    "if d = ''reject'' then isTransitionAllowed (txStatus t) ''REJECTED'' \<and>
       (\<exists>tk. opCreateCompositeKey stub ''transaction'' [i] = Some tk \<and>
          opPutState stub s1 tk (VTransaction (t\<lparr>txStatus := ''REJECTED''\<rparr>)) = Some s2)
     else s2 = s1"
    "opSetEvent stub s2 ''ApprovalRecorded'' (VApproval \<lparr>apTransactionID = i, apEventSequence = n,
       apApproverID = a, apDecision = d, apPolicyVersion = p\<rparr>) = Some s'"
proof (cases "d = ''reject''")
  case True
  with assms that show ?thesis
    unfolding Approve_def stub_call_defs Let_def bind_simps by (auto simp: bind_simps)
next
  case False
  with assms that show ?thesis
    unfolding Approve_def stub_call_defs Let_def bind_simps by (auto simp: bind_simps)
qed

lemma Approve_Inl:
  assumes ref: "refines (look stub s) A"
    and err: "Approve stub s i n a d p = Inl x" and x: "x \<noteq> StubError"
  shows "spec_approve A i n a d p = Inl x"
proof (cases rule: GetTransaction_cases [OF ref, where i = i])
  case (3 t)
  show ?thesis
  proof (cases "d = ''reject''")
    case True
    then show ?thesis
      using err x 3
      unfolding Approve_def stub_call_defs Let_def bind_simps
      by (auto simp: spec_approve_def bind_simps dest: look_approval [OF ref])
  next
    case False
    then show ?thesis
      using err x 3
      unfolding Approve_def stub_call_defs Let_def bind_simps
      by (auto simp: spec_approve_def bind_simps dest: look_approval [OF ref])
  qed
qed (use err x in \<open>auto simp: Approve_def spec_approve_def bind_simps\<close>)

lemma Approve_simulates:
  assumes ref: "refines (look stub s) A"
  shows "simulates stub (Approve stub s i n a d p) (spec_approve A i n a d p)"
proof (cases "Approve stub s i n a d p")
  case (Inl x)
  then show ?thesis using Approve_Inl [OF ref, of i n a d p x] by auto
next
  case (Inr s')
  let ?ap = "\<lparr>apTransactionID = i, apEventSequence = n, apApproverID = a, apDecision = d, apPolicyVersion = p\<rparr>"
  from Inr obtain t ak s1 s2 where
    d: "d = ''approve'' \<or> d = ''reject''" and t: "GetTransaction stub s i = Inr t"
    and a: "a \<noteq> txCreatedBy t"
    and ak: "opCreateCompositeKey stub ''approval'' [i, fmt_09d n, a] = Some ak"
    and none: "opGetState stub s ak = Some None"
    and p1: "opPutState stub s ak (VApproval ?ap) = Some s1"
    and rej: "if d = ''reject'' then isTransitionAllowed (txStatus t) ''REJECTED'' \<and>
       (\<exists>tk. opCreateCompositeKey stub ''transaction'' [i] = Some tk \<and>
          opPutState stub s1 tk (VTransaction (t\<lparr>txStatus := ''REJECTED''\<rparr>)) = Some s2)
     else s2 = s1"
    and ev: "opSetEvent stub s2 ''ApprovalRecorded'' (VApproval ?ap) = Some s'"
    by (rule Approve_Inr)
  have hdr: "spHeader A i = Some t"
    using t by (cases rule: GetTransaction_cases [OF ref, where i = i]) auto
  have unused: "spApproval A (i, n, a) = None"
    using look_approval [OF ref ak none] by simp
  let ?A1 = "A\<lparr>spApproval := (spApproval A)((i, n, a) \<mapsto> ?ap)\<rparr>"
  have ref1: "refines (look stub s1) ?A1"
    unfolding look_put [OF ak p1] by (rule refines_approval [OF ref])
  show ?thesis
  proof (cases "d = ''reject''")
    case True
    with rej obtain tk where tk: "opCreateCompositeKey stub ''transaction'' [i] = Some tk"
      and p2: "opPutState stub s1 tk (VTransaction (t\<lparr>txStatus := ''REJECTED''\<rparr>)) = Some s2"
      and ok: "isTransitionAllowed (txStatus t) ''REJECTED''" by auto
    have "refines (look stub s') (?A1\<lparr>spHeader := (spHeader ?A1)(i \<mapsto> t\<lparr>txStatus := ''REJECTED''\<rparr>)\<rparr>)"
      unfolding look_set_event [OF ev] look_put [OF tk p2] by (rule refines_header [OF ref1])
    then show ?thesis
      using Inr True hdr unused a ok by (simp add: spec_approve_def)
  next
    case False
    then have "refines (look stub s') ?A1"
      using rej ref1 by (simp add: look_set_event [OF ev])
    then show ?thesis
      using Inr False d hdr unused a by (simp add: spec_approve_def)
  qed
qed

lemma invoke_simulates:
  assumes "refines (look stub s) A" "spec_inv A"
  shows "simulates stub (invoke stub s c) (spec_invoke A c)"
proof (cases c)
  case (CallRecord e)
  then show ?thesis
    using RecordEvent_simulates [OF assms]
    by (cases e) (simp_all add: RecordEvent_def spec_record_def)
qed (use CreateTransaction_simulates [OF assms(1)] Approve_simulates [OF assms(1)] in simp_all)

lemma CreateTransaction_wf:
  "wf s \<Longrightarrow> CreateTransaction stub s i org wt sv cb = Inr s' \<Longrightarrow> wf s'"
  unfolding CreateTransaction_def stub_call_defs Let_def bind_simps
  by (blast intro: wf_put wf_set_event)

lemma RecordEvent_wf:
  assumes "wf s" "RecordEvent stub s e = Inr s'"
  shows "wf s'"
proof (cases e)
  case None
  then show ?thesis using assms by (simp add: RecordEvent_def)
next
  case (Some ev)
  show ?thesis
  proof (rule RecordEvent_Inr [OF assms(2) [unfolded Some]], goal_cases)
    case (1 t ik ek tk s1 s2 s3)
    have "wf s1" using assms(1) 1(8,10) by (rule wf_put)
    then have "wf s2" using 1(6,11) by (rule wf_put)
    then have "wf s3" using 1(9,12) by (rule wf_put)
    then show ?case using 1(13) by (rule wf_set_event)
  qed
qed

lemma Approve_wf:
  assumes "wf s" "Approve stub s i n a d p = Inr s'"
  shows "wf s'"
proof (rule Approve_Inr [OF assms(2)], goal_cases)
  case (1 t ak s1 s2)
  then have "wf s1" using assms(1) by (blast intro: wf_put)
  then have "wf s2" using 1(7) by (cases "d = ''reject''") (auto intro: wf_put)
  then show ?case using 1(8) by (rule wf_set_event)
qed

lemma invoke_wf: "wf s \<Longrightarrow> invoke stub s c = Inr s' \<Longrightarrow> wf s'"
  by (cases c) (auto intro: CreateTransaction_wf RecordEvent_wf Approve_wf)

text \<open>Every reachable world state stands for an abstract ledger that satisfies the invariant.\<close>

lemma reach_refines: "ledger_reach stub wf s \<Longrightarrow> \<exists>A. refines (look stub s) A \<and> spec_inv A \<and> wf s"
proof (induction rule: ledger_reach.induct)
  case (reach_init s)
  then show ?case by (intro exI [of _ spec_empty]) simp
next
  case (reach_call s c s')
  then obtain A where A: "refines (look stub s) A" "spec_inv A" "wf s" by blast
  then obtain A' where "spec_invoke A c = Inr A'" "refines (look stub s') A'"
    using invoke_simulates [OF A(1,2), of c] reach_call.hyps by auto
  then show ?case using A spec_inv_invoke invoke_wf [OF A(3) reach_call.hyps(2)] by blast
qed

text \<open>
  The zero-padded sequence number in the event key makes a scan return the events in order,
  as long as there are fewer than \<open>10\<^sup>9\<close> of them.
\<close>

lemma history_scan:
  assumes ref: "refines (look stub s) A" and wf: "wf s"
    and few: "int (length (spEvents A i)) < 10 ^ 9"
    and scan: "opScan stub s ''transaction_event'' [i] = Some kvs"
  obtains key where
    "kvs = map (\<lambda>n. (key n, VEvent (spEvents A i ! n))) [0..<length (spEvents A i)]"
proof (rule numbered_scan [OF wf few scan, where f = "\<lambda>n. VEvent (spEvents A i ! n)"])
  fix as' v
  assume "look stub s (''transaction_event'', [i] @ as') = Some v"
  moreover have "absEvents A ([i] @ as') (look stub s (''transaction_event'', [i] @ as'))"
    using ref unfolding refines_def by blast
  ultimately show "\<exists>n < length (spEvents A i). as' = [fmt_09d (int n + 1)] \<and> v = VEvent (spEvents A i ! n)"
    unfolding absEvents_def by auto
qed (use ref in \<open>auto simp: refines_def\<close>)

lemma GetEventHistory_events:
  assumes "refines (look stub s) A" "wf s" "int (length (spEvents A i)) < 10 ^ 9"
    and "opScan stub s ''transaction_event'' [i] \<noteq> None"
  shows "GetEventHistory stub s i = Inr (spEvents A i)"
proof -
  obtain kvs where kvs: "opScan stub s ''transaction_event'' [i] = Some kvs" using assms(4) by blast
  obtain key where "kvs = map (\<lambda>n. (key n, VEvent (spEvents A i ! n))) [0..<length (spEvents A i)]"
    by (rule history_scan [OF assms(1-3) kvs])
  then show ?thesis
    by (simp add: GetEventHistory_def kvs unmarshalEvents_map map_nth)
qed

end

interpretation fake_txn: txn_ledger fakeOps fakeWf ..

section \<open>Monotonicity: the ledger only grows\<close>

definition calls_to :: "('s, txn_value) stub_ops \<Rightarrow> 's \<Rightarrow> 's \<Rightarrow> bool" where
  "calls_to stub = (\<lambda>s s'. \<exists>c. invoke stub s c = Inr s')\<^sup>*\<^sup>*"

lemma spec_invoke_grows:
  assumes "spec_invoke A c = Inr A'"
  shows "\<exists>es. spEvents A' i = spEvents A i @ es" and "spUsed A k \<Longrightarrow> spUsed A' k"
proof -
  have "(\<exists>es. spEvents A' i = spEvents A i @ es) \<and> (spUsed A k \<longrightarrow> spUsed A' k)"
  proof (cases c)
    case (CallRecord e)
    with assms show ?thesis
      by (cases e) (auto simp: spec_record_Inr spec_append_def spec_record_def [of _ None])
  qed (use assms in \<open>auto simp: spec_create_def spec_approve_def split: if_splits option.splits\<close>)
  then show "\<exists>es. spEvents A' i = spEvents A i @ es" and "spUsed A k \<Longrightarrow> spUsed A' k" by auto
qed

context txn_ledger begin

lemma calls_refine:
  assumes "calls_to stub s s'" "refines (look stub s) A" "spec_inv A" "wf s"
  shows "\<exists>A'. refines (look stub s') A' \<and> spec_inv A' \<and> wf s' \<and>
    (\<forall>i. \<exists>es. spEvents A' i = spEvents A i @ es) \<and> (\<forall>k. spUsed A k \<longrightarrow> spUsed A' k)"
  using assms(1) unfolding calls_to_def
proof (induction rule: rtranclp_induct)
  case base
  then show ?case using assms(2-4) by (intro exI [of _ A]) simp
next
  case (step y z)
  then obtain A1 where A1: "refines (look stub y) A1" "spec_inv A1" "wf y"
      "\<forall>i. \<exists>es. spEvents A1 i = spEvents A i @ es" "\<forall>k. spUsed A k \<longrightarrow> spUsed A1 k" by blast
  obtain c where c: "invoke stub y c = Inr z" using step.hyps(2) by blast
  then obtain A2 where A2: "spec_invoke A1 c = Inr A2" "refines (look stub z) A2"
    using invoke_simulates [OF A1(1,2), of c] by auto
  have "\<exists>es. spEvents A2 i = spEvents A i @ es" for i
    using A1(4) spec_invoke_grows(1) [OF A2(1), of i] by (metis append.assoc)
  moreover have "spUsed A2 k" if "spUsed A k" for k
    using A1(5) spec_invoke_grows(2) [OF A2(1), of k] that by blast
  ultimately show ?case
    using A2 spec_inv_invoke [OF A1(2) A2(1)] invoke_wf [OF A1(3) c] by blast
qed

lemma header_of_reach:
  assumes "refines (look stub s) A" "spec_inv A" "GetTransaction stub s i = Inr t"
  shows "spHeader A i = Some t" and "header_ok i t (spEvents A i)"
proof -
  show "spHeader A i = Some t"
    using assms(3) by (cases rule: GetTransaction_cases [OF assms(1), where i = i]) auto
  then show "header_ok i t (spEvents A i)" using assms(2) by (simp add: spec_inv_def)
qed

lemma history_of_reach:
  assumes "refines (look stub s) A" "spec_inv A" "wf s" "GetTransaction stub s i = Inr t"
    and "txLatestEventSequence t < 10 ^ 9" "GetEventHistory stub s i = Inr es"
  shows "es = spEvents A i"
proof -
  have "int (length (spEvents A i)) < 10 ^ 9"
    using header_of_reach(2) [OF assms(1,2,4)] assms(5) by (simp add: header_ok_def)
  moreover have "opScan stub s ''transaction_event'' [i] \<noteq> None"
    using assms(6) by (auto simp: GetEventHistory_def bind_simps)
  ultimately show ?thesis
    using GetEventHistory_events [OF assms(1,3)] assms(6) by simp
qed

lemma reach_history_chain:
  assumes "ledger_reach stub wf s" "GetTransaction stub s i = Inr t"
    and "txLatestEventSequence t < 10 ^ 9" "GetEventHistory stub s i = Inr es"
  shows "chained i es \<and> header_ok i t es \<and> distinct (map evIdempotencyKey es)"
proof -
  obtain A where A: "refines (look stub s) A" "spec_inv A" "wf s"
    using reach_refines [OF assms(1)] by blast
  have "es = spEvents A i" by (rule history_of_reach [OF A assms(2-4)])
  then show ?thesis
    using A(2) header_of_reach(2) [OF A(1,2) assms(2)] by (simp add: spec_inv_def)
qed

lemma reach_append_only:
  assumes "ledger_reach stub wf s" "calls_to stub s s'"
    and "GetTransaction stub s i = Inr t" "GetTransaction stub s' i = Inr t'"
    and "txLatestEventSequence t' < 10 ^ 9"
    and "GetEventHistory stub s i = Inr es" "GetEventHistory stub s' i = Inr es'"
  shows "\<exists>more. es' = es @ more"
proof -
  obtain A where A: "refines (look stub s) A" "spec_inv A" "wf s"
    using reach_refines [OF assms(1)] by blast
  obtain A' where A': "refines (look stub s') A'" "spec_inv A'" "wf s'"
      and ext: "\<exists>more. spEvents A' i = spEvents A i @ more"
    using calls_refine [OF assms(2) A] by blast
  have es': "es' = spEvents A' i" by (rule history_of_reach [OF A' assms(4,5,7)])
  have "int (length (spEvents A' i)) < 10 ^ 9"
    using header_of_reach(2) [OF A'(1,2) assms(4)] assms(5) by (simp add: header_ok_def)
  then have "int (length (spEvents A i)) < 10 ^ 9" using ext by auto
  then have "txLatestEventSequence t < 10 ^ 9"
    using header_of_reach(2) [OF A(1,2) assms(3)] by (simp add: header_ok_def)
  then have "es = spEvents A i" by (rule history_of_reach [OF A assms(3) _ assms(6)])
  then show ?thesis using ext es' by simp
qed

lemma reach_no_replay:
  assumes "ledger_reach stub wf s" "RecordEvent stub s (Some e) = Inr s1" "calls_to stub s1 s'"
    and "evIdempotencyKey e' = evIdempotencyKey e"
  shows "\<exists>x. RecordEvent stub s' (Some e') = Inl x"
proof -
  obtain A where A: "refines (look stub s) A" "spec_inv A" "wf s"
    using reach_refines [OF assms(1)] by blast
  obtain A1 where A1: "spec_record A (Some e) = Inr A1" "refines (look stub s1) A1"
    using RecordEvent_simulates [OF A(1,2), of e] assms(2) by auto
  have used: "spUsed A1 (evIdempotencyKey e)" using A1(1) by (auto simp: spec_record_Inr spec_append_def)
  obtain A' where A': "refines (look stub s') A'" "spec_inv A'" "spUsed A' (evIdempotencyKey e)"
    using calls_refine [OF assms(3) A1(2) spec_inv_record [OF A(2) A1(1)] RecordEvent_wf [OF A(3) assms(2)]]
      used by blast
  then have "\<nexists>A''. spec_record A' (Some e') = Inr A''"
    using assms(4) by (auto simp: spec_record_Inr)
  then show ?thesis
    using RecordEvent_simulates [OF A'(1,2), of e'] by (cases "RecordEvent stub s' (Some e')") auto
qed

end

end
