(* ===== verification/Transaction_Properties.thy ===== *)
theory Transaction_Properties
  imports Transaction_Ledger
begin

text \<open>
  The properties of the transaction contract, for every stub that satisfies the \<open>fabric_stub\<close>
  interface, with a concrete run of the contract on the in-memory stub as witness.
\<close>

section \<open>A concrete run\<close>

definition sampleEvent :: TransactionEvent where
  "sampleEvent =
     \<lparr>evTransactionID = ''t1'', evEventSequence = 1, evEventType = ''VERIFY'', evPayloadHash = ''h1'',
      evPreviousEventHash = [], evAlgorithmSuite = ''HYBRID_ED25519_MLDSA65_V1'',
      evClassicalKeyID = ''k1'', evPQCKeyID = ''k2'', evClassicalSignature = ''s1'', evPQCSignature = ''s2'',
      evIdempotencyKey = ''i1'', evCreatedAtServer = ''now'', evNewStatus = ''VERIFIED''\<rparr>"

definition sampleHeader :: "string \<Rightarrow> int \<Rightarrow> string \<Rightarrow> Transaction" where
  "sampleHeader st n h =
     \<lparr>txID = ''t1'', txOrganizationID = ''org'', txWorkflowType = ''wf'', txSchemaVersion = ''v1'',
      txCreatedBy = ''alice'', txStatus = st, txLatestEventSequence = n, txLatestEventPayloadHash = h\<rparr>"

definition sampleCreated :: "txn_value fakeStub" where
  "sampleCreated = (case CreateTransaction fakeOps newFakeStub ''t1'' ''org'' ''wf'' ''v1'' ''alice'' of
     Inr s \<Rightarrow> s | Inl _ \<Rightarrow> newFakeStub)"

definition sampleRecorded :: "txn_value fakeStub" where
  "sampleRecorded = (case RecordEvent fakeOps sampleCreated (Some sampleEvent) of
     Inr s \<Rightarrow> s | Inl _ \<Rightarrow> newFakeStub)"

lemma sampleCreated_run:
  "CreateTransaction fakeOps newFakeStub ''t1'' ''org'' ''wf'' ''v1'' ''alice'' = Inr sampleCreated"
  by code_simp

lemma sampleRecorded_run: "RecordEvent fakeOps sampleCreated (Some sampleEvent) = Inr sampleRecorded"
  by code_simp

lemma sampleCreated_reads:
  "GetTransaction fakeOps sampleCreated ''t1'' = Inr (sampleHeader ''DRAFT'' 0 [])"
  "GetEventHistory fakeOps sampleCreated ''t1'' = Inr []"
  by code_simp+

lemma sampleRecorded_reads:
  "GetTransaction fakeOps sampleRecorded ''t1'' = Inr (sampleHeader ''VERIFIED'' 1 ''h1'')"
  "GetEventHistory fakeOps sampleRecorded ''t1'' = Inr [sampleEvent]"
  by code_simp+

lemma sample_reach: "ledger_reach fakeOps fakeWf newFakeStub"
  "ledger_reach fakeOps fakeWf sampleCreated" "ledger_reach fakeOps fakeWf sampleRecorded"
proof -
  show 0: "ledger_reach fakeOps fakeWf newFakeStub" by (rule reach_init) simp_all
  show 1: "ledger_reach fakeOps fakeWf sampleCreated"
    by (rule reach_call [OF 0, of "CallCreate ''t1'' ''org'' ''wf'' ''v1'' ''alice''"])
      (simp add: sampleCreated_run)
  show "ledger_reach fakeOps fakeWf sampleRecorded"
    by (rule reach_call [OF 1, of "CallRecord (Some sampleEvent)"]) (simp add: sampleRecorded_run)
qed

lemma sample_calls: "calls_to fakeOps sampleCreated sampleRecorded" "calls_to fakeOps s s"
  unfolding calls_to_def
  by (rule r_into_rtranclp, rule exI [of _ "CallRecord (Some sampleEvent)"], simp add: sampleRecorded_run)
    simp

lemma txn_ledger_of_stub: "fabric_stub stub sane \<Longrightarrow> txn_ledger stub sane"
  by (simp add: txn_ledger_def)

section \<open>Stubs that do not fail\<close>

text \<open>
  The condition under which the contract's answers are those of the abstract ledger and nothing
  else: no read, write or event emission fails, and a key is built from every object type and
  attributes without the delimiter.
\<close>

definition reliable :: "('s, 'v) stub_ops \<Rightarrow> bool" where
  "reliable stub \<longleftrightarrow>
     (\<forall>s k. opGetState stub s k \<noteq> None) \<and> (\<forall>s k v. opPutState stub s k v \<noteq> None) \<and>
     (\<forall>s n v. opSetEvent stub s n v \<noteq> None) \<and>
     (\<forall>ot as. delimiterFree ot as \<longrightarrow> opCreateCompositeKey stub ot as \<noteq> None)"

fun callKeysOk :: "cc_call \<Rightarrow> bool" where
  "callKeysOk (CallCreate i org wt sv cb) = (compositeKeyDelimiter \<notin> set i)"
| "callKeysOk (CallRecord None) = True"
| "callKeysOk (CallRecord (Some e)) =
     (compositeKeyDelimiter \<notin> set (evTransactionID e) \<and> compositeKeyDelimiter \<notin> set (evIdempotencyKey e))"
| "callKeysOk (CallApprove i n a d p) = (compositeKeyDelimiter \<notin> set i \<and> compositeKeyDelimiter \<notin> set a)"

lemma reliable_fake: "reliable fakeOps"
  by (simp add: reliable_def fake_defs shimCompositeKey_def)

lemma delimiter_notin_dec: "compositeKeyDelimiter \<notin> set (dec n)"
proof (induction n rule: dec.induct)
  case (1 n)
  have "compositeKeyDelimiter \<noteq> digit d" if "d < 10" for d
  proof -
    have "(of_char compositeKeyDelimiter :: nat) \<noteq> of_char (digit d)"
      using that by (simp add: digit_def compositeKeyDelimiter_def)
    then show ?thesis by metis
  qed
  from this [of n] this [of "n mod 10"] 1 show ?case by (auto simp: dec.simps [of n])
qed

lemma delimiter_notin_fmt_09d [simp]: "compositeKeyDelimiter \<notin> set (fmt_09d n)"
proof -
  have "compositeKeyDelimiter \<noteq> digit 0" using delimiter_notin_dec [of 0] by (simp add: dec.simps)
  moreover have "compositeKeyDelimiter \<noteq> CHR ''-''" by (simp add: compositeKeyDelimiter_def)
  ultimately show ?thesis using delimiter_notin_dec by (auto simp: fmt_09d_def zpad_def)
qed

lemma reliable_ops:
  assumes "reliable stub"
  shows "opGetState stub s k \<noteq> None" "opPutState stub s k v \<noteq> None" "opSetEvent stub s n v \<noteq> None"
    and "delimiterFree ot as \<Longrightarrow> opCreateCompositeKey stub ot as \<noteq> None"
  using assms by (simp_all add: reliable_def)

lemma delimiterFree_objects:
  "delimiterFree ''transaction'' as \<longleftrightarrow> list_all (\<lambda>a. compositeKeyDelimiter \<notin> set a) as"
  "delimiterFree ''transaction_event'' as \<longleftrightarrow> list_all (\<lambda>a. compositeKeyDelimiter \<notin> set a) as"
  "delimiterFree ''idempotency'' as \<longleftrightarrow> list_all (\<lambda>a. compositeKeyDelimiter \<notin> set a) as"
  "delimiterFree ''approval'' as \<longleftrightarrow> list_all (\<lambda>a. compositeKeyDelimiter \<notin> set a) as"
  by (simp_all add: delimiterFree_def compositeKeyDelimiter_def)

lemma GetTransaction_no_stub_error:
  "reliable stub \<Longrightarrow> compositeKeyDelimiter \<notin> set i \<Longrightarrow> GetTransaction stub s i \<noteq> Inl StubError"
  using reliable_ops [of stub]
  by (auto simp: GetTransaction_def stub_call_defs bind_simps delimiterFree_objects
      split: option.splits txn_value.splits)

lemma invoke_no_stub_error:
  assumes "reliable stub" "callKeysOk c"
  shows "invoke stub s c \<noteq> Inl StubError"
  using assms(2)
proof (cases c rule: callKeysOk.cases)
  case (1 i org wt sv cb)
  then show ?thesis using assms reliable_ops [OF assms(1)]
    by (auto simp: CreateTransaction_def stub_call_defs Let_def bind_simps delimiterFree_objects)
next
  case (3 e)
  then show ?thesis using assms reliable_ops [OF assms(1)] GetTransaction_no_stub_error [OF assms(1)]
    by (auto simp: RecordEvent_def stub_call_defs Let_def bind_simps delimiterFree_objects)
next
  case (4 i n a d p)
  then show ?thesis using assms reliable_ops [OF assms(1)] GetTransaction_no_stub_error [OF assms(1)]
    by (auto simp: Approve_def stub_call_defs Let_def bind_simps delimiterFree_objects split: if_splits)
qed (simp add: RecordEvent_def)

section \<open>Reading back what the abstract ledger says\<close>

lemma GetTransaction_look:
  "look stub s (''transaction'', [i]) = Some (VTransaction t) \<longleftrightarrow> GetTransaction stub s i = Inr t"
  by (auto simp: look_eq_Some GetTransaction_def stub_call_defs bind_simps
      split: option.split_asm txn_value.split_asm)

lemma GetTransaction_refines:
  "refines (look stub s) A \<Longrightarrow> GetTransaction stub s i = Inr t \<longleftrightarrow> spHeader A i = Some t"
  unfolding GetTransaction_look [symmetric] refines_def by auto

lemma spec_approve_Inr:
  "spec_approve A i n a d p = Inr A' \<Longrightarrow>
     \<exists>t. spHeader A i = Some t \<and> a \<noteq> txCreatedBy t \<and> (d = ''approve'' \<or> d = ''reject'') \<and>
       (d = ''reject'' \<longrightarrow> isTransitionAllowed (txStatus t) ''REJECTED'') \<and>
       spHeader A' i = Some (if d = ''reject'' then t\<lparr>txStatus := ''REJECTED''\<rparr> else t) \<and>
       spApproval A' (i, n, a) \<noteq> None"
  by (auto simp: spec_approve_def split: if_splits option.splits)

lemma spec_approve_again:
  "spApproval A (i, n, a) \<noteq> None \<Longrightarrow> \<exists>x. spec_approve A i n a d p = Inl x"
  by (auto simp: spec_approve_def split: option.splits)

section \<open>The status graph\<close>

definition finalStatus :: "string \<Rightarrow> bool" where
  "finalStatus st \<longleftrightarrow> st \<in> {''REJECTED'', ''CANCELLED'', ''SUPERSEDED''}"

lemma isTransitionAllowed_iff:
  "isTransitionAllowed current nxt \<longleftrightarrow>
     (if nxt = ''REVOKED'' then current \<noteq> ''REVOKED'' else nxt \<in> set (allowedTransitions current))"
  by (auto simp: isTransitionAllowed_def list_ex_iff)

lemma status_invariant:
  assumes "isTransitionAllowed\<^sup>*\<^sup>* a b" "P a" "\<And>x y. P x \<Longrightarrow> isTransitionAllowed x y \<Longrightarrow> P y"
  shows "P b"
  using assms(1,2) by (induction rule: rtranclp_induct) (auto intro: assms(3))

text \<open>How far a transaction has come: every transition except a revocation goes up.\<close>

definition statusRank :: "string \<Rightarrow> nat" where
  "statusRank st =
     (if st = ''DRAFT'' then 0 else if st = ''VERIFIED'' then 1 else if st = ''ENDORSED'' then 2
      else if st = ''COMMITTED'' then 3 else if st = ''SETTLED'' then 4
      else if st = ''REVOKED'' then 6 else 5)"

lemma transition_rank: "isTransitionAllowed a b \<Longrightarrow> statusRank a < statusRank b"
  by (auto simp: isTransitionAllowed_iff allowedTransitions_def statusRank_def split: if_splits)

section \<open>Properties\<close>

text \<open>
  C8. After any sequence of accepted calls from an empty ledger, the key-value contract behaves as
  the abstract append-only ledger: there is an abstract state that the stored records represent,
  satisfying the ledger invariant, in which every further call has the same outcome; the
  only other outcome is that a stub operation failed.
\<close>

theorem contract_refines_ledger:
  assumes "fabric_stub stub sane" "ledger_reach stub sane s"
  shows "\<exists>A. refines (look stub s) A \<and> spec_inv A \<and>
    simulates stub (invoke stub s c) (spec_invoke A c) \<and>
    (reliable stub \<and> callKeysOk c \<longrightarrow>
       (\<forall>e. invoke stub s c = Inl e \<longleftrightarrow> spec_invoke A c = Inl e))"
proof -
  from assms(1) have T: "txn_ledger stub sane" by (rule txn_ledger_of_stub)
  obtain A where A: "refines (look stub s) A" "spec_inv A"
    using txn_ledger.reach_refines [OF T assms(2)] by blast
  have sim: "simulates stub (invoke stub s c) (spec_invoke A c)"
    by (rule txn_ledger.invoke_simulates [OF T A])
  have "invoke stub s c = Inl e \<longleftrightarrow> spec_invoke A c = Inl e" if "reliable stub" "callKeysOk c" for e
    using sim invoke_no_stub_error [OF that, of s] by (cases "invoke stub s c") auto
  then show ?thesis using A sim by blast
qed

lemma contract_refines_ledger_witness:
  "\<exists>A. refines (look fakeOps sampleRecorded) A \<and> spec_inv A \<and>
    simulates fakeOps (invoke fakeOps sampleRecorded (CallRecord (Some sampleEvent)))
      (spec_invoke A (CallRecord (Some sampleEvent))) \<and>
    (\<forall>e. invoke fakeOps sampleRecorded (CallRecord (Some sampleEvent)) = Inl e \<longleftrightarrow>
       spec_invoke A (CallRecord (Some sampleEvent)) = Inl e)"
proof -
  have "callKeysOk (CallRecord (Some sampleEvent))" by code_simp
  then show ?thesis
    using contract_refines_ledger [OF fake.fabric_stub_axioms sample_reach(3), of "CallRecord (Some sampleEvent)"]
      reliable_fake by blast
qed

text \<open>
  C9. The event history that the contract returns for a transaction is a gap-free hash chain:
  event \<open>n\<close> has sequence number \<open>n + 1\<close>, carries the payload hash of its predecessor, was signed
  under the allowed suite with both signatures present, and no two events share an
  idempotency key.  The header agrees with it: its sequence number is the length of the
  history, its hash is the last event's, and its status is reachable from DRAFT.  The
  bound is the range in which the zero-padded key keeps the numeric order.
\<close>

theorem history_is_hash_chain:
  assumes "fabric_stub stub sane" "ledger_reach stub sane s" "GetTransaction stub s i = Inr t"
    and "txLatestEventSequence t < 10 ^ 9" "GetEventHistory stub s i = Inr es"
  shows "chained i es \<and> header_ok i t es \<and> distinct (map evIdempotencyKey es)"
  using txn_ledger.reach_history_chain [OF txn_ledger_of_stub [OF assms(1)] assms(2-5)] .

lemma history_is_hash_chain_witness:
  "chained ''t1'' [sampleEvent] \<and> header_ok ''t1'' (sampleHeader ''VERIFIED'' 1 ''h1'') [sampleEvent]"
  using history_is_hash_chain [OF fake.fabric_stub_axioms sample_reach(3) sampleRecorded_reads(1) _
      sampleRecorded_reads(2)] by (simp add: sampleHeader_def)

text \<open>
  C10. History is append-only: whatever calls are accepted between two reads, the later history of
  a transaction extends the earlier one.
\<close>

theorem history_append_only:
  assumes "fabric_stub stub sane" "ledger_reach stub sane s" "calls_to stub s s'"
    and "GetTransaction stub s i = Inr t" "GetTransaction stub s' i = Inr t'"
    and "txLatestEventSequence t' < 10 ^ 9"
    and "GetEventHistory stub s i = Inr es" "GetEventHistory stub s' i = Inr es'"
  shows "\<exists>more. es' = es @ more"
  using txn_ledger.reach_append_only [OF txn_ledger_of_stub [OF assms(1)] assms(2-8)] .

lemma history_append_only_witness: "\<exists>more. [sampleEvent] = [] @ more"
  using history_append_only [OF fake.fabric_stub_axioms sample_reach(2) sample_calls(1)
      sampleCreated_reads(1) sampleRecorded_reads(1) _ sampleCreated_reads(2) sampleRecorded_reads(2)]
  by (simp add: sampleHeader_def)

text \<open>
  C11. An idempotency key is committed at most once: after an event was recorded, no later call
  can record any event with the same key, on the same or on another transaction.
\<close>

theorem idempotency_key_commits_once:
  assumes "fabric_stub stub sane" "ledger_reach stub sane s" "RecordEvent stub s (Some e) = Inr s1"
    and "calls_to stub s1 s'" "evIdempotencyKey e' = evIdempotencyKey e"
  shows "\<exists>x. RecordEvent stub s' (Some e') = Inl x"
  using txn_ledger.reach_no_replay [OF txn_ledger_of_stub [OF assms(1)] assms(2-5)] .

lemma idempotency_key_commits_once_witness:
  "\<exists>x. RecordEvent fakeOps sampleRecorded
     (Some (sampleEvent\<lparr>evEventSequence := 2, evPreviousEventHash := ''h1'', evNewStatus := []\<rparr>)) = Inl x"
  by (rule idempotency_key_commits_once [OF fake.fabric_stub_axioms sample_reach(2) sampleRecorded_run
        sample_calls(2)]) simp

text \<open>
  C12. A recorded decision: the approver is not the transaction's creator, a rejection was allowed
  from the current status and moves the transaction to REJECTED, an approval leaves the
  header as it was, and the same approver cannot decide on the same event again.
\<close>

theorem approve_effect:
  assumes "fabric_stub stub sane" "ledger_reach stub sane s" "Approve stub s i n a d p = Inr s'"
  shows "\<exists>t. GetTransaction stub s i = Inr t \<and> a \<noteq> txCreatedBy t \<and> (d = ''approve'' \<or> d = ''reject'') \<and>
    (d = ''reject'' \<longrightarrow> isTransitionAllowed (txStatus t) ''REJECTED'') \<and>
    GetTransaction stub s' i = Inr (if d = ''reject'' then t\<lparr>txStatus := ''REJECTED''\<rparr> else t) \<and>
    (\<forall>d' p'. \<exists>x. Approve stub s' i n a d' p' = Inl x)"
proof -
  from assms(1) have T: "txn_ledger stub sane" by (rule txn_ledger_of_stub)
  obtain A where A: "refines (look stub s) A" "spec_inv A"
    using txn_ledger.reach_refines [OF T assms(2)] by blast
  obtain A' where A': "spec_approve A i n a d p = Inr A'" "refines (look stub s') A'"
    using txn_ledger.Approve_simulates [OF T A(1), of i n a d p] assms(3) by auto
  have "\<exists>x. Approve stub s' i n a d' p' = Inl x" for d' p'
    using txn_ledger.Approve_simulates [OF T A'(2), of i n a d' p'] spec_approve_Inr [OF A'(1)]
      spec_approve_again [of A' i n a d' p'] by (cases "Approve stub s' i n a d' p'") auto
  then show ?thesis
    using spec_approve_Inr [OF A'(1)] by (auto simp: GetTransaction_refines [OF A(1)]
        GetTransaction_refines [OF A'(2)])
qed

definition sampleRejected :: "txn_value fakeStub" where
  "sampleRejected = (case Approve fakeOps sampleRecorded ''t1'' 1 ''bob'' ''reject'' ''p1'' of
     Inr s \<Rightarrow> s | Inl _ \<Rightarrow> newFakeStub)"

lemma approve_effect_witness:
  "GetTransaction fakeOps sampleRejected ''t1'' = Inr (sampleHeader ''REJECTED'' 1 ''h1'') \<and>
   (\<forall>d' p'. \<exists>x. Approve fakeOps sampleRejected ''t1'' 1 ''bob'' d' p' = Inl x)"
proof -
  have "Approve fakeOps sampleRecorded ''t1'' 1 ''bob'' ''reject'' ''p1'' = Inr sampleRejected"
    by code_simp
  from approve_effect [OF fake.fabric_stub_axioms sample_reach(3) this] show ?thesis
    by (simp add: sampleRecorded_reads sampleHeader_def)
qed

text \<open>
  C22. The status graph: a transaction never returns to an earlier status; from REJECTED, CANCELLED
  or SUPERSEDED the only move left is to REVOKED, and from REVOKED there is none; COMMITTED and
  SETTLED are entered only from ENDORSED and COMMITTED, that is after verification and endorsement.
\<close>

theorem status_graph:
  "(isTransitionAllowed\<^sup>+\<^sup>+ a b \<longrightarrow> statusRank a < statusRank b) \<and>
   (isTransitionAllowed\<^sup>*\<^sup>* a b \<and> finalStatus a \<longrightarrow> b = a \<or> b = ''REVOKED'') \<and>
   (isTransitionAllowed\<^sup>*\<^sup>* ''REVOKED'' b \<longrightarrow> b = ''REVOKED'') \<and>
   (isTransitionAllowed a ''SETTLED'' \<longrightarrow> a = ''COMMITTED'') \<and>
   (isTransitionAllowed a ''COMMITTED'' \<longrightarrow> a = ''ENDORSED'') \<and>
   (isTransitionAllowed a ''ENDORSED'' \<longrightarrow> a = ''VERIFIED'') \<and>
   (isTransitionAllowed a ''VERIFIED'' \<longrightarrow> a = ''DRAFT'')"
proof (intro conjI impI)
  assume "isTransitionAllowed\<^sup>+\<^sup>+ a b"
  then show "statusRank a < statusRank b"
    by (induction rule: tranclp_induct) (auto dest: transition_rank)
next
  assume "isTransitionAllowed\<^sup>*\<^sup>* a b \<and> finalStatus a"
  then have "isTransitionAllowed\<^sup>*\<^sup>* a b" "finalStatus a" by simp_all
  moreover have "y = a \<or> y = ''REVOKED''" if "x = a \<or> x = ''REVOKED''" "isTransitionAllowed x y" for x y
    using that \<open>finalStatus a\<close>
    by (auto simp: isTransitionAllowed_iff allowedTransitions_def finalStatus_def split: if_splits)
  ultimately show "b = a \<or> b = ''REVOKED''"
    using status_invariant [of a b "\<lambda>b. b = a \<or> b = ''REVOKED''"] by blast
next
  assume "isTransitionAllowed\<^sup>*\<^sup>* ''REVOKED'' b"
  then show "b = ''REVOKED''"
    by (rule status_invariant) (auto simp: isTransitionAllowed_iff allowedTransitions_def split: if_splits)
qed (auto simp: isTransitionAllowed_iff allowedTransitions_def split: if_splits)

lemma status_graph_witness:
  "statusRank ''VERIFIED'' < statusRank ''REJECTED'' \<and>
   \<not> isTransitionAllowed\<^sup>*\<^sup>* ''REJECTED'' ''DRAFT''"
proof -
  have "isTransitionAllowed ''VERIFIED'' ''REJECTED''" by code_simp
  then have "statusRank ''VERIFIED'' < statusRank ''REJECTED''"
    using status_graph [of "''VERIFIED''" "''REJECTED''"] by blast
  moreover have "finalStatus ''REJECTED''" by (simp add: finalStatus_def)
  moreover have "''DRAFT'' \<noteq> ''REJECTED''" "''DRAFT'' \<noteq> ''REVOKED''" by simp_all
  ultimately show ?thesis using status_graph [of "''REJECTED''" "''DRAFT''"] by blast
qed

text \<open>
  Revocation is reachable from the final statuses too, although the comment on
  \<^verbatim>\<open>allowedTransitions\<close> says \<^emph>\<open>any non-terminal status\<close>.
\<close>

lemma revoked_from_terminal:
  "finalStatus ''CANCELLED'' \<and> isTransitionAllowed ''CANCELLED'' ''REVOKED''"
  by (simp add: finalStatus_def isTransitionAllowed_def)

end
