(* ===== verification/Asset_Contract.thy ===== *)
theory Asset_Contract
  imports Chaincode_Stub
begin

text \<open>
  The asset custody smart contract, \<^verbatim>\<open>chaincode/asset/chaincode/contract.go\<close>: the lifecycle graph,
  the on-chain records and the operations \<^verbatim>\<open>CreateAsset\<close>, \<^verbatim>\<open>GetAsset\<close>, \<^verbatim>\<open>RecordCustodyEvent\<close> and
  \<^verbatim>\<open>GetCustodyHistory\<close>, over the same stub interface as the transaction contract.
\<close>

section \<open>Data\<close>

definition assetAlgorithmSuite :: string where
  "assetAlgorithmSuite = ''HYBRID_ED25519_MLDSA65_V1''"

definition allowedLifecycleTransitions :: "string \<Rightarrow> string list" where
  "allowedLifecycleTransitions current =
     (if current = ''CREATED'' then [''RECEIVED'']
      else if current = ''RECEIVED'' then [''INSPECTED'']
      else if current = ''INSPECTED'' then [''STORED'', ''MAINTENANCE'']
      else if current = ''STORED'' then [''ISSUED'', ''MAINTENANCE'', ''RETIRED'']
      else if current = ''ISSUED'' then [''TRANSFERRED'', ''RETURNED'']
      else if current = ''TRANSFERRED'' then [''RECEIVED'', ''MAINTENANCE'']
      else if current = ''MAINTENANCE'' then [''RETURNED'', ''STORED'']
      else if current = ''RETURNED'' then [''STORED'', ''INSPECTED'']
      else [])"

definition isLifecycleTransitionAllowed :: "string \<Rightarrow> string \<Rightarrow> bool" where
  "isLifecycleTransitionAllowed current nxt =
     list_ex (\<lambda>allowed. allowed = nxt) (allowedLifecycleTransitions current)"

record Asset =
  asID :: string
  asOrganizationID :: string
  asAssetTag :: string
  asStatus :: string
  asLatestEventSequence :: int
  asLatestEventPayloadHash :: string

record CustodyEvent =
  ceAssetID :: string
  ceEventSequence :: int
  ceFromParty :: string
  ceToParty :: string
  ceLocationZone :: string
  ceConditionNote :: string
  ceInspectionResult :: string
  cePayloadHash :: string
  cePreviousEventHash :: string
  ceAlgorithmSuite :: string
  ceClassicalKeyID :: string
  cePQCKeyID :: string
  ceClassicalSignature :: bytes
  cePQCSignature :: bytes
  ceIdempotencyKey :: string
  ceCreatedAtServer :: string
  ceNewStatus :: string

datatype asset_value =
    AAsset Asset
  | ACustody CustodyEvent
  | AKey string

datatype asset_error =
    AStubError
  | AUnmarshalError
  | AInvalidEventPayload
  | AIDRequired
  | AssetIDRequired
  | ToPartyRequired
  | AIdempotencyKeyRequired
  | NewStatusRequired
  | ASuiteNotAllowed string
  | ASignaturesRequired
  | AssetExists string
  | AssetMissing string
  | InvalidLifecycleTransition string string
  | AWrongSequence int int
  | APreviousHashMismatch string string
  | ADuplicateIdempotencyKey string

section \<open>Keys\<close>

definition assetKey :: "('s, 'v) stub_ops \<Rightarrow> string \<Rightarrow> asset_error + string" where
  "assetKey stub i = orErr AStubError (opCreateCompositeKey stub ''asset'' [i])"

definition custodyEventKey :: "('s, 'v) stub_ops \<Rightarrow> string \<Rightarrow> int \<Rightarrow> asset_error + string" where
  "custodyEventKey stub assetID sequence =
     orErr AStubError (opCreateCompositeKey stub ''custody_event'' [assetID, fmt_09d sequence])"

definition assetIdempotencyKey :: "('s, 'v) stub_ops \<Rightarrow> string \<Rightarrow> asset_error + string" where
  "assetIdempotencyKey stub key = orErr AStubError (opCreateCompositeKey stub ''idempotency'' [key])"

definition agetState :: "('s, 'v) stub_ops \<Rightarrow> 's \<Rightarrow> string \<Rightarrow> asset_error + 'v option" where
  "agetState stub s key = orErr AStubError (opGetState stub s key)"

definition aputState :: "('s, 'v) stub_ops \<Rightarrow> 's \<Rightarrow> string \<Rightarrow> 'v \<Rightarrow> asset_error + 's" where
  "aputState stub s key v = orErr AStubError (opPutState stub s key v)"

definition asetEvent :: "('s, 'v) stub_ops \<Rightarrow> 's \<Rightarrow> string \<Rightarrow> 'v \<Rightarrow> asset_error + 's" where
  "asetEvent stub s n v = orErr AStubError (opSetEvent stub s n v)"

section \<open>Operations\<close>

definition CreateAsset ::
  "('s, asset_value) stub_ops \<Rightarrow> 's \<Rightarrow> string \<Rightarrow> string \<Rightarrow> string \<Rightarrow> asset_error + 's" where
  "CreateAsset stub s i organizationID assetTag =
     (if i = [] then Inl AIDRequired
      else bindE (assetKey stub i) (\<lambda>key.
           bindE (agetState stub s key) (\<lambda>existing.
             if existing \<noteq> None then Inl (AssetExists i)
             else
               let data = AAsset
                     \<lparr>asID = i, asOrganizationID = organizationID, asAssetTag = assetTag,
                      asStatus = ''CREATED'', asLatestEventSequence = 0, asLatestEventPayloadHash = []\<rparr>
               in bindE (aputState stub s key data) (\<lambda>s'.
                    asetEvent stub s' ''AssetCreated'' data))))"

definition GetAsset :: "('s, asset_value) stub_ops \<Rightarrow> 's \<Rightarrow> string \<Rightarrow> asset_error + Asset" where
  "GetAsset stub s i =
     bindE (assetKey stub i) (\<lambda>key.
     bindE (agetState stub s key) (\<lambda>data.
       case data of
         None \<Rightarrow> Inl (AssetMissing i)
       | Some (AAsset asset) \<Rightarrow> Inr asset
       | Some _ \<Rightarrow> Inl AUnmarshalError))"

definition RecordCustodyEvent ::
  "('s, asset_value) stub_ops \<Rightarrow> 's \<Rightarrow> CustodyEvent option \<Rightarrow> asset_error + 's" where
  "RecordCustodyEvent stub s eventJSON =
     (case eventJSON of
        None \<Rightarrow> Inl AInvalidEventPayload
      | Some event \<Rightarrow>
          if ceAssetID event = [] then Inl AssetIDRequired
          else if ceToParty event = [] then Inl ToPartyRequired
          else if ceIdempotencyKey event = [] then Inl AIdempotencyKeyRequired
          else if ceNewStatus event = [] then Inl NewStatusRequired
          else if ceAlgorithmSuite event \<noteq> assetAlgorithmSuite
            then Inl (ASuiteNotAllowed (ceAlgorithmSuite event))
          else if length (ceClassicalSignature event) = 0 \<or> length (cePQCSignature event) = 0
            then Inl ASignaturesRequired
          else
            bindE (GetAsset stub s (ceAssetID event)) (\<lambda>asset.
            if \<not> isLifecycleTransitionAllowed (asStatus asset) (ceNewStatus event)
              then Inl (InvalidLifecycleTransition (asStatus asset) (ceNewStatus event))
            else if ceEventSequence event \<noteq> asLatestEventSequence asset + 1
              then Inl (AWrongSequence (asLatestEventSequence asset + 1) (ceEventSequence event))
            else if cePreviousEventHash event \<noteq> asLatestEventPayloadHash asset
              then Inl (APreviousHashMismatch (asLatestEventPayloadHash asset) (cePreviousEventHash event))
            else
              bindE (assetIdempotencyKey stub (ceIdempotencyKey event)) (\<lambda>idemKey.
              bindE (agetState stub s idemKey) (\<lambda>existingIdem.
              if existingIdem \<noteq> None then Inl (ADuplicateIdempotencyKey (ceIdempotencyKey event))
              else
                bindE (custodyEventKey stub (ceAssetID event) (ceEventSequence event)) (\<lambda>evtKey.
                bindE (aputState stub s evtKey (ACustody event)) (\<lambda>s1.
                bindE (aputState stub s1 idemKey (AKey evtKey)) (\<lambda>s2.
                let asset' = asset\<lparr>asLatestEventSequence := ceEventSequence event,
                                   asLatestEventPayloadHash := cePayloadHash event,
                                   asStatus := ceNewStatus event\<rparr>
                in bindE (assetKey stub (ceAssetID event)) (\<lambda>assetKeyStr.
                   bindE (aputState stub s2 assetKeyStr (AAsset asset')) (\<lambda>s3.
                     asetEvent stub s3 ''CustodyEventRecorded'' (ACustody event))))))))))"

fun unmarshalCustody :: "(string \<times> asset_value) list \<Rightarrow> asset_error + CustodyEvent list" where
  "unmarshalCustody [] = Inr []"
| "unmarshalCustody ((k, ACustody evt) # kvs) = bindE (unmarshalCustody kvs) (\<lambda>evts. Inr (evt # evts))"
| "unmarshalCustody ((k, _) # kvs) = Inl AUnmarshalError"

definition GetCustodyHistory ::
  "('s, asset_value) stub_ops \<Rightarrow> 's \<Rightarrow> string \<Rightarrow> asset_error + CustodyEvent list" where
  "GetCustodyHistory stub s assetID =
     bindE (orErr AStubError (opScan stub s ''custody_event'' [assetID])) unmarshalCustody"

end
