(* ===== verification/Asset_Ledger.thy ===== *)
theory Asset_Ledger
  imports Asset_Contract
begin

text \<open>
  What the asset custody contract promises.  The ghost argument \<open>ev\<close> of the invariant
  \<open>asset_inv\<close> is the custody history of every asset; each accepted call appends at most one event
  to it, so that the history the contract reads back is a hash chain, a path in the
  lifecycle graph, and append-only.
\<close>

section \<open>Histories\<close>

definition custodyLastHash :: "CustodyEvent list \<Rightarrow> string" where
  "custodyLastHash es = (if es = [] then [] else cePayloadHash (last es))"

definition custodyStatus :: "CustodyEvent list \<Rightarrow> string" where
  "custodyStatus es = (if es = [] then ''CREATED'' else ceNewStatus (last es))"

definition custodyWellFormed :: "CustodyEvent \<Rightarrow> bool" where
  "custodyWellFormed e \<longleftrightarrow>
     ceAssetID e \<noteq> [] \<and> ceToParty e \<noteq> [] \<and> ceIdempotencyKey e \<noteq> [] \<and> ceNewStatus e \<noteq> [] \<and>
     ceAlgorithmSuite e = assetAlgorithmSuite \<and> ceClassicalSignature e \<noteq> [] \<and> cePQCSignature e \<noteq> []"

definition custody_step :: "string \<Rightarrow> CustodyEvent list \<Rightarrow> CustodyEvent \<Rightarrow> bool" where
  "custody_step i es e \<longleftrightarrow>
     custodyWellFormed e \<and> ceAssetID e = i \<and> ceEventSequence e = int (length es) + 1 \<and>
     cePreviousEventHash e = custodyLastHash es \<and>
     isLifecycleTransitionAllowed (custodyStatus es) (ceNewStatus e)"

definition custody_chain :: "string \<Rightarrow> CustodyEvent list \<Rightarrow> bool" where
  "custody_chain i es \<longleftrightarrow> (\<forall>n < length es. custody_step i (take n es) (es ! n))"

definition asset_ok :: "string \<Rightarrow> Asset \<Rightarrow> CustodyEvent list \<Rightarrow> bool" where
  "asset_ok i a es \<longleftrightarrow>
     asID a = i \<and> asLatestEventSequence a = int (length es) \<and>
     asLatestEventPayloadHash a = custodyLastHash es \<and> asStatus a = custodyStatus es"

definition custody_log ::
  "(string \<times> string list \<Rightarrow> asset_value option) \<Rightarrow> string \<Rightarrow> CustodyEvent list \<Rightarrow> bool" where
  "custody_log L i es \<longleftrightarrow>
     (\<forall>n < length es. L (''custody_event'', [i, fmt_09d (int n + 1)]) = Some (ACustody (es ! n))) \<and>
     (\<forall>as v. L (''custody_event'', i # as) = Some v \<longrightarrow>
        (\<exists>n < length es. as = [fmt_09d (int n + 1)] \<and> v = ACustody (es ! n)))"

definition asset_inv ::
  "(string \<times> string list \<Rightarrow> asset_value option) \<Rightarrow> (string \<Rightarrow> CustodyEvent list) \<Rightarrow> bool" where
  "asset_inv L ev \<longleftrightarrow>
     (\<forall>i. custody_log L i (ev i)) \<and> (\<forall>i. custody_chain i (ev i)) \<and>
     (\<forall>i. L (''asset'', [i]) = None \<longrightarrow> ev i = []) \<and>
     (\<forall>i v. L (''asset'', [i]) = Some v \<longrightarrow> (\<exists>a. v = AAsset a \<and> asset_ok i a (ev i))) \<and>
     (\<forall>i. distinct (map ceIdempotencyKey (ev i))) \<and>
     (\<forall>i. \<forall>e \<in> set (ev i). L (''idempotency'', [ceIdempotencyKey e]) \<noteq> None)"

lemma custody_chain_snoc: "custody_chain i (es @ [e]) \<longleftrightarrow> custody_chain i es \<and> custody_step i es e"
proof -
  have "custody_chain i (es @ [e]) \<longleftrightarrow>
      (\<forall>n < length es. custody_step i (take n (es @ [e])) ((es @ [e]) ! n)) \<and> custody_step i es e"
    unfolding custody_chain_def length_append_singleton less_Suc_eq by auto
  also have "(\<forall>n < length es. custody_step i (take n (es @ [e])) ((es @ [e]) ! n)) \<longleftrightarrow> custody_chain i es"
    unfolding custody_chain_def by (simp add: nth_append)
  finally show ?thesis .
qed

lemma custody_last_snoc [simp]:
  "custodyLastHash (es @ [e]) = cePayloadHash e" "custodyStatus (es @ [e]) = ceNewStatus e"
  by (simp_all add: custodyLastHash_def custodyStatus_def)

lemma custody_log_snoc:
  assumes "custody_log L i es" "L' (''custody_event'', [i, fmt_09d (int (length es) + 1)]) = Some (ACustody e)"
    and "\<And>as. as \<noteq> [fmt_09d (int (length es) + 1)] \<Longrightarrow>
      L' (''custody_event'', i # as) = L (''custody_event'', i # as)"
  shows "custody_log L' i (es @ [e])"
  unfolding custody_log_def
proof (intro conjI allI impI)
  fix n assume n: "n < length (es @ [e])"
  show "L' (''custody_event'', [i, fmt_09d (int n + 1)]) = Some (ACustody ((es @ [e]) ! n))"
  proof (cases "n = length es")
    case False
    then show ?thesis using n assms(1) assms(3) [of "[fmt_09d (int n + 1)]"]
      by (simp add: custody_log_def nth_append)
  qed (use assms(2) in simp)
next
  fix as v assume v: "L' (''custody_event'', i # as) = Some v"
  show "\<exists>n < length (es @ [e]). as = [fmt_09d (int n + 1)] \<and> v = ACustody ((es @ [e]) ! n)"
  proof (cases "as = [fmt_09d (int (length es) + 1)]")
    case True
    then show ?thesis using v assms(2) by (intro exI [of _ "length es"]) simp
  next
    case False
    then obtain n where "n < length es" "as = [fmt_09d (int n + 1)]" "v = ACustody (es ! n)"
      using v assms(1) assms(3) [OF False] unfolding custody_log_def by metis
    then show ?thesis by (intro exI [of _ n]) (simp add: nth_append)
  qed
qed

section \<open>Each accepted call extends the histories\<close>

lemmas asset_call_defs = assetKey_def custodyEventKey_def assetIdempotencyKey_def agetState_def
  aputState_def asetEvent_def

lemma unmarshalCustody_map:
  "unmarshalCustody (map (\<lambda>n. (key n, ACustody (f n))) ns) = Inr (map f ns)"
  by (induction ns) simp_all

lemma GetAsset_look:
  "look stub s (''asset'', [i]) = Some (AAsset a) \<longleftrightarrow> GetAsset stub s i = Inr a"
  by (auto simp: look_eq_Some GetAsset_def asset_call_defs bind_simps
      split: option.split_asm asset_value.split_asm)

lemma RecordCustodyEvent_Inr:
  assumes "RecordCustodyEvent stub s (Some e) = Inr s'"
  obtains a ik ek ak s1 s2 s3 where
    "custodyWellFormed e"
    "GetAsset stub s (ceAssetID e) = Inr a"
    "isLifecycleTransitionAllowed (asStatus a) (ceNewStatus e)"
    "ceEventSequence e = asLatestEventSequence a + 1"
    "cePreviousEventHash e = asLatestEventPayloadHash a"
    "opCreateCompositeKey stub ''idempotency'' [ceIdempotencyKey e] = Some ik"
    "opGetState stub s ik = Some None"
    "opCreateCompositeKey stub ''custody_event'' [ceAssetID e, fmt_09d (ceEventSequence e)] = Some ek"
    "opPutState stub s ek (ACustody e) = Some s1"
    "opPutState stub s1 ik (AKey ek) = Some s2"
    "opCreateCompositeKey stub ''asset'' [ceAssetID e] = Some ak"
    "opPutState stub s2 ak (AAsset (a\<lparr>asLatestEventSequence := ceEventSequence e, asLatestEventPayloadHash := cePayloadHash e, asStatus := ceNewStatus e\<rparr>)) = Some s3"
    "opSetEvent stub s3 ''CustodyEventRecorded'' (ACustody e) = Some s'"
  using assms
  unfolding RecordCustodyEvent_def asset_call_defs Let_def option.case bind_simps custodyWellFormed_def
  by auto

locale asset_ledger = fabric_stub stub wf
  for stub :: "('s, asset_value) stub_ops" and wf :: "'s \<Rightarrow> bool"
begin

lemma CreateAsset_look:
  assumes "CreateAsset stub s i org tag = Inr s'"
  shows "i \<noteq> [] \<and> look stub s (''asset'', [i]) = None \<and> look stub s' = (look stub s)((''asset'', [i]) \<mapsto>
    AAsset \<lparr>asID = i, asOrganizationID = org, asAssetTag = tag, asStatus = ''CREATED'',
      asLatestEventSequence = 0, asLatestEventPayloadHash = []\<rparr>)"
proof -
  let ?d = "AAsset \<lparr>asID = i, asOrganizationID = org, asAssetTag = tag, asStatus = ''CREATED'',
      asLatestEventSequence = 0, asLatestEventPayloadHash = []\<rparr>"
  from assms obtain k s1 where k: "opCreateCompositeKey stub ''asset'' [i] = Some k" "i \<noteq> []"
    and get: "opGetState stub s k = Some None" and put: "opPutState stub s k ?d = Some s1"
    and ev: "opSetEvent stub s1 ''AssetCreated'' ?d = Some s'"
    by (auto simp: CreateAsset_def asset_call_defs bind_simps Let_def)
  show ?thesis
    using k(2) get_absent_look [OF k(1) get] look_put [OF k(1) put] look_set_event [OF ev] by simp
qed

lemma RecordCustodyEvent_look:
  assumes "RecordCustodyEvent stub s (Some e) = Inr s'"
  shows "\<exists>a k. GetAsset stub s (ceAssetID e) = Inr a \<and> custodyWellFormed e \<and>
    isLifecycleTransitionAllowed (asStatus a) (ceNewStatus e) \<and>
    ceEventSequence e = asLatestEventSequence a + 1 \<and> cePreviousEventHash e = asLatestEventPayloadHash a \<and>
    look stub s (''idempotency'', [ceIdempotencyKey e]) = None \<and>
    look stub s' = (look stub s)
      ((''custody_event'', [ceAssetID e, fmt_09d (ceEventSequence e)]) \<mapsto> ACustody e,
       (''idempotency'', [ceIdempotencyKey e]) \<mapsto> AKey k,
       (''asset'', [ceAssetID e]) \<mapsto> AAsset (a\<lparr>asLatestEventSequence := ceEventSequence e,
          asLatestEventPayloadHash := cePayloadHash e, asStatus := ceNewStatus e\<rparr>))"
proof -
  from assms obtain a ik ek ak s1 s2 s3 where
    w: "custodyWellFormed e" and a: "GetAsset stub s (ceAssetID e) = Inr a"
    and tr: "isLifecycleTransitionAllowed (asStatus a) (ceNewStatus e)"
    and sq: "ceEventSequence e = asLatestEventSequence a + 1"
    and ph: "cePreviousEventHash e = asLatestEventPayloadHash a"
    and ik: "opCreateCompositeKey stub ''idempotency'' [ceIdempotencyKey e] = Some ik"
    and none: "opGetState stub s ik = Some None"
    and ek: "opCreateCompositeKey stub ''custody_event'' [ceAssetID e, fmt_09d (ceEventSequence e)] = Some ek"
    and s1: "opPutState stub s ek (ACustody e) = Some s1"
    and s2: "opPutState stub s1 ik (AKey ek) = Some s2"
    and ak: "opCreateCompositeKey stub ''asset'' [ceAssetID e] = Some ak"
    and s3: "opPutState stub s2 ak (AAsset (a\<lparr>asLatestEventSequence := ceEventSequence e,
          asLatestEventPayloadHash := cePayloadHash e, asStatus := ceNewStatus e\<rparr>)) = Some s3"
    and ev: "opSetEvent stub s3 ''CustodyEventRecorded'' (ACustody e) = Some s'"
    by (rule RecordCustodyEvent_Inr)
  have "look stub s' = (look stub s)
      ((''custody_event'', [ceAssetID e, fmt_09d (ceEventSequence e)]) \<mapsto> ACustody e,
       (''idempotency'', [ceIdempotencyKey e]) \<mapsto> AKey ek,
       (''asset'', [ceAssetID e]) \<mapsto> AAsset (a\<lparr>asLatestEventSequence := ceEventSequence e,
          asLatestEventPayloadHash := cePayloadHash e, asStatus := ceNewStatus e\<rparr>))"
    by (simp only: look_set_event [OF ev] look_put [OF ak s3] look_put [OF ik s2] look_put [OF ek s1])
  then show ?thesis using w a tr sq ph get_absent_look [OF ik none] by blast
qed

lemma asset_inv_create:
  assumes inv: "asset_inv (look stub s) ev" and "CreateAsset stub s i org tag = Inr s'"
  shows "asset_inv (look stub s') ev"
proof -
  note c = CreateAsset_look [OF assms(2)]
  have "ev i = []" using inv c by (simp add: asset_inv_def)
  then show ?thesis using inv c
    by (auto simp: asset_inv_def custody_log_def asset_ok_def custodyLastHash_def custodyStatus_def)
qed

lemma asset_inv_record:
  assumes inv: "asset_inv (look stub s) ev" and "RecordCustodyEvent stub s (Some e) = Inr s'"
  shows "asset_inv (look stub s') (ev(ceAssetID e := ev (ceAssetID e) @ [e]))"
proof -
  let ?i = "ceAssetID e" and ?ev = "ev(ceAssetID e := ev (ceAssetID e) @ [e])"
  let ?L = "look stub s" and ?L' = "look stub s'"
  obtain a k where a: "GetAsset stub s ?i = Inr a" and w: "custodyWellFormed e"
    and tr: "isLifecycleTransitionAllowed (asStatus a) (ceNewStatus e)"
    and sq: "ceEventSequence e = asLatestEventSequence a + 1"
    and ph: "cePreviousEventHash e = asLatestEventPayloadHash a"
    and fresh: "?L (''idempotency'', [ceIdempotencyKey e]) = None"
    and L': "?L' = ?L
      ((''custody_event'', [?i, fmt_09d (ceEventSequence e)]) \<mapsto> ACustody e,
       (''idempotency'', [ceIdempotencyKey e]) \<mapsto> AKey k,
       (''asset'', [?i]) \<mapsto> AAsset (a\<lparr>asLatestEventSequence := ceEventSequence e,
          asLatestEventPayloadHash := cePayloadHash e, asStatus := ceNewStatus e\<rparr>))"
    using RecordCustodyEvent_look [OF assms(2)] by blast
  have ok: "asset_ok ?i a (ev ?i)"
    using inv GetAsset_look [of stub s ?i a] a unfolding asset_inv_def by auto
  then have step: "custody_step ?i (ev ?i) e"
    using w tr sq ph by (simp add: asset_ok_def custody_step_def)
  have logs: "custody_log ?L' j (?ev j)" for j
  proof (cases "j = ?i")
    case True
    have "ceEventSequence e = int (length (ev ?i)) + 1" using step by (simp add: custody_step_def)
    then show ?thesis using True inv L'
      by (simp add: asset_inv_def custody_log_snoc [where L = "?L"])
  next
    case False
    then show ?thesis using inv L' by (simp add: asset_inv_def custody_log_def)
  qed
  have chains: "custody_chain j (?ev j)" for j
    using inv step by (simp add: asset_inv_def custody_chain_snoc)
  have used: "?L (''idempotency'', [ceIdempotencyKey e']) \<noteq> None" if "e' \<in> set (ev j)" for e' j
    using inv that by (simp add: asset_inv_def)
  then have "ceIdempotencyKey e \<notin> ceIdempotencyKey ` set (ev ?i)" using fresh by (metis imageE)
  then have dist: "distinct (map ceIdempotencyKey (?ev j))" for j
    using inv by (simp add: asset_inv_def)
  have hdr: "asset_ok ?i (a\<lparr>asLatestEventSequence := ceEventSequence e,
      asLatestEventPayloadHash := cePayloadHash e, asStatus := ceNewStatus e\<rparr>) (?ev ?i)"
    using ok step by (simp add: asset_ok_def custody_step_def)
  have old: "\<exists>a'. v = AAsset a' \<and> asset_ok j a' (ev j)" if "?L (''asset'', [j]) = Some v" for j v
    using inv that by (simp add: asset_inv_def)
  show ?thesis
    unfolding asset_inv_def
  proof (intro conjI allI impI ballI)
    fix j v assume "?L' (''asset'', [j]) = Some v"
    then show "\<exists>a'. v = AAsset a' \<and> asset_ok j a' (?ev j)"
      using hdr old L' by (cases "j = ?i") auto
  next
    fix j assume "?L' (''asset'', [j]) = None"
    then show "?ev j = []" using inv L' by (cases "j = ?i") (auto simp: asset_inv_def)
  next
    fix j e' assume "e' \<in> set (?ev j)"
    then show "?L' (''idempotency'', [ceIdempotencyKey e']) \<noteq> None"
      using used L' by (auto split: if_splits)
  qed (use logs chains dist in blast)+
qed

end

interpretation fake_asset: asset_ledger fakeOps fakeWf ..

section \<open>Runs\<close>

datatype asset_call =
    CallCreateAsset string string string
  | CallRecordCustody "CustodyEvent option"

fun asset_invoke :: "('s, asset_value) stub_ops \<Rightarrow> 's \<Rightarrow> asset_call \<Rightarrow> asset_error + 's" where
  "asset_invoke stub s (CallCreateAsset i org tag) = CreateAsset stub s i org tag"
| "asset_invoke stub s (CallRecordCustody e) = RecordCustodyEvent stub s e"

inductive asset_reach :: "('s, asset_value) stub_ops \<Rightarrow> ('s \<Rightarrow> bool) \<Rightarrow> 's \<Rightarrow> bool"
  for stub :: "('s, asset_value) stub_ops" and wf :: "'s \<Rightarrow> bool" where
  asset_init: "wf s \<Longrightarrow> look stub s = Map.empty \<Longrightarrow> asset_reach stub wf s"
| asset_call: "asset_reach stub wf s \<Longrightarrow> asset_invoke stub s c = Inr s' \<Longrightarrow> asset_reach stub wf s'"

definition asset_calls_to :: "('s, asset_value) stub_ops \<Rightarrow> 's \<Rightarrow> 's \<Rightarrow> bool" where
  "asset_calls_to stub = (\<lambda>s s'. \<exists>c. asset_invoke stub s c = Inr s')\<^sup>*\<^sup>*"

lemma asset_inv_empty: "asset_inv Map.empty (\<lambda>_. [])"
  by (simp add: asset_inv_def custody_log_def custody_chain_def)

context asset_ledger begin

lemma asset_invoke_inv:
  assumes "asset_inv (look stub s) ev" "asset_invoke stub s c = Inr s'"
  shows "\<exists>ev'. asset_inv (look stub s') ev' \<and> (\<forall>i. \<exists>more. ev' i = ev i @ more)"
proof (cases c)
  case (CallCreateAsset i org tag)
  then show ?thesis using assms asset_inv_create [OF assms(1)] by (intro exI [of _ ev]) simp
next
  case (CallRecordCustody e)
  show ?thesis
  proof (cases e)
    case None
    then show ?thesis using CallRecordCustody assms(2) by (simp add: RecordCustodyEvent_def)
  next
    case (Some e')
    then show ?thesis using CallRecordCustody assms asset_inv_record [OF assms(1), of e' s']
      by (intro exI [of _ "ev(ceAssetID e' := ev (ceAssetID e') @ [e'])"]) simp
  qed
qed

lemma asset_invoke_wf:
  assumes "wf s" "asset_invoke stub s c = Inr s'"
  shows "wf s'"
proof (cases c)
  case (CallCreateAsset i org tag)
  then show ?thesis using assms
    by (auto simp: CreateAsset_def asset_call_defs bind_simps Let_def intro: wf_put wf_set_event)
next
  case (CallRecordCustody e)
  show ?thesis
  proof (cases e)
    case None
    then show ?thesis using CallRecordCustody assms(2) by (simp add: RecordCustodyEvent_def)
  next
    case (Some e')
    have "RecordCustodyEvent stub s (Some e') = Inr s'" using Some CallRecordCustody assms(2) by simp
    then show ?thesis
    proof (rule RecordCustodyEvent_Inr, goal_cases)
      case (1 a ik ek ak s1 s2 s3)
      have "wf s1" using assms(1) 1(8,9) by (rule wf_put)
      then have "wf s2" using 1(6,10) by (rule wf_put)
      then have "wf s3" using 1(11,12) by (rule wf_put)
      then show ?case using 1(13) by (rule wf_set_event)
    qed
  qed
qed

lemma asset_reach_inv:
  assumes "asset_reach stub wf s"
  shows "\<exists>ev. asset_inv (look stub s) ev \<and> wf s"
  using assms
proof (induction rule: asset_reach.induct)
  case (asset_init s)
  then show ?case using asset_inv_empty by auto
next
  case (asset_call s c s')
  then show ?case using asset_invoke_inv asset_invoke_wf by blast
qed

lemma asset_calls_inv:
  assumes "asset_calls_to stub s s'" "asset_inv (look stub s) ev" "wf s"
  shows "\<exists>ev'. asset_inv (look stub s') ev' \<and> wf s' \<and> (\<forall>i. \<exists>more. ev' i = ev i @ more)"
  using assms(1) unfolding asset_calls_to_def
proof (induction rule: rtranclp_induct)
  case base
  then show ?case using assms(2,3) by (intro exI [of _ ev]) simp
next
  case (step y z)
  then obtain ev1 c where e1: "asset_inv (look stub y) ev1" "wf y" "\<forall>i. \<exists>more. ev1 i = ev i @ more"
    and c: "asset_invoke stub y c = Inr z" by blast
  obtain ev2 where e2: "asset_inv (look stub z) ev2" "\<forall>i. \<exists>more. ev2 i = ev1 i @ more"
    using asset_invoke_inv [OF e1(1) c] by blast
  have "\<exists>more. ev2 i = ev i @ more" for i using e1(3) e2(2) by (metis append.assoc)
  then show ?case using e2(1) asset_invoke_wf [OF e1(2) c] by blast
qed

lemma GetCustodyHistory_log:
  assumes "asset_inv (look stub s) ev" "wf s" "GetAsset stub s i = Inr a"
    and "asLatestEventSequence a < 10 ^ 9" "GetCustodyHistory stub s i = Inr es"
  shows "es = ev i" and "asset_ok i a (ev i)"
proof -
  show ok: "asset_ok i a (ev i)"
    using assms(1,3) GetAsset_look [of stub s i a] unfolding asset_inv_def by auto
  then have few: "int (length (ev i)) < 10 ^ 9" using assms(4) by (simp add: asset_ok_def)
  obtain kvs where kvs: "opScan stub s ''custody_event'' [i] = Some kvs"
    using assms(5) by (auto simp: GetCustodyHistory_def bind_simps)
  have log: "custody_log (look stub s) i (ev i)" using assms(1) by (simp add: asset_inv_def)
  obtain key where "kvs = map (\<lambda>n. (key n, ACustody (ev i ! n))) [0..<length (ev i)]"
  proof (rule numbered_scan [OF assms(2) few kvs, where f = "\<lambda>n. ACustody (ev i ! n)"])
    show "look stub s (''custody_event'', [i] @ [fmt_09d (int n + 1)]) = Some (ACustody (ev i ! n))"
      if "n < length (ev i)" for n using log that by (simp add: custody_log_def)
    show "\<exists>n < length (ev i). as' = [fmt_09d (int n + 1)] \<and> v = ACustody (ev i ! n)"
      if "look stub s (''custody_event'', [i] @ as') = Some v" for as' v
      using log that by (simp add: custody_log_def)
  qed
  then show "es = ev i"
    using assms(5) by (simp add: GetCustodyHistory_def kvs unmarshalCustody_map map_nth)
qed

lemma custody_history_chain:
  assumes "asset_reach stub wf s" "GetAsset stub s i = Inr a" "asLatestEventSequence a < 10 ^ 9"
    and "GetCustodyHistory stub s i = Inr es"
  shows "custody_chain i es \<and> asset_ok i a es \<and> distinct (map ceIdempotencyKey es)"
proof -
  obtain ev where ev: "asset_inv (look stub s) ev" "wf s" using asset_reach_inv [OF assms(1)] by blast
  then show ?thesis
    using GetCustodyHistory_log [OF ev assms(2-4)] by (simp add: asset_inv_def)
qed

lemma custody_history_extends:
  assumes "asset_reach stub wf s" "asset_calls_to stub s s'"
    and "GetAsset stub s i = Inr a" "GetAsset stub s' i = Inr a'" "asLatestEventSequence a' < 10 ^ 9"
    and "GetCustodyHistory stub s i = Inr es" "GetCustodyHistory stub s' i = Inr es'"
  shows "\<exists>more. es' = es @ more"
proof -
  obtain ev where ev: "asset_inv (look stub s) ev" "wf s" using asset_reach_inv [OF assms(1)] by blast
  obtain ev' where ev': "asset_inv (look stub s') ev'" "wf s'" and ext: "\<exists>more. ev' i = ev i @ more"
    using asset_calls_inv [OF assms(2) ev] by blast
  have es': "es' = ev' i" "asset_ok i a' (ev' i)" by (rule GetCustodyHistory_log [OF ev' assms(4,5,7)])+
  have "asset_ok i a (ev i)"
    using ev assms(3) GetAsset_look [of stub s i a] unfolding asset_inv_def by auto
  then have "asLatestEventSequence a < 10 ^ 9" using ext es'(2) assms(5) by (auto simp: asset_ok_def)
  then have "es = ev i" by (rule GetCustodyHistory_log(1) [OF ev assms(3) _ assms(6)])
  then show ?thesis using ext es' by simp
qed

end

end
