(* ===== verification/Asset_Properties.thy ===== *)
theory Asset_Properties
  imports Asset_Ledger
begin

text \<open>
  The properties of the asset custody contract, for every stub that satisfies the \<open>fabric_stub\<close>
  interface, with a concrete custody history on the in-memory stub as witness.
\<close>

section \<open>A concrete run\<close>

definition sampleCustody :: "int \<Rightarrow> string \<Rightarrow> string \<Rightarrow> string \<Rightarrow> CustodyEvent" where
  "sampleCustody n prev h st =
     \<lparr>ceAssetID = ''a1'', ceEventSequence = n, ceFromParty = ''x'', ceToParty = ''y'', ceLocationZone = [],
      ceConditionNote = [], ceInspectionResult = [], cePayloadHash = h, cePreviousEventHash = prev,
      ceAlgorithmSuite = ''HYBRID_ED25519_MLDSA65_V1'', ceClassicalKeyID = ''k1'', cePQCKeyID = ''k2'',
      ceClassicalSignature = ''s1'', cePQCSignature = ''s2'', ceIdempotencyKey = h, ceCreatedAtServer = [],
      ceNewStatus = st\<rparr>"

definition sampleCustodyEvents :: "CustodyEvent list" where
  "sampleCustodyEvents = [sampleCustody 1 [] ''h1'' ''RECEIVED'', sampleCustody 2 ''h1'' ''h2'' ''INSPECTED'',
     sampleCustody 3 ''h2'' ''h3'' ''STORED'', sampleCustody 4 ''h3'' ''h4'' ''RETIRED'']"

fun runAssetCalls :: "('s, asset_value) stub_ops \<Rightarrow> 's \<Rightarrow> asset_call list \<Rightarrow> asset_error + 's" where
  "runAssetCalls stub s [] = Inr s"
| "runAssetCalls stub s (c # cs) = bindE (asset_invoke stub s c) (\<lambda>s'. runAssetCalls stub s' cs)"

definition sampleAssetRun :: "nat \<Rightarrow> asset_value fakeStub" where
  "sampleAssetRun n =
     (case runAssetCalls fakeOps newFakeStub (take n (CallCreateAsset ''a1'' ''org'' ''tag'' #
        map (\<lambda>e. CallRecordCustody (Some e)) sampleCustodyEvents)) of Inr s \<Rightarrow> s | Inl _ \<Rightarrow> newFakeStub)"

definition sampleAsset :: "int \<Rightarrow> string \<Rightarrow> string \<Rightarrow> Asset" where
  "sampleAsset n h st = \<lparr>asID = ''a1'', asOrganizationID = ''org'', asAssetTag = ''tag'', asStatus = st,
     asLatestEventSequence = n, asLatestEventPayloadHash = h\<rparr>"

lemma sampleAsset_reads:
  "GetAsset fakeOps (sampleAssetRun 5) ''a1'' = Inr (sampleAsset 4 ''h4'' ''RETIRED'')"
  "GetCustodyHistory fakeOps (sampleAssetRun 5) ''a1'' = Inr sampleCustodyEvents"
  "GetAsset fakeOps (sampleAssetRun 2) ''a1'' = Inr (sampleAsset 1 ''h1'' ''RECEIVED'')"
  "GetCustodyHistory fakeOps (sampleAssetRun 2) ''a1'' = Inr (take 1 sampleCustodyEvents)"
  by code_simp+

lemma runAssetCalls_calls:
  "runAssetCalls stub s cs = Inr s' \<Longrightarrow> asset_calls_to stub s s'"
proof (induction cs arbitrary: s)
  case Nil
  then show ?case by (simp add: asset_calls_to_def)
next
  case (Cons c cs)
  then obtain s1 where "asset_invoke stub s c = Inr s1" "asset_calls_to stub s1 s'"
    by (auto simp: bind_simps)
  then show ?case unfolding asset_calls_to_def by (blast intro: converse_rtranclp_into_rtranclp)
qed

lemma asset_calls_reach:
  assumes "asset_calls_to stub s s'" "asset_reach stub sane s"
  shows "asset_reach stub sane s'"
  using assms(1) unfolding asset_calls_to_def
  by (induction rule: rtranclp_induct) (auto intro: assms(2) asset_call)

lemma sampleAsset_calls:
  "asset_calls_to fakeOps newFakeStub (sampleAssetRun 2)"
  "asset_calls_to fakeOps (sampleAssetRun 2) (sampleAssetRun 5)"
proof -
  have "runAssetCalls fakeOps newFakeStub [CallCreateAsset ''a1'' ''org'' ''tag'',
      CallRecordCustody (Some (hd sampleCustodyEvents))] = Inr (sampleAssetRun 2)" by code_simp
  then show "asset_calls_to fakeOps newFakeStub (sampleAssetRun 2)" by (rule runAssetCalls_calls)
  have "runAssetCalls fakeOps (sampleAssetRun 2) (map (\<lambda>e. CallRecordCustody (Some e))
      (tl sampleCustodyEvents)) = Inr (sampleAssetRun 5)" by code_simp
  then show "asset_calls_to fakeOps (sampleAssetRun 2) (sampleAssetRun 5)" by (rule runAssetCalls_calls)
qed

lemma sampleAsset_reach:
  "asset_reach fakeOps fakeWf (sampleAssetRun 2)" "asset_reach fakeOps fakeWf (sampleAssetRun 5)"
proof -
  have "asset_reach fakeOps fakeWf newFakeStub" by (rule asset_init) simp_all
  then show "asset_reach fakeOps fakeWf (sampleAssetRun 2)"
    by (rule asset_calls_reach [OF sampleAsset_calls(1)])
  then show "asset_reach fakeOps fakeWf (sampleAssetRun 5)"
    by (rule asset_calls_reach [OF sampleAsset_calls(2)])
qed

lemma asset_ledger_of_stub: "fabric_stub stub sane \<Longrightarrow> asset_ledger stub sane"
  by (simp add: asset_ledger_def)

lemma retired_is_stuck: "\<not> isLifecycleTransitionAllowed ''RETIRED'' st"
  by (simp add: isLifecycleTransitionAllowed_def allowedLifecycleTransitions_def)

lemma retired_asset_step:
  assumes "asset_ledger stub sane" "asset_invoke stub s c = Inr s'"
    and "look stub s (''asset'', [i]) = Some (AAsset a)" "asStatus a = ''RETIRED''"
  shows "look stub s' (''asset'', [i]) = Some (AAsset a)"
proof (cases c)
  case (CallCreateAsset j org tag)
  then show ?thesis using asset_ledger.CreateAsset_look [OF assms(1), of s j org tag s'] assms by auto
next
  case (CallRecordCustody e)
  show ?thesis
  proof (cases e)
    case None
    then show ?thesis using CallRecordCustody assms(2) by (simp add: RecordCustodyEvent_def)
  next
    case (Some e')
    then have "RecordCustodyEvent stub s (Some e') = Inr s'" using CallRecordCustody assms(2) by simp
    note r = asset_ledger.RecordCustodyEvent_look [OF assms(1) this]
    have "ceAssetID e' \<noteq> i"
      using r assms(3,4) retired_is_stuck GetAsset_look [of stub s i] by auto
    then show ?thesis using r assms(3) by auto
  qed
qed

section \<open>Properties\<close>

text \<open>
  C25. The custody history the contract returns is a gap-free hash chain of well-formed events and
  a path through the lifecycle graph starting at CREATED; idempotency keys are distinct; the
  asset header carries the sequence number, hash and status of the last event.
\<close>

theorem custody_history_is_lifecycle_chain:
  assumes "fabric_stub stub sane" "asset_reach stub sane s" "GetAsset stub s i = Inr a"
    and "asLatestEventSequence a < 10 ^ 9" "GetCustodyHistory stub s i = Inr es"
  shows "custody_chain i es \<and> asset_ok i a es \<and> distinct (map ceIdempotencyKey es)"
  using asset_ledger.custody_history_chain [OF asset_ledger_of_stub [OF assms(1)] assms(2-5)] .

lemma custody_history_is_lifecycle_chain_witness:
  "custody_chain ''a1'' sampleCustodyEvents \<and>
   asset_ok ''a1'' (sampleAsset 4 ''h4'' ''RETIRED'') sampleCustodyEvents"
  using custody_history_is_lifecycle_chain [OF fake.fabric_stub_axioms sampleAsset_reach(2)
      sampleAsset_reads(1) _ sampleAsset_reads(2)] by (simp add: sampleAsset_def)

text \<open>
  Custody history is append-only: whatever calls are accepted between two reads, the later
  history of an asset extends the earlier one.
\<close>

theorem custody_history_append_only:
  assumes "fabric_stub stub sane" "asset_reach stub sane s" "asset_calls_to stub s s'"
    and "GetAsset stub s i = Inr a" "GetAsset stub s' i = Inr a'" "asLatestEventSequence a' < 10 ^ 9"
    and "GetCustodyHistory stub s i = Inr es" "GetCustodyHistory stub s' i = Inr es'"
  shows "\<exists>more. es' = es @ more"
  using asset_ledger.custody_history_extends [OF asset_ledger_of_stub [OF assms(1)] assms(2-8)] .

lemma custody_history_append_only_witness:
  "\<exists>more. sampleCustodyEvents = take 1 sampleCustodyEvents @ more"
  using custody_history_append_only [OF fake.fabric_stub_axioms sampleAsset_reach(1) sampleAsset_calls(2)
      sampleAsset_reads(3) sampleAsset_reads(1) _ sampleAsset_reads(4) sampleAsset_reads(2)]
  by (simp add: sampleAsset_def)

text \<open>
  A retired asset is final: no sequence of accepted calls changes its header again, so no
  custody event is ever appended to it.
\<close>

theorem retired_asset_is_final:
  assumes "fabric_stub stub sane" "asset_calls_to stub s s'" "GetAsset stub s i = Inr a"
    and "asStatus a = ''RETIRED''"
  shows "GetAsset stub s' i = Inr a"
proof -
  note A = asset_ledger_of_stub [OF assms(1)]
  have "look stub s' (''asset'', [i]) = Some (AAsset a)"
    using assms(2) unfolding asset_calls_to_def
  proof (induction rule: rtranclp_induct)
    case base
    then show ?case using assms(3) by (simp add: GetAsset_look)
  next
    case (step y z)
    then show ?case using retired_asset_step [OF A _ _ assms(4)] by blast
  qed
  then show ?thesis by (simp add: GetAsset_look)
qed

lemma retired_asset_is_final_witness:
  "GetAsset fakeOps (sampleAssetRun 5) ''a1'' = Inr (sampleAsset 4 ''h4'' ''RETIRED'')"
proof -
  have "asset_calls_to fakeOps (sampleAssetRun 5) (sampleAssetRun 5)" by (simp add: asset_calls_to_def)
  then show ?thesis
    by (rule retired_asset_is_final [OF fake.fabric_stub_axioms _ sampleAsset_reads(1)])
      (simp add: sampleAsset_def)
qed

end
