(* ===== verification/Crypto_Canonical.thy ===== *)
theory Crypto_Canonical
  imports Prelude
begin

text \<open>
  Canonical JSON and payload hashes, \<^verbatim>\<open>crypto/canonical.go\<close>.  A payload is the generic value that
  \<^verbatim>\<open>json.Marshal\<close> followed by a decode with \<^verbatim>\<open>UseNumber\<close> yields; an object is the list of its
  entries in the order a range over the Go map happens to produce them, with distinct keys.
  The string encoder of the standard library (HTML escaping on) is written out over the UTF-8 bytes.

  The main result is that the canonical bytes determine the payload up to the order of object
  keys, and do not depend on that order.
\<close>

section \<open>Payloads\<close>

datatype jval =
    JNull
  | JBool bool
  | JNum string
  | JStr string
  | JArr "jval list"
  | JObj "(string \<times> jval) list"

section \<open>Encoding of strings\<close>

definition code :: "char \<Rightarrow> nat" where
  "code c = of_char c"

definition hexDigit :: "nat \<Rightarrow> char" where
  "hexDigit n = (if n < 10 then char_of (48 + n) else char_of (87 + n))"

definition unhexDigit :: "char \<Rightarrow> nat" where
  "unhexDigit c = (if code c < 58 then code c - 48 else code c - 87)"

definition inRange :: "nat \<Rightarrow> nat \<Rightarrow> char \<Rightarrow> bool" where
  "inRange lo hi c \<longleftrightarrow> lo \<le> code c \<and> code c \<le> hi"

text \<open>The width of the UTF-8 sequence that a byte string starts with; 0 when it is malformed.\<close>

fun utf8Width :: "bytes \<Rightarrow> nat" where
  "utf8Width [] = 0"
| "utf8Width (a # r) =
     (if code a < 0x80 then 1
      else case r of
        [] \<Rightarrow> 0
      | b # r2 \<Rightarrow>
          if inRange 0xC2 0xDF a \<and> inRange 0x80 0xBF b then 2
          else (case r2 of
              [] \<Rightarrow> 0
            | c # r3 \<Rightarrow>
                if \<not> inRange 0x80 0xBF c then 0
                else if code a = 0xE0 \<and> inRange 0xA0 0xBF b then 3
                else if code a = 0xED \<and> inRange 0x80 0x9F b then 3
                else if inRange 0xE1 0xEF a \<and> code a \<noteq> 0xED \<and> inRange 0x80 0xBF b then 3
                else (case r3 of
                    [] \<Rightarrow> 0
                  | d # r4 \<Rightarrow>
                      if \<not> inRange 0x80 0xBF d then 0
                      else if code a = 0xF0 \<and> inRange 0x90 0xBF b then 4
                      else if inRange 0xF1 0xF3 a \<and> inRange 0x80 0xBF b then 4
                      else if code a = 0xF4 \<and> inRange 0x80 0x8F b then 4
                      else 0)))"

declare utf8Width.simps [simp del]

definition bsl :: char where
  "bsl = CHR 0x5C"

definition quot :: char where
  "quot = CHR 0x22"

definition uEscape :: "nat \<Rightarrow> bytes" where
  "uEscape n = [bsl, CHR ''u'', hexDigit (n div 4096 mod 16), hexDigit (n div 256 mod 16),
     hexDigit (n div 16 mod 16), hexDigit (n mod 16)]"

definition escByte :: "char \<Rightarrow> bytes" where
  "escByte c =
     (if c = bsl \<or> c = quot then [bsl, c]
      else if code c = 0x08 then [bsl, CHR ''b'']
      else if code c = 0x0C then [bsl, CHR ''f'']
      else if code c = 0x0A then [bsl, CHR ''n'']
      else if code c = 0x0D then [bsl, CHR ''r'']
      else if code c = 0x09 then [bsl, CHR ''t'']
      else if code c < 0x20 \<or> c = CHR ''<'' \<or> c = CHR ''>'' \<or> c = CHR ''&'' then uEscape (code c)
      else [c])"

definition sepLine :: bytes where
  "sepLine = [CHR 0xE2, CHR 0x80, CHR 0xA8]"

definition sepPara :: bytes where
  "sepPara = [CHR 0xE2, CHR 0x80, CHR 0xA9]"

function quoteBody :: "bytes \<Rightarrow> bytes" where
  "quoteBody s =
     (case s of
        [] \<Rightarrow> []
      | c # r \<Rightarrow>
          if code c < 0x80 then escByte c @ quoteBody r
          else if utf8Width s = 0 then uEscape 0xFFFD @ quoteBody r
          else if take 3 s = sepLine then uEscape 0x2028 @ quoteBody (drop 2 r)
          else if take 3 s = sepPara then uEscape 0x2029 @ quoteBody (drop 2 r)
          else take (utf8Width s) s @ quoteBody (drop (utf8Width s - 1) r))"
  by pat_completeness auto
termination by (relation "measure length") auto

declare quoteBody.simps [simp del]

definition marshalString :: "string \<Rightarrow> bytes" where
  "marshalString s = [quot] @ quoteBody s @ [quot]"

section \<open>The canonical form\<close>

fun joinComma :: "bytes list \<Rightarrow> bytes" where
  "joinComma [] = []"
| "joinComma (x # xs) = x @ concat (map (\<lambda>y. CHR '','' # y) xs)"

fun writeCanonical :: "jval \<Rightarrow> bytes" where
  "writeCanonical JNull = ''null''"
| "writeCanonical (JBool val) = (if val then ''true'' else ''false'')"
| "writeCanonical (JNum val) = val"
| "writeCanonical (JStr val) = marshalString val"
| "writeCanonical (JArr val) = ''['' @ joinComma (map writeCanonical val) @ '']''"
| "writeCanonical (JObj val) =
     (let keys = sort (map fst val);
          written = map (\<lambda>(k, v). (k, writeCanonical v)) val
      in ''{'' @ joinComma (map (\<lambda>k. marshalString k @ '':'' @ the (map_of written k)) keys) @ ''}'')"

datatype crypto_error =
    MarshalFailed
  | SuiteRejected string
  | BadMLDSAPrivateKey
  | MLDSASignFailed
  | BadMLDSAPublicKey
  | BadX25519Key
  | RandomFailed
  | ECDHFailed
  | BadMLKEMKey
  | DecapsulateFailed
  | HKDFFailed
  | GoPanic

definition Canonicalize :: "jval option \<Rightarrow> crypto_error + bytes" where
  "Canonicalize v = (case v of None \<Rightarrow> Inl MarshalFailed | Some generic \<Rightarrow> Inr (writeCanonical generic))"

definition hexEncode :: "bytes \<Rightarrow> string" where
  "hexEncode bs = concat (map (\<lambda>c. [hexDigit (code c div 16), hexDigit (code c mod 16)]) bs)"

definition PayloadHash :: "(bytes \<Rightarrow> bytes) \<Rightarrow> jval option \<Rightarrow> crypto_error + string" where
  "PayloadHash sha256 v =
     bindE (Canonicalize v) (\<lambda>canon. Inr (''sha256:'' @ hexEncode (sha256 canon)))"

section \<open>Strings decode back\<close>

function validUtf8 :: "bytes \<Rightarrow> bool" where
  "validUtf8 s =
     (case s of [] \<Rightarrow> True | c # r \<Rightarrow> utf8Width s \<noteq> 0 \<and> validUtf8 (drop (utf8Width s - 1) r))"
  by pat_completeness auto
termination by (relation "measure length") auto

declare validUtf8.simps [simp del]

definition unU :: "bytes \<Rightarrow> bytes" where
  "unU h =
     (let n = foldl (\<lambda>a c. 16 * a + unhexDigit c) 0 h
      in if n = 0x2028 then sepLine else if n = 0x2029 then sepPara else [char_of n])"

definition unEsc :: "char \<Rightarrow> char" where
  "unEsc e =
     (if e = CHR ''b'' then CHR 0x08 else if e = CHR ''f'' then CHR 0x0C
      else if e = CHR ''n'' then CHR 0x0A else if e = CHR ''r'' then CHR 0x0D
      else if e = CHR ''t'' then CHR 0x09 else e)"

text \<open>Reads an encoded string up to its closing quote.\<close>

function unquoteBody :: "bytes \<Rightarrow> (bytes \<times> bytes) option" where
  "unquoteBody s =
     (case s of
        [] \<Rightarrow> None
      | c # r \<Rightarrow>
          if c = quot then Some ([], r)
          else if c = bsl then
            (case r of
               [] \<Rightarrow> None
             | e # r2 \<Rightarrow>
                 if e = CHR ''u'' then map_option (apfst ((@) (unU (take 4 r2)))) (unquoteBody (drop 4 r2))
                 else map_option (apfst ((#) (unEsc e))) (unquoteBody r2))
          else map_option (apfst ((#) c)) (unquoteBody r))"
  by pat_completeness auto
termination by (relation "measure length") auto

declare unquoteBody.simps [simp del]

lemma code_char_of [simp]: "n < 256 \<Longrightarrow> code (char_of n) = n"
  by (simp add: code_def)

lemma code_inj: "code a = code b \<longleftrightarrow> a = b"
  by (simp add: code_def)

lemma unhexDigit_hexDigit [simp]: "n < 16 \<Longrightarrow> unhexDigit (hexDigit n) = n"
  by (simp add: unhexDigit_def hexDigit_def)

lemma unU_hex:
  assumes "n < 65536" "n \<noteq> 0x2028" "n \<noteq> 0x2029"
  shows "unU (tl (tl (uEscape n))) = [char_of n]"
proof -
  define q1 q2 q3 where q: "q1 = n div 16" "q2 = q1 div 16" "q3 = q2 div 16"
  have "n div 256 = q2" "n div 4096 = q3" by (simp_all add: q div_mult2_eq [symmetric])
  moreover have "q3 < 16" using assms(1) by (simp add: q div_mult2_eq [symmetric])
  moreover have "16 * q3 + q2 mod 16 = q2" "16 * q2 + q1 mod 16 = q1" "16 * q1 + n mod 16 = n"
    by (simp_all add: q)
  ultimately have "16 * (16 * (16 * (n div 4096 mod 16) + n div 256 mod 16) + n div 16 mod 16) + n mod 16 = n"
    by (simp flip: q(1))
  then show ?thesis using assms by (simp add: unU_def uEscape_def)
qed

lemma bsl_ne_quot [simp]: "bsl \<noteq> quot" "quot \<noteq> bsl"
  by (simp_all add: bsl_def quot_def)

lemma unquote_u:
  "unquoteBody (uEscape n @ t) = map_option (apfst ((@) (unU (tl (tl (uEscape n)))))) (unquoteBody t)"
  by (simp add: uEscape_def unquoteBody.simps [of "bsl # _"])

lemma unquote_plain:
  "c \<noteq> quot \<Longrightarrow> c \<noteq> bsl \<Longrightarrow> unquoteBody (c # t) = map_option (apfst ((#) c)) (unquoteBody t)"
  by (simp add: unquoteBody.simps [of "c # t"])

lemma unquote_esc:
  "e \<noteq> CHR ''u'' \<Longrightarrow> unquoteBody (bsl # e # t) = map_option (apfst ((#) (unEsc e))) (unquoteBody t)"
  by (simp add: unquoteBody.simps [of "bsl # e # t"])

lemma code_eq_lits:
  "code c = 0x08 \<longleftrightarrow> c = CHR 0x08" "code c = 0x0C \<longleftrightarrow> c = CHR 0x0C" "code c = 0x0A \<longleftrightarrow> c = CHR 0x0A"
  "code c = 0x0D \<longleftrightarrow> c = CHR 0x0D" "code c = 0x09 \<longleftrightarrow> c = CHR 0x09"
  by (simp_all add: code_def flip: of_char_eq_iff [where ?'a = nat])

lemma escByte_ctrl:
  "escByte (CHR 0x08) = [bsl, CHR ''b'']" "escByte (CHR 0x0C) = [bsl, CHR ''f'']"
  "escByte (CHR 0x0A) = [bsl, CHR ''n'']" "escByte (CHR 0x0D) = [bsl, CHR ''r'']"
  "escByte (CHR 0x09) = [bsl, CHR ''t'']"
  by code_simp+

lemma unquote_escByte:
  assumes "code c < 0x80"
  shows "unquoteBody (escByte c @ t) = map_option (apfst ((#) c)) (unquoteBody t)"
proof -
  have u: "unU (tl (tl (uEscape (code c)))) = [c]"
    using assms unU_hex [of "code c"] by (simp add: code_def)
  have app: "((@) [c]) = ((#) c)" by (simp add: fun_eq_iff)
  consider "c = bsl \<or> c = quot" | "c \<in> {CHR 0x08, CHR 0x0C, CHR 0x0A, CHR 0x0D, CHR 0x09}"
    | "c \<noteq> bsl" "c \<noteq> quot" "c \<notin> {CHR 0x08, CHR 0x0C, CHR 0x0A, CHR 0x0D, CHR 0x09}" by blast
  then show ?thesis
  proof cases
    case 1
    then have "unEsc c = c" "c \<noteq> CHR ''u''" by (auto simp: unEsc_def bsl_def quot_def)
    then show ?thesis using 1 by (simp add: escByte_def unquote_esc)
  next
    case 2
    then show ?thesis
      by (elim insertE emptyE) (simp_all add: escByte_ctrl unquote_esc unEsc_def)
  next
    case 3
    then show ?thesis
      by (simp add: escByte_def code_eq_lits unquote_plain unquote_u u app)
  qed
qed

lemma utf8Width_bytes:
  assumes "code c \<ge> 0x80" "x \<in> set (take (utf8Width (c # r)) (c # r))"
  shows "code x \<ge> 0x80"
proof -
  have "utf8Width (c # r) = 0 \<or> utf8Width (c # r) = 2 \<and> code (hd r) \<ge> 0x80 \<or>
      utf8Width (c # r) = 3 \<and> code (hd r) \<ge> 0x80 \<and> code (hd (tl r)) \<ge> 0x80 \<or>
      utf8Width (c # r) = 4 \<and> code (hd r) \<ge> 0x80 \<and> code (hd (tl r)) \<ge> 0x80 \<and> code (hd (tl (tl r))) \<ge> 0x80"
    using assms(1) by (auto simp: utf8Width.simps inRange_def split: list.splits)
  then show ?thesis
    using assms by (cases r; cases "tl r"; cases "tl (tl r)") (auto simp: numeral_eq_Suc)
qed

lemma unquote_raw:
  "(\<And>x. x \<in> set xs \<Longrightarrow> code x \<ge> 0x80) \<Longrightarrow>
     unquoteBody (xs @ t) = map_option (apfst ((@) xs)) (unquoteBody t)"
proof (induction xs)
  case Nil
  show ?case by (simp add: apfst_def map_prod_def option.map_ident split_def id_def)
next
  case (Cons x xs)
  have "x \<noteq> quot" "x \<noteq> bsl" using Cons.prems [of x] by (auto simp: quot_def bsl_def code_def)
  moreover have "unquoteBody (xs @ t) = map_option (apfst ((@) xs)) (unquoteBody t)"
    using Cons by simp
  ultimately show ?case by (simp add: unquote_plain option.map_comp comp_def apfst_def map_prod_def split_def)
qed

lemma utf8Width_sep: "utf8Width (sepLine @ t) = 3" "utf8Width (sepPara @ t) = 3"
  by (simp_all add: sepLine_def sepPara_def utf8Width.simps inRange_def code_def)

lemma unU_sep: "unU (tl (tl (uEscape 0x2028))) = sepLine" "unU (tl (tl (uEscape 0x2029))) = sepPara"
  by (simp_all add: unU_def uEscape_def)

text \<open>A quoted string that is valid UTF-8 is read back unchanged, whatever follows it.\<close>

lemma unquote_quote:
  "validUtf8 s \<Longrightarrow> unquoteBody (quoteBody s @ quot # r) = Some (s, r)"
proof (induction s rule: quoteBody.induct)
  case (1 s)
  show ?case
  proof (cases s)
    case Nil
    then show ?thesis by (simp add: quoteBody.simps unquoteBody.simps)
  next
    case (Cons c t)
    have valid: "utf8Width (c # t) \<noteq> 0" "validUtf8 (drop (utf8Width (c # t) - 1) t)"
      using 1(6) Cons by (simp_all add: validUtf8.simps [of "c # t"])
    consider (ascii) "code c < 0x80" | (line) "\<not> code c < 0x80" "take 3 s = sepLine"
      | (para) "\<not> code c < 0x80" "take 3 s \<noteq> sepLine" "take 3 s = sepPara"
      | (raw) "\<not> code c < 0x80" "take 3 s \<noteq> sepLine" "take 3 s \<noteq> sepPara" by blast
    then show ?thesis
    proof cases
      case ascii
      then have "utf8Width (c # t) = 1" by (simp add: utf8Width.simps)
      then show ?thesis using 1(1) [OF Cons ascii] valid ascii Cons
        by (simp add: quoteBody.simps [of "c # t"] unquote_escByte)
    next
      case line
      have s: "s = sepLine @ drop 2 t" using line(2) Cons by (metis append_take_drop_id drop_Suc_Cons numeral_3_eq_3 numeral_2_eq_2)
      then have "utf8Width (c # t) = 3" using utf8Width_sep(1) Cons by metis
      then show ?thesis using 1(3) [OF Cons line(1) _ line(2)] valid line Cons s
        by (simp add: quoteBody.simps [of "c # t"] unquote_u unU_sep)
    next
      case para
      have s: "s = sepPara @ drop 2 t" using para(3) Cons by (metis append_take_drop_id drop_Suc_Cons numeral_3_eq_3 numeral_2_eq_2)
      then have "utf8Width (c # t) = 3" using utf8Width_sep(2) Cons by metis
      then show ?thesis using 1(4) [OF Cons para(1) _ para(2,3)] valid para Cons s
        by (simp add: quoteBody.simps [of "c # t"] unquote_u unU_sep)
    next
      case raw
      let ?w = "utf8Width (c # t)"
      have "unquoteBody (take ?w (c # t) @ quoteBody (drop (?w - 1) t) @ quot # r) =
          map_option (apfst ((@) (take ?w (c # t)))) (unquoteBody (quoteBody (drop (?w - 1) t) @ quot # r))"
        using utf8Width_bytes [of c _ t] raw(1) by (intro unquote_raw) auto
      moreover have "take ?w (c # t) @ drop (?w - 1) t = c # t"
        using valid(1) by (cases ?w) simp_all
      ultimately show ?thesis using 1(5) [OF Cons raw(1) _ raw(2,3)] valid raw Cons
        by (simp add: quoteBody.simps [of "c # t"])
    qed
  qed
qed

lemma marshalString_inj:
  assumes "validUtf8 s" "validUtf8 t" "marshalString s @ r = marshalString t @ r'"
  shows "s = t \<and> r = r'"
proof -
  have "quoteBody s @ quot # r = quoteBody t @ quot # r'"
    using assms(3) by (simp add: marshalString_def)
  then have "Some (s, r) = Some (t, r')"
    using unquote_quote [OF assms(1), of r] unquote_quote [OF assms(2), of r'] by metis
  then show ?thesis by simp
qed

section \<open>The canonical bytes determine the payload\<close>

text \<open>What a decoded payload satisfies, and its normal form: object keys in sorted order.\<close>

definition numChar :: "char \<Rightarrow> bool" where
  "numChar c \<longleftrightarrow> c \<in> set ''0123456789+-.eE''"

fun wfJson :: "jval \<Rightarrow> bool" where
  "wfJson (JNum val) = (val \<noteq> [] \<and> list_all numChar val \<and> hd val \<in> set ''-0123456789'')"
| "wfJson (JStr val) = validUtf8 val"
| "wfJson (JArr val) = list_all wfJson val"
| "wfJson (JObj val) = (distinct (map fst val) \<and> list_all (\<lambda>(k, v). validUtf8 k \<and> wfJson v) val)"
| "wfJson _ = True"

fun sortKeys :: "jval \<Rightarrow> jval" where
  "sortKeys (JArr val) = JArr (map sortKeys val)"
| "sortKeys (JObj val) = JObj (sort_key fst (map (\<lambda>(k, v). (k, sortKeys v)) val))"
| "sortKeys v = v"

fun printJson :: "jval \<Rightarrow> bytes" where
  "printJson JNull = ''null''"
| "printJson (JBool val) = (if val then ''true'' else ''false'')"
| "printJson (JNum val) = val"
| "printJson (JStr val) = marshalString val"
| "printJson (JArr val) = ''['' @ joinComma (map printJson val) @ '']''"
| "printJson (JObj val) =
     ''{'' @ joinComma (map (\<lambda>(k, v). marshalString k @ '':'' @ printJson v) val) @ ''}''"

lemma sorted_entries:
  assumes "distinct (map fst kvs)"
  shows "map (\<lambda>k. f k (the (map_of kvs k))) (sort (map fst kvs)) = map (\<lambda>(k, v). f k v) (sort_key fst kvs)"
proof -
  have keys: "map fst (sort_key fst kvs) = sort (map fst kvs)"
    using assms by (intro sorted_distinct_set_unique) (simp_all add: distinct_map sorted_sort_key)
  have look: "the (map_of kvs (fst p)) = snd p" if "p \<in> set (sort_key fst kvs)" for p
  proof -
    have "(fst p, snd p) \<in> set kvs" using that by (simp only: set_sort prod.collapse)
    with assms have "map_of kvs (fst p) = Some (snd p)" by (rule map_of_is_SomeI)
    then show ?thesis by simp
  qed
  show ?thesis
    unfolding keys [symmetric] map_map by (rule map_cong) (auto simp: look split_def)
qed

lemma sort_key_apsnd: "sort_key fst (map (apsnd f) xs) = map (apsnd f) (sort_key fst xs)"
proof (induction xs)
  case (Cons x xs)
  have "insort_key fst (apsnd f y) (map (apsnd f) ys) = map (apsnd f) (insort_key fst y ys)" for y ys
    by (induction ys) simp_all
  then show ?case using Cons by simp
qed simp

lemma writeCanonical_print: "wfJson v \<Longrightarrow> writeCanonical v = printJson (sortKeys v)"
proof (induction v rule: writeCanonical.induct)
  case (5 val)
  then show ?case by (simp add: list_all_iff cong: map_cong)
next
  case (6 val)
  let ?w = "map (\<lambda>(k, v). (k, writeCanonical v)) val" and ?s = "map (\<lambda>(k, v). (k, sortKeys v)) val"
  have w: "?w = map (apsnd printJson) ?s"
    using 6 by (auto simp: list_all_iff apsnd_def map_prod_def)
  have fsts: "map fst ?w = map fst val" "map fst ?s = map fst val" by (simp_all add: split_def comp_def)
  have "sort_key fst ?w = map (apsnd printJson) (sort_key fst ?s)"
    unfolding w by (rule sort_key_apsnd)
  then have "map (\<lambda>k. marshalString k @ '':'' @ the (map_of ?w k)) (sort (map fst val)) =
      map (\<lambda>(k, v). marshalString k @ '':'' @ printJson v) (sort_key fst ?s)"
    using sorted_entries [of ?w "\<lambda>k b. marshalString k @ '':'' @ b"] 6(2) fsts(1)
    by (simp add: split_def comp_def)
  then show ?case by (simp add: Let_def)
qed simp_all

lemma distinct_fst_sort [simp]: "distinct (map fst (sort_key fst xs)) \<longleftrightarrow> distinct (map fst xs)"
  by (simp add: distinct_map)

lemma wfJson_sortKeys: "wfJson v \<Longrightarrow> wfJson (sortKeys v)"
proof (induction v rule: sortKeys.induct)
  case (2 val)
  have "map fst (map (\<lambda>(k, v). (k, sortKeys v)) val) = map fst val" by (simp add: split_def comp_def)
  then have "distinct (map fst (sort_key fst (map (\<lambda>(k, v). (k, sortKeys v)) val)))"
    using 2(2) by (simp only: distinct_fst_sort wfJson.simps)
  then show ?case using 2 by (auto simp: list_all_iff)
qed (auto simp: list_all_iff)

text \<open>
  Unambiguous printing: what follows a value starts with a delimiter, so where the value ends is
  determined, and so is the value.
\<close>

definition delim :: "bytes \<Rightarrow> bool" where
  "delim r \<longleftrightarrow> r = [] \<or> hd r \<in> {CHR '','', CHR '']'', CHR ''}''}"

definition unambiguous :: "('a \<Rightarrow> bytes) \<Rightarrow> ('a \<Rightarrow> bool) \<Rightarrow> 'a \<Rightarrow> bool" where
  "unambiguous p ok x \<longleftrightarrow>
     (\<forall>y r r'. ok y \<longrightarrow> delim r \<longrightarrow> delim r' \<longrightarrow> p x @ r = p y @ r' \<longrightarrow> x = y \<and> r = r')"

lemma delim_Cons [simp]: "delim (CHR '','' # r)" "delim (CHR '']'' # r)" "delim (CHR ''}'' # r)"
  by (simp_all add: delim_def)

lemma unambiguousD:
  "unambiguous p ok x \<Longrightarrow> ok y \<Longrightarrow> delim r \<Longrightarrow> delim r' \<Longrightarrow> p x @ r = p y @ r' \<Longrightarrow> x = y \<and> r = r'"
  unfolding unambiguous_def by blast

lemma unambiguous_tail:
  assumes "\<forall>x \<in> set xs. unambiguous p ok x" "\<forall>y \<in> set ys. ok y" "z \<in> {CHR '']'', CHR ''}''}"
    and "concat (map (\<lambda>y. CHR '','' # p y) xs) @ z # r = concat (map (\<lambda>y. CHR '','' # p y) ys) @ z # r'"
  shows "xs = ys \<and> r = r'"
  using assms
proof (induction xs arbitrary: ys)
  case Nil
  then show ?case by (cases ys) auto
next
  case (Cons x xs)
  show ?case
  proof (cases ys)
    case Nil
    then show ?thesis using Cons.prems by auto
  next
    case (Cons y ys')
    have d: "delim (concat (map (\<lambda>y. CHR '','' # p y) us) @ z # t)" for us t
      using Cons.prems(3) by (cases us) auto
    have "x = y \<and> concat (map (\<lambda>y. CHR '','' # p y) xs) @ z # r =
        concat (map (\<lambda>y. CHR '','' # p y) ys') @ z # r'"
      by (rule unambiguousD [of p ok x y]) (use Cons.prems(1,2,4) Cons d in simp_all)
    then show ?thesis using Cons Cons.IH [of ys'] Cons.prems by simp
  qed
qed

lemma unambiguous_join:
  assumes "\<forall>x \<in> set xs. unambiguous p ok x" "\<forall>y \<in> set ys. ok y" "z \<in> {CHR '']'', CHR ''}''}"
    and "\<And>x t. x \<in> set xs \<union> set ys \<Longrightarrow> p x @ t \<noteq> [] \<and> hd (p x @ t) \<noteq> z"
    and "joinComma (map p xs) @ z # r = joinComma (map p ys) @ z # r'"
  shows "xs = ys \<and> r = r'"
proof (cases xs; cases ys)
  fix x xs' y ys' assume xs: "xs = x # xs'" and ys: "ys = y # ys'"
  have d: "delim (concat (map (\<lambda>y. CHR '','' # p y) us) @ z # t)" for us t
    using assms(3) by (cases us) auto
  have "x = y \<and> concat (map (\<lambda>y. CHR '','' # p y) xs') @ z # r =
      concat (map (\<lambda>y. CHR '','' # p y) ys') @ z # r'"
    by (rule unambiguousD [of p ok x y]) (use assms(1,2,5) xs ys d in \<open>simp_all add: comp_def\<close>)
  then show ?thesis using unambiguous_tail [of xs' p ok ys' z r r'] assms xs ys by simp
next
  fix y ys' assume "xs = []" "ys = y # ys'"
  then show ?thesis using assms(4) [of y] assms(5) by (auto simp: comp_def) (metis list.sel(1) append_assoc)
next
  fix x xs' assume "xs = x # xs'" "ys = []"
  then show ?thesis using assms(4) [of x] assms(5) by (auto simp: comp_def) (metis list.sel(1) append_assoc)
qed (use assms(5) in simp)

lemma print_hd:
  assumes "wfJson w"
  obtains "w = JNull" | b where "w = JBool b"
  | n c t where "w = JNum n" "n = c # t" "c \<in> set ''-0123456789''"
  | s t where "w = JStr s" "printJson w = quot # t"
  | xs t where "w = JArr xs" "printJson w = CHR ''['' # t"
  | kvs t where "w = JObj kvs" "printJson w = CHR ''{'' # t"
proof (cases w)
  case (JNum n)
  then show ?thesis using assms that(3) by (cases n) auto
qed (use that in \<open>auto simp: marshalString_def\<close>)

lemma print_hd_not_close:
  assumes "wfJson w"
  shows "printJson w @ t \<noteq> [] \<and> hd (printJson w @ t) \<noteq> CHR '']''"
  using assms by (cases rule: print_hd) (auto simp: quot_def)

lemma number_token:
  assumes "list_all numChar m" "list_all numChar n" "delim r" "delim r'" "m @ r = n @ r'"
  shows "m = n \<and> r = r'"
proof -
  have "takeWhile numChar (k @ t) = k" if "list_all numChar k" "delim t" for k t
    using that by (cases t) (auto simp: takeWhile_append2 list_all_iff delim_def numChar_def)
  then have "m = n" using assms by metis
  then show ?thesis using assms(5) by simp
qed

definition printEntry :: "string \<times> jval \<Rightarrow> bytes" where
  "printEntry kv = marshalString (fst kv) @ '':'' @ printJson (snd kv)"

lemma printEntry_hd: "printEntry kv @ t \<noteq> [] \<and> hd (printEntry kv @ t) \<noteq> CHR ''}''"
  by (simp add: printEntry_def marshalString_def quot_def)

lemma printEntry_unambiguous:
  assumes "validUtf8 (fst kv)" "unambiguous printJson wfJson (snd kv)"
  shows "unambiguous printEntry (\<lambda>kv. validUtf8 (fst kv) \<and> wfJson (snd kv)) kv"
  unfolding unambiguous_def
proof (intro allI impI, elim conjE)
  fix kv' r r'
  assume ok: "validUtf8 (fst kv')" "wfJson (snd kv')" and d: "delim r" "delim r'"
    and eq: "printEntry kv @ r = printEntry kv' @ r'"
  have "fst kv = fst kv' \<and> '':'' @ printJson (snd kv) @ r = '':'' @ printJson (snd kv') @ r'"
    using eq by (intro marshalString_inj [OF assms(1) ok(1)]) (simp add: printEntry_def)
  moreover then have "snd kv = snd kv' \<and> r = r'"
    using unambiguousD [OF assms(2) ok(2) d] by simp
  ultimately show "kv = kv' \<and> r = r'" by (simp add: prod_eq_iff)
qed

lemma printJson_Obj: "printJson (JObj val) = ''{'' @ joinComma (map printEntry val) @ ''}''"
  by (simp add: printEntry_def [abs_def] split_def)

lemma printJson_unambiguous: "wfJson v \<Longrightarrow> unambiguous printJson wfJson v"
proof (induction v rule: printJson.induct)
  case (5 val)
  have "JArr val = w \<and> r = r'"
    if w: "wfJson w" and d: "delim r" "delim r'" and eq: "printJson (JArr val) @ r = printJson w @ r'" for w r r'
    using w
  proof (cases rule: print_hd)
    case (5 ys)
    have "val = ys \<and> r = r'"
    proof (rule unambiguous_join [of val printJson wfJson ys "CHR '']''" r r'])
      show "printJson x @ t \<noteq> [] \<and> hd (printJson x @ t) \<noteq> CHR '']''" if "x \<in> set val \<union> set ys" for x t
        using that w 5(1) "5.prems" by (intro print_hd_not_close) (auto simp: list_all_iff)
    qed (use "5.IH" "5.prems" w eq 5(1) in \<open>auto simp: list_all_iff\<close>)
    then show ?thesis using 5(1) by simp
  qed (use eq in \<open>auto simp: quot_def split: if_splits\<close>)
  then show ?case unfolding unambiguous_def by blast
next
  case (6 val)
  have "JObj val = w \<and> r = r'"
    if w: "wfJson w" and d: "delim r" "delim r'" and eq: "printJson (JObj val) @ r = printJson w @ r'" for w r r'
    using w
  proof (cases rule: print_hd)
    case (6 ys)
    have "\<forall>kv \<in> set val. unambiguous printEntry (\<lambda>kv. validUtf8 (fst kv) \<and> wfJson (snd kv)) kv"
      using "6.IH" "6.prems" by (auto simp: list_all_iff intro!: printEntry_unambiguous)
    then have "val = ys \<and> r = r'"
      using eq w 6(1) printEntry_hd unfolding 6(1) printJson_Obj
      by (intro unambiguous_join [of val printEntry _ ys "CHR ''}''" r r']) (auto simp: list_all_iff)
    then show ?thesis using 6(1) by simp
  qed (use eq in \<open>auto simp: quot_def split: if_splits\<close>)
  then show ?case unfolding unambiguous_def by blast
next
  case (3 val)
  have "JNum val = w \<and> r = r'"
    if w: "wfJson w" and d: "delim r" "delim r'" and eq: "printJson (JNum val) @ r = printJson w @ r'" for w r r'
    using w
  proof (cases rule: print_hd)
    case (3 n)
    then show ?thesis using "3.prems" w eq d number_token [of val n r r'] by simp
  qed (use eq "3.prems" in \<open>cases val; auto simp: quot_def split: if_splits\<close>)+
  then show ?case unfolding unambiguous_def by blast
next
  case (4 val)
  have "JStr val = w \<and> r = r'"
    if w: "wfJson w" and d: "delim r" "delim r'" and eq: "printJson (JStr val) @ r = printJson w @ r'" for w r r'
    using w
  proof (cases rule: print_hd)
    case (4 n)
    then show ?thesis using "4.prems" w eq marshalString_inj [of val n r r'] by simp
  qed (use eq in \<open>auto simp: quot_def marshalString_def split: if_splits\<close>)
  then show ?case unfolding unambiguous_def by blast
next
  case 1
  show ?case unfolding unambiguous_def
    by (intro allI impI, erule print_hd) (auto simp: quot_def split: if_splits)
next
  case (2 b)
  show ?case unfolding unambiguous_def
    by (intro allI impI, erule print_hd) (auto simp: quot_def split: if_splits)
qed

lemma hexDigit_inj: "m < 16 \<Longrightarrow> n < 16 \<Longrightarrow> hexDigit m = hexDigit n \<longleftrightarrow> m = n"
  using unhexDigit_hexDigit by metis

lemma div_mod_eq_iff: "m div 16 = n div 16 \<and> m mod 16 = n mod 16 \<longleftrightarrow> m = (n::nat)"
  by (metis div_mult_mod_eq)

lemma hexEncode_inj: "hexEncode s = hexEncode t \<longleftrightarrow> s = t"
proof (induction s arbitrary: t)
  case Nil
  then show ?case by (cases t) (simp_all add: hexEncode_def)
next
  case (Cons a s)
  have "code c div 16 < 16" for c using nat_of_char_less_256 [of c] by (simp add: code_def less_mult_imp_div_less)
  then have "hexDigit (code a div 16) = hexDigit (code b div 16) \<and> hexDigit (code a mod 16) = hexDigit (code b mod 16)
      \<longleftrightarrow> code a = code b" for b
    using div_mod_eq_iff [of "code a" "code b"] by (simp add: hexDigit_inj)
  then show ?case using Cons by (cases t) (auto simp: hexEncode_def code_inj)
qed

lemma writeCanonical_eq_iff:
  assumes "wfJson v" "wfJson w"
  shows "writeCanonical v = writeCanonical w \<longleftrightarrow> sortKeys v = sortKeys w"
proof
  assume "writeCanonical v = writeCanonical w"
  then have "printJson (sortKeys v) @ [] = printJson (sortKeys w) @ []"
    using assms by (simp add: writeCanonical_print)
  then show "sortKeys v = sortKeys w"
    using unambiguousD [OF printJson_unambiguous [OF wfJson_sortKeys [OF assms(1)]]
        wfJson_sortKeys [OF assms(2)], of "[]" "[]"]
    by (simp add: delim_def)
qed (simp add: writeCanonical_print assms)

section \<open>Properties\<close>

text \<open>
  C27. The payload hash identifies a payload: two payloads have the same hash exactly when they
  are the same document up to the order of object keys.  The hypotheses are that the two payloads
  are decoded JSON (valid UTF-8 strings, number literals, distinct keys) and that
  SHA-256 does not collide on their two canonical encodings.
\<close>

theorem payload_hash_determines_payload:
  assumes "wfJson v" "wfJson w" "inj_on sha256 {writeCanonical v, writeCanonical w}"
  shows "PayloadHash sha256 (Some v) = PayloadHash sha256 (Some w) \<longleftrightarrow> sortKeys v = sortKeys w"
proof -
  have "sha256 (writeCanonical v) = sha256 (writeCanonical w) \<longleftrightarrow> writeCanonical v = writeCanonical w"
    using inj_on_eq_iff [OF assms(3)] by simp
  moreover have "PayloadHash sha256 (Some v) = PayloadHash sha256 (Some w) \<longleftrightarrow>
      sha256 (writeCanonical v) = sha256 (writeCanonical w)"
    by (simp add: PayloadHash_def Canonicalize_def hexEncode_inj)
  ultimately show ?thesis using writeCanonical_eq_iff [OF assms(1,2)] by blast
qed

definition samplePayload :: "bool \<Rightarrow> jval" where
  "samplePayload b = (if b then JObj [(''a'', JNum ''1''), (''b'', JArr [JNull, JStr ''x''])]
     else JObj [(''b'', JArr [JNull, JStr ''x'']), (''a'', JNum ''1'')])"

lemma payload_hash_determines_payload_witness:
  "PayloadHash (\<lambda>x. x) (Some (samplePayload True)) = PayloadHash (\<lambda>x. x) (Some (samplePayload False)) \<and>
   PayloadHash (\<lambda>x. x) (Some (samplePayload True)) \<noteq> PayloadHash (\<lambda>x. x) (Some JNull)"
proof -
  have wf: "wfJson (samplePayload True)" "wfJson (samplePayload False)" "wfJson JNull" by code_simp+
  have "sortKeys (samplePayload True) = sortKeys (samplePayload False)"
    "sortKeys (samplePayload True) \<noteq> sortKeys JNull" by code_simp+
  then show ?thesis
    using payload_hash_determines_payload [OF wf(1,2), of "\<lambda>x. x"]
      payload_hash_determines_payload [OF wf(1,3), of "\<lambda>x. x"] by (simp add: inj_on_def)
qed

end
