(* ===== verification/Crypto_Hybrid.thy ===== *)
theory Crypto_Hybrid
  imports Crypto_Canonical
begin

text \<open>
  Hybrid signatures and the hybrid KEM: \<^verbatim>\<open>crypto/suite.go\<close>, \<^verbatim>\<open>signing_context.go\<close>, \<^verbatim>\<open>classical.go\<close>,
  \<^verbatim>\<open>mldsa.go\<close>, \<^verbatim>\<open>hybrid.go\<close> and \<^verbatim>\<open>kem.go\<close>.  The primitives (Ed25519, ML-DSA-65, SHA-256, X25519,
  ML-KEM-768, HKDF) are arguments of the definitions, records of functions over byte strings;
  random choices are explicit arguments.  \<^verbatim>\<open>ed25519.Sign\<close> and \<^verbatim>\<open>ed25519.Verify\<close> panic on a key of
  the wrong length: that is \<open>None\<close> in the record and the error \<open>GoPanic\<close> in the model.
\<close>

section \<open>Suites and signing contexts\<close>

definition SuiteHybridEd25519MLDSA65V1 :: string where
  "SuiteHybridEd25519MLDSA65V1 = ''HYBRID_ED25519_MLDSA65_V1''"

definition suiteRegistry :: "string \<Rightarrow> (string \<times> string) option" where
  "suiteRegistry = [SuiteHybridEd25519MLDSA65V1 \<mapsto> (''Ed25519'', ''ML-DSA-65'')]"

definition ValidateSuite :: "string \<Rightarrow> crypto_error option" where
  "ValidateSuite s = (if suiteRegistry s = None then Some (SuiteRejected s) else None)"

record SigningContext =
  scApplication :: string
  scEnvironment :: string
  scTransactionType :: string
  scSchemaVersion :: string
  scTransactionID :: string

definition nl :: char where
  "nl = CHR 0x0A"

definition bind :: "SigningContext \<Rightarrow> string \<Rightarrow> bytes" where
  "bind c payloadHash =
     ''pqc-ledger-sig-ctx/v1'' @ [nl] @ ''application='' @ scApplication c @ [nl] @
     ''environment='' @ scEnvironment c @ [nl] @ ''transaction_type='' @ scTransactionType c @ [nl] @
     ''schema_version='' @ scSchemaVersion c @ [nl] @ ''transaction_id='' @ scTransactionID c @ [nl] @
     ''payload_hash='' @ payloadHash"

section \<open>Hybrid signatures\<close>

record prims =
  pEdSign :: "bytes \<Rightarrow> bytes \<Rightarrow> bytes option"
  pEdVerify :: "bytes \<Rightarrow> bytes \<Rightarrow> bytes \<Rightarrow> bool option"
  pNewPrivateKey :: "bytes \<Rightarrow> bytes option"
  pSign :: "bytes \<Rightarrow> bytes \<Rightarrow> bytes option"
  pNewPublicKey :: "bytes \<Rightarrow> bytes option"
  pVerify :: "bytes \<Rightarrow> bytes \<Rightarrow> bytes \<Rightarrow> bool"
  pSha256 :: "bytes \<Rightarrow> bytes"

definition SignClassical :: "prims \<Rightarrow> bytes \<Rightarrow> bytes \<Rightarrow> crypto_error + bytes" where
  "SignClassical P priv message = orErr GoPanic (pEdSign P priv message)"

definition VerifyClassical :: "prims \<Rightarrow> bytes \<Rightarrow> bytes \<Rightarrow> bytes \<Rightarrow> crypto_error + bool" where
  "VerifyClassical P pub message sig = orErr GoPanic (pEdVerify P pub message sig)"

definition SignMLDSA :: "prims \<Rightarrow> bytes \<Rightarrow> bytes \<Rightarrow> crypto_error + bytes" where
  "SignMLDSA P private message =
     bindE (orErr BadMLDSAPrivateKey (pNewPrivateKey P private)) (\<lambda>sk.
       orErr MLDSASignFailed (pSign P sk message))"

definition VerifyMLDSA :: "prims \<Rightarrow> bytes \<Rightarrow> bytes \<Rightarrow> bytes \<Rightarrow> crypto_error + bool" where
  "VerifyMLDSA P public message sig =
     bindE (orErr BadMLDSAPublicKey (pNewPublicKey P public)) (\<lambda>pk. Inr (pVerify P pk message sig))"

record HybridSignature =
  hsAlgorithmSuite :: string
  hsClassicalKeyID :: string
  hsPQCKeyID :: string
  hsClassicalSignature :: bytes
  hsPQCSignature :: bytes

record SigningIdentity =
  siClassicalKeyID :: string
  siClassicalPrivate :: bytes
  siPQCKeyID :: string
  siPQCPrivate :: bytes

definition SignHybrid ::
  "prims \<Rightarrow> SigningIdentity \<Rightarrow> SigningContext \<Rightarrow> jval option \<Rightarrow> crypto_error + (HybridSignature \<times> string)" where
  "SignHybrid P identity ctx payload =
     bindE (PayloadHash (pSha256 P) payload) (\<lambda>payloadHash.
     let bound = bind ctx payloadHash in
     bindE (SignClassical P (siClassicalPrivate identity) bound) (\<lambda>classicalSig.
     bindE (SignMLDSA P (siPQCPrivate identity) bound) (\<lambda>pqcSig.
       Inr (\<lparr>hsAlgorithmSuite = SuiteHybridEd25519MLDSA65V1,
             hsClassicalKeyID = siClassicalKeyID identity, hsPQCKeyID = siPQCKeyID identity,
             hsClassicalSignature = classicalSig, hsPQCSignature = pqcSig\<rparr>, payloadHash))))"

record VerificationKeys =
  vkClassicalPublic :: bytes
  vkPQCPublic :: bytes

record VerifyHybridResult =
  vrSuiteAllowed :: bool
  vrClassicalValid :: bool
  vrPQCValid :: bool

definition OK :: "VerifyHybridResult \<Rightarrow> bool" where
  "OK r \<longleftrightarrow> vrSuiteAllowed r \<and> vrClassicalValid r \<and> vrPQCValid r"

text \<open>
  Go returns the partial result together with the error, so the outcome is a pair; \<open>Inl\<close> is
  left for the panic.
\<close>

definition VerifyHybridWithHash ::
  "prims \<Rightarrow> VerificationKeys \<Rightarrow> HybridSignature \<Rightarrow> SigningContext \<Rightarrow> string \<Rightarrow>
     crypto_error + (VerifyHybridResult \<times> crypto_error option)" where
  "VerifyHybridWithHash P keys sig ctx payloadHash =
     (let result = \<lparr>vrSuiteAllowed = False, vrClassicalValid = False, vrPQCValid = False\<rparr> in
      case ValidateSuite (hsAlgorithmSuite sig) of
        Some err \<Rightarrow> Inr (result, Some err)
      | None \<Rightarrow>
          let result = result\<lparr>vrSuiteAllowed := True\<rparr>; bound = bind ctx payloadHash in
          bindE (VerifyClassical P (vkClassicalPublic keys) bound (hsClassicalSignature sig)) (\<lambda>classicalValid.
          let result = result\<lparr>vrClassicalValid := classicalValid\<rparr> in
          case VerifyMLDSA P (vkPQCPublic keys) bound (hsPQCSignature sig) of
            Inl err \<Rightarrow> Inr (result, Some err)
          | Inr pqcValid \<Rightarrow> Inr (result\<lparr>vrPQCValid := pqcValid\<rparr>, None)))"

definition VerifyHybrid ::
  "prims \<Rightarrow> VerificationKeys \<Rightarrow> HybridSignature \<Rightarrow> SigningContext \<Rightarrow> jval option \<Rightarrow>
     crypto_error + (VerifyHybridResult \<times> crypto_error option)" where
  "VerifyHybrid P keys sig ctx payload =
     (case PayloadHash (pSha256 P) payload of
        Inl err \<Rightarrow> Inr (\<lparr>vrSuiteAllowed = False, vrClassicalValid = False, vrPQCValid = False\<rparr>, Some err)
      | Inr payloadHash \<Rightarrow> VerifyHybridWithHash P keys sig ctx payloadHash)"

section \<open>The hybrid KEM\<close>

record kem_prims =
  kNewPublicKey :: "bytes \<Rightarrow> bytes option"
  kPublicBytes :: "bytes \<Rightarrow> bytes"
  kECDH :: "bytes \<Rightarrow> bytes \<Rightarrow> bytes option"
  kNewEncapsulationKey :: "bytes \<Rightarrow> bytes option"
  kEncapsulationBytes :: "bytes \<Rightarrow> bytes"
  kEncapsulate :: "bytes \<Rightarrow> bytes \<Rightarrow> bytes \<times> bytes"
  kDecapsulate :: "bytes \<Rightarrow> bytes \<Rightarrow> bytes option"
  kHKDF :: "bytes \<Rightarrow> string \<Rightarrow> nat \<Rightarrow> bytes option"

definition hybridKEMInfo :: string where
  "hybridKEMInfo = ''pqc-ledger/hybrid-kem/x25519+mlkem768/v1''"

record HybridKEMKeyPair =
  kpX25519Private :: bytes
  kpMLKEMPrivate :: bytes

record HybridKEMPublicKey =
  kpubX25519 :: bytes
  kpubMLKEM :: bytes

definition GenerateHybridKEMKeyPair :: "bytes option \<Rightarrow> bytes option \<Rightarrow> crypto_error + HybridKEMKeyPair" where
  "GenerateHybridKEMKeyPair x25519Rand mlkemRand =
     bindE (orErr RandomFailed x25519Rand) (\<lambda>x25519Priv.
     bindE (orErr RandomFailed mlkemRand) (\<lambda>mlkemPriv.
       Inr \<lparr>kpX25519Private = x25519Priv, kpMLKEMPrivate = mlkemPriv\<rparr>))"

definition PublicKey :: "kem_prims \<Rightarrow> HybridKEMKeyPair \<Rightarrow> HybridKEMPublicKey" where
  "PublicKey K kp =
     \<lparr>kpubX25519 = kPublicBytes K (kpX25519Private kp),
      kpubMLKEM = kEncapsulationBytes K (kpMLKEMPrivate kp)\<rparr>"

definition combineSharedSecrets :: "kem_prims \<Rightarrow> bytes \<Rightarrow> bytes \<Rightarrow> crypto_error + bytes" where
  "combineSharedSecrets K x25519Shared mlkemShared =
     (let secret = x25519Shared @ mlkemShared in orErr HKDFFailed (kHKDF K secret hybridKEMInfo 32))"

definition HybridEncapsulate ::
  "kem_prims \<Rightarrow> bytes option \<Rightarrow> bytes \<Rightarrow> HybridKEMPublicKey \<Rightarrow> crypto_error + (bytes \<times> bytes \<times> bytes)" where
  "HybridEncapsulate K ephemeralRand coins recipient =
     bindE (orErr BadX25519Key (kNewPublicKey K (kpubX25519 recipient))) (\<lambda>recipientX25519Pub.
     bindE (orErr RandomFailed ephemeralRand) (\<lambda>ephemeralPriv.
     bindE (orErr ECDHFailed (kECDH K ephemeralPriv recipientX25519Pub)) (\<lambda>x25519Shared.
     bindE (orErr BadMLKEMKey (kNewEncapsulationKey K (kpubMLKEM recipient))) (\<lambda>recipientMLKEMPub.
     let (mlkemShared, ciphertext) = kEncapsulate K recipientMLKEMPub coins in
     bindE (combineSharedSecrets K x25519Shared mlkemShared) (\<lambda>combined.
       Inr (combined, kPublicBytes K ephemeralPriv, ciphertext))))))"

definition HybridDecapsulate ::
  "kem_prims \<Rightarrow> HybridKEMKeyPair \<Rightarrow> bytes \<Rightarrow> bytes \<Rightarrow> crypto_error + bytes" where
  "HybridDecapsulate K kp x25519EphemeralPublic mlkemCiphertext =
     bindE (orErr BadX25519Key (kNewPublicKey K x25519EphemeralPublic)) (\<lambda>ephemeralPub.
     bindE (orErr ECDHFailed (kECDH K (kpX25519Private kp) ephemeralPub)) (\<lambda>x25519Shared.
     bindE (orErr DecapsulateFailed (kDecapsulate K (kpMLKEMPrivate kp) mlkemCiphertext)) (\<lambda>mlkemShared.
       combineSharedSecrets K x25519Shared mlkemShared)))"

section \<open>Signing contexts are bound\<close>




text \<open>
  Fields that contain a line feed break this, although the comment on \<^verbatim>\<open>SigningContext\<close> says
  that a signature for one context can never be replayed for another.
\<close>

lemma bind_ambiguous_with_newlines:
  "\<exists>c c'. c \<noteq> c' \<and> bind c h = bind c' h"
proof -
  define x y where "x = ''a'' @ [nl] @ ''environment=b''" and "y = ''b'' @ [nl] @ ''environment=c''"
  let ?c = "\<lambda>a e. \<lparr>scApplication = a, scEnvironment = e, scTransactionType = [], scSchemaVersion = [],
    scTransactionID = []\<rparr>"
  have "?c x ''c'' \<noteq> ?c ''a'' y" by (simp add: x_def y_def)
  moreover have "bind (?c x ''c'') h = bind (?c ''a'' y) h" by (simp add: bind_def x_def y_def)
  ultimately show ?thesis by blast
qed

section \<open>Sign and verify\<close>

definition prims_correct :: "prims \<Rightarrow> SigningIdentity \<Rightarrow> VerificationKeys \<Rightarrow> bool" where
  "prims_correct P identity keys \<longleftrightarrow>
     (\<forall>m s. pEdSign P (siClassicalPrivate identity) m = Some s \<longrightarrow>
        pEdVerify P (vkClassicalPublic keys) m s = Some True) \<and>
     (\<exists>pk. pNewPublicKey P (vkPQCPublic keys) = Some pk \<and>
        (\<forall>sk m s. pNewPrivateKey P (siPQCPrivate identity) = Some sk \<longrightarrow> pSign P sk m = Some s \<longrightarrow>
           pVerify P pk m s))"

lemma ValidateSuite_None: "ValidateSuite s = None \<longleftrightarrow> s = SuiteHybridEd25519MLDSA65V1"
  by (simp add: ValidateSuite_def suiteRegistry_def)

lemma ValidateSuite_Some: "ValidateSuite s = Some e \<longleftrightarrow> s \<noteq> SuiteHybridEd25519MLDSA65V1 \<and> e = SuiteRejected s"
  by (auto simp: ValidateSuite_def suiteRegistry_def)

lemma SignHybrid_Inr:
  "SignHybrid P identity ctx payload = Inr (sig, h) \<longleftrightarrow>
     (\<exists>cs sk ps. PayloadHash (pSha256 P) payload = Inr h \<and>
        pEdSign P (siClassicalPrivate identity) (bind ctx h) = Some cs \<and>
        pNewPrivateKey P (siPQCPrivate identity) = Some sk \<and> pSign P sk (bind ctx h) = Some ps \<and>
        sig = \<lparr>hsAlgorithmSuite = SuiteHybridEd25519MLDSA65V1, hsClassicalKeyID = siClassicalKeyID identity,
          hsPQCKeyID = siPQCKeyID identity, hsClassicalSignature = cs, hsPQCSignature = ps\<rparr>)"
  by (auto simp: SignHybrid_def SignClassical_def SignMLDSA_def bind_simps Let_def)

lemma VerifyHybridWithHash_OK:
  "(\<exists>r err. VerifyHybridWithHash P keys sig ctx h = Inr (r, err) \<and> OK r) \<longleftrightarrow>
     hsAlgorithmSuite sig = SuiteHybridEd25519MLDSA65V1 \<and>
     pEdVerify P (vkClassicalPublic keys) (bind ctx h) (hsClassicalSignature sig) = Some True \<and>
     (\<exists>pk. pNewPublicKey P (vkPQCPublic keys) = Some pk \<and> pVerify P pk (bind ctx h) (hsPQCSignature sig))"
  by (auto simp: VerifyHybridWithHash_def VerifyClassical_def VerifyMLDSA_def Let_def OK_def bind_simps
      ValidateSuite_None ValidateSuite_Some orErr_def bindE_def split: option.splits sum.splits)

lemma SignHybrid_verifies:
  assumes "prims_correct P identity keys" "SignHybrid P identity ctx payload = Inr (sig, h)"
  shows "PayloadHash (pSha256 P) payload = Inr h \<and>
    VerifyHybrid P keys sig ctx payload =
      Inr (\<lparr>vrSuiteAllowed = True, vrClassicalValid = True, vrPQCValid = True\<rparr>, None) \<and>
    VerifyHybridWithHash P keys sig ctx h =
      Inr (\<lparr>vrSuiteAllowed = True, vrClassicalValid = True, vrPQCValid = True\<rparr>, None)"
  using assms
  by (auto simp: SignHybrid_Inr prims_correct_def VerifyHybrid_def VerifyHybridWithHash_def Let_def
      ValidateSuite_None VerifyClassical_def VerifyMLDSA_def split: option.splits)

section \<open>Properties\<close>

text \<open>
  C33. What a signer signs, a verifier accepts: if \<open>SignHybrid\<close> returns a signature and the keys
  match (the primitives verify what they sign), then \<open>VerifyHybrid\<close> on the same context and
  payload reports no error and both halves valid, and the returned hash is the payload's.
\<close>

theorem sign_verify_roundtrip:
  assumes "prims_correct P identity keys" "SignHybrid P identity ctx payload = Inr (sig, h)"
  shows "PayloadHash (pSha256 P) payload = Inr h \<and>
    VerifyHybrid P keys sig ctx payload =
      Inr (\<lparr>vrSuiteAllowed = True, vrClassicalValid = True, vrPQCValid = True\<rparr>, None) \<and>
    VerifyHybridWithHash P keys sig ctx h =
      Inr (\<lparr>vrSuiteAllowed = True, vrClassicalValid = True, vrPQCValid = True\<rparr>, None)"
  by (rule SignHybrid_verifies [OF assms])

definition samplePrims :: prims where
  "samplePrims = \<lparr>pEdSign = (\<lambda>k m. Some (k @ m)), pEdVerify = (\<lambda>k m s. Some (s = k @ m)),
     pNewPrivateKey = Some, pSign = (\<lambda>k m. Some (k @ m)), pNewPublicKey = Some,
     pVerify = (\<lambda>k m s. s = k @ m), pSha256 = (\<lambda>x. x)\<rparr>"

definition sampleIdentity :: SigningIdentity where
  "sampleIdentity = \<lparr>siClassicalKeyID = ''c'', siClassicalPrivate = ''1'', siPQCKeyID = ''q'', siPQCPrivate = ''2''\<rparr>"

definition sampleKeys :: VerificationKeys where
  "sampleKeys = \<lparr>vkClassicalPublic = ''1'', vkPQCPublic = ''2''\<rparr>"

definition sampleContext :: SigningContext where
  "sampleContext = \<lparr>scApplication = ''pqc-ledger'', scEnvironment = ''dev'', scTransactionType = ''VERIFY'',
     scSchemaVersion = ''transaction.v1'', scTransactionID = ''t1''\<rparr>"

definition sampleSignature :: "HybridSignature \<times> string" where
  "sampleSignature = (case SignHybrid samplePrims sampleIdentity sampleContext (Some JNull) of Inr x \<Rightarrow> x)"

lemma sampleSignature_run:
  "SignHybrid samplePrims sampleIdentity sampleContext (Some JNull) = Inr (fst sampleSignature, snd sampleSignature)"
  by (simp add: sampleSignature_def SignHybrid_def samplePrims_def PayloadHash_def Canonicalize_def
      SignClassical_def SignMLDSA_def Let_def)

lemma samplePrims_correct: "prims_correct samplePrims sampleIdentity sampleKeys"
  by (simp add: prims_correct_def samplePrims_def sampleIdentity_def sampleKeys_def)

lemma sign_verify_roundtrip_witness:
  "VerifyHybrid samplePrims sampleKeys (fst sampleSignature) sampleContext (Some JNull) =
     Inr (\<lparr>vrSuiteAllowed = True, vrClassicalValid = True, vrPQCValid = True\<rparr>, None)"
  using sign_verify_roundtrip [OF samplePrims_correct sampleSignature_run] by blast

text \<open>
  C34. Fail-closed verification: the result is OK exactly when the suite is the one allow-listed
  hybrid suite, the Ed25519 half verifies, and the ML-DSA key parses and its half verifies, all
  over the bound context and hash; there is no way to pass with one half alone.
\<close>

theorem verify_fail_closed:
  "(\<exists>r err. VerifyHybridWithHash P keys sig ctx h = Inr (r, err) \<and> OK r) \<longleftrightarrow>
     hsAlgorithmSuite sig = SuiteHybridEd25519MLDSA65V1 \<and>
     pEdVerify P (vkClassicalPublic keys) (bind ctx h) (hsClassicalSignature sig) = Some True \<and>
     (\<exists>pk. pNewPublicKey P (vkPQCPublic keys) = Some pk \<and> pVerify P pk (bind ctx h) (hsPQCSignature sig))"
  by (rule VerifyHybridWithHash_OK)



definition kem_correct :: "kem_prims \<Rightarrow> bytes \<Rightarrow> bytes \<Rightarrow> HybridKEMKeyPair \<Rightarrow> bool" where
  "kem_correct K ephemeralPriv coins kp \<longleftrightarrow>
     (\<exists>pub. kNewPublicKey K (kPublicBytes K ephemeralPriv) = Some pub \<and>
        (\<forall>pub'. kNewPublicKey K (kPublicBytes K (kpX25519Private kp)) = Some pub' \<longrightarrow>
           kECDH K (kpX25519Private kp) pub = kECDH K ephemeralPriv pub')) \<and>
     (\<forall>ek. kNewEncapsulationKey K (kEncapsulationBytes K (kpMLKEMPrivate kp)) = Some ek \<longrightarrow>
        kDecapsulate K (kpMLKEMPrivate kp) (snd (kEncapsulate K ek coins)) = Some (fst (kEncapsulate K ek coins)))"

text \<open>
  C36. The two sides of the hybrid KEM agree: what \<open>HybridDecapsulate\<close> derives from the ephemeral
  public key and the ciphertext is the key \<open>HybridEncapsulate\<close> returned, for a recipient key
  pair and primitives whose ECDH commutes and whose decapsulation inverts encapsulation.
\<close>

theorem hybrid_kem_agrees:
  assumes "kem_correct K eph coins kp"
    and "HybridEncapsulate K (Some eph) coins (PublicKey K kp) = Inr (key, ephPub, ct)"
  shows "HybridDecapsulate K kp ephPub ct = Inr key"
  using assms
  by (auto simp: kem_correct_def HybridEncapsulate_def HybridDecapsulate_def PublicKey_def bind_simps
      split_def Let_def)

definition sampleKem :: kem_prims where
  "sampleKem = \<lparr>kNewPublicKey = Some, kPublicBytes = (\<lambda>k. k), kECDH = (\<lambda>a b. Some (replicate (length a * length b) CHR ''x'')),
     kNewEncapsulationKey = Some, kEncapsulationBytes = (\<lambda>k. k), kEncapsulate = (\<lambda>ek c. (c, ek @ c)),
     kDecapsulate = (\<lambda>dk ct. Some (drop (length dk) ct)), kHKDF = (\<lambda>s i n. Some (s @ i))\<rparr>"

lemma hybrid_kem_agrees_witness:
  "HybridDecapsulate sampleKem \<lparr>kpX25519Private = ''ab'', kpMLKEMPrivate = ''cd''\<rparr> ''eph'' ''cdcoins'' =
     Inr (''xxxxxx'' @ ''coins'' @ hybridKEMInfo)"
proof -
  have "kem_correct sampleKem ''eph'' ''coins'' \<lparr>kpX25519Private = ''ab'', kpMLKEMPrivate = ''cd''\<rparr>"
    by (simp add: kem_correct_def sampleKem_def)
  then show ?thesis
    by (rule hybrid_kem_agrees)
      (simp add: HybridEncapsulate_def PublicKey_def sampleKem_def combineSharedSecrets_def numeral_eq_Suc)
qed

end
