(* ===== verification/Audit_Verifier.thy ===== *)
theory Audit_Verifier
  imports Transaction_Properties Asset_Properties Crypto_Hybrid
begin

text \<open>
  The audit service's independent re-verification, \<^verbatim>\<open>audit-service/internal/verify/verify.go\<close>: it
  reads a history from the chaincode, recomputes the hash chain and re-verifies both halves of every
  signature.  The chaincode queries are the contract operations of this development, on the
  committed world state; the wire structs equal the chaincode's records.  The table
  \<^verbatim>\<open>key_reference\<close> is a function from key ids to lookup results, the cryptographic primitives
  are the argument \<open>P\<close>.
\<close>

section \<open>Data\<close>

datatype key_lookup =
    KeyQueryError
  | KeyAbsent
  | KeyRow bytes string

datatype reason =
    ChainMismatch string string
  | ClassicalKeyProblem string
  | PQCKeyProblem string
  | VerifyProblem crypto_error

record EventResult =
  erEventSequence :: int
  erSuiteAllowed :: bool
  erClassicalValid :: bool
  erPQCValid :: bool
  erHashChainValid :: bool
  erKeyRevoked :: bool
  erValid :: bool
  erReasons :: "reason list"

record Receipt =
  rcID :: string
  rcOverallValid :: bool
  rcEventCount :: nat
  rcEvents :: "EventResult list"

record Verifier =
  vfApplication :: string
  vfEnvironment :: string

datatype audit_error =
    QueryTransaction cc_error
  | QueryHistory cc_error
  | QueryCustody asset_error
  | AuditPanic crypto_error

section \<open>Operations\<close>

definition lookupKey :: "(string \<Rightarrow> key_lookup) \<Rightarrow> string \<Rightarrow> (bytes \<times> bool) option" where
  "lookupKey db keyID =
     (case db keyID of
        KeyQueryError \<Rightarrow> None
      | KeyAbsent \<Rightarrow> None
      | KeyRow publicKey status \<Rightarrow> Some (publicKey, status = ''revoked''))"

definition verifySignature ::
  "prims \<Rightarrow> (string \<Rightarrow> key_lookup) \<Rightarrow> EventResult \<Rightarrow> SigningContext \<Rightarrow> string \<Rightarrow> string \<Rightarrow> string \<Rightarrow> string \<Rightarrow>
     bytes \<Rightarrow> bytes \<Rightarrow> crypto_error + EventResult" where
  "verifySignature P db result signCtx payloadHash algorithmSuite classicalKeyID pqcKeyID classicalSig pqcSig =
     (case lookupKey db classicalKeyID of
        None \<Rightarrow> Inr (result\<lparr>erReasons := erReasons result @ [ClassicalKeyProblem classicalKeyID]\<rparr>)
      | Some (classicalPub, classicalRevoked) \<Rightarrow>
      (case lookupKey db pqcKeyID of
        None \<Rightarrow> Inr (result\<lparr>erReasons := erReasons result @ [PQCKeyProblem pqcKeyID]\<rparr>)
      | Some (pqcPub, pqcRevoked) \<Rightarrow>
          let result = result\<lparr>erKeyRevoked := classicalRevoked \<or> pqcRevoked\<rparr>;
              sig = \<lparr>hsAlgorithmSuite = algorithmSuite, hsClassicalKeyID = [], hsPQCKeyID = [],
                     hsClassicalSignature = classicalSig, hsPQCSignature = pqcSig\<rparr>;
              keys = \<lparr>vkClassicalPublic = classicalPub, vkPQCPublic = pqcPub\<rparr>
          in bindE (VerifyHybridWithHash P keys sig signCtx payloadHash) (\<lambda>(verifyResult, err).
             let result = (case err of None \<Rightarrow> result
                           | Some e \<Rightarrow> result\<lparr>erReasons := erReasons result @ [VerifyProblem e]\<rparr>)
             in Inr (result\<lparr>erSuiteAllowed := vrSuiteAllowed verifyResult,
                            erClassicalValid := vrClassicalValid verifyResult,
                            erPQCValid := vrPQCValid verifyResult\<rparr>))))"

definition freshResult :: "int \<Rightarrow> EventResult" where
  "freshResult sq = \<lparr>erEventSequence = sq, erSuiteAllowed = False, erClassicalValid = False, erPQCValid = False,
     erHashChainValid = False, erKeyRevoked = False, erValid = False, erReasons = []\<rparr>"

definition auditHash :: "EventResult \<Rightarrow> string \<Rightarrow> string \<Rightarrow> EventResult" where
  "auditHash result eventPrev previousHash =
     (let result = result\<lparr>erHashChainValid := (eventPrev = previousHash)\<rparr>
      in if \<not> erHashChainValid result
         then result\<lparr>erReasons := erReasons result @ [ChainMismatch eventPrev previousHash]\<rparr> else result)"

definition concludeEvent :: "EventResult \<Rightarrow> EventResult" where
  "concludeEvent result = result\<lparr>erValid := erSuiteAllowed result \<and> erClassicalValid result \<and>
     erPQCValid result \<and> erHashChainValid result \<and> \<not> erKeyRevoked result\<rparr>"

definition auditEvent ::
  "prims \<Rightarrow> (string \<Rightarrow> key_lookup) \<Rightarrow> Verifier \<Rightarrow> string \<Rightarrow> string \<Rightarrow> string \<Rightarrow> TransactionEvent \<Rightarrow>
     crypto_error + EventResult" where
  "auditEvent P db v schemaVersion transactionID previousHash evt =
     (let result = auditHash (freshResult (evEventSequence evt)) (evPreviousEventHash evt) previousHash;
          signCtx = \<lparr>scApplication = vfApplication v, scEnvironment = vfEnvironment v,
                     scTransactionType = evEventType evt, scSchemaVersion = schemaVersion,
                     scTransactionID = transactionID\<rparr>
      in bindE (verifySignature P db result signCtx (evPayloadHash evt) (evAlgorithmSuite evt)
                  (evClassicalKeyID evt) (evPQCKeyID evt) (evClassicalSignature evt) (evPQCSignature evt))
           (\<lambda>result. Inr (concludeEvent result)))"

text \<open>The loop of \<^verbatim>\<open>Verifier.Transaction\<close>: the receipt so far and the previous payload hash.\<close>

fun auditLoop ::
  "prims \<Rightarrow> (string \<Rightarrow> key_lookup) \<Rightarrow> Verifier \<Rightarrow> string \<Rightarrow> string \<Rightarrow> Receipt \<Rightarrow> string \<Rightarrow> TransactionEvent list \<Rightarrow>
     crypto_error + Receipt" where
  "auditLoop P db v schemaVersion transactionID receipt previousHash [] = Inr receipt"
| "auditLoop P db v schemaVersion transactionID receipt previousHash (evt # events) =
     bindE (auditEvent P db v schemaVersion transactionID previousHash evt) (\<lambda>result.
       auditLoop P db v schemaVersion transactionID
         (receipt\<lparr>rcOverallValid := (if erValid result then rcOverallValid receipt else False),
                  rcEvents := rcEvents receipt @ [result]\<rparr>)
         (evPayloadHash evt) events)"

definition auditTransaction ::
  "prims \<Rightarrow> (string \<Rightarrow> key_lookup) \<Rightarrow> ('s, txn_value) stub_ops \<Rightarrow> 's \<Rightarrow> Verifier \<Rightarrow> string \<Rightarrow> audit_error + Receipt" where
  "auditTransaction P db stub s v transactionID =
     bindE (mapErr QueryTransaction (GetTransaction stub s transactionID)) (\<lambda>txn.
     bindE (mapErr QueryHistory (GetEventHistory stub s transactionID)) (\<lambda>events.
       mapErr AuditPanic (auditLoop P db v (txSchemaVersion txn) transactionID
         \<lparr>rcID = transactionID, rcOverallValid = True, rcEventCount = length events, rcEvents = []\<rparr> [] events)))"

definition auditCustodyEvent ::
  "prims \<Rightarrow> (string \<Rightarrow> key_lookup) \<Rightarrow> Verifier \<Rightarrow> string \<Rightarrow> string \<Rightarrow> CustodyEvent \<Rightarrow> crypto_error + EventResult" where
  "auditCustodyEvent P db v assetID previousHash evt =
     (let result = auditHash (freshResult (ceEventSequence evt)) (cePreviousEventHash evt) previousHash;
          signCtx = \<lparr>scApplication = vfApplication v, scEnvironment = vfEnvironment v,
                     scTransactionType = ''ASSET_CUSTODY_'' @ ceNewStatus evt,
                     scSchemaVersion = ''custody_event.v1'', scTransactionID = assetID\<rparr>
      in bindE (verifySignature P db result signCtx (cePayloadHash evt) (ceAlgorithmSuite evt)
                  (ceClassicalKeyID evt) (cePQCKeyID evt) (ceClassicalSignature evt) (cePQCSignature evt))
           (\<lambda>result. Inr (concludeEvent result)))"

fun auditCustodyLoop ::
  "prims \<Rightarrow> (string \<Rightarrow> key_lookup) \<Rightarrow> Verifier \<Rightarrow> string \<Rightarrow> Receipt \<Rightarrow> string \<Rightarrow> CustodyEvent list \<Rightarrow>
     crypto_error + Receipt" where
  "auditCustodyLoop P db v assetID receipt previousHash [] = Inr receipt"
| "auditCustodyLoop P db v assetID receipt previousHash (evt # events) =
     bindE (auditCustodyEvent P db v assetID previousHash evt) (\<lambda>result.
       auditCustodyLoop P db v assetID
         (receipt\<lparr>rcOverallValid := (if erValid result then rcOverallValid receipt else False),
                  rcEvents := rcEvents receipt @ [result]\<rparr>)
         (cePayloadHash evt) events)"

definition auditAsset ::
  "prims \<Rightarrow> (string \<Rightarrow> key_lookup) \<Rightarrow> ('s, asset_value) stub_ops \<Rightarrow> 's \<Rightarrow> Verifier \<Rightarrow> string \<Rightarrow> audit_error + Receipt" where
  "auditAsset P db stub s v assetID =
     bindE (mapErr QueryCustody (GetCustodyHistory stub s assetID)) (\<lambda>events.
       mapErr AuditPanic (auditCustodyLoop P db v assetID
         \<lparr>rcID = assetID, rcOverallValid = True, rcEventCount = length events, rcEvents = []\<rparr> [] events))"

section \<open>What a receipt means\<close>

definition signatureGood ::
  "prims \<Rightarrow> (string \<Rightarrow> key_lookup) \<Rightarrow> SigningContext \<Rightarrow> string \<Rightarrow> string \<Rightarrow> string \<Rightarrow> string \<Rightarrow> bytes \<Rightarrow> bytes \<Rightarrow> bool" where
  "signatureGood P db ctx h suite ck qk cs qs \<longleftrightarrow>
     (\<exists>cpub cst qpub qst pk. db ck = KeyRow cpub cst \<and> cst \<noteq> ''revoked'' \<and>
        db qk = KeyRow qpub qst \<and> qst \<noteq> ''revoked'' \<and> suite = SuiteHybridEd25519MLDSA65V1 \<and>
        pEdVerify P cpub (bind ctx h) cs = Some True \<and>
        pNewPublicKey P qpub = Some pk \<and> pVerify P pk (bind ctx h) qs)"

lemma lookupKey_Some: "lookupKey db k = Some (pub, rv) \<longleftrightarrow> (\<exists>st. db k = KeyRow pub st \<and> rv = (st = ''revoked''))"
  by (auto simp: lookupKey_def split: key_lookup.splits)

lemma verifySignature_valid:
  assumes "verifySignature P db res ctx h suite ck qk cs qs = Inr r"
    and "erSuiteAllowed res = False" "erClassicalValid res = False" "erPQCValid res = False"
  shows "erSuiteAllowed r \<and> erClassicalValid r \<and> erPQCValid r \<and> \<not> erKeyRevoked r \<longleftrightarrow>
      signatureGood P db ctx h suite ck qk cs qs"
    and "erHashChainValid r = erHashChainValid res" and "erEventSequence r = erEventSequence res"
proof -
  have "(erSuiteAllowed r \<and> erClassicalValid r \<and> erPQCValid r \<and> \<not> erKeyRevoked r \<longleftrightarrow>
      signatureGood P db ctx h suite ck qk cs qs) \<and> erHashChainValid r = erHashChainValid res \<and>
      erEventSequence r = erEventSequence res"
  proof (cases "lookupKey db ck")
    case None
    then have "\<nexists>pub st. db ck = KeyRow pub st" by (auto simp: lookupKey_def)
    then show ?thesis using assms None by (auto simp: verifySignature_def signatureGood_def)
  next
    case (Some c)
    obtain cpub crev where c: "lookupKey db ck = Some (cpub, crev)" using Some by (cases c) auto
    show ?thesis
    proof (cases "lookupKey db qk")
      case None
      then have "\<nexists>pub st. db qk = KeyRow pub st" by (auto simp: lookupKey_def)
      then show ?thesis using assms None c by (auto simp: verifySignature_def signatureGood_def)
    next
      case (Some q)
      obtain qpub qrev where q: "lookupKey db qk = Some (qpub, qrev)" using Some by (cases q) auto
      let ?keys = "\<lparr>vkClassicalPublic = cpub, vkPQCPublic = qpub\<rparr>"
      let ?sig = "\<lparr>hsAlgorithmSuite = suite, hsClassicalKeyID = [], hsPQCKeyID = [],
        hsClassicalSignature = cs, hsPQCSignature = qs\<rparr>"
      obtain vr err where v: "VerifyHybridWithHash P ?keys ?sig ctx h = Inr (vr, err)"
        and r: "r = (case err of None \<Rightarrow> res\<lparr>erKeyRevoked := crev \<or> qrev\<rparr>
            | Some e \<Rightarrow> res\<lparr>erKeyRevoked := crev \<or> qrev, erReasons := erReasons res @ [VerifyProblem e]\<rparr>)
          \<lparr>erSuiteAllowed := vrSuiteAllowed vr, erClassicalValid := vrClassicalValid vr, erPQCValid := vrPQCValid vr\<rparr>"
        using assms(1) c q by (auto simp: verifySignature_def Let_def bind_simps split: option.splits)
      have "OK vr \<longleftrightarrow> suite = SuiteHybridEd25519MLDSA65V1 \<and> pEdVerify P cpub (bind ctx h) cs = Some True \<and>
          (\<exists>pk. pNewPublicKey P qpub = Some pk \<and> pVerify P pk (bind ctx h) qs)"
        using v VerifyHybridWithHash_OK [of P ?keys ?sig ctx h] by auto
      then show ?thesis
        using c q r by (auto simp: OK_def signatureGood_def lookupKey_Some split: option.splits)
    qed
  qed
  then show "erSuiteAllowed r \<and> erClassicalValid r \<and> erPQCValid r \<and> \<not> erKeyRevoked r \<longleftrightarrow>
      signatureGood P db ctx h suite ck qk cs qs"
    and "erHashChainValid r = erHashChainValid res" and "erEventSequence r = erEventSequence res" by auto
qed

definition eventContext :: "Verifier \<Rightarrow> string \<Rightarrow> string \<Rightarrow> TransactionEvent \<Rightarrow> SigningContext" where
  "eventContext v schemaVersion transactionID evt =
     \<lparr>scApplication = vfApplication v, scEnvironment = vfEnvironment v, scTransactionType = evEventType evt,
      scSchemaVersion = schemaVersion, scTransactionID = transactionID\<rparr>"

definition eventGood ::
  "prims \<Rightarrow> (string \<Rightarrow> key_lookup) \<Rightarrow> Verifier \<Rightarrow> string \<Rightarrow> string \<Rightarrow> TransactionEvent \<Rightarrow> bool" where
  "eventGood P db v schemaVersion transactionID evt \<longleftrightarrow>
     signatureGood P db (eventContext v schemaVersion transactionID evt) (evPayloadHash evt)
       (evAlgorithmSuite evt) (evClassicalKeyID evt) (evPQCKeyID evt) (evClassicalSignature evt) (evPQCSignature evt)"

lemma auditHash_simps:
  "erHashChainValid (auditHash r p q) \<longleftrightarrow> p = q" "erSuiteAllowed (auditHash r p q) = erSuiteAllowed r"
  "erClassicalValid (auditHash r p q) = erClassicalValid r" "erPQCValid (auditHash r p q) = erPQCValid r"
  "erEventSequence (auditHash r p q) = erEventSequence r"
  by (simp_all add: auditHash_def Let_def)

lemma auditEvent_valid:
  assumes "auditEvent P db v sv i prev evt = Inr r"
  shows "erValid r \<longleftrightarrow> evPreviousEventHash evt = prev \<and> eventGood P db v sv i evt"
    and "erHashChainValid r \<longleftrightarrow> evPreviousEventHash evt = prev" and "erEventSequence r = evEventSequence evt"
proof -
  obtain r0 where r: "r = concludeEvent r0"
    and v: "verifySignature P db (auditHash (freshResult (evEventSequence evt)) (evPreviousEventHash evt) prev)
      (eventContext v sv i evt) (evPayloadHash evt) (evAlgorithmSuite evt) (evClassicalKeyID evt)
      (evPQCKeyID evt) (evClassicalSignature evt) (evPQCSignature evt) = Inr r0"
    using assms by (auto simp: auditEvent_def Let_def eventContext_def bind_simps)
  note f = verifySignature_valid [OF v]
  show "erValid r \<longleftrightarrow> evPreviousEventHash evt = prev \<and> eventGood P db v sv i evt"
    and "erHashChainValid r \<longleftrightarrow> evPreviousEventHash evt = prev" and "erEventSequence r = evEventSequence evt"
    using f by (auto simp: r concludeEvent_def auditHash_simps freshResult_def eventGood_def)
qed

lemma auditLoop_result:
  assumes "auditLoop P db v sv i rc prev evts = Inr rc'"
  shows "rcID rc' = rcID rc \<and> rcEventCount rc' = rcEventCount rc \<and>
    (\<exists>rs. rcEvents rc' = rcEvents rc @ rs \<and> map erEventSequence rs = map evEventSequence evts \<and>
       map erHashChainValid rs = map2 (\<lambda>e p. evPreviousEventHash e = p) evts (prev # map evPayloadHash evts)) \<and>
    (rcOverallValid rc' \<longleftrightarrow> rcOverallValid rc \<and> (\<forall>e \<in> set evts. eventGood P db v sv i e) \<and>
       map evPreviousEventHash evts = butlast (prev # map evPayloadHash evts))"
  using assms
proof (induction evts arbitrary: rc prev)
  case Nil
  then show ?case by simp
next
  case (Cons e evts)
  then obtain r where r: "auditEvent P db v sv i prev e = Inr r"
    and l: "auditLoop P db v sv i (rc\<lparr>rcOverallValid := (if erValid r then rcOverallValid rc else False),
        rcEvents := rcEvents rc @ [r]\<rparr>) (evPayloadHash e) evts = Inr rc'"
    by (auto simp: bind_simps)
  note ih = Cons.IH [OF l] and ev = auditEvent_valid [OF r]
  from ih obtain rs where "rcEvents rc' = rcEvents rc @ r # rs"
    "map erEventSequence rs = map evEventSequence evts"
    "map erHashChainValid rs = map2 (\<lambda>e p. evPreviousEventHash e = p) evts (evPayloadHash e # map evPayloadHash evts)"
    by auto
  then have "\<exists>rs. rcEvents rc' = rcEvents rc @ rs \<and> map erEventSequence rs = map evEventSequence (e # evts) \<and>
       map erHashChainValid rs = map2 (\<lambda>e p. evPreviousEventHash e = p) (e # evts) (prev # map evPayloadHash (e # evts))"
    using ev by (intro exI [of _ "r # rs"]) simp
  then show ?case using ih ev(1) by auto
qed

text \<open>A custody event is audited exactly as the transaction event with the same signed fields.\<close>

definition custodyAsEvent :: "CustodyEvent \<Rightarrow> TransactionEvent" where
  "custodyAsEvent e =
     \<lparr>evTransactionID = ceAssetID e, evEventSequence = ceEventSequence e,
      evEventType = ''ASSET_CUSTODY_'' @ ceNewStatus e, evPayloadHash = cePayloadHash e,
      evPreviousEventHash = cePreviousEventHash e, evAlgorithmSuite = ceAlgorithmSuite e,
      evClassicalKeyID = ceClassicalKeyID e, evPQCKeyID = cePQCKeyID e,
      evClassicalSignature = ceClassicalSignature e, evPQCSignature = cePQCSignature e,
      evIdempotencyKey = ceIdempotencyKey e, evCreatedAtServer = ceCreatedAtServer e, evNewStatus = ceNewStatus e\<rparr>"

lemma auditCustodyLoop_as_events:
  "auditCustodyLoop P db v i rc prev es = auditLoop P db v ''custody_event.v1'' i rc prev (map custodyAsEvent es)"
proof (induction es arbitrary: rc prev)
  case (Cons e es)
  have "auditCustodyEvent P db v i prev e = auditEvent P db v ''custody_event.v1'' i prev (custodyAsEvent e)"
    by (simp add: auditCustodyEvent_def auditEvent_def custodyAsEvent_def)
  moreover have "evPayloadHash (custodyAsEvent e) = cePayloadHash e" by (simp add: custodyAsEvent_def)
  ultimately show ?case using Cons by simp
qed simp

lemma map_prev_chain:
  assumes "\<And>n. n < length es \<Longrightarrow> g (es ! n) = (if n = 0 then p else f (es ! (n - 1)))"
  shows "map g es = butlast (p # map f es)"
proof (rule nth_equalityI)
  fix n assume "n < length (map g es)"
  then have n: "n < length es" by simp
  then have "butlast (p # map f es) ! n = (if n = 0 then p else f (es ! (n - 1)))"
    by (subst nth_butlast) (auto simp: nth_Cons')
  then show "map g es ! n = butlast (p # map f es) ! n" using n assms by simp
qed simp

section \<open>Properties\<close>

text \<open>
  C37. Soundness and completeness of a transaction receipt: it is valid overall exactly when the
  events the ledger returns form a hash chain and every event carries, under two known and
  unrevoked keys and the allow-listed suite, an Ed25519 and an ML-DSA signature over its own
  context and payload hash; and it has one entry per event.
\<close>

theorem receipt_valid_iff:
  assumes "auditTransaction P db stub s v i = Inr rc"
  shows "\<exists>t es. GetTransaction stub s i = Inr t \<and> GetEventHistory stub s i = Inr es \<and>
    rcEventCount rc = length es \<and> map erEventSequence (rcEvents rc) = map evEventSequence es \<and>
    (rcOverallValid rc \<longleftrightarrow>
       map evPreviousEventHash es = butlast ([] # map evPayloadHash es) \<and>
       list_all (eventGood P db v (txSchemaVersion t) i) es)"
proof -
  from assms obtain t es where t: "GetTransaction stub s i = Inr t" and es: "GetEventHistory stub s i = Inr es"
    and l: "auditLoop P db v (txSchemaVersion t) i
      \<lparr>rcID = i, rcOverallValid = True, rcEventCount = length es, rcEvents = []\<rparr> [] es = Inr rc"
    by (auto simp: auditTransaction_def bind_simps)
  show ?thesis using auditLoop_result [OF l] t es by (auto simp: list_all_iff)
qed

text \<open>The key table and signatures of the sample run, made with the sample primitives.\<close>

definition sampleKeyDB :: "string \<Rightarrow> key_lookup" where
  "sampleKeyDB k = (if k = ''k1'' then KeyRow ''1'' ''active'' else if k = ''k2'' then KeyRow ''2'' ''active'' else KeyAbsent)"

definition sampleVerifier :: Verifier where
  "sampleVerifier = \<lparr>vfApplication = ''pqc-ledger'', vfEnvironment = ''dev''\<rparr>"

lemma receipt_valid_iff_witness:
  "\<exists>rc t es. auditTransaction samplePrims sampleKeyDB fakeOps sampleRecorded sampleVerifier ''t1'' = Inr rc \<and>
    GetTransaction fakeOps sampleRecorded ''t1'' = Inr t \<and> GetEventHistory fakeOps sampleRecorded ''t1'' = Inr es \<and>
    rcEventCount rc = 1 \<and> \<not> rcOverallValid rc"
proof -
  obtain rc where rc: "auditTransaction samplePrims sampleKeyDB fakeOps sampleRecorded sampleVerifier ''t1'' = Inr rc"
    "\<not> rcOverallValid rc"
    by (simp add: auditTransaction_def sampleRecorded_reads mapErr_def sampleEvent_def auditEvent_def Let_def
        verifySignature_def lookupKey_def sampleKeyDB_def VerifyHybridWithHash_def VerifyClassical_def
        VerifyMLDSA_def samplePrims_def ValidateSuite_def suiteRegistry_def SuiteHybridEd25519MLDSA65V1_def
        concludeEvent_def auditHash_def freshResult_def bind_def)
  then show ?thesis using receipt_valid_iff [OF rc(1)] sampleRecorded_reads by auto
qed

text \<open>
  C38. The audit never reports a broken chain on a ledger that only the contract wrote: for every
  reachable state the receipt counts all recorded events and each one's hash-chain check passes, so
  that the receipt is valid exactly when every event's keys and signatures are good.
\<close>

theorem audit_finds_chain_intact:
  assumes "fabric_stub stub sane" "ledger_reach stub sane s" "GetTransaction stub s i = Inr t"
    and "txLatestEventSequence t < 10 ^ 9" "auditTransaction P db stub s v i = Inr rc"
  shows "int (rcEventCount rc) = txLatestEventSequence t \<and>
    int (length (rcEvents rc)) = txLatestEventSequence t \<and> list_all erHashChainValid (rcEvents rc) \<and>
    (\<exists>es. GetEventHistory stub s i = Inr es \<and>
       (rcOverallValid rc \<longleftrightarrow> list_all (eventGood P db v (txSchemaVersion t) i) es))"
proof -
  from assms(3,5) obtain es where es: "GetEventHistory stub s i = Inr es"
    and l: "auditLoop P db v (txSchemaVersion t) i
      \<lparr>rcID = i, rcOverallValid = True, rcEventCount = length es, rcEvents = []\<rparr> [] es = Inr rc"
    by (auto simp: auditTransaction_def bind_simps)
  have chain: "chained i es" and hdr: "header_ok i t es"
    using txn_ledger.reach_history_chain [OF txn_ledger_of_stub [OF assms(1)] assms(2-4) es] by auto
  have prev: "evPreviousEventHash (es ! n) = (if n = 0 then [] else evPayloadHash (es ! (n - 1)))"
    if "n < length es" for n
    using chain that by (auto simp: chained_def lastHash_def last_conv_nth)
  then have eq: "map evPreviousEventHash es = butlast ([] # map evPayloadHash es)"
    by (rule map_prev_chain)
  note f = auditLoop_result [OF l]
  from f obtain rs where rs: "rcEvents rc = rs" "map erEventSequence rs = map evEventSequence es"
    "map erHashChainValid rs = map2 (\<lambda>e p. evPreviousEventHash e = p) es ([] # map evPayloadHash es)"
    by auto
  have len: "length rs = length es" using rs(2) by (metis length_map)
  have "erHashChainValid (rs ! n)" if "n < length rs" for n
  proof -
    have "erHashChainValid (rs ! n) = (evPreviousEventHash (es ! n) = ([] # map evPayloadHash es) ! n)"
      using arg_cong [OF rs(3), of "\<lambda>xs. xs ! n"] that len by simp
    also have "\<dots>" using prev [of n] that len by (simp add: nth_Cons')
    finally show ?thesis by simp
  qed
  then have "list_all erHashChainValid rs" by (simp add: list_all_length)
  then show ?thesis using f rs(1) len hdr es eq by (simp add: header_ok_def list_all_iff)
qed

lemma audit_finds_chain_intact_witness:
  "\<exists>rc. auditTransaction samplePrims sampleKeyDB fakeOps sampleRecorded sampleVerifier ''t1'' = Inr rc \<and>
     int (rcEventCount rc) = 1 \<and> list_all erHashChainValid (rcEvents rc)"
proof -
  obtain rc where rc: "auditTransaction samplePrims sampleKeyDB fakeOps sampleRecorded sampleVerifier ''t1'' = Inr rc"
    by (simp add: auditTransaction_def sampleRecorded_reads mapErr_def sampleEvent_def auditEvent_def Let_def
        verifySignature_def lookupKey_def sampleKeyDB_def VerifyHybridWithHash_def VerifyClassical_def
        VerifyMLDSA_def samplePrims_def ValidateSuite_def suiteRegistry_def SuiteHybridEd25519MLDSA65V1_def)
  show ?thesis
    using audit_finds_chain_intact [OF fake.fabric_stub_axioms sample_reach(3) sampleRecorded_reads(1) _ rc] rc
    by (simp add: sampleHeader_def)
qed

text \<open>
  The custody receipt, the same way: valid overall exactly when the custody events form a hash
  chain and every one is properly signed in the context of its new status.
\<close>

theorem custody_receipt_valid_iff:
  assumes "auditAsset P db stub s v i = Inr rc"
  shows "\<exists>es. GetCustodyHistory stub s i = Inr es \<and> rcEventCount rc = length es \<and>
    map erEventSequence (rcEvents rc) = map ceEventSequence es \<and>
    (rcOverallValid rc \<longleftrightarrow>
       map cePreviousEventHash es = butlast ([] # map cePayloadHash es) \<and>
       list_all (\<lambda>e. signatureGood P db \<lparr>scApplication = vfApplication v, scEnvironment = vfEnvironment v,
           scTransactionType = ''ASSET_CUSTODY_'' @ ceNewStatus e, scSchemaVersion = ''custody_event.v1'',
           scTransactionID = i\<rparr> (cePayloadHash e) (ceAlgorithmSuite e) (ceClassicalKeyID e) (cePQCKeyID e)
         (ceClassicalSignature e) (cePQCSignature e)) es)"
proof -
  from assms obtain es where es: "GetCustodyHistory stub s i = Inr es"
    and l: "auditLoop P db v ''custody_event.v1'' i
      \<lparr>rcID = i, rcOverallValid = True, rcEventCount = length es, rcEvents = []\<rparr> [] (map custodyAsEvent es) = Inr rc"
    by (auto simp: auditAsset_def bind_simps auditCustodyLoop_as_events)
  have maps: "map evPreviousEventHash (map custodyAsEvent es) = map cePreviousEventHash es"
    "map evPayloadHash (map custodyAsEvent es) = map cePayloadHash es"
    "map evEventSequence (map custodyAsEvent es) = map ceEventSequence es"
    by (simp_all add: custodyAsEvent_def)
  show ?thesis using auditLoop_result [OF l] es unfolding maps
    by (auto simp: list_all_iff eventGood_def eventContext_def custodyAsEvent_def)
qed

lemma custody_receipt_valid_iff_witness:
  "\<exists>rc es. auditAsset samplePrims sampleKeyDB fakeOps (sampleAssetRun 2) sampleVerifier ''a1'' = Inr rc \<and>
    GetCustodyHistory fakeOps (sampleAssetRun 2) ''a1'' = Inr es \<and> rcEventCount rc = length es"
proof -
  obtain rc where rc: "auditAsset samplePrims sampleKeyDB fakeOps (sampleAssetRun 2) sampleVerifier ''a1'' = Inr rc"
    by (simp add: auditAsset_def sampleAsset_reads mapErr_def sampleCustodyEvents_def sampleCustody_def
        auditCustodyEvent_def Let_def verifySignature_def lookupKey_def sampleKeyDB_def VerifyHybridWithHash_def
        VerifyClassical_def VerifyMLDSA_def samplePrims_def ValidateSuite_def suiteRegistry_def
        SuiteHybridEd25519MLDSA65V1_def)
  then show ?thesis using custody_receipt_valid_iff [OF rc] by blast
qed

end
