(* ===== verification/Ledger_DB.thy ===== *)
theory Ledger_DB
  imports Transaction_Contract Asset_Contract Crypto_Hybrid "HOL-Library.AList"
begin

text \<open>
  The ledger API's database and its single write path for transaction events:
  \<^verbatim>\<open>migrations/*.sql\<close> (the tables the handlers touch), \<^verbatim>\<open>api/internal/httpapi/outbox_helper.go\<close>,
  \<^verbatim>\<open>wire.go\<close> and \<^verbatim>\<open>events.go\<close>.

  A table with a text primary key that handlers look up by it is an association list from
  keys to rows; a table read in insertion order (events, approvals, documents, the outbox) is a
  list of rows.  A statement can fail
  for reasons outside the handler (connection, foreign key): the environment says which labelled
  statement fails.  Primary keys, unique indexes and the status check are part of the model.
  The work of a database transaction is a function to a new database; on an error nothing of
  it is kept, which is the rollback.  Generated ids and times come from the environment, as do
  the keystore (its package is not in the repository) and the cryptographic primitives.
  A JSON text argument is the value it encodes.
\<close>

section \<open>Tables\<close>

record txn_row =
  trID :: string
  trOrganizationID :: string
  trWorkflowType :: string
  trSchemaVersion :: string
  trCreatedBy :: string
  trStatus :: string
  trUpdatedAt :: int
  trOfficeMeta :: "jval option"

record event_row =
  erowID :: string
  erowTransactionID :: string
  erowEventSequence :: int
  erowEventType :: string
  erowPayloadHash :: string
  erowPreviousEventHash :: string
  erowAlgorithmSuite :: string
  erowClassicalKeyID :: string
  erowPQCKeyID :: string
  erowClassicalSignature :: bytes
  erowPQCSignature :: bytes
  erowIdempotencyKey :: string
  erowCreatedAtServer :: string
  erowPayload :: "jval option"
  erowActorID :: string
  erowFabricTxID :: "string option"
  erowFabricBlock :: int

record approval_row =
  apprID :: string
  apprTransactionID :: string
  apprEventID :: string
  apprApproverID :: string
  apprDecision :: string
  apprPolicyVersion :: string

record asset_row =
  arowID :: string
  arowOrganizationID :: string
  arowAssetTag :: string
  arowStatus :: string

record custody_row =
  crowID :: string
  crowEvent :: CustodyEvent
  crowFabricTxID :: "string option"
  crowFabricBlock :: int

record doc_row =
  drowID :: string
  drowOwnerType :: string
  drowOwnerID :: string
  drowStorageKey :: string
  drowSHA256 :: string
  drowContentType :: string
  drowUploadedBy :: string
  drowKind :: string
  drowFileName :: string
  drowSHA512 :: string
  drowSize :: int

text \<open>
  One chaincode argument: a plain string, or a string that is the JSON encoding of an event.
\<close>

datatype arg =
    AStr string
  | AEvent TransactionEvent
  | ACustodyEvent CustodyEvent

record outbox_row =
  obID :: string
  obAggregateType :: string
  obAggregateID :: string
  obChaincodeName :: string
  obFnName :: string
  obPayload :: "arg list option"
  obStatus :: string
  obAttempts :: int
  obNextAttemptAt :: int

record user_row =
  urDisplayName :: string
  urRole :: string
  urEmail :: string

record api_db =
  dbTxns :: "(string \<times> txn_row) list"
  dbEvents :: "event_row list"
  dbApprovals :: "approval_row list"
  dbAssets :: "(string \<times> asset_row) list"
  dbCustody :: "custody_row list"
  dbDocs :: "doc_row list"
  dbOutbox :: "outbox_row list"
  dbUsers :: "(string \<times> user_row) list"
  dbOfficeRoles :: "(string \<times> string) list"
  dbOffices :: "(string \<times> string) list"
  dbMembers :: "(string \<times> string) list"

definition emptyDB :: api_db where
  "emptyDB = \<lparr>dbTxns = [], dbEvents = [], dbApprovals = [], dbAssets = [], dbCustody = [],
     dbDocs = [], dbOutbox = [], dbUsers = [], dbOfficeRoles = [], dbOffices = [], dbMembers = []\<rparr>"

definition txnRow :: "api_db \<Rightarrow> string \<Rightarrow> txn_row option" where
  "txnRow db i = map_of (dbTxns db) i"

definition assetRow :: "api_db \<Rightarrow> string \<Rightarrow> asset_row option" where
  "assetRow db i = map_of (dbAssets db) i"

section \<open>The environment\<close>

record TTDRecord =
  ttdPublicID :: string
  ttdAccountID :: string
  ttdOriginalSHA512 :: string
  ttdSignedSHA512 :: string
  ttdVerificationStatus :: string
  ttdVerificationURL :: string

record TTDVerifier =
  ttdRecord :: "string \<Rightarrow> TTDRecord option"
  ttdSignedPDF :: "string \<Rightarrow> bytes option"

record env =
  enFault :: "string \<Rightarrow> bool"
  enUUID :: "string \<Rightarrow> string"
  enNow :: string
  enNowNano :: string
  enTime :: int
  enPrims :: prims
  enSha512 :: "bytes \<Rightarrow> bytes"
  enKeystore :: "string \<Rightarrow> SigningIdentity option"
  enApplication :: string
  enEnvironment :: string
  enTTD :: "TTDVerifier option"
  enPutObject :: "string \<Rightarrow> bool"

datatype db_error =
    NoRows
  | StatementFailed
  | UniqueViolation
  | SigningIdentityError
  | SignError crypto_error

definition stmt :: "env \<Rightarrow> string \<Rightarrow> db_error + unit" where
  "stmt en label = (if enFault en label then Inl StatementFailed else Inr ())"

section \<open>Queries\<close>

fun latestBy :: "('a \<Rightarrow> int) \<Rightarrow> 'a list \<Rightarrow> 'a option" where
  "latestBy f [] = None"
| "latestBy f (x # xs) =
     (case latestBy f xs of None \<Rightarrow> Some x | Some y \<Rightarrow> if f x < f y then Some y else Some x)"

definition eventsOf :: "api_db \<Rightarrow> string \<Rightarrow> event_row list" where
  "eventsOf db transactionID = filter (\<lambda>e. erowTransactionID e = transactionID) (dbEvents db)"

fun jfield :: "string \<Rightarrow> jval \<Rightarrow> jval option" where
  "jfield k (JObj kvs) = map_of kvs k"
| "jfield k _ = None"

text \<open>\<^verbatim>\<open>payload->>'k'\<close> for the string values the handlers store.\<close>

definition payloadText :: "string \<Rightarrow> event_row \<Rightarrow> string option" where
  "payloadText k e =
     (case erowPayload e of
        None \<Rightarrow> None
      | Some p \<Rightarrow> (case jfield k p of Some (JStr s) \<Rightarrow> Some s | _ \<Rightarrow> None))"

section \<open>Statements\<close>

definition txnStatuses :: "string list" where
  "txnStatuses = [''DRAFT'', ''VERIFIED'', ''ENDORSED'', ''COMMITTED'', ''SETTLED'',
     ''REJECTED'', ''CANCELLED'', ''SUPERSEDED'', ''REVOKED'']"

definition insertTxn :: "env \<Rightarrow> api_db \<Rightarrow> txn_row \<Rightarrow> db_error + api_db" where
  "insertTxn en db row =
     bindE (stmt en ''insert transaction'') (\<lambda>_.
       if txnRow db (trID row) \<noteq> None then Inl UniqueViolation
       else Inr (db\<lparr>dbTxns := dbTxns db @ [(trID row, row)]\<rparr>))"

text \<open>
  The unique constraints of \<^verbatim>\<open>transaction_event\<close>: the row id, the idempotency key, the sequence
  number within a transaction, and the TTD signature an event is based on.
\<close>

definition eventConflict :: "event_row \<Rightarrow> event_row \<Rightarrow> bool" where
  "eventConflict e f \<longleftrightarrow>
     erowID e = erowID f \<or> erowIdempotencyKey e = erowIdempotencyKey f \<or>
     (erowTransactionID e = erowTransactionID f \<and> erowEventSequence e = erowEventSequence f) \<or>
     (payloadText ''ttd_public_id'' e \<noteq> None \<and>
        payloadText ''ttd_public_id'' e = payloadText ''ttd_public_id'' f)"

text \<open>The column \<^verbatim>\<open>event_sequence\<close> is a 32-bit integer: the database refuses a larger value.\<close>

definition maxInt4 :: int where
  "maxInt4 = 2147483647"

definition insertEvent :: "env \<Rightarrow> api_db \<Rightarrow> event_row \<Rightarrow> db_error + api_db" where
  "insertEvent en db row =
     bindE (stmt en ''insert event'') (\<lambda>_.
       if erowEventSequence row > maxInt4 then Inl StatementFailed
       else if list_ex (eventConflict row) (dbEvents db) then Inl UniqueViolation
       else Inr (db\<lparr>dbEvents := dbEvents db @ [row]\<rparr>))"

definition enqueueOutbox ::
  "env \<Rightarrow> string \<Rightarrow> api_db \<Rightarrow> string \<Rightarrow> string \<Rightarrow> string \<Rightarrow> string \<Rightarrow> arg list \<Rightarrow> db_error + api_db" where
  "enqueueOutbox en label db aggregateType aggregateID chaincodeName fnName payload =
     bindE (stmt en label) (\<lambda>_.
       if list_ex (\<lambda>o'. obID o' = enUUID en label) (dbOutbox db) then Inl UniqueViolation
       else Inr (db\<lparr>dbOutbox := dbOutbox db @
         [\<lparr>obID = enUUID en label, obAggregateType = aggregateType, obAggregateID = aggregateID,
           obChaincodeName = chaincodeName, obFnName = fnName, obPayload = Some payload,
           obStatus = ''pending'', obAttempts = 0, obNextAttemptAt = enTime en\<rparr>]\<rparr>))"

definition updateTxnStatus :: "env \<Rightarrow> api_db \<Rightarrow> string \<Rightarrow> string \<Rightarrow> db_error + api_db" where
  "updateTxnStatus en db transactionID newStatus =
     bindE (stmt en ''update status'') (\<lambda>_.
       if newStatus \<notin> set txnStatuses then Inl StatementFailed
       else Inr (db\<lparr>dbTxns := AList.map_entry transactionID
         (\<lambda>t. t\<lparr>trStatus := newStatus, trUpdatedAt := enTime en\<rparr>) (dbTxns db)\<rparr>))"

section \<open>Appending an event\<close>

record eventInput =
  eiTransactionID :: string
  eiEventType :: string
  eiSignerIdentity :: string
  eiPayload :: jval
  eiNewStatus :: string
  eiIdempotencyKey :: string

record appendedEvent =
  aeSequence :: int
  aePayloadHash :: string

text \<open>
  The first half of \<^verbatim>\<open>appendTransactionEvent\<close>: it reads the schema version and the last event, and
  signs the payload; the result is the event as the chaincode will see it.
\<close>

definition signEvent :: "env \<Rightarrow> api_db \<Rightarrow> eventInput \<Rightarrow> db_error + TransactionEvent" where
  "signEvent en db inp =
     bindE (stmt en ''select schema'') (\<lambda>_.
     bindE (orErr NoRows (map_option trSchemaVersion (txnRow db (eiTransactionID inp)))) (\<lambda>schemaVersion.
     let idempotencyKey =
           (if eiIdempotencyKey inp = [] then enUUID en ''idempotency'' else eiIdempotencyKey inp) in
     bindE (stmt en ''select last event'') (\<lambda>_.
     let (nextSequence, previousHash) =
           (case latestBy erowEventSequence (eventsOf db (eiTransactionID inp)) of
              Some e \<Rightarrow> (erowEventSequence e + 1, erowPayloadHash e)
            | None \<Rightarrow> (1, [])) in
     bindE (orErr SigningIdentityError (enKeystore en (eiSignerIdentity inp))) (\<lambda>identity.
     bindE (mapErr SignError (SignHybrid (enPrims en) identity
            \<lparr>scApplication = enApplication en, scEnvironment = enEnvironment en,
             scTransactionType = eiEventType inp, scSchemaVersion = schemaVersion,
             scTransactionID = eiTransactionID inp\<rparr> (Some (eiPayload inp)))) (\<lambda>(sig, payloadHash).
         Inr \<lparr>evTransactionID = eiTransactionID inp, evEventSequence = nextSequence,
              evEventType = eiEventType inp, evPayloadHash = payloadHash, evPreviousEventHash = previousHash,
              evAlgorithmSuite = hsAlgorithmSuite sig, evClassicalKeyID = hsClassicalKeyID sig,
              evPQCKeyID = hsPQCKeyID sig, evClassicalSignature = hsClassicalSignature sig,
              evPQCSignature = hsPQCSignature sig, evIdempotencyKey = idempotencyKey,
              evCreatedAtServer = enNow en, evNewStatus = eiNewStatus inp\<rparr>)))))"

definition eventRow :: "env \<Rightarrow> eventInput \<Rightarrow> TransactionEvent \<Rightarrow> event_row" where
  "eventRow en inp evt =
     \<lparr>erowID = enUUID en ''event'', erowTransactionID = evTransactionID evt, erowEventSequence = evEventSequence evt,
      erowEventType = evEventType evt, erowPayloadHash = evPayloadHash evt,
      erowPreviousEventHash = evPreviousEventHash evt, erowAlgorithmSuite = evAlgorithmSuite evt,
      erowClassicalKeyID = evClassicalKeyID evt, erowPQCKeyID = evPQCKeyID evt,
      erowClassicalSignature = evClassicalSignature evt, erowPQCSignature = evPQCSignature evt,
      erowIdempotencyKey = evIdempotencyKey evt, erowCreatedAtServer = evCreatedAtServer evt,
      erowPayload = Some (eiPayload inp), erowActorID = eiSignerIdentity inp, erowFabricTxID = None,
      erowFabricBlock = 0\<rparr>"

text \<open>The whole write path: sign, insert the row, queue the same event, advance the read model.\<close>

definition appendTransactionEvent ::
  "env \<Rightarrow> api_db \<Rightarrow> eventInput \<Rightarrow> bool \<Rightarrow> db_error + (api_db \<times> appendedEvent)" where
  "appendTransactionEvent en db inp updateReadModel =
     bindE (signEvent en db inp) (\<lambda>evt.
     bindE (insertEvent en db (eventRow en inp evt)) (\<lambda>db.
     bindE (enqueueOutbox en ''outbox event'' db ''transaction'' (eiTransactionID inp) ''transaction'' ''RecordEvent''
       [AEvent evt]) (\<lambda>db.
     bindE (if updateReadModel \<and> eiNewStatus inp \<noteq> []
            then updateTxnStatus en db (eiTransactionID inp) (eiNewStatus inp) else Inr db) (\<lambda>db.
       Inr (db, \<lparr>aeSequence = evEventSequence evt, aePayloadHash = evPayloadHash evt\<rparr>)))))"

end
