(* ===== verification/Ledger_API.thy ===== *)
theory Ledger_API
  imports Ledger_DB
begin

text \<open>
  The ledger API's own endpoints: \<^verbatim>\<open>api/internal/httpapi/transactions.go\<close>, \<^verbatim>\<open>assets.go\<close> and
  \<^verbatim>\<open>documents.go\<close>.  A handler takes the environment, the database and the decoded request
  (\<open>None\<close> when the body does not parse) and returns the database and the response.
  Names carry the prefix \<open>api\<close> where the chaincode has an operation of the same name.
\<close>

section \<open>Responses\<close>

datatype response =
    Fail nat string
  | Done nat jval

definition internalError :: response where
  "internalError = Fail 500 ''internal error''"

definition isDone :: "response \<Rightarrow> bool" where
  "isDone r = (case r of Done _ _ \<Rightarrow> True | Fail _ _ \<Rightarrow> False)"

text \<open>
  The frame of a handler that works in one database transaction: begin, run the body, commit.
  The body returns the failure response or the new database; a failed begin, body or commit
  leaves the database as it was.
\<close>

definition inTx :: "env \<Rightarrow> api_db \<Rightarrow> (api_db \<Rightarrow> response + (api_db \<times> response)) \<Rightarrow> api_db \<times> response" where
  "inTx en db body =
     (if enFault en ''begin'' then (db, internalError)
      else case body db of
          Inl r \<Rightarrow> (db, r)
        | Inr (db', r) \<Rightarrow> if enFault en ''commit'' then (db, internalError) else (db', r))"

definition or500 :: "db_error + 'a \<Rightarrow> response + 'a" where
  "or500 m = (case m of Inl _ \<Rightarrow> Inl internalError | Inr x \<Rightarrow> Inr x)"

section \<open>Transactions\<close>

record createTransactionRequest =
  ctOrganizationID :: string
  ctWorkflowType :: string
  ctSchemaVersion :: string
  ctCreatedBy :: string

definition apiCreateTransaction :: "env \<Rightarrow> api_db \<Rightarrow> createTransactionRequest option \<Rightarrow> api_db \<times> response" where
  "apiCreateTransaction en db body =
     (case body of
        None \<Rightarrow> (db, Fail 400 ''invalid JSON body'')
      | Some req \<Rightarrow>
          if ctOrganizationID req = [] \<or> ctWorkflowType req = [] \<or> ctSchemaVersion req = [] \<or> ctCreatedBy req = []
          then (db, Fail 400 ''organization_id, workflow_type, schema_version, and created_by are required'')
          else
            let i = ''txn_'' @ enUUID en ''transaction'' in
            inTx en db (\<lambda>db.
              bindE (or500 (insertTxn en db
                \<lparr>trID = i, trOrganizationID = ctOrganizationID req, trWorkflowType = ctWorkflowType req,
                 trSchemaVersion = ctSchemaVersion req, trCreatedBy = ctCreatedBy req, trStatus = ''DRAFT'',
                 trUpdatedAt = enTime en, trOfficeMeta = None\<rparr>)) (\<lambda>db.
              bindE (or500 (enqueueOutbox en ''outbox create'' db ''transaction'' i ''transaction'' ''CreateTransaction''
                [AStr i, AStr (ctOrganizationID req), AStr (ctWorkflowType req), AStr (ctSchemaVersion req),
                 AStr (ctCreatedBy req)])) (\<lambda>db.
                Inr (db, Done 201 (JObj [(''id'', JStr i), (''status'', JStr ''DRAFT'')]))))))"

record recordEventRequest =
  reEventType :: string
  rePayload :: jval
  reNewStatus :: string
  reSignerIdentity :: string
  reIdempotencyKey :: string

definition apiRecordTransactionEvent ::
  "env \<Rightarrow> api_db \<Rightarrow> string \<Rightarrow> recordEventRequest option \<Rightarrow> api_db \<times> response" where
  "apiRecordTransactionEvent en db transactionID body =
     (case body of
        None \<Rightarrow> (db, Fail 400 ''invalid JSON body'')
      | Some req \<Rightarrow>
          if reEventType req = [] \<or> reSignerIdentity req = []
          then (db, Fail 400 ''event_type and signer_identity are required'')
          else
            let idempotencyKey =
                  (if reIdempotencyKey req = [] then enUUID en ''request idempotency'' else reIdempotencyKey req) in
            inTx en db (\<lambda>db.
              case appendTransactionEvent en db
                     \<lparr>eiTransactionID = transactionID, eiEventType = reEventType req,
                      eiSignerIdentity = reSignerIdentity req, eiPayload = rePayload req,
                      eiNewStatus = reNewStatus req, eiIdempotencyKey = idempotencyKey\<rparr> False of
                Inl NoRows \<Rightarrow> Inl (Fail 404 ''transaction not found'')
              | Inl _ \<Rightarrow> Inl internalError
              | Inr (db, ev) \<Rightarrow> Inr (db, Done 202 (JObj [(''event_sequence'', JNum (fmt_d (aeSequence ev))),
                  (''payload_hash'', JStr (aePayloadHash ev)), (''status'', JStr ''queued'')]))))"

record approveRequest =
  arEventSequence :: int
  arApproverID :: string
  arDecision :: string
  arPolicyVersion :: string

definition insertApproval :: "env \<Rightarrow> api_db \<Rightarrow> approval_row \<Rightarrow> db_error + api_db" where
  "insertApproval en db row =
     bindE (stmt en ''insert approval'') (\<lambda>_.
       if list_ex (\<lambda>a. apprID a = apprID row) (dbApprovals db) then Inl UniqueViolation
       else Inr (db\<lparr>dbApprovals := dbApprovals db @ [row]\<rparr>))"

definition apiApproveTransaction ::
  "env \<Rightarrow> api_db \<Rightarrow> string \<Rightarrow> approveRequest option \<Rightarrow> api_db \<times> response" where
  "apiApproveTransaction en db transactionID body =
     (case body of
        None \<Rightarrow> (db, Fail 400 ''invalid JSON body'')
      | Some req \<Rightarrow>
          if arDecision req \<noteq> ''approve'' \<and> arDecision req \<noteq> ''reject''
          then (db, Fail 400 ''decision must be approve or reject'')
          else if arApproverID req = [] \<or> arPolicyVersion req = []
          then (db, Fail 400 ''approver_id and policy_version are required'')
          else
            inTx en db (\<lambda>db.
              if enFault en ''select event'' then Inl internalError
              else case find (\<lambda>e. erowEventSequence e = arEventSequence req) (eventsOf db transactionID) of
                  None \<Rightarrow> Inl (Fail 404 ''event not found for this transaction'')
                | Some e \<Rightarrow>
                    bindE (or500 (insertApproval en db
                      \<lparr>apprID = enUUID en ''approval'', apprTransactionID = transactionID, apprEventID = erowID e,
                       apprApproverID = arApproverID req, apprDecision = arDecision req,
                       apprPolicyVersion = arPolicyVersion req\<rparr>)) (\<lambda>db.
                    bindE (or500 (enqueueOutbox en ''outbox approve'' db ''transaction'' transactionID
                      ''transaction'' ''Approve''
                      [AStr transactionID, AStr (fmt_d (arEventSequence req)), AStr (arApproverID req),
                       AStr (arDecision req), AStr (arPolicyVersion req)])) (\<lambda>db.
                      Inr (db, Done 202 (JObj [(''status'', JStr ''queued'')]))))))"

definition eventView :: "event_row \<Rightarrow> jval" where
  "eventView e =
     JObj ([(''event_sequence'', JNum (fmt_d (erowEventSequence e))), (''event_type'', JStr (erowEventType e)),
       (''payload_hash'', JStr (erowPayloadHash e)), (''previous_event_hash'', JStr (erowPreviousEventHash e)),
       (''algorithm_suite'', JStr (erowAlgorithmSuite e)), (''idempotency_key'', JStr (erowIdempotencyKey e)),
       (''created_at_server'', JStr (erowCreatedAtServer e))] @
       (case erowFabricTxID e of
          None \<Rightarrow> []
        | Some t \<Rightarrow> [(''fabric_tx_id'', JStr t), (''fabric_block_number'', JNum (fmt_d (erowFabricBlock e)))]))"

definition approvalView :: "approval_row \<Rightarrow> jval" where
  "approvalView a = JObj [(''approver_id'', JStr (apprApproverID a)), (''decision'', JStr (apprDecision a)),
     (''policy_version'', JStr (apprPolicyVersion a))]"

definition apiGetTransaction :: "env \<Rightarrow> api_db \<Rightarrow> string \<Rightarrow> response" where
  "apiGetTransaction en db i =
     (if enFault en ''select transaction'' then internalError
      else case txnRow db i of
          None \<Rightarrow> Fail 404 ''transaction not found''
        | Some t \<Rightarrow>
            if enFault en ''select events'' \<or> enFault en ''select approvals'' then internalError
            else Done 200 (JObj
              [(''transaction'', JObj [(''id'', JStr (trID t)), (''organization_id'', JStr (trOrganizationID t)),
                  (''workflow_type'', JStr (trWorkflowType t)), (''schema_version'', JStr (trSchemaVersion t)),
                  (''created_by'', JStr (trCreatedBy t)), (''status'', JStr (trStatus t))]),
               (''events'', JArr (map eventView (sort_key erowEventSequence (eventsOf db i)))),
               (''approvals'', JArr (map approvalView (filter (\<lambda>a. apprTransactionID a = i) (dbApprovals db))))]))"

section \<open>Assets\<close>

record createAssetRequest =
  caOrganizationID :: string
  caAssetTag :: string

definition apiCreateAsset :: "env \<Rightarrow> api_db \<Rightarrow> createAssetRequest option \<Rightarrow> api_db \<times> response" where
  "apiCreateAsset en db body =
     (case body of
        None \<Rightarrow> (db, Fail 400 ''invalid JSON body'')
      | Some req \<Rightarrow>
          if caOrganizationID req = [] \<or> caAssetTag req = []
          then (db, Fail 400 ''organization_id and asset_tag are required'')
          else
            let i = ''asset_'' @ enUUID en ''asset'' in
            inTx en db (\<lambda>db.
              bindE (or500 (bindE (stmt en ''insert asset'') (\<lambda>_.
                if assetRow db i \<noteq> None then Inl UniqueViolation
                else Inr (db\<lparr>dbAssets := dbAssets db @
                  [(i, \<lparr>arowID = i, arowOrganizationID = caOrganizationID req, arowAssetTag = caAssetTag req,
                        arowStatus = ''CREATED''\<rparr>)]\<rparr>)))) (\<lambda>db.
              bindE (or500 (enqueueOutbox en ''outbox create'' db ''asset'' i ''asset'' ''CreateAsset''
                [AStr i, AStr (caOrganizationID req), AStr (caAssetTag req)])) (\<lambda>db.
                Inr (db, Done 201 (JObj [(''id'', JStr i), (''status'', JStr ''CREATED'')]))))))"

record recordCustodyEventRequest =
  rcFromParty :: string
  rcToParty :: string
  rcLocationZone :: string
  rcConditionNote :: string
  rcInspectionResult :: string
  rcPayload :: jval
  rcNewStatus :: string
  rcSignerIdentity :: string
  rcIdempotencyKey :: string

definition custodyOf :: "api_db \<Rightarrow> string \<Rightarrow> custody_row list" where
  "custodyOf db assetID = filter (\<lambda>c. ceAssetID (crowEvent c) = assetID) (dbCustody db)"

definition custodyConflict :: "custody_row \<Rightarrow> custody_row \<Rightarrow> bool" where
  "custodyConflict c d \<longleftrightarrow>
     crowID c = crowID d \<or> ceIdempotencyKey (crowEvent c) = ceIdempotencyKey (crowEvent d) \<or>
     (ceAssetID (crowEvent c) = ceAssetID (crowEvent d) \<and>
      ceEventSequence (crowEvent c) = ceEventSequence (crowEvent d))"

definition insertCustody :: "env \<Rightarrow> api_db \<Rightarrow> custody_row \<Rightarrow> db_error + api_db" where
  "insertCustody en db row =
     bindE (stmt en ''insert custody'') (\<lambda>_.
       if ceEventSequence (crowEvent row) > maxInt4 then Inl StatementFailed
       else if list_ex (custodyConflict row) (dbCustody db) then Inl UniqueViolation
       else Inr (db\<lparr>dbCustody := dbCustody db @ [row]\<rparr>))"

text \<open>
  The table does not store the event's new status; the row here keeps the whole wire event, of
  which \<open>ceNewStatus\<close> only goes to the outbox.
\<close>

definition apiRecordCustodyEvent ::
  "env \<Rightarrow> api_db \<Rightarrow> string \<Rightarrow> recordCustodyEventRequest option \<Rightarrow> api_db \<times> response" where
  "apiRecordCustodyEvent en db assetID body =
     (case body of
        None \<Rightarrow> (db, Fail 400 ''invalid JSON body'')
      | Some req \<Rightarrow>
          if rcToParty req = [] \<or> rcNewStatus req = [] \<or> rcSignerIdentity req = []
          then (db, Fail 400 ''to_party, new_status, and signer_identity are required'')
          else
            let idempotencyKey =
                  (if rcIdempotencyKey req = [] then enUUID en ''request idempotency'' else rcIdempotencyKey req) in
            if enFault en ''select asset'' then (db, internalError)
            else if assetRow db assetID = None then (db, Fail 404 ''asset not found'')
            else inTx en db (\<lambda>db.
              bindE (or500 (stmt en ''select last custody'')) (\<lambda>_.
              let (nextSequence, previousHash) =
                    (case latestBy (\<lambda>c. ceEventSequence (crowEvent c)) (custodyOf db assetID) of
                       Some c \<Rightarrow> (ceEventSequence (crowEvent c) + 1, cePayloadHash (crowEvent c))
                     | None \<Rightarrow> (1, [])) in
              bindE (or500 (orErr SigningIdentityError (enKeystore en (rcSignerIdentity req)))) (\<lambda>identity.
              case SignHybrid (enPrims en) identity
                     \<lparr>scApplication = enApplication en, scEnvironment = enEnvironment en,
                      scTransactionType = ''ASSET_CUSTODY_'' @ rcNewStatus req,
                      scSchemaVersion = ''custody_event.v1'', scTransactionID = assetID\<rparr>
                     (Some (rcPayload req)) of
                Inl _ \<Rightarrow> Inl internalError
              | Inr (sig, payloadHash) \<Rightarrow>
                  let evt = \<lparr>ceAssetID = assetID, ceEventSequence = nextSequence, ceFromParty = rcFromParty req,
                        ceToParty = rcToParty req, ceLocationZone = rcLocationZone req,
                        ceConditionNote = rcConditionNote req, ceInspectionResult = rcInspectionResult req,
                        cePayloadHash = payloadHash, cePreviousEventHash = previousHash,
                        ceAlgorithmSuite = hsAlgorithmSuite sig, ceClassicalKeyID = hsClassicalKeyID sig,
                        cePQCKeyID = hsPQCKeyID sig, ceClassicalSignature = hsClassicalSignature sig,
                        cePQCSignature = hsPQCSignature sig, ceIdempotencyKey = idempotencyKey,
                        ceCreatedAtServer = enNow en, ceNewStatus = rcNewStatus req\<rparr> in
                  bindE (or500 (insertCustody en db
                    \<lparr>crowID = enUUID en ''custody event'', crowEvent = evt, crowFabricTxID = None,
                     crowFabricBlock = 0\<rparr>)) (\<lambda>db.
                  bindE (or500 (enqueueOutbox en ''outbox custody'' db ''asset'' assetID ''asset'' ''RecordCustodyEvent''
                    [ACustodyEvent evt])) (\<lambda>db.
                    Inr (db, Done 202 (JObj [(''event_sequence'', JNum (fmt_d nextSequence)),
                      (''payload_hash'', JStr payloadHash), (''status'', JStr ''queued'')])))))))
       )"

definition custodyEventView :: "custody_row \<Rightarrow> jval" where
  "custodyEventView c =
     (let e = crowEvent c in
      JObj ([(''event_sequence'', JNum (fmt_d (ceEventSequence e))), (''from_party'', JStr (ceFromParty e)),
        (''to_party'', JStr (ceToParty e)), (''location_zone'', JStr (ceLocationZone e)),
        (''condition_note'', JStr (ceConditionNote e)), (''inspection_result'', JStr (ceInspectionResult e)),
        (''payload_hash'', JStr (cePayloadHash e)), (''previous_event_hash'', JStr (cePreviousEventHash e)),
        (''algorithm_suite'', JStr (ceAlgorithmSuite e)), (''idempotency_key'', JStr (ceIdempotencyKey e)),
        (''created_at_server'', JStr (ceCreatedAtServer e))] @
        (case crowFabricTxID c of
           None \<Rightarrow> []
         | Some t \<Rightarrow> [(''fabric_tx_id'', JStr t), (''fabric_block_number'', JNum (fmt_d (crowFabricBlock c)))])))"

definition apiGetAsset :: "env \<Rightarrow> api_db \<Rightarrow> string \<Rightarrow> response" where
  "apiGetAsset en db i =
     (if enFault en ''select asset'' then internalError
      else case assetRow db i of
          None \<Rightarrow> Fail 404 ''asset not found''
        | Some a \<Rightarrow>
            if enFault en ''select custody'' then internalError
            else Done 200 (JObj
              [(''asset'', JObj [(''id'', JStr (arowID a)), (''organization_id'', JStr (arowOrganizationID a)),
                  (''asset_tag'', JStr (arowAssetTag a)), (''status'', JStr (arowStatus a))]),
               (''custody_events'', JArr (map custodyEventView
                  (sort_key (\<lambda>c. ceEventSequence (crowEvent c)) (custodyOf db i))))]))"

end
