(* ===== verification/Go_Strings.thy ===== *)
theory Go_Strings
  imports Crypto_Canonical Chaincode_Stub
begin

text \<open>
  The pieces of Go's string library that the handlers use, over UTF-8 bytes: \<^verbatim>\<open>strings.TrimSpace\<close>,
  \<^verbatim>\<open>utf8.RuneCountInString\<close>, \<^verbatim>\<open>strconv.ParseInt\<close> and \<^verbatim>\<open>strconv.Atoi\<close>, and \<^verbatim>\<open>strings.EqualFold\<close>
  on hexadecimal digests, where Unicode folding is ASCII folding.
\<close>

section \<open>White space\<close>

text \<open>The UTF-8 encodings of the runes that \<^verbatim>\<open>unicode.IsSpace\<close> accepts.\<close>

definition spaceRunes :: "bytes list" where
  "spaceRunes =
     map (\<lambda>n. [char_of n]) [0x09, 0x0A, 0x0B, 0x0C, 0x0D, 0x20 :: nat]
     @ map (map char_of) [[0xC2, 0x85], [0xC2, 0xA0], [0xE1, 0x9A, 0x80 :: nat]]
     @ map (\<lambda>n. [CHR 0xE2, CHR 0x80, char_of n]) [0x80, 0x81, 0x82, 0x83, 0x84, 0x85, 0x86, 0x87, 0x88, 0x89, 0x8A,
         0xA8, 0xA9, 0xAF :: nat]
     @ map (map char_of) [[0xE2, 0x81, 0x9F], [0xE3, 0x80, 0x80 :: nat]]"

definition leadingSpace :: "bytes list \<Rightarrow> bytes \<Rightarrow> nat" where
  "leadingSpace runes s = (case find (hasPrefix s) runes of None \<Rightarrow> 0 | Some w \<Rightarrow> length w)"

function trimLeftRunes :: "bytes list \<Rightarrow> bytes \<Rightarrow> bytes" where
  "trimLeftRunes runes s =
     (if leadingSpace runes s = 0 \<or> s = [] then s else trimLeftRunes runes (drop (leadingSpace runes s) s))"
  by pat_completeness auto
termination by (relation "measure (\<lambda>(r, s). length s)") auto

declare trimLeftRunes.simps [simp del]

definition trimSpace :: "string \<Rightarrow> string" where
  "trimSpace s = rev (trimLeftRunes (map rev spaceRunes) (rev (trimLeftRunes spaceRunes s)))"

section \<open>Runes\<close>

function runeCount :: "string \<Rightarrow> nat" where
  "runeCount s = (if s = [] then 0 else Suc (runeCount (drop (max 1 (utf8Width s)) s)))"
  by pat_completeness auto
termination by (relation "measure length") auto

declare runeCount.simps [simp del]

section \<open>Numbers\<close>

definition isDigit :: "char \<Rightarrow> bool" where
  "isDigit c \<longleftrightarrow> 48 \<le> code c \<and> code c \<le> 57"

text \<open>\<^verbatim>\<open>strconv.ParseInt(s, 10, 64)\<close>: an optional sign, at least one digit, within 64 bits.\<close>

definition parseInt :: "string \<Rightarrow> int option" where
  "parseInt s =
     (let (neg, ds) = (case s of
            [] \<Rightarrow> (False, [])
          | c # r \<Rightarrow> if c = CHR ''+'' then (False, r) else if c = CHR ''-'' then (True, r) else (False, s))
      in if ds = [] \<or> \<not> list_all isDigit ds then None
         else let n = (if neg then - int (undec ds) else int (undec ds))
              in if - (2 ^ 63) \<le> n \<and> n < 2 ^ 63 then Some n else None)"

section \<open>Case folding of hexadecimal digests\<close>

definition toLowerAscii :: "char \<Rightarrow> char" where
  "toLowerAscii c = (if 65 \<le> code c \<and> code c \<le> 90 then char_of (code c + 32) else c)"

definition equalFold :: "string \<Rightarrow> string \<Rightarrow> bool" where
  "equalFold s t \<longleftrightarrow> map toLowerAscii s = map toLowerAscii t"

section \<open>Facts\<close>

lemma isDigit_digit: "d < 10 \<Longrightarrow> isDigit (digit d)"
  by (simp add: isDigit_def digit_def)

lemma isDigit_dec: "list_all isDigit (dec n)"
proof (induction n rule: dec.induct)
  case (1 n)
  show ?case using 1 isDigit_digit [of n] isDigit_digit [of "n mod 10"] by (simp add: dec.simps [of n])
qed

lemma dec_not_Nil [simp]: "dec n \<noteq> []"
  by (simp add: dec.simps [of n])

text \<open>A formatted number is read back.\<close>

lemma parseInt_fmt_d:
  assumes "0 \<le> n" "n < 2 ^ 63"
  shows "parseInt (fmt_d n) = Some n"
proof -
  obtain c r where d: "dec (nat n) = c # r" by (cases "dec (nat n)") auto
  then have "isDigit c" using isDigit_dec [of "nat n"] by simp
  then have "c \<noteq> CHR ''+''" "c \<noteq> CHR ''-''" by (auto simp: isDigit_def code_def)
  then show ?thesis
    using assms d isDigit_dec [of "nat n"] undec_dec [of "nat n"] by (simp add: parseInt_def fmt_d_def)
qed

lemma equalFold_refl [simp]: "equalFold s s"
  by (simp add: equalFold_def)

text \<open>A string that starts and ends with a printable ASCII character is its own trimming.\<close>

definition plainChar :: "char \<Rightarrow> bool" where
  "plainChar c \<longleftrightarrow> 32 < code c \<and> code c < 128"

lemma spaceRunes_ends:
  "list_all (\<lambda>w. w \<noteq> [] \<and> \<not> plainChar (hd w)) spaceRunes"
  "list_all (\<lambda>w. w \<noteq> [] \<and> \<not> plainChar (hd w)) (map rev spaceRunes)"
  by (simp_all add: spaceRunes_def plainChar_def code_def)

lemma leadingSpace_plain:
  assumes "list_all (\<lambda>w. w \<noteq> [] \<and> \<not> plainChar (hd w)) runes" "plainChar c"
  shows "leadingSpace runes (c # r) = 0"
proof -
  have "\<not> hasPrefix (c # r) w" if "w \<in> set runes" for w
    using that assms unfolding list_all_iff by (metis hasPrefix.simps(3) list.exhaust_sel)
  then have "find (hasPrefix (c # r)) runes = None" by (simp add: find_None_iff)
  then show ?thesis by (simp add: leadingSpace_def)
qed

lemma trimLeftRunes_none: "leadingSpace runes s = 0 \<Longrightarrow> trimLeftRunes runes s = s"
  by (subst trimLeftRunes.simps) simp

lemma trimSpace_plain:
  assumes "s \<noteq> []" "plainChar (hd s)" "plainChar (last s)"
  shows "trimSpace s = s"
proof -
  have "leadingSpace spaceRunes s = 0"
    using assms leadingSpace_plain [OF spaceRunes_ends(1), of "hd s" "tl s"] by simp
  moreover obtain r where r: "rev s = last s # r" using assms(1) by (cases s rule: rev_cases) auto
  have "leadingSpace (map rev spaceRunes) (rev s) = 0"
    unfolding r by (rule leadingSpace_plain [OF spaceRunes_ends(2) assms(3)])
  ultimately show ?thesis by (simp add: trimSpace_def trimLeftRunes_none)
qed

lemma trimSpace_Nil [simp]: "trimSpace [] = []"
  by (simp add: trimSpace_def trimLeftRunes.simps)

end
