(* ===== verification/Office.thy ===== *)
theory Office
  imports Ledger_API Go_Strings
begin

text \<open>
  The office workflow of the ledger API: \<^verbatim>\<open>api/internal/httpapi/office_auth.go\<close>, \<^verbatim>\<open>office.go\<close> and the
  record types of \<^verbatim>\<open>ttdclient.go\<close>.  The object store (MinIO) is a map from keys to
  bytes beside the database; it is not part of a database transaction, so an object put before
  a rollback stays.  Response messages are those of the code with non-ASCII characters left out, and the
  views leave out the creation times.
\<close>

section \<open>Constants and identities\<close>

definition officeWorkflow :: string where "officeWorkflow = ''pengajuan-kantor''"
definition officeSchema :: string where "officeSchema = ''1''"
definition officePolicy :: string where "officePolicy = ''policy-v1''"
definition officeOrg :: string where "officeOrg = ''org-a''"

definition roleRequester :: string where "roleRequester = ''requester''"
definition roleApprover :: string where "roleApprover = ''approver''"
definition roleAuditor :: string where "roleAuditor = ''auditor''"

definition validOfficeRoles :: "string \<Rightarrow> bool" where
  "validOfficeRoles r = (r = roleRequester \<or> r = roleApprover \<or> r = roleAuditor)"

definition officeCategories :: "string \<Rightarrow> bool" where
  "officeCategories c = List.member [''pengadaan'', ''perjalanan-dinas'', ''reimbursement'', ''lainnya''] c"

record officeIdentity =
  oiID :: string
  oiEmail :: string
  oiName :: string
  oiTTDRole :: string
  oiOfficeRole :: string
  oiOrgID :: string
  oiOrgName :: string

definition isAdmin :: "officeIdentity \<Rightarrow> bool" where
  "isAdmin i = (oiTTDRole i = ''admin'' \<or> oiTTDRole i = ''superadmin'')"

definition canSeeAll :: "officeIdentity \<Rightarrow> bool" where
  "canSeeAll i = (isAdmin i \<or> oiOfficeRole i = roleApprover \<or> oiOfficeRole i = roleAuditor)"

section \<open>The state machine and the permissions\<close>

definition officeTransitions :: "string \<Rightarrow> string list" where
  "officeTransitions cur =
     (if cur = ''DRAFT'' then [''VERIFIED'', ''CANCELLED'']
      else if cur = ''VERIFIED'' then [''ENDORSED'', ''REJECTED'', ''CANCELLED'']
      else if cur = ''ENDORSED'' then [''COMMITTED'', ''REJECTED'']
      else if cur = ''COMMITTED'' then [''SETTLED'', ''REJECTED'']
      else if cur = ''SETTLED'' then [''SUPERSEDED'']
      else [])"

definition canTransition :: "string \<Rightarrow> string \<Rightarrow> bool" where
  "canTransition cur nxt = list_ex (\<lambda>n. n = nxt) (officeTransitions cur)"

record officePerms =
  opCanSubmit :: bool
  opCanCancel :: bool
  opCanApprove :: bool
  opCanReject :: bool
  opCanComplete :: bool

definition permsFor :: "officeIdentity \<Rightarrow> string \<Rightarrow> string \<Rightarrow> officePerms" where
  "permsFor i createdBy status =
     (let creator = (oiID i = createdBy);
          approver = (oiOfficeRole i = roleApprover \<and> \<not> creator \<and> status = ''VERIFIED'')
      in \<lparr>opCanSubmit = (creator \<and> status = ''DRAFT''),
          opCanCancel = (creator \<and> (status = ''DRAFT'' \<or> status = ''VERIFIED'')),
          opCanApprove = approver,
          opCanReject = approver,
          opCanComplete = ((creator \<or> isAdmin i) \<and> status = ''ENDORSED'')\<rparr>)"

section \<open>Authentication\<close>

record office_headers =
  hdSecret :: string
  hdAccount :: string
  hdEmail :: string
  hdName :: string
  hdRole :: string

text \<open>
  \<open>proxySecret\<close> is \<open>None\<close> when the office app is not configured.  The role and the membership
  lookups ignore their errors, as the code does.
\<close>

definition officeAuth ::
  "env \<Rightarrow> string option \<Rightarrow> api_db \<Rightarrow> office_headers \<Rightarrow> api_db \<times> (response + officeIdentity)" where
  "officeAuth en proxySecret db hdr =
     (if proxySecret = None \<or> proxySecret = Some [] \<or> proxySecret \<noteq> Some (hdSecret hdr)
      then (db, Inl (Fail 401 ''unauthorized''))
      else
        let i = trimSpace (hdAccount hdr); email = trimSpace (hdEmail hdr); name0 = trimSpace (hdName hdr);
            ttdRole = trimSpace (hdRole hdr) in
        if i = [] then (db, Inl (Fail 401 ''unauthorized''))
        else
          let name = (if name0 = [] then email else name0) in
          if enFault en ''provision identity'' then (db, Inl internalError)
          else
            let users = (case map_of (dbUsers db) i of
                  None \<Rightarrow> dbUsers db @ [(i, \<lparr>urDisplayName = name, urRole = ''requester'', urEmail = email\<rparr>)]
                | Some _ \<Rightarrow> AList.map_entry i (\<lambda>u. u\<lparr>urDisplayName := name, urEmail := email\<rparr>) (dbUsers db));
                role = (if enFault en ''select role'' then roleRequester
                        else case map_of (dbOfficeRoles db) i of
                            Some r \<Rightarrow> if validOfficeRoles r then r else roleRequester
                          | None \<Rightarrow> roleRequester);
                (orgID, orgName) = (if enFault en ''select member'' then ([], [])
                        else case map_of (dbMembers db) i of
                            None \<Rightarrow> ([], [])
                          | Some org \<Rightarrow> (case map_of (dbOffices db) org of None \<Rightarrow> ([], []) | Some n \<Rightarrow> (org, n)))
            in (db\<lparr>dbUsers := users\<rparr>,
                Inr \<lparr>oiID = i, oiEmail = email, oiName = name, oiTTDRole = ttdRole, oiOfficeRole = role,
                     oiOrgID = orgID, oiOrgName = orgName\<rparr>))"

definition officeMe :: "bool \<Rightarrow> officeIdentity \<Rightarrow> response" where
  "officeMe fabricEnabled i =
     Done 200 (JObj [(''id'', JStr (oiID i)), (''email'', JStr (oiEmail i)), (''name'', JStr (oiName i)),
       (''office_role'', JStr (oiOfficeRole i)), (''ttd_role'', JStr (oiTTDRole i)),
       (''is_admin'', JBool (isAdmin i)), (''fabric_enabled'', JBool fabricEnabled)])"

definition seededUsers :: "string list" where
  "seededUsers = [''requester-1'', ''approver-1'', ''approver-2'', ''warehouse-1'', ''auditor-1'']"

definition officeListRoles :: "env \<Rightarrow> api_db \<Rightarrow> officeIdentity \<Rightarrow> response" where
  "officeListRoles en db me =
     (if \<not> isAdmin me then Fail 403 ''hanya admin''
      else if enFault en ''list roles'' then internalError
      else Done 200 (JObj [(''roles'', JArr (map
        (\<lambda>(i, u). JObj [(''account_id'', JStr i), (''email'', JStr (urEmail u)), (''name'', JStr (urDisplayName u)),
           (''role'', JStr (case map_of (dbOfficeRoles db) i of None \<Rightarrow> ''requester'' | Some r \<Rightarrow> r))])
        (sort_key (\<lambda>(i, u). urDisplayName u) (filter (\<lambda>(i, u). \<not> List.member seededUsers i) (dbUsers db)))))]))"

record set_role_request =
  srRole :: string
  srEmail :: string
  srName :: string

definition officeSetRole ::
  "env \<Rightarrow> api_db \<Rightarrow> officeIdentity \<Rightarrow> string \<Rightarrow> set_role_request option \<Rightarrow> api_db \<times> response" where
  "officeSetRole en db me account body =
     (if \<not> isAdmin me then (db, Fail 403 ''hanya admin'')
      else case body of
          None \<Rightarrow> (db, Fail 400 ''role harus requester, approver, atau auditor'')
        | Some req \<Rightarrow>
            if \<not> validOfficeRoles (srRole req) then (db, Fail 400 ''role harus requester, approver, atau auditor'')
            else if account = [] \<or> length account > 100 then (db, Fail 400 ''account_id tidak valid'')
            else inTx en db (\<lambda>db.
              let name = (if srName req \<noteq> [] then srName req else if srEmail req \<noteq> [] then srEmail req else account) in
              bindE (or500 (stmt en ''upsert identity'')) (\<lambda>_.
              let users = (case map_of (dbUsers db) account of
                    None \<Rightarrow> dbUsers db @ [(account, \<lparr>urDisplayName = name, urRole = srRole req, urEmail = srEmail req\<rparr>)]
                  | Some _ \<Rightarrow> AList.map_entry account (\<lambda>u. u\<lparr>urRole := srRole req\<rparr>) (dbUsers db)) in
              bindE (or500 (stmt en ''upsert role'')) (\<lambda>_.
                Inr (db\<lparr>dbUsers := users, dbOfficeRoles := AList.update account (srRole req) (dbOfficeRoles db)\<rparr>,
                     Done 200 (JObj [(''account_id'', JStr account), (''role'', JStr (srRole req))]))))))"

section \<open>Listing\<close>

definition ledgerState :: "bool \<Rightarrow> nat \<Rightarrow> nat \<Rightarrow> nat \<Rightarrow> string" where
  "ledgerState enabled queued dead committed =
     (if dead > 0 then ''failed''
      else if queued = 0 \<and> committed > 0 then ''recorded''
      else ''queued'')"

definition ledgerView :: "bool \<Rightarrow> nat \<Rightarrow> nat \<Rightarrow> nat \<Rightarrow> jval" where
  "ledgerView enabled queued dead committed =
     JObj [(''enabled'', JBool enabled), (''state'', JStr (ledgerState enabled queued dead committed)),
       (''queued'', JNum (fmt_d (int queued))), (''dead'', JNum (fmt_d (int dead))),
       (''committed_events'', JNum (fmt_d (int committed)))]"

definition outboxCount :: "api_db \<Rightarrow> string \<Rightarrow> (string \<Rightarrow> bool) \<Rightarrow> nat" where
  "outboxCount db i st = length (filter (\<lambda>ob. obAggregateID ob = i \<and> st (obStatus ob)) (dbOutbox db))"

definition queuedCount :: "api_db \<Rightarrow> string \<Rightarrow> nat" where
  "queuedCount db i = outboxCount db i (\<lambda>s. s = ''pending'' \<or> s = ''failed'')"

definition deadCount :: "api_db \<Rightarrow> string \<Rightarrow> nat" where
  "deadCount db i = outboxCount db i (\<lambda>s. s = ''dead_letter'')"

definition committedCount :: "api_db \<Rightarrow> string \<Rightarrow> nat" where
  "committedCount db i = length (filter (\<lambda>e. erowFabricTxID e \<noteq> None) (eventsOf db i))"

definition displayName :: "api_db \<Rightarrow> string \<Rightarrow> string" where
  "displayName db i = (case map_of (dbUsers db) i of None \<Rightarrow> i | Some u \<Rightarrow> urDisplayName u)"

text \<open>The rows a scope selects; \<open>None\<close> is the empty inbox of someone who is no approver.\<close>

definition listScope :: "officeIdentity \<Rightarrow> string \<Rightarrow> (txn_row \<Rightarrow> bool) option" where
  "listScope me scope =
     (if scope = ''inbox'' then
        if oiOfficeRole me \<noteq> roleApprover then None
        else Some (\<lambda>t. trStatus t = ''VERIFIED'' \<and> trCreatedBy t \<noteq> oiID me)
      else if scope = ''all'' then
        if \<not> canSeeAll me then Some (\<lambda>t. trCreatedBy t = oiID me) else Some (\<lambda>t. True)
      else Some (\<lambda>t. trCreatedBy t = oiID me))"

definition listRows :: "api_db \<Rightarrow> officeIdentity \<Rightarrow> string \<Rightarrow> string \<Rightarrow> txn_row list" where
  "listRows db me scope status =
     (case listScope me scope of
        None \<Rightarrow> []
      | Some P \<Rightarrow> take 200 (rev (sort_key trUpdatedAt (filter
          (\<lambda>t. trWorkflowType t = officeWorkflow \<and> P t \<and> (status = [] \<or> trStatus t = status))
          (map snd (dbTxns db))))))"

text \<open>
  A field of \<^verbatim>\<open>txnMeta\<close>: a column that is null, or a key that is missing, decodes to Go's zero value.
\<close>

definition metaField :: "string \<Rightarrow> txn_row \<Rightarrow> jval" where
  "metaField k t =
     (let zero = (if k = ''amount'' then JNum ''0'' else JStr []) in
      case trOfficeMeta t of None \<Rightarrow> zero
      | Some m \<Rightarrow> (case jfield k m of None \<Rightarrow> zero | Some v \<Rightarrow> v))"

definition officeListTransactions ::
  "env \<Rightarrow> bool \<Rightarrow> api_db \<Rightarrow> officeIdentity \<Rightarrow> string \<Rightarrow> string \<Rightarrow> response" where
  "officeListTransactions en fabricEnabled db me scope status =
     (if listScope me scope = None then Done 200 (JObj [(''transactions'', JArr [])])
      else if enFault en ''list transactions'' then internalError
      else Done 200 (JObj [(''transactions'', JArr (map (\<lambda>t.
        JObj [(''id'', JStr (trID t)), (''status'', JStr (trStatus t)), (''title'', metaField ''title'' t),
          (''category'', metaField ''category'' t), (''amount'', metaField ''amount'' t),
          (''created_by'', JStr (trCreatedBy t)), (''created_by_name'', JStr (displayName db (trCreatedBy t))),
          (''updated_at'', JNum (fmt_d (trUpdatedAt t))),
          (''ledger'', ledgerView fabricEnabled (queuedCount db (trID t)) (deadCount db (trID t))
             (committedCount db (trID t)))]) (listRows db me scope status)))]))"

section \<open>Documents\<close>

type_synonym objects = "string \<Rightarrow> bytes option"

definition maxDocumentSize :: int where
  "maxDocumentSize = 33554432"

definition sha512Hex :: "env \<Rightarrow> bytes \<Rightarrow> string" where
  "sha512Hex en b = hexEncode (enSha512 en b)"

definition insertDoc :: "env \<Rightarrow> api_db \<Rightarrow> doc_row \<Rightarrow> db_error + api_db" where
  "insertDoc en db row =
     bindE (stmt en ''insert document'') (\<lambda>_.
       if list_ex (\<lambda>d. drowID d = drowID row) (dbDocs db) then Inl UniqueViolation
       else Inr (db\<lparr>dbDocs := dbDocs db @ [row]\<rparr>))"

definition storeDocument ::
  "env \<Rightarrow> api_db \<Rightarrow> objects \<Rightarrow> string \<Rightarrow> string \<Rightarrow> string \<Rightarrow> string \<Rightarrow> bytes \<Rightarrow>
     objects \<times> (db_error + (api_db \<times> string))" where
  "storeDocument en db objs txnID kind fileName uploadedBy data =
     (let i = enUUID en ''document'';
          key = ''office/'' @ txnID @ ''/'' @ kind @ ''-'' @ i @ ''.pdf''
      in if \<not> enPutObject en key then (objs, Inl StatementFailed)
         else
           (objs(key \<mapsto> data),
            bindE (insertDoc en db
              \<lparr>drowID = i, drowOwnerType = ''transaction_event'', drowOwnerID = txnID, drowStorageKey = key,
               drowSHA256 = ''sha256:'' @ hexEncode (pSha256 (enPrims en) data), drowContentType = ''application/pdf'',
               drowUploadedBy = uploadedBy, drowKind = kind, drowFileName = fileName,
               drowSHA512 = sha512Hex en data, drowSize = int (length data)\<rparr>) (\<lambda>db. Inr (db, i))))"

definition replacedRune :: "char \<Rightarrow> bool" where
  "replacedRune c \<longleftrightarrow> code c < 32 \<or> c = CHR ''/'' \<or> c = bsl \<or> c = quot"

text \<open>\<^verbatim>\<open>strings.Map\<close>: every rune is mapped; a byte that is not UTF-8 becomes U+FFFD.\<close>

function mapRunes :: "string \<Rightarrow> string" where
  "mapRunes s =
     (case s of
        [] \<Rightarrow> []
      | c # r \<Rightarrow>
          if code c < 0x80 then (if replacedRune c then CHR ''_'' else c) # mapRunes r
          else if utf8Width s = 0 then [CHR 0xEF, CHR 0xBF, CHR 0xBD] @ mapRunes r
          else take (utf8Width s) s @ mapRunes (drop (utf8Width s - 1) r))"
  by pat_completeness auto
termination by (relation "measure length") auto

declare mapRunes.simps [simp del]

definition cleanFileName :: "string \<Rightarrow> string" where
  "cleanFileName n0 =
     (let n = mapRunes n0;
          n = (if length n > 120 then drop (length n - 120) n else n)
      in if n = [] then ''dokumen.pdf'' else n)"

section \<open>Creating a request\<close>

text \<open>
  The frame of a handler that also writes objects: the body threads the object store, which keeps
  what was put even when the database transaction does not commit.
\<close>

definition inTxO ::
  "env \<Rightarrow> api_db \<times> objects \<Rightarrow> (api_db \<Rightarrow> objects \<Rightarrow> objects \<times> (response + (api_db \<times> response))) \<Rightarrow>
     (api_db \<times> objects) \<times> response" where
  "inTxO en st body =
     (if enFault en ''begin'' then (st, internalError)
      else case body (fst st) (snd st) of
          (objs, Inl r) \<Rightarrow> ((fst st, objs), r)
        | (objs, Inr (db', r)) \<Rightarrow>
            if enFault en ''commit'' then ((fst st, objs), internalError) else ((db', objs), r))"

record office_form =
  ofTitle :: string
  ofCategory :: string
  ofDescription :: string
  ofAmount :: string
  ofFile :: "(string \<times> bytes) option"

definition metaJSON :: "string \<Rightarrow> string \<Rightarrow> int \<Rightarrow> string \<Rightarrow> jval" where
  "metaJSON title category amount description =
     JObj [(''title'', JStr title), (''category'', JStr category), (''amount'', JNum (fmt_d amount)),
       (''description'', JStr description)]"

definition officeCreateBody ::
  "env \<Rightarrow> officeIdentity \<Rightarrow> string \<Rightarrow> string \<Rightarrow> int \<Rightarrow> string \<Rightarrow> string \<Rightarrow> bytes \<Rightarrow> api_db \<Rightarrow> objects \<Rightarrow>
     objects \<times> (response + (api_db \<times> response))" where
  "officeCreateBody en me title category amount description fileName data db objs =
     (let txnID = ''txn_'' @ enUUID en ''transaction'' in
      case bindE (insertTxn en db
             \<lparr>trID = txnID, trOrganizationID = officeOrg, trWorkflowType = officeWorkflow,
              trSchemaVersion = officeSchema, trCreatedBy = oiID me, trStatus = ''DRAFT'', trUpdatedAt = enTime en,
              trOfficeMeta = Some (metaJSON title category amount description)\<rparr>) (\<lambda>db.
             enqueueOutbox en ''outbox create'' db ''transaction'' txnID ''transaction'' ''CreateTransaction''
               [AStr txnID, AStr officeOrg, AStr officeWorkflow, AStr officeSchema, AStr (oiID me)]) of
        Inl _ \<Rightarrow> (objs, Inl internalError)
      | Inr db1 \<Rightarrow>
          (case storeDocument en db1 objs txnID ''attachment'' (cleanFileName fileName) (oiID me) data of
             (objs', Inl _) \<Rightarrow> (objs', Inl internalError)
           | (objs', Inr (db2, docID)) \<Rightarrow>
               (objs',
                case appendTransactionEvent en db2
                       \<lparr>eiTransactionID = txnID, eiEventType = ''CREATED'', eiSignerIdentity = oiID me,
                        eiPayload = JObj [(''title'', JStr title), (''category'', JStr category),
                          (''amount'', JNum (fmt_d amount)), (''description'', JStr description),
                          (''document_id'', JStr docID), (''document_sha512'', JStr (sha512Hex en data)),
                          (''file_name'', JStr (cleanFileName fileName))],
                        eiNewStatus = [], eiIdempotencyKey = []\<rparr> True of
                  Inl _ \<Rightarrow> Inl internalError
                | Inr (db3, _) \<Rightarrow> Inr (db3, Done 201 (JObj [(''id'', JStr txnID), (''status'', JStr ''DRAFT'')])))))"

definition officeCreateTransaction ::
  "env \<Rightarrow> officeIdentity \<Rightarrow> office_form option \<Rightarrow> api_db \<times> objects \<Rightarrow> (api_db \<times> objects) \<times> response" where
  "officeCreateTransaction en me form st =
     (case form of
        None \<Rightarrow> (st, Fail 400 ''kirim multipart/form-data dengan berkas PDF (maks 32 MiB)'')
      | Some f \<Rightarrow>
          let title = trimSpace (ofTitle f); category = trimSpace (ofCategory f);
              description = trimSpace (ofDescription f); amount = parseInt (trimSpace (ofAmount f)) in
          if runeCount title < 3 \<or> runeCount title > 200 then (st, Fail 400 ''judul 3-200 karakter'')
          else if \<not> officeCategories category then (st, Fail 400 ''kategori tidak dikenal'')
          else (case amount of
              None \<Rightarrow> (st, Fail 400 ''nominal harus bilangan bulat rupiah'')
            | Some amount \<Rightarrow>
                if amount < 0 \<or> amount > 1000000000000 then (st, Fail 400 ''nominal harus bilangan bulat rupiah'')
                else if runeCount description > 2000 then (st, Fail 400 ''keterangan maksimal 2000 karakter'')
                else (case ofFile f of
                    None \<Rightarrow> (st, Fail 400 ''lampiran PDF wajib diisi'')
                  | Some (fileName, data) \<Rightarrow>
                      if int (length data) > maxDocumentSize
                        then (st, Fail 400 ''berkas terlalu besar (maks 32 MiB)'')
                      else if \<not> hasPrefix data ''%PDF-'' then (st, Fail 400 ''lampiran harus berkas PDF'')
                      else inTxO en st (officeCreateBody en me title category amount description fileName data))))"

section \<open>Detail\<close>

definition visible :: "officeIdentity \<Rightarrow> txn_row \<Rightarrow> bool" where
  "visible me t \<longleftrightarrow> canSeeAll me \<or> trCreatedBy t = oiID me"

definition officeTxn :: "api_db \<Rightarrow> string \<Rightarrow> txn_row option" where
  "officeTxn db i =
     (case txnRow db i of
        Some t \<Rightarrow> if trWorkflowType t = officeWorkflow then Some t else None
      | None \<Rightarrow> None)"

definition permsView :: "officePerms \<Rightarrow> jval" where
  "permsView p = JObj [(''can_submit'', JBool (opCanSubmit p)), (''can_cancel'', JBool (opCanCancel p)),
     (''can_approve'', JBool (opCanApprove p)), (''can_reject'', JBool (opCanReject p)),
     (''can_complete'', JBool (opCanComplete p))]"

definition officeEventView :: "api_db \<Rightarrow> event_row \<Rightarrow> jval" where
  "officeEventView db e =
     JObj ([(''sequence'', JNum (fmt_d (erowEventSequence e))), (''type'', JStr (erowEventType e)),
       (''actor_id'', JStr (erowActorID e)), (''actor_name'', JStr (displayName db (erowActorID e))),
       (''at'', JStr (erowCreatedAtServer e)), (''payload_hash'', JStr (erowPayloadHash e)),
       (''payload'', case erowPayload e of None \<Rightarrow> JObj [] | Some p \<Rightarrow> p),
       (''recorded_on_ledger'', JBool (erowFabricTxID e \<noteq> None))] @
       (case erowFabricTxID e of None \<Rightarrow> []
        | Some t \<Rightarrow> [(''fabric_tx_id'', JStr t), (''fabric_block_number'', JNum (fmt_d (erowFabricBlock e)))]))"

text \<open>The last event with a TTD signature determines the summary shown with the request.\<close>

definition ttdSummary :: "event_row list \<Rightarrow> jval" where
  "ttdSummary es =
     (case filter (\<lambda>e. case payloadText ''ttd_public_id'' e of None \<Rightarrow> False | Some pid \<Rightarrow> pid \<noteq> []) es of
        [] \<Rightarrow> JNull
      | fs \<Rightarrow>
          let e = last fs; fld = (\<lambda>k. case erowPayload e of None \<Rightarrow> JNull
                | Some p \<Rightarrow> (case jfield k p of None \<Rightarrow> JNull | Some v \<Rightarrow> v))
          in JObj [(''public_id'', fld ''ttd_public_id''), (''verification_url'', fld ''verification_url''),
               (''signed_sha512'', fld ''signed_sha512'')])"

definition docView :: "api_db \<Rightarrow> doc_row \<Rightarrow> jval" where
  "docView db d = JObj [(''id'', JStr (drowID d)), (''kind'', JStr (drowKind d)), (''file_name'', JStr (drowFileName d)),
     (''size'', JNum (fmt_d (drowSize d))), (''sha256'', JStr (drowSHA256 d)), (''sha512'', JStr (drowSHA512 d)),
     (''uploaded_by'', JStr (displayName db (drowUploadedBy d)))]"

definition officeDocsOf :: "api_db \<Rightarrow> string \<Rightarrow> doc_row list" where
  "officeDocsOf db i =
     filter (\<lambda>d. drowOwnerID d = i \<and> (drowKind d = ''attachment'' \<or> drowKind d = ''signed'')) (dbDocs db)"

definition officeGetTransaction :: "env \<Rightarrow> bool \<Rightarrow> api_db \<Rightarrow> officeIdentity \<Rightarrow> string \<Rightarrow> response" where
  "officeGetTransaction en fabricEnabled db me i =
     (if enFault en ''detail'' then internalError
      else case officeTxn db i of
          None \<Rightarrow> Fail 404 ''transaksi tidak ditemukan''
        | Some t \<Rightarrow>
            if \<not> canSeeAll me \<and> trCreatedBy t \<noteq> oiID me then Fail 404 ''transaksi tidak ditemukan''
            else if enFault en ''detail events'' \<or> enFault en ''detail documents'' then internalError
            else
              let es = sort_key erowEventSequence (eventsOf db i);
                  (queued, dead) = (if enFault en ''detail outbox'' then (0, 0) else (queuedCount db i, deadCount db i))
              in Done 200 (JObj
                [(''transaction'', JObj [(''id'', JStr i), (''status'', JStr (trStatus t)),
                    (''title'', metaField ''title'' t), (''category'', metaField ''category'' t),
                    (''amount'', metaField ''amount'' t), (''description'', metaField ''description'' t),
                    (''created_by'', JStr (trCreatedBy t)), (''created_by_name'', JStr (displayName db (trCreatedBy t)))]),
                 (''events'', JArr (map (officeEventView db) es)),
                 (''documents'', JArr (map (docView db) (officeDocsOf db i))),
                 (''ttd'', ttdSummary es),
                 (''ledger'', ledgerView fabricEnabled queued dead (committedCount db i)),
                 (''permissions'', permsView (permsFor me (trCreatedBy t) (trStatus t)))]))"

section \<open>Actions\<close>

definition lockTxn :: "env \<Rightarrow> api_db \<Rightarrow> string \<Rightarrow> db_error + (string \<times> string)" where
  "lockTxn en db i =
     bindE (stmt en ''lock'') (\<lambda>_.
     bindE (orErr NoRows (officeTxn db i)) (\<lambda>t. Inr (trCreatedBy t, trStatus t)))"

text \<open>
  \<open>check\<close> and \<open>apply\<close> return \<open>Some\<close> response to refuse, like the non-zero codes of the source.
\<close>

definition officeAction ::
  "env \<Rightarrow> officeIdentity \<Rightarrow> string \<Rightarrow> (officeIdentity \<Rightarrow> string \<Rightarrow> string \<Rightarrow> response option) \<Rightarrow>
     (api_db \<Rightarrow> objects \<Rightarrow> officeIdentity \<Rightarrow> string \<Rightarrow> objects \<times> (response + api_db)) \<Rightarrow>
     api_db \<times> objects \<Rightarrow> (api_db \<times> objects) \<times> response" where
  "officeAction en me i check apply st =
     inTxO en st (\<lambda>db objs.
       case lockTxn en db i of
         Inl NoRows \<Rightarrow> (objs, Inl (Fail 404 ''transaksi tidak ditemukan''))
       | Inl _ \<Rightarrow> (objs, Inl internalError)
       | Inr (createdBy, status) \<Rightarrow>
           if \<not> canSeeAll me \<and> createdBy \<noteq> oiID me then (objs, Inl (Fail 404 ''transaksi tidak ditemukan''))
           else case check me createdBy status of
               Some r \<Rightarrow> (objs, Inl r)
             | None \<Rightarrow>
                 (case apply db objs me createdBy of
                    (objs', Inl r) \<Rightarrow> (objs', Inl r)
                  | (objs', Inr db') \<Rightarrow> (objs', Inr (db', Done 200 (JObj [(''id'', JStr i), (''status'', JStr ''ok'')])))))"

definition simpleStep ::
  "env \<Rightarrow> officeIdentity \<Rightarrow> string \<Rightarrow> string \<Rightarrow> string \<Rightarrow> (officePerms \<Rightarrow> bool) \<Rightarrow> string \<Rightarrow>
     api_db \<times> objects \<Rightarrow> (api_db \<times> objects) \<times> response" where
  "simpleStep en me i eventType newStatus allowed denyMsg st =
     officeAction en me i
       (\<lambda>me createdBy status.
          if \<not> allowed (permsFor me createdBy status) \<or> \<not> canTransition status newStatus
          then Some (Fail 409 denyMsg) else None)
       (\<lambda>db objs me createdBy.
          (objs,
           case appendTransactionEvent en db
                  \<lparr>eiTransactionID = i, eiEventType = eventType, eiSignerIdentity = oiID me,
                   eiPayload = JObj [(''actor'', JStr (oiID me)), (''event_type'', JStr eventType),
                     (''new_status'', JStr newStatus), (''at'', JStr (enNowNano en))],
                   eiNewStatus = newStatus, eiIdempotencyKey = []\<rparr> True of
             Inl _ \<Rightarrow> Inl internalError
           | Inr (db', _) \<Rightarrow> Inr db'))
       st"

definition officeSubmit :: "env \<Rightarrow> officeIdentity \<Rightarrow> string \<Rightarrow> api_db \<times> objects \<Rightarrow> (api_db \<times> objects) \<times> response" where
  "officeSubmit en me i st = simpleStep en me i ''SUBMITTED'' ''VERIFIED'' opCanSubmit
     ''hanya pembuat yang dapat mengirim transaksi berstatus DRAFT'' st"

definition officeComplete :: "env \<Rightarrow> officeIdentity \<Rightarrow> string \<Rightarrow> api_db \<times> objects \<Rightarrow> (api_db \<times> objects) \<times> response" where
  "officeComplete en me i st = simpleStep en me i ''COMPLETED'' ''COMMITTED'' opCanComplete
     ''transaksi hanya dapat diselesaikan oleh pembuat/admin setelah disetujui'' st"

definition officeCancel :: "env \<Rightarrow> officeIdentity \<Rightarrow> string \<Rightarrow> api_db \<times> objects \<Rightarrow> (api_db \<times> objects) \<times> response" where
  "officeCancel en me i st = simpleStep en me i ''CANCELLED'' ''CANCELLED'' opCanCancel
     ''hanya pembuat yang dapat membatalkan DRAFT/menunggu persetujuan'' st"

definition verifyTTDApproval ::
  "env \<Rightarrow> api_db \<Rightarrow> objects \<Rightarrow> string \<Rightarrow> officeIdentity \<Rightarrow> string \<Rightarrow>
     objects \<times> (response + (api_db \<times> (string \<times> jval) list))" where
  "verifyTTDApproval en db objs txnID me publicID =
     (case enTTD en of
        None \<Rightarrow> (objs, Inl (Fail 503 ''layanan TTD tidak dikonfigurasi''))
      | Some ttd \<Rightarrow>
        (case ttdRecord ttd publicID of
           None \<Rightarrow> (objs, Inl (Fail 400 ''tanda tangan TTD tidak ditemukan atau tidak dapat diverifikasi''))
         | Some rc \<Rightarrow>
             if ttdAccountID rc \<noteq> oiID me then (objs, Inl (Fail 403 ''tanda tangan TTD itu bukan milik Anda''))
             else if ttdVerificationStatus rc \<noteq> ''accepted''
               then (objs, Inl (Fail 409 (''tanda tangan TTD belum diverifikasi server (status: '' @
                      ttdVerificationStatus rc @ '')'')))
             else
               let attachSHA512 = (if enFault en ''select attachment'' then [] else
                     case find (\<lambda>d. drowOwnerID d = txnID \<and> drowKind d = ''attachment'') (dbDocs db) of
                       None \<Rightarrow> [] | Some d \<Rightarrow> drowSHA512 d) in
               if attachSHA512 = [] then (objs, Inl (Fail 409 ''lampiran asli tidak ditemukan''))
               else if \<not> equalFold (ttdOriginalSHA512 rc) attachSHA512
                 then (objs, Inl (Fail 409 ''tanda tangan TTD itu dibuat atas dokumen lain, bukan lampiran transaksi ini''))
               else (case ttdSignedPDF ttd publicID of
                   None \<Rightarrow> (objs, Inl (Fail 502 ''gagal mengambil PDF bertanda tangan dari server TTD''))
                 | Some signed \<Rightarrow>
                     if \<not> equalFold (sha512Hex en signed) (ttdSignedSHA512 rc)
                       then (objs, Inl (Fail 409 ''PDF bertanda tangan tidak cocok dengan catatan server TTD''))
                     else (case storeDocument en db objs txnID ''signed'' (''bertandatangan-'' @ publicID @ ''.pdf'')
                                (oiID me) signed of
                         (objs', Inl _) \<Rightarrow> (objs', Inl internalError)
                       | (objs', Inr (db', docID)) \<Rightarrow>
                           (objs', Inr (db', [(''ttd_public_id'', JStr publicID),
                              (''verification_url'', JStr (ttdVerificationURL rc)),
                              (''original_sha512'', JStr (ttdOriginalSHA512 rc)),
                              (''signed_sha512'', JStr (ttdSignedSHA512 rc)),
                              (''signed_document_id'', JStr docID)]))))))"

record decisionRequest =
  drDecision :: string
  drTTDPublicID :: string
  drReason :: string

definition decisionApply ::
  "env \<Rightarrow> string \<Rightarrow> decisionRequest \<Rightarrow> api_db \<Rightarrow> objects \<Rightarrow> officeIdentity \<Rightarrow> string \<Rightarrow> objects \<times> (response + api_db)" where
  "decisionApply en i inp db objs me createdBy =
     (let approve = (drDecision inp = ''approve'') in
      case (if enFault en ''select submitted'' then None
            else latestBy erowEventSequence (filter (\<lambda>e. erowEventType e = ''SUBMITTED'') (eventsOf db i))) of
        None \<Rightarrow> (objs, Inl (Fail 409 ''pengajuan belum dikirim''))
      | Some submitted \<Rightarrow>
          let payload = [(''approver_id'', JStr (oiID me)), (''policy_version'', JStr officePolicy)];
              (eventType, newStatus) = (if approve then (''APPROVED_SIGNED'', ''ENDORSED'') else (''REJECTED'', ''REJECTED''));
              (objs, checked) =
                (if approve then verifyTTDApproval en db objs i me (drTTDPublicID inp)
                 else (objs, Inr (db, [(''reason'', JStr (trimSpace (drReason inp)))])))
          in (objs,
              bindE checked (\<lambda>(db, extra).
              if \<not> canTransition ''VERIFIED'' newStatus then Inl (Fail 409 ''transisi status tidak diizinkan'')
              else case appendTransactionEvent en db
                     \<lparr>eiTransactionID = i, eiEventType = eventType, eiSignerIdentity = oiID me,
                      eiPayload = JObj (payload @ extra), eiNewStatus = newStatus, eiIdempotencyKey = []\<rparr> True of
                  Inl UniqueViolation \<Rightarrow> Inl (Fail 409 ''tanda tangan TTD ini sudah dipakai untuk persetujuan lain'')
                | Inl _ \<Rightarrow> Inl internalError
                | Inr (db, _) \<Rightarrow>
                    bindE (or500 (insertApproval en db
                      \<lparr>apprID = enUUID en ''approval'', apprTransactionID = i, apprEventID = erowID submitted,
                       apprApproverID = oiID me, apprDecision = drDecision inp, apprPolicyVersion = officePolicy\<rparr>)) (\<lambda>db.
                    if approve then
                      or500 (enqueueOutbox en ''outbox approve'' db ''transaction'' i ''transaction'' ''Approve''
                        [AStr i, AStr (fmt_d (erowEventSequence submitted)), AStr (oiID me), AStr (drDecision inp),
                         AStr officePolicy])
                    else Inr db))))"

definition decisionCheck :: "officeIdentity \<Rightarrow> string \<Rightarrow> string \<Rightarrow> response option" where
  "decisionCheck me createdBy status =
     (if \<not> opCanApprove (permsFor me createdBy status) then
        Some (if oiID me = createdBy then Fail 403 ''pembuat tidak boleh menyetujui/menolak pengajuannya sendiri''
              else if oiOfficeRole me \<noteq> roleApprover then Fail 403 ''hanya penyetuju yang dapat memutuskan''
              else Fail 409 ''transaksi tidak sedang menunggu persetujuan'')
      else None)"

definition officeDecision ::
  "env \<Rightarrow> officeIdentity \<Rightarrow> string \<Rightarrow> decisionRequest option \<Rightarrow> api_db \<times> objects \<Rightarrow> (api_db \<times> objects) \<times> response" where
  "officeDecision en me i body st =
     (case body of
        None \<Rightarrow> (st, Fail 400 ''JSON tidak valid'')
      | Some inp \<Rightarrow>
          let approve = (drDecision inp = ''approve'') in
          if \<not> approve \<and> drDecision inp \<noteq> ''reject'' then (st, Fail 400 ''decision harus approve atau reject'')
          else if \<not> approve \<and> runeCount (trimSpace (drReason inp)) < 3
            then (st, Fail 400 ''alasan penolakan wajib diisi'')
          else if approve \<and> drTTDPublicID inp = []
            then (st, Fail 400 ''persetujuan harus disertai tanda tangan TTD (ttd_public_id)'')
          else officeAction en me i decisionCheck (decisionApply en i inp) st)"

section \<open>Download\<close>

datatype download =
    DFail nat string
  | DFile string bytes

definition officeDownload :: "env \<Rightarrow> officeIdentity \<Rightarrow> string \<Rightarrow> api_db \<times> objects \<Rightarrow> download" where
  "officeDownload en me i st =
     (let db = fst st in
      if enFault en ''select document'' then DFail 500 ''internal error''
      else case find (\<lambda>d. drowID d = i \<and> (drowKind d = ''attachment'' \<or> drowKind d = ''signed'')) (dbDocs db) of
          None \<Rightarrow> DFail 404 ''dokumen tidak ditemukan''
        | Some d \<Rightarrow>
            (case officeTxn db (drowOwnerID d) of
               None \<Rightarrow> DFail 404 ''dokumen tidak ditemukan''
             | Some t \<Rightarrow>
                 if \<not> canSeeAll me \<and> trCreatedBy t \<noteq> oiID me then DFail 404 ''dokumen tidak ditemukan''
                 else (case snd st (drowStorageKey d) of
                     None \<Rightarrow> DFail 500 ''internal error''
                   | Some data \<Rightarrow> DFile (cleanFileName (drowFileName d)) data)))"

section \<open>Uploading a supporting document\<close>

record upload_form =
  ufFile :: "(string \<times> bytes) option"
  ufContentType :: string
  ufUploadedBy :: string
  ufOwnerType :: string
  ufOwnerID :: string

definition UploadDocument :: "env \<Rightarrow> upload_form option \<Rightarrow> api_db \<times> objects \<Rightarrow> (api_db \<times> objects) \<times> response" where
  "UploadDocument en form st =
     (case form of
        None \<Rightarrow> (st, Fail 400 ''expected multipart/form-data with a file field'')
      | Some f \<Rightarrow>
        (case ufFile f of
           None \<Rightarrow> (st, Fail 400 ''missing file field'')
         | Some (_, data) \<Rightarrow>
             if ufUploadedBy f = [] \<or> ufOwnerType f = [] \<or> ufOwnerID f = []
               then (st, Fail 400 ''uploaded_by, owner_type, and owner_id are required'')
             else if ufOwnerType f \<noteq> ''transaction_event'' \<and> ufOwnerType f \<noteq> ''custody_event''
               then (st, Fail 400 ''owner_type must be transaction_event or custody_event'')
             else if int (length data) > maxDocumentSize then (st, Fail 400 ''file too large'')
             else
               let hash = ''sha256:'' @ hexEncode (pSha256 (enPrims en) data);
                   i = enUUID en ''document'';
                   objectKey = ufOwnerType f @ ''/'' @ i;
                   contentType = (if ufContentType f = [] then ''application/octet-stream'' else ufContentType f)
               in if \<not> enPutObject en objectKey then (st, internalError)
                  else
                    let objs = (snd st)(objectKey \<mapsto> data) in
                    (case insertDoc en (fst st)
                            \<lparr>drowID = i, drowOwnerType = ufOwnerType f, drowOwnerID = ufOwnerID f,
                             drowStorageKey = objectKey, drowSHA256 = hash, drowContentType = contentType,
                             drowUploadedBy = ufUploadedBy f, drowKind = ''attachment'', drowFileName = [],
                             drowSHA512 = [], drowSize = 0\<rparr> of
                       Inl _ \<Rightarrow> ((fst st, objs), internalError)
                     | Inr db \<Rightarrow> ((db, objs), Done 201 (JObj [(''id'', JStr i), (''sha256_hash'', JStr hash),
                         (''storage_key'', JStr objectKey)])))))"

end
