(* ===== verification/Office_Sync.thy ===== *)
theory Office_Sync
  imports Office Transaction_Properties
begin

text \<open>
  The read model and the ledger agree.  Every office step writes its event and queues the chaincode
  calls in one database transaction; here the queued calls are replayed on the abstract
  ledger of \<open>Transaction_Ledger\<close>, and the relation \<open>synced\<close> between a database and a ledger is shown to be
  kept by every step: the whole outbox is accepted in order and leads to the same status,
  sequence number and hash that the read model shows.
\<close>

section \<open>From outbox rows to chaincode calls\<close>

text \<open>
  What \<^verbatim>\<open>SubmitTransaction(fn, args...)\<close> invokes: the contract API passes strings and converts the
  integer parameter of \<^verbatim>\<open>Approve\<close>.
\<close>

definition dispatch :: "string \<Rightarrow> arg list \<Rightarrow> cc_call option" where
  "dispatch fnName args =
     (if fnName = ''CreateTransaction'' then
        (case args of [AStr a, AStr b, AStr c, AStr d, AStr e] \<Rightarrow> Some (CallCreate a b c d e) | _ \<Rightarrow> None)
      else if fnName = ''RecordEvent'' then
        (case args of [AEvent e] \<Rightarrow> Some (CallRecord (Some e)) | [_] \<Rightarrow> Some (CallRecord None) | _ \<Rightarrow> None)
      else if fnName = ''Approve'' then
        (case args of
           [AStr i, AStr n, AStr a, AStr d, AStr p] \<Rightarrow> map_option (\<lambda>n. CallApprove i n a d p) (parseInt n)
         | _ \<Rightarrow> None)
      else None)"

definition rowCall :: "outbox_row \<Rightarrow> cc_call option" where
  "rowCall ob = (case obPayload ob of None \<Rightarrow> None | Some args \<Rightarrow> dispatch (obFnName ob) args)"

definition txnOutbox :: "api_db \<Rightarrow> outbox_row list" where
  "txnOutbox db = filter (\<lambda>ob. obChaincodeName ob = ''transaction'') (dbOutbox db)"

fun specRun :: "spec_ledger \<Rightarrow> cc_call list \<Rightarrow> cc_error + spec_ledger" where
  "specRun A [] = Inr A"
| "specRun A (c # cs) = bindE (spec_invoke A c) (\<lambda>A'. specRun A' cs)"

definition replays :: "api_db \<Rightarrow> spec_ledger \<Rightarrow> bool" where
  "replays db A \<longleftrightarrow> (\<exists>cs. map rowCall (txnOutbox db) = map Some cs \<and> specRun spec_empty cs = Inr A)"

lemma specRun_snoc: "specRun A (cs @ [c]) = bindE (specRun A cs) (\<lambda>A'. spec_invoke A' c)"
proof (induction cs arbitrary: A)
  case Nil
  then show ?case by (cases "spec_invoke A c") simp_all
next
  case (Cons d cs)
  then show ?case by (cases "spec_invoke A d") simp_all
qed

lemma replays_snoc:
  assumes "replays db A" "dbOutbox db' = dbOutbox db @ [ob]" "obChaincodeName ob = ''transaction''"
    and "rowCall ob = Some c" "spec_invoke A c = Inr A'"
  shows "replays db' A'"
proof -
  obtain cs where "map rowCall (txnOutbox db) = map Some cs" "specRun spec_empty cs = Inr A"
    using assms(1) by (auto simp: replays_def)
  then show ?thesis
    using assms(2-5) unfolding replays_def
    by (intro exI [of _ "cs @ [c]"]) (simp add: txnOutbox_def specRun_snoc)
qed

lemma replays_cong: "dbOutbox db' = dbOutbox db \<Longrightarrow> replays db' A \<longleftrightarrow> replays db A"
  by (simp add: replays_def txnOutbox_def)

section \<open>The relation between a database and a ledger\<close>

definition wireOf :: "event_row \<Rightarrow> TransactionEvent" where
  "wireOf r =
     \<lparr>evTransactionID = erowTransactionID r, evEventSequence = erowEventSequence r, evEventType = erowEventType r,
      evPayloadHash = erowPayloadHash r, evPreviousEventHash = erowPreviousEventHash r,
      evAlgorithmSuite = erowAlgorithmSuite r, evClassicalKeyID = erowClassicalKeyID r,
      evPQCKeyID = erowPQCKeyID r, evClassicalSignature = erowClassicalSignature r,
      evPQCSignature = erowPQCSignature r, evIdempotencyKey = erowIdempotencyKey r,
      evCreatedAtServer = erowCreatedAtServer r, evNewStatus = []\<rparr>"

definition noStatus :: "TransactionEvent \<Rightarrow> TransactionEvent" where
  "noStatus e = e\<lparr>evNewStatus := []\<rparr>"

definition headerMatches :: "Transaction \<Rightarrow> txn_row \<Rightarrow> bool" where
  "headerMatches h t \<longleftrightarrow> txStatus h = trStatus t \<and> txCreatedBy h = trCreatedBy t \<and>
     txSchemaVersion h = trSchemaVersion t \<and> txWorkflowType h = trWorkflowType t \<and>
     txOrganizationID h = trOrganizationID t"

definition synced :: "api_db \<Rightarrow> spec_ledger \<Rightarrow> bool" where
  "synced db A \<longleftrightarrow>
     replays db A \<and> spec_inv A \<and>
     (\<forall>i. txnRow db i = None \<longrightarrow> spHeader A i = None) \<and>
     (\<forall>i t. txnRow db i = Some t \<longrightarrow> i \<noteq> [] \<and> (\<exists>h. spHeader A i = Some h \<and> headerMatches h t)) \<and>
     (\<forall>i. map wireOf (eventsOf db i) = map noStatus (spEvents A i)) \<and>
     (\<forall>k. spUsed A k \<longrightarrow> k \<in> erowIdempotencyKey ` set (dbEvents db)) \<and>
     (\<forall>e \<in> set (dbEvents db). erowEventSequence e \<le> maxInt4) \<and>
     (\<forall>i n a. spApproval A (i, n, a) \<noteq> None \<longrightarrow>
        (\<exists>t. txnRow db i = Some t \<and> trStatus t \<noteq> ''DRAFT'' \<and> trStatus t \<noteq> ''VERIFIED''))"

text \<open>What the environment is trusted for: generated ids and signatures are not empty.\<close>

definition envOK :: "env \<Rightarrow> bool" where
  "envOK en \<longleftrightarrow> (\<forall>l. enUUID en l \<noteq> []) \<and> (\<forall>k m s. pEdSign (enPrims en) k m = Some s \<longrightarrow> s \<noteq> []) \<and>
     (\<forall>k m s. pSign (enPrims en) k m = Some s \<longrightarrow> s \<noteq> [])"

lemma noStatus_fields [simp]:
  "evTransactionID (noStatus e) = evTransactionID e" "evEventSequence (noStatus e) = evEventSequence e"
  "evPayloadHash (noStatus e) = evPayloadHash e" "evIdempotencyKey (noStatus e) = evIdempotencyKey e"
  by (simp_all add: noStatus_def)

lemma wireOf_fields [simp]:
  "evTransactionID (wireOf r) = erowTransactionID r" "evEventSequence (wireOf r) = erowEventSequence r"
  "evPayloadHash (wireOf r) = erowPayloadHash r" "evIdempotencyKey (wireOf r) = erowIdempotencyKey r"
  by (simp_all add: wireOf_def)

lemma map_field_sync:
  assumes "map wireOf rs = map noStatus es"
  shows "map erowEventSequence rs = map evEventSequence es" "map erowPayloadHash rs = map evPayloadHash es"
proof -
  have "map evEventSequence (map wireOf rs) = map evEventSequence (map noStatus es)"
    "map evPayloadHash (map wireOf rs) = map evPayloadHash (map noStatus es)" using assms by simp_all
  then show "map erowEventSequence rs = map evEventSequence es" "map erowPayloadHash rs = map evPayloadHash es"
    by (simp_all add: comp_def)
qed

lemma latestBy_last:
  assumes "sorted_wrt (<) (map f xs)"
  shows "latestBy f xs = (if xs = [] then None else Some (last xs))"
  using assms
proof (induction xs)
  case (Cons x xs)
  then show ?case
    by (cases "xs = []") (auto simp: last_in_set)
qed simp

lemma chained_sequence: "chained i es \<Longrightarrow> map evEventSequence es = map (\<lambda>n. int n + 1) [0..<length es]"
  by (rule nth_equalityI) (simp_all add: chained_def)

lemma chained_sorted:
  assumes "chained i es"
  shows "sorted_wrt (<) (map evEventSequence es)"
  unfolding chained_sequence [OF assms] by (simp add: sorted_wrt_iff_nth_less)

text \<open>In a synced database the next sequence number and previous hash are the ledger's.\<close>

lemma synced_latest:
  assumes "synced db A" "spHeader A i = Some h"
  shows "(case latestBy erowEventSequence (eventsOf db i) of
      Some e \<Rightarrow> (erowEventSequence e + 1, erowPayloadHash e) | None \<Rightarrow> (1, []))
    = (txLatestEventSequence h + 1, txLatestEventPayloadHash h)"
proof -
  let ?rs = "eventsOf db i" and ?es = "spEvents A i"
  have m: "map wireOf ?rs = map noStatus ?es" and c: "chained i ?es" and hok: "header_ok i h ?es"
    using assms by (simp_all add: synced_def spec_inv_def)
  note f = map_field_sync [OF m]
  have len: "length ?rs = length ?es" using m by (metis length_map)
  have l: "latestBy erowEventSequence ?rs = (if ?rs = [] then None else Some (last ?rs))"
    using chained_sorted [OF c] by (intro latestBy_last) (simp add: f)
  show ?thesis
  proof (cases "?rs = []")
    case True
    then show ?thesis using len hok by (simp add: l header_ok_def lastHash_def)
  next
    case False
    then have ne: "?es \<noteq> []" using len by auto
    have "erowEventSequence (last ?rs) = evEventSequence (last ?es)" "erowPayloadHash (last ?rs) = evPayloadHash (last ?es)"
      using f False ne by (metis last_map)+
    moreover have "evEventSequence (last ?es) = int (length ?es)"
      using c ne by (simp add: chained_def last_conv_nth of_nat_diff Suc_le_eq)
    ultimately show ?thesis using False ne hok by (simp add: l header_ok_def lastHash_def)
  qed
qed

section \<open>One appended event\<close>

lemma updateTxnStatus_Inr:
  assumes "updateTxnStatus en db i st = Inr db'"
  shows "db' = db\<lparr>dbTxns := AList.map_entry i (\<lambda>t. t\<lparr>trStatus := st, trUpdatedAt := enTime en\<rparr>) (dbTxns db)\<rparr>"
  using assms by (auto simp: updateTxnStatus_def bind_simps)

lemma txnRow_map_entry:
  "txnRow (db\<lparr>dbTxns := AList.map_entry i f (dbTxns db)\<rparr>) j = (if j = i then map_option f (txnRow db i) else txnRow db j)"
  by (auto simp: txnRow_def map_of_map_entry split: option.splits)

lemma signEvent_Inr:
  assumes "signEvent en db inp = Inr e" "envOK en"
  shows "\<exists>t. txnRow db (eiTransactionID inp) = Some t" "evTransactionID e = eiTransactionID inp"
    and "evNewStatus e = eiNewStatus inp" "evEventType e = eiEventType inp"
    and "(evEventSequence e, evPreviousEventHash e) =
       (case latestBy erowEventSequence (eventsOf db (eiTransactionID inp)) of
          Some e \<Rightarrow> (erowEventSequence e + 1, erowPayloadHash e) | None \<Rightarrow> (1, []))"
    and "eiTransactionID inp \<noteq> [] \<Longrightarrow> eventWellFormed e"
proof -
  obtain t identity sig h where t: "txnRow db (eiTransactionID inp) = Some t"
    and sign: "SignHybrid (enPrims en) identity
            \<lparr>scApplication = enApplication en, scEnvironment = enEnvironment en,
             scTransactionType = eiEventType inp, scSchemaVersion = trSchemaVersion t,
             scTransactionID = eiTransactionID inp\<rparr> (Some (eiPayload inp)) = Inr (sig, h)"
    and e: "evTransactionID e = eiTransactionID inp" "evNewStatus e = eiNewStatus inp" "evEventType e = eiEventType inp"
    "evAlgorithmSuite e = hsAlgorithmSuite sig" "evClassicalSignature e = hsClassicalSignature sig"
    "evPQCSignature e = hsPQCSignature sig"
    "evIdempotencyKey e = (if eiIdempotencyKey inp = [] then enUUID en ''idempotency'' else eiIdempotencyKey inp)"
    "(evEventSequence e, evPreviousEventHash e) =
       (case latestBy erowEventSequence (eventsOf db (eiTransactionID inp)) of
          Some e \<Rightarrow> (erowEventSequence e + 1, erowPayloadHash e) | None \<Rightarrow> (1, []))"
    using assms(1) unfolding signEvent_def Let_def bind_simps
    by (auto simp: bind_simps split: option.split_asm sum.split_asm prod.split_asm)
  show "\<exists>t. txnRow db (eiTransactionID inp) = Some t" "evTransactionID e = eiTransactionID inp"
    "evNewStatus e = eiNewStatus inp" "evEventType e = eiEventType inp"
    "(evEventSequence e, evPreviousEventHash e) =
       (case latestBy erowEventSequence (eventsOf db (eiTransactionID inp)) of
          Some e \<Rightarrow> (erowEventSequence e + 1, erowPayloadHash e) | None \<Rightarrow> (1, []))"
    using t e by simp_all
  have "hsAlgorithmSuite sig = allowedAlgorithmSuite" "hsClassicalSignature sig \<noteq> []" "hsPQCSignature sig \<noteq> []"
    using sign assms(2)
    by (auto simp: SignHybrid_Inr envOK_def allowedAlgorithmSuite_def SuiteHybridEd25519MLDSA65V1_def)
  then show "eiTransactionID inp \<noteq> [] \<Longrightarrow> eventWellFormed e"
    using e assms(2) by (simp add: eventWellFormed_def envOK_def)
qed

text \<open>
  Inversion of an append: the new event row, the queued call carrying the same event, and the
  status update.
\<close>

lemma append_Inr:
  assumes "appendTransactionEvent en db inp upd = Inr (db', ae)"
  obtains e ob where
    "signEvent en db inp = Inr e"
    "rowCall ob = Some (CallRecord (Some e))" "obChaincodeName ob = ''transaction''"
    "obAggregateID ob = eiTransactionID inp"
    "\<not> list_ex (eventConflict (eventRow en inp e)) (dbEvents db)" "evEventSequence e \<le> maxInt4"
    "upd \<and> eiNewStatus inp \<noteq> [] \<Longrightarrow> eiNewStatus inp \<in> set txnStatuses"
    "db' = db\<lparr>dbEvents := dbEvents db @ [eventRow en inp e], dbOutbox := dbOutbox db @ [ob],
       dbTxns := (if upd \<and> eiNewStatus inp \<noteq> []
         then AList.map_entry (eiTransactionID inp) (\<lambda>t. t\<lparr>trStatus := eiNewStatus inp, trUpdatedAt := enTime en\<rparr>)
           (dbTxns db) else dbTxns db)\<rparr>"
proof -
  from assms obtain e db1 db2 where e: "signEvent en db inp = Inr e"
    and ins: "insertEvent en db (eventRow en inp e) = Inr db1"
    and enq: "enqueueOutbox en ''outbox event'' db1 ''transaction'' (eiTransactionID inp) ''transaction'' ''RecordEvent''
       [AEvent e] = Inr db2"
    and u: "(if upd \<and> eiNewStatus inp \<noteq> []
            then updateTxnStatus en db2 (eiTransactionID inp) (eiNewStatus inp) else Inr db2) = Inr db'"
    unfolding appendTransactionEvent_def bind_simps by blast
  have db1: "db1 = db\<lparr>dbEvents := dbEvents db @ [eventRow en inp e]\<rparr>"
    and conf: "\<not> list_ex (eventConflict (eventRow en inp e)) (dbEvents db)" and sq: "evEventSequence e \<le> maxInt4"
    using ins by (auto simp: insertEvent_def bind_simps eventRow_def)
  obtain ob where db2: "db2 = db1\<lparr>dbOutbox := dbOutbox db1 @ [ob]\<rparr>" and ob: "obFnName ob = ''RecordEvent''"
    "obPayload ob = Some [AEvent e]" "obChaincodeName ob = ''transaction''" "obAggregateID ob = eiTransactionID inp"
    using enq by (auto simp: enqueueOutbox_def bind_simps)
  show ?thesis
    using u db1 db2 ob conf e sq
    by (intro that [of e ob])
      (auto simp: rowCall_def dispatch_def updateTxnStatus_def bind_simps split: if_splits)
qed

lemma append_rows:
  assumes "appendTransactionEvent en db inp upd = Inr (db', ae)" "txnRow db (eiTransactionID inp) = Some t"
  shows "txnRow db' j = (if j = eiTransactionID inp \<and> upd \<and> eiNewStatus inp \<noteq> []
      then Some (t\<lparr>trStatus := eiNewStatus inp, trUpdatedAt := enTime en\<rparr>) else txnRow db j)"
    and "dbApprovals db' = dbApprovals db" "dbDocs db' = dbDocs db"
proof -
  obtain e ob where db': "db' = db\<lparr>dbEvents := dbEvents db @ [eventRow en inp e], dbOutbox := dbOutbox db @ [ob],
       dbTxns := (if upd \<and> eiNewStatus inp \<noteq> []
         then AList.map_entry (eiTransactionID inp) (\<lambda>t. t\<lparr>trStatus := eiNewStatus inp, trUpdatedAt := enTime en\<rparr>)
           (dbTxns db) else dbTxns db)\<rparr>"
    using assms(1) by (rule append_Inr)
  show "txnRow db' j = (if j = eiTransactionID inp \<and> upd \<and> eiNewStatus inp \<noteq> []
      then Some (t\<lparr>trStatus := eiNewStatus inp, trUpdatedAt := enTime en\<rparr>) else txnRow db j)"
    using assms(2) by (auto simp: db' txnRow_def map_of_map_entry split: option.splits)
  show "dbApprovals db' = dbApprovals db" "dbDocs db' = dbDocs db" by (simp_all add: db')
qed

lemma wireOf_eventRow: "wireOf (eventRow en inp e) = noStatus e"
  by (simp add: wireOf_def eventRow_def noStatus_def)

lemma into_draft_or_verified:
  "isTransitionAllowed a b \<Longrightarrow> b \<noteq> ''DRAFT'' \<and> (b = ''VERIFIED'' \<longrightarrow> a = ''DRAFT'')"
  by (auto simp: isTransitionAllowed_iff allowedTransitions_def split: if_splits)

text \<open>
  The central step: an event appended with an allowed status change is accepted by the ledger, and
  afterwards the two sides agree again.
\<close>

lemma append_synced:
  assumes S: "synced db A" and ok: "envOK en" and app: "appendTransactionEvent en db inp True = Inr (db', ae)"
    and row: "txnRow db (eiTransactionID inp) = Some t"
    and tr: "eiNewStatus inp \<noteq> [] \<Longrightarrow> isTransitionAllowed (trStatus t) (eiNewStatus inp)"
  obtains A' where "synced db' A'" "spApproval A' = spApproval A"
proof -
  let ?i = "eiTransactionID inp"
  obtain e ob where sign: "signEvent en db inp = Inr e" and call: "rowCall ob = Some (CallRecord (Some e))"
    and cc: "obChaincodeName ob = ''transaction''"
    and conf: "\<not> list_ex (eventConflict (eventRow en inp e)) (dbEvents db)" and bound: "evEventSequence e \<le> maxInt4"
    and db': "db' = db\<lparr>dbEvents := dbEvents db @ [eventRow en inp e], dbOutbox := dbOutbox db @ [ob],
       dbTxns := (if True \<and> eiNewStatus inp \<noteq> []
         then AList.map_entry ?i (\<lambda>t. t\<lparr>trStatus := eiNewStatus inp, trUpdatedAt := enTime en\<rparr>)
           (dbTxns db) else dbTxns db)\<rparr>"
    using app by (rule append_Inr)
  note se = signEvent_Inr [OF sign ok]
  have ne: "?i \<noteq> []" using S row unfolding synced_def by blast
  obtain h where h: "spHeader A ?i = Some h" "headerMatches h t" using S row unfolding synced_def by blast
  have sq: "evEventSequence e = txLatestEventSequence h + 1" "evPreviousEventHash e = txLatestEventPayloadHash h"
    using se(5) synced_latest [OF S h(1)] by simp_all
  have "evIdempotencyKey e \<notin> erowIdempotencyKey ` set (dbEvents db)"
    using conf by (auto simp: list_ex_iff eventConflict_def eventRow_def)
  then have fresh: "\<not> spUsed A (evIdempotencyKey e)" using S unfolding synced_def by blast
  let ?A' = "spec_append A e h"
  have rec: "spec_invoke A (CallRecord (Some e)) = Inr ?A'"
    using se h tr sq fresh ne by (simp add: spec_record_Inr headerMatches_def)
  have inv: "spec_inv ?A'" using spec_inv_invoke [OF _ rec] S by (simp add: synced_def)
  have rep: "replays db' ?A'"
    using replays_snoc [of db A db' ob] S cc call rec by (simp add: synced_def db')
  have rows: "txnRow db' j = (if j = ?i \<and> eiNewStatus inp \<noteq> []
      then Some (t\<lparr>trStatus := eiNewStatus inp, trUpdatedAt := enTime en\<rparr>) else txnRow db j)" for j
    using append_rows(1) [OF app row, of j] by simp
  have hdr: "spHeader ?A' j = (if j = ?i then Some (advanceHeader h e) else spHeader A j)" for j
    using se by (simp add: spec_append_def)
  have "synced db' ?A'"
    unfolding synced_def
  proof (intro conjI allI impI)
    fix j assume "txnRow db' j = None"
    then show "spHeader ?A' j = None"
      using S row unfolding rows hdr synced_def by (auto split: if_splits)
  next
    fix j t' assume t': "txnRow db' j = Some t'"
    then show "j \<noteq> []" using S ne unfolding rows synced_def by (auto split: if_splits)
    show "\<exists>h'. spHeader ?A' j = Some h' \<and> headerMatches h' t'"
    proof (cases "j = ?i")
      case True
      then show ?thesis using t' row h(2) se(3) unfolding rows hdr
        by (auto simp: headerMatches_def advanceHeader_def Let_def split: if_splits)
    next
      case False
      then show ?thesis using t' S unfolding rows hdr synced_def by auto
    qed
  next
    fix j
    have "eventsOf db' j = eventsOf db j @ (if j = ?i then [eventRow en inp e] else [])"
      using se(2) by (auto simp: eventsOf_def db' eventRow_def)
    moreover have "spEvents ?A' j = spEvents A j @ (if j = ?i then [e] else [])"
      using se(2) by (simp add: spec_append_def)
    ultimately show "map wireOf (eventsOf db' j) = map noStatus (spEvents ?A' j)"
      using S by (simp add: synced_def wireOf_eventRow)
  next
    fix k assume "spUsed ?A' k"
    then show "k \<in> erowIdempotencyKey ` set (dbEvents db')"
      using S by (auto simp: spec_append_def db' eventRow_def synced_def split: if_splits)
  next
    show "\<forall>e \<in> set (dbEvents db'). erowEventSequence e \<le> maxInt4"
      using S bound by (auto simp: db' synced_def eventRow_def)
  next
    fix j n a assume "spApproval ?A' (j, n, a) \<noteq> None"
    moreover have "spApproval ?A' = spApproval A" by (simp add: spec_append_def)
    ultimately obtain t1 where t1: "txnRow db j = Some t1" "trStatus t1 \<noteq> ''DRAFT''" "trStatus t1 \<noteq> ''VERIFIED''"
      using S unfolding synced_def by metis
    then show "\<exists>t. txnRow db' j = Some t \<and> trStatus t \<noteq> ''DRAFT'' \<and> trStatus t \<noteq> ''VERIFIED''"
      using row tr into_draft_or_verified [of "trStatus t" "eiNewStatus inp"] unfolding rows by auto
  qed (use rep inv in blast)+
  then show ?thesis by (rule that) (simp add: spec_append_def)
qed

lemma synced_frame:
  assumes "synced db A" "dbTxns db' = dbTxns db" "dbEvents db' = dbEvents db" "dbOutbox db' = dbOutbox db"
  shows "synced db' A"
proof -
  have "txnRow db' = txnRow db" "eventsOf db' = eventsOf db"
    using assms(2,3) by (simp_all add: txnRow_def eventsOf_def fun_eq_iff)
  then show ?thesis using assms by (simp add: synced_def replays_cong [OF assms(4)])
qed

section \<open>Creating and approving\<close>

lemma enqueueOutbox_Inr:
  assumes "enqueueOutbox en l db at ai cc fn args = Inr db'"
  obtains ob where "db' = db\<lparr>dbOutbox := dbOutbox db @ [ob]\<rparr>" "obChaincodeName ob = cc"
    "rowCall ob = dispatch fn args" "obAggregateID ob = ai"
  using assms by (auto simp: enqueueOutbox_def bind_simps rowCall_def)

lemma create_synced:
  assumes S: "synced db A" and ins: "insertTxn en db row = Inr db1" and ne: "trID row \<noteq> []"
    and st: "trStatus row = ''DRAFT''"
    and enq: "enqueueOutbox en l db1 at ai ''transaction'' ''CreateTransaction''
      [AStr (trID row), AStr (trOrganizationID row), AStr (trWorkflowType row), AStr (trSchemaVersion row),
       AStr (trCreatedBy row)] = Inr db2"
  shows "\<exists>A'. synced db2 A'"
proof -
  let ?i = "trID row"
  let ?h = "draftHeader ?i (trOrganizationID row) (trWorkflowType row) (trSchemaVersion row) (trCreatedBy row)"
  let ?A' = "A\<lparr>spHeader := (spHeader A)(?i \<mapsto> ?h)\<rparr>"
  have none: "txnRow db ?i = None" and db1: "db1 = db\<lparr>dbTxns := dbTxns db @ [(?i, row)]\<rparr>"
    using ins by (auto simp: insertTxn_def bind_simps)
  obtain ob where db2: "db2 = db1\<lparr>dbOutbox := dbOutbox db1 @ [ob]\<rparr>" and cc: "obChaincodeName ob = ''transaction''"
    and call: "rowCall ob = dispatch ''CreateTransaction''
      [AStr (trID row), AStr (trOrganizationID row), AStr (trWorkflowType row), AStr (trSchemaVersion row),
       AStr (trCreatedBy row)]"
    using enq by (rule enqueueOutbox_Inr)
  have hnone: "spHeader A ?i = None" using S none unfolding synced_def by blast
  let ?c = "CallCreate ?i (trOrganizationID row) (trWorkflowType row) (trSchemaVersion row) (trCreatedBy row)"
  have run: "spec_invoke A ?c = Inr ?A'" using ne hnone by (simp add: spec_create_def)
  have rows: "txnRow db2 j = (if j = ?i then Some row else txnRow db j)" for j
    using none by (auto simp: db2 db1 txnRow_def map_add_def split: option.splits)
  have evs: "eventsOf db2 = eventsOf db" by (simp add: db2 db1 eventsOf_def fun_eq_iff)
  have "synced db2 ?A'"
    unfolding synced_def
  proof (intro conjI allI impI)
    show "replays db2 ?A'"
      using replays_snoc [of db A db2 ob ?c] S cc call run by (simp add: synced_def db2 db1 dispatch_def)
    show "spec_inv ?A'" using spec_inv_invoke [OF _ run] S by (simp add: synced_def)
  next
    fix j assume "txnRow db2 j = None"
    then show "spHeader ?A' j = None" using S unfolding rows synced_def by (auto split: if_splits)
  next
    fix j t assume t: "txnRow db2 j = Some t"
    then show "j \<noteq> []" using S ne unfolding rows synced_def by (auto split: if_splits)
    show "\<exists>h. spHeader ?A' j = Some h \<and> headerMatches h t"
      using t S st unfolding rows synced_def
      by (auto simp: headerMatches_def draftHeader_def split: if_splits)
  next
    fix j n a assume "spApproval ?A' (j, n, a) \<noteq> None"
    then have "spApproval A (j, n, a) \<noteq> None" by simp
    then obtain t where t: "txnRow db j = Some t" "trStatus t \<noteq> ''DRAFT'' \<and> trStatus t \<noteq> ''VERIFIED''"
      using S unfolding synced_def by metis
    then show "\<exists>t. txnRow db2 j = Some t \<and> trStatus t \<noteq> ''DRAFT'' \<and> trStatus t \<noteq> ''VERIFIED''"
      using none unfolding rows by auto
  qed (use S evs in \<open>simp_all add: synced_def db2 db1\<close>)
  then show ?thesis by blast
qed

lemma approve_synced:
  assumes S: "synced db A" and t: "txnRow db i = Some t" and notcreator: "a \<noteq> trCreatedBy t"
    and st: "trStatus t \<noteq> ''DRAFT''" "trStatus t \<noteq> ''VERIFIED''" and fresh: "spApproval A (i, n, a) = None"
    and n: "0 \<le> n" "n \<le> maxInt4"
    and enq: "enqueueOutbox en l db at ai ''transaction'' ''Approve''
      [AStr i, AStr (fmt_d n), AStr a, AStr ''approve'', AStr p] = Inr db'"
  shows "\<exists>A'. synced db' A'"
proof -
  obtain ob where db': "db' = db\<lparr>dbOutbox := dbOutbox db @ [ob]\<rparr>" and cc: "obChaincodeName ob = ''transaction''"
    and call: "rowCall ob = dispatch ''Approve'' [AStr i, AStr (fmt_d n), AStr a, AStr ''approve'', AStr p]"
    using enq by (rule enqueueOutbox_Inr)
  obtain h where h: "spHeader A i = Some h" "headerMatches h t" using S t unfolding synced_def by blast
  have "parseInt (fmt_d n) = Some n" using n by (intro parseInt_fmt_d) (simp_all add: maxInt4_def)
  then have c: "rowCall ob = Some (CallApprove i n a ''approve'' p)" by (simp add: call dispatch_def)
  obtain A' where run: "spec_invoke A (CallApprove i n a ''approve'' p) = Inr A'"
    and A': "spHeader A' = spHeader A" "spEvents A' = spEvents A" "spUsed A' = spUsed A"
    "\<And>x. spApproval A' x \<noteq> None \<Longrightarrow> spApproval A x \<noteq> None \<or> x = (i, n, a)"
    using h notcreator fresh by (simp add: spec_approve_def headerMatches_def split: if_split_asm)
  have rows: "txnRow db' = txnRow db" "eventsOf db' = eventsOf db"
    by (simp_all add: db' txnRow_def eventsOf_def fun_eq_iff)
  have "synced db' A'"
    unfolding synced_def rows A'
  proof (intro conjI allI impI)
    show "replays db' A'" using replays_snoc [of db A db' ob] S cc c run by (simp add: synced_def db')
    show "spec_inv A'" using spec_inv_invoke [OF _ run] S by (simp add: synced_def)
  next
    fix j m b assume "spApproval A' (j, m, b) \<noteq> None"
    then consider "spApproval A (j, m, b) \<noteq> None" | "(j, m, b) = (i, n, a)" using A'(4) by blast
    then show "\<exists>t. txnRow db j = Some t \<and> trStatus t \<noteq> ''DRAFT'' \<and> trStatus t \<noteq> ''VERIFIED''"
    proof cases
      case 1
      then show ?thesis using S unfolding synced_def by metis
    qed (use t st in auto)
  qed (use S in \<open>simp_all add: synced_def db'\<close>)
  then show ?thesis by blast
qed

section \<open>The office steps\<close>

lemma canTransition_iff: "canTransition c n \<longleftrightarrow> n \<noteq> ''REVOKED'' \<and> isTransitionAllowed c n"
  by (auto simp: canTransition_def officeTransitions_def isTransitionAllowed_iff allowedTransitions_def list_ex_iff
      split: if_splits)

lemma lockTxn_Inr:
  "lockTxn en db i = Inr (c, st) \<Longrightarrow> \<exists>t. officeTxn db i = Some t \<and> c = trCreatedBy t \<and> st = trStatus t"
  by (auto simp: lockTxn_def bind_simps)

lemma officeTxn_row: "officeTxn db i = Some t \<Longrightarrow> txnRow db i = Some t"
  by (auto simp: officeTxn_def split: option.splits if_splits)

text \<open>An action either leaves the database alone or commits what its \<open>apply\<close> wrote.\<close>

lemma officeAction_cases:
  assumes "officeAction en me i check apply st = ((db', objs'), r)"
  obtains "db' = fst st"
  | t where "officeTxn (fst st) i = Some t" "visible me t" "check me (trCreatedBy t) (trStatus t) = None"
      "apply (fst st) (snd st) me (trCreatedBy t) = (objs', Inr db')" "isDone r"
proof (cases "db' = fst st")
  case False
  let ?body = "case lockTxn en (fst st) i of
         Inl NoRows \<Rightarrow> (snd st, Inl (Fail 404 ''transaksi tidak ditemukan''))
       | Inl _ \<Rightarrow> (snd st, Inl internalError)
       | Inr (createdBy, status) \<Rightarrow>
           if \<not> canSeeAll me \<and> createdBy \<noteq> oiID me then (snd st, Inl (Fail 404 ''transaksi tidak ditemukan''))
           else case check me createdBy status of
               Some r \<Rightarrow> (snd st, Inl r)
             | None \<Rightarrow>
                 (case apply (fst st) (snd st) me createdBy of
                    (objs', Inl r) \<Rightarrow> (objs', Inl r)
                  | (objs', Inr db') \<Rightarrow> (objs', Inr (db', Done 200 (JObj [(''id'', JStr i), (''status'', JStr ''ok'')]))))"
  have body: "?body = (objs', Inr (db', r))"
    using assms False unfolding officeAction_def inTxO_def
    by (auto split: if_split_asm prod.split_asm sum.split_asm)
  obtain c s where l: "lockTxn en (fst st) i = Inr (c, s)"
    using body by (cases "lockTxn en (fst st) i") (auto split: db_error.split_asm)
  obtain t where t: "officeTxn (fst st) i = Some t" "c = trCreatedBy t" "s = trStatus t"
    using lockTxn_Inr [OF l] by blast
  have "visible me t" "check me (trCreatedBy t) (trStatus t) = None"
    "apply (fst st) (snd st) me (trCreatedBy t) = (objs', Inr db')" "isDone r"
    using body by (auto simp: l t(2,3) visible_def isDone_def
        split: if_split_asm option.split_asm prod.split_asm sum.split_asm)
  with t(1) show ?thesis by (rule that(2))
qed (rule that(1))

definition endorsedPath :: "string \<Rightarrow> bool" where
  "endorsedPath st \<longleftrightarrow> st = ''ENDORSED'' \<or> st = ''COMMITTED''"

lemma simpleStep_cases:
  assumes "simpleStep en me i eventType newStatus allowed msg st = ((db', objs'), r)"
  obtains "db' = fst st"
  | t ae where "officeTxn (fst st) i = Some t" "allowed (permsFor me (trCreatedBy t) (trStatus t))"
      "canTransition (trStatus t) newStatus"
      "appendTransactionEvent en (fst st)
         \<lparr>eiTransactionID = i, eiEventType = eventType, eiSignerIdentity = oiID me,
          eiPayload = JObj [(''actor'', JStr (oiID me)), (''event_type'', JStr eventType),
            (''new_status'', JStr newStatus), (''at'', JStr (enNowNano en))],
          eiNewStatus = newStatus, eiIdempotencyKey = []\<rparr> True = Inr (db', ae)"
  using assms unfolding simpleStep_def
proof (cases rule: officeAction_cases)
  case (2 t)
  then show ?thesis using that(2) [of t] by (auto split: if_split_asm sum.split_asm)
qed (rule that(1))

lemma simpleStep_synced:
  assumes "synced (fst st) A" "envOK en" "simpleStep en me i eventType newStatus allowed msg st = ((db', objs'), r)"
  shows "\<exists>A'. synced db' A'"
  using assms(3)
proof (cases rule: simpleStep_cases)
  case 1
  then show ?thesis using assms(1) by blast
next
  case (2 t ae)
  have tr: "isTransitionAllowed (trStatus t) newStatus" using 2(3) by (simp add: canTransition_iff)
  obtain A' where "synced db' A'"
    by (rule append_synced [OF assms(1,2) 2(4), of t]) (use officeTxn_row [OF 2(1)] tr in auto)
  then show ?thesis by blast
qed

section \<open>Documents and TTD approvals\<close>

lemma storeDocument_Inr:
  assumes "storeDocument en db objs i kind name by data = (objs', Inr (db', docID))"
  shows "\<exists>d. db' = db\<lparr>dbDocs := dbDocs db @ [d]\<rparr> \<and> drowID d = docID \<and> drowKind d = kind \<and> drowOwnerID d = i \<and>
    drowSHA512 d = sha512Hex en data \<and> objs' = objs(drowStorageKey d \<mapsto> data)"
  using assms by (auto simp: storeDocument_def Let_def insertDoc_def bind_simps split: if_split_asm)

lemma verifyTTDApproval_Inr:
  assumes "verifyTTDApproval en db objs i me pid = (objs', Inr (db', extra))"
  shows "\<exists>ttd rc att signed d. enTTD en = Some ttd \<and> ttdRecord ttd pid = Some rc \<and> ttdAccountID rc = oiID me \<and>
    ttdVerificationStatus rc = ''accepted'' \<and>
    find (\<lambda>d. drowOwnerID d = i \<and> drowKind d = ''attachment'') (dbDocs db) = Some att \<and>
    equalFold (ttdOriginalSHA512 rc) (drowSHA512 att) \<and> ttdSignedPDF ttd pid = Some signed \<and>
    equalFold (sha512Hex en signed) (ttdSignedSHA512 rc) \<and> db' = db\<lparr>dbDocs := dbDocs db @ [d]\<rparr> \<and>
    drowKind d = ''signed'' \<and> drowOwnerID d = i \<and> map_of extra ''ttd_public_id'' = Some (JStr pid)"
proof -
  obtain ttd where ttd: "enTTD en = Some ttd" using assms by (auto simp: verifyTTDApproval_def split: option.split_asm)
  obtain rc where rc: "ttdRecord ttd pid = Some rc" using assms ttd
    by (auto simp: verifyTTDApproval_def split: option.split_asm)
  have ok: "ttdAccountID rc = oiID me" "ttdVerificationStatus rc = ''accepted''"
    using assms ttd rc by (auto simp: verifyTTDApproval_def split: if_split_asm)
  let ?f = "find (\<lambda>d. drowOwnerID d = i \<and> drowKind d = ''attachment'') (dbDocs db)"
  obtain att where att: "?f = Some att" "\<not> enFault en ''select attachment''"
      "equalFold (ttdOriginalSHA512 rc) (drowSHA512 att)"
    using assms ttd rc ok by (cases ?f) (auto simp: verifyTTDApproval_def Let_def split: if_split_asm)
  obtain signed where signed: "ttdSignedPDF ttd pid = Some signed"
      "equalFold (sha512Hex en signed) (ttdSignedSHA512 rc)"
    using assms ttd rc ok att
    by (cases "ttdSignedPDF ttd pid") (auto simp: verifyTTDApproval_def Let_def split: if_split_asm)
  obtain o1 res where st: "storeDocument en db objs i ''signed'' (''bertandatangan-'' @ pid @ ''.pdf'') (oiID me) signed = (o1, res)"
    by fastforce
  have "\<exists>docID. res = Inr (db', docID) \<and> map_of extra ''ttd_public_id'' = Some (JStr pid)"
    using assms ttd rc ok att signed st
    by (cases res) (auto simp: verifyTTDApproval_def Let_def split: if_split_asm)
  then show ?thesis using ttd rc ok att signed st storeDocument_Inr [of en db objs i] by blast
qed

definition decisionInput :: "string \<Rightarrow> officeIdentity \<Rightarrow> bool \<Rightarrow> (string \<times> jval) list \<Rightarrow> eventInput" where
  "decisionInput i me approve extra =
     \<lparr>eiTransactionID = i, eiEventType = (if approve then ''APPROVED_SIGNED'' else ''REJECTED''), eiSignerIdentity = oiID me,
      eiPayload = JObj ([(''approver_id'', JStr (oiID me)), (''policy_version'', JStr officePolicy)] @ extra),
      eiNewStatus = (if approve then ''ENDORSED'' else ''REJECTED''), eiIdempotencyKey = []\<rparr>"

definition decisionRow :: "env \<Rightarrow> string \<Rightarrow> officeIdentity \<Rightarrow> event_row \<Rightarrow> string \<Rightarrow> approval_row" where
  "decisionRow en i me submitted decision =
     \<lparr>apprID = enUUID en ''approval'', apprTransactionID = i, apprEventID = erowID submitted,
      apprApproverID = oiID me, apprDecision = decision, apprPolicyVersion = officePolicy\<rparr>"

definition submittedOf :: "api_db \<Rightarrow> string \<Rightarrow> event_row option" where
  "submittedOf db i = latestBy erowEventSequence (filter (\<lambda>e. erowEventType e = ''SUBMITTED'') (eventsOf db i))"

lemma or500_eq_Inr [bind_simps]: "or500 m = Inr x \<longleftrightarrow> m = Inr x"
  by (simp add: or500_def split: sum.splits)

lemma decisionApply_approve:
  assumes "decisionApply en i inp db objs me cb = (objs', Inr db')" "drDecision inp = ''approve''"
  obtains sub db1 extra db2 ae db3 where "submittedOf db i = Some sub"
    "verifyTTDApproval en db objs i me (drTTDPublicID inp) = (objs', Inr (db1, extra))"
    "appendTransactionEvent en db1 (decisionInput i me True extra) True = Inr (db2, ae)"
    "insertApproval en db2 (decisionRow en i me sub ''approve'') = Inr db3"
    "enqueueOutbox en ''outbox approve'' db3 ''transaction'' i ''transaction'' ''Approve''
       [AStr i, AStr (fmt_d (erowEventSequence sub)), AStr (oiID me), AStr ''approve'', AStr officePolicy] = Inr db'"
proof -
  obtain sub where sub: "submittedOf db i = Some sub" "\<not> enFault en ''select submitted''"
    using assms by (auto simp: decisionApply_def submittedOf_def split: if_split_asm option.split_asm)
  obtain o1 chk where v: "verifyTTDApproval en db objs i me (drTTDPublicID inp) = (o1, chk)" by fastforce
  have c: "canTransition ''VERIFIED'' ''ENDORSED''" by code_simp
  note d = assms(1) [unfolded decisionApply_def submittedOf_def [symmetric]]
  obtain db1 extra where chk: "chk = Inr (db1, extra)" "o1 = objs'"
    using d sub v assms(2) by (cases chk) (auto simp: Let_def)
  have "\<exists>db2 ae db3. appendTransactionEvent en db1 (decisionInput i me True extra) True = Inr (db2, ae) \<and>
    insertApproval en db2 (decisionRow en i me sub ''approve'') = Inr db3 \<and>
    enqueueOutbox en ''outbox approve'' db3 ''transaction'' i ''transaction'' ''Approve''
       [AStr i, AStr (fmt_d (erowEventSequence sub)), AStr (oiID me), AStr ''approve'', AStr officePolicy] = Inr db'"
    using d sub v chk assms(2) c
    by (auto simp: Let_def bind_simps decisionInput_def decisionRow_def
        split: sum.split_asm db_error.split_asm)
  then show ?thesis using that sub(1) v chk by blast
qed

lemma decisionApply_reject:
  assumes "decisionApply en i inp db objs me cb = (objs', Inr db')" "drDecision inp \<noteq> ''approve''"
  obtains sub extra db2 ae where "submittedOf db i = Some sub"
    "appendTransactionEvent en db (decisionInput i me False extra) True = Inr (db2, ae)"
    "insertApproval en db2 (decisionRow en i me sub (drDecision inp)) = Inr db'"
proof -
  obtain sub where sub: "submittedOf db i = Some sub" "\<not> enFault en ''select submitted''"
    using assms by (auto simp: decisionApply_def submittedOf_def split: if_split_asm option.split_asm)
  have c: "canTransition ''VERIFIED'' ''REJECTED''" by code_simp
  note d = assms(1) [unfolded decisionApply_def submittedOf_def [symmetric]]
  have "\<exists>db2 ae. appendTransactionEvent en db
      (decisionInput i me False [(''reason'', JStr (trimSpace (drReason inp)))]) True = Inr (db2, ae) \<and>
    insertApproval en db2 (decisionRow en i me sub (drDecision inp)) = Inr db'"
    using d sub assms(2) c
    by (auto simp: Let_def bind_simps decisionInput_def decisionRow_def
        split: sum.split_asm db_error.split_asm)
  then show ?thesis using that sub(1) by blast
qed

lemma insertApproval_Inr:
  "insertApproval en db row = Inr db' \<Longrightarrow> db' = db\<lparr>dbApprovals := dbApprovals db @ [row]\<rparr>"
  by (auto simp: insertApproval_def bind_simps)

lemma officeDecision_cases:
  assumes "officeDecision en me i body st = ((db', objs'), r)"
  obtains "db' = fst st"
  | t inp where "body = Some inp" "officeTxn (fst st) i = Some t" "opCanApprove (permsFor me (trCreatedBy t) (trStatus t))"
      "decisionApply en i inp (fst st) (snd st) me (trCreatedBy t) = (objs', Inr db')"
      "drDecision inp = ''approve'' \<longrightarrow> drTTDPublicID inp \<noteq> []"
      "drDecision inp = ''approve'' \<or> drDecision inp = ''reject''"
proof (cases body)
  case None
  then show ?thesis using assms that(1) by (auto simp: officeDecision_def)
next
  case (Some inp)
  note d = assms [unfolded officeDecision_def Some option.case Let_def]
  show ?thesis
  proof (cases "db' = fst st")
    case False
    then have oa: "officeAction en me i decisionCheck (decisionApply en i inp) st = ((db', objs'), r)"
      and v: "drDecision inp = ''approve'' \<longrightarrow> drTTDPublicID inp \<noteq> []"
        "drDecision inp = ''approve'' \<or> drDecision inp = ''reject''"
      using d by (auto split: if_split_asm)
    from oa show ?thesis
    proof (cases rule: officeAction_cases)
      case (2 t)
      have "opCanApprove (permsFor me (trCreatedBy t) (trStatus t))"
        using 2(3) by (simp add: decisionCheck_def split: if_split_asm)
      then show ?thesis using that(2) Some 2 v by blast
    qed (use False in simp)
  qed (rule that(1))
qed

lemma permsFor_approve:
  "opCanApprove (permsFor me c st) \<longleftrightarrow> oiOfficeRole me = roleApprover \<and> oiID me \<noteq> c \<and> st = ''VERIFIED''"
  by (simp add: permsFor_def Let_def)

lemma synced_sequence_bounds:
  assumes "synced db A" "e \<in> set (eventsOf db i)"
  shows "0 \<le> erowEventSequence e \<and> erowEventSequence e \<le> maxInt4"
proof -
  have m: "map wireOf (eventsOf db i) = map noStatus (spEvents A i)" and c: "chained i (spEvents A i)"
    using assms(1) by (simp_all add: synced_def spec_inv_def)
  have "erowEventSequence e \<in> set (map evEventSequence (spEvents A i))"
    using map_field_sync(1) [OF m] assms(2) by (metis image_eqI list.set_map)
  then have "0 \<le> erowEventSequence e" unfolding chained_sequence [OF c] by auto
  moreover have "erowEventSequence e \<le> maxInt4" using assms by (auto simp: synced_def eventsOf_def)
  ultimately show ?thesis by simp
qed

lemma latestBy_in: "latestBy f xs = Some x \<Longrightarrow> x \<in> set xs"
  by (induction xs arbitrary: x) (auto split: option.split_asm if_split_asm)

lemma officeDecision_synced:
  assumes S: "synced (fst st) A" and ok: "envOK en" and "officeDecision en me i body st = ((db', objs'), r)"
  shows "\<exists>A'. synced db' A'"
  using assms(3)
proof (cases rule: officeDecision_cases)
  case 1
  then show ?thesis using S by blast
next
  case (2 t inp)
  have row: "txnRow (fst st) i = Some t" by (rule officeTxn_row [OF 2(2)])
  have perm: "oiID me \<noteq> trCreatedBy t" "trStatus t = ''VERIFIED''" using 2(3) by (simp_all add: permsFor_approve)
  have tr: "isTransitionAllowed ''VERIFIED'' ''ENDORSED''" "isTransitionAllowed ''VERIFIED'' ''REJECTED''" by code_simp+
  show ?thesis
  proof (cases "drDecision inp = ''approve''")
    case True
    from 2(4) True obtain sub db1 extra db2 ae db3 where sub: "submittedOf (fst st) i = Some sub"
      and v: "verifyTTDApproval en (fst st) (snd st) i me (drTTDPublicID inp) = (objs', Inr (db1, extra))"
      and ap: "appendTransactionEvent en db1 (decisionInput i me True extra) True = Inr (db2, ae)"
      and ins: "insertApproval en db2 (decisionRow en i me sub ''approve'') = Inr db3"
      and enq: "enqueueOutbox en ''outbox approve'' db3 ''transaction'' i ''transaction'' ''Approve''
         [AStr i, AStr (fmt_d (erowEventSequence sub)), AStr (oiID me), AStr ''approve'', AStr officePolicy] = Inr db'"
      by (rule decisionApply_approve)
    obtain d where db1: "db1 = (fst st)\<lparr>dbDocs := dbDocs (fst st) @ [d]\<rparr>" using verifyTTDApproval_Inr [OF v] by blast
    have S1: "synced db1 A" by (rule synced_frame [OF S]) (simp_all add: db1)
    have row1: "txnRow db1 i = Some t" using row by (simp add: db1 txnRow_def)
    obtain A' where S2: "synced db2 A'" and appr: "spApproval A' = spApproval A"
      by (rule append_synced [OF S1 ok ap, of t]) (use row1 perm tr in \<open>simp_all add: decisionInput_def\<close>)
    have row2: "txnRow db2 i = Some (t\<lparr>trStatus := ''ENDORSED'', trUpdatedAt := enTime en\<rparr>)"
      using append_rows(1) [OF ap, of t i] row1 by (simp add: decisionInput_def)
    have db3: "db3 = db2\<lparr>dbApprovals := dbApprovals db2 @ [decisionRow en i me sub ''approve'']\<rparr>"
      by (rule insertApproval_Inr [OF ins])
    have S3: "synced db3 A'" by (rule synced_frame [OF S2]) (simp_all add: db3)
    have none: "spApproval A' (i, erowEventSequence sub, oiID me) = None"
      using S row perm(2) unfolding appr synced_def by (metis option.inject)
    have "sub \<in> set (eventsOf (fst st) i)" using latestBy_in sub by (fastforce simp: submittedOf_def)
    then have b: "0 \<le> erowEventSequence sub \<and> erowEventSequence sub \<le> maxInt4"
      by (rule synced_sequence_bounds [OF S])
    show ?thesis
      by (rule approve_synced [OF S3 _ _ _ _ none _ _ enq, of "t\<lparr>trStatus := ''ENDORSED'', trUpdatedAt := enTime en\<rparr>"])
        (use row2 db3 perm(1) b in \<open>simp_all add: txnRow_def\<close>)
  next
    case False
    from 2(4) False obtain sub extra db2 ae where
      ap: "appendTransactionEvent en (fst st) (decisionInput i me False extra) True = Inr (db2, ae)"
      and ins: "insertApproval en db2 (decisionRow en i me sub (drDecision inp)) = Inr db'"
      by (rule decisionApply_reject)
    obtain A' where S2: "synced db2 A'"
      by (rule append_synced [OF S ok ap, of t]) (use row perm tr in \<open>simp_all add: decisionInput_def\<close>)
    have "synced db' A'" by (rule synced_frame [OF S2]) (simp_all add: insertApproval_Inr [OF ins])
    then show ?thesis by blast
  qed
qed

lemma officeCreateTransaction_cases:
  assumes "officeCreateTransaction en me form st = ((db', objs'), r)"
  obtains "db' = fst st"
  | title category amount description fileName data r' where
      "officeCreateBody en me title category amount description fileName data (fst st) (snd st) = (objs', Inr (db', r'))"
proof (cases "db' = fst st")
  case False
  then show ?thesis
    using assms that(2) unfolding officeCreateTransaction_def inTxO_def Let_def
    by (auto split: option.split_asm if_split_asm prod.split_asm sum.split_asm)
qed (rule that(1))

lemma officeCreateBody_synced:
  assumes S: "synced db A" and ok: "envOK en"
    and "officeCreateBody en me title category amount description fileName data db objs = (objs', Inr (db', r))"
  shows "\<exists>A'. synced db' A'"
proof -
  let ?i = "''txn_'' @ enUUID en ''transaction''"
  let ?row = "\<lparr>trID = ?i, trOrganizationID = officeOrg, trWorkflowType = officeWorkflow,
              trSchemaVersion = officeSchema, trCreatedBy = oiID me, trStatus = ''DRAFT'', trUpdatedAt = enTime en,
              trOfficeMeta = Some (metaJSON title category amount description)\<rparr>"
  from assms(3) obtain db0 db1 db2 docID inp ae where ins: "insertTxn en db ?row = Inr db0"
    and enq: "enqueueOutbox en ''outbox create'' db0 ''transaction'' ?i ''transaction'' ''CreateTransaction''
               [AStr ?i, AStr officeOrg, AStr officeWorkflow, AStr officeSchema, AStr (oiID me)] = Inr db1"
    and sto: "storeDocument en db1 objs ?i ''attachment'' (cleanFileName fileName) (oiID me) data = (objs', Inr (db2, docID))"
    and app: "appendTransactionEvent en db2 inp True = Inr (db', ae)" and inp: "eiTransactionID inp = ?i" "eiNewStatus inp = []"
    unfolding officeCreateBody_def Let_def
    by (auto simp: bindE_def split: sum.split_asm prod.split_asm)
  obtain A1 where S1: "synced db1 A1"
    using create_synced [OF S ins, of "''outbox create''" "''transaction''" ?i db1] enq by auto
  obtain d where db2: "db2 = db1\<lparr>dbDocs := dbDocs db1 @ [d]\<rparr>" using storeDocument_Inr [OF sto] by blast
  have S2: "synced db2 A1" by (rule synced_frame [OF S1]) (simp_all add: db2)
  obtain e ob where sign: "signEvent en db2 inp = Inr e" using app by (rule append_Inr)
  obtain t where t: "txnRow db2 (eiTransactionID inp) = Some t" using signEvent_Inr(1) [OF sign ok] by blast
  obtain A' where "synced db' A'"
    by (rule append_synced [OF S2 ok app t]) (simp_all add: inp)
  then show ?thesis by blast
qed

end
