(* ===== verification/Base64.thy ===== *)
theory Base64
  imports Crypto_Canonical
begin

text \<open>
  \<^verbatim>\<open>base64.StdEncoding\<close>, as the receipts use it for signatures: encoding with padding, and the decoder,
  which skips line breaks, requires padding and ignores surplus bits.
\<close>

definition b64char :: "nat \<Rightarrow> char" where
  "b64char n =
     (if n < 26 then char_of (65 + n) else if n < 52 then char_of (71 + n) else if n < 62 then char_of (n - 4)
      else if n = 62 then CHR ''+'' else CHR ''/'')"

definition b64val :: "char \<Rightarrow> nat option" where
  "b64val c =
     (if 65 \<le> code c \<and> code c \<le> 90 then Some (code c - 65)
      else if 97 \<le> code c \<and> code c \<le> 122 then Some (code c - 71)
      else if 48 \<le> code c \<and> code c \<le> 57 then Some (code c + 4)
      else if c = CHR ''+'' then Some 62 else if c = CHR ''/'' then Some 63 else None)"

fun b64encode :: "bytes \<Rightarrow> string" where
  "b64encode [] = []"
| "b64encode [a] = (let n = code a * 16 in [b64char (n div 64), b64char (n mod 64), CHR ''='', CHR ''=''])"
| "b64encode [a, b] =
     (let n = (code a * 256 + code b) * 4 in
      [b64char (n div 4096), b64char (n div 64 mod 64), b64char (n mod 64), CHR ''=''])"
| "b64encode (a # b # c # r) =
     (let n = code a * 65536 + code b * 256 + code c in
      [b64char (n div 262144), b64char (n div 4096 mod 64), b64char (n div 64 mod 64), b64char (n mod 64)] @ b64encode r)"

text \<open>One quantum of four characters; only the last one may be padded.\<close>

fun b64quads :: "string \<Rightarrow> bytes option" where
  "b64quads [] = Some []"
| "b64quads (a # b # c # d # r) =
     (case (b64val a, b64val b) of
        (Some x, Some y) \<Rightarrow>
          if c = CHR ''='' then
            (if d = CHR ''='' \<and> r = [] then Some [char_of ((x * 64 + y) div 16)] else None)
          else (case b64val c of
              None \<Rightarrow> None
            | Some z \<Rightarrow>
                if d = CHR ''='' then
                  (if r = [] then
                     Some [char_of ((x * 4096 + y * 64 + z) div 1024), char_of ((x * 4096 + y * 64 + z) div 4 mod 256)]
                   else None)
                else (case (b64val d, b64quads r) of
                    (Some w, Some bs) \<Rightarrow>
                      Some ([char_of ((x * 262144 + y * 4096 + z * 64 + w) div 65536),
                             char_of ((x * 262144 + y * 4096 + z * 64 + w) div 256 mod 256),
                             char_of ((x * 262144 + y * 4096 + z * 64 + w) mod 256)] @ bs)
                  | _ \<Rightarrow> None))
      | _ \<Rightarrow> None)"
| "b64quads _ = None"

definition b64decode :: "string \<Rightarrow> bytes option" where
  "b64decode s = b64quads (filter (\<lambda>c. c \<noteq> CHR 0x0A \<and> c \<noteq> CHR 0x0D) s)"

section \<open>Round trip\<close>

lemma code_less: "code c < 256"
  by (simp add: code_def)

lemma char_of_code: "char_of (code c) = c"
  by (simp add: code_def)

lemma code_char_of_small: "n < 256 \<Longrightarrow> code (char_of n) = n"
  by (simp add: code_def)

lemma b64val_char: "n < 64 \<Longrightarrow> b64val (b64char n) = Some n"
proof -
  assume "n < 64"
  then consider "n < 26" | "26 \<le> n" "n < 52" | "52 \<le> n" "n < 62" | "n = 62" | "n = 63" by linarith
  then show ?thesis
    by cases (auto simp: b64char_def b64val_def code_char_of_small, simp_all add: code_def)
qed

lemma b64char_plain: "n < 64 \<Longrightarrow> b64char n \<noteq> CHR ''='' \<and> b64char n \<noteq> CHR 0x0A \<and> b64char n \<noteq> CHR 0x0D"
  using b64val_char [of n] by (auto simp: b64val_def code_def)

lemma base64_digits:
  "(n div 262144) * 262144 + (n div 4096 mod 64) * 4096 + (n div 64 mod 64) * 64 + n mod 64 = (n::nat)"
proof -
  obtain r0 r1 r2 where r: "r0 = n mod 64" "r1 = n div 64 mod 64" "r2 = n div 64 div 64 mod 64" by blast
  obtain q1 q2 q3 where q: "q1 = n div 64" "q2 = n div 64 div 64" "q3 = n div 64 div 64 div 64" by blast
  have e: "n = q1 * 64 + r0" "q1 = q2 * 64 + r1" "q2 = q3 * 64 + r2" unfolding q r by (rule div_mult_mod_eq [symmetric])+
  have "n div 4096 = q2" "n div 262144 = q3" by (simp_all add: q div_mult2_eq [symmetric])
  moreover have "q3 * 262144 + r2 * 4096 + r1 * 64 + r0 = n" unfolding e(1) e(2) e(3) by simp
  ultimately show ?thesis unfolding r q(2) [symmetric] by (simp add: q(2) r(2) [symmetric])
qed

lemma quad_bytes:
  assumes "a < 256" "b < 256" "c < (256::nat)"
  defines "n \<equiv> a * 65536 + b * 256 + c"
  shows "n div 262144 < 64" "n div 4096 mod 64 < 64" "n div 64 mod 64 < 64" "n mod 64 < 64"
    and "(n div 262144) * 262144 + (n div 4096 mod 64) * 4096 + (n div 64 mod 64) * 64 + n mod 64 = n"
    and "n div 65536 = a" "n div 256 mod 256 = b" "n mod 256 = c"
proof -
  show "n div 262144 < 64" using assms by (simp add: n_def div_less_iff_less_mult)
  show "(n div 262144) * 262144 + (n div 4096 mod 64) * 4096 + (n div 64 mod 64) * 64 + n mod 64 = n"
    by (rule base64_digits)
  obtain q where q: "q = a * 256 + b" by blast
  have "n = q * 256 + c" by (simp add: n_def q)
  then have "n mod 256 = c" "n div 256 = q" using assms(3) by simp_all
  moreover have "q mod 256 = b" "q div 256 = a" using assms(2) by (simp_all add: q)
  moreover have "n div 65536 = n div 256 div 256" by (simp add: div_mult2_eq [symmetric])
  ultimately show "n mod 256 = c" "n div 65536 = a" "n div 256 mod 256 = b" by simp_all
qed simp_all

lemma b64quads_encode: "b64quads (b64encode bs) = Some bs"
proof (induction bs rule: b64encode.induct)
  case (2 a)
  define n where "n = code a * 16"
  have r: "n div 64 < 64" using code_less [of a] by (simp add: n_def div_less_iff_less_mult)
  have e: "(n div 64) * 64 + n mod 64 = n" by (rule div_mult_mod_eq)
  have d: "n div 16 = code a" by (simp add: n_def)
  show ?case
    unfolding b64encode.simps Let_def n_def [symmetric]
    by (simp add: b64val_char r b64char_plain e d char_of_code)
next
  case (3 a b)
  define n where "n = (code a * 256 + code b) * 4"
  note l = code_less [of a] code_less [of b]
  have r: "n div 4096 < 64" using l by (simp add: n_def div_less_iff_less_mult)
  have "n div 4096 = n div 64 div 64" by (simp add: div_mult2_eq [symmetric])
  moreover have "n div 64 = (n div 64 div 64) * 64 + n div 64 mod 64" "n = (n div 64) * 64 + n mod 64"
    by (rule div_mult_mod_eq [symmetric])+
  ultimately have e: "(n div 4096) * 4096 + (n div 64 mod 64) * 64 + n mod 64 = n" by linarith
  have q: "n div 4 = code a * 256 + code b" by (simp add: n_def)
  moreover have "n div 1024 = n div 4 div 256" by (simp add: div_mult2_eq [symmetric])
  ultimately have d: "n div 1024 = code a" "n div 4 mod 256 = code b" using l(2) by simp_all
  show ?case
    unfolding b64encode.simps Let_def n_def [symmetric]
    by (simp add: b64val_char r b64char_plain e d char_of_code)
next
  case (4 a b c r)
  note q = quad_bytes [OF code_less [of a] code_less [of b] code_less [of c]]
  show ?case
    unfolding b64encode.simps Let_def append_Cons append_Nil
    by (simp only: b64quads.simps 4 b64val_char [OF q(1)] b64val_char [OF q(2)] b64val_char [OF q(3)] b64val_char [OF q(4)]
        b64char_plain q option.case prod.case if_False char_of_code append_Cons append_Nil)
qed simp

lemma b64encode_plain: "filter (\<lambda>c. c \<noteq> CHR 0x0A \<and> c \<noteq> CHR 0x0D) (b64encode bs) = b64encode bs"
proof (induction bs rule: b64encode.induct)
  case (2 a)
  have "code a * 16 div 64 < 64" using code_less [of a] by linarith
  then show ?case by (simp add: Let_def b64char_plain)
next
  case (3 a b)
  have "(code a * 256 + code b) * 4 div 4096 < 64"
    using code_less [of a] code_less [of b] by (simp add: div_less_iff_less_mult)
  then show ?case by (simp add: Let_def b64char_plain)
next
  case (4 a b c r)
  note q = quad_bytes [OF code_less [of a] code_less [of b] code_less [of c]]
  show ?case using 4 q(1-4) by (simp add: Let_def b64char_plain)
qed simp

lemma b64decode_encode [simp]: "b64decode (b64encode bs) = Some bs"
  by (simp add: b64decode_def b64encode_plain b64quads_encode)

end
