(* ===== verification/Archive.thy ===== *)
theory Archive
  imports Office Base64
begin

text \<open>
  The archive app, \<^verbatim>\<open>api/internal/httpapi/archive.go\<close>: resumable uploads, finalisation (store, read back,
  sign, record, issue a receipt) and receipts.

  Beside the database there are three stores a database transaction does not cover: the scratch files, the
  object store, and the in-memory hash state per upload.  A running hash is the bytes it has absorbed
  (the SHA-256 and the SHA-512 state absorb the same ones).  Chunks and the completion of one upload are serialised by
  its lock, so a handler is one step.  What a request meets outside the program is \<open>aenv\<close>: the
  environment of the ledger API, the free disk space, what the object store does with a
  stream, random bytes, the times read while it runs, how a number is printed again after
  passing through a \<^verbatim>\<open>float64\<close>, and the table \<^verbatim>\<open>key_reference\<close>, which the keystore maintains.  When several events are appended in one
  transaction, each gets its own share of generated ids and faults (\<open>shareEnv\<close>).
\<close>

section \<open>Constants and state\<close>

definition archiveWorkflow :: string where "archiveWorkflow = ''arsip-kiriman''"
definition archiveSchema :: string where "archiveSchema = ''archive.v1''"
definition systemArchiveID :: string where "systemArchiveID = ''system-archive''"
definition systemOrgID :: string where "systemOrgID = ''pusat''"
definition archiveChunkSize :: int where "archiveChunkSize = 8 * 2 ^ 20"
definition archiveMaxChunk :: int where "archiveMaxChunk = 64 * 2 ^ 20"
definition archiveDefaultMax :: int where "archiveDefaultMax = 20 * 2 ^ 30"
definition archiveMaxOpenUpl :: nat where "archiveMaxOpenUpl = 5"
definition archiveSessionTTL :: int where "archiveSessionTTL = 48 * 3600"
definition archiveDiskReserved :: int where "archiveDiskReserved = 256 * 2 ^ 20"

record ArchiveConfig =
  acTempDir :: string
  acMaxBytes :: int
  acServerName :: string

definition maxBytes :: "ArchiveConfig \<Rightarrow> int" where
  "maxBytes c = (if acMaxBytes c > 0 then acMaxBytes c else archiveDefaultMax)"

record uploadRow =
  upID :: string
  upSenderID :: string
  upOrgID :: string
  upFileName :: string
  upMediaType :: string
  upDescription :: string
  upTempPath :: string
  upClientIP :: string
  upUserAgent :: string
  upStatus :: string
  upSize :: int
  upReceived :: int
  upUpdatedAt :: int

record uploadRT =
  rtN :: int
  rtHashed :: "bytes option"

record archiveItem =
  aiID :: string
  aiReceiptID :: string
  aiTransactionID :: string
  aiOrgID :: string
  aiSenderID :: string
  aiFileName :: string
  aiMediaType :: string
  aiSize :: int
  aiSHA256 :: string
  aiSHA512 :: string
  aiDescription :: string
  aiStorageKey :: string
  aiClientIP :: string
  aiUserAgent :: string
  aiManifest :: jval
  aiManifestHash :: string
  aiReceipt :: jval
  aiReceivedAt :: int

record accessRow =
  acItemID :: string
  acAdminID :: string
  acAction :: string
  acClientIP :: string

record ticketRow =
  tkItemID :: string
  tkAdminID :: string
  tkExpiresAt :: int
  tkUsedAt :: "int option"

record archiveState =
  asDB :: api_db
  asUploads :: "(string \<times> uploadRow) list"
  asItems :: "archiveItem list"
  asAccess :: "accessRow list"
  asTickets :: "(string \<times> ticketRow) list"
  asFiles :: "string \<Rightarrow> bytes option"
  asObjects :: objects
  asRT :: "string \<Rightarrow> uploadRT option"

record aenv =
  aeEnv :: env
  aeFreeDisk :: "int option"
  aePutStream :: "string \<Rightarrow> bytes \<Rightarrow> int \<Rightarrow> bytes option"
  aeRandom :: bytes
  aeMonth :: string
  aeNanoAt :: "string \<Rightarrow> string"
  aeFloat64 :: "string \<Rightarrow> string"
  aeKeyReference :: "string \<Rightarrow> (bytes \<times> string) option"

abbreviation aeFault :: "aenv \<Rightarrow> string \<Rightarrow> bool" where
  "aeFault A \<equiv> enFault (aeEnv A)"

definition shareEnv :: "string \<Rightarrow> env \<Rightarrow> env" where
  "shareEnv tag en = en\<lparr>enUUID := (\<lambda>l. enUUID en (tag @ l)), enFault := (\<lambda>l. enFault en (tag @ l))\<rparr>"

section \<open>Text\<close>

text \<open>The runes of a string, re-encoded: a byte that is not UTF-8 becomes U+FFFD.\<close>

function runes :: "string \<Rightarrow> string list" where
  "runes s =
     (case s of
        [] \<Rightarrow> []
      | c # r \<Rightarrow>
          if utf8Width s = 0 then [CHR 0xEF, CHR 0xBF, CHR 0xBD] # runes r
          else take (utf8Width s) s # runes (drop (utf8Width s - 1) r))"
  by pat_completeness auto
termination by (relation "measure length") auto

declare runes.simps [simp del]

definition shortText :: "string \<Rightarrow> nat \<Rightarrow> string" where
  "shortText s m = (if runeCount s \<le> m then s else concat (take m (runes s)))"

definition archiveReplaced :: "string \<Rightarrow> bool" where
  "archiveReplaced w = (case w of [c] \<Rightarrow> code c < 32 \<or> code c = 127 \<or> c = quot | _ \<Rightarrow> False)"

definition cleanArchiveName :: "string \<Rightarrow> string" where
  "cleanArchiveName n0 =
     (let n = map (\<lambda>c. if c = bsl then CHR ''/'' else c) n0;
          n = rev (takeWhile (\<lambda>c. c \<noteq> CHR ''/'') (rev n));
          n = concat (map (\<lambda>w. if archiveReplaced w then ''_'' else w) (runes n));
          n = trimSpace n;
          n = (if runeCount n > 200 then concat (drop (length (runes n) - 200) (runes n)) else n)
      in if n = [] \<or> n = ''.'' \<or> n = ''..'' then ''berkas'' else n)"

definition clientIP :: "string \<Rightarrow> string \<Rightarrow> string" where
  "clientIP xff peerHost = (if xff \<noteq> [] then trimSpace (takeWhile (\<lambda>c. c \<noteq> CHR '','') xff) else peerHost)"

text \<open>Lower-case base 32 without padding, as for receipt ids.\<close>

fun base32 :: "nat \<Rightarrow> nat \<Rightarrow> bytes \<Rightarrow> string" where
  "base32 acc bits [] =
     (if bits = 0 then [] else [(''abcdefghijklmnopqrstuvwxyz234567'' ! (acc * 2 ^ (5 - bits) mod 32))])"
| "base32 acc bits (c # r) =
     (let acc = acc * 256 + code c; bits = bits + 8;
          out = (\<lambda>k. ''abcdefghijklmnopqrstuvwxyz234567'' ! (acc div 2 ^ (bits - 5 * k) mod 32));
          n = bits div 5
      in map out [1..<Suc n] @ base32 (acc mod 2 ^ (bits - 5 * n)) (bits - 5 * n) r)"

definition newReceiptID :: "aenv \<Rightarrow> string" where
  "newReceiptID A = ''rcp_'' @ base32 0 0 (aeRandom A)"

section \<open>Upload sessions\<close>

definition uploadRTOf :: "archiveState \<Rightarrow> string \<Rightarrow> uploadRT" where
  "uploadRTOf st i = (case asRT st i of None \<Rightarrow> \<lparr>rtN = 0, rtHashed = None\<rparr> | Some rt \<Rightarrow> rt)"

definition dropUploadRT :: "string \<Rightarrow> archiveState \<Rightarrow> archiveState" where
  "dropUploadRT i st = st\<lparr>asRT := (asRT st)(i := None)\<rparr>"

definition loadUpload :: "aenv \<Rightarrow> archiveState \<Rightarrow> string \<Rightarrow> string \<Rightarrow> db_error + uploadRow" where
  "loadUpload A st i sender =
     bindE (stmt (aeEnv A) ''load upload'') (\<lambda>_.
       case map_of (asUploads st) i of
         None \<Rightarrow> Inl NoRows
       | Some u \<Rightarrow> if upSenderID u = sender then Inr u else Inl NoRows)"

definition archiveConfig :: "ArchiveConfig \<Rightarrow> bool \<Rightarrow> officeIdentity \<Rightarrow> response" where
  "archiveConfig cfg fabricEnabled me =
     Done 200 (JObj [(''server_name'', JStr (acServerName cfg)), (''chunk_size'', JNum (fmt_d archiveChunkSize)),
       (''max_bytes'', JNum (fmt_d (maxBytes cfg))), (''fabric_enabled'', JBool fabricEnabled),
       (''me'', JObj [(''id'', JStr (oiID me)), (''name'', JStr (oiName me)), (''email'', JStr (oiEmail me)),
          (''is_admin'', JBool (isAdmin me)), (''organization_id'', JStr (oiOrgID me)),
          (''organization_name'', JStr (oiOrgName me))])])"

record createUploadRequest =
  cuFileName :: string
  cuSize :: int
  cuMediaType :: string
  cuDescription :: string

definition openUploads :: "aenv \<Rightarrow> archiveState \<Rightarrow> string \<Rightarrow> nat" where
  "openUploads A st sender =
     (if aeFault A ''count uploads'' then 0
      else length (filter (\<lambda>(i, u). upSenderID u = sender \<and> upStatus u = ''open'') (asUploads st)))"

definition archiveCreateUpload ::
  "aenv \<Rightarrow> ArchiveConfig \<Rightarrow> officeIdentity \<Rightarrow> string \<Rightarrow> string \<Rightarrow> createUploadRequest option \<Rightarrow> archiveState \<Rightarrow>
     archiveState \<times> response" where
  "archiveCreateUpload A cfg me ip userAgent body st =
     (if oiOrgID me = [] then (st, Fail 403 ''akun Anda belum ditetapkan ke sebuah kantor. Hubungi admin pusat.'')
      else case body of
        None \<Rightarrow> (st, Fail 400 ''JSON tidak valid'')
      | Some inp \<Rightarrow>
          if cuSize inp < 0 then (st, Fail 400 ''ukuran tidak valid'')
          else if cuSize inp > maxBytes cfg
            then (st, Fail 413 (''berkas melebihi batas server ('' @ fmt_d (maxBytes cfg) @ '' byte)''))
          else if runeCount (cuDescription inp) > 2000 then (st, Fail 400 ''keterangan maksimal 2000 karakter'')
          else if (case aeFreeDisk A of None \<Rightarrow> False | Some free \<Rightarrow> cuSize inp + archiveDiskReserved > free)
            then (st, Fail 507 ''ruang penyimpanan server tidak cukup untuk berkas ini'')
          else if openUploads A st (oiID me) \<ge> archiveMaxOpenUpl
            then (st, Fail 429 ''terlalu banyak unggahan yang belum selesai; selesaikan atau batalkan dulu'')
          else
            let i = ''upl_'' @ enUUID (aeEnv A) ''upload'';
                tmp = acTempDir cfg @ ''/'' @ i @ ''.part''
            in if aeFault A ''temp file'' \<or> asFiles st tmp \<noteq> None then (st, internalError)
               else
                 let media0 = trimSpace (cuMediaType inp);
                     media = (if media0 = [] \<or> length media0 > 200 then ''application/octet-stream'' else media0);
                     row = \<lparr>upID = i, upSenderID = oiID me, upOrgID = oiOrgID me,
                            upFileName = cleanArchiveName (cuFileName inp), upMediaType = media,
                            upDescription = trimSpace (cuDescription inp), upTempPath = tmp, upClientIP = ip,
                            upUserAgent = shortText userAgent 300, upStatus = ''open'', upSize = cuSize inp,
                            upReceived = 0, upUpdatedAt = enTime (aeEnv A)\<rparr>
                 in if aeFault A ''insert upload'' \<or> map_of (asUploads st) i \<noteq> None
                    then ((if aeFault A ''remove temp'' then st\<lparr>asFiles := (asFiles st)(tmp \<mapsto> [])\<rparr> else st), internalError)
                    else (st\<lparr>asFiles := (asFiles st)(tmp \<mapsto> []), asUploads := asUploads st @ [(i, row)]\<rparr>,
                          Done 201 (JObj [(''upload_id'', JStr i), (''offset'', JNum ''0''), (''size'', JNum (fmt_d (cuSize inp))),
                            (''chunk_size'', JNum (fmt_d archiveChunkSize))])))"

definition archiveUploadStatus :: "aenv \<Rightarrow> archiveState \<Rightarrow> officeIdentity \<Rightarrow> string \<Rightarrow> response" where
  "archiveUploadStatus A st me i =
     (case loadUpload A st i (oiID me) of
        Inl NoRows \<Rightarrow> Fail 404 ''unggahan tidak ditemukan''
      | Inl _ \<Rightarrow> internalError
      | Inr u \<Rightarrow> Done 200 (JObj [(''upload_id'', JStr (upID u)), (''offset'', JNum (fmt_d (upReceived u))),
          (''size'', JNum (fmt_d (upSize u))), (''status'', JStr (upStatus u)), (''file_name'', JStr (upFileName u))]))"

definition ensureHashes :: "aenv \<Rightarrow> uploadRT \<Rightarrow> bytes option \<Rightarrow> int \<Rightarrow> uploadRT \<times> bool" where
  "ensureHashes A rt file received =
     (if rtHashed rt \<noteq> None \<and> rtN rt = received then (rt, True)
      else if received = 0 then (\<lparr>rtN = 0, rtHashed = Some []\<rparr>, True)
      else case file of
          None \<Rightarrow> (\<lparr>rtN = 0, rtHashed = None\<rparr>, False)
        | Some f \<Rightarrow>
            let b = take (nat received) f in
            if aeFault A ''rehash'' \<or> int (length b) \<noteq> received then (\<lparr>rtN = 0, rtHashed = None\<rparr>, False)
            else (\<lparr>rtN = received, rtHashed = Some b\<rparr>, True))"

definition writeAt :: "bytes \<Rightarrow> nat \<Rightarrow> bytes \<Rightarrow> bytes" where
  "writeAt f off b = take off (f @ replicate (off - length f) (CHR 0x00)) @ b @ drop (off + length b) f"

text \<open>
  The body of a chunk request: the bytes that arrive and whether the connection breaks after
  them.  Copying stops after \<open>remaining + 1\<close> bytes; a body over the hard cap is an error once
  copying reaches the cap.
\<close>

definition copyChunk :: "int \<Rightarrow> bytes \<Rightarrow> bool \<Rightarrow> bytes \<times> bool" where
  "copyChunk remaining data broken =
     (let lim = remaining + 1;
          copied = take (nat (min lim archiveMaxChunk)) data
      in (copied, int (length data) > archiveMaxChunk \<and> lim > archiveMaxChunk \<or> broken \<and> int (length data) < lim))"

definition archiveUploadChunk ::
  "aenv \<Rightarrow> officeIdentity \<Rightarrow> string \<Rightarrow> string \<Rightarrow> bytes \<times> bool \<Rightarrow> archiveState \<Rightarrow> archiveState \<times> response" where
  "archiveUploadChunk A me i offsetHeader body st0 =
     (let rt = uploadRTOf st0 i; st = st0\<lparr>asRT := (asRT st0)(i \<mapsto> rt)\<rparr> in
      case loadUpload A st i (oiID me) of
        Inl NoRows \<Rightarrow> (st, Fail 404 ''unggahan tidak ditemukan'')
      | Inl _ \<Rightarrow> (st, internalError)
      | Inr u \<Rightarrow>
          if upStatus u \<noteq> ''open'' then (st, Fail 404 ''unggahan tidak ditemukan'')
          else case parseInt offsetHeader of
            None \<Rightarrow> (st, Fail 400 ''header Upload-Offset wajib'')
          | Some offset \<Rightarrow>
              if offset < 0 then (st, Fail 400 ''header Upload-Offset wajib'')
              else if offset \<noteq> upReceived u
                then (st, Done 409 (JObj [(''error'', JStr ''offset tidak sama dengan yang diterima server''),
                       (''offset'', JNum (fmt_d (upReceived u)))]))
              else
                let remaining = upSize u - offset;
                    (rt1, ok) = ensureHashes A rt (asFiles st (upTempPath u)) (upReceived u);
                    st1 = st\<lparr>asRT := (asRT st)(i \<mapsto> rt1)\<rparr>
                in if \<not> ok then (st1, internalError)
                   else case asFiles st (upTempPath u) of
                     None \<Rightarrow> (st1, internalError)
                   | Some f \<Rightarrow>
                       if aeFault A ''open temp'' then (st1, internalError)
                       else
                         let (copied, cerr) = copyChunk remaining (fst body) (snd body);
                             writeErr = aeFault A ''write chunk'';
                             f1 = (if writeErr then f else writeAt f (nat offset) copied);
                             n = int (length copied);
                             f2 = (if aeFault A ''truncate'' then f1 else take (nat offset) f1);
                             rolled = st1\<lparr>asFiles := (asFiles st)(upTempPath u \<mapsto> f2),
                                          asRT := (asRT st)(i \<mapsto> \<lparr>rtN = 0, rtHashed = None\<rparr>)\<rparr>
                         in if cerr \<or> writeErr
                              then (rolled, Fail 400 ''pengiriman potongan terputus; lanjutkan dari offset server'')
                            else if n > remaining
                              then (rolled, Fail 400 ''data melebihi ukuran yang dideklarasikan'')
                            else if aeFault A ''update upload'' then (rolled, internalError)
                            else (st1\<lparr>asFiles := (asFiles st)(upTempPath u \<mapsto> f1),
                                      asRT := (asRT st)(i \<mapsto> \<lparr>rtN = offset + n, rtHashed = map_option (\<lambda>b. b @ copied) (rtHashed rt1)\<rparr>),
                                      asUploads := AList.map_entry i
                                        (\<lambda>u. u\<lparr>upReceived := offset + n, upUpdatedAt := enTime (aeEnv A)\<rparr>) (asUploads st)\<rparr>,
                                  Done 200 (JObj [(''offset'', JNum (fmt_d (offset + n))), (''size'', JNum (fmt_d (upSize u)))])))"

definition archiveAbort :: "aenv \<Rightarrow> officeIdentity \<Rightarrow> string \<Rightarrow> archiveState \<Rightarrow> archiveState \<times> response" where
  "archiveAbort A me i st =
     (case loadUpload A st i (oiID me) of
        Inl _ \<Rightarrow> (st, Fail 404 ''unggahan tidak ditemukan'')
      | Inr u \<Rightarrow>
          if upStatus u \<noteq> ''open'' then (st, Fail 404 ''unggahan tidak ditemukan'')
          else
            let st1 = (if aeFault A ''abort upload'' then st
                  else st\<lparr>asUploads := AList.map_entry i
                    (\<lambda>u. u\<lparr>upStatus := ''aborted'', upUpdatedAt := enTime (aeEnv A)\<rparr>) (asUploads st)\<rparr>);
                st2 = (if aeFault A ''remove temp'' then st1 else st1\<lparr>asFiles := (asFiles st1)(upTempPath u := None)\<rparr>)
            in (dropUploadRT i st2, Done 200 (JObj [(''status'', JStr ''aborted'')])))"

text \<open>One tick of the janitor.\<close>

definition staleUpload :: "aenv \<Rightarrow> uploadRow \<Rightarrow> bool" where
  "staleUpload A u \<longleftrightarrow> upStatus u = ''open'' \<and> upUpdatedAt u < enTime (aeEnv A) - archiveSessionTTL"

definition RunArchiveJanitor :: "aenv \<Rightarrow> archiveState \<Rightarrow> archiveState" where
  "RunArchiveJanitor A st =
     (if aeFault A ''janitor'' then st
      else
        let stale = filter (\<lambda>(i, u). staleUpload A u) (asUploads st) in
        st\<lparr>asUploads := map (\<lambda>(i, u). (i, if staleUpload A u then u\<lparr>upStatus := ''aborted''\<rparr> else u)) (asUploads st),
           asFiles := fold (\<lambda>(i, u) files. if aeFault A (''remove temp '' @ i) then files else files(upTempPath u := None))
             stale (asFiles st),
           asRT := fold (\<lambda>(i, u) rts. rts(i := None)) stale (asRT st)\<rparr>)"

end
