(* ===== verification/Archive_Finalize.thy ===== *)
theory Archive_Finalize
  imports Archive
begin

text \<open>
  The second half of \<^verbatim>\<open>api/internal/httpapi/archive.go\<close>: completing an upload, storing the file and
  reading it back, recording the signed transaction, and the receipt.  Strings that come out of
  text columns are valid UTF-8, so encoding them as JSON and decoding them again gives them back.
\<close>

section \<open>The receipt\<close>

record sigJSON =
  sjSuite :: string
  sjClassicalKeyID :: string
  sjPQCKeyID :: string
  sjClassicalSignature :: string
  sjPQCSignature :: string
  sjSigningContext :: SigningContext

definition sigContext :: "env \<Rightarrow> string \<Rightarrow> string \<Rightarrow> SigningContext" where
  "sigContext en txnType txnID =
     \<lparr>scApplication = enApplication en, scEnvironment = enEnvironment en, scTransactionType = txnType,
      scSchemaVersion = archiveSchema, scTransactionID = txnID\<rparr>"

definition toSigJSON :: "HybridSignature \<Rightarrow> SigningContext \<Rightarrow> sigJSON" where
  "toSigJSON sig c =
     \<lparr>sjSuite = hsAlgorithmSuite sig, sjClassicalKeyID = hsClassicalKeyID sig, sjPQCKeyID = hsPQCKeyID sig,
      sjClassicalSignature = b64encode (hsClassicalSignature sig), sjPQCSignature = b64encode (hsPQCSignature sig),
      sjSigningContext = c\<rparr>"

text \<open>A \<^verbatim>\<open>sigJSON\<close> as the JSON value it encodes to.\<close>

definition sigValue :: "sigJSON \<Rightarrow> jval" where
  "sigValue j =
     JObj [(''algorithm_suite'', JStr (sjSuite j)), (''classical_key_id'', JStr (sjClassicalKeyID j)),
       (''pqc_key_id'', JStr (sjPQCKeyID j)), (''classical_signature'', JStr (sjClassicalSignature j)),
       (''pqc_signature'', JStr (sjPQCSignature j)),
       (''signing_context'', let c = sjSigningContext j in JObj [(''application'', JStr (scApplication c)),
          (''environment'', JStr (scEnvironment c)), (''transaction_type'', JStr (scTransactionType c)),
          (''schema_version'', JStr (scSchemaVersion c)), (''transaction_id'', JStr (scTransactionID c))])]"

text \<open>Decoding JSON without \<^verbatim>\<open>UseNumber\<close> and encoding it again: every number passes through a \<^verbatim>\<open>float64\<close>.\<close>

fun viaFloat64 :: "(string \<Rightarrow> string) \<Rightarrow> jval \<Rightarrow> jval" where
  "viaFloat64 f (JNum n) = JNum (f n)"
| "viaFloat64 f (JArr vs) = JArr (map (viaFloat64 f) vs)"
| "viaFloat64 f (JObj kvs) = JObj (map (\<lambda>(k, v). (k, viaFloat64 f v)) kvs)"
| "viaFloat64 f v = v"

datatype finalize_error =
    OpenTemp
  | StoreObject
  | ReadBack
  | StoredMismatch
  | MissingFirstEvent
  | ReceiptSigning crypto_error
  | Database db_error

definition receiptEvent :: "event_row \<Rightarrow> jval" where
  "receiptEvent e =
     JObj [(''sequence'', JNum (fmt_d (erowEventSequence e))), (''type'', JStr (erowEventType e)),
       (''payload_hash'', JStr (erowPayloadHash e)), (''previous_event_hash'', JStr (erowPreviousEventHash e))]"

definition rowSignature :: "event_row \<Rightarrow> HybridSignature" where
  "rowSignature e =
     \<lparr>hsAlgorithmSuite = erowAlgorithmSuite e, hsClassicalKeyID = erowClassicalKeyID e, hsPQCKeyID = erowPQCKeyID e,
      hsClassicalSignature = erowClassicalSignature e, hsPQCSignature = erowPQCSignature e\<rparr>"

definition buildReceipt ::
  "aenv \<Rightarrow> api_db \<Rightarrow> string \<Rightarrow> string \<Rightarrow> jval \<Rightarrow> string \<Rightarrow> finalize_error + jval" where
  "buildReceipt A db txnID receiptID manifest manifestHash =
     (let en = aeEnv A; rows = sort_key erowEventSequence (eventsOf db txnID) in
      bindE (mapErr Database (stmt en ''receipt events'')) (\<lambda>_.
      case filter (\<lambda>e. erowEventSequence e = 1) rows of
        [] \<Rightarrow> Inl MissingFirstEvent
      | fs \<Rightarrow>
          let senderSig = toSigJSON (rowSignature (last fs)) (sigContext en ''UPLOAD_RECEIVED'' txnID);
              body = JObj [(''format'', JStr ''archive-receipt/1''), (''receipt_id'', JStr receiptID),
                (''issued_at'', JStr (aeNanoAt A ''issued'')), (''transaction_id'', JStr txnID), (''manifest'', manifest),
                (''manifest_hash'', JStr manifestHash), (''sender_signature'', sigValue senderSig),
                (''events'', JArr (map receiptEvent rows))];
              canonBody = viaFloat64 (aeFloat64 A) body;
              c = sigContext en ''ARCHIVE_RECEIPT'' txnID in
          bindE (mapErr Database (orErr SigningIdentityError (enKeystore en systemArchiveID))) (\<lambda>identity.
          bindE (mapErr ReceiptSigning (SignHybrid (enPrims en) identity c (Some canonBody))) (\<lambda>(sig, _).
            Inr (JObj [(''body'', canonBody), (''server_signature'', sigValue (toSigJSON sig c))])))))"

section \<open>Finalisation\<close>

definition archiveManifest ::
  "aenv \<Rightarrow> ArchiveConfig \<Rightarrow> officeIdentity \<Rightarrow> uploadRow \<Rightarrow> string \<Rightarrow> string \<Rightarrow> string \<Rightarrow> string \<Rightarrow> string \<Rightarrow> string \<Rightarrow> jval" where
  "archiveManifest A cfg me u orgName receiptID itemID txnID sum256 sum512 =
     JObj [(''schema'', JStr ''archive-manifest/1''), (''receipt_id'', JStr receiptID), (''item_id'', JStr itemID),
       (''transaction_id'', JStr txnID), (''server_name'', JStr (acServerName cfg)),
       (''organization_id'', JStr (upOrgID u)), (''organization_name'', JStr orgName),
       (''sender_id'', JStr (oiID me)), (''sender_name'', JStr (oiName me)), (''sender_email'', JStr (oiEmail me)),
       (''file_name'', JStr (upFileName u)), (''media_type'', JStr (upMediaType u)),
       (''size_bytes'', JNum (fmt_d (upSize u))), (''sha256'', JStr sum256), (''sha512'', JStr sum512),
       (''description'', JStr (upDescription u)), (''client_ip'', JStr (upClientIP u)),
       (''user_agent'', JStr (upUserAgent u)), (''received_at'', JStr (aeNanoAt A ''received''))]"

definition itemConflict :: "archiveItem \<Rightarrow> archiveItem \<Rightarrow> bool" where
  "itemConflict a b \<longleftrightarrow> aiID a = aiID b \<or> aiReceiptID a = aiReceiptID b \<or> aiTransactionID a = aiTransactionID b"

text \<open>The body of the database transaction.\<close>

definition archiveRecord ::
  "aenv \<Rightarrow> officeIdentity \<Rightarrow> uploadRow \<Rightarrow> string \<Rightarrow> string \<Rightarrow> string \<Rightarrow> string \<Rightarrow> string \<Rightarrow> string \<Rightarrow> jval \<Rightarrow>
     api_db \<times> archiveItem list \<Rightarrow> finalize_error + ((api_db \<times> archiveItem list) \<times> jval)" where
  "archiveRecord A me u itemID txnID receiptID key sum256 sum512 manifest st =
     (let en = aeEnv A; (db, items) = st in
      bindE (mapErr Database (insertTxn en db
        \<lparr>trID = txnID, trOrganizationID = upOrgID u, trWorkflowType = archiveWorkflow, trSchemaVersion = archiveSchema,
         trCreatedBy = oiID me, trStatus = ''DRAFT'', trUpdatedAt = enTime en,
         trOfficeMeta = Some (metaJSON (upFileName u) ''arsip'' (upSize u) (upDescription u))\<rparr>)) (\<lambda>db.
      bindE (mapErr Database (enqueueOutbox en ''outbox create'' db ''transaction'' txnID ''transaction'' ''CreateTransaction''
        [AStr txnID, AStr (upOrgID u), AStr archiveWorkflow, AStr archiveSchema, AStr (oiID me)])) (\<lambda>db.
      bindE (mapErr Database (appendTransactionEvent (shareEnv ''1:'' en) db
        \<lparr>eiTransactionID = txnID, eiEventType = ''UPLOAD_RECEIVED'', eiSignerIdentity = oiID me, eiPayload = manifest,
         eiNewStatus = [], eiIdempotencyKey = []\<rparr> True)) (\<lambda>(db, e1).
      bindE (mapErr Database (appendTransactionEvent (shareEnv ''2:'' en) db
        \<lparr>eiTransactionID = txnID, eiEventType = ''INTEGRITY_VERIFIED'', eiSignerIdentity = systemArchiveID,
         eiPayload = JObj [(''receipt_id'', JStr receiptID), (''sha256'', JStr sum256), (''sha512'', JStr sum512),
           (''size_bytes'', JNum (fmt_d (upSize u))), (''method'', JStr ''read-back-from-object-store''),
           (''at'', JStr (aeNanoAt A ''verified''))],
         eiNewStatus = ''VERIFIED'', eiIdempotencyKey = []\<rparr> True)) (\<lambda>(db, _).
      bindE (mapErr Database (appendTransactionEvent (shareEnv ''3:'' en) db
        \<lparr>eiTransactionID = txnID, eiEventType = ''ARCHIVED'', eiSignerIdentity = systemArchiveID,
         eiPayload = JObj [(''receipt_id'', JStr receiptID), (''manifest_hash'', JStr (aePayloadHash e1)),
           (''at'', JStr (aeNanoAt A ''archived''))],
         eiNewStatus = ''ENDORSED'', eiIdempotencyKey = []\<rparr> True)) (\<lambda>(db, _).
      bindE (buildReceipt A db txnID receiptID manifest (aePayloadHash e1)) (\<lambda>receipt.
      bindE (mapErr Database (stmt en ''insert item'')) (\<lambda>_.
      let item = \<lparr>aiID = itemID, aiReceiptID = receiptID, aiTransactionID = txnID, aiOrgID = upOrgID u,
            aiSenderID = oiID me, aiFileName = upFileName u, aiMediaType = upMediaType u, aiSize = upSize u,
            aiSHA256 = sum256, aiSHA512 = sum512, aiDescription = upDescription u, aiStorageKey = key,
            aiClientIP = upClientIP u, aiUserAgent = upUserAgent u, aiManifest = manifest,
            aiManifestHash = aePayloadHash e1, aiReceipt = receipt, aiReceivedAt = enTime en\<rparr>
      in if list_ex (itemConflict item) items then Inl (Database UniqueViolation)
         else Inr ((db, items @ [item]), receipt)))))))))"

record archivedItem =
  itItemID :: string
  itReceiptID :: string
  itTransactionID :: string
  itReceipt :: jval

definition hexSum :: "bytes \<Rightarrow> string" where
  "hexSum digest = hexEncode digest"

definition archiveSum256 :: "aenv \<Rightarrow> bytes \<Rightarrow> string" where
  "archiveSum256 A b = hexSum (pSha256 (enPrims (aeEnv A)) b)"

definition archiveSum512 :: "aenv \<Rightarrow> bytes \<Rightarrow> string" where
  "archiveSum512 A b = hexSum (enSha512 (aeEnv A) b)"

definition archiveKey :: "aenv \<Rightarrow> uploadRow \<Rightarrow> string" where
  "archiveKey A u = ''archive/'' @ upOrgID u @ ''/'' @ aeMonth A @ ''/arc_'' @ enUUID (aeEnv A) ''item''"

definition archiveFinalize ::
  "aenv \<Rightarrow> ArchiveConfig \<Rightarrow> officeIdentity \<Rightarrow> uploadRow \<Rightarrow> string \<Rightarrow> string \<Rightarrow> archiveState \<Rightarrow>
     archiveState \<times> (finalize_error + archivedItem)" where
  "archiveFinalize A cfg me u sum256 sum512 st =
     (let en = aeEnv A; itemID = ''arc_'' @ enUUID en ''item''; txnID = ''txn_'' @ enUUID en ''transaction'';
          receiptID = newReceiptID A; key = archiveKey A u in
      if aeFault A ''open final'' \<or> asFiles st (upTempPath u) = None then (st, Inl OpenTemp)
      else case aePutStream A key (the (asFiles st (upTempPath u))) (upSize u) of
          None \<Rightarrow> (st, Inl StoreObject)
        | Some stored \<Rightarrow>
            let st1 = st\<lparr>asObjects := (asObjects st)(key \<mapsto> stored)\<rparr>;
                undo = (if aeFault A ''delete object'' then st1 else st\<lparr>asObjects := (asObjects st)(key := None)\<rparr>)
            in if aeFault A ''read back'' then (undo, Inl ReadBack)
               else if aeFault A ''read back copy'' \<or> int (length stored) \<noteq> upSize u \<or>
                       archiveSum256 A stored \<noteq> sum256 \<or> archiveSum512 A stored \<noteq> sum512
                 then (undo, Inl StoredMismatch)
               else
                 let orgName = (if aeFault A ''select office'' then [] else case map_of (dbOffices (asDB st)) (upOrgID u) of
                        None \<Rightarrow> [] | Some n \<Rightarrow> n);
                     manifest = archiveManifest A cfg me u orgName receiptID itemID txnID sum256 sum512
                 in if aeFault A ''begin'' then (undo, Inl (Database StatementFailed))
                    else case archiveRecord A me u itemID txnID receiptID key sum256 sum512 manifest (asDB st, asItems st) of
                        Inl e \<Rightarrow> (undo, Inl e)
                      | Inr ((db, items), receipt) \<Rightarrow>
                          if aeFault A ''commit'' then (undo, Inl (Database StatementFailed))
                          else (st1\<lparr>asDB := db, asItems := items\<rparr>,
                                Inr \<lparr>itItemID = itemID, itReceiptID = receiptID, itTransactionID = txnID, itReceipt = receipt\<rparr>))"

section \<open>Completing an upload\<close>

definition ledgerFor :: "aenv \<Rightarrow> bool \<Rightarrow> api_db \<Rightarrow> string \<Rightarrow> jval" where
  "ledgerFor A fabricEnabled db txnID =
     (let (queued, dead) = (if aeFault A ''ledger outbox'' then (0, 0) else (queuedCount db txnID, deadCount db txnID));
          committed = (if aeFault A ''ledger events'' then 0 else committedCount db txnID)
      in ledgerView fabricEnabled queued dead committed)"

definition receiptResponse :: "aenv \<Rightarrow> bool \<Rightarrow> api_db \<Rightarrow> archivedItem \<Rightarrow> jval" where
  "receiptResponse A fabricEnabled db it =
     JObj [(''receipt'', itReceipt it), (''receipt_id'', JStr (itReceiptID it)), (''item_id'', JStr (itItemID it)),
       (''verify_path'', JStr (''/app/#r='' @ itReceiptID it)), (''ledger'', ledgerFor A fabricEnabled db (itTransactionID it))]"

definition trimPrefix :: "string \<Rightarrow> string \<Rightarrow> string" where
  "trimPrefix s p = (if hasPrefix s p then drop (length p) s else s)"

text \<open>
  The client's hash is compared with hexadecimal digits, so lower-casing matters on ASCII letters only.
\<close>

definition clientHash :: "string \<Rightarrow> string" where
  "clientHash s = map toLowerAscii (trimPrefix (trimSpace s) ''sha256:'')"

definition archiveComplete ::
  "aenv \<Rightarrow> ArchiveConfig \<Rightarrow> bool \<Rightarrow> officeIdentity \<Rightarrow> string \<Rightarrow> string \<Rightarrow> archiveState \<Rightarrow> archiveState \<times> response" where
  "archiveComplete A cfg fabricEnabled me i clientSHA256 st0 =
     (let rt = uploadRTOf st0 i; st = st0\<lparr>asRT := (asRT st0)(i \<mapsto> rt)\<rparr> in
      case loadUpload A st i (oiID me) of
        Inl NoRows \<Rightarrow> (st, Fail 404 ''unggahan tidak ditemukan atau sudah selesai'')
      | Inl _ \<Rightarrow> (st, internalError)
      | Inr u \<Rightarrow>
          if upStatus u \<noteq> ''open'' then (st, Fail 404 ''unggahan tidak ditemukan atau sudah selesai'')
          else if upReceived u \<noteq> upSize u
            then (st, Done 409 (JObj [(''error'', JStr ''berkas belum diterima lengkap''),
                   (''offset'', JNum (fmt_d (upReceived u))), (''size'', JNum (fmt_d (upSize u)))]))
          else
            let (rt1, ok) = ensureHashes A rt (asFiles st (upTempPath u)) (upReceived u);
                st1 = st\<lparr>asRT := (asRT st)(i \<mapsto> rt1)\<rparr>
            in if \<not> ok then (st1, internalError)
               else
                 let sum256 = archiveSum256 A (the (rtHashed rt1)); sum512 = archiveSum512 A (the (rtHashed rt1));
                     client = clientHash clientSHA256
                 in if client = []
                      then (st1, Fail 400 ''client_sha256 wajib: hash SHA-256 berkas yang dihitung browser'')
                    else if client \<noteq> sum256
                      then (st1, Done 422 (JObj [(''error'',
                               JStr ''hash berkas di server berbeda dari yang dihitung browser; unggahan rusak di jalan, ulangi''),
                             (''server_sha256'', JStr sum256), (''client_sha256'', JStr client)]))
                    else case archiveFinalize A cfg me u sum256 sum512 st1 of
                        (st2, Inl e) \<Rightarrow>
                          (st2, Fail 500 ''gagal mengarsipkan berkas; tidak ada yang dicatat, silakan ulangi'')
                      | (st2, Inr item) \<Rightarrow>
                          let st3 = (if aeFault A ''complete upload'' then st2
                                else st2\<lparr>asUploads := AList.map_entry i
                                  (\<lambda>u. u\<lparr>upStatus := ''completed'', upUpdatedAt := enTime (aeEnv A)\<rparr>) (asUploads st2)\<rparr>);
                              st4 = (if aeFault A ''remove temp'' then st3
                                else st3\<lparr>asFiles := (asFiles st3)(upTempPath u := None)\<rparr>);
                              st5 = dropUploadRT i st4
                          in (st5, Done 201 (receiptResponse A fabricEnabled (asDB st5) item)))"

definition archiveReceipt :: "aenv \<Rightarrow> bool \<Rightarrow> officeIdentity \<Rightarrow> string \<Rightarrow> archiveState \<Rightarrow> response" where
  "archiveReceipt A fabricEnabled me receiptID st =
     (if aeFault A ''select receipt'' then internalError
      else case find (\<lambda>it. aiReceiptID it = receiptID) (asItems st) of
          None \<Rightarrow> Fail 404 ''bukti tidak ditemukan''
        | Some it \<Rightarrow>
            if aiSenderID it \<noteq> oiID me \<and> \<not> isAdmin me then Fail 404 ''bukti tidak ditemukan''
            else Done 200 (receiptResponse A fabricEnabled (asDB st)
              \<lparr>itItemID = aiID it, itReceiptID = aiReceiptID it, itTransactionID = aiTransactionID it, itReceipt = aiReceipt it\<rparr>))"

section \<open>Start-up\<close>

text \<open>
  The system office and the system identity; \<open>None\<close> for the configuration is an archive that is not
  enabled.  The result is the new state and whether the start succeeded.
\<close>

definition InitArchive :: "aenv \<Rightarrow> ArchiveConfig option \<Rightarrow> archiveState \<Rightarrow> archiveState \<times> bool" where
  "InitArchive A cfg st =
     (if cfg = None then (st, True)
      else if aeFault A ''temp dir'' \<or> aeFault A ''insert system office'' then (st, False)
      else
        let db = asDB st;
            db1 = (if map_of (dbOffices db) systemOrgID = None
                   then db\<lparr>dbOffices := dbOffices db @ [(systemOrgID, ''Pusat'')]\<rparr> else db)
        in if aeFault A ''insert system identity'' then (st\<lparr>asDB := db1\<rparr>, False)
           else
             let db2 = (if map_of (dbUsers db1) systemArchiveID = None
                        then db1\<lparr>dbUsers := dbUsers db1 @
                          [(systemArchiveID, \<lparr>urDisplayName = ''Sistem Arsip'', urRole = ''app_admin'', urEmail = []\<rparr>)]\<rparr>
                        else db1)
             in (st\<lparr>asDB := db2\<rparr>, enKeystore (aeEnv A) systemArchiveID \<noteq> None))"

end
