(* ===== verification/Archive_Uploads.thy ===== *)
theory Archive_Uploads
  imports Archive_Finalize
begin

text \<open>
  Runs of the archive server and what the upload sessions guarantee over them.  A run interleaves
  the upload handlers of all senders, the janitor, restarts (which lose the running hashes)
  and anything that leaves the upload state alone; it carries the chunks that were accepted,
  in order.  The invariant ties the scratch file, the
  received count and the running hash of every upload to those chunks.
\<close>

section \<open>Runs\<close>

definition accepted :: "(string \<times> bytes) list \<Rightarrow> string \<Rightarrow> bytes" where
  "accepted chunks i = concat (map snd (filter (\<lambda>(j, d). j = i) chunks))"

definition isOK :: "response \<Rightarrow> bool" where
  "isOK r = (case r of Done c _ \<Rightarrow> c = 200 | Fail _ _ \<Rightarrow> False)"

text \<open>A generated upload id is new.\<close>

definition freshUpload :: "aenv \<Rightarrow> archiveState \<Rightarrow> bool" where
  "freshUpload A st \<longleftrightarrow> map_of (asUploads st) (''upl_'' @ enUUID (aeEnv A) ''upload'') = None"

inductive archive_reach :: "ArchiveConfig \<Rightarrow> (string \<times> bytes) list \<Rightarrow> archiveState \<Rightarrow> bool" for cfg where
  start: "asUploads st = [] \<Longrightarrow> asRT st = Map.empty \<Longrightarrow> archive_reach cfg [] st"
| create: "archive_reach cfg chunks st \<Longrightarrow> freshUpload A st \<Longrightarrow> archiveCreateUpload A cfg me ip agent body st = (st', r) \<Longrightarrow>
    archive_reach cfg chunks st'"
| chunk: "archive_reach cfg chunks st \<Longrightarrow> archiveUploadChunk A me i hdr body st = (st', r) \<Longrightarrow>
    archive_reach cfg (if isOK r then chunks @ [(i, fst body)] else chunks) st'"
| complete: "archive_reach cfg chunks st \<Longrightarrow> archiveComplete A cfg fabricEnabled me i client st = (st', r) \<Longrightarrow>
    archive_reach cfg chunks st'"
| abort: "archive_reach cfg chunks st \<Longrightarrow> archiveAbort A me i st = (st', r) \<Longrightarrow> archive_reach cfg chunks st'"
| janitor: "archive_reach cfg chunks st \<Longrightarrow> archive_reach cfg chunks (RunArchiveJanitor A st)"
| restart: "archive_reach cfg chunks st \<Longrightarrow> archive_reach cfg chunks (st\<lparr>asRT := Map.empty\<rparr>)"
| other: "archive_reach cfg chunks st \<Longrightarrow> asUploads st' = asUploads st \<Longrightarrow> asFiles st' = asFiles st \<Longrightarrow>
    asRT st' = asRT st \<Longrightarrow> archive_reach cfg chunks st'"

definition tempPath :: "ArchiveConfig \<Rightarrow> string \<Rightarrow> string" where
  "tempPath cfg i = acTempDir cfg @ ''/'' @ i @ ''.part''"

definition upload_ok ::
  "ArchiveConfig \<Rightarrow> bytes \<Rightarrow> (string \<Rightarrow> bytes option) \<Rightarrow> uploadRT option \<Rightarrow> string \<Rightarrow> uploadRow \<Rightarrow> bool" where
  "upload_ok cfg acc files rt i u \<longleftrightarrow>
     upTempPath u = tempPath cfg i \<and> upReceived u = int (length acc) \<and> upReceived u \<le> upSize u \<and>
     (\<forall>f. files (upTempPath u) = Some f \<longrightarrow> length acc \<le> length f \<and> take (length acc) f = acc) \<and>
     (\<forall>r. rt = Some r \<longrightarrow> rtN r = upReceived u \<longrightarrow> rtHashed r \<in> {None, Some acc})"

definition uploads_inv :: "ArchiveConfig \<Rightarrow> (string \<times> bytes) list \<Rightarrow> archiveState \<Rightarrow> bool" where
  "uploads_inv cfg chunks st \<longleftrightarrow>
     (\<forall>i. case map_of (asUploads st) i of
        None \<Rightarrow> accepted chunks i = [] \<and> (\<forall>r. asRT st i = Some r \<longrightarrow> rtHashed r = None)
      | Some u \<Rightarrow> upload_ok cfg (accepted chunks i) (asFiles st) (asRT st i) i u)"

section \<open>The pieces of a chunk\<close>

lemma accepted_snoc [simp]: "accepted (chunks @ [(j, d)]) i = accepted chunks i @ (if j = i then d else [])"
  by (simp add: accepted_def)

lemma accepted_Nil [simp]: "accepted [] i = []"
  by (simp add: accepted_def)

lemma tempPath_inj [simp]: "tempPath cfg i = tempPath cfg j \<longleftrightarrow> i = j"
  by (simp add: tempPath_def)

lemma writeAt_end:
  assumes "off \<le> length f"
  shows "take (off + length b) (writeAt f off b) = take off f @ b" and "length (writeAt f off b) \<ge> off + length b"
  using assms by (simp_all add: writeAt_def)

lemma writeAt_before: "off \<le> length f \<Longrightarrow> take off (writeAt f off b) = take off f"
  by (simp add: writeAt_def)

lemma ensureHashes_True:
  assumes "ensureHashes A rt file (int (length acc)) = (rt', True)"
    and "\<And>b. rtHashed rt = Some b \<Longrightarrow> rtN rt = int (length acc) \<Longrightarrow> b = acc"
    and "\<And>f. file = Some f \<Longrightarrow> take (length acc) f = acc"
  shows "rtHashed rt' = Some acc" and "rtN rt' = int (length acc)"
  using assms by (auto simp: ensureHashes_def Let_def split: if_splits option.splits)

lemma ensureHashes_False: "ensureHashes A rt file n = (rt', False) \<Longrightarrow> rtHashed rt' = None"
  by (auto simp: ensureHashes_def Let_def split: if_splits option.splits)

lemma copyChunk_whole:
  assumes "copyChunk rem d br = (copied, False)" "int (length copied) \<le> rem"
  shows "copied = d"
proof -
  have c: "copied = take (nat (min (rem + 1) archiveMaxChunk)) d"
    and e: "\<not> (int (length d) > archiveMaxChunk \<and> rem + 1 > archiveMaxChunk)"
    using assms(1) by (auto simp: copyChunk_def Let_def)
  show ?thesis
  proof (cases "int (length d) \<le> min (rem + 1) archiveMaxChunk")
    case True
    then have "length d \<le> nat (min (rem + 1) archiveMaxChunk)" by linarith
    then show ?thesis by (simp add: c)
  next
    case False
    then have "nat (min (rem + 1) archiveMaxChunk) \<le> length d" by linarith
    then have "length copied = nat (min (rem + 1) archiveMaxChunk)" by (simp add: c)
    moreover have "rem + 1 \<le> archiveMaxChunk" using False e by linarith
    ultimately show ?thesis using assms(2) by (auto split: if_splits)
  qed
qed

lemma uploadRTOf_hashed: "rtHashed (uploadRTOf st i) = Some b \<Longrightarrow> asRT st i = Some (uploadRTOf st i)"
  by (simp add: uploadRTOf_def split: option.splits)

lemma loadUpload_Inr:
  "loadUpload A st i sender = Inr u \<longleftrightarrow> \<not> aeFault A ''load upload'' \<and> map_of (asUploads st) i = Some u \<and> upSenderID u = sender"
  by (auto simp: loadUpload_def stmt_def split: option.splits)

section \<open>Preservation\<close>

lemma uploads_invD:
  "uploads_inv cfg chunks st \<Longrightarrow> map_of (asUploads st) i = Some u \<Longrightarrow>
     upload_ok cfg (accepted chunks i) (asFiles st) (asRT st i) i u"
  unfolding uploads_inv_def by (erule allE [of _ i]) simp

lemma uploads_invN:
  "uploads_inv cfg chunks st \<Longrightarrow> map_of (asUploads st) i = None \<Longrightarrow>
     accepted chunks i = [] \<and> (\<forall>r. asRT st i = Some r \<longrightarrow> rtHashed r = None)"
  unfolding uploads_inv_def by (erule allE [of _ i]) simp

text \<open>A state that differs in files that are gone, hashes that are forgotten and statuses only.\<close>

lemma uploads_inv_weaken:
  assumes "uploads_inv cfg chunks st"
    and "\<And>i. map_of (asUploads st') i = None \<longleftrightarrow> map_of (asUploads st) i = None"
    and "\<And>i u'. map_of (asUploads st') i = Some u' \<Longrightarrow> \<exists>u. map_of (asUploads st) i = Some u \<and>
       upTempPath u' = upTempPath u \<and> upReceived u' = upReceived u \<and> upSize u' = upSize u"
    and "\<And>p. asFiles st' p = asFiles st p \<or> asFiles st' p = None"
    and "\<And>i r. asRT st' i = Some r \<Longrightarrow> asRT st i = Some r \<or> rtHashed r = None"
  shows "uploads_inv cfg chunks st'"
  unfolding uploads_inv_def
proof (intro allI)
  fix i
  show "case map_of (asUploads st') i of
      None \<Rightarrow> accepted chunks i = [] \<and> (\<forall>r. asRT st' i = Some r \<longrightarrow> rtHashed r = None)
    | Some u \<Rightarrow> upload_ok cfg (accepted chunks i) (asFiles st') (asRT st' i) i u"
  proof (cases "map_of (asUploads st') i")
    case None
    then have "map_of (asUploads st) i = None" using assms(2) by blast
    then have "accepted chunks i = [] \<and> (\<forall>r. asRT st i = Some r \<longrightarrow> rtHashed r = None)"
      by (rule uploads_invN [OF assms(1)])
    then show ?thesis using None assms(5) by fastforce
  next
    case (Some u')
    then obtain u where u: "map_of (asUploads st) i = Some u" "upTempPath u' = upTempPath u"
      "upReceived u' = upReceived u" "upSize u' = upSize u" using assms(3) by blast
    have "asFiles st (upTempPath u) = Some f" if "asFiles st' (upTempPath u) = Some f" for f
      using that assms(4) [of "upTempPath u"] by simp
    moreover note assms(5) [of i] uploads_invD [OF assms(1) u(1)]
    ultimately have "upload_ok cfg (accepted chunks i) (asFiles st') (asRT st' i) i u'"
      unfolding upload_ok_def u(2-4) by blast
    then show ?thesis using Some by simp
  qed
qed

lemma map_entry_kept:
  "map_of (AList.map_entry i g xs) j = Some u' \<Longrightarrow> (\<And>u. P (g u) u) \<Longrightarrow> (\<And>u. P u u) \<Longrightarrow>
     \<exists>u. map_of xs j = Some u \<and> P u' u"
  by (auto simp: AList.map_of_map_entry split: if_splits option.splits)

lemma map_entry_None: "map_of (AList.map_entry i g xs) j = None \<longleftrightarrow> map_of xs j = None"
  by (auto simp: AList.map_of_map_entry split: option.splits)

lemma fold_forget: "fold (\<lambda>x m. if c x then m else m(g x := None)) xs m p \<in> {m p, None}"
proof (induction xs arbitrary: m)
  case (Cons x xs)
  have "(if c x then m else m(g x := None)) p \<in> {m p, None}" by simp
  then show ?case using Cons [of "if c x then m else m(g x := None)"] by auto
qed simp

lemma map_of_map_snd: "map_of (map (\<lambda>(i, u). (i, g u)) xs) i = map_option g (map_of xs i)"
  by (induction xs) auto

lemma janitor_inv:
  assumes "uploads_inv cfg chunks st"
  shows "uploads_inv cfg chunks (RunArchiveJanitor A st)"
proof (cases "aeFault A ''janitor''")
  case False
  let ?stale = "filter (\<lambda>(i, u). staleUpload A u) (asUploads st)"
  let ?mark = "\<lambda>u. if staleUpload A u then u\<lparr>upStatus := ''aborted''\<rparr> else u"
  have eq: "RunArchiveJanitor A st =
      st\<lparr>asUploads := map (\<lambda>(i, u). (i, ?mark u)) (asUploads st),
         asFiles := fold (\<lambda>x m. if aeFault A (''remove temp '' @ fst x) then m else m(upTempPath (snd x) := None)) ?stale (asFiles st),
         asRT := fold (\<lambda>x m. m(fst x := None)) ?stale (asRT st)\<rparr>"
    using False by (simp add: RunArchiveJanitor_def Let_def case_prod_unfold)
  have f: "fold (\<lambda>x m. if aeFault A (''remove temp '' @ fst x) then m else m(upTempPath (snd x) := None)) ?stale (asFiles st) p
      \<in> {asFiles st p, None}" for p
    by (rule fold_forget)
  have r: "fold (\<lambda>x m. m(fst x := None)) ?stale (asRT st) i \<in> {asRT st i, None}" for i
    using fold_forget [of "\<lambda>_. False" fst ?stale "asRT st" i] by simp
  show ?thesis
  proof (rule uploads_inv_weaken [OF assms])
    fix j rt
    assume "asRT (RunArchiveJanitor A st) j = Some rt"
    then show "asRT st j = Some rt \<or> rtHashed rt = None" using r [of j] by (simp add: eq)
  next
    fix q
    show "asFiles (RunArchiveJanitor A st) q = asFiles st q \<or> asFiles (RunArchiveJanitor A st) q = None"
      using f [of q] by (simp add: eq)
  qed (auto simp: eq map_of_map_snd)
qed (use assms in \<open>simp add: RunArchiveJanitor_def\<close>)

lemma abort_inv:
  assumes "uploads_inv cfg chunks st" "archiveAbort A me i st = (st', r)"
  shows "uploads_inv cfg chunks st'"
  by (rule uploads_inv_weaken [OF assms(1)])
    (use assms(2) in \<open>auto simp: archiveAbort_def dropUploadRT_def Let_def AList.map_of_map_entry
      split: sum.splits if_splits option.splits\<close>)

lemmas fst_distrib = if_distrib [of fst] option.case_distrib [of fst] prod.case_distrib [of fst] sum.case_distrib [of fst]

lemma create_state:
  assumes "archiveCreateUpload A cfg me ip agent body st = (st', r)"
  defines "i \<equiv> ''upl_'' @ enUUID (aeEnv A) ''upload''"
  shows "st' = st \<or> asUploads st' = asUploads st \<and> asRT st' = asRT st \<and> asFiles st' = (asFiles st)(tempPath cfg i \<mapsto> []) \<or>
    (\<exists>u. asUploads st' = asUploads st @ [(i, u)] \<and> asRT st' = asRT st \<and> asFiles st' = (asFiles st)(tempPath cfg i \<mapsto> []) \<and>
       upTempPath u = tempPath cfg i \<and> upReceived u = 0 \<and> 0 \<le> upSize u)"
    (is "?A \<or> ?B \<or> ?C")
proof -
  have st': "st' = fst (archiveCreateUpload A cfg me ip agent body st)" using assms(1) by simp
  let ?u = "snd (last (asUploads st'))"
  have "?A \<or> ?B \<or> asUploads st' = asUploads st @ [(i, ?u)] \<and> asRT st' = asRT st \<and>
      asFiles st' = (asFiles st)(tempPath cfg i \<mapsto> []) \<and> upTempPath ?u = tempPath cfg i \<and> upReceived ?u = 0 \<and> 0 \<le> upSize ?u"
    unfolding st' archiveCreateUpload_def Let_def i_def [symmetric] fst_distrib fst_conv tempPath_def [symmetric]
    by (simp split: option.split)
  then show ?thesis by blast
qed

lemma upload_ok_other:
  "upload_ok cfg acc files rt j v \<Longrightarrow> j \<noteq> i \<Longrightarrow> upload_ok cfg acc (files(tempPath cfg i := x)) rt j v"
  by (simp add: upload_ok_def)

lemma uploads_invI:
  assumes "\<And>i. map_of (asUploads st) i = None \<Longrightarrow> accepted chunks i = [] \<and> (\<forall>r. asRT st i = Some r \<longrightarrow> rtHashed r = None)"
    and "\<And>i u. map_of (asUploads st) i = Some u \<Longrightarrow> upload_ok cfg (accepted chunks i) (asFiles st) (asRT st i) i u"
  shows "uploads_inv cfg chunks st"
  using assms by (simp add: uploads_inv_def split: option.split)

lemma create_inv:
  assumes "uploads_inv cfg chunks st" "archiveCreateUpload A cfg me ip agent body st = (st', r)" "freshUpload A st"
  shows "uploads_inv cfg chunks st'"
proof -
  define i where "i = ''upl_'' @ enUUID (aeEnv A) ''upload''"
  have new: "map_of (asUploads st) i = None" using assms(3) by (simp add: i_def freshUpload_def)
  consider "st' = st"
    | "asUploads st' = asUploads st" "asRT st' = asRT st" "asFiles st' = (asFiles st)(tempPath cfg i \<mapsto> [])"
    | u where "asUploads st' = asUploads st @ [(i, u)]" "asRT st' = asRT st"
        "asFiles st' = (asFiles st)(tempPath cfg i \<mapsto> [])" "upTempPath u = tempPath cfg i" "upReceived u = 0" "0 \<le> upSize u"
    using create_state [OF assms(2), folded i_def] by blast
  then show ?thesis
  proof cases
    case 1
    then show ?thesis using assms(1) by simp
  next
    case 2
    have "upload_ok cfg (accepted chunks j) (asFiles st') (asRT st' j) j v" if "map_of (asUploads st) j = Some v" for j v
      unfolding 2 by (rule upload_ok_other [OF uploads_invD [OF assms(1) that]]) (use new that in auto)
    then show ?thesis using uploads_invN [OF assms(1)] 2 by (intro uploads_invI) simp_all
  next
    case (3 u)
    have "upload_ok cfg (accepted chunks j) (asFiles st') (asRT st' j) j v" if "map_of (asUploads st) j = Some v" for j v
      unfolding 3 by (rule upload_ok_other [OF uploads_invD [OF assms(1) that]]) (use new that in auto)
    moreover have "upload_ok cfg (accepted chunks i) (asFiles st') (asRT st' i) i u"
      using uploads_invN [OF assms(1) new] 3 by (auto simp: upload_ok_def)
    ultimately show ?thesis
      using uploads_invN [OF assms(1)] 3(1,2) new
      by (intro uploads_invI) (auto simp: map_add_Some_iff split: if_splits)
  qed
qed

lemma uploads_inv_cong:
  "uploads_inv cfg chunks st \<Longrightarrow> asUploads st' = asUploads st \<Longrightarrow> asFiles st' = asFiles st \<Longrightarrow> asRT st' = asRT st \<Longrightarrow>
     uploads_inv cfg chunks st'"
  by (intro uploads_invI) (auto dest: uploads_invN uploads_invD)

text \<open>
  Entering the handler registers the hash state, and bringing it in step with the file keeps the invariant.
\<close>

lemma rt_entry_inv:
  assumes "uploads_inv cfg chunks st"
  shows "uploads_inv cfg chunks (st\<lparr>asRT := (asRT st)(i \<mapsto> uploadRTOf st i)\<rparr>)"
  by (rule uploads_inv_weaken [OF assms]) (auto simp: uploadRTOf_def split: if_splits option.splits)

lemma upload_ok_rt:
  "upload_ok cfg acc files rt i u \<Longrightarrow> rtHashed r \<in> {None, Some acc} \<Longrightarrow> upload_ok cfg acc files (Some r) i u"
  by (simp add: upload_ok_def)

text \<open>A step that touches one upload: its row, its file, its hash state and its accepted chunks.\<close>

lemma uploads_inv_update:
  assumes "uploads_inv cfg chunks st" "map_of (asUploads st) i = Some u"
    and "map_of (asUploads st') = (map_of (asUploads st))(i \<mapsto> u')" "asFiles st' = (asFiles st)(tempPath cfg i := x)"
    and "asRT st' = (asRT st)(i := y)" "\<And>j. j \<noteq> i \<Longrightarrow> accepted chunks' j = accepted chunks j"
    and "upload_ok cfg (accepted chunks' i) (asFiles st') y i u'"
  shows "uploads_inv cfg chunks' st'"
proof (rule uploads_invI)
  fix j
  assume n: "map_of (asUploads st') j = None"
  then have "j \<noteq> i" "map_of (asUploads st) j = None" using assms(3) by (auto split: if_splits)
  then show "accepted chunks' j = [] \<and> (\<forall>r. asRT st' j = Some r \<longrightarrow> rtHashed r = None)"
    using uploads_invN [OF assms(1)] assms(5,6) by simp
next
  fix j v
  assume v: "map_of (asUploads st') j = Some v"
  show "upload_ok cfg (accepted chunks' j) (asFiles st') (asRT st' j) j v"
  proof (cases "j = i")
    case True
    then show ?thesis using v assms(3,5,7) by simp
  next
    case False
    then have "upload_ok cfg (accepted chunks j) (asFiles st) (asRT st j) j v"
      using v assms(3) by (intro uploads_invD [OF assms(1)]) simp
    from upload_ok_other [OF this False] show ?thesis using assms(4-6) False by simp
  qed
qed

lemma ensureHashes_step:
  assumes "uploads_inv cfg chunks st" "map_of (asUploads st) i = Some u"
    and "ensureHashes A (uploadRTOf st i) (asFiles st (upTempPath u)) (upReceived u) = (rt1, ok)"
  shows "uploads_inv cfg chunks (st\<lparr>asRT := (asRT st)(i \<mapsto> rt1)\<rparr>)"
    and "ok \<Longrightarrow> rtHashed rt1 = Some (accepted chunks i)"
proof -
  note u = uploads_invD [OF assms(1,2), unfolded upload_ok_def]
  have h: "rtHashed rt1 = Some (accepted chunks i)" if ok
  proof -
    have e: "ensureHashes A (uploadRTOf st i) (asFiles st (upTempPath u)) (int (length (accepted chunks i))) = (rt1, True)"
      using assms(3) u that by simp
    have "b = accepted chunks i"
      if "rtHashed (uploadRTOf st i) = Some b" "rtN (uploadRTOf st i) = int (length (accepted chunks i))" for b
      using u uploadRTOf_hashed [OF that(1)] that by auto
    moreover have "take (length (accepted chunks i)) f = accepted chunks i" if "asFiles st (upTempPath u) = Some f" for f
      using u that by blast
    ultimately show "rtHashed rt1 = Some (accepted chunks i)" using ensureHashes_True(1) [OF e] by blast
  qed
  show "ok \<Longrightarrow> rtHashed rt1 = Some (accepted chunks i)" by (rule h)
  have "ok \<or> rtHashed rt1 = None" using assms(3) ensureHashes_False by (cases ok) auto
  then have "rtHashed rt1 \<in> {None, Some (accepted chunks i)}" using h by blast
  then have "upload_ok cfg (accepted chunks i) (asFiles st) (Some rt1) i u"
    by (rule upload_ok_rt [OF uploads_invD [OF assms(1,2)]])
  then show "uploads_inv cfg chunks (st\<lparr>asRT := (asRT st)(i \<mapsto> rt1)\<rparr>)"
    by (intro uploads_inv_update [OF assms(1,2), where u' = u and y = "Some rt1" and x = "asFiles st (upTempPath u)"])
      (use assms(2) uploads_invD [OF assms(1,2)] in \<open>auto simp: upload_ok_def\<close>)
qed

section \<open>What a chunk request does\<close>

text \<open>
  The outcomes: nothing but the hash state changed, the file was rolled back to the received prefix, or the whole
  body was appended and counted.
\<close>

lemma chunk_cases:
  assumes "archiveUploadChunk A me i hdr body st0 = (st', r)"
  defines "st \<equiv> st0\<lparr>asRT := (asRT st0)(i \<mapsto> uploadRTOf st0 i)\<rparr>"
  obtains (kept) "st' = st" "\<not> isOK r"
  | (hashes) u rt1 ok where "map_of (asUploads st) i = Some u"
      "ensureHashes A (uploadRTOf st0 i) (asFiles st (upTempPath u)) (upReceived u) = (rt1, ok)"
      "st' = st\<lparr>asRT := (asRT st)(i \<mapsto> rt1)\<rparr>" "\<not> isOK r"
  | (rolled) u rt1 f f1 copied where "map_of (asUploads st) i = Some u"
      "ensureHashes A (uploadRTOf st0 i) (asFiles st (upTempPath u)) (upReceived u) = (rt1, True)"
      "asFiles st (upTempPath u) = Some f" "f1 \<in> {f, writeAt f (nat (upReceived u)) copied}"
      "st' = st\<lparr>asFiles := (asFiles st)(upTempPath u \<mapsto> if aeFault A ''truncate'' then f1 else take (nat (upReceived u)) f1),
         asRT := (asRT st)(i \<mapsto> \<lparr>rtN = 0, rtHashed = None\<rparr>)\<rparr>" "\<not> isOK r"
  | (appended) u rt1 f where "map_of (asUploads st) i = Some u" "upSenderID u = oiID me" "upStatus u = ''open''"
      "parseInt hdr = Some (upReceived u)"
      "ensureHashes A (uploadRTOf st0 i) (asFiles st (upTempPath u)) (upReceived u) = (rt1, True)"
      "asFiles st (upTempPath u) = Some f" "upReceived u + int (length (fst body)) \<le> upSize u"
      "st' = st\<lparr>asFiles := (asFiles st)(upTempPath u \<mapsto> writeAt f (nat (upReceived u)) (fst body)),
         asRT := (asRT st)(i \<mapsto> \<lparr>rtN = upReceived u + int (length (fst body)),
           rtHashed = map_option (\<lambda>b. b @ fst body) (rtHashed rt1)\<rparr>),
         asUploads := AList.map_entry i (\<lambda>v. v\<lparr>upReceived := upReceived u + int (length (fst body)),
           upUpdatedAt := enTime (aeEnv A)\<rparr>) (asUploads st)\<rparr>" "isOK r"
proof -
  note def = assms(1) [unfolded archiveUploadChunk_def Let_def, folded st_def]
  show thesis
  proof (cases "loadUpload A st i (oiID me)")
    case (Inl e)
    then show thesis using def by (cases e) (auto intro!: kept simp: isOK_def internalError_def)
  next
    case (Inr u)
    then have u: "map_of (asUploads st) i = Some u" "upSenderID u = oiID me" by (simp_all add: loadUpload_Inr)
    show thesis
    proof (cases "upStatus u = ''open'' \<and> parseInt hdr = Some (upReceived u) \<and> 0 \<le> upReceived u")
      case False
      then show thesis using def Inr
        by (auto intro!: kept simp: isOK_def split: option.splits if_splits)
    next
      case True
      obtain rt1 ok where e: "ensureHashes A (uploadRTOf st0 i) (asFiles st (upTempPath u)) (upReceived u) = (rt1, ok)"
        by fastforce
      obtain copied cerr where c: "copyChunk (upSize u - upReceived u) (fst body) (snd body) = (copied, cerr)" by fastforce
      show thesis
      proof (cases "asFiles st (upTempPath u) = None \<or> \<not> ok \<or> aeFault A ''open temp''")
        case True': True
        then have "st' = st\<lparr>asRT := (asRT st)(i \<mapsto> rt1)\<rparr> \<and> \<not> isOK r"
          using def Inr True e by (auto simp: isOK_def internalError_def split: if_splits option.splits)
        then show thesis using hashes [OF u(1) e] by blast
      next
        case False
        then obtain f where f: "asFiles st (upTempPath u) = Some f" and ok: "ok" and "ok = True" by auto
        let ?off = "nat (upReceived u)"
        let ?f1 = "if aeFault A ''write chunk'' then f else writeAt f ?off copied"
        show thesis
        proof (cases "cerr \<or> aeFault A ''write chunk'' \<or> int (length copied) > upSize u - upReceived u \<or> aeFault A ''update upload''")
          case True': True
          have "st' = st\<lparr>asFiles := (asFiles st)(upTempPath u \<mapsto> if aeFault A ''truncate'' then ?f1 else take ?off ?f1),
              asRT := (asRT st)(i \<mapsto> \<lparr>rtN = 0, rtHashed = None\<rparr>)\<rparr> \<and> \<not> isOK r"
            using def Inr True True' False e f ok c by (auto simp: isOK_def internalError_def split: if_splits)
          then show thesis using rolled [OF u(1) _ f, of rt1 ?f1 copied] e ok by auto
        next
          case False': False
          then have "copied = fst body" using copyChunk_whole [of "upSize u - upReceived u" "fst body" "snd body" copied] c by simp
          then have "st' = st\<lparr>asFiles := (asFiles st)(upTempPath u \<mapsto> writeAt f ?off (fst body)),
              asRT := (asRT st)(i \<mapsto> \<lparr>rtN = upReceived u + int (length (fst body)),
                rtHashed = map_option (\<lambda>b. b @ fst body) (rtHashed rt1)\<rparr>),
              asUploads := AList.map_entry i (\<lambda>v. v\<lparr>upReceived := upReceived u + int (length (fst body)),
                upUpdatedAt := enTime (aeEnv A)\<rparr>) (asUploads st)\<rparr> \<and> isOK r"
            using def Inr True False' False e f ok c by (auto simp: isOK_def)
          moreover have "upReceived u + int (length (fst body)) \<le> upSize u"
            using False' \<open>copied = fst body\<close> by simp
          ultimately show thesis using appended [OF u] True e [unfolded \<open>ok = True\<close>] f by blast
        qed
      qed
    qed
  qed
qed

lemma uploadRTOf_entry: "uploadRTOf (st\<lparr>asRT := (asRT st)(i \<mapsto> uploadRTOf st i)\<rparr>) i = uploadRTOf st i"
  by (simp add: uploadRTOf_def)

lemma chunk_inv:
  assumes "uploads_inv cfg chunks st0" "archiveUploadChunk A me i hdr body st0 = (st', r)"
  shows "uploads_inv cfg (if isOK r then chunks @ [(i, fst body)] else chunks) st'"
proof -
  define st where "st = st0\<lparr>asRT := (asRT st0)(i \<mapsto> uploadRTOf st0 i)\<rparr>"
  have inv: "uploads_inv cfg chunks st" unfolding st_def by (rule rt_entry_inv [OF assms(1)])
  have rt: "uploadRTOf st i = uploadRTOf st0 i" unfolding st_def by (rule uploadRTOf_entry)
  let ?acc = "accepted chunks i"
  from assms(2) show ?thesis
  proof (cases rule: chunk_cases)
    case kept
    then show ?thesis using inv by (simp add: st_def)
  next
    case (hashes u rt1 ok)
    note hashes = hashes [folded st_def]
    then show ?thesis using ensureHashes_step(1) [OF inv hashes(1), of A rt1 ok] rt by simp
  next
    case (rolled u rt1 f f1 copied)
    note rolled = rolled [folded st_def]
    note u = uploads_invD [OF inv rolled(1), unfolded upload_ok_def]
    have f: "length ?acc \<le> length f" "take (length ?acc) f = ?acc" using u rolled(3) by blast+
    let ?f2 = "if aeFault A ''truncate'' then f1 else take (nat (upReceived u)) f1"
    have n: "nat (upReceived u) = length ?acc" using u by simp
    have f2: "length ?acc \<le> length ?f2 \<and> take (length ?acc) ?f2 = ?acc"
      using rolled(4) f writeAt_before [OF f(1)] writeAt_end(2) [OF f(1), of copied] unfolding n by auto
    have "uploads_inv cfg chunks st'"
      by (rule uploads_inv_update [OF inv rolled(1), where u' = u and x = "Some ?f2" and y = "Some \<lparr>rtN = 0, rtHashed = None\<rparr>"])
        (use rolled(1,5) u f2 in \<open>auto simp: upload_ok_def\<close>)
    then show ?thesis using rolled(6) by simp
  next
    case (appended u rt1 f)
    note appended = appended [folded st_def]
    note u = uploads_invD [OF inv appended(1), unfolded upload_ok_def]
    have f: "length ?acc \<le> length f" "take (length ?acc) f = ?acc" using u appended(6) by blast+
    have n: "nat (upReceived u) = length ?acc" using u by simp
    have h: "rtHashed rt1 = Some ?acc" using ensureHashes_step(2) [OF inv appended(1), of A rt1 True] appended(5) rt by simp
    have f2: "length ?acc + length (fst body) \<le> length (writeAt f (length ?acc) (fst body)) \<and>
        take (length ?acc + length (fst body)) (writeAt f (length ?acc) (fst body)) = ?acc @ fst body"
      using writeAt_end [OF f(1), of "fst body"] f(2) by simp
    have "uploads_inv cfg (chunks @ [(i, fst body)]) st'"
    proof (rule uploads_inv_update [OF inv appended(1)])
      show "map_of (asUploads st') = (map_of (asUploads st))(i \<mapsto>
          u\<lparr>upReceived := upReceived u + int (length (fst body)), upUpdatedAt := enTime (aeEnv A)\<rparr>)"
        by (simp add: appended(8) AList.map_of_map_entry appended(1))
      show "asFiles st' = (asFiles st)(tempPath cfg i := Some (writeAt f (nat (upReceived u)) (fst body)))"
        using u by (simp add: appended(8))
      show "asRT st' = (asRT st)(i := Some \<lparr>rtN = upReceived u + int (length (fst body)), rtHashed = Some (?acc @ fst body)\<rparr>)"
        by (simp add: appended(8) h)
      show "upload_ok cfg (accepted (chunks @ [(i, fst body)]) i) (asFiles st')
          (Some \<lparr>rtN = upReceived u + int (length (fst body)), rtHashed = Some (?acc @ fst body)\<rparr>) i
          (u\<lparr>upReceived := upReceived u + int (length (fst body)), upUpdatedAt := enTime (aeEnv A)\<rparr>)"
        using u appended(7) f2 unfolding upload_ok_def by (simp add: appended(8) n)
    qed simp
    then show ?thesis using appended(9) by simp
  qed
qed

section \<open>Completion\<close>

lemma finalize_frame:
  assumes "archiveFinalize A cfg me u sum256 sum512 st = (st', res)"
  shows "asUploads st' = asUploads st" "asFiles st' = asFiles st" "asRT st' = asRT st"
  using assms by (auto simp: archiveFinalize_def Let_def split: if_splits option.splits sum.splits)

text \<open>What a completion that archives the upload has checked, and the state it leaves.\<close>

definition archivedState :: "aenv \<Rightarrow> string \<Rightarrow> uploadRow \<Rightarrow> archiveState \<Rightarrow> archiveState" where
  "archivedState A i u st2 =
     (let st3 = (if aeFault A ''complete upload'' then st2
            else st2\<lparr>asUploads := AList.map_entry i
              (\<lambda>u. u\<lparr>upStatus := ''completed'', upUpdatedAt := enTime (aeEnv A)\<rparr>) (asUploads st2)\<rparr>);
          st4 = (if aeFault A ''remove temp'' then st3 else st3\<lparr>asFiles := (asFiles st3)(upTempPath u := None)\<rparr>)
      in dropUploadRT i st4)"

lemma complete_cases:
  assumes "archiveComplete A cfg fabricEnabled me i client st0 = (st', r)"
  defines "st \<equiv> st0\<lparr>asRT := (asRT st0)(i \<mapsto> uploadRTOf st0 i)\<rparr>"
  obtains (kept) "st' = st" "\<And>v. r \<noteq> Done 201 v"
  | (hashes) u rt1 ok where "map_of (asUploads st) i = Some u"
      "ensureHashes A (uploadRTOf st0 i) (asFiles st (upTempPath u)) (upReceived u) = (rt1, ok)"
      "st' = st\<lparr>asRT := (asRT st)(i \<mapsto> rt1)\<rparr>" "\<And>v. r \<noteq> Done 201 v"
  | (failed) u rt1 e where "map_of (asUploads st) i = Some u"
      "ensureHashes A (uploadRTOf st0 i) (asFiles st (upTempPath u)) (upReceived u) = (rt1, True)"
      "archiveFinalize A cfg me u (archiveSum256 A (the (rtHashed rt1))) (archiveSum512 A (the (rtHashed rt1)))
         (st\<lparr>asRT := (asRT st)(i \<mapsto> rt1)\<rparr>) = (st', Inl e)" "\<And>v. r \<noteq> Done 201 v"
  | (archived) u rt1 st2 item where "map_of (asUploads st) i = Some u" "upSenderID u = oiID me" "upStatus u = ''open''"
      "upReceived u = upSize u"
      "ensureHashes A (uploadRTOf st0 i) (asFiles st (upTempPath u)) (upReceived u) = (rt1, True)"
      "clientHash client = archiveSum256 A (the (rtHashed rt1))"
      "archiveFinalize A cfg me u (archiveSum256 A (the (rtHashed rt1))) (archiveSum512 A (the (rtHashed rt1)))
         (st\<lparr>asRT := (asRT st)(i \<mapsto> rt1)\<rparr>) = (st2, Inr item)"
      "st' = archivedState A i u st2" "r = Done 201 (receiptResponse A fabricEnabled (asDB st') item)"
proof -
  note def = assms(1) [unfolded archiveComplete_def Let_def, folded st_def]
  show thesis
  proof (cases "loadUpload A st i (oiID me)")
    case (Inl e)
    then show thesis using def by (cases e) (auto intro!: kept simp: internalError_def)
  next
    case (Inr u)
    then have u: "map_of (asUploads st) i = Some u" "upSenderID u = oiID me" by (simp_all add: loadUpload_Inr)
    show thesis
    proof (cases "upStatus u = ''open'' \<and> upReceived u = upSize u")
      case False
      then show thesis using def Inr by (auto intro!: kept split: if_splits)
    next
      case True
      obtain rt1 ok where e: "ensureHashes A (uploadRTOf st0 i) (asFiles st (upTempPath u)) (upReceived u) = (rt1, ok)"
        by fastforce
      show thesis
      proof (cases "ok \<and> clientHash client = archiveSum256 A (the (rtHashed rt1)) \<and> clientHash client \<noteq> []")
        case False
        then have "st' = st\<lparr>asRT := (asRT st)(i \<mapsto> rt1)\<rparr> \<and> (\<forall>v. r \<noteq> Done 201 v)"
          using def Inr True e by (auto simp: internalError_def split: if_splits)
        then show thesis using hashes [OF u(1) e] by blast
      next
        case ok: True
        then have e': "ensureHashes A (uploadRTOf st0 i) (asFiles st (upTempPath u)) (upReceived u) = (rt1, True)"
          using e by simp
        obtain st2 res where f: "archiveFinalize A cfg me u (archiveSum256 A (the (rtHashed rt1)))
            (archiveSum512 A (the (rtHashed rt1))) (st\<lparr>asRT := (asRT st)(i \<mapsto> rt1)\<rparr>) = (st2, res)" by fastforce
        show thesis
        proof (cases res)
          case (Inl err)
          then have "st' = st2 \<and> (\<forall>v. r \<noteq> Done 201 v)" using def Inr True ok e' f by auto
          then show thesis using failed [OF u(1) e'] f Inl by blast
        next
          case (Inr item)
          then have "st' = archivedState A i u st2 \<and> r = Done 201 (receiptResponse A fabricEnabled (asDB st') item)"
            using def \<open>loadUpload A st i (oiID me) = Inr u\<close> True ok e' f
            by (auto simp: archivedState_def Let_def)
          then show thesis using archived [OF u _ _ e'] True ok f Inr by blast
        qed
      qed
    qed
  qed
qed

lemma archivedState_fields [simp]:
  "asDB (archivedState A i u st) = asDB st" "asItems (archivedState A i u st) = asItems st"
  "asObjects (archivedState A i u st) = asObjects st"
  by (simp_all add: archivedState_def dropUploadRT_def Let_def)

lemma archivedState_inv:
  assumes "uploads_inv cfg chunks st"
  shows "uploads_inv cfg chunks (archivedState A i u st)"
  by (rule uploads_inv_weaken [OF assms])
    (auto simp: archivedState_def dropUploadRT_def Let_def AList.map_of_map_entry split: if_splits option.splits)

lemma complete_inv:
  assumes "uploads_inv cfg chunks st0" "archiveComplete A cfg fabricEnabled me i client st0 = (st', r)"
  shows "uploads_inv cfg chunks st'"
proof -
  define st where "st = st0\<lparr>asRT := (asRT st0)(i \<mapsto> uploadRTOf st0 i)\<rparr>"
  have inv: "uploads_inv cfg chunks st" unfolding st_def by (rule rt_entry_inv [OF assms(1)])
  have rt: "uploadRTOf st i = uploadRTOf st0 i" unfolding st_def by (rule uploadRTOf_entry)
  from assms(2) show ?thesis
  proof (cases rule: complete_cases)
    case kept
    then show ?thesis using inv by (simp add: st_def)
  next
    case (hashes u rt1 ok)
    note hashes = hashes [folded st_def]
    then show ?thesis using ensureHashes_step(1) [OF inv hashes(1), of A rt1 ok] rt by simp
  next
    case (failed u rt1 e)
    note failed = failed [folded st_def]
    then have "uploads_inv cfg chunks (st\<lparr>asRT := (asRT st)(i \<mapsto> rt1)\<rparr>)"
      using ensureHashes_step(1) [OF inv failed(1), of A rt1 True] rt by simp
    then show ?thesis by (rule uploads_inv_cong) (use finalize_frame [OF failed(3)] in simp_all)
  next
    case (archived u rt1 st2 item)
    note archived = archived [folded st_def]
    then have "uploads_inv cfg chunks (st\<lparr>asRT := (asRT st)(i \<mapsto> rt1)\<rparr>)"
      using ensureHashes_step(1) [OF inv archived(1), of A rt1 True] rt by simp
    then have "uploads_inv cfg chunks st2" by (rule uploads_inv_cong) (use finalize_frame [OF archived(7)] in simp_all)
    then show ?thesis unfolding archived(8) by (rule archivedState_inv)
  qed
qed

theorem archive_reach_inv: "archive_reach cfg chunks st \<Longrightarrow> uploads_inv cfg chunks st"
proof (induction rule: archive_reach.induct)
  case (start st)
  then show ?case by (intro uploads_invI) simp_all
next
  case (restart chunks st)
  then show ?case by (auto intro: uploads_inv_weaken)
qed (blast intro: create_inv chunk_inv complete_inv abort_inv janitor_inv uploads_inv_cong)+

section \<open>What finalisation has checked\<close>

lemma finalize_Inr:
  assumes "archiveFinalize A cfg me u sum256 sum512 st = (st', Inr item)"
  obtains f stored orgName receipt where "asFiles st (upTempPath u) = Some f"
    "aePutStream A (archiveKey A u) f (upSize u) = Some stored"
    "int (length stored) = upSize u" "archiveSum256 A stored = sum256" "archiveSum512 A stored = sum512"
    "archiveRecord A me u (''arc_'' @ enUUID (aeEnv A) ''item'') (''txn_'' @ enUUID (aeEnv A) ''transaction'') (newReceiptID A)
       (archiveKey A u) sum256 sum512
       (archiveManifest A cfg me u orgName (newReceiptID A) (''arc_'' @ enUUID (aeEnv A) ''item'')
          (''txn_'' @ enUUID (aeEnv A) ''transaction'') sum256 sum512)
       (asDB st, asItems st) = Inr ((asDB st', asItems st'), receipt)"
    "asObjects st' = (asObjects st)(archiveKey A u \<mapsto> stored)"
    "item = \<lparr>itItemID = ''arc_'' @ enUUID (aeEnv A) ''item'', itReceiptID = newReceiptID A,
       itTransactionID = ''txn_'' @ enUUID (aeEnv A) ''transaction'', itReceipt = receipt\<rparr>"
  using assms by (auto simp: archiveFinalize_def Let_def split: if_split_asm option.split_asm sum.split_asm)

lemma finalize_Inl:
  assumes "archiveFinalize A cfg me u sum256 sum512 st = (st', Inl e)"
  shows "asDB st' = asDB st" "asItems st' = asItems st" "k \<noteq> archiveKey A u \<Longrightarrow> asObjects st' k = asObjects st k"
    "\<not> aeFault A ''delete object'' \<Longrightarrow> asObjects st' (archiveKey A u) \<in> {asObjects st (archiveKey A u), None}"
  using assms by (auto simp: archiveFinalize_def Let_def split: if_split_asm option.split_asm sum.split_asm)

lemma record_item:
  assumes "archiveRecord A me u itemID txnID receiptID key sum256 sum512 manifest (db, items) = Inr ((db', items'), receipt)"
  obtains it where "items' = items @ [it]" "aiID it = itemID" "aiReceiptID it = receiptID" "aiTransactionID it = txnID"
    "aiSenderID it = oiID me" "aiOrgID it = upOrgID u" "aiSize it = upSize u" "aiSHA256 it = sum256" "aiSHA512 it = sum512"
    "aiStorageKey it = key" "aiManifest it = manifest" "aiReceipt it = receipt" "aiFileName it = upFileName u"
  using assms by (auto simp: archiveRecord_def Let_def bind_simps split: prod.splits if_split_asm)

section \<open>The recorded transaction\<close>

definition archiveTxn :: "env \<Rightarrow> officeIdentity \<Rightarrow> uploadRow \<Rightarrow> string \<Rightarrow> txn_row" where
  "archiveTxn en me u txnID =
     \<lparr>trID = txnID, trOrganizationID = upOrgID u, trWorkflowType = archiveWorkflow, trSchemaVersion = archiveSchema,
      trCreatedBy = oiID me, trStatus = ''DRAFT'', trUpdatedAt = enTime en,
      trOfficeMeta = Some (metaJSON (upFileName u) ''arsip'' (upSize u) (upDescription u))\<rparr>"

definition archiveEvent :: "string \<Rightarrow> string \<Rightarrow> string \<Rightarrow> jval \<Rightarrow> string \<Rightarrow> eventInput" where
  "archiveEvent txnID typ signer payload status =
     \<lparr>eiTransactionID = txnID, eiEventType = typ, eiSignerIdentity = signer, eiPayload = payload,
      eiNewStatus = status, eiIdempotencyKey = []\<rparr>"

lemma archiveTxn_fields [simp]:
  "trID (archiveTxn en me u i) = i" "trStatus (archiveTxn en me u i) = ''DRAFT''"
  "trWorkflowType (archiveTxn en me u i) = archiveWorkflow" "trSchemaVersion (archiveTxn en me u i) = archiveSchema"
  "trOrganizationID (archiveTxn en me u i) = upOrgID u" "trCreatedBy (archiveTxn en me u i) = oiID me"
  by (simp_all add: archiveTxn_def)

lemma archiveEvent_fields [simp]:
  "eiTransactionID (archiveEvent i typ s p st) = i" "eiEventType (archiveEvent i typ s p st) = typ"
  "eiSignerIdentity (archiveEvent i typ s p st) = s" "eiPayload (archiveEvent i typ s p st) = p"
  "eiNewStatus (archiveEvent i typ s p st) = st" "eiIdempotencyKey (archiveEvent i typ s p st) = []"
  by (simp_all add: archiveEvent_def)

lemma record_steps:
  assumes "archiveRecord A me u itemID txnID receiptID key sum256 sum512 manifest (db, items) = Inr ((db', items'), receipt)"
  obtains db0 db1 db2 db3 e1 e2 e3 p2 p3 where "insertTxn (aeEnv A) db (archiveTxn (aeEnv A) me u txnID) = Inr db0"
    "enqueueOutbox (aeEnv A) ''outbox create'' db0 ''transaction'' txnID ''transaction'' ''CreateTransaction''
      [AStr txnID, AStr (upOrgID u), AStr archiveWorkflow, AStr archiveSchema, AStr (oiID me)] = Inr db1"
    "appendTransactionEvent (shareEnv ''1:'' (aeEnv A)) db1
       (archiveEvent txnID ''UPLOAD_RECEIVED'' (oiID me) manifest []) True = Inr (db2, e1)"
    "appendTransactionEvent (shareEnv ''2:'' (aeEnv A)) db2
       (archiveEvent txnID ''INTEGRITY_VERIFIED'' systemArchiveID p2 ''VERIFIED'') True = Inr (db3, e2)"
    "appendTransactionEvent (shareEnv ''3:'' (aeEnv A)) db3
       (archiveEvent txnID ''ARCHIVED'' systemArchiveID p3 ''ENDORSED'') True = Inr (db', e3)"
    "buildReceipt A db' txnID receiptID manifest (aePayloadHash e1) = Inr receipt"
    "\<exists>it. items' = items @ [it] \<and> \<not> list_ex (itemConflict it) items \<and> aiID it = itemID \<and> aiTransactionID it = txnID \<and>
       aiManifest it = manifest \<and> aiManifestHash it = aePayloadHash e1 \<and> aiReceipt it = receipt \<and>
       aiSize it = upSize u \<and> aiStorageKey it = key"
  using assms unfolding archiveRecord_def Let_def archiveTxn_def archiveEvent_def
  by (auto simp: bind_simps split: prod.splits if_split_asm)

end
