(* ===== verification/Office_Runs.thy ===== *)
theory Office_Runs
  imports Office_Sync Archive_Uploads
begin

text \<open>
  Runs of the ledger API's two apps, the office workflow and the archive, over one database, with their
  invariants: the outbox can be replayed on the chaincode, and what is endorsed in the office
  workflow was approved by a second person.
\<close>

section \<open>Runs\<close>

datatype office_call =
    OCreate "office_form option"
  | OSubmit string
  | OComplete string
  | OCancel string
  | ODecide string "decisionRequest option"
  | OSetRole string "set_role_request option"

definition onDB :: "api_db \<times> response \<Rightarrow> objects \<Rightarrow> (api_db \<times> objects) \<times> response" where
  "onDB x objs = ((fst x, objs), snd x)"

fun officeStep :: "env \<Rightarrow> officeIdentity \<Rightarrow> office_call \<Rightarrow> api_db \<times> objects \<Rightarrow> (api_db \<times> objects) \<times> response" where
  "officeStep en me (OCreate form) st = officeCreateTransaction en me form st"
| "officeStep en me (OSubmit i) st = officeSubmit en me i st"
| "officeStep en me (OComplete i) st = officeComplete en me i st"
| "officeStep en me (OCancel i) st = officeCancel en me i st"
| "officeStep en me (ODecide i body) st = officeDecision en me i body st"
| "officeStep en me (OSetRole account body) st = onDB (officeSetRole en (fst st) me account body) (snd st)"

text \<open>
  Reachable states: from a database without transactions, any number of office steps by anyone and
  completions of archive uploads, in any upload state, each under an environment that generates non-empty ids and
  signatures and lets any statement fail, and anything that leaves these tables alone (sign-in, offices
  and members, uploads).
\<close>

inductive office_reach :: "api_db \<times> objects \<Rightarrow> bool" where
  office_start: "dbTxns db = [] \<Longrightarrow> dbEvents db = [] \<Longrightarrow> dbOutbox db = [] \<Longrightarrow> dbApprovals db = [] \<Longrightarrow>
    office_reach (db, objs)"
| office_step: "office_reach st \<Longrightarrow> envOK en \<Longrightarrow> officeStep en me c st = (st', r) \<Longrightarrow> office_reach st'"
| archive_step: "office_reach (asDB st, asObjects st) \<Longrightarrow> envOK (aeEnv A) \<Longrightarrow>
    archiveComplete A cfg fabricEnabled me i client st = (st', r) \<Longrightarrow> office_reach (asDB st', asObjects st')"
| other_step: "office_reach (db, objs) \<Longrightarrow> dbTxns db' = dbTxns db \<Longrightarrow> dbEvents db' = dbEvents db \<Longrightarrow>
    dbOutbox db' = dbOutbox db \<Longrightarrow> dbApprovals db' = dbApprovals db \<Longrightarrow> office_reach (db', objs')"

lemma synced_start:
  assumes "dbTxns db = []" "dbEvents db = []" "dbOutbox db = []"
  shows "synced db spec_empty"
proof -
  have "replays db spec_empty" using assms by (simp add: replays_def txnOutbox_def)
  moreover have "txnRow db i = None" "eventsOf db i = []" for i
    using assms by (simp_all add: txnRow_def eventsOf_def)
  ultimately show ?thesis using assms by (simp add: synced_def) (simp add: spec_empty_def)
qed

lemma officeSetRole_frame:
  assumes "officeSetRole en db me account body = (db', r)"
  shows "dbTxns db' = dbTxns db" "dbEvents db' = dbEvents db" "dbOutbox db' = dbOutbox db" "dbApprovals db' = dbApprovals db"
  using assms
  by (auto simp: officeSetRole_def inTx_def Let_def bindE_def or500_def
      split: if_split_asm option.split_asm sum.split_asm prod.split_asm)

lemma officeStep_synced:
  assumes "synced (fst st) A" "envOK en" "officeStep en me c st = (st', r)"
  shows "\<exists>A'. synced (fst st') A'"
proof (cases c)
  case (OCreate form)
  obtain db' objs' where st': "st' = (db', objs')" by (cases st')
  have "officeCreateTransaction en me form st = ((db', objs'), r)" using assms(3) OCreate st' by simp
  then show ?thesis
  proof (cases rule: officeCreateTransaction_cases)
    case 1
    then show ?thesis using assms(1) st' by auto
  next
    case (2 title category amount description fileName data r')
    then show ?thesis using officeCreateBody_synced [OF assms(1,2)] st' by auto
  qed
next
  case (OSetRole account body)
  then have e: "officeSetRole en (fst st) me account body = (fst st', r)" using assms(3) by (auto simp: onDB_def)
  show ?thesis using synced_frame [OF assms(1) officeSetRole_frame(1-3) [OF e]] by blast
next
  case (ODecide i body)
  then show ?thesis using officeDecision_synced [OF assms(1,2)] assms(3) by (cases st') auto
qed (use simpleStep_synced [OF assms(1,2)] assms(3) in
    \<open>(cases st'; auto simp: officeSubmit_def officeComplete_def officeCancel_def)+\<close>)

lemma shareEnv_OK [simp]: "envOK en \<Longrightarrow> envOK (shareEnv tag en)"
  by (simp add: envOK_def shareEnv_def)

lemma archiveRecord_synced:
  assumes S: "synced db A" and ok: "envOK (aeEnv E)" and ne: "txnID \<noteq> []"
    and rec: "archiveRecord E me u itemID txnID receiptID key sum256 sum512 manifest (db, items) = Inr ((db', items'), receipt)"
  shows "\<exists>A'. synced db' A'"
proof -
  let ?row = "archiveTxn (aeEnv E) me u txnID"
  from rec obtain db0 db1 db2 db3 e1 e2 e3 p2 p3 where ins: "insertTxn (aeEnv E) db ?row = Inr db0"
    and enq: "enqueueOutbox (aeEnv E) ''outbox create'' db0 ''transaction'' txnID ''transaction'' ''CreateTransaction''
      [AStr txnID, AStr (upOrgID u), AStr archiveWorkflow, AStr archiveSchema, AStr (oiID me)] = Inr db1"
    and a1: "appendTransactionEvent (shareEnv ''1:'' (aeEnv E)) db1
       (archiveEvent txnID ''UPLOAD_RECEIVED'' (oiID me) manifest []) True = Inr (db2, e1)"
    and a2: "appendTransactionEvent (shareEnv ''2:'' (aeEnv E)) db2
       (archiveEvent txnID ''INTEGRITY_VERIFIED'' systemArchiveID p2 ''VERIFIED'') True = Inr (db3, e2)"
    and a3: "appendTransactionEvent (shareEnv ''3:'' (aeEnv E)) db3
       (archiveEvent txnID ''ARCHIVED'' systemArchiveID p3 ''ENDORSED'') True = Inr (db', e3)"
    by (rule record_steps)
  obtain A1 where A1: "synced db1 A1"
    using create_synced [OF S ins _ _, of "''outbox create''" "''transaction''" txnID db1] enq ne by auto
  have r1: "txnRow db1 txnID = Some ?row"
    using ins enq by (auto simp: insertTxn_def bind_simps txnRow_def map_add_def elim!: enqueueOutbox_Inr)
  obtain A2 where A2: "synced db2 A2"
    by (rule append_synced [OF A1 _ a1, of ?row]) (use ok r1 in auto)
  have r2: "txnRow db2 txnID = Some ?row" using append_rows(1) [OF a1, of ?row txnID] r1 by simp
  obtain A3 where A3: "synced db3 A3"
    by (rule append_synced [OF A2 _ a2, of ?row]) (use ok r2 in \<open>auto simp: isTransitionAllowed_def allowedTransitions_def\<close>)
  have r3: "\<exists>t. txnRow db3 txnID = Some t \<and> trStatus t = ''VERIFIED''" using append_rows(1) [OF a2, of ?row txnID] r2 by simp
  then obtain t where t: "txnRow db3 txnID = Some t" "trStatus t = ''VERIFIED''" by blast
  obtain A4 where "synced db' A4"
    by (rule append_synced [OF A3 _ a3, of t]) (use ok t in \<open>auto simp: isTransitionAllowed_def allowedTransitions_def\<close>)
  then show ?thesis by blast
qed

lemma finalize_record:
  assumes "archiveFinalize A cfg me u sum256 sum512 st = (st', Inr item)"
  shows "\<exists>itemID txnID receiptID key manifest receipt. txnID \<noteq> [] \<and>
    archiveRecord A me u itemID txnID receiptID key sum256 sum512 manifest (asDB st, asItems st) =
      Inr ((asDB st', asItems st'), receipt)"
  by (rule finalize_Inr [OF assms]) (metis append_is_Nil_conv list.discI)

text \<open>A completion leaves the database alone or records one archived upload.\<close>

lemma complete_record:
  assumes "archiveComplete A cfg fabricEnabled me i client st = (st', r)"
  obtains (kept) "asDB st' = asDB st"
  | (recorded) u itemID txnID receiptID key sum256 sum512 manifest receipt where "txnID \<noteq> []"
      "archiveRecord A me u itemID txnID receiptID key sum256 sum512 manifest (asDB st, asItems st) =
         Inr ((asDB st', asItems st'), receipt)"
  using assms
proof (cases rule: complete_cases)
  case (failed u rt1 e)
  then show thesis using kept finalize_Inl(1) by fastforce
next
  case (archived u rt1 st2 item)
  from finalize_record [OF archived(7)] show thesis using recorded archived(8) by auto
qed simp_all

lemma archiveComplete_synced:
  assumes "synced (asDB st) S" "envOK (aeEnv A)" "archiveComplete A cfg fabricEnabled me i client st = (st', r)"
  shows "\<exists>S'. synced (asDB st') S'"
  using assms(3)
proof (cases rule: complete_record)
  case (recorded u itemID txnID receiptID key sum256 sum512 manifest receipt)
  then show ?thesis using archiveRecord_synced [OF assms(1,2)] by blast
qed (use assms(1) in auto)

lemma office_reach_synced: "office_reach st \<Longrightarrow> \<exists>A. synced (fst st) A"
proof (induction rule: office_reach.induct)
  case (office_start db objs)
  then show ?case using synced_start by auto
next
  case (office_step st en me c st' r)
  then show ?case using officeStep_synced by blast
next
  case (archive_step st A cfg fabricEnabled me i client st' r)
  then show ?case using archiveComplete_synced by fastforce
next
  case (other_step db objs db' objs')
  then show ?case using synced_frame by fastforce
qed

section \<open>Replaying the outbox on the chaincode\<close>

fun ccRun :: "('s, txn_value) stub_ops \<Rightarrow> 's \<Rightarrow> cc_call list \<Rightarrow> cc_error + 's" where
  "ccRun stub s [] = Inr s"
| "ccRun stub s (c # cs) = bindE (invoke stub s c) (\<lambda>s'. ccRun stub s' cs)"

lemma ccRun_refines:
  assumes T: "txn_ledger stub sane" and rel: "reliable stub"
    and "refines (look stub s) A" "spec_inv A" "sane s" "list_all callKeysOk cs" "specRun A cs = Inr A'"
  shows "\<exists>s'. ccRun stub s cs = Inr s' \<and> refines (look stub s') A' \<and> spec_inv A' \<and> sane s'"
  using assms(3-)
proof (induction cs arbitrary: s A)
  case (Cons c cs)
  obtain A1 where A1: "spec_invoke A c = Inr A1" "specRun A1 cs = Inr A'"
    using Cons.prems(5) by (auto simp: bind_simps)
  have "simulates stub (invoke stub s c) (spec_invoke A c)"
    by (rule txn_ledger.invoke_simulates [OF T Cons.prems(1,2)])
  moreover have "invoke stub s c \<noteq> Inl StubError"
    using invoke_no_stub_error [OF rel] Cons.prems(4) by simp
  ultimately obtain s1 where s1: "invoke stub s c = Inr s1" "refines (look stub s1) A1"
    using A1(1) by (cases "invoke stub s c") auto
  have "sane s1" by (rule txn_ledger.invoke_wf [OF T Cons.prems(3) s1(1)])
  moreover have "spec_inv A1" by (rule spec_inv_invoke [OF Cons.prems(2) A1(1)])
  ultimately show ?case using Cons.IH [OF s1(2) _ _ _ A1(2)] Cons.prems(4) s1(1) by auto
qed auto

definition keysOk :: "outbox_row \<Rightarrow> bool" where
  "keysOk ob \<longleftrightarrow> (case rowCall ob of None \<Rightarrow> True | Some c \<Rightarrow> callKeysOk c)"

lemma keysOk_calls:
  "list_all keysOk obs \<Longrightarrow> map rowCall obs = map Some cs \<Longrightarrow> list_all callKeysOk cs"
proof (induction obs arbitrary: cs)
  case (Cons ob obs)
  then show ?case by (cases cs) (auto simp: keysOk_def)
qed simp

definition latestHash :: "event_row list \<Rightarrow> string" where
  "latestHash es = (if es = [] then [] else erowPayloadHash (last es))"

lemma synced_header:
  assumes "synced db A" "txnRow db i = Some t"
  obtains h where "spHeader A i = Some h" "headerMatches h t" "txLatestEventSequence h = int (length (eventsOf db i))"
    "txLatestEventPayloadHash h = latestHash (eventsOf db i)"
proof -
  obtain h where h: "spHeader A i = Some h" "headerMatches h t" using assms unfolding synced_def by blast
  have m: "map wireOf (eventsOf db i) = map noStatus (spEvents A i)" and hok: "header_ok i h (spEvents A i)"
    using assms(1) h by (simp_all add: synced_def spec_inv_def)
  have len: "length (eventsOf db i) = length (spEvents A i)" using m by (metis length_map)
  have "lastHash (spEvents A i) = latestHash (eventsOf db i)"
  proof (cases "spEvents A i = []")
    case False
    then have "eventsOf db i \<noteq> []" using len by auto
    then show ?thesis using False map_field_sync(2) [OF m] by (simp add: lastHash_def latestHash_def) (metis last_map)
  qed (use len in \<open>simp add: lastHash_def latestHash_def\<close>)
  then show ?thesis using that [OF h] hok len by (simp add: header_ok_def)
qed

section \<open>Separation of duties\<close>

definition approvedBy :: "api_db \<Rightarrow> string \<Rightarrow> string \<Rightarrow> bool" where
  "approvedBy db i creator \<longleftrightarrow>
     (\<exists>a \<in> set (dbApprovals db). apprTransactionID a = i \<and> apprDecision a = ''approve'' \<and> apprApproverID a \<noteq> creator \<and>
        (\<exists>e \<in> set (dbEvents db). erowTransactionID e = i \<and> erowEventType e = ''APPROVED_SIGNED'' \<and>
           erowActorID e = apprApproverID a \<and> (\<exists>pid. payloadText ''ttd_public_id'' e = Some pid \<and> pid \<noteq> [])))"

definition office_inv :: "api_db \<Rightarrow> bool" where
  "office_inv db \<longleftrightarrow>
     (\<forall>i t. txnRow db i = Some t \<longrightarrow> trWorkflowType t = officeWorkflow \<longrightarrow> endorsedPath (trStatus t) \<longrightarrow>
        approvedBy db i (trCreatedBy t)) \<and>
     sorted_wrt (\<lambda>e f. \<not> eventConflict f e) (dbEvents db)"

lemma approvedBy_mono:
  "approvedBy db i c \<Longrightarrow> set (dbApprovals db) \<subseteq> set (dbApprovals db') \<Longrightarrow> set (dbEvents db) \<subseteq> set (dbEvents db') \<Longrightarrow>
     approvedBy db' i c"
  unfolding approvedBy_def by blast

lemma office_inv_frame:
  assumes "office_inv db" "dbTxns db' = dbTxns db" "dbEvents db' = dbEvents db"
    and "set (dbApprovals db) \<subseteq> set (dbApprovals db')"
  shows "office_inv db'"
  using assms approvedBy_mono [of db _ _ db'] by (simp add: office_inv_def txnRow_def)

text \<open>
  The invariant after an append and the approval rows \<open>aps\<close> written with it: a request newly on the
  endorsed path must come with its approval.
\<close>

lemma append_inv:
  assumes inv: "office_inv db" and app: "appendTransactionEvent en db inp True = Inr (db', ae)"
    and row: "txnRow db (eiTransactionID inp) = Some t"
    and db'': "db'' = db'\<lparr>dbApprovals := dbApprovals db' @ aps\<rparr>"
    and new: "trWorkflowType t = officeWorkflow \<Longrightarrow> endorsedPath (eiNewStatus inp) \<Longrightarrow> endorsedPath (trStatus t) \<or> approvedBy db'' (eiTransactionID inp) (trCreatedBy t)"
  shows "office_inv db''"
proof -
  obtain e ob where conf: "\<not> list_ex (eventConflict (eventRow en inp e)) (dbEvents db)"
    and db': "db' = db\<lparr>dbEvents := dbEvents db @ [eventRow en inp e], dbOutbox := dbOutbox db @ [ob],
       dbTxns := (if True \<and> eiNewStatus inp \<noteq> []
         then AList.map_entry (eiTransactionID inp) (\<lambda>t. t\<lparr>trStatus := eiNewStatus inp, trUpdatedAt := enTime en\<rparr>)
           (dbTxns db) else dbTxns db)\<rparr>"
    using app by (rule append_Inr)
  have mono: "approvedBy db i c \<Longrightarrow> approvedBy db'' i c" for i c
    by (rule approvedBy_mono) (auto simp: db' db'')
  have "txnRow db'' = txnRow db'" by (simp add: db'' txnRow_def fun_eq_iff)
  then have "approvedBy db'' i (trCreatedBy t')"
    if t': "txnRow db'' i = Some t'" "trWorkflowType t' = officeWorkflow" "endorsedPath (trStatus t')" for i t'
    using t' append_rows(1) [OF app row, of i] new inv mono row
    by (auto simp: office_inv_def split: if_split_asm)
  moreover have "sorted_wrt (\<lambda>e f. \<not> eventConflict f e) (dbEvents db'')"
    using inv conf by (auto simp: db'' db' office_inv_def sorted_wrt_append list_ex_iff)
  ultimately show ?thesis by (simp add: office_inv_def)
qed

lemma append_new_event:
  assumes "appendTransactionEvent en db inp upd = Inr (db', ae)" "envOK en"
  shows "\<exists>e \<in> set (dbEvents db'). erowTransactionID e = eiTransactionID inp \<and> erowEventType e = eiEventType inp \<and>
    erowActorID e = eiSignerIdentity inp \<and> erowPayload e = Some (eiPayload inp)"
proof -
  obtain e ob where s: "signEvent en db inp = Inr e"
    and db': "db' = db\<lparr>dbEvents := dbEvents db @ [eventRow en inp e], dbOutbox := dbOutbox db @ [ob],
       dbTxns := (if upd \<and> eiNewStatus inp \<noteq> []
         then AList.map_entry (eiTransactionID inp) (\<lambda>t. t\<lparr>trStatus := eiNewStatus inp, trUpdatedAt := enTime en\<rparr>)
           (dbTxns db) else dbTxns db)\<rparr>"
    using assms(1) by (rule append_Inr)
  show ?thesis
    by (rule bexI [of _ "eventRow en inp e"]) (use signEvent_Inr [OF s assms(2)] in \<open>simp_all add: eventRow_def db'\<close>)
qed

lemma simpleStep_inv:
  assumes inv: "office_inv (fst st)" and "simpleStep en me i eventType newStatus allowed msg st = ((db', objs'), r)"
    and not_endorse: "newStatus \<noteq> ''ENDORSED''"
  shows "office_inv db'"
  using assms(2)
proof (cases rule: simpleStep_cases)
  case 1
  then show ?thesis using inv by simp
next
  case (2 t ae)
  have "endorsedPath (trStatus t)" if "endorsedPath newStatus"
    using that not_endorse 2(3)
    by (auto simp: endorsedPath_def canTransition_def officeTransitions_def split: if_split_asm)
  then show ?thesis using append_inv [OF inv 2(4), of t db' "[]"] officeTxn_row [OF 2(1)] by simp
qed

lemma decision_payload_ttd:
  assumes "map_of extra ''ttd_public_id'' = Some (JStr pid)" "erowPayload e = Some (eiPayload (decisionInput i me True extra))"
  shows "payloadText ''ttd_public_id'' e = Some pid"
  using assms by (simp add: payloadText_def decisionInput_def)

lemma officeDecision_inv:
  assumes inv: "office_inv (fst st)" and ok: "envOK en" and "officeDecision en me i body st = ((db', objs'), r)"
  shows "office_inv db'"
  using assms(3)
proof (cases rule: officeDecision_cases)
  case 1
  then show ?thesis using inv by simp
next
  case (2 t inp)
  have row: "txnRow (fst st) i = Some t" by (rule officeTxn_row [OF 2(2)])
  have perm: "oiID me \<noteq> trCreatedBy t" using 2(3) by (simp add: permsFor_approve)
  show ?thesis
  proof (cases "drDecision inp = ''approve''")
    case True
    from 2(4) True obtain sub db1 extra db2 ae db3 where
      v: "verifyTTDApproval en (fst st) (snd st) i me (drTTDPublicID inp) = (objs', Inr (db1, extra))"
      and ap: "appendTransactionEvent en db1 (decisionInput i me True extra) True = Inr (db2, ae)"
      and ins: "insertApproval en db2 (decisionRow en i me sub ''approve'') = Inr db3"
      and enq: "enqueueOutbox en ''outbox approve'' db3 ''transaction'' i ''transaction'' ''Approve''
         [AStr i, AStr (fmt_d (erowEventSequence sub)), AStr (oiID me), AStr ''approve'', AStr officePolicy] = Inr db'"
      by (rule decisionApply_approve)
    obtain d where db1: "db1 = (fst st)\<lparr>dbDocs := dbDocs (fst st) @ [d]\<rparr>"
      and pid: "map_of extra ''ttd_public_id'' = Some (JStr (drTTDPublicID inp))"
      using verifyTTDApproval_Inr [OF v] by blast
    have row1: "txnRow db1 i = Some t" using row by (simp add: db1 txnRow_def)
    obtain e where e: "e \<in> set (dbEvents db2)" "erowTransactionID e = i" "erowEventType e = ''APPROVED_SIGNED''"
      "erowActorID e = oiID me" "erowPayload e = Some (eiPayload (decisionInput i me True extra))"
      using append_new_event [OF ap ok] by (auto simp: decisionInput_def)
    obtain ob where db': "db' = db2\<lparr>dbApprovals := dbApprovals db2 @ [decisionRow en i me sub ''approve''],
        dbOutbox := dbOutbox db2 @ [ob]\<rparr>"
      using enq insertApproval_Inr [OF ins] by (auto elim: enqueueOutbox_Inr)
    have "approvedBy db' i (trCreatedBy t)"
      using e perm 2(5) True decision_payload_ttd [OF pid e(5)]
      by (auto simp: approvedBy_def db' decisionRow_def)
    then have a3: "approvedBy db3 i (trCreatedBy t)"
      by (simp add: approvedBy_def db' insertApproval_Inr [OF ins])
    have "office_inv db1" by (rule office_inv_frame [OF inv]) (simp_all add: db1)
    then have "office_inv db3"
      by (rule append_inv [OF _ ap _ insertApproval_Inr [OF ins], of t])
        (use row1 a3 in \<open>simp_all add: decisionInput_def\<close>)
    then show ?thesis by (rule office_inv_frame) (simp_all add: db' insertApproval_Inr [OF ins])
  next
    case False
    from 2(4) False obtain sub extra db2 ae where
      ap: "appendTransactionEvent en (fst st) (decisionInput i me False extra) True = Inr (db2, ae)"
      and ins: "insertApproval en db2 (decisionRow en i me sub (drDecision inp)) = Inr db'"
      by (rule decisionApply_reject)
    show ?thesis
      by (rule append_inv [OF inv ap _ insertApproval_Inr [OF ins], of t])
        (use row in \<open>simp_all add: decisionInput_def endorsedPath_def\<close>)
  qed
qed

lemma officeCreateBody_inv:
  assumes inv: "office_inv db" and ok: "envOK en"
    and "officeCreateBody en me title category amount description fileName data db objs = (objs', Inr (db', r))"
  shows "office_inv db'"
proof -
  let ?i = "''txn_'' @ enUUID en ''transaction''"
  let ?row = "\<lparr>trID = ?i, trOrganizationID = officeOrg, trWorkflowType = officeWorkflow,
              trSchemaVersion = officeSchema, trCreatedBy = oiID me, trStatus = ''DRAFT'', trUpdatedAt = enTime en,
              trOfficeMeta = Some (metaJSON title category amount description)\<rparr>"
  from assms(3) obtain db0 db1 db2 docID inp ae where ins: "insertTxn en db ?row = Inr db0"
    and enq: "enqueueOutbox en ''outbox create'' db0 ''transaction'' ?i ''transaction'' ''CreateTransaction''
               [AStr ?i, AStr officeOrg, AStr officeWorkflow, AStr officeSchema, AStr (oiID me)] = Inr db1"
    and sto: "storeDocument en db1 objs ?i ''attachment'' (cleanFileName fileName) (oiID me) data = (objs', Inr (db2, docID))"
    and app: "appendTransactionEvent en db2 inp True = Inr (db', ae)" and inp: "eiNewStatus inp = []"
    unfolding officeCreateBody_def Let_def
    by (auto simp: bindE_def split: sum.split_asm prod.split_asm)
  have db0: "db0 = db\<lparr>dbTxns := dbTxns db @ [(?i, ?row)]\<rparr>" using ins by (auto simp: insertTxn_def bind_simps)
  have "office_inv db0"
    using inv by (auto simp: office_inv_def db0 txnRow_def approvedBy_def map_add_def endorsedPath_def
        split: option.split_asm if_split_asm)
  then have "office_inv db1" using enq by (elim enqueueOutbox_Inr) (auto intro: office_inv_frame)
  then have "office_inv db2" using storeDocument_Inr [OF sto] by (auto intro: office_inv_frame)
  moreover obtain e ob where sign: "signEvent en db2 inp = Inr e" using app by (rule append_Inr)
  moreover obtain t where t: "txnRow db2 (eiTransactionID inp) = Some t" using signEvent_Inr(1) [OF sign ok] by blast
  ultimately show ?thesis
    using append_inv [OF _ app t, of db' "[]"] inp by (simp add: endorsedPath_def)
qed

lemma officeStep_inv:
  assumes "office_inv (fst st)" "envOK en" "officeStep en me c st = (st', r)"
  shows "office_inv (fst st')"
proof (cases c)
  case (OCreate form)
  obtain db' objs' where st': "st' = (db', objs')" by (cases st')
  have "officeCreateTransaction en me form st = ((db', objs'), r)" using assms(3) OCreate st' by simp
  then show ?thesis
    by (cases rule: officeCreateTransaction_cases)
      (use assms(1) st' officeCreateBody_inv [OF assms(1,2)] in auto)
next
  case (OSetRole account body)
  then have e: "officeSetRole en (fst st) me account body = (fst st', r)" using assms(3) by (auto simp: onDB_def)
  show ?thesis
    using office_inv_frame [OF assms(1) officeSetRole_frame(1,2) [OF e]] officeSetRole_frame(4) [OF e] by simp
next
  case (ODecide i body)
  then show ?thesis using officeDecision_inv [OF assms(1,2)] assms(3) by (cases st') auto
qed (use simpleStep_inv [OF assms(1)] assms(3) in
    \<open>(cases st'; auto simp: officeSubmit_def officeComplete_def officeCancel_def)+\<close>)

lemma archiveRecord_inv:
  assumes inv: "office_inv db"
    and rec: "archiveRecord E me u itemID txnID receiptID key sum256 sum512 manifest (db, items) = Inr ((db', items'), receipt)"
  shows "office_inv db'"
proof -
  let ?row = "archiveTxn (aeEnv E) me u txnID"
  from rec obtain db0 db1 db2 db3 e1 e2 e3 p2 p3 where ins: "insertTxn (aeEnv E) db ?row = Inr db0"
    and enq: "enqueueOutbox (aeEnv E) ''outbox create'' db0 ''transaction'' txnID ''transaction'' ''CreateTransaction''
      [AStr txnID, AStr (upOrgID u), AStr archiveWorkflow, AStr archiveSchema, AStr (oiID me)] = Inr db1"
    and a1: "appendTransactionEvent (shareEnv ''1:'' (aeEnv E)) db1
       (archiveEvent txnID ''UPLOAD_RECEIVED'' (oiID me) manifest []) True = Inr (db2, e1)"
    and a2: "appendTransactionEvent (shareEnv ''2:'' (aeEnv E)) db2
       (archiveEvent txnID ''INTEGRITY_VERIFIED'' systemArchiveID p2 ''VERIFIED'') True = Inr (db3, e2)"
    and a3: "appendTransactionEvent (shareEnv ''3:'' (aeEnv E)) db3
       (archiveEvent txnID ''ARCHIVED'' systemArchiveID p3 ''ENDORSED'') True = Inr (db', e3)"
    by (rule record_steps)
  have wf: "archiveWorkflow \<noteq> officeWorkflow" by (simp add: archiveWorkflow_def officeWorkflow_def)
  have db0: "db0 = db\<lparr>dbTxns := dbTxns db @ [(txnID, ?row)]\<rparr>" "txnRow db txnID = None"
    using ins by (auto simp: insertTxn_def bind_simps)
  have "office_inv db0"
    using inv wf by (auto simp: office_inv_def db0(1) txnRow_def approvedBy_def map_add_def
        split: option.split_asm if_split_asm)
  then have i1: "office_inv db1" using enq by (elim enqueueOutbox_Inr) (auto intro: office_inv_frame)
  have r1: "txnRow db1 txnID = Some ?row" using enq db0 by (auto simp: txnRow_def map_add_def elim!: enqueueOutbox_Inr)
  have i2: "office_inv db2" by (rule append_inv [OF i1 a1, of ?row _ "[]"]) (use r1 wf in simp_all)
  have r2: "txnRow db2 txnID = Some ?row" using append_rows(1) [OF a1, of ?row txnID] r1 by simp
  have i3: "office_inv db3" by (rule append_inv [OF i2 a2, of ?row _ "[]"]) (use r2 wf in simp_all)
  have "\<exists>t. txnRow db3 txnID = Some t \<and> trWorkflowType t = archiveWorkflow"
    using append_rows(1) [OF a2, of ?row txnID] r2 by simp
  then obtain t where t: "txnRow db3 txnID = Some t" "trWorkflowType t = archiveWorkflow" by blast
  show ?thesis by (rule append_inv [OF i3 a3, of t _ "[]"]) (use t wf in simp_all)
qed

lemma office_reach_inv: "office_reach st \<Longrightarrow> office_inv (fst st)"
proof (induction rule: office_reach.induct)
  case (office_start db objs)
  then show ?case by (simp add: office_inv_def txnRow_def)
next
  case (office_step st en me c st' r)
  then show ?case using officeStep_inv by blast
next
  case (archive_step st A cfg fabricEnabled me i client st' r)
  from archive_step(3) show ?case
    by (cases rule: complete_record) (use archive_step(4) archiveRecord_inv in auto)
next
  case (other_step db objs db' objs')
  then show ?case using office_inv_frame [of db db'] by simp
qed

end
