(* ===== verification/Office_Sample.thy ===== *)
theory Office_Sample
  imports Office_Runs
begin

text \<open>
  A concrete run of the office workflow: a request is created, submitted, approved with a TTD
  signature by a second person and completed.  It instantiates the environment of the handlers
  (keystore, primitives, clock, ids, TTD service) with concrete functions.
\<close>

definition officePrims :: prims where
  "officePrims = \<lparr>pEdSign = (\<lambda>k m. Some (CHR ''S'' # m)), pEdVerify = (\<lambda>k m s. Some (s = CHR ''S'' # m)),
     pNewPrivateKey = Some, pSign = (\<lambda>k m. Some (CHR ''S'' # m)), pNewPublicKey = Some,
     pVerify = (\<lambda>k m s. s = CHR ''S'' # m), pSha256 = (\<lambda>x. [])\<rparr>"

definition sampleTTD :: TTDVerifier where
  "sampleTTD = \<lparr>ttdRecord = (\<lambda>p. Some \<lparr>ttdPublicID = p, ttdAccountID = ''bob'', ttdOriginalSHA512 = ''68'',
     ttdSignedSHA512 = ''68'', ttdVerificationStatus = ''accepted'', ttdVerificationURL = ''u''\<rparr>),
     ttdSignedPDF = (\<lambda>p. Some ''%PDF-'')\<rparr>"

definition sampleEnv :: "string \<Rightarrow> env" where
  "sampleEnv n = \<lparr>enFault = (\<lambda>_. False), enUUID = (\<lambda>l. n @ l), enNow = ''now'', enNowNano = ''nano'', enTime = 0,
     enPrims = officePrims, enSha512 = (\<lambda>x. ''h''), enKeystore = (\<lambda>i. Some \<lparr>siClassicalKeyID = ''c'' @ i,
       siClassicalPrivate = i, siPQCKeyID = ''q'' @ i, siPQCPrivate = i\<rparr>), enApplication = ''app'',
     enEnvironment = ''dev'', enTTD = Some sampleTTD, enPutObject = (\<lambda>_. True)\<rparr>"

definition person :: "string \<Rightarrow> string \<Rightarrow> officeIdentity" where
  "person i role = \<lparr>oiID = i, oiEmail = [], oiName = [], oiTTDRole = ''user'', oiOfficeRole = role,
     oiOrgID = [], oiOrgName = []\<rparr>"

definition sampleForm :: office_form where
  "sampleForm = \<lparr>ofTitle = ''abc'', ofCategory = ''lainnya'', ofDescription = [], ofAmount = ''0'',
     ofFile = Some (''a'', ''%PDF-'')\<rparr>"

definition sampleDecision :: decisionRequest where
  "sampleDecision = \<lparr>drDecision = ''approve'', drTTDPublicID = ''p'', drReason = []\<rparr>"

definition sampleTxn :: string where
  "sampleTxn = ''txn_0transaction''"

definition sample1 :: "api_db \<times> objects" where
  "sample1 = fst (officeStep (sampleEnv ''0'') (person ''al'' ''requester'') (OCreate (Some sampleForm)) (emptyDB, Map.empty))"

definition sample2 :: "api_db \<times> objects" where
  "sample2 = fst (officeStep (sampleEnv ''1'') (person ''al'' ''requester'') (OSubmit sampleTxn) sample1)"

definition sample3 :: "api_db \<times> objects" where
  "sample3 = fst (officeStep (sampleEnv ''2'') (person ''bob'' ''approver'') (ODecide sampleTxn (Some sampleDecision)) sample2)"

definition sample4 :: "api_db \<times> objects" where
  "sample4 = fst (officeStep (sampleEnv ''3'') (person ''al'' ''requester'') (OComplete sampleTxn) sample3)"

section \<open>Evaluation\<close>

lemma sample_digits: "digit 0 = CHR ''0''" "digit (Suc 0) = CHR ''1''" "digit 2 = CHR ''2''"
  by code_simp+

lemma sample_trim: "trimSpace ''abc'' = ''abc''" "trimSpace ''lainnya'' = ''lainnya''" "trimSpace ''0'' = ''0''"
  by ((rule trimSpace_plain; simp add: plainChar_def code_def)+)

lemma sample_runes: "runeCount ''abc'' = 3" "runeCount [] = 0"
  by (simp_all add: runeCount.simps utf8Width.simps code_def)

lemma sample_name: "cleanFileName ''a'' = ''a''"
  by code_simp

lemma sample_parse: "parseInt ''0'' = Some 0" "parseInt ''2'' = Some 2"
  by code_simp+

lemma sample_hex: "hexEncode ''h'' = ''68''" "hexEncode [] = []"
  by code_simp+

lemma sample_category: "officeCategories ''lainnya''"
  by (simp add: officeCategories_def)

lemma sample_format: "fmt_d 0 = ''0''" "fmt_d 1 = ''1''" "fmt_d 2 = ''2''"
  by (simp_all add: fmt_d_def dec.simps sample_digits)

lemmas sample_strings = sample_trim sample_runes sample_name sample_parse sample_hex sample_category sample_format

lemma sample_payload: "PayloadHash (\<lambda>x. []) (Some v) = Inr ''sha256:''"
  by (simp add: PayloadHash_def Canonicalize_def sample_strings)

lemma sample_sign: "SignHybrid officePrims identity ctx (Some v) =
  Inr (\<lparr>hsAlgorithmSuite = ''HYBRID_ED25519_MLDSA65_V1'', hsClassicalKeyID = siClassicalKeyID identity,
     hsPQCKeyID = siPQCKeyID identity, hsClassicalSignature = CHR ''S'' # bind ctx ''sha256:'',
     hsPQCSignature = CHR ''S'' # bind ctx ''sha256:''\<rparr>, ''sha256:'')"
  by (simp add: SignHybrid_def officePrims_def sample_payload SignClassical_def SignMLDSA_def Let_def
      SuiteHybridEd25519MLDSA65V1_def)

lemmas sample_defs = sampleEnv_def sampleTTD_def sampleForm_def sampleDecision_def person_def emptyDB_def

lemmas sample_write = Let_def stmt_def orErr_def mapErr_def or500_def inTxO_def insertTxn_def txnRow_def enqueueOutbox_def
  storeDocument_def insertDoc_def sha512Hex_def maxDocumentSize_def appendTransactionEvent_def signEvent_def insertEvent_def
  eventRow_def eventsOf_def maxInt4_def updateTxnStatus_def txnStatuses_def insertApproval_def eventConflict_def payloadText_def

lemmas sample_handlers = officeCreateTransaction_def officeCreateBody_def officeSubmit_def officeComplete_def simpleStep_def
  officeAction_def lockTxn_def officeTxn_def officeWorkflow_def officeDecision_def decisionCheck_def decisionApply_def
  verifyTTDApproval_def canSeeAll_def isAdmin_def permsFor_def canTransition_def officeTransitions_def
  roleApprover_def roleAuditor_def

lemmas sample_eval = sample_defs sample_strings sample_sign sample_write sample_handlers

lemma sample_created: "map_option trStatus (txnRow (fst sample1) sampleTxn) = Some ''DRAFT''"
  unfolding sample1_def sampleTxn_def by (simp add: sample_eval)

lemma sample_committed: "map_option trStatus (txnRow (fst sample4) sampleTxn) = Some ''COMMITTED''"
  unfolding sample4_def sample3_def sample2_def sample1_def sampleTxn_def by (simp add: sample_eval)

lemma sample_workflow: "map_option trWorkflowType (txnRow (fst sample4) sampleTxn) = Some officeWorkflow"
  unfolding sample4_def sample3_def sample2_def sample1_def sampleTxn_def by (simp add: sample_eval)

lemma sample_outbox:
  "length (txnOutbox (fst sample4)) = 6" "list_all keysOk (txnOutbox (fst sample4))"
  unfolding sample4_def sample3_def sample2_def sample1_def sampleTxn_def
  by (simp_all add: sample_eval txnOutbox_def keysOk_def rowCall_def dispatch_def compositeKeyDelimiter_def)

lemma sample_events: "map erowEventType (eventsOf (fst sample4) sampleTxn) = [''CREATED'', ''SUBMITTED'', ''APPROVED_SIGNED'', ''COMPLETED'']"
  unfolding sample4_def sample3_def sample2_def sample1_def sampleTxn_def by (simp add: sample_eval)

lemma sample_env: "envOK (sampleEnv n)" if "n \<noteq> []"
  using that by (simp add: envOK_def sampleEnv_def officePrims_def)

lemma officeStep_reach:
  "office_reach st \<Longrightarrow> envOK en \<Longrightarrow> office_reach (fst (officeStep en me c st))"
  by (metis office_step prod.collapse)

lemma sample_office_reach: "office_reach sample1" "office_reach sample2" "office_reach sample3" "office_reach sample4"
proof -
  have "office_reach (emptyDB, Map.empty)" by (rule office_start) (simp_all add: emptyDB_def)
  then show r1: "office_reach sample1" unfolding sample1_def by (rule officeStep_reach) (simp add: sample_env)
  then show r2: "office_reach sample2" unfolding sample2_def by (rule officeStep_reach) (simp add: sample_env)
  then show r3: "office_reach sample3" unfolding sample3_def by (rule officeStep_reach) (simp add: sample_env)
  then show "office_reach sample4" unfolding sample4_def by (rule officeStep_reach) (simp add: sample_env)
qed

end
