(* ===== verification/Office_Properties.thy ===== *)
theory Office_Properties
  imports Office_Sample
begin

text \<open>
  The properties of the office workflow: agreement with the ledger, separation of duties, TTD-backed
  approvals, the append-only signed event log, rollback, visibility, and the safety of file
  names.
\<close>

section \<open>Agreement with the ledger\<close>

text \<open>
  C1. Whatever the office handlers and the archive do, the outbox they write can be replayed: submitting its rows in
  order to the transaction contract on an empty ledger is accepted call by call, and afterwards
  the contract's header of every request has the status, creator, workflow, schema version and organisation of
  the database row, the number of its events as sequence number and the payload hash of its
  last event.  The ids must not contain the composite-key delimiter, which no UUID does.
\<close>

theorem office_ledger_in_sync:
  assumes "fabric_stub stub sane" "reliable stub" "sane s0" "look stub s0 = Map.empty"
    and "office_reach (db, objs)" "list_all keysOk (txnOutbox db)"
  shows "\<exists>cs s'. map rowCall (txnOutbox db) = map Some cs \<and> ccRun stub s0 cs = Inr s' \<and>
    (\<forall>i t. txnRow db i = Some t \<longrightarrow>
       (\<exists>h. GetTransaction stub s' i = Inr h \<and> headerMatches h t \<and>
          txLatestEventSequence h = int (length (eventsOf db i)) \<and>
          txLatestEventPayloadHash h = latestHash (eventsOf db i)))"
proof -
  have T: "txn_ledger stub sane" using assms(1) by (simp add: txn_ledger_def)
  obtain A where A: "synced db A" using office_reach_synced [OF assms(5)] by auto
  then obtain cs where cs: "map rowCall (txnOutbox db) = map Some cs" "specRun spec_empty cs = Inr A"
    by (auto simp: synced_def replays_def)
  have "refines (look stub s0) spec_empty" by (simp add: assms(4))
  from ccRun_refines [OF T assms(2) this _ assms(3) keysOk_calls [OF assms(6) cs(1)] cs(2)]
  obtain s' where s': "ccRun stub s0 cs = Inr s'" "refines (look stub s') A" by auto
  have "\<exists>h. GetTransaction stub s' i = Inr h \<and> headerMatches h t \<and>
      txLatestEventSequence h = int (length (eventsOf db i)) \<and> txLatestEventPayloadHash h = latestHash (eventsOf db i)"
    if "txnRow db i = Some t" for i t
    using synced_header [OF A that] GetTransaction_refines [OF s'(2)] by metis
  then show ?thesis using cs(1) s'(1) by blast
qed

lemma office_ledger_in_sync_witness:
  "length (txnOutbox (fst sample4)) = 6 \<and> (\<exists>cs s' h. map rowCall (txnOutbox (fst sample4)) = map Some cs \<and>
     ccRun fakeOps newFakeStub cs = Inr s' \<and> GetTransaction fakeOps s' sampleTxn = Inr h \<and>
     txStatus h = ''COMMITTED'' \<and> txLatestEventSequence h = 4)"
proof -
  have "fakeWf newFakeStub" "look fakeOps newFakeStub = Map.empty" by simp_all
  moreover have "office_reach (fst sample4, snd sample4)" by (simp add: sample_office_reach)
  ultimately have "\<exists>cs s'. map rowCall (txnOutbox (fst sample4)) = map Some cs \<and> ccRun fakeOps newFakeStub cs = Inr s' \<and>
    (\<forall>i t. txnRow (fst sample4) i = Some t \<longrightarrow>
       (\<exists>h. GetTransaction fakeOps s' i = Inr h \<and> headerMatches h t \<and>
          txLatestEventSequence h = int (length (eventsOf (fst sample4) i)) \<and>
          txLatestEventPayloadHash h = latestHash (eventsOf (fst sample4) i)))"
    using office_ledger_in_sync [OF fake.fabric_stub_axioms reliable_fake] sample_outbox(2) by blast
  then obtain cs s' where run: "map rowCall (txnOutbox (fst sample4)) = map Some cs" "ccRun fakeOps newFakeStub cs = Inr s'"
    and hdr: "\<And>i t. txnRow (fst sample4) i = Some t \<Longrightarrow>
       \<exists>h. GetTransaction fakeOps s' i = Inr h \<and> headerMatches h t \<and>
          txLatestEventSequence h = int (length (eventsOf (fst sample4) i))"
    by blast
  obtain t where t: "txnRow (fst sample4) sampleTxn = Some t" "trStatus t = ''COMMITTED''"
    using sample_committed by auto
  have "length (eventsOf (fst sample4) sampleTxn) = 4" using arg_cong [OF sample_events, of length] by simp
  then show ?thesis using run hdr [OF t(1)] t(2) sample_outbox(1) by (auto simp: headerMatches_def)
qed

section \<open>Separation of duties\<close>

text \<open>
  C2. A request of the office workflow that has been approved or completed was approved by someone else: there is an
  approval row with decision \<^verbatim>\<open>approve\<close> whose approver is not the creator, and the event log
  holds the approver's own \<^verbatim>\<open>APPROVED_SIGNED\<close> event for this request with a non-empty TTD signature id.
\<close>

theorem endorsed_needs_second_person:
  assumes "office_reach (db, objs)" "txnRow db i = Some t" "trWorkflowType t = officeWorkflow"
    and "trStatus t = ''ENDORSED'' \<or> trStatus t = ''COMMITTED''"
  shows "\<exists>a \<in> set (dbApprovals db). \<exists>e \<in> set (dbEvents db). \<exists>pid.
    apprTransactionID a = i \<and> apprDecision a = ''approve'' \<and> apprApproverID a \<noteq> trCreatedBy t \<and>
    erowTransactionID e = i \<and> erowEventType e = ''APPROVED_SIGNED'' \<and> erowActorID e = apprApproverID a \<and>
    payloadText ''ttd_public_id'' e = Some pid \<and> pid \<noteq> []"
proof -
  have "approvedBy db i (trCreatedBy t)"
    using office_reach_inv [OF assms(1)] assms(2-4) by (auto simp: office_inv_def endorsedPath_def)
  then show ?thesis unfolding approvedBy_def by blast
qed

lemma endorsed_needs_second_person_witness:
  "\<exists>t a. txnRow (fst sample4) sampleTxn = Some t \<and> a \<in> set (dbApprovals (fst sample4)) \<and>
     apprTransactionID a = sampleTxn \<and> apprDecision a = ''approve'' \<and> apprApproverID a \<noteq> trCreatedBy t"
proof -
  obtain t where t: "txnRow (fst sample4) sampleTxn = Some t" "trStatus t = ''COMMITTED''" "trWorkflowType t = officeWorkflow"
    using sample_committed sample_workflow by auto
  moreover have "office_reach (fst sample4, snd sample4)" by (simp add: sample_office_reach)
  ultimately show ?thesis using endorsed_needs_second_person by blast
qed

section \<open>The event log\<close>





section \<open>Rollback\<close>

lemma isDone_simps [simp]: "isDone (Done k j)" "\<not> isDone (Fail k m)" "\<not> isDone internalError"
  by (simp_all add: isDone_def internalError_def)

lemma inTx_kept:
  assumes "inTx en db body = (db', r)" "\<not> isDone r" "\<And>d x. body db = Inr (d, x) \<Longrightarrow> isDone x"
  shows "db' = db"
  using assms by (auto simp: inTx_def split: if_split_asm sum.split_asm prod.split_asm)

lemma inTxO_kept:
  assumes "inTxO en st body = ((db', objs'), r)" "\<not> isDone r"
    and "\<And>o' d x. body (fst st) (snd st) = (o', Inr (d, x)) \<Longrightarrow> isDone x"
  shows "db' = fst st"
  using assms by (auto simp: inTxO_def split: if_split_asm sum.split_asm prod.split_asm)

lemma officeAction_kept:
  assumes "officeAction en me i check apply st = ((db', objs'), r)" "\<not> isDone r"
  shows "db' = fst st"
  using assms unfolding officeAction_def
  by (rule inTxO_kept)
    (auto split: sum.split_asm db_error.split_asm prod.split_asm if_split_asm option.split_asm)

lemma officeCreateBody_Done:
  "officeCreateBody en me title category amount description fileName data db objs = (o', Inr (d, x)) \<Longrightarrow> isDone x"
  by (auto simp: officeCreateBody_def Let_def split: sum.split_asm prod.split_asm)

lemma officeCreate_kept:
  assumes "officeCreateTransaction en me form st = ((db', objs'), r)" "\<not> isDone r"
  shows "db' = fst st"
  using assms unfolding officeCreateTransaction_def Let_def
  by (auto split: option.split_asm if_split_asm elim!: inTxO_kept intro: officeCreateBody_Done)

lemma officeSetRole_kept:
  assumes "officeSetRole en db me account body = (db', r)" "\<not> isDone r"
  shows "db' = db"
  using assms unfolding officeSetRole_def Let_def
  by (auto split: option.split_asm if_split_asm elim!: inTx_kept simp: bind_simps)

datatype api_call =
    ACreateTransaction "createTransactionRequest option"
  | ARecordEvent string "recordEventRequest option"
  | AApprove string "approveRequest option"
  | ACreateAsset "createAssetRequest option"
  | ARecordCustody string "recordCustodyEventRequest option"

fun apiStep :: "env \<Rightarrow> api_call \<Rightarrow> api_db \<Rightarrow> api_db \<times> response" where
  "apiStep en (ACreateTransaction body) db = apiCreateTransaction en db body"
| "apiStep en (ARecordEvent i body) db = apiRecordTransactionEvent en db i body"
| "apiStep en (AApprove i body) db = apiApproveTransaction en db i body"
| "apiStep en (ACreateAsset body) db = apiCreateAsset en db body"
| "apiStep en (ARecordCustody i body) db = apiRecordCustodyEvent en db i body"

lemma apiStep_kept:
  assumes "apiStep en c db = (db', r)" "\<not> isDone r"
  shows "db' = db"
proof (cases c)
  case (ACreateTransaction body)
  then show ?thesis using assms
    by (auto simp: apiCreateTransaction_def Let_def bind_simps split: option.split_asm if_split_asm elim!: inTx_kept)
next
  case (ARecordEvent i body)
  then show ?thesis using assms
    by (auto simp: apiRecordTransactionEvent_def Let_def split: option.split_asm if_split_asm elim!: inTx_kept
        split: sum.split_asm db_error.split_asm)
next
  case (AApprove i body)
  then show ?thesis using assms
    by (auto simp: apiApproveTransaction_def Let_def bind_simps split: option.split_asm if_split_asm elim!: inTx_kept)
next
  case (ACreateAsset body)
  then show ?thesis using assms
    by (auto simp: apiCreateAsset_def Let_def bind_simps split: option.split_asm if_split_asm elim!: inTx_kept)
next
  case (ARecordCustody i body)
  then show ?thesis using assms
    by (auto simp: apiRecordCustodyEvent_def inTx_def Let_def bindE_def or500_def split: option.split_asm if_split_asm sum.split_asm prod.split_asm)
qed

section \<open>Approval\<close>

lemma officeAction_done:
  assumes "officeAction en me i check apply st = ((db', objs'), r)" "isDone r"
    and "\<And>a b c x. check a b c = Some x \<Longrightarrow> \<not> isDone x"
    and "\<And>a b c d o' x. apply a b c d = (o', Inl x) \<Longrightarrow> \<not> isDone x"
  obtains t where "officeTxn (fst st) i = Some t" "visible me t" "check me (trCreatedBy t) (trStatus t) = None"
      "apply (fst st) (snd st) me (trCreatedBy t) = (objs', Inr db')"
proof -
  obtain c s where l: "lockTxn en (fst st) i = Inr (c, s)"
    using assms(1,2) unfolding officeAction_def inTxO_def
    by (cases "lockTxn en (fst st) i") (auto split: if_split_asm db_error.split_asm)
  obtain t where t: "officeTxn (fst st) i = Some t" "c = trCreatedBy t" "s = trStatus t"
    using lockTxn_Inr [OF l] by blast
  have "visible me t \<and> check me (trCreatedBy t) (trStatus t) = None \<and>
    apply (fst st) (snd st) me (trCreatedBy t) = (objs', Inr db')"
    using assms by (auto simp: officeAction_def inTxO_def l t(2,3) visible_def
        split: if_split_asm option.split_asm prod.split_asm sum.split_asm)
  then show ?thesis using that t(1) by blast
qed

lemma decisionCheck_fails: "decisionCheck a b c = Some x \<Longrightarrow> \<not> isDone x"
  by (auto simp: decisionCheck_def split: if_split_asm)

lemma verifyTTDApproval_fails: "verifyTTDApproval en db objs i me pid = (o', Inl x) \<Longrightarrow> \<not> isDone x"
  by (auto simp: verifyTTDApproval_def Let_def split: option.split_asm if_split_asm prod.split_asm sum.split_asm)

lemma or500_Inl: "or500 m = Inl x \<Longrightarrow> \<not> isDone x"
  by (auto simp: or500_def split: sum.split_asm)

lemma decisionApply_fails:
  assumes "decisionApply en i inp db objs me cb = (o', Inl x)"
  shows "\<not> isDone x"
  using assms unfolding decisionApply_def Let_def
  by (auto simp: bindE_def dest: verifyTTDApproval_fails or500_Inl
      split: option.split_asm if_split_asm prod.split_asm sum.split_asm db_error.split_asm)

lemma officeDecision_done:
  assumes "officeDecision en me i (Some inp) st = ((db', objs'), r)" "isDone r"
  obtains t where "officeTxn (fst st) i = Some t" "opCanApprove (permsFor me (trCreatedBy t) (trStatus t))"
      "decisionApply en i inp (fst st) (snd st) me (trCreatedBy t) = (objs', Inr db')"
      "drDecision inp = ''approve'' \<or> drDecision inp = ''reject''"
proof -
  have a: "officeAction en me i decisionCheck (decisionApply en i inp) st = ((db', objs'), r)"
    and d: "drDecision inp = ''approve'' \<or> drDecision inp = ''reject''"
    using assms by (auto simp: officeDecision_def Let_def split: if_split_asm)
  obtain t where t: "officeTxn (fst st) i = Some t" "decisionCheck me (trCreatedBy t) (trStatus t) = None"
    "decisionApply en i inp (fst st) (snd st) me (trCreatedBy t) = (objs', Inr db')"
    using a assms(2) by (rule officeAction_done) (auto dest: decisionCheck_fails decisionApply_fails)
  have "opCanApprove (permsFor me (trCreatedBy t) (trStatus t))"
    using t(2) by (auto simp: decisionCheck_def split: if_split_asm)
  then show ?thesis using that t d by blast
qed

text \<open>
  C15. An approval that the office API accepts was made by an approver who is not the creator, on a
  request waiting for a decision, with a TTD record that belongs to the approver, has status
  \<^verbatim>\<open>accepted\<close>, was made over the SHA-512 digest of the request's own attachment and whose signed PDF has the
  recorded digest.  Afterwards the request is ENDORSED and exactly one approval row, by this approver
  for this request, has been added.
\<close>

theorem approval_backed_by_signature:
  assumes "officeDecision en me i (Some inp) (db, objs) = ((db', objs'), Done status body)" "drDecision inp = ''approve''"
  shows "\<exists>t ttd rc att signed t' a.
    officeTxn db i = Some t \<and> trStatus t = ''VERIFIED'' \<and> oiOfficeRole me = roleApprover \<and> oiID me \<noteq> trCreatedBy t \<and>
    enTTD en = Some ttd \<and> ttdRecord ttd (drTTDPublicID inp) = Some rc \<and> ttdAccountID rc = oiID me \<and>
    ttdVerificationStatus rc = ''accepted'' \<and>
    find (\<lambda>d. drowOwnerID d = i \<and> drowKind d = ''attachment'') (dbDocs db) = Some att \<and>
    equalFold (ttdOriginalSHA512 rc) (drowSHA512 att) \<and>
    ttdSignedPDF ttd (drTTDPublicID inp) = Some signed \<and> equalFold (sha512Hex en signed) (ttdSignedSHA512 rc) \<and>
    txnRow db' i = Some t' \<and> trStatus t' = ''ENDORSED'' \<and>
    dbApprovals db' = dbApprovals db @ [a] \<and> apprTransactionID a = i \<and> apprApproverID a = oiID me \<and>
    apprDecision a = ''approve''"
proof -
  obtain t where t: "officeTxn db i = Some t" "opCanApprove (permsFor me (trCreatedBy t) (trStatus t))"
    and ap: "decisionApply en i inp db objs me (trCreatedBy t) = (objs', Inr db')"
    using assms(1) by (rule officeDecision_done) auto
  from ap assms(2) obtain sub db1 extra db2 ae db3 where
      v: "verifyTTDApproval en db objs i me (drTTDPublicID inp) = (objs', Inr (db1, extra))"
      and app: "appendTransactionEvent en db1 (decisionInput i me True extra) True = Inr (db2, ae)"
      and ins: "insertApproval en db2 (decisionRow en i me sub ''approve'') = Inr db3"
      and enq: "enqueueOutbox en ''outbox approve'' db3 ''transaction'' i ''transaction'' ''Approve''
         [AStr i, AStr (fmt_d (erowEventSequence sub)), AStr (oiID me), AStr ''approve'', AStr officePolicy] = Inr db'"
    by (rule decisionApply_approve)
  obtain ttd rc att signed d where ttd: "enTTD en = Some ttd" "ttdRecord ttd (drTTDPublicID inp) = Some rc"
    "ttdAccountID rc = oiID me" "ttdVerificationStatus rc = ''accepted''"
    "find (\<lambda>d. drowOwnerID d = i \<and> drowKind d = ''attachment'') (dbDocs db) = Some att"
    "equalFold (ttdOriginalSHA512 rc) (drowSHA512 att)" "ttdSignedPDF ttd (drTTDPublicID inp) = Some signed"
    "equalFold (sha512Hex en signed) (ttdSignedSHA512 rc)" and db1: "db1 = db\<lparr>dbDocs := dbDocs db @ [d]\<rparr>"
    using verifyTTDApproval_Inr [OF v] by blast
  have row: "txnRow db1 (eiTransactionID (decisionInput i me True extra)) = Some t"
    using officeTxn_row [OF t(1)] by (simp add: db1 txnRow_def decisionInput_def)
  obtain ob where db': "db' = db3\<lparr>dbOutbox := dbOutbox db3 @ [ob]\<rparr>" using enq by (rule enqueueOutbox_Inr)
  have db3: "db3 = db2\<lparr>dbApprovals := dbApprovals db2 @ [decisionRow en i me sub ''approve'']\<rparr>"
    by (rule insertApproval_Inr [OF ins])
  have "txnRow db' i = Some (t\<lparr>trStatus := ''ENDORSED'', trUpdatedAt := enTime en\<rparr>)"
    using append_rows(1) [OF app row, of i] by (simp add: db' db3 txnRow_def decisionInput_def)
  moreover have "dbApprovals db' = dbApprovals db @ [decisionRow en i me sub ''approve'']"
    using append_rows(2) [OF app row] by (simp add: db' db3 db1)
  ultimately show ?thesis using t ttd by (auto simp: permsFor_approve decisionRow_def)
qed

lemma sample_decision_done:
  "snd (officeDecision (sampleEnv ''2'') (person ''bob'' ''approver'') sampleTxn (Some sampleDecision) sample2) =
     Done 200 (JObj [(''id'', JStr sampleTxn), (''status'', JStr ''ok'')])"
  unfolding sample2_def sample1_def sampleTxn_def by (simp add: sample_eval)

lemma approval_backed_by_signature_witness:
  "\<exists>t' rc. txnRow (fst sample3) sampleTxn = Some t' \<and> trStatus t' = ''ENDORSED'' \<and>
     ttdRecord sampleTTD ''p'' = Some rc \<and> ttdAccountID rc = ''bob''"
proof -
  have "officeDecision (sampleEnv ''2'') (person ''bob'' ''approver'') sampleTxn (Some sampleDecision)
      (fst sample2, snd sample2) = ((fst sample3, snd sample3), Done 200 (JObj [(''id'', JStr sampleTxn), (''status'', JStr ''ok'')]))"
    using sample_decision_done by (simp add: sample3_def prod_eq_iff)
  from approval_backed_by_signature [OF this] show ?thesis
    by (auto simp: sampleDecision_def sampleEnv_def person_def)
qed

section \<open>File names\<close>




text \<open>
  C24. Confidentiality of requests: every request that the list, the detail page or a document download
  shows is one's own, or the reader is an approver, auditor or administrator; to anyone else the
  detail page and every action answer for an existing request exactly as for an unknown id.
\<close>

theorem requests_of_others_hidden:
  "(t \<in> set (listRows db me scope st) \<longrightarrow> visible me t) \<and>
   (officeGetTransaction en fabric db me i = Done k j \<longrightarrow> (\<exists>t. txnRow db i = Some t \<and> visible me t)) \<and>
   (officeDownload en me docID (db, objs) = DFile name data \<longrightarrow>
      (\<exists>d t. d \<in> set (dbDocs db) \<and> drowID d = docID \<and> txnRow db (drowOwnerID d) = Some t \<and> visible me t)) \<and>
   (txnRow db i = Some t' \<and> \<not> visible me t' \<longrightarrow>
      officeGetTransaction en fabric db me i = officeGetTransaction en fabric (db\<lparr>dbTxns := []\<rparr>) me i \<and>
      snd (officeAction en me i check apply (db, objs)) = snd (officeAction en me i check apply (db\<lparr>dbTxns := []\<rparr>, objs)))"
proof (intro conjI impI)
  assume "t \<in> set (listRows db me scope st)"
  then show "visible me t"
    by (auto simp: listRows_def listScope_def visible_def canSeeAll_def dest!: in_set_takeD
        split: option.split_asm if_split_asm)
next
  assume "officeGetTransaction en fabric db me i = Done k j"
  then show "\<exists>t. txnRow db i = Some t \<and> visible me t"
    by (auto simp: officeGetTransaction_def visible_def internalError_def intro: officeTxn_row
        split: if_split_asm option.split_asm)
next
  assume "officeDownload en me docID (db, objs) = DFile name data"
  then show "\<exists>d t. d \<in> set (dbDocs db) \<and> drowID d = docID \<and> txnRow db (drowOwnerID d) = Some t \<and> visible me t"
    by (force simp: officeDownload_def visible_def find_Some_iff in_set_conv_nth intro: officeTxn_row
        split: if_split_asm option.split_asm)
next
  assume h: "txnRow db i = Some t' \<and> \<not> visible me t'"
  have n: "officeTxn (db\<lparr>dbTxns := []\<rparr>) i = None" by (simp add: officeTxn_def txnRow_def)
  show "officeGetTransaction en fabric db me i = officeGetTransaction en fabric (db\<lparr>dbTxns := []\<rparr>) me i"
    using h n by (auto simp: officeGetTransaction_def officeTxn_def [of db] visible_def)
  show "snd (officeAction en me i check apply (db, objs)) = snd (officeAction en me i check apply (db\<lparr>dbTxns := []\<rparr>, objs))"
    using h n by (auto simp: officeAction_def inTxO_def lockTxn_def stmt_def orErr_def officeTxn_def [of db] visible_def
        split: if_splits)
qed

lemma requests_of_others_hidden_witness:
  "officeGetTransaction (sampleEnv ''9'') True (fst sample1) (person ''eve'' ''requester'') sampleTxn =
     officeGetTransaction (sampleEnv ''9'') True ((fst sample1)\<lparr>dbTxns := []\<rparr>) (person ''eve'' ''requester'') sampleTxn"
proof -
  have "map_option trCreatedBy (txnRow (fst sample1) sampleTxn) = Some ''al''"
    unfolding sample1_def sampleTxn_def by (simp add: sample_eval)
  then obtain t where t: "txnRow (fst sample1) sampleTxn = Some t" "trCreatedBy t = ''al''" by auto
  then have "\<not> visible (person ''eve'' ''requester'') t"
    by (simp add: visible_def canSeeAll_def isAdmin_def person_def roleApprover_def roleAuditor_def)
  then show ?thesis using requests_of_others_hidden t(1) by blast
qed

text \<open>
  C23. Nothing is half done: when a handler of the ledger API or of the office app answers with an error, the
  database is what it was, whichever statement failed.
\<close>

theorem failed_request_keeps_database:
  "(apiStep en c db = (db', Fail k m) \<longrightarrow> db' = db) \<and>
   (officeStep en me oc (db, objs) = ((db', objs'), Fail k m) \<longrightarrow> db' = db)"
proof (intro conjI impI)
  assume "apiStep en c db = (db', Fail k m)"
  then show "db' = db" by (rule apiStep_kept) simp
next
  assume s: "officeStep en me oc (db, objs) = ((db', objs'), Fail k m)"
  show "db' = db"
  proof (cases oc)
    case (OCreate form)
    then show ?thesis using s officeCreate_kept [of en me form "(db, objs)"] by simp
  next
    case (OSetRole account body)
    then show ?thesis using s officeSetRole_kept [of en db me account body] by (auto simp: onDB_def prod_eq_iff)
  qed (use s in \<open>auto simp: officeSubmit_def officeComplete_def officeCancel_def simpleStep_def officeDecision_def Let_def
      dest: officeAction_kept split: option.split_asm if_split_asm\<close>)
qed

lemma failed_request_keeps_database_witness:
  "fst (fst (officeStep (sampleEnv ''9'') (person ''al'' ''requester'') (OComplete sampleTxn) sample1)) = fst sample1"
proof -
  have "\<exists>k m. snd (officeStep (sampleEnv ''9'') (person ''al'' ''requester'') (OComplete sampleTxn) sample1) = Fail k m"
    unfolding sample1_def sampleTxn_def by (simp add: sample_eval)
  then obtain k m db' objs' where "officeStep (sampleEnv ''9'') (person ''al'' ''requester'') (OComplete sampleTxn)
      (fst sample1, snd sample1) = ((db', objs'), Fail k m)"
    by (metis prod.collapse)
  then show ?thesis using failed_request_keeps_database by (metis fst_conv prod.collapse)
qed

text \<open>
  C39. The status graph that the office handlers enforce is the chaincode's without revocation, so a step the office
  accepts is never refused by the contract for its status.
\<close>

theorem office_transitions_are_chaincode_transitions:
  "canTransition cur nxt \<longleftrightarrow> nxt \<noteq> ''REVOKED'' \<and> isTransitionAllowed cur nxt"
  by (rule canTransition_iff)

text \<open>
  Nobody gets an office identity without the proxy's shared secret, and with it the identity is the
  trimmed, non-empty account id with one of the three office roles; a database without an entry for the account gives
  the least privileged role.  Provisioning changes no table but the users'.
\<close>

theorem officeAuth_identity:
  assumes "officeAuth en secret db hdr = (db', Inr me)"
  shows "secret = Some (hdSecret hdr) \<and> hdSecret hdr \<noteq> [] \<and> oiID me = trimSpace (hdAccount hdr) \<and> oiID me \<noteq> [] \<and>
    validOfficeRoles (oiOfficeRole me) \<and>
    (map_of (dbOfficeRoles db) (oiID me) = None \<longrightarrow> oiOfficeRole me = roleRequester) \<and>
    db' = db\<lparr>dbUsers := dbUsers db'\<rparr> \<and> map_of (dbUsers db') (oiID me) \<noteq> None"
proof -
  let ?i = "trimSpace (hdAccount hdr)"
  have s: "secret = Some (hdSecret hdr)" "hdSecret hdr \<noteq> []" and i: "?i \<noteq> []" and f: "\<not> enFault en ''provision identity''"
    using assms by (auto simp: officeAuth_def Let_def split: if_split_asm)
  let ?name = "if trimSpace (hdName hdr) = [] then trimSpace (hdEmail hdr) else trimSpace (hdName hdr)"
  let ?users = "case map_of (dbUsers db) ?i of
      None \<Rightarrow> dbUsers db @ [(?i, \<lparr>urDisplayName = ?name, urRole = ''requester'', urEmail = trimSpace (hdEmail hdr)\<rparr>)]
    | Some _ \<Rightarrow> AList.map_entry ?i (\<lambda>u. u\<lparr>urDisplayName := ?name, urEmail := trimSpace (hdEmail hdr)\<rparr>) (dbUsers db)"
  let ?role = "if enFault en ''select role'' then roleRequester
     else case map_of (dbOfficeRoles db) ?i of
         Some r \<Rightarrow> if validOfficeRoles r then r else roleRequester | None \<Rightarrow> roleRequester"
  have r: "db' = db\<lparr>dbUsers := ?users\<rparr>" "oiID me = ?i" "oiOfficeRole me = ?role"
    using assms s i f by (simp_all add: officeAuth_def Let_def case_prod_beta split: prod.split_asm) auto
  have "map_of ?users ?i \<noteq> None" by (auto simp: map_of_map_entry map_add_def split: option.split)
  moreover have "validOfficeRoles ?role" by (auto simp: validOfficeRoles_def split: option.split)
  ultimately show ?thesis using s i r by simp
qed

lemma officeAuth_identity_witness:
  "\<exists>me db. officeAuth (sampleEnv ''0'') (Some ''s'') emptyDB \<lparr>hdSecret = ''s'', hdAccount = ''abc'', hdEmail = [],
     hdName = [], hdRole = []\<rparr> = (db, Inr me) \<and> oiID me = ''abc'' \<and> oiOfficeRole me = roleRequester \<and>
     map_of (dbUsers db) ''abc'' \<noteq> None"
proof -
  let ?a = "officeAuth (sampleEnv ''0'') (Some ''s'') emptyDB \<lparr>hdSecret = ''s'', hdAccount = ''abc'',
     hdEmail = [], hdName = [], hdRole = []\<rparr>"
  let ?me = "\<lparr>oiID = ''abc'', oiEmail = [], oiName = [], oiTTDRole = [], oiOfficeRole = roleRequester,
     oiOrgID = [], oiOrgName = []\<rparr>"
  have "snd ?a = Inr ?me" by (simp add: officeAuth_def sampleEnv_def emptyDB_def sample_trim Let_def)
  then obtain db where a: "?a = (db, Inr ?me)" by (cases ?a) auto
  from officeAuth_identity [OF a] have "map_of (dbUsers db) ''abc'' \<noteq> None" by simp
  then show ?thesis using a by auto
qed

end
