(* ===== verification/Outbox_Worker.thy ===== *)
theory Outbox_Worker
  imports Office_Runs "HOL-Library.Multiset"
begin

text \<open>
  The relay between the outbox table and the ledger, \<^verbatim>\<open>api/internal/outbox/worker.go\<close>.

  Submitting to Fabric is the argument \<open>submit\<close>: from the ledger state, the chaincode, the function and
  the arguments it gives the new ledger state and whether the gateway reported success (a
  transaction may have been committed although an error is reported).  What is outside
  the worker in one batch is the record \<open>wenv\<close>: the clock, which statements fail, the rows
  another worker holds locked, and the order in which the database returns the due rows
  (\<^verbatim>\<open>ORDER BY created_at\<close> leaves rows of one database transaction in any order).
  Times are in seconds.
\<close>

section \<open>The worker\<close>

record wenv =
  wkNow :: int
  wkNowAt :: "string \<Rightarrow> int"
  wkFault :: "string \<Rightarrow> bool"
  wkLocked :: "string \<Rightarrow> bool"
  wkOrder :: "outbox_row list \<Rightarrow> outbox_row list"

type_synonym 's submit = "'s \<Rightarrow> string \<Rightarrow> string \<Rightarrow> arg list \<Rightarrow> 's \<times> bool"

definition batchSize :: nat where
  "batchSize = 20"

definition updateRow :: "string \<Rightarrow> (outbox_row \<Rightarrow> outbox_row) \<Rightarrow> outbox_row list \<Rightarrow> outbox_row list" where
  "updateRow i f = map (\<lambda>r. if obID r = i then f r else r)"

definition backoff :: "int \<Rightarrow> int" where
  "backoff attempts = min 60 (2 ^ nat attempts)"

definition failedRow :: "wenv \<Rightarrow> int \<Rightarrow> string \<Rightarrow> int \<Rightarrow> outbox_row \<Rightarrow> outbox_row" where
  "failedRow W maxAttempts i attempts r =
     r\<lparr>obStatus := (if attempts \<ge> maxAttempts then ''dead_letter'' else ''pending''), obAttempts := attempts,
       obNextAttemptAt := wkNowAt W i + backoff attempts\<rparr>"

definition markFailed :: "wenv \<Rightarrow> int \<Rightarrow> api_db \<Rightarrow> outbox_row \<Rightarrow> int \<Rightarrow> api_db" where
  "markFailed W maxAttempts db r attempts =
     (if wkFault W (''mark failed '' @ obID r) then db
      else db\<lparr>dbOutbox := updateRow (obID r) (failedRow W maxAttempts (obID r) attempts) (dbOutbox db)\<rparr>)"

definition submitOne :: "wenv \<Rightarrow> int \<Rightarrow> 's submit \<Rightarrow> outbox_row \<Rightarrow> api_db \<times> 's \<Rightarrow> api_db \<times> 's" where
  "submitOne W maxAttempts submit r st =
     (let (db, s) = st in
      case obPayload r of
        None \<Rightarrow> (markFailed W maxAttempts db r maxAttempts, s)
      | Some args \<Rightarrow>
          let (s', ok) = submit s (obChaincodeName r) (obFnName r) args in
          if \<not> ok then (markFailed W maxAttempts db r (obAttempts r + 1), s')
          else if wkFault W (''mark sent '' @ obID r) then (db, s')
          else (db\<lparr>dbOutbox := updateRow (obID r) (\<lambda>r. r\<lparr>obStatus := ''sent''\<rparr>) (dbOutbox db)\<rparr>, s'))"

definition due :: "wenv \<Rightarrow> outbox_row \<Rightarrow> bool" where
  "due W r \<longleftrightarrow> obStatus r = ''pending'' \<and> obNextAttemptAt r \<le> wkNow W \<and> \<not> wkLocked W (obID r)"

definition claim :: "wenv \<Rightarrow> outbox_row list \<Rightarrow> outbox_row list" where
  "claim W rows = take batchSize (wkOrder W (filter (due W) rows))"

definition processBatch :: "wenv \<Rightarrow> int \<Rightarrow> 's submit \<Rightarrow> api_db \<times> 's \<Rightarrow> (api_db \<times> 's) \<times> (string + nat)" where
  "processBatch W maxAttempts submit st =
     (if wkFault W ''begin'' then (st, Inl ''begin'')
      else if wkFault W ''query pending'' then (st, Inl ''query pending'')
      else
        let claimed = claim W (dbOutbox (fst st)) in
        if claimed = [] then (st, Inr 0)
        else if wkFault W ''commit claim'' then (st, Inl ''commit claim'')
        else (fold (submitOne W maxAttempts submit) claimed st, Inr (length claimed)))"

text \<open>
  The inner loop of \<^verbatim>\<open>Run\<close>: batches back to back until one is empty or fails.  \<open>W k\<close> is what batch \<open>k\<close> meets;
  \<open>None\<close> is a loop that has not ended within the fuel.
\<close>

fun drain :: "nat \<Rightarrow> (nat \<Rightarrow> wenv) \<Rightarrow> int \<Rightarrow> 's submit \<Rightarrow> api_db \<times> 's \<Rightarrow> (api_db \<times> 's) option" where
  "drain 0 W maxAttempts submit st = None"
| "drain (Suc fuel) W maxAttempts submit st =
     (case processBatch (W 0) maxAttempts submit st of
        (st', Inl e) \<Rightarrow> Some st'
      | (st', Inr n) \<Rightarrow> if n = 0 then Some st' else drain fuel (\<lambda>k. W (Suc k)) maxAttempts submit st')"

section \<open>Updating rows\<close>

lemma updateRow_ids [simp]: "(\<And>r. obID (f r) = obID r) \<Longrightarrow> map obID (updateRow i f rows) = map obID rows"
  by (induction rows) (simp_all add: updateRow_def)

lemma failedRow_fields [simp]:
  "obID (failedRow W m i a r) = obID r" "obPayload (failedRow W m i a r) = obPayload r"
  "obChaincodeName (failedRow W m i a r) = obChaincodeName r" "obFnName (failedRow W m i a r) = obFnName r"
  "obAttempts (failedRow W m i a r) = a"
  "obStatus (failedRow W m i a r) = (if a \<ge> m then ''dead_letter'' else ''pending'')"
  by (simp_all add: failedRow_def)

lemma updateRow_other:
  "r \<in> set rows \<Longrightarrow> obID r \<noteq> i \<Longrightarrow> r \<in> set (updateRow i f rows)"
  by (force simp: updateRow_def)

definition rowWork :: "int \<Rightarrow> outbox_row \<Rightarrow> nat" where
  "rowWork m r = (if obStatus r = ''pending'' then Suc (nat (m - obAttempts r)) else 0)"

definition work :: "int \<Rightarrow> outbox_row list \<Rightarrow> nat" where
  "work m rows = sum_list (map (rowWork m) rows)"

lemma work_update:
  assumes "distinct (map obID rows)" "r \<in> set rows"
  shows "work m (updateRow (obID r) f rows) + rowWork m r = work m rows + rowWork m (f r)"
  using assms
proof (induction rows)
  case (Cons x rows)
  show ?case
  proof (cases "x = r")
    case True
    have "updateRow (obID r) f rows = rows"
      using Cons.prems True by (auto simp: updateRow_def image_iff intro!: map_idI)
    then show ?thesis using True by (simp add: work_def updateRow_def)
  next
    case False
    then have "obID x \<noteq> obID r" using Cons.prems by (auto simp: image_iff)
    then show ?thesis using Cons False by (simp add: work_def updateRow_def)
  qed
qed simp

section \<open>Every batch makes progress\<close>

definition marksSucceed :: "wenv \<Rightarrow> bool" where
  "marksSucceed W \<longleftrightarrow> (\<forall>i. \<not> wkFault W (''mark failed '' @ i) \<and> \<not> wkFault W (''mark sent '' @ i))"

definition ordersRows :: "wenv \<Rightarrow> bool" where
  "ordersRows W \<longleftrightarrow> (\<forall>rows. mset (wkOrder W rows) = mset rows)"

lemma submitOne_row:
  assumes "marksSucceed W"
  obtains f where "dbOutbox (fst (submitOne W m submit r st)) = updateRow (obID r) f (dbOutbox (fst st))"
    "\<And>x. obID (f x) = obID x"
    "obStatus r = ''pending'' \<Longrightarrow> rowWork m (f r) < rowWork m r"
proof (cases "obPayload r")
  case None
  show ?thesis
    by (rule that [of "failedRow W m (obID r) m"])
      (use assms None in \<open>auto simp: submitOne_def markFailed_def marksSucceed_def rowWork_def split: prod.split\<close>)
next
  case (Some args)
  obtain s' ok where sub: "submit (snd st) (obChaincodeName r) (obFnName r) args = (s', ok)" by fastforce
  show ?thesis
  proof (cases ok)
    case True
    show ?thesis
      by (rule that [of "\<lambda>r. r\<lparr>obStatus := ''sent''\<rparr>"])
        (use assms Some sub True in \<open>auto simp: submitOne_def marksSucceed_def rowWork_def split: prod.split\<close>)
  next
    case False
    show ?thesis
      by (rule that [of "failedRow W m (obID r) (obAttempts r + 1)"])
        (use assms Some sub False in \<open>auto simp: submitOne_def markFailed_def marksSucceed_def rowWork_def
          nat_less_eq_zless split: prod.split\<close>)
  qed
qed

lemma submitOnes_work:
  assumes "marksSucceed W" "distinct (map obID (dbOutbox (fst st)))" "distinct (map obID rs)"
    and "set rs \<subseteq> set (dbOutbox (fst st))" "\<forall>r \<in> set rs. obStatus r = ''pending''"
  shows "map obID (dbOutbox (fst (fold (submitOne W m submit) rs st))) = map obID (dbOutbox (fst st)) \<and>
    work m (dbOutbox (fst (fold (submitOne W m submit) rs st))) + length rs \<le> work m (dbOutbox (fst st))"
  using assms(2-)
proof (induction rs arbitrary: st)
  case (Cons r rs)
  let ?st = "submitOne W m submit r st"
  obtain f where f: "dbOutbox (fst ?st) = updateRow (obID r) f (dbOutbox (fst st))" "\<And>x. obID (f x) = obID x"
    "rowWork m (f r) < rowWork m r"
    using submitOne_row [OF assms(1), of m submit r st] Cons.prems(4) by auto
  have ids: "map obID (dbOutbox (fst ?st)) = map obID (dbOutbox (fst st))" by (simp add: f(1,2))
  have sub: "set rs \<subseteq> set (dbOutbox (fst ?st))"
    using Cons.prems(2,3) by (auto simp: f(1) image_iff intro!: updateRow_other)
  have "work m (dbOutbox (fst ?st)) < work m (dbOutbox (fst st))"
    using work_update [OF Cons.prems(1), of r m f] f(1,3) Cons.prems(3) by simp
  moreover have "map obID (dbOutbox (fst (fold (submitOne W m submit) rs ?st))) = map obID (dbOutbox (fst ?st)) \<and>
    work m (dbOutbox (fst (fold (submitOne W m submit) rs ?st))) + length rs \<le> work m (dbOutbox (fst ?st))"
    by (rule Cons.IH) (use Cons.prems sub ids in \<open>simp_all\<close>)
  ultimately show ?case using ids by simp
qed simp

lemma claim_props:
  assumes "ordersRows W" "distinct (map obID rows)"
  shows "set (claim W rows) \<subseteq> set rows" "distinct (map obID (claim W rows))"
    "\<forall>r \<in> set (claim W rows). obStatus r = ''pending''"
proof -
  have m: "mset (wkOrder W (filter (due W) rows)) = mset (filter (due W) rows)"
    using assms(1) by (simp add: ordersRows_def)
  have s: "set (wkOrder W (filter (due W) rows)) = {r \<in> set rows. due W r}"
    using arg_cong [OF m, of set_mset] by simp
  show "set (claim W rows) \<subseteq> set rows" "\<forall>r \<in> set (claim W rows). obStatus r = ''pending''"
    using s by (auto simp: claim_def due_def dest!: in_set_takeD)
  have "distinct (map obID (filter (due W) rows))" using assms(2) by (rule distinct_map_filter)
  then have "distinct (map obID (wkOrder W (filter (due W) rows)))"
    using m by (metis mset_eq_imp_distinct_iff mset_map)
  then show "distinct (map obID (claim W rows))" by (simp add: claim_def take_map [symmetric] distinct_take)
qed

lemma processBatch_progress:
  assumes "marksSucceed W" "ordersRows W" "distinct (map obID (dbOutbox (fst st)))"
    and "processBatch W m submit st = (st', Inr n)"
  shows "distinct (map obID (dbOutbox (fst st')))" "work m (dbOutbox (fst st')) + n \<le> work m (dbOutbox (fst st))"
  using assms(4) submitOnes_work [OF assms(1,3) claim_props(2,1,3) [OF assms(2,3)], of m submit] assms(3)
  by (auto simp: processBatch_def Let_def split: if_split_asm)

section \<open>The fate of a row\<close>

text \<open>
  How one pass of the worker may change a row: not at all, or, from pending, to sent, to a later
  attempt, or to the dead letters once the attempts are used up or the payload cannot be read.
\<close>

definition rowStep :: "int \<Rightarrow> outbox_row \<Rightarrow> outbox_row \<Rightarrow> bool" where
  "rowStep m r r' \<longleftrightarrow> r' = r \<or>
     obStatus r = ''pending'' \<and> obID r' = obID r \<and> obPayload r' = obPayload r \<and>
     obChaincodeName r' = obChaincodeName r \<and> obFnName r' = obFnName r \<and>
     (obStatus r' = ''sent'' \<and> obAttempts r' = obAttempts r \<and> obPayload r \<noteq> None \<or>
      obStatus r' = ''pending'' \<and> obAttempts r' = obAttempts r + 1 \<and> obAttempts r' < m \<and> obPayload r \<noteq> None \<or>
      obStatus r' = ''dead_letter'' \<and> obAttempts r' \<ge> m)"

lemma submitOne_rows:
  assumes "distinct (map obID (dbOutbox (fst st)))" "r \<in> set (dbOutbox (fst st))" "obStatus r = ''pending''"
  shows "list_all2 (rowStep m) (dbOutbox (fst st)) (dbOutbox (fst (submitOne W m submit r st)))"
    "\<forall>x \<in> set (dbOutbox (fst st)). obID x \<noteq> obID r \<longrightarrow> x \<in> set (dbOutbox (fst (submitOne W m submit r st)))"
proof -
  have refl: "list_all2 (rowStep m) rows rows" for rows by (simp add: list_all2_refl rowStep_def)
  have upd: "list_all2 (rowStep m) (dbOutbox (fst st)) (updateRow (obID r) f (dbOutbox (fst st)))" if "rowStep m r (f r)" for f
    unfolding updateRow_def list.rel_map
  proof (rule list.rel_refl_strong)
    fix x assume x: "x \<in> set (dbOutbox (fst st))"
    show "rowStep m x (if obID x = obID r then f x else x)"
      using that x assms(1,2) by (auto simp: distinct_map inj_on_def rowStep_def)
  qed
  have steps: "rowStep m r (r\<lparr>obStatus := ''sent''\<rparr>)" "rowStep m r (failedRow W m (obID r) (obAttempts r + 1) r)"
    if "obPayload r \<noteq> None"
    using assms(3) that by (auto simp: rowStep_def)
  have dead: "rowStep m r (failedRow W m (obID r) m r)"
    using assms(3) by (auto simp: rowStep_def)
  show "list_all2 (rowStep m) (dbOutbox (fst st)) (dbOutbox (fst (submitOne W m submit r st)))"
    using steps dead
    by (auto simp: submitOne_def markFailed_def Let_def case_prod_beta refl split: option.split intro!: upd)
  show "\<forall>x \<in> set (dbOutbox (fst st)). obID x \<noteq> obID r \<longrightarrow> x \<in> set (dbOutbox (fst (submitOne W m submit r st)))"
    by (auto simp: submitOne_def markFailed_def Let_def case_prod_beta intro: updateRow_other split: option.split)
qed

lemma rowStep_ids: "list_all2 (rowStep m) rows rows' \<Longrightarrow> map obID rows' = map obID rows"
  by (induction rows rows' rule: list_all2_induct) (auto simp: rowStep_def)

lemma rowStep_refl: "list_all2 (rowStep m) rows rows"
  by (simp add: list_all2_refl rowStep_def)

lemma nth_by_id:
  assumes "map obID xs = map obID ys" "distinct (map obID ys)" "n < length xs" "xs ! n \<in> set ys"
  shows "ys ! n = xs ! n"
proof -
  have len: "length xs = length ys" using assms(1) by (metis length_map)
  obtain k where k: "k < length ys" "ys ! k = xs ! n" using assms(4) by (auto simp: in_set_conv_nth)
  have "map obID ys ! k = map obID ys ! n"
    using k assms(3) arg_cong [OF assms(1), of "\<lambda>l. l ! n"] len by simp
  then have "k = n" using assms(2,3) k(1) len nth_eq_iff_index_eq [of "map obID ys" k n] by simp
  then show ?thesis using k(2) by simp
qed

text \<open>Within a batch every row is touched at most once.\<close>

lemma submitOnes_rows:
  assumes "distinct (map obID (dbOutbox (fst st)))" "distinct (map obID rs)"
    and "set rs \<subseteq> set (dbOutbox (fst st))" "\<forall>r \<in> set rs. obStatus r = ''pending''"
  shows "list_all2 (rowStep m) (dbOutbox (fst st)) (dbOutbox (fst (fold (submitOne W m submit) rs st))) \<and>
    (\<forall>x \<in> set (dbOutbox (fst st)). obID x \<notin> obID ` set rs \<longrightarrow>
       x \<in> set (dbOutbox (fst (fold (submitOne W m submit) rs st))))"
  using assms
proof (induction rs arbitrary: st)
  case (Cons r rs)
  let ?st = "submitOne W m submit r st"
  let ?fin = "fold (submitOne W m submit) rs ?st"
  have r: "r \<in> set (dbOutbox (fst st))" "obStatus r = ''pending''" using Cons.prems by auto
  note one = submitOne_rows [OF Cons.prems(1) r, where m = m and W = W and submit = submit]
  have ids: "map obID (dbOutbox (fst ?st)) = map obID (dbOutbox (fst st))" by (rule rowStep_ids [OF one(1)])
  have "set rs \<subseteq> set (dbOutbox (fst ?st))" using Cons.prems(2,3) one(2) by (fastforce simp: image_iff)
  then have ih: "list_all2 (rowStep m) (dbOutbox (fst ?st)) (dbOutbox (fst ?fin)) \<and>
      (\<forall>x \<in> set (dbOutbox (fst ?st)). obID x \<notin> obID ` set rs \<longrightarrow> x \<in> set (dbOutbox (fst ?fin)))"
    using Cons.IH [of ?st] Cons.prems ids by simp
  have "rowStep m (dbOutbox (fst st) ! n) (dbOutbox (fst ?fin) ! n)" if n: "n < length (dbOutbox (fst st))" for n
  proof -
    let ?x = "dbOutbox (fst st) ! n" and ?y = "dbOutbox (fst ?st) ! n" and ?z = "dbOutbox (fst ?fin) ! n"
    have xy: "rowStep m ?x ?y" and yz: "rowStep m ?y ?z" and len: "n < length (dbOutbox (fst ?st))"
      using one(1) ih n by (auto simp: list_all2_conv_all_nth)
    show ?thesis
    proof (cases "obID ?x = obID r")
      case False
      then have "?x \<in> set (dbOutbox (fst ?st))" using one(2) n by (metis nth_mem)
      then have "?y = ?x" using nth_by_id [of "dbOutbox (fst st)" "dbOutbox (fst ?st)"] ids n Cons.prems(1) by simp
      then show ?thesis using yz by simp
    next
      case True
      then have y: "obID ?y \<notin> obID ` set rs" using xy Cons.prems(2) by (auto simp: rowStep_def)
      then have "?y \<in> set (dbOutbox (fst ?fin))" using ih len by auto
      moreover have "obID ?z = obID ?y" using yz by (auto simp: rowStep_def)
      moreover have "?z \<in> set (dbOutbox (fst ?fin))" "distinct (map obID (dbOutbox (fst ?fin)))"
        using ih len ids Cons.prems(1) rowStep_ids by (auto simp: list_all2_conv_all_nth) (metis)
      ultimately have "?z = ?y" by (auto simp: distinct_map inj_on_def)
      then show ?thesis using xy by simp
    qed
  qed
  moreover have "length (dbOutbox (fst ?fin)) = length (dbOutbox (fst st))"
    using ih one(1) by (auto dest!: list_all2_lengthD)
  ultimately have "list_all2 (rowStep m) (dbOutbox (fst st)) (dbOutbox (fst ?fin))"
    by (simp add: list_all2_conv_all_nth)
  then show ?case using ih one(2) by auto
qed (simp add: rowStep_refl)

section \<open>Draining an outbox that the ledger accepts\<close>

text \<open>What submitting a row to the transaction contract does.\<close>

definition ccSubmit :: "('s, txn_value) stub_ops \<Rightarrow> 's submit" where
  "ccSubmit stub s chaincodeName fnName args =
     (if chaincodeName = ''transaction'' then
        (case dispatch fnName args of
           None \<Rightarrow> (s, False)
         | Some c \<Rightarrow> (case invoke stub s c of Inl _ \<Rightarrow> (s, False) | Inr s' \<Rightarrow> (s', True)))
      else (s, False))"

definition calm :: "wenv \<Rightarrow> bool" where
  "calm W \<longleftrightarrow> (\<forall>l. \<not> wkFault W l) \<and> (\<forall>i. \<not> wkLocked W i) \<and> (\<forall>rows. wkOrder W rows = rows)"

abbreviation sentRow :: "outbox_row \<Rightarrow> outbox_row" where
  "sentRow r \<equiv> r\<lparr>obStatus := ''sent''\<rparr>"

lemma updateRow_middle:
  assumes "distinct (map obID (a @ r # b))"
  shows "updateRow (obID r) f (a @ r # b) = a @ f r # b"
proof -
  have "updateRow (obID r) f xs = xs" if "obID r \<notin> obID ` set xs" for xs
    using that by (auto simp: updateRow_def image_iff intro!: map_idI)
  then show ?thesis using assms by (simp add: updateRow_def)
qed

lemma submitOnes_accepted:
  assumes "calm W" "list_all (\<lambda>r. obChaincodeName r = ''transaction'') rs"
    and "map rowCall rs = map Some cs" "ccRun stub s cs = Inr s'"
    and "dbOutbox db = a @ rs @ b" "distinct (map obID (dbOutbox db))"
  shows "fold (submitOne W m (ccSubmit stub)) rs (db, s) = (db\<lparr>dbOutbox := a @ map sentRow rs @ b\<rparr>, s')"
  using assms(2-)
proof (induction rs arbitrary: db s cs a)
  case (Cons r rs)
  obtain c cs' where cs: "cs = c # cs'" "rowCall r = Some c" "map rowCall rs = map Some cs'" using Cons.prems(2) by auto
  obtain args where args: "obPayload r = Some args" "dispatch (obFnName r) args = Some c"
    using cs(2) by (auto simp: rowCall_def split: option.split_asm)
  obtain s1 where s1: "invoke stub s c = Inr s1" "ccRun stub s1 cs' = Inr s'"
    using Cons.prems(3) cs(1) by (auto simp: bind_simps)
  let ?db = "db\<lparr>dbOutbox := (a @ [sentRow r]) @ rs @ b\<rparr>"
  have "submitOne W m (ccSubmit stub) r (db, s) = (?db, s1)"
    using assms(1) Cons.prems args s1 updateRow_middle [of a r "rs @ b" sentRow]
    by (simp add: submitOne_def ccSubmit_def calm_def)
  moreover have "fold (submitOne W m (ccSubmit stub)) rs (?db, s1) =
      (?db\<lparr>dbOutbox := (a @ [sentRow r]) @ map sentRow rs @ b\<rparr>, s')"
    by (rule Cons.IH [OF _ cs(3) s1(2)]) (use Cons.prems in auto)
  ultimately show ?case by simp
qed simp

lemma ccRun_append: "ccRun stub s (cs @ ds) = bindE (ccRun stub s cs) (\<lambda>s'. ccRun stub s' ds)"
  by (induction cs arbitrary: s) (auto simp: bindE_def split: sum.split)

lemma drain_accepted:
  assumes "\<forall>k. calm (W k)" "list_all (\<lambda>r. obChaincodeName r = ''transaction'' \<and> obStatus r = ''pending'') todo"
    and "\<forall>k. \<forall>r \<in> set todo. obNextAttemptAt r \<le> wkNow (W k)" "list_all (\<lambda>r. obStatus r \<noteq> ''pending'') gone"
    and "map rowCall todo = map Some cs" "ccRun stub s cs = Inr s'"
    and "dbOutbox db = gone @ todo" "distinct (map obID (dbOutbox db))" "length todo < fuel"
  shows "drain fuel W m (ccSubmit stub) (db, s) = Some (db\<lparr>dbOutbox := gone @ map sentRow todo\<rparr>, s')"
  using assms
proof (induction fuel arbitrary: W todo gone cs s db)
  case (Suc fuel)
  let ?now = "take batchSize todo" and ?later = "drop batchSize todo"
  have calm0: "calm (W 0)" using Suc.prems(1) by simp
  have gone: "filter (due (W 0)) gone = []" using Suc.prems(4) by (auto simp: filter_empty_conv list_all_iff due_def)
  have todo: "filter (due (W 0)) todo = todo"
    using Suc.prems(2,3) calm0 by (auto simp: filter_id_conv list_all_iff due_def calm_def)
  have claim: "claim (W 0) (dbOutbox db) = ?now"
    using calm0 gone todo by (simp add: claim_def calm_def Suc.prems(7))
  show ?case
  proof (cases "todo = []")
    case True
    then show ?thesis
      using claim calm0 Suc.prems by (simp add: processBatch_def calm_def)
  next
    case False
    have ne: "?now \<noteq> []" using False by (simp add: batchSize_def)
    have split: "map rowCall ?now = map Some (take batchSize cs)" "map rowCall ?later = map Some (drop batchSize cs)"
      using Suc.prems(5) by (metis take_map, metis drop_map)
    obtain s1 where s1: "ccRun stub s (take batchSize cs) = Inr s1" "ccRun stub s1 (drop batchSize cs) = Inr s'"
      using Suc.prems(6) ccRun_append [of stub s "take batchSize cs" "drop batchSize cs"]
      by (auto simp: bindE_def split: sum.split_asm)
    let ?db = "db\<lparr>dbOutbox := (gone @ map sentRow ?now) @ ?later\<rparr>"
    have fold: "fold (submitOne (W 0) m (ccSubmit stub)) ?now (db, s) = (db\<lparr>dbOutbox := gone @ map sentRow ?now @ ?later\<rparr>, s1)"
      by (rule submitOnes_accepted [OF calm0 _ split(1) s1(1)])
        (use Suc.prems in \<open>auto simp: list_all_iff dest: in_set_takeD\<close>)
    have batch: "processBatch (W 0) m (ccSubmit stub) (db, s) = ((?db, s1), Inr (length ?now))"
      using claim calm0 ne fold by (simp add: processBatch_def calm_def)
    have ids: "map obID (dbOutbox ?db) = map obID (dbOutbox db)"
      using Suc.prems(7) by (simp add: comp_def) (metis append_take_drop_id map_append)
    have "drain fuel (\<lambda>k. W (Suc k)) m (ccSubmit stub) (?db, s1) =
        Some (?db\<lparr>dbOutbox := (gone @ map sentRow ?now) @ map sentRow ?later\<rparr>, s')"
    proof (rule Suc.IH [OF _ _ _ _ split(2) s1(2)])
      show "length ?later < fuel" using Suc.prems(9) False by (cases todo) (auto simp: batchSize_def)
      show "distinct (map obID (dbOutbox ?db))" using ids Suc.prems(8) by simp
    qed (use Suc.prems in \<open>auto simp: list_all_iff dest: in_set_dropD in_set_takeD\<close>)
    moreover obtain n where "length ?now = Suc n" using ne by (cases ?now) auto
    then have "processBatch (W 0) m (ccSubmit stub) (db, s) = ((?db, s1), Inr (Suc n))" using batch by simp
    ultimately show ?thesis by (simp add: map_append [symmetric] del: map_append)
  qed
qed simp

end
