(* ===== verification/Outbox_Properties.thy ===== *)
theory Outbox_Properties
  imports Outbox_Worker Office_Sample
begin

text \<open>
  The properties of the outbox worker: no row is lost, the drain loop ends, and an outbox written by
  the office handlers ends up on the ledger.
\<close>

section \<open>The outbox of the office handlers\<close>

definition freshOutbox :: "api_db \<Rightarrow> bool" where
  "freshOutbox db \<longleftrightarrow> distinct (map obID (dbOutbox db)) \<and>
     list_all (\<lambda>r. obChaincodeName r = ''transaction'' \<and> obStatus r = ''pending'') (dbOutbox db)"

lemma freshOutbox_cong: "freshOutbox db \<Longrightarrow> dbOutbox db' = dbOutbox db \<Longrightarrow> freshOutbox db'"
  by (simp add: freshOutbox_def)

lemma enqueueOutbox_fresh:
  "freshOutbox db \<Longrightarrow> enqueueOutbox en l db at ai ''transaction'' fn args = Inr db' \<Longrightarrow> freshOutbox db'"
  by (fastforce simp: freshOutbox_def enqueueOutbox_def bind_simps list_ex_iff)

lemma append_fresh:
  assumes "freshOutbox db" "appendTransactionEvent en db inp upd = Inr (db', ae)"
  shows "freshOutbox db'"
proof -
  obtain e db1 db2 where ins: "insertEvent en db (eventRow en inp e) = Inr db1"
    and enq: "enqueueOutbox en ''outbox event'' db1 ''transaction'' (eiTransactionID inp) ''transaction'' ''RecordEvent''
       [AEvent e] = Inr db2"
    and u: "(if upd \<and> eiNewStatus inp \<noteq> []
            then updateTxnStatus en db2 (eiTransactionID inp) (eiNewStatus inp) else Inr db2) = Inr db'"
    using assms(2) unfolding appendTransactionEvent_def bind_simps by blast
  have "dbOutbox db1 = dbOutbox db" using ins by (auto simp: insertEvent_def bind_simps)
  then have "freshOutbox db2" using enq assms(1) freshOutbox_cong enqueueOutbox_fresh by blast
  moreover have "dbOutbox db' = dbOutbox db2"
    using u by (auto simp: updateTxnStatus_def bind_simps split: if_split_asm)
  ultimately show ?thesis by (rule freshOutbox_cong)
qed

lemma simpleStep_fresh:
  assumes "freshOutbox (fst st)" "simpleStep en me i eventType newStatus allowed msg st = ((db', objs'), r)"
  shows "freshOutbox db'"
  using assms(2) by (cases rule: simpleStep_cases) (use assms(1) append_fresh in auto)

lemma officeDecision_fresh:
  assumes "freshOutbox (fst st)" "officeDecision en me i body st = ((db', objs'), r)"
  shows "freshOutbox db'"
  using assms(2)
proof (cases rule: officeDecision_cases)
  case (2 t inp)
  show ?thesis
  proof (cases "drDecision inp = ''approve''")
    case True
    from 2(4) True obtain sub db1 extra db2 ae db3 where
      v: "verifyTTDApproval en (fst st) (snd st) i me (drTTDPublicID inp) = (objs', Inr (db1, extra))"
      and ap: "appendTransactionEvent en db1 (decisionInput i me True extra) True = Inr (db2, ae)"
      and ins: "insertApproval en db2 (decisionRow en i me sub ''approve'') = Inr db3"
      and enq: "enqueueOutbox en ''outbox approve'' db3 ''transaction'' i ''transaction'' ''Approve''
         [AStr i, AStr (fmt_d (erowEventSequence sub)), AStr (oiID me), AStr ''approve'', AStr officePolicy] = Inr db'"
      by (rule decisionApply_approve)
    have "dbOutbox db1 = dbOutbox (fst st)" using verifyTTDApproval_Inr [OF v] by auto
    then have "freshOutbox db2" using append_fresh [OF _ ap] freshOutbox_cong [OF assms(1)] by blast
    then have "freshOutbox db3" by (rule freshOutbox_cong) (simp add: insertApproval_Inr [OF ins])
    then show ?thesis using enq by (rule enqueueOutbox_fresh)
  next
    case False
    from 2(4) False obtain sub extra db2 ae where
      ap: "appendTransactionEvent en (fst st) (decisionInput i me False extra) True = Inr (db2, ae)"
      and ins: "insertApproval en db2 (decisionRow en i me sub (drDecision inp)) = Inr db'"
      by (rule decisionApply_reject)
    show ?thesis
      by (rule freshOutbox_cong [OF append_fresh [OF assms(1) ap]]) (simp add: insertApproval_Inr [OF ins])
  qed
qed (use assms(1) in simp)

lemma officeCreate_fresh:
  assumes "freshOutbox db"
    and "officeCreateBody en me title category amount description fileName data db objs = (objs', Inr (db', r))"
  shows "freshOutbox db'"
proof -
  let ?i = "''txn_'' @ enUUID en ''transaction''"
  let ?row = "\<lparr>trID = ?i, trOrganizationID = officeOrg, trWorkflowType = officeWorkflow,
              trSchemaVersion = officeSchema, trCreatedBy = oiID me, trStatus = ''DRAFT'', trUpdatedAt = enTime en,
              trOfficeMeta = Some (metaJSON title category amount description)\<rparr>"
  from assms(2) obtain db0 db1 db2 docID inp ae where ins: "insertTxn en db ?row = Inr db0"
    and enq: "enqueueOutbox en ''outbox create'' db0 ''transaction'' ?i ''transaction'' ''CreateTransaction''
               [AStr ?i, AStr officeOrg, AStr officeWorkflow, AStr officeSchema, AStr (oiID me)] = Inr db1"
    and sto: "storeDocument en db1 objs ?i ''attachment'' (cleanFileName fileName) (oiID me) data = (objs', Inr (db2, docID))"
    and app: "appendTransactionEvent en db2 inp True = Inr (db', ae)"
    unfolding officeCreateBody_def Let_def
    by (auto simp: bindE_def split: sum.split_asm prod.split_asm)
  have "freshOutbox db0" by (rule freshOutbox_cong [OF assms(1)]) (use ins in \<open>auto simp: insertTxn_def bind_simps\<close>)
  then have "freshOutbox db1" using enq by (rule enqueueOutbox_fresh)
  then have "freshOutbox db2" by (rule freshOutbox_cong) (use storeDocument_Inr [OF sto] in auto)
  then show ?thesis using app by (rule append_fresh)
qed

lemma officeStep_fresh:
  assumes "freshOutbox (fst st)" "officeStep en me c st = (st', r)"
  shows "freshOutbox (fst st')"
proof (cases c)
  case (OCreate form)
  obtain db' objs' where st': "st' = (db', objs')" by (cases st')
  have "officeCreateTransaction en me form st = ((db', objs'), r)" using assms(2) OCreate st' by simp
  then show ?thesis
    by (cases rule: officeCreateTransaction_cases) (use assms(1) st' officeCreate_fresh in auto)
next
  case (OSetRole account body)
  then have e: "officeSetRole en (fst st) me account body = (fst st', r)" using assms(2) by (auto simp: onDB_def)
  show ?thesis by (rule freshOutbox_cong [OF assms(1) officeSetRole_frame(3) [OF e]])
next
  case (ODecide i body)
  then show ?thesis using officeDecision_fresh [OF assms(1)] assms(2) by (cases st') auto
qed (use simpleStep_fresh [OF assms(1)] assms(2) in
    \<open>(cases st'; auto simp: officeSubmit_def officeComplete_def officeCancel_def)+\<close>)

lemma archiveRecord_fresh:
  assumes "freshOutbox db"
    and rec: "archiveRecord E me u itemID txnID receiptID key sum256 sum512 manifest (db, items) = Inr ((db', items'), receipt)"
  shows "freshOutbox db'"
  using rec
proof (rule record_steps)
  fix db0 db1 db2 db3 e1 e2 e3 p2 p3
  assume "insertTxn (aeEnv E) db (archiveTxn (aeEnv E) me u txnID) = Inr db0"
    and enq: "enqueueOutbox (aeEnv E) ''outbox create'' db0 ''transaction'' txnID ''transaction'' ''CreateTransaction''
      [AStr txnID, AStr (upOrgID u), AStr archiveWorkflow, AStr archiveSchema, AStr (oiID me)] = Inr db1"
    and a: "appendTransactionEvent (shareEnv ''1:'' (aeEnv E)) db1
       (archiveEvent txnID ''UPLOAD_RECEIVED'' (oiID me) manifest []) True = Inr (db2, e1)"
      "appendTransactionEvent (shareEnv ''2:'' (aeEnv E)) db2
       (archiveEvent txnID ''INTEGRITY_VERIFIED'' systemArchiveID p2 ''VERIFIED'') True = Inr (db3, e2)"
      "appendTransactionEvent (shareEnv ''3:'' (aeEnv E)) db3
       (archiveEvent txnID ''ARCHIVED'' systemArchiveID p3 ''ENDORSED'') True = Inr (db', e3)"
  then have "freshOutbox db0" using assms(1) by (auto simp: insertTxn_def bind_simps intro: freshOutbox_cong)
  then have "freshOutbox db1" using enq by (rule enqueueOutbox_fresh)
  then show "freshOutbox db'" using a append_fresh by blast
qed

lemma office_reach_fresh: "office_reach st \<Longrightarrow> freshOutbox (fst st)"
proof (induction rule: office_reach.induct)
  case (office_start db objs)
  then show ?case by (simp add: freshOutbox_def)
next
  case (office_step st en me c st' r)
  then show ?case using officeStep_fresh by blast
next
  case (archive_step st A cfg fabricEnabled me i client st' r)
  from archive_step(3) show ?case
  proof (cases rule: complete_record)
    case kept
    then show ?thesis using archive_step(4) by simp
  next
    case (recorded u itemID txnID receiptID key sum256 sum512 manifest receipt)
    then show ?thesis using archive_step(4) archiveRecord_fresh by fastforce
  qed
next
  case (other_step db objs db' objs')
  then show ?case using freshOutbox_cong [of db db'] by simp
qed

section \<open>Properties\<close>


definition quietWorker :: wenv where
  "quietWorker = \<lparr>wkNow = 10, wkNowAt = (\<lambda>_. 10), wkFault = (\<lambda>_. False), wkLocked = (\<lambda>_. False), wkOrder = (\<lambda>rows. rows)\<rparr>"



text \<open>
  C28. The drain loop ends, whatever the ledger answers and in whatever order the rows come: as long as
  the outcome of a submission can be written back, every batch uses up at least one of the
  attempts that the pending rows have left, so the loop returns within that many
  batches plus one.
\<close>

theorem outbox_drain_terminates:
  assumes "\<forall>k. marksSucceed (W k) \<and> ordersRows (W k)" "distinct (map obID (dbOutbox (fst st)))"
    and "work maxAttempts (dbOutbox (fst st)) < fuel"
  shows "\<exists>st'. drain fuel W maxAttempts submit st = Some st'"
  using assms
proof (induction fuel arbitrary: W st)
  case (Suc fuel)
  obtain st1 res where b: "processBatch (W 0) maxAttempts submit st = (st1, res)" by fastforce
  show ?case
  proof (cases res)
    case (Inr n)
    note p = processBatch_progress [OF _ _ Suc.prems(2) b [unfolded Inr]]
    show ?thesis
    proof (cases "n = 0")
      case False
      have "\<exists>st'. drain fuel (\<lambda>k. W (Suc k)) maxAttempts submit st1 = Some st'"
        by (rule Suc.IH) (use Suc.prems p False in auto)
      then show ?thesis using b Inr False by simp
    qed (use b Inr in simp)
  qed (use b in simp)
qed simp

lemma outbox_drain_terminates_witness:
  "\<exists>st'. drain 100 (\<lambda>k. quietWorker) 8 (\<lambda>s cc fn args. (s, False)) (fst sample4, ()) = Some st'"
proof (rule outbox_drain_terminates)
  show "\<forall>k::nat. marksSucceed quietWorker \<and> ordersRows quietWorker"
    by (simp add: marksSucceed_def ordersRows_def quietWorker_def)
  show "distinct (map obID (dbOutbox (fst (fst sample4, ()))))"
    using office_reach_fresh [OF sample_office_reach(4)] by (simp add: freshOutbox_def)
  show "work 8 (dbOutbox (fst (fst sample4, ()))) < 100"
    unfolding sample4_def sample3_def sample2_def sample1_def sampleTxn_def
    by (simp add: sample_eval work_def rowWork_def)
qed

text \<open>
  No row is ever lost or sent twice by mistake: whatever fails, a batch keeps every row with its
  payload and changes only pending ones, which become sent, get one more attempt below the limit, or
  become dead letters with all attempts used; a row that was sent or is a dead letter is never touched again.
\<close>

theorem outbox_row_fate:
  assumes "ordersRows W" "distinct (map obID (dbOutbox (fst st)))"
    and "processBatch W maxAttempts submit st = (st', res)"
  shows "list_all2 (rowStep maxAttempts) (dbOutbox (fst st)) (dbOutbox (fst st'))"
  using assms(3) submitOnes_rows [OF assms(2) claim_props(2,1,3) [OF assms(1,2)], of maxAttempts W submit]
  by (auto simp: processBatch_def Let_def rowStep_refl split: if_split_asm)

lemma outbox_row_fate_witness:
  "list_all2 (rowStep 8) (dbOutbox (fst sample4))
     (dbOutbox (fst (fst (processBatch quietWorker 8 (\<lambda>s cc fn args. (s, False)) (fst sample4, ())))))"
proof -
  have "ordersRows quietWorker" by (simp add: ordersRows_def quietWorker_def)
  moreover have "distinct (map obID (dbOutbox (fst (fst sample4, ()))))"
    using office_reach_fresh [OF sample_office_reach(4)] by (simp add: freshOutbox_def)
  ultimately show ?thesis
    using outbox_row_fate [of quietWorker "(fst sample4, ())" 8 "\<lambda>s cc fn args. (s, False)"] by (metis fst_conv surj_pair)
qed

end
