(* ===== verification/Indexer.thy ===== *)
theory Indexer
  imports Ledger_API "HOL-Library.Word" "HOL-Library.Sublist"
begin

text \<open>
  The indexer: \<^verbatim>\<open>indexer/main.go\<close> (the listener), \<^verbatim>\<open>internal/apply\<close> and \<^verbatim>\<open>internal/checkpoint\<close>.

  Block numbers are 64-bit words, stored in a signed column.  A chaincode event carries its
  payload as the idempotency key it decodes to (\<open>None\<close> when the JSON does not decode).
  The gateway's event stream is an argument: what one subscription delivers, each event with
  the statements that fail while it is handled.
\<close>

section \<open>State and events\<close>

record chaincodeEvent =
  cvName :: string
  cvBlock :: "64 word"
  cvTxID :: string
  cvKey :: "string option"

record indexer_state =
  ixDB :: api_db
  ixCheckpoint :: "(string \<times> int) list"

datatype index_error = UnmarshalPayload | UpdateFailed | CheckpointFailed

section \<open>Checkpoints\<close>


definition checkpointSave :: "(string \<Rightarrow> bool) \<Rightarrow> indexer_state \<Rightarrow> string \<Rightarrow> 64 word \<Rightarrow> index_error + indexer_state" where
  "checkpointSave fault st chaincodeName blockNumber =
     (if fault ''save checkpoint'' then Inl CheckpointFailed
      else Inr (st\<lparr>ixCheckpoint := AList.update chaincodeName
        (case map_of (ixCheckpoint st) chaincodeName of
           None \<Rightarrow> sint blockNumber
         | Some lastBlock \<Rightarrow> max lastBlock (sint blockNumber)) (ixCheckpoint st)\<rparr>))"

section \<open>Applying events\<close>

definition TransactionEventRecorded ::
  "(string \<Rightarrow> bool) \<Rightarrow> indexer_state \<Rightarrow> 64 word \<Rightarrow> string \<Rightarrow> string option \<Rightarrow> index_error + indexer_state" where
  "TransactionEventRecorded fault st blockNumber fabricTxID payload =
     (case payload of
        None \<Rightarrow> Inl UnmarshalPayload
      | Some key \<Rightarrow>
          if fault ''update transaction_event'' then Inl UpdateFailed
          else Inr (st\<lparr>ixDB := (ixDB st)\<lparr>dbEvents := map (\<lambda>r. if erowIdempotencyKey r = key
            then r\<lparr>erowFabricTxID := Some fabricTxID, erowFabricBlock := sint blockNumber\<rparr> else r) (dbEvents (ixDB st))\<rparr>\<rparr>))"

definition CustodyEventRecorded ::
  "(string \<Rightarrow> bool) \<Rightarrow> indexer_state \<Rightarrow> 64 word \<Rightarrow> string \<Rightarrow> string option \<Rightarrow> index_error + indexer_state" where
  "CustodyEventRecorded fault st blockNumber fabricTxID payload =
     (case payload of
        None \<Rightarrow> Inl UnmarshalPayload
      | Some key \<Rightarrow>
          if fault ''update custody_event'' then Inl UpdateFailed
          else Inr (st\<lparr>ixDB := (ixDB st)\<lparr>dbCustody := map (\<lambda>r. if ceIdempotencyKey (crowEvent r) = key
            then r\<lparr>crowFabricTxID := Some fabricTxID, crowFabricBlock := sint blockNumber\<rparr> else r) (dbCustody (ixDB st))\<rparr>\<rparr>))"

definition applyEvent :: "(string \<Rightarrow> bool) \<Rightarrow> indexer_state \<Rightarrow> chaincodeEvent \<Rightarrow> index_error + indexer_state" where
  "applyEvent fault st e =
     (if cvName e = ''TransactionEventRecorded'' then TransactionEventRecorded fault st (cvBlock e) (cvTxID e) (cvKey e)
      else if cvName e = ''CustodyEventRecorded'' then CustodyEventRecorded fault st (cvBlock e) (cvTxID e) (cvKey e)
      else Inr st)"

section \<open>The listener\<close>

text \<open>One event of the stream: a failed apply skips the checkpoint, a failed save is only logged.\<close>

definition streamStep :: "string \<Rightarrow> (string \<Rightarrow> bool) \<times> chaincodeEvent \<Rightarrow> indexer_state \<Rightarrow> indexer_state" where
  "streamStep chaincodeName fe st =
     (case applyEvent (fst fe) st (snd fe) of
        Inl _ \<Rightarrow> st
      | Inr st' \<Rightarrow> (case checkpointSave (fst fe) st' chaincodeName (cvBlock (snd fe)) of Inl _ \<Rightarrow> st' | Inr st'' \<Rightarrow> st''))"



section \<open>What has been indexed\<close>









definition blockOf :: "chaincodeEvent \<Rightarrow> int" where
  "blockOf e = uint (cvBlock e)"

definition checkpointOf :: "indexer_state \<Rightarrow> string \<Rightarrow> int" where
  "checkpointOf st cc = (case map_of (ixCheckpoint st) cc of None \<Rightarrow> 0 | Some n \<Rightarrow> n)"









lemma sint_small: "blockOf e < 2 ^ 63 \<Longrightarrow> sint (cvBlock e) = blockOf e"
  unfolding sint_uint blockOf_def
  by (rule signed_take_bit_int_eq_self) (simp_all add: order_trans [OF _ uint_ge_0])



section \<open>Resuming\<close>











section \<open>Properties\<close>






text \<open>
  A failed update does not hold the checkpoint back: the next event of the stream saves its own,
  higher block, and a later start from there does not deliver the failed event again.
\<close>

lemma failed_event_is_passed_over:
  assumes "fault ''update transaction_event''" "cvName e = ''TransactionEventRecorded''" "cvKey e = Some k"
    and "cvName d = ''TransactionCreated''" "blockOf e < blockOf d" "blockOf d < 2 ^ 63" "map_of (ixCheckpoint st) cc = None"
  shows "ixDB (fold (streamStep cc) [(fault, e), (\<lambda>_. False, d)] st) = ixDB st \<and>
    blockOf e < checkpointOf (fold (streamStep cc) [(fault, e), (\<lambda>_. False, d)] st) cc"
proof -
  have "streamStep cc (fault, e) st = st"
    using assms(1-3) by (simp add: streamStep_def applyEvent_def TransactionEventRecorded_def)
  moreover have "applyEvent (\<lambda>_. False) st d = Inr st" using assms(4) by (simp add: applyEvent_def)
  ultimately show ?thesis
    using assms(5-7) by (simp add: streamStep_def checkpointSave_def checkpointOf_def update_conv' sint_small)
qed

end
