(* ===== verification/Archive_Admin.thy ===== *)
theory Archive_Admin
  imports Archive_Finalize
begin

text \<open>
  The archive console and the re-verification of archived items,
  \<^verbatim>\<open>api/internal/httpapi/archive_verify.go\<close> and \<^verbatim>\<open>archive_admin.go\<close>.  The keys come from the table
  \<^verbatim>\<open>key_reference\<close>, an argument of the model.  A stream of bytes that a handler
  copies to the client is the value \<open>Stream\<close> (its disposition, its announced length, its bytes); the SQL predicate \<^verbatim>\<open>ILIKE\<close> is an argument.
\<close>

section \<open>Re-verification\<close>

record verifyCheck =
  vcName :: string
  vcOK :: bool
  vcDetail :: string

record archiveVerification =
  avOK :: bool
  avChecks :: "verifyCheck list"

datatype verify_error =
    NoItem
  | VerifyQuery
  | BadManifest
  | NoEvents
  | VerifyPanic

text \<open>\<open>Inl\<close> is the message naming the key that was not found.\<close>

definition lookupKeys :: "aenv \<Rightarrow> string \<Rightarrow> string \<Rightarrow> string + (VerificationKeys \<times> bool)" where
  "lookupKeys A classicalID pqcID =
     (case (if aeFault A ''select key'' then None else aeKeyReference A classicalID) of
        None \<Rightarrow> Inl (''kunci '' @ classicalID @ '' tidak ditemukan'')
      | Some (cpub, cstatus) \<Rightarrow>
      (case (if aeFault A ''select key'' then None else aeKeyReference A pqcID) of
        None \<Rightarrow> Inl (''kunci '' @ pqcID @ '' tidak ditemukan'')
      | Some (ppub, pstatus) \<Rightarrow>
          Inr ((if pqcID = classicalID then \<lparr>vkClassicalPublic = ppub, vkPQCPublic = []\<rparr>
                 else \<lparr>vkClassicalPublic = cpub, vkPQCPublic = ppub\<rparr>),
                cstatus = ''revoked'' \<or> pstatus = ''revoked'')))"

definition decodeSig :: "sigJSON \<Rightarrow> HybridSignature option" where
  "decodeSig j =
     (case b64decode (sjClassicalSignature j) of
        None \<Rightarrow> None
      | Some cs \<Rightarrow>
      (case b64decode (sjPQCSignature j) of
        None \<Rightarrow> None
      | Some ps \<Rightarrow>
          Some \<lparr>hsAlgorithmSuite = sjSuite j, hsClassicalKeyID = sjClassicalKeyID j, hsPQCKeyID = sjPQCKeyID j,
                hsClassicalSignature = cs, hsPQCSignature = ps\<rparr>))"

text \<open>
  Decoding a JSON value into a \<^verbatim>\<open>sigJSON\<close>: a missing or null field is the zero value, a field of another type is an
  error.
\<close>

definition strField :: "string \<Rightarrow> jval \<Rightarrow> string option" where
  "strField k v = (case jfield k v of None \<Rightarrow> Some [] | Some JNull \<Rightarrow> Some [] | Some (JStr s) \<Rightarrow> Some s | _ \<Rightarrow> None)"

definition strFields :: "string list \<Rightarrow> jval \<Rightarrow> string list option" where
  "strFields ks v =
     (if (case v of JNull \<Rightarrow> True | JObj _ \<Rightarrow> True | _ \<Rightarrow> False)
      then those (map (\<lambda>k. strField k v) ks) else None)"

definition sigOfValue :: "jval \<Rightarrow> sigJSON option" where
  "sigOfValue v =
     (case strFields [''algorithm_suite'', ''classical_key_id'', ''pqc_key_id'', ''classical_signature'', ''pqc_signature''] v of
        Some [suite, ck, pk, cs, ps] \<Rightarrow>
          (case strFields [''application'', ''environment'', ''transaction_type'', ''schema_version'', ''transaction_id'']
                  (case jfield ''signing_context'' v of None \<Rightarrow> JNull | Some c \<Rightarrow> c) of
             Some [app, envi, typ, schema, txnID] \<Rightarrow>
               Some \<lparr>sjSuite = suite, sjClassicalKeyID = ck, sjPQCKeyID = pk, sjClassicalSignature = cs, sjPQCSignature = ps,
                 sjSigningContext = \<lparr>scApplication = app, scEnvironment = envi, scTransactionType = typ,
                   scSchemaVersion = schema, scTransactionID = txnID\<rparr>\<rparr>
           | _ \<Rightarrow> None)
      | _ \<Rightarrow> None)"

definition chainBreak :: "event_row list \<Rightarrow> event_row option" where
  "chainBreak evs =
     (case find (\<lambda>i. let e = evs ! i in
          erowEventSequence e \<noteq> int i + 1 \<or> (i = 0 \<and> erowPreviousEventHash e \<noteq> []) \<or>
          (i > 0 \<and> erowPreviousEventHash e \<noteq> erowPayloadHash (evs ! (i - 1)))) [0..<length evs] of
        None \<Rightarrow> None
      | Some i \<Rightarrow> Some (evs ! i))"

definition boolText :: "bool \<Rightarrow> string" where
  "boolText b = (if b then ''true'' else ''false'')"

definition verifyEvent :: "aenv \<Rightarrow> string \<Rightarrow> event_row \<Rightarrow> verify_error + (bool \<times> string)" where
  "verifyEvent A txnID e =
     (case lookupKeys A (erowClassicalKeyID e) (erowPQCKeyID e) of
        Inl msg \<Rightarrow> Inr (False, msg)
      | Inr (keys, revoked) \<Rightarrow>
          (case VerifyHybridWithHash (enPrims (aeEnv A)) keys (rowSignature e) (sigContext (aeEnv A) (erowEventType e) txnID)
                  (erowPayloadHash e) of
             Inl _ \<Rightarrow> Inl VerifyPanic
           | Inr (res, Some err) \<Rightarrow> Inr (False, ''tanda tangan tidak dapat diperiksa'')
           | Inr (res, None) \<Rightarrow>
               if \<not> OK res then Inr (False, ''Ed25519='' @ boolText (vrClassicalValid res) @ '' ML-DSA-65='' @ boolText (vrPQCValid res))
               else if revoked then Inr (False, ''kunci sudah dicabut'')
               else Inr (True, ''Ed25519 dan ML-DSA-65 sah'')))"

fun firstBadEvent :: "aenv \<Rightarrow> string \<Rightarrow> event_row list \<Rightarrow> verify_error + (event_row \<times> string) option" where
  "firstBadEvent A txnID [] = Inr None"
| "firstBadEvent A txnID (e # es) =
     bindE (verifyEvent A txnID e) (\<lambda>(ok, d). if ok then firstBadEvent A txnID es else Inr (Some (e, d)))"

definition receiptCheck :: "aenv \<Rightarrow> string \<Rightarrow> string \<Rightarrow> jval \<Rightarrow> verify_error + (bool \<times> string)" where
  "receiptCheck A txnID manifestHash receipt =
     (case (jfield ''body'' receipt, sigOfValue (case jfield ''server_signature'' receipt of None \<Rightarrow> JNull | Some s \<Rightarrow> s)) of
        (Some (JObj body), Some server) \<Rightarrow>
          (case (decodeSig server, lookupKeys A (sjClassicalKeyID server) (sjPQCKeyID server)) of
             (Some sig, Inr (keys, revoked)) \<Rightarrow>
               (case PayloadHash (pSha256 (enPrims (aeEnv A))) (Some (JObj body)) of
                  Inl _ \<Rightarrow> Inr (False, ''bukti tidak dapat dibaca'')
                | Inr bodyHash \<Rightarrow>
                    (case VerifyHybridWithHash (enPrims (aeEnv A)) keys sig (sigContext (aeEnv A) ''ARCHIVE_RECEIPT'' txnID) bodyHash of
                       Inl _ \<Rightarrow> Inl VerifyPanic
                     | Inr (res, verr) \<Rightarrow>
                         if verr = None \<and> OK res \<and> \<not> revoked \<and> map_of body ''manifest_hash'' = Some (JStr manifestHash)
                         then Inr (True, ''tanda tangan server pada bukti sah dan cocok dengan manifest'')
                         else Inr (False, ''tanda tangan server pada bukti tidak sah atau tidak cocok'')))
           | _ \<Rightarrow> Inr (False, ''bukti tidak dapat dibaca''))
      | _ \<Rightarrow> Inr (False, ''bukti tidak dapat dibaca''))"

definition fileCheck :: "aenv \<Rightarrow> objects \<Rightarrow> archiveItem \<Rightarrow> bool \<times> string" where
  "fileCheck A objs it =
     (case (if aeFault A ''open object'' then None else objs (aiStorageKey it)) of
        None \<Rightarrow> (False, ''berkas tersimpan tidak dapat dibaca'')
      | Some b \<Rightarrow>
          if \<not> aeFault A ''read object'' \<and> int (length b) = aiSize it \<and>
             jfield ''sha256'' (aiManifest it) = Some (JStr (archiveSum256 A b)) \<and>
             jfield ''sha512'' (aiManifest it) = Some (JStr (archiveSum512 A b))
          then (True, ''berkas di penyimpanan cocok dengan SHA-256/SHA-512 pada manifest'')
          else (False, ''berkas di penyimpanan BERBEDA dari yang tercatat''))"

definition verifyItem :: "aenv \<Rightarrow> archiveState \<Rightarrow> string \<Rightarrow> bool \<Rightarrow> verify_error + archiveVerification" where
  "verifyItem A st itemID deep =
     (if aeFault A ''select item'' then Inl VerifyQuery
      else case find (\<lambda>it. aiID it = itemID) (asItems st) of
        None \<Rightarrow> Inl NoItem
      | Some it \<Rightarrow>
          let txnID = aiTransactionID it; manifestHash = aiManifestHash it; mk = (\<lambda>n ok d. \<lparr>vcName = n, vcOK = ok, vcDetail = d\<rparr>) in
          if \<not> (case aiManifest it of JObj _ \<Rightarrow> True | JNull \<Rightarrow> True | _ \<Rightarrow> False) then Inl BadManifest
          else if aeFault A ''verify events'' then Inl VerifyQuery
          else (case sort_key erowEventSequence (eventsOf (asDB st) txnID) of
              [] \<Rightarrow> Inl NoEvents
            | first # others \<Rightarrow>
                bindE (verifyEvent A txnID first) (\<lambda>(ok, detail).
                bindE (firstBadEvent A txnID others) (\<lambda>bad.
                bindE (receiptCheck A txnID manifestHash (aiReceipt it)) (\<lambda>(rok, rdetail).
                let checks =
                  [mk ''manifest_hash'' (PayloadHash (pSha256 (enPrims (aeEnv A))) (Some (aiManifest it)) = Inr manifestHash)
                     ''manifest yang tersimpan menghasilkan hash yang ditandatangani pengirim'',
                   (case chainBreak (first # others) of
                      None \<Rightarrow> mk ''event_chain'' True ''peristiwa berurutan dan saling menunjuk hash sebelumnya''
                    | Some e \<Rightarrow> mk ''event_chain'' False (''rantai putus pada peristiwa #'' @ fmt_d (erowEventSequence e) @
                        '' ('' @ erowEventType e @ '')'')),
                   mk ''sender_signature''
                     (ok \<and> erowEventType first = ''UPLOAD_RECEIVED'' \<and> erowPayloadHash first = manifestHash)
                     (''tanda tangan hybrid pengirim atas manifest: '' @ detail),
                   (case bad of
                      None \<Rightarrow> mk ''event_signatures'' True ''semua peristiwa bertanda tangan sah''
                    | Some (e, d) \<Rightarrow> mk ''event_signatures'' False (''peristiwa #'' @ fmt_d (erowEventSequence e) @ '' '' @
                        erowEventType e @ '': '' @ d)),
                   mk ''receipt_signature'' rok rdetail] @
                  (if deep then let (fok, fdetail) = fileCheck A (asObjects st) it in [mk ''stored_file'' fok fdetail] else [])
                in Inr \<lparr>avOK = list_all vcOK checks, avChecks = checks\<rparr>)))))"

section \<open>The console\<close>

datatype admin_response =
    Answer response
  | Stream string int bytes

definition adminOnly :: "officeIdentity \<Rightarrow> 's \<Rightarrow> 's \<times> admin_response \<Rightarrow> 's \<times> admin_response" where
  "adminOnly me st h = (if \<not> isAdmin me then (st, Answer (Fail 403 ''hanya admin pusat'')) else h)"

definition logAccess :: "aenv \<Rightarrow> officeIdentity \<Rightarrow> string \<Rightarrow> string \<Rightarrow> string \<Rightarrow> archiveState \<Rightarrow> archiveState" where
  "logAccess A me ip itemID action st =
     (if aeFault A ''log access'' then st
      else st\<lparr>asAccess := asAccess st @
        [\<lparr>acItemID = itemID, acAdminID = oiID me, acAction = action, acClientIP = ip\<rparr>]\<rparr>)"

definition verifyView :: "archiveVerification \<Rightarrow> jval" where
  "verifyView v = JObj [(''ok'', JBool (avOK v)), (''checks'', JArr (map (\<lambda>c. JObj ([(''name'', JStr (vcName c)),
     (''ok'', JBool (vcOK c))] @ (if vcDetail c = [] then [] else [(''detail'', JStr (vcDetail c))]))) (avChecks v)))]"

definition archiveVerify ::
  "aenv \<Rightarrow> officeIdentity \<Rightarrow> string \<Rightarrow> string \<Rightarrow> bool \<Rightarrow> archiveState \<Rightarrow> archiveState \<times> admin_response" where
  "archiveVerify A me ip i deep st =
     (case verifyItem A st i deep of
        Inl NoItem \<Rightarrow> (st, Answer (Fail 404 ''kiriman tidak ditemukan''))
      | Inl _ \<Rightarrow> (st, Answer internalError)
      | Inr res \<Rightarrow> (logAccess A me ip i ''verify'' st, Answer (Done 200 (verifyView res))))"

record list_query =
  lqOrg :: string
  lqSender :: string
  lqText :: string
  lqFrom :: "int option"
  lqTo :: "int option"
  lqLimit :: string
  lqOffset :: string

text \<open>
  The rows of the list join the office and the sender.  \<open>ilike\<close> is the database's case-insensitive match of a pattern;
  the dates of the query are the parsed ones, the end one being the day after.
\<close>

definition likePattern :: "string \<Rightarrow> string" where
  "likePattern v = ''%'' @ concat (map (\<lambda>c. if c = bsl \<or> c = CHR ''%'' \<or> c = CHR ''_'' then [bsl, c] else [c]) v) @ ''%''"

definition joined :: "api_db \<Rightarrow> archiveItem \<Rightarrow> bool" where
  "joined db it \<longleftrightarrow> map_of (dbOffices db) (aiOrgID it) \<noteq> None \<and> map_of (dbUsers db) (aiSenderID it) \<noteq> None"

definition listMatches :: "(string \<Rightarrow> string \<Rightarrow> bool) \<Rightarrow> api_db \<Rightarrow> list_query \<Rightarrow> archiveItem \<Rightarrow> bool" where
  "listMatches ilike db q it \<longleftrightarrow>
     (lqOrg q = [] \<or> aiOrgID it = lqOrg q) \<and> (lqSender q = [] \<or> aiSenderID it = lqSender q) \<and>
     (let v = trimSpace (lqText q); like = likePattern v in v = [] \<or> ilike (aiFileName it) like \<or>
        ilike (displayName db (aiSenderID it)) like \<or> ilike (aiDescription it) like \<or> ilike (aiSHA256 it) like \<or>
        aiReceiptID it = map toLowerAscii v) \<and>
     (case lqFrom q of None \<Rightarrow> True | Some t \<Rightarrow> aiReceivedAt it \<ge> t) \<and>
     (case lqTo q of None \<Rightarrow> True | Some t \<Rightarrow> aiReceivedAt it < t)"

text \<open>\<^verbatim>\<open>strconv.Atoi\<close> with its error ignored: 0 for a malformed number, the nearest bound for one out of range.\<close>

definition atoiValue :: "string \<Rightarrow> int" where
  "atoiValue s =
     (case parseInt s of
        Some n \<Rightarrow> n
      | None \<Rightarrow>
          let (neg, ds) = (case s of [] \<Rightarrow> (False, [])
                | c # r \<Rightarrow> if c = CHR ''+'' then (False, r) else if c = CHR ''-'' then (True, r) else (False, s))
          in if ds = [] \<or> \<not> list_all isDigit ds then 0 else if neg then - (2 ^ 63) else 2 ^ 63 - 1)"

definition pageLimit :: "string \<Rightarrow> int" where
  "pageLimit s = (let n = atoiValue s in if n \<le> 0 \<or> n > 200 then 50 else n)"

definition pageOffset :: "string \<Rightarrow> int" where
  "pageOffset s = (let n = atoiValue s in if n < 0 then 0 else n)"

definition senderView :: "api_db \<Rightarrow> archiveItem \<Rightarrow> (string \<times> jval) list" where
  "senderView db it =
     [(''id'', JStr (aiID it)), (''receipt_id'', JStr (aiReceiptID it)), (''transaction_id'', JStr (aiTransactionID it)),
      (''organization_id'', JStr (aiOrgID it)), (''organization_name'', JStr (the (map_of (dbOffices db) (aiOrgID it)))),
      (''sender_id'', JStr (aiSenderID it)), (''sender_name'', JStr (displayName db (aiSenderID it))),
      (''sender_email'', JStr (urEmail (the (map_of (dbUsers db) (aiSenderID it))))), (''file_name'', JStr (aiFileName it)),
      (''media_type'', JStr (aiMediaType it)), (''size_bytes'', JNum (fmt_d (aiSize it))), (''sha256'', JStr (aiSHA256 it)),
      (''description'', JStr (aiDescription it)), (''received_at'', JNum (fmt_d (aiReceivedAt it)))]"

definition archiveList ::
  "aenv \<Rightarrow> (string \<Rightarrow> string \<Rightarrow> bool) \<Rightarrow> bool \<Rightarrow> list_query \<Rightarrow> archiveState \<Rightarrow> admin_response" where
  "archiveList A ilike fabricEnabled q st =
     (let db = asDB st;
          rows = filter (\<lambda>it. joined db it \<and> listMatches ilike db q it) (asItems st);
          limit = pageLimit (lqLimit q); offset = pageOffset (lqOffset q);
          page = take (nat limit) (drop (nat offset) (rev (sort_key aiReceivedAt rows)))
      in if aeFault A ''archive list count'' \<or> aeFault A ''archive list'' then Answer internalError
         else Answer (Done 200 (JObj [(''items'', JArr (map (\<lambda>it. JObj (senderView db it @
             [(''ledger'', ledgerView fabricEnabled (queuedCount db (aiTransactionID it)) (deadCount db (aiTransactionID it))
                 (committedCount db (aiTransactionID it)))])) page)),
           (''total'', JNum (fmt_d (int (length rows)))), (''limit'', JNum (fmt_d limit)), (''offset'', JNum (fmt_d offset))])))"

definition detailEvent :: "api_db \<Rightarrow> event_row \<Rightarrow> jval" where
  "detailEvent db e =
     JObj ([(''sequence'', JNum (fmt_d (erowEventSequence e))), (''type'', JStr (erowEventType e)),
       (''actor_name'', JStr (displayName db (erowActorID e))), (''at'', JStr (erowCreatedAtServer e)),
       (''payload_hash'', JStr (erowPayloadHash e)), (''previous_event_hash'', JStr (erowPreviousEventHash e)),
       (''recorded_on_ledger'', JBool (erowFabricTxID e \<noteq> None))] @
       (case erowFabricTxID e of None \<Rightarrow> []
        | Some t \<Rightarrow> [(''fabric_tx_id'', JStr t), (''fabric_block_number'', JNum (fmt_d (erowFabricBlock e)))]))"

definition archiveDetail ::
  "aenv \<Rightarrow> bool \<Rightarrow> officeIdentity \<Rightarrow> string \<Rightarrow> string \<Rightarrow> archiveState \<Rightarrow> archiveState \<times> admin_response" where
  "archiveDetail A fabricEnabled me ip i st =
     (let db = asDB st in
      if aeFault A ''archive detail'' then (st, Answer internalError)
      else case find (\<lambda>it. aiID it = i \<and> joined db it) (asItems st) of
          None \<Rightarrow> (st, Answer (Fail 404 ''kiriman tidak ditemukan''))
        | Some it \<Rightarrow>
            if aeFault A ''archive detail events'' then (st, Answer internalError)
            else
              let st1 = logAccess A me ip i ''view'' st in
              (st1, Answer (Done 200 (JObj (senderView db it @
                 [(''sha512'', JStr (aiSHA512 it)), (''client_ip'', JStr (aiClientIP it)), (''user_agent'', JStr (aiUserAgent it)),
                  (''manifest_hash'', JStr (aiManifestHash it)), (''manifest'', aiManifest it), (''receipt'', aiReceipt it),
                  (''events'', JArr (map (detailEvent db) (sort_key erowEventSequence (eventsOf db (aiTransactionID it))))),
                  (''ledger'', ledgerFor A fabricEnabled db (aiTransactionID it))])))))"

section \<open>Downloads\<close>

definition asciiName :: "string \<Rightarrow> string" where
  "asciiName n = concat (map (\<lambda>w. case w of
      [c] \<Rightarrow> if code c < 32 \<or> code c > 126 \<or> c = quot \<or> c = bsl then ''_'' else [c] | _ \<Rightarrow> ''_'') (runes n))"

definition upperHex :: "nat \<Rightarrow> char" where
  "upperHex n = ''0123456789ABCDEF'' ! n"

definition unreserved :: "char \<Rightarrow> bool" where
  "unreserved c \<longleftrightarrow> inRange 97 122 c \<or> inRange 65 90 c \<or> inRange 48 57 c \<or> c \<in> set ''-._~''"

definition percentEncode :: "string \<Rightarrow> string" where
  "percentEncode s = concat (map (\<lambda>c. if unreserved c then [c]
     else [CHR ''%'', upperHex (code c div 16), upperHex (code c mod 16)]) s)"

definition streamItem ::
  "aenv \<Rightarrow> string \<Rightarrow> string \<Rightarrow> string \<Rightarrow> archiveState \<Rightarrow> archiveState \<times> admin_response" where
  "streamItem A ip i adminID st =
     (if aeFault A ''select item'' then (st, Answer internalError)
      else case find (\<lambda>it. aiID it = i) (asItems st) of
          None \<Rightarrow> (st, Answer (Fail 404 ''kiriman tidak ditemukan''))
        | Some it \<Rightarrow>
            (case (if aeFault A ''open object'' then None else asObjects st (aiStorageKey it)) of
               None \<Rightarrow> (st, Answer (Fail 500 ''berkas tidak dapat dibaca dari penyimpanan''))
             | Some b \<Rightarrow>
                 ((if aeFault A ''log access'' then st
                   else st\<lparr>asAccess := asAccess st @
                     [\<lparr>acItemID = i, acAdminID = adminID, acAction = ''download'', acClientIP = ip\<rparr>]\<rparr>),
                  Stream (''attachment; filename='' @ [quot] @ asciiName (aiFileName it) @ [quot] @
                    ''; filename*=UTF-8'' @ [CHR 0x27, CHR 0x27] @ percentEncode (aiFileName it)) (aiSize it) b)))"

definition archiveDownload ::
  "aenv \<Rightarrow> officeIdentity \<Rightarrow> string \<Rightarrow> string \<Rightarrow> archiveState \<Rightarrow> archiveState \<times> admin_response" where
  "archiveDownload A me ip i st = streamItem A ip i (oiID me) st"

definition tokenHash :: "aenv \<Rightarrow> string \<Rightarrow> string" where
  "tokenHash A token = hexEncode (pSha256 (enPrims (aeEnv A)) token)"

definition archiveTicket ::
  "aenv \<Rightarrow> officeIdentity \<Rightarrow> string \<Rightarrow> archiveState \<Rightarrow> archiveState \<times> admin_response" where
  "archiveTicket A me i st =
     (if aeFault A ''select item'' \<or> find (\<lambda>it. aiID it = i) (asItems st) = None
      then (st, Answer (Fail 404 ''kiriman tidak ditemukan''))
      else
        let token = hexEncode (aeRandom A); h = tokenHash A token in
        if aeFault A ''insert ticket'' \<or> map_of (asTickets st) h \<noteq> None then (st, Answer internalError)
        else (st\<lparr>asTickets := asTickets st @
                [(h, \<lparr>tkItemID = i, tkAdminID = oiID me, tkExpiresAt = enTime (aeEnv A) + 120, tkUsedAt = None\<rparr>)]\<rparr>,
              Answer (Done 200 (JObj [(''url'', JStr (''/api/v1/public/dl/'' @ token)), (''expires_in'', JNum ''120'')]))))"

definition publicDownload :: "aenv \<Rightarrow> string \<Rightarrow> string \<Rightarrow> archiveState \<Rightarrow> archiveState \<times> admin_response" where
  "publicDownload A ip token st =
     (let h = tokenHash A token; refused = (st, Answer (Fail 404 ''tautan unduhan tidak berlaku (kedaluwarsa atau sudah dipakai)'')) in
      if aeFault A ''redeem ticket'' then refused
      else case map_of (asTickets st) h of
          None \<Rightarrow> refused
        | Some t \<Rightarrow>
            if tkUsedAt t \<noteq> None \<or> tkExpiresAt t \<le> enTime (aeEnv A) then refused
            else streamItem A ip (tkItemID t) (tkAdminID t)
              (st\<lparr>asTickets := AList.map_entry h (\<lambda>t. t\<lparr>tkUsedAt := Some (enTime (aeEnv A))\<rparr>) (asTickets st)\<rparr>))"

section \<open>Offices and members\<close>

definition archiveStats :: "aenv \<Rightarrow> archiveState \<Rightarrow> admin_response" where
  "archiveStats A st =
     (let items = (if aeFault A ''stats'' then [] else asItems st) in
      Answer (Done 200 (JObj [(''items'', JNum (fmt_d (int (length items)))), (''bytes'', JNum (fmt_d (sum_list (map aiSize items)))),
        (''last_24h'', JNum (fmt_d (int (length (filter (\<lambda>it. aiReceivedAt it > enTime (aeEnv A) - 86400) items)))))])))"

definition archiveOffices :: "aenv \<Rightarrow> archiveState \<Rightarrow> admin_response" where
  "archiveOffices A st =
     (if aeFault A ''offices'' then Answer internalError
      else Answer (Done 200 (JObj [(''offices'', JArr (map (\<lambda>(i, name).
        let items = filter (\<lambda>it. aiOrgID it = i) (asItems st) in
        JObj [(''id'', JStr i), (''name'', JStr name),
          (''members'', JNum (fmt_d (int (length (filter (\<lambda>(a, org). org = i) (dbMembers (asDB st))))))),
          (''items'', JNum (fmt_d (int (length items)))), (''bytes'', JNum (fmt_d (sum_list (map aiSize items))))])
        (sort_key snd (filter (\<lambda>(i, name). i \<noteq> systemOrgID \<and> i \<noteq> ''org-a'') (dbOffices (asDB st))))))])))"

text \<open>
  The slug of an office name: lower case, every run of other characters one dash, no dash at the ends.
  \<open>lower\<close> is \<^verbatim>\<open>strings.ToLower\<close> (Unicode tables).
\<close>

fun dashRuns :: "bool \<Rightarrow> string \<Rightarrow> string" where
  "dashRuns inRun [] = []"
| "dashRuns inRun (c # r) =
     (if inRange 97 122 c \<or> inRange 48 57 c then c # dashRuns False r
      else if inRun then dashRuns True r else CHR ''-'' # dashRuns True r)"

definition trimDash :: "string \<Rightarrow> string" where
  "trimDash s = rev (dropWhile (\<lambda>c. c = CHR ''-'') (rev (dropWhile (\<lambda>c. c = CHR ''-'') s)))"

definition slug :: "(string \<Rightarrow> string) \<Rightarrow> string \<Rightarrow> string" where
  "slug lower name = trimDash (dashRuns False (lower name))"

definition archiveCreateOffice ::
  "aenv \<Rightarrow> (string \<Rightarrow> string) \<Rightarrow> string option \<Rightarrow> archiveState \<Rightarrow> archiveState \<times> admin_response" where
  "archiveCreateOffice A lower body st =
     (case body of
        None \<Rightarrow> (st, Answer (Fail 400 ''JSON tidak valid''))
      | Some name0 \<Rightarrow>
          let name = trimSpace name0; n = runeCount name in
          if n < 2 \<or> n > 120 then (st, Answer (Fail 400 ''nama kantor 2-120 karakter''))
          else
            let i = slug lower name in
            if i = [] \<or> i = systemOrgID \<or> i = ''org-a'' then (st, Answer (Fail 400 ''nama kantor tidak valid''))
            else
              let i = take 60 i in
              if aeFault A ''insert office'' then (st, Answer internalError)
              else if map_of (dbOffices (asDB st)) i \<noteq> None then (st, Answer (Fail 409 ''kantor dengan nama itu sudah ada''))
              else (st\<lparr>asDB := (asDB st)\<lparr>dbOffices := dbOffices (asDB st) @ [(i, name)]\<rparr>\<rparr>,
                    Answer (Done 201 (JObj [(''id'', JStr i), (''name'', JStr name)]))))"

definition archiveMembers :: "aenv \<Rightarrow> archiveState \<Rightarrow> admin_response" where
  "archiveMembers A st =
     (let db = asDB st in
      if aeFault A ''members'' then Answer internalError
      else Answer (Done 200 (JObj [(''members'', JArr (map (\<lambda>(i, u).
        let org = (case map_of (dbMembers db) i of None \<Rightarrow> [] | Some org \<Rightarrow> org) in
        JObj [(''account_id'', JStr i), (''email'', JStr (urEmail u)), (''name'', JStr (urDisplayName u)),
          (''organization_id'', JStr org),
          (''organization_name'', JStr (case map_of (dbOffices db) org of None \<Rightarrow> [] | Some n \<Rightarrow> n))])
        (sort_key (\<lambda>(i, u). urDisplayName u)
          (filter (\<lambda>(i, u). \<not> List.member (systemArchiveID # seededUsers) i) (dbUsers db)))))])))"

record assign_request =
  asgOrganizationID :: string
  asgEmail :: string
  asgName :: string

definition archiveAssignMember ::
  "aenv \<Rightarrow> officeIdentity \<Rightarrow> string \<Rightarrow> assign_request option \<Rightarrow> archiveState \<Rightarrow> archiveState \<times> admin_response" where
  "archiveAssignMember A me account body st =
     (case body of
        None \<Rightarrow> (st, Answer (Fail 400 ''JSON tidak valid''))
      | Some inp \<Rightarrow>
          if account = [] \<or> length account > 100 \<or> account = systemArchiveID
          then (st, Answer (Fail 400 ''account_id tidak valid''))
          else
            let en = aeEnv A; org = asgOrganizationID inp;
                name = (if asgName inp \<noteq> [] then asgName inp else if asgEmail inp \<noteq> [] then asgEmail inp else account);
                (db', r) = inTx en (asDB st) (\<lambda>db.
                  if org = [] then
                    bindE (or500 (stmt en ''delete member'')) (\<lambda>_.
                      Inr (db\<lparr>dbMembers := AList.delete account (dbMembers db)\<rparr>,
                           Done 200 (JObj [(''account_id'', JStr account), (''organization_id'', JStr [])])))
                  else if enFault en ''select office'' \<or> map_of (dbOffices db) org = None \<or> org = systemOrgID
                    then Inl (Fail 400 ''kantor tidak ditemukan'')
                  else
                    bindE (or500 (stmt en ''upsert identity'')) (\<lambda>_.
                    let users = (case map_of (dbUsers db) account of
                          None \<Rightarrow> dbUsers db @ [(account, \<lparr>urDisplayName = name, urRole = ''requester'', urEmail = asgEmail inp\<rparr>)]
                        | Some _ \<Rightarrow> dbUsers db) in
                    bindE (or500 (stmt en ''upsert member'')) (\<lambda>_.
                      Inr (db\<lparr>dbUsers := users, dbMembers := AList.update account org (dbMembers db)\<rparr>,
                           Done 200 (JObj [(''account_id'', JStr account), (''organization_id'', JStr org)])))))
            in (st\<lparr>asDB := db'\<rparr>, Answer r))"

section \<open>The public receipt\<close>

definition proxyOnly :: "string option \<Rightarrow> string \<Rightarrow> admin_response \<Rightarrow> admin_response" where
  "proxyOnly proxySecret header nxt =
     (if proxySecret = None \<or> proxySecret \<noteq> Some header then Answer (Fail 401 ''unauthorized'') else nxt)"

definition publicReceipt :: "aenv \<Rightarrow> ArchiveConfig option \<Rightarrow> bool \<Rightarrow> string \<Rightarrow> archiveState \<Rightarrow> admin_response" where
  "publicReceipt A cfg fabricEnabled receiptID st =
     (let db = asDB st in
      if aeFault A ''public receipt'' then Answer internalError
      else case find (\<lambda>it. aiReceiptID it = receiptID \<and> joined db it) (asItems st) of
          None \<Rightarrow> Answer (Fail 404 ''bukti tidak ditemukan'')
        | Some it \<Rightarrow>
            (case verifyItem A st (aiID it) False of
               Inl _ \<Rightarrow> Answer internalError
             | Inr ver \<Rightarrow>
                 Answer (Done 200 (JObj [(''receipt_id'', JStr receiptID),
                   (''server_name'', JStr (case cfg of None \<Rightarrow> [] | Some c \<Rightarrow> acServerName c)),
                   (''organization_name'', JStr (the (map_of (dbOffices db) (aiOrgID it)))),
                   (''sender_name'', JStr (displayName db (aiSenderID it))), (''file_name'', JStr (aiFileName it)),
                   (''size_bytes'', JNum (fmt_d (aiSize it))), (''sha256'', JStr (aiSHA256 it)), (''sha512'', JStr (aiSHA512 it)),
                   (''manifest_hash'', JStr (aiManifestHash it)), (''received_at'', JNum (fmt_d (aiReceivedAt it))),
                   (''verification'', verifyView ver), (''ledger'', ledgerFor A fabricEnabled db (aiTransactionID it))]))))"

end
