(* ===== verification/Archive_Verify.thy ===== *)
theory Archive_Verify
  imports Archive_Admin Office_Runs
begin

text \<open>
  What re-verification of an archived item checks, as one condition, and that an item the archive records
  passes it: the signatures of the three events and of the receipt verify, the events are
  chained, and the stored bytes have the digests of the manifest.
\<close>

section \<open>The meaning of a positive result\<close>

definition eventSigned :: "aenv \<Rightarrow> string \<Rightarrow> event_row \<Rightarrow> bool" where
  "eventSigned A txnID e \<longleftrightarrow>
     (\<exists>keys res. lookupKeys A (erowClassicalKeyID e) (erowPQCKeyID e) = Inr (keys, False) \<and> OK res \<and>
        VerifyHybridWithHash (enPrims (aeEnv A)) keys (rowSignature e) (sigContext (aeEnv A) (erowEventType e) txnID)
          (erowPayloadHash e) = Inr (res, None))"

lemma verifyEvent_True: "(\<exists>d. verifyEvent A txnID e = Inr (True, d)) \<longleftrightarrow> eventSigned A txnID e"
  by (auto simp: verifyEvent_def eventSigned_def split: sum.split_asm option.split_asm if_split_asm sum.splits option.splits)

lemma firstBadEvent_None: "firstBadEvent A txnID es = Inr None \<longleftrightarrow> list_all (eventSigned A txnID) es"
  by (induction es) (auto simp: bind_simps verifyEvent_True [symmetric] split: if_split_asm)

definition chainedRows :: "event_row list \<Rightarrow> bool" where
  "chainedRows es \<longleftrightarrow> (\<forall>n < length es. erowEventSequence (es ! n) = int n + 1 \<and>
     erowPreviousEventHash (es ! n) = (if n = 0 then [] else erowPayloadHash (es ! (n - 1))))"

lemma chainBreak_None: "chainBreak es = None \<longleftrightarrow> chainedRows es"
proof -
  define P where "P = (\<lambda>i. let e = es ! i in
          erowEventSequence e \<noteq> int i + 1 \<or> (i = 0 \<and> erowPreviousEventHash e \<noteq> []) \<or>
          (i > 0 \<and> erowPreviousEventHash e \<noteq> erowPayloadHash (es ! (i - 1))))"
  have "chainBreak es = (case find P [0..<length es] of None \<Rightarrow> None | Some i \<Rightarrow> Some (es ! i))"
    by (simp only: chainBreak_def P_def)
  then have "chainBreak es = None \<longleftrightarrow> find P [0..<length es] = None"
    by (cases "find P [0..<length es]") simp_all
  then have "chainBreak es = None \<longleftrightarrow> (\<forall>n < length es. \<not> P n)" by (simp add: find_None_iff)
  then show ?thesis unfolding chainedRows_def P_def Let_def by (metis gr0I less_numeral_extra(3))
qed

definition receiptSigned :: "aenv \<Rightarrow> string \<Rightarrow> string \<Rightarrow> jval \<Rightarrow> bool" where
  "receiptSigned A txnID manifestHash receipt \<longleftrightarrow>
     (\<exists>body server sig keys h res. jfield ''body'' receipt = Some (JObj body) \<and>
        sigOfValue (case jfield ''server_signature'' receipt of None \<Rightarrow> JNull | Some s \<Rightarrow> s) = Some server \<and>
        decodeSig server = Some sig \<and> lookupKeys A (sjClassicalKeyID server) (sjPQCKeyID server) = Inr (keys, False) \<and>
        PayloadHash (pSha256 (enPrims (aeEnv A))) (Some (JObj body)) = Inr h \<and> OK res \<and>
        VerifyHybridWithHash (enPrims (aeEnv A)) keys sig (sigContext (aeEnv A) ''ARCHIVE_RECEIPT'' txnID) h = Inr (res, None) \<and>
        map_of body ''manifest_hash'' = Some (JStr manifestHash))"

lemma receiptCheck_True: "(\<exists>d. receiptCheck A txnID mh receipt = Inr (True, d)) \<longleftrightarrow> receiptSigned A txnID mh receipt"
  (is "?L \<longleftrightarrow> ?R")
proof
  show "?L \<Longrightarrow> ?R"
    by (auto simp: receiptCheck_def receiptSigned_def split: option.split_asm jval.split_asm sum.split_asm if_split_asm)
  show "?R \<Longrightarrow> ?L"
    by (auto simp: receiptCheck_def receiptSigned_def)
qed

definition fileIntact :: "aenv \<Rightarrow> objects \<Rightarrow> archiveItem \<Rightarrow> bool" where
  "fileIntact A objs it \<longleftrightarrow>
     (\<exists>b. objs (aiStorageKey it) = Some b \<and> int (length b) = aiSize it \<and>
        jfield ''sha256'' (aiManifest it) = Some (JStr (archiveSum256 A b)) \<and>
        jfield ''sha512'' (aiManifest it) = Some (JStr (archiveSum512 A b)))"

lemma fileCheck_True:
  "fst (fileCheck A objs it) \<longleftrightarrow> \<not> aeFault A ''open object'' \<and> \<not> aeFault A ''read object'' \<and> fileIntact A objs it"
  by (auto simp: fileCheck_def fileIntact_def split: option.split)

definition isDocument :: "jval \<Rightarrow> bool" where
  "isDocument v = (case v of JObj _ \<Rightarrow> True | JNull \<Rightarrow> True | _ \<Rightarrow> False)"

definition itemIntact :: "aenv \<Rightarrow> archiveState \<Rightarrow> archiveItem \<Rightarrow> bool" where
  "itemIntact A st it \<longleftrightarrow>
     (let es = sort_key erowEventSequence (eventsOf (asDB st) (aiTransactionID it)) in
      isDocument (aiManifest it) \<and> es \<noteq> [] \<and> chainedRows es \<and> list_all (eventSigned A (aiTransactionID it)) es \<and>
      erowEventType (hd es) = ''UPLOAD_RECEIVED'' \<and> erowPayloadHash (hd es) = aiManifestHash it \<and>
      PayloadHash (pSha256 (enPrims (aeEnv A))) (Some (aiManifest it)) = Inr (aiManifestHash it) \<and>
      receiptSigned A (aiTransactionID it) (aiManifestHash it) (aiReceipt it) \<and> fileIntact A (asObjects st) it)"

definition noReadFault :: "aenv \<Rightarrow> bool" where
  "noReadFault A \<longleftrightarrow> \<not> aeFault A ''select item'' \<and> \<not> aeFault A ''verify events'' \<and> \<not> aeFault A ''open object'' \<and>
     \<not> aeFault A ''read object''"

lemma find_snoc: "find P xs = None \<Longrightarrow> P x \<Longrightarrow> find P (xs @ [x]) = Some x"
  by (induction xs) (auto split: if_split_asm)

lemma verifyItem_intact:
  assumes "find (\<lambda>it. aiID it = itemID) (asItems st) = Some it" "noReadFault A"
  shows "(\<exists>v. verifyItem A st itemID True = Inr v \<and> avOK v) \<longleftrightarrow> itemIntact A st it"
proof (cases "sort_key erowEventSequence (eventsOf (asDB st) (aiTransactionID it))")
  case Nil
  then show ?thesis using assms by (simp add: verifyItem_def Let_def itemIntact_def)
next
  case (Cons first others)
  let ?i = "aiTransactionID it" and ?h = "aiManifestHash it"
  let ?good = "isDocument (aiManifest it) \<and> (\<exists>d. verifyEvent A ?i first = Inr (True, d)) \<and> firstBadEvent A ?i others = Inr None \<and>
     (\<exists>d. receiptCheck A ?i ?h (aiReceipt it) = Inr (True, d)) \<and>
     PayloadHash (pSha256 (enPrims (aeEnv A))) (Some (aiManifest it)) = Inr ?h \<and> chainBreak (first # others) = None \<and>
     erowEventType first = ''UPLOAD_RECEIVED'' \<and> erowPayloadHash first = ?h \<and> fst (fileCheck A (asObjects st) it)"
  have "(\<exists>v. verifyItem A st itemID True = Inr v \<and> avOK v) \<longleftrightarrow> ?good"
    using assms Cons
    by (auto simp: verifyItem_def Let_def noReadFault_def isDocument_def [symmetric] bindE_def case_prod_unfold
        split: sum.splits option.splits)
  moreover have "?good \<longleftrightarrow> itemIntact A st it"
    using Cons assms(2) unfolding verifyEvent_True firstBadEvent_None receiptCheck_True chainBreak_None fileCheck_True
    by (auto simp: itemIntact_def noReadFault_def)
  ultimately show ?thesis by simp
qed

section \<open>What the archive signs\<close>

definition keyRegistered :: "aenv \<Rightarrow> SigningIdentity \<Rightarrow> bool" where
  "keyRegistered A ident \<longleftrightarrow> siClassicalKeyID ident \<noteq> siPQCKeyID ident \<and>
     (\<exists>cpub cstatus ppub pstatus. aeKeyReference A (siClassicalKeyID ident) = Some (cpub, cstatus) \<and>
        aeKeyReference A (siPQCKeyID ident) = Some (ppub, pstatus) \<and> cstatus \<noteq> ''revoked'' \<and> pstatus \<noteq> ''revoked'' \<and>
        prims_correct (enPrims (aeEnv A)) ident \<lparr>vkClassicalPublic = cpub, vkPQCPublic = ppub\<rparr>)"

lemma registered_verifies:
  assumes "keyRegistered A ident" "\<not> aeFault A ''select key''" "SignHybrid (enPrims (aeEnv A)) ident ctx payload = Inr (sig, h)"
  obtains keys where "lookupKeys A (hsClassicalKeyID sig) (hsPQCKeyID sig) = Inr (keys, False)"
    "VerifyHybridWithHash (enPrims (aeEnv A)) keys sig ctx h =
       Inr (\<lparr>vrSuiteAllowed = True, vrClassicalValid = True, vrPQCValid = True\<rparr>, None)"
    "PayloadHash (pSha256 (enPrims (aeEnv A))) payload = Inr h"
proof -
  obtain cpub cstatus ppub pstatus where k: "aeKeyReference A (siClassicalKeyID ident) = Some (cpub, cstatus)"
    "aeKeyReference A (siPQCKeyID ident) = Some (ppub, pstatus)" "cstatus \<noteq> ''revoked''" "pstatus \<noteq> ''revoked''"
    and p: "prims_correct (enPrims (aeEnv A)) ident \<lparr>vkClassicalPublic = cpub, vkPQCPublic = ppub\<rparr>"
    and ne: "siClassicalKeyID ident \<noteq> siPQCKeyID ident"
    using assms(1) unfolding keyRegistered_def by blast
  have "hsClassicalKeyID sig = siClassicalKeyID ident" "hsPQCKeyID sig = siPQCKeyID ident"
    using assms(3) by (auto simp: SignHybrid_Inr)
  then have "lookupKeys A (hsClassicalKeyID sig) (hsPQCKeyID sig) = Inr (\<lparr>vkClassicalPublic = cpub, vkPQCPublic = ppub\<rparr>, False)"
    using k ne assms(2) by (auto simp: lookupKeys_def)
  then show thesis using SignHybrid_verifies [OF p assms(3)] that by blast
qed

lemma signed_event:
  assumes "keyRegistered A ident" "\<not> aeFault A ''select key''"
    and "SignHybrid (enPrims (aeEnv A)) ident (sigContext (aeEnv A) (erowEventType e) txnID) payload = Inr (rowSignature e, erowPayloadHash e)"
  shows "eventSigned A txnID e"
proof -
  obtain keys where k: "lookupKeys A (hsClassicalKeyID (rowSignature e)) (hsPQCKeyID (rowSignature e)) = Inr (keys, False)"
    "VerifyHybridWithHash (enPrims (aeEnv A)) keys (rowSignature e) (sigContext (aeEnv A) (erowEventType e) txnID) (erowPayloadHash e) =
       Inr (\<lparr>vrSuiteAllowed = True, vrClassicalValid = True, vrPQCValid = True\<rparr>, None)"
    using registered_verifies [OF assms] by blast
  then show ?thesis unfolding eventSigned_def by (auto simp: rowSignature_def OK_def)
qed

lemma sigOfValue_sigValue [simp]: "sigOfValue (sigValue j) = Some j"
  by (simp add: sigOfValue_def sigValue_def strFields_def strField_def Let_def)

lemma decodeSig_toSigJSON [simp]: "decodeSig (toSigJSON sig c) = Some sig"
  by (simp add: decodeSig_def toSigJSON_def)

definition sameServer :: "aenv \<Rightarrow> aenv \<Rightarrow> bool" where
  "sameServer A A' \<longleftrightarrow> enPrims (aeEnv A') = enPrims (aeEnv A) \<and> enSha512 (aeEnv A') = enSha512 (aeEnv A) \<and>
     enApplication (aeEnv A') = enApplication (aeEnv A) \<and> enEnvironment (aeEnv A') = enEnvironment (aeEnv A)"

lemma sameServer_sigContext: "sameServer A A' \<Longrightarrow> sigContext (aeEnv A') typ i = sigContext (aeEnv A) typ i"
  by (simp add: sameServer_def sigContext_def)

lemma buildReceipt_signed:
  assumes "buildReceipt A db txnID receiptID manifest mh = Inr receipt" "sameServer A A'" "\<not> aeFault A' ''select key''"
    and "\<And>ident. enKeystore (aeEnv A) systemArchiveID = Some ident \<Longrightarrow> keyRegistered A' ident"
  shows "receiptSigned A' txnID mh receipt"
proof -
  from assms(1) obtain ident sig h kvs where ks: "enKeystore (aeEnv A) systemArchiveID = Some ident"
    and sg: "SignHybrid (enPrims (aeEnv A)) ident (sigContext (aeEnv A) ''ARCHIVE_RECEIPT'' txnID) (Some (JObj kvs)) = Inr (sig, h)"
    and r: "receipt = JObj [(''body'', JObj kvs), (''server_signature'', sigValue (toSigJSON sig (sigContext (aeEnv A) ''ARCHIVE_RECEIPT'' txnID)))]"
    and m: "map_of kvs ''manifest_hash'' = Some (JStr mh)"
    by (auto simp: buildReceipt_def Let_def bind_simps split: list.split_asm prod.split_asm)
  have "SignHybrid (enPrims (aeEnv A')) ident (sigContext (aeEnv A') ''ARCHIVE_RECEIPT'' txnID) (Some (JObj kvs)) = Inr (sig, h)"
    using sg assms(2) by (simp add: sameServer_sigContext) (simp add: sameServer_def)
  then obtain keys where k: "lookupKeys A' (hsClassicalKeyID sig) (hsPQCKeyID sig) = Inr (keys, False)"
    "VerifyHybridWithHash (enPrims (aeEnv A')) keys sig (sigContext (aeEnv A') ''ARCHIVE_RECEIPT'' txnID) h =
       Inr (\<lparr>vrSuiteAllowed = True, vrClassicalValid = True, vrPQCValid = True\<rparr>, None)"
    "PayloadHash (pSha256 (enPrims (aeEnv A'))) (Some (JObj kvs)) = Inr h"
    using registered_verifies [OF assms(4) [OF ks] assms(3)] by blast
  let ?j = "toSigJSON sig (sigContext (aeEnv A) ''ARCHIVE_RECEIPT'' txnID)"
  have "sjClassicalKeyID ?j = hsClassicalKeyID sig" "sjPQCKeyID ?j = hsPQCKeyID sig" by (simp_all add: toSigJSON_def)
  then show ?thesis
    unfolding receiptSigned_def using k m
    by (intro exI [of _ kvs] exI [of _ ?j] exI [of _ sig] exI [of _ keys] exI [of _ h]
        exI [of _ "\<lparr>vrSuiteAllowed = True, vrClassicalValid = True, vrPQCValid = True\<rparr>"]) (simp add: r OK_def)
qed

lemma append_signed:
  assumes "appendTransactionEvent (shareEnv tag en) db (archiveEvent i typ signer payload status) True = Inr (db', ae)"
    and "txnRow db i = Some t" "trSchemaVersion t = archiveSchema"
  obtains ident row where "enKeystore en signer = Some ident"
    "SignHybrid (enPrims en) ident (sigContext en typ i) (Some payload) = Inr (rowSignature row, erowPayloadHash row)"
    "eventsOf db' i = eventsOf db i @ [row]" "erowEventType row = typ" "aePayloadHash ae = erowPayloadHash row"
    "(erowEventSequence row, erowPreviousEventHash row) =
       (case latestBy erowEventSequence (eventsOf db i) of Some e \<Rightarrow> (erowEventSequence e + 1, erowPayloadHash e) | None \<Rightarrow> (1, []))"
proof -
  let ?inp = "archiveEvent i typ signer payload status" and ?en = "shareEnv tag en"
  from assms(1) obtain e where e: "signEvent ?en db ?inp = Inr e" and ph: "aePayloadHash ae = evPayloadHash e"
    unfolding appendTransactionEvent_def bind_simps by auto
  from e obtain ident sig h where id: "enKeystore en signer = Some ident"
    and sg: "SignHybrid (enPrims en) ident (sigContext en typ i) (Some payload) = Inr (sig, h)"
    and ev: "evTransactionID e = i" "evEventType e = typ" "evPayloadHash e = h" "evAlgorithmSuite e = hsAlgorithmSuite sig"
      "evClassicalKeyID e = hsClassicalKeyID sig" "evPQCKeyID e = hsPQCKeyID sig"
      "evClassicalSignature e = hsClassicalSignature sig" "evPQCSignature e = hsPQCSignature sig"
      "(evEventSequence e, evPreviousEventHash e) =
         (case latestBy erowEventSequence (eventsOf db i) of Some e \<Rightarrow> (erowEventSequence e + 1, erowPayloadHash e) | None \<Rightarrow> (1, []))"
    using assms(2,3)
    by (auto simp: signEvent_def Let_def bind_simps sigContext_def shareEnv_def split: prod.split_asm)
  obtain e' ob where e': "signEvent ?en db ?inp = Inr e'"
    and db': "db' = db\<lparr>dbEvents := dbEvents db @ [eventRow ?en ?inp e'], dbOutbox := dbOutbox db @ [ob],
       dbTxns := (if True \<and> eiNewStatus ?inp \<noteq> []
         then AList.map_entry (eiTransactionID ?inp) (\<lambda>t. t\<lparr>trStatus := eiNewStatus ?inp, trUpdatedAt := enTime ?en\<rparr>)
           (dbTxns db) else dbTxns db)\<rparr>"
    using assms(1) by (rule append_Inr)
  have "e' = e" using e e' by simp
  show thesis
    by (rule that [of ident "eventRow ?en ?inp e"])
      (use id sg ev ph in \<open>simp_all add: rowSignature_def eventRow_def eventsOf_def db' \<open>e' = e\<close>\<close>)
qed

lemma record_intact:
  assumes S: "synced db L"
    and rec: "archiveRecord A me u itemID txnID receiptID key sum256 sum512 manifest (db, items) = Inr ((db', items'), receipt)"
    and A': "sameServer A A'" "\<not> aeFault A' ''select key''"
    and reg: "\<And>who ident. who \<in> {oiID me, systemArchiveID} \<Longrightarrow> enKeystore (aeEnv A) who = Some ident \<Longrightarrow> keyRegistered A' ident"
  obtains it es where "items' = items @ [it]" "\<not> list_ex (itemConflict it) items" "aiTransactionID it = txnID"
    "aiManifest it = manifest" "aiStorageKey it = key" "aiSize it = upSize u"
    "eventsOf db' txnID = es" "sort_key erowEventSequence es = es" "es \<noteq> []" "chainedRows es" "list_all (eventSigned A' txnID) es"
    "erowEventType (hd es) = ''UPLOAD_RECEIVED''" "erowPayloadHash (hd es) = aiManifestHash it"
    "PayloadHash (pSha256 (enPrims (aeEnv A'))) (Some manifest) = Inr (aiManifestHash it)"
    "receiptSigned A' txnID (aiManifestHash it) (aiReceipt it)"
proof -
  let ?en = "aeEnv A" and ?row = "archiveTxn (aeEnv A) me u txnID"
  from rec obtain db0 db1 db2 db3 e1 e2 e3 p2 p3 where ins: "insertTxn ?en db ?row = Inr db0"
    and enq: "enqueueOutbox ?en ''outbox create'' db0 ''transaction'' txnID ''transaction'' ''CreateTransaction''
      [AStr txnID, AStr (upOrgID u), AStr archiveWorkflow, AStr archiveSchema, AStr (oiID me)] = Inr db1"
    and a1: "appendTransactionEvent (shareEnv ''1:'' ?en) db1
       (archiveEvent txnID ''UPLOAD_RECEIVED'' (oiID me) manifest []) True = Inr (db2, e1)"
    and a2: "appendTransactionEvent (shareEnv ''2:'' ?en) db2
       (archiveEvent txnID ''INTEGRITY_VERIFIED'' systemArchiveID p2 ''VERIFIED'') True = Inr (db3, e2)"
    and a3: "appendTransactionEvent (shareEnv ''3:'' ?en) db3
       (archiveEvent txnID ''ARCHIVED'' systemArchiveID p3 ''ENDORSED'') True = Inr (db', e3)"
    and rc: "buildReceipt A db' txnID receiptID manifest (aePayloadHash e1) = Inr receipt"
    and "\<exists>it. items' = items @ [it] \<and> \<not> list_ex (itemConflict it) items \<and> aiID it = itemID \<and> aiTransactionID it = txnID \<and>
       aiManifest it = manifest \<and> aiManifestHash it = aePayloadHash e1 \<and> aiReceipt it = receipt \<and>
       aiSize it = upSize u \<and> aiStorageKey it = key"
    by (rule record_steps)
  then obtain it where it: "items' = items @ [it]" "\<not> list_ex (itemConflict it) items" "aiTransactionID it = txnID"
    "aiManifest it = manifest" "aiManifestHash it = aePayloadHash e1" "aiReceipt it = receipt" "aiSize it = upSize u"
    "aiStorageKey it = key" by blast
  have none: "txnRow db txnID = None" and db0: "db0 = db\<lparr>dbTxns := dbTxns db @ [(txnID, ?row)]\<rparr>"
    using ins by (auto simp: insertTxn_def bind_simps)
  have "spEvents L txnID = []" using S none by (simp add: synced_def spec_inv_def)
  then have "eventsOf db txnID = []" using S unfolding synced_def by (metis list.map_disc_iff)
  then have ev1: "eventsOf db1 txnID = []" using enq db0 by (auto simp: eventsOf_def elim!: enqueueOutbox_Inr)
  have r1: "txnRow db1 txnID = Some ?row"
    using enq db0 none by (auto simp: txnRow_def map_add_def elim!: enqueueOutbox_Inr)
  have r2: "txnRow db2 txnID = Some ?row" using append_rows(1) [OF a1, of ?row txnID] r1 by simp
  have "\<exists>t. txnRow db3 txnID = Some t \<and> trSchemaVersion t = archiveSchema"
    using append_rows(1) [OF a2, of ?row txnID] r2 by simp
  then obtain t where r3: "txnRow db3 txnID = Some t" "trSchemaVersion t = archiveSchema" by blast
  obtain id1 w1 where w1: "enKeystore ?en (oiID me) = Some id1"
    "SignHybrid (enPrims ?en) id1 (sigContext ?en ''UPLOAD_RECEIVED'' txnID) (Some manifest) = Inr (rowSignature w1, erowPayloadHash w1)"
    "eventsOf db2 txnID = [w1]" "erowEventType w1 = ''UPLOAD_RECEIVED''" "aePayloadHash e1 = erowPayloadHash w1"
    "erowEventSequence w1 = 1" "erowPreviousEventHash w1 = []"
    by (rule append_signed [OF a1 r1]) (use ev1 in auto)
  obtain id2 w2 where w2: "enKeystore ?en systemArchiveID = Some id2"
    "SignHybrid (enPrims ?en) id2 (sigContext ?en ''INTEGRITY_VERIFIED'' txnID) (Some p2) = Inr (rowSignature w2, erowPayloadHash w2)"
    "eventsOf db3 txnID = [w1, w2]" "erowEventType w2 = ''INTEGRITY_VERIFIED''"
    "erowEventSequence w2 = 2" "erowPreviousEventHash w2 = erowPayloadHash w1"
    by (rule append_signed [OF a2 r2]) (use w1 in auto)
  obtain id3 w3 where w3: "enKeystore ?en systemArchiveID = Some id3"
    "SignHybrid (enPrims ?en) id3 (sigContext ?en ''ARCHIVED'' txnID) (Some p3) = Inr (rowSignature w3, erowPayloadHash w3)"
    "eventsOf db' txnID = [w1, w2, w3]" "erowEventType w3 = ''ARCHIVED''"
    "erowEventSequence w3 = 3" "erowPreviousEventHash w3 = erowPayloadHash w2"
    by (rule append_signed [OF a3 r3]) (use w1 w2 in auto)
  have P: "enPrims (aeEnv A') = enPrims ?en" using A'(1) by (simp add: sameServer_def)
  have sig: "eventSigned A' txnID w"
    if "enKeystore ?en who = Some ident" "who \<in> {oiID me, systemArchiveID}"
      "SignHybrid (enPrims ?en) ident (sigContext ?en (erowEventType w) txnID) pl = Inr (rowSignature w, erowPayloadHash w)" for who ident w pl
    by (rule signed_event [OF reg [OF that(2,1)] A'(2), where payload = pl])
      (use that(3) in \<open>simp add: P sameServer_sigContext [OF A'(1)]\<close>)
  have mh: "PayloadHash (pSha256 (enPrims (aeEnv A'))) (Some manifest) = Inr (aiManifestHash it)"
    using w1(2,5) it(5) by (simp add: P SignHybrid_Inr)
  have rs: "receiptSigned A' txnID (aiManifestHash it) (aiReceipt it)"
    unfolding it(5,6) by (rule buildReceipt_signed [OF rc A']) (use reg in blast)
  show thesis
    by (rule that [OF it(1-4,8,7) w3(3) _ _ _ _ _ _ mh rs])
      (use w1 w2 w3 it(5) sig in \<open>auto simp: chainedRows_def less_Suc_eq insort_key.simps numeral_2_eq_2\<close>)
qed

end
