(* ===== verification/Archive_Sample.thy ===== *)
theory Archive_Sample
  imports Archive_Verify Office_Sample
begin

text \<open>
  A concrete upload: a file of three bytes sent in two chunks and completed, in an environment with concrete
  primitives, keystore and object store.
\<close>

definition archivePrims :: prims where
  "archivePrims = officePrims\<lparr>pSha256 := (\<lambda>x. ''h'')\<rparr>"

definition archiveEnv :: aenv where
  "archiveEnv = \<lparr>aeEnv = (sampleEnv ''0'')\<lparr>enPrims := archivePrims\<rparr>, aeFreeDisk = None,
     aePutStream = (\<lambda>k f n. Some (take (nat n) f)), aeRandom = [], aeMonth = ''m'', aeNanoAt = (\<lambda>l. l), aeFloat64 = (\<lambda>s. s),
     aeKeyReference = (\<lambda>k. Some ([], ''active''))\<rparr>"

definition archiveSender :: officeIdentity where
  "archiveSender = (person ''al'' ''requester'')\<lparr>oiOrgID := ''o''\<rparr>"

definition archiveCfg :: ArchiveConfig where
  "archiveCfg = \<lparr>acTempDir = ''t'', acMaxBytes = 9, acServerName = ''s''\<rparr>"

definition arch0 :: archiveState where
  "arch0 = \<lparr>asDB = emptyDB, asUploads = [], asItems = [], asAccess = [], asTickets = [], asFiles = Map.empty,
     asObjects = Map.empty, asRT = Map.empty\<rparr>"

definition sampleUpload :: createUploadRequest where
  "sampleUpload = \<lparr>cuFileName = ''a'', cuSize = 3, cuMediaType = [], cuDescription = []\<rparr>"

definition sampleID :: string where "sampleID = ''upl_0upload''"

definition sampleRow :: "int \<Rightarrow> string \<Rightarrow> uploadRow" where
  "sampleRow n status = \<lparr>upID = ''upl_0upload'', upSenderID = ''al'', upOrgID = ''o'', upFileName = ''a'',
     upMediaType = ''application/octet-stream'', upDescription = [], upTempPath = ''t/upl_0upload.part'', upClientIP = [],
     upUserAgent = [], upStatus = status, upSize = 3, upReceived = n, upUpdatedAt = 0\<rparr>"

definition arch1 :: archiveState where
  "arch1 = arch0\<lparr>asFiles := [''t/upl_0upload.part'' \<mapsto> []], asUploads := [(''upl_0upload'', sampleRow 0 ''open'')]\<rparr>"

definition arch2 :: archiveState where
  "arch2 = arch0\<lparr>asFiles := [''t/upl_0upload.part'' \<mapsto> ''ab''], asUploads := [(''upl_0upload'', sampleRow 2 ''open'')],
     asRT := [''upl_0upload'' \<mapsto> \<lparr>rtN = 2, rtHashed = Some ''ab''\<rparr>]\<rparr>"

definition arch3 :: archiveState where
  "arch3 = arch0\<lparr>asFiles := [''t/upl_0upload.part'' \<mapsto> ''abc''], asUploads := [(''upl_0upload'', sampleRow 3 ''open'')],
     asRT := [''upl_0upload'' \<mapsto> \<lparr>rtN = 3, rtHashed = Some ''abc''\<rparr>]\<rparr>"

lemmas arch_defs = archiveEnv_def archiveSender_def archiveCfg_def arch0_def arch1_def arch2_def arch3_def sampleUpload_def
  sampleID_def sampleRow_def sampleEnv_def emptyDB_def person_def

lemma archive_name: "cleanArchiveName ''a'' = ''a''"
  by code_simp

lemma arch_format: "fmt_d 3 = ''3''"
  by (simp add: fmt_d_def dec.simps) code_simp

lemma arch_create: "fst (archiveCreateUpload archiveEnv archiveCfg archiveSender [] [] (Some sampleUpload) arch0) = arch1"
  by (simp add: archiveCreateUpload_def arch_defs Let_def maxBytes_def sample_runes openUploads_def archiveMaxOpenUpl_def
      archive_name shortText_def)

lemma arch_chunk1: "archiveUploadChunk archiveEnv archiveSender sampleID ''0'' (''ab'', False) arch1 =
    (arch2, Done 200 (JObj [(''offset'', JNum ''2''), (''size'', JNum ''3'')]))"
  by (simp add: archiveUploadChunk_def arch_defs Let_def uploadRTOf_def loadUpload_def stmt_def sample_parse ensureHashes_def
      copyChunk_def archiveMaxChunk_def writeAt_def sample_format arch_format)

lemma arch_chunk2: "archiveUploadChunk archiveEnv archiveSender sampleID ''2'' (''c'', False) arch2 =
    (arch3, Done 200 (JObj [(''offset'', JNum ''3''), (''size'', JNum ''3'')]))"
  by (simp add: archiveUploadChunk_def arch_defs Let_def uploadRTOf_def loadUpload_def stmt_def sample_parse ensureHashes_def
      copyChunk_def archiveMaxChunk_def writeAt_def sample_format arch_format)

lemma arch_payload: "PayloadHash (\<lambda>x. ''h'') (Some v) = Inr ''sha256:68''"
  by (simp add: PayloadHash_def Canonicalize_def sample_strings)

lemma arch_sign: "SignHybrid archivePrims identity ctx (Some v) =
  Inr (\<lparr>hsAlgorithmSuite = ''HYBRID_ED25519_MLDSA65_V1'', hsClassicalKeyID = siClassicalKeyID identity,
     hsPQCKeyID = siPQCKeyID identity, hsClassicalSignature = CHR ''S'' # bind ctx ''sha256:68'',
     hsPQCSignature = CHR ''S'' # bind ctx ''sha256:68''\<rparr>, ''sha256:68'')"
  by (simp add: SignHybrid_def archivePrims_def officePrims_def arch_payload SignClassical_def SignMLDSA_def Let_def
      SuiteHybridEd25519MLDSA65V1_def)

lemma arch_client: "clientHash ''68'' = ''68''"
  by code_simp

lemma arch_sums:
  "enPrims (aeEnv A) = archivePrims \<Longrightarrow> archiveSum256 A b = ''68''"
  "enSha512 (aeEnv A) = (\<lambda>x. ''h'') \<Longrightarrow> archiveSum512 A b = ''68''"
  by (simp_all add: archiveSum256_def archiveSum512_def hexSum_def archivePrims_def sample_hex)

definition arch4 :: archiveState where
  "arch4 = fst (archiveComplete archiveEnv archiveCfg False archiveSender sampleID ''68'' arch3)"

lemmas arch_complete_defs = Let_def uploadRTOf_def loadUpload_def stmt_def ensureHashes_def arch_client arch_sums
  archiveFinalize_def archiveKey_def archiveRecord_def archiveManifest_def metaJSON_def insertTxn_def txnRow_def enqueueOutbox_def
  appendTransactionEvent_def signEvent_def shareEnv_def orErr_def mapErr_def insertEvent_def eventRow_def maxInt4_def
  eventsOf_def eventConflict_def payloadText_def updateTxnStatus_def txnStatuses_def systemArchiveID_def buildReceipt_def
  archiveWorkflow_def archiveSchema_def arch_sign itemConflict_def

lemma arch_complete: "\<exists>v. archiveComplete archiveEnv archiveCfg False archiveSender sampleID ''68'' arch3 = (arch4, Done 201 v)"
proof -
  have "\<exists>v. snd (archiveComplete archiveEnv archiveCfg False archiveSender sampleID ''68'' arch3) = Done 201 v"
    by (simp add: archiveComplete_def arch_complete_defs arch_defs)
  then show ?thesis unfolding arch4_def by (metis prod.collapse)
qed

definition sampleChunks :: "(string \<times> bytes) list" where
  "sampleChunks = [(sampleID, ''ab''), (sampleID, ''c'')]"

lemma arch_reach: "archive_reach archiveCfg sampleChunks arch3"
proof -
  have "archive_reach archiveCfg [] arch0" by (rule archive_reach.start) (simp_all add: arch0_def)
  moreover have "freshUpload archiveEnv arch0" by (simp add: freshUpload_def arch0_def)
  ultimately have "archive_reach archiveCfg [] arch1"
    using archive_reach.create [of archiveCfg "[]" arch0 archiveEnv archiveSender "[]" "[]" "Some sampleUpload"] arch_create
    by (metis prod.collapse)
  from archive_reach.chunk [OF archive_reach.chunk [OF this arch_chunk1] arch_chunk2] show ?thesis
    by (simp add: sampleChunks_def isOK_def)
qed

lemma arch_office_reach: "office_reach (asDB arch3, asObjects arch3)"
  by (rule office_start) (simp_all add: arch3_def arch0_def emptyDB_def)

lemma arch_keys: "enKeystore (aeEnv archiveEnv) who = Some ident \<Longrightarrow> keyRegistered archiveEnv ident"
  by (auto simp: keyRegistered_def prims_correct_def archiveEnv_def sampleEnv_def archivePrims_def officePrims_def)

lemma arch_faults: "noReadFault archiveEnv" "\<not> aeFault archiveEnv l"
  by (simp_all add: noReadFault_def archiveEnv_def sampleEnv_def)

text \<open>A state with one item and a ticket for it.\<close>

definition ticketItem :: archiveItem where
  "ticketItem = \<lparr>aiID = ''it'', aiReceiptID = ''r'', aiTransactionID = ''t'', aiOrgID = ''o'', aiSenderID = ''al'', aiFileName = ''a'',
     aiMediaType = [], aiSize = 3, aiSHA256 = ''68'', aiSHA512 = ''68'', aiDescription = [], aiStorageKey = ''k'', aiClientIP = [],
     aiUserAgent = [], aiManifest = JNull, aiManifestHash = [], aiReceipt = JNull, aiReceivedAt = 0\<rparr>"

definition ticketState :: archiveState where
  "ticketState = fst (archiveTicket archiveEnv archiveSender ''it''
     (arch0\<lparr>asItems := [ticketItem], asObjects := [''k'' \<mapsto> ''abc'']\<rparr>))"

lemma ticket_redeemed:
  "\<exists>st1 d n. publicDownload archiveEnv ''ip'' [] ticketState = (st1, Stream d n ''abc'')"
  by (simp add: publicDownload_def ticketState_def archiveTicket_def tokenHash_def streamItem_def Let_def arch0_def ticketItem_def
      archiveEnv_def sampleEnv_def archivePrims_def sample_hex)

end
