(* ===== verification/Archive_Properties.thy ===== *)
theory Archive_Properties
  imports Archive_Sample
begin

text \<open>
  The properties of the archive: an upload holds the accepted chunks, an archived item is about the stored bytes,
  a failed completion leaves nothing behind, what was archived verifies and what verifies is intact, and a
  download ticket works once.
\<close>

section \<open>Uploads\<close>

text \<open>
  C21. Resumable uploads do not corrupt: in any interleaving of chunk requests with broken connections, failing disks
  and databases, restarts, aborts and the janitor, the number of bytes the server reports as received is
  the total length of the chunks it accepted for that upload and never exceeds the declared size, and as
  long as the scratch file exists it starts with exactly those chunks in order.  A generated upload id is new.
\<close>

theorem upload_assembles_accepted_chunks:
  assumes "archive_reach cfg chunks st" "map_of (asUploads st) i = Some u"
  shows "upReceived u = int (length (accepted chunks i)) \<and> upReceived u \<le> upSize u \<and>
    (case asFiles st (upTempPath u) of None \<Rightarrow> True | Some f \<Rightarrow> take (nat (upReceived u)) f = accepted chunks i)"
  using uploads_invD [OF archive_reach_inv [OF assms(1)] assms(2)] by (auto simp: upload_ok_def split: option.split)

lemma upload_assembles_accepted_chunks_witness:
  "upReceived (sampleRow 3 ''open'') = int (length (accepted sampleChunks sampleID)) \<and> accepted sampleChunks sampleID = ''abc''"
  using upload_assembles_accepted_chunks [OF arch_reach, of sampleID "sampleRow 3 ''open''"]
  by (simp add: arch3_def arch0_def sampleID_def sampleRow_def sampleChunks_def)

section \<open>Completion\<close>

text \<open>
  C20. An archived item is a fact about the stored bytes: when a completion answers with a receipt, exactly one item has
  been added, the object store holds under its key bytes of the declared size whose SHA-256 and SHA-512
  digests are those recorded in the item and in the signed manifest, equal those of the chunks accepted for
  the upload, and the SHA-256 digest is the one the browser computed.
\<close>

theorem archived_item_proves_stored_bytes:
  assumes "archive_reach cfg chunks st" "archiveComplete A cfg fabricEnabled me i client st = (st', Done 201 v)"
  shows "\<exists>u it b. map_of (asUploads st) i = Some u \<and> upSenderID u = oiID me \<and> asItems st' = asItems st @ [it] \<and>
    aiSenderID it = oiID me \<and> aiFileName it = upFileName u \<and>
    asObjects st' (aiStorageKey it) = Some b \<and> int (length b) = aiSize it \<and> length b = length (accepted chunks i) \<and>
    pSha256 (enPrims (aeEnv A)) b = pSha256 (enPrims (aeEnv A)) (accepted chunks i) \<and>
    enSha512 (aeEnv A) b = enSha512 (aeEnv A) (accepted chunks i) \<and>
    aiSHA256 it = archiveSum256 A b \<and> aiSHA512 it = archiveSum512 A b \<and> clientHash client = aiSHA256 it \<and>
    jfield ''sha256'' (aiManifest it) = Some (JStr (aiSHA256 it)) \<and>
    jfield ''sha512'' (aiManifest it) = Some (JStr (aiSHA512 it))"
  using assms(2)
proof (cases rule: complete_cases)
  case (archived u rt1 st2 item)
  have inv: "uploads_inv cfg chunks st" by (rule archive_reach_inv [OF assms(1)])
  have u: "map_of (asUploads st) i = Some u" using archived(1) by simp
  have h: "rtHashed rt1 = Some (accepted chunks i)"
    using ensureHashes_step(2) [OF inv u] archived(5) by simp
  have len: "int (length (accepted chunks i)) = upSize u"
    using uploads_invD [OF inv u] archived(4) by (simp add: upload_ok_def)
  from archived(7) obtain stored orgName receipt where
    s: "int (length stored) = upSize u" "archiveSum256 A stored = archiveSum256 A (accepted chunks i)"
      "archiveSum512 A stored = archiveSum512 A (accepted chunks i)"
    and rec: "archiveRecord A me u (''arc_'' @ enUUID (aeEnv A) ''item'') (''txn_'' @ enUUID (aeEnv A) ''transaction'') (newReceiptID A)
       (archiveKey A u) (archiveSum256 A (accepted chunks i)) (archiveSum512 A (accepted chunks i))
       (archiveManifest A cfg me u orgName (newReceiptID A) (''arc_'' @ enUUID (aeEnv A) ''item'')
          (''txn_'' @ enUUID (aeEnv A) ''transaction'') (archiveSum256 A (accepted chunks i)) (archiveSum512 A (accepted chunks i)))
       (asDB st, asItems st) = Inr ((asDB st2, asItems st2), receipt)"
    and obj: "asObjects st2 = (asObjects st)(archiveKey A u \<mapsto> stored)"
    unfolding h option.sel by (rule finalize_Inr) simp
  from rec obtain it where it: "asItems st2 = asItems st @ [it]" "aiSenderID it = oiID me" "aiSize it = upSize u"
    "aiSHA256 it = archiveSum256 A (accepted chunks i)" "aiSHA512 it = archiveSum512 A (accepted chunks i)"
    "aiStorageKey it = archiveKey A u" "aiFileName it = upFileName u"
    "aiManifest it = archiveManifest A cfg me u orgName (newReceiptID A) (''arc_'' @ enUUID (aeEnv A) ''item'')
          (''txn_'' @ enUUID (aeEnv A) ''transaction'') (archiveSum256 A (accepted chunks i)) (archiveSum512 A (accepted chunks i))"
    by (rule record_item)
  have d: "pSha256 (enPrims (aeEnv A)) stored = pSha256 (enPrims (aeEnv A)) (accepted chunks i)"
    "enSha512 (aeEnv A) stored = enSha512 (aeEnv A) (accepted chunks i)"
    using s(2,3) by (simp_all add: archiveSum256_def archiveSum512_def hexSum_def hexEncode_inj)
  have m: "jfield ''sha256'' (aiManifest it) = Some (JStr (aiSHA256 it))" "jfield ''sha512'' (aiManifest it) = Some (JStr (aiSHA512 it))"
    by (simp_all add: it(4,5,8) archiveManifest_def)
  show ?thesis
    by (rule exI [of _ u], rule exI [of _ it], rule exI [of _ stored])
      (use u archived(2,6,8) it s d obj len h m in simp)
qed blast+

lemma archived_item_proves_stored_bytes_witness:
  "\<exists>it b. asItems arch4 = [it] \<and> asObjects arch4 (aiStorageKey it) = Some b \<and> length b = 3 \<and> aiSHA256 it = ''68''"
proof -
  obtain v where "archiveComplete archiveEnv archiveCfg False archiveSender sampleID ''68'' arch3 = (arch4, Done 201 v)"
    using arch_complete by blast
  from archived_item_proves_stored_bytes [OF arch_reach this] show ?thesis
    by (auto simp: arch3_def arch0_def arch_client sampleChunks_def accepted_def)
qed




section \<open>Re-verification\<close>

text \<open>
  C30. Re-verification means what it says: when the stored records can be read, the check with the file included is
  positive exactly when the item is intact: the manifest hashes to the recorded value, the events of its
  transaction are numbered 1, 2, 3, ... and each names the hash of the one before, every event carries a valid
  hybrid signature in its own context by keys that are not revoked, the first is the sender's upload event over
  that manifest, the server's signature covers the receipt with that manifest hash, and
  the stored bytes have the size and the digests of the manifest.
\<close>

theorem archive_verification_meaning:
  assumes "find (\<lambda>it. aiID it = itemID) (asItems st) = Some it" "noReadFault A"
    and "sort_key erowEventSequence (eventsOf (asDB st) (aiTransactionID it)) = es"
  shows "(\<exists>v. verifyItem A st itemID True = Inr v \<and> avOK v) \<longleftrightarrow>
    isDocument (aiManifest it) \<and> PayloadHash (pSha256 (enPrims (aeEnv A))) (Some (aiManifest it)) = Inr (aiManifestHash it) \<and>
    es \<noteq> [] \<and> chainedRows es \<and> list_all (eventSigned A (aiTransactionID it)) es \<and>
    erowEventType (hd es) = ''UPLOAD_RECEIVED'' \<and> erowPayloadHash (hd es) = aiManifestHash it \<and>
    receiptSigned A (aiTransactionID it) (aiManifestHash it) (aiReceipt it) \<and> fileIntact A (asObjects st) it"
  unfolding verifyItem_intact [OF assms(1,2)] using assms(3) by (auto simp: itemIntact_def)

lemma archive_verification_meaning_witness:
  "((\<exists>v. verifyItem archiveEnv ticketState ''it'' True = Inr v \<and> avOK v) \<longleftrightarrow> False) \<and> asItems ticketState = [ticketItem]"
proof -
  have i: "asItems ticketState = [ticketItem]"
    by (simp add: ticketState_def archiveTicket_def Let_def arch0_def archiveEnv_def sampleEnv_def)
  have "asDB ticketState = emptyDB"
    by (simp add: ticketState_def archiveTicket_def Let_def arch0_def archiveEnv_def sampleEnv_def)
  moreover have "find (\<lambda>it. aiID it = ''it'') (asItems ticketState) = Some ticketItem" by (simp add: i ticketItem_def)
  ultimately show ?thesis using archive_verification_meaning [OF _ arch_faults(1)] i by (simp add: eventsOf_def emptyDB_def)
qed

text \<open>
  C16. What the archive records verifies: an item just archived, over a database that the ledger API's handlers wrote,
  passes the re-verification with the file included, by the same server configuration, when the records
  can be read and the keys the keystore signed with are registered, not revoked, and verify what they sign.
\<close>

theorem archived_item_verifies:
  assumes "office_reach (asDB st, asObjects st)" "archiveComplete A cfg fabricEnabled me i client st = (st', Done 201 v)"
    and "sameServer A A'" "noReadFault A'" "\<not> aeFault A' ''select key''"
    and "\<forall>who \<in> {oiID me, systemArchiveID}. \<forall>ident. enKeystore (aeEnv A) who = Some ident \<longrightarrow> keyRegistered A' ident"
  shows "\<exists>it w. asItems st' = asItems st @ [it] \<and> verifyItem A' st' (aiID it) True = Inr w \<and> avOK w"
  using assms(2)
proof (cases rule: complete_cases)
  case (archived u rt1 st2 item)
  obtain L where L: "synced (asDB st) L" using office_reach_synced [OF assms(1)] by auto
  let ?s256 = "archiveSum256 A (the (rtHashed rt1))" and ?s512 = "archiveSum512 A (the (rtHashed rt1))"
  let ?m = "\<lambda>n. archiveManifest A cfg me u n (newReceiptID A) (''arc_'' @ enUUID (aeEnv A) ''item'')
          (''txn_'' @ enUUID (aeEnv A) ''transaction'') ?s256 ?s512"
  from archived(7) obtain stored orgName receipt where
    s: "int (length stored) = upSize u" "archiveSum256 A stored = ?s256" "archiveSum512 A stored = ?s512"
    and rec: "archiveRecord A me u (''arc_'' @ enUUID (aeEnv A) ''item'') (''txn_'' @ enUUID (aeEnv A) ''transaction'') (newReceiptID A)
       (archiveKey A u) ?s256 ?s512 (?m orgName) (asDB st, asItems st) = Inr ((asDB st2, asItems st2), receipt)"
    and obj: "asObjects st2 = (asObjects st)(archiveKey A u \<mapsto> stored)"
    by (rule finalize_Inr) simp
  from L rec assms(3,5) obtain it es where it: "asItems st2 = asItems st @ [it]" "\<not> list_ex (itemConflict it) (asItems st)"
    "aiTransactionID it = ''txn_'' @ enUUID (aeEnv A) ''transaction''" "aiManifest it = ?m orgName"
    "aiStorageKey it = archiveKey A u" "aiSize it = upSize u"
    and es: "eventsOf (asDB st2) (''txn_'' @ enUUID (aeEnv A) ''transaction'') = es" "sort_key erowEventSequence es = es" "es \<noteq> []"
      "chainedRows es" "list_all (eventSigned A' (''txn_'' @ enUUID (aeEnv A) ''transaction'')) es"
      "erowEventType (hd es) = ''UPLOAD_RECEIVED''" "erowPayloadHash (hd es) = aiManifestHash it"
      "PayloadHash (pSha256 (enPrims (aeEnv A'))) (Some (?m orgName)) = Inr (aiManifestHash it)"
      "receiptSigned A' (''txn_'' @ enUUID (aeEnv A) ''transaction'') (aiManifestHash it) (aiReceipt it)"
    by (rule record_intact) (use assms(6) in blast)
  have sums: "archiveSum256 A' stored = ?s256" "archiveSum512 A' stored = ?s512"
    using s assms(3) by (simp_all add: sameServer_def archiveSum256_def archiveSum512_def)
  have "fileIntact A' (asObjects st') it"
    unfolding fileIntact_def by (rule exI [of _ stored]) (simp add: archived(8) obj it(4-6) s(1) sums archiveManifest_def)
  then have "itemIntact A' st' it"
    using es it(3) by (simp add: itemIntact_def Let_def archived(8) it(4) isDocument_def archiveManifest_def)
  moreover have "find (\<lambda>x. aiID x = aiID it) (asItems st') = Some it"
    using it(1,2) by (fastforce simp: archived(8) itemConflict_def list_ex_iff find_None_iff intro!: find_snoc)
  ultimately show ?thesis using verifyItem_intact [OF _ assms(4)] it(1) archived(8) by auto
qed blast+

lemma archived_item_verifies_witness:
  "\<exists>it w. asItems arch4 = [it] \<and> verifyItem archiveEnv arch4 (aiID it) True = Inr w \<and> avOK w"
proof -
  obtain v where c: "archiveComplete archiveEnv archiveCfg False archiveSender sampleID ''68'' arch3 = (arch4, Done 201 v)"
    using arch_complete by blast
  have "sameServer archiveEnv archiveEnv" by (simp add: sameServer_def)
  from archived_item_verifies [OF arch_office_reach c this arch_faults] arch_keys show ?thesis
    by (simp add: arch3_def arch0_def)
qed

section \<open>Download tickets\<close>

text \<open>What can happen to the tickets: one is issued, one is redeemed, or something else happens.\<close>

inductive ticket_step :: "archiveState \<Rightarrow> archiveState \<Rightarrow> bool" where
  issue: "archiveTicket A me i st = (st', r) \<Longrightarrow> ticket_step st st'"
| redeem: "publicDownload A ip token st = (st', r) \<Longrightarrow> ticket_step st st'"
| other: "asTickets st' = asTickets st \<Longrightarrow> ticket_step st st'"

definition spent :: "string \<Rightarrow> archiveState \<Rightarrow> bool" where
  "spent h st \<longleftrightarrow> (case map_of (asTickets st) h of None \<Rightarrow> False | Some t \<Rightarrow> tkUsedAt t \<noteq> None)"

lemma streamItem_tickets:
  "streamItem A ip i adm st = (st', r) \<Longrightarrow> asTickets st' = asTickets st"
  by (auto simp: streamItem_def split: if_split_asm option.split_asm)

lemma publicDownload_tickets:
  assumes "publicDownload A ip token st = (st', r)"
  shows "asTickets st' = asTickets st \<or>
    asTickets st' = AList.map_entry (tokenHash A token) (\<lambda>t. t\<lparr>tkUsedAt := Some (enTime (aeEnv A))\<rparr>) (asTickets st)"
  using assms streamItem_tickets
  by (fastforce simp: publicDownload_def Let_def split: if_split_asm option.split_asm)

lemma ticket_step_spent: "ticket_step st st' \<Longrightarrow> spent h st \<Longrightarrow> spent h st'"
proof (induction rule: ticket_step.induct)
  case (issue A me i st st' r)
  then show ?case
    by (auto simp: archiveTicket_def spent_def Let_def map_add_def split: if_split_asm option.splits)
next
  case (redeem A ip token st st' r)
  then show ?case using publicDownload_tickets [OF redeem(1)]
    by (auto simp: spent_def AList.map_of_map_entry split: option.splits if_split_asm)
qed (simp add: spent_def)

text \<open>
  C31. A download ticket works once: a download through a ticket finds it unused and unexpired (at most two minutes after
  it was issued), streams the stored bytes of the ticket's item, enters them in the access trail under the administrator who
  issued it when the trail can be written, and after that, whatever else happens, the same token is refused.
\<close>

theorem ticket_works_once:
  assumes "publicDownload A ip token st = (st1, Stream disposition n b)" "ticket_step\<^sup>*\<^sup>* st1 st2"
    and "tokenHash A' token = tokenHash A token"
  shows "(\<exists>t it. map_of (asTickets st) (tokenHash A token) = Some t \<and> tkUsedAt t = None \<and> enTime (aeEnv A) < tkExpiresAt t \<and>
      find (\<lambda>it. aiID it = tkItemID t) (asItems st) = Some it \<and> asObjects st (aiStorageKey it) = Some b \<and>
      (\<not> aeFault A ''log access'' \<longrightarrow> asAccess st1 = asAccess st @
        [\<lparr>acItemID = tkItemID t, acAdminID = tkAdminID t, acAction = ''download'', acClientIP = ip\<rparr>])) \<and>
    publicDownload A' ip' token st2 =
      (st2, Answer (Fail 404 ''tautan unduhan tidak berlaku (kedaluwarsa atau sudah dipakai)''))"
proof -
  obtain t where t: "map_of (asTickets st) (tokenHash A token) = Some t" "tkUsedAt t = None" "enTime (aeEnv A) < tkExpiresAt t"
    and s: "streamItem A ip (tkItemID t) (tkAdminID t)
      (st\<lparr>asTickets := AList.map_entry (tokenHash A token) (\<lambda>t. t\<lparr>tkUsedAt := Some (enTime (aeEnv A))\<rparr>) (asTickets st)\<rparr>) =
        (st1, Stream disposition n b)"
    using assms(1) by (auto simp: publicDownload_def Let_def split: if_split_asm option.split_asm)
  have "spent (tokenHash A token) st1"
    using streamItem_tickets [OF s] t by (simp add: spent_def AList.map_of_map_entry)
  with assms(2) have "spent (tokenHash A token) st2" by induction (auto intro: ticket_step_spent)
  then have "publicDownload A' ip' token st2 =
      (st2, Answer (Fail 404 ''tautan unduhan tidak berlaku (kedaluwarsa atau sudah dipakai)''))"
    by (auto simp: publicDownload_def spent_def Let_def assms(3) split: option.splits)
  then show ?thesis using t s by (auto simp: streamItem_def split: if_split_asm option.split_asm)
qed

lemma ticket_works_once_witness:
  "\<exists>st1 d n. publicDownload archiveEnv ''ip'' [] ticketState = (st1, Stream d n ''abc'') \<and>
     publicDownload archiveEnv ''ip'' [] st1 =
       (st1, Answer (Fail 404 ''tautan unduhan tidak berlaku (kedaluwarsa atau sudah dipakai)''))"
  using ticket_redeemed ticket_works_once [OF _ rtranclp.rtrancl_refl refl] by blast

end
