(* ===== verification/Go_JSON.thy ===== *)
theory Go_JSON
  imports Go_Strings
begin

text \<open>
  \<^verbatim>\<open>json.Unmarshal\<close> as the session tokens use it: the JSON grammar of \<^verbatim>\<open>encoding/json\<close> over bytes, strings with their
  escapes (lone surrogates and malformed UTF-8 become the replacement character), and number literals kept as text.
  The nesting bound is the fuel; a text of \<open>n\<close> bytes nests fewer than \<open>n\<close> levels.
\<close>

section \<open>Strings\<close>

text \<open>The UTF-8 encoding of a code point.\<close>

definition utf8Rune :: "nat \<Rightarrow> bytes" where
  "utf8Rune n =
     (if n < 0x80 then [char_of n]
      else if n < 0x800 then [char_of (0xC0 + n div 0x40), char_of (0x80 + n mod 0x40)]
      else if n < 0x10000 then
        [char_of (0xE0 + n div 0x1000), char_of (0x80 + n div 0x40 mod 0x40), char_of (0x80 + n mod 0x40)]
      else [char_of (0xF0 + n div 0x40000), char_of (0x80 + n div 0x1000 mod 0x40), char_of (0x80 + n div 0x40 mod 0x40),
            char_of (0x80 + n mod 0x40)])"

definition hexVal :: "char \<Rightarrow> nat option" where
  "hexVal c =
     (if inRange 48 57 c then Some (code c - 48)
      else if inRange 97 102 c then Some (code c - 87)
      else if inRange 65 70 c then Some (code c - 55) else None)"

text \<open>The four hexadecimal digits after \<^verbatim>\<open>\u\<close>.\<close>

fun hex4 :: "bytes \<Rightarrow> nat option" where
  "hex4 (a # b # c # d # r) =
     (case (hexVal a, hexVal b, hexVal c, hexVal d) of
        (Some w, Some x, Some y, Some z) \<Rightarrow> Some (((w * 16 + x) * 16 + y) * 16 + z)
      | _ \<Rightarrow> None)"
| "hex4 _ = None"

definition isHigh :: "nat \<Rightarrow> bool" where "isHigh n \<longleftrightarrow> 0xD800 \<le> n \<and> n < 0xDC00"
definition isLow :: "nat \<Rightarrow> bool" where "isLow n \<longleftrightarrow> 0xDC00 \<le> n \<and> n < 0xE000"

text \<open>A second escape that completes a surrogate pair.\<close>

fun lowAfter :: "bytes \<Rightarrow> nat option" where
  "lowAfter (a # b # r) =
     (if a = bsl \<and> b = CHR ''u'' then (case hex4 r of Some n \<Rightarrow> if isLow n then Some n else None | None \<Rightarrow> None) else None)"
| "lowAfter _ = None"

definition simpleEscape :: "char \<Rightarrow> char option" where
  "simpleEscape e =
     (if e = quot \<or> e = bsl \<or> e = CHR ''/'' then Some e
      else if e \<in> {CHR ''b'', CHR ''f'', CHR ''n'', CHR ''r'', CHR ''t''} then Some (unEsc e) else None)"

text \<open>Reads a string after its opening quote; returns it with the rest of the text.\<close>

function readString :: "bytes \<Rightarrow> (string \<times> bytes) option" where
  "readString s =
     (case s of
        [] \<Rightarrow> None
      | c # r \<Rightarrow>
          if c = quot then Some ([], r)
          else if code c < 0x20 then None
          else if c = bsl then
            (case r of
               [] \<Rightarrow> None
             | e # r2 \<Rightarrow>
                 if e = CHR ''u'' then
                   (case hex4 r2 of
                      None \<Rightarrow> None
                    | Some n \<Rightarrow>
                        if isHigh n then
                          (case lowAfter (drop 4 r2) of
                             Some l \<Rightarrow> map_option (apfst ((@) (utf8Rune (0x10000 + (n - 0xD800) * 0x400 + (l - 0xDC00)))))
                                        (readString (drop 10 r2))
                           | None \<Rightarrow> map_option (apfst ((@) (utf8Rune 0xFFFD))) (readString (drop 4 r2)))
                        else map_option (apfst ((@) (utf8Rune (if isLow n then 0xFFFD else n)))) (readString (drop 4 r2)))
                 else (case simpleEscape e of
                     None \<Rightarrow> None
                   | Some x \<Rightarrow> map_option (apfst ((#) x)) (readString r2)))
          else if code c < 0x80 then map_option (apfst ((#) c)) (readString r)
          else if utf8Width s = 0 then map_option (apfst ((@) (utf8Rune 0xFFFD))) (readString r)
          else map_option (apfst ((@) (take (utf8Width s) s))) (readString (drop (utf8Width s - 1) r)))"
  by pat_completeness auto
termination by (relation "measure length") auto

declare readString.simps [simp del]

section \<open>Numbers\<close>

text \<open>The longest prefix of digits.\<close>

definition digitsOf :: "bytes \<Rightarrow> bytes \<times> bytes" where
  "digitsOf s = (takeWhile isDigit s, dropWhile isDigit s)"

text \<open>The integer part: a zero alone, or digits that do not start with one.\<close>

definition readInteger :: "bytes \<Rightarrow> (bytes \<times> bytes) option" where
  "readInteger s =
     (case s of
        [] \<Rightarrow> None
      | c # r \<Rightarrow> if c = CHR ''0'' then Some ([c], r) else if isDigit c then Some (digitsOf s) else None)"

definition readFraction :: "bytes \<Rightarrow> (bytes \<times> bytes) option" where
  "readFraction s =
     (case s of
        c # r \<Rightarrow>
          if c = CHR ''.'' then (case digitsOf r of (d, r') \<Rightarrow> if d = [] then None else Some (c # d, r')) else Some ([], s)
      | [] \<Rightarrow> Some ([], s))"

definition readExponent :: "bytes \<Rightarrow> (bytes \<times> bytes) option" where
  "readExponent s =
     (case s of
        c # r \<Rightarrow>
          if c = CHR ''e'' \<or> c = CHR ''E'' then
            (let (sg, r1) = (case r of x # r' \<Rightarrow> if x = CHR ''+'' \<or> x = CHR ''-'' then ([x], r') else ([], r) | [] \<Rightarrow> ([], r))
             in case digitsOf r1 of (d, r') \<Rightarrow> if d = [] then None else Some (c # sg @ d, r'))
          else Some ([], s)
      | [] \<Rightarrow> Some ([], s))"

definition readNumber :: "bytes \<Rightarrow> (bytes \<times> bytes) option" where
  "readNumber s =
     (let (sg, r0) = (case s of c # r \<Rightarrow> if c = CHR ''-'' then ([c], r) else ([], s) | [] \<Rightarrow> ([], s))
      in case readInteger r0 of
           None \<Rightarrow> None
         | Some (i, r1) \<Rightarrow>
             (case readFraction r1 of
                None \<Rightarrow> None
              | Some (f, r2) \<Rightarrow>
                  (case readExponent r2 of
                     None \<Rightarrow> None
                   | Some (x, r3) \<Rightarrow> Some (sg @ i @ f @ x, r3))))"

section \<open>Values\<close>

definition skipWs :: "bytes \<Rightarrow> bytes" where
  "skipWs s = dropWhile (\<lambda>c. c \<in> {CHR '' '', CHR 0x09, CHR 0x0A, CHR 0x0D}) s"

text \<open>A literal name at the head of the text.\<close>

definition literal :: "string \<Rightarrow> jval \<Rightarrow> bytes \<Rightarrow> (jval \<times> bytes) option" where
  "literal w v s = (if hasPrefix s w then Some (v, drop (length w) s) else None)"

text \<open>
  \<open>readValue\<close> starts at a value, \<open>readElements\<close> after the opening bracket or a comma of a non-empty array,
  \<open>readMembers\<close> before the key of a member.
\<close>

fun readValue :: "nat \<Rightarrow> bytes \<Rightarrow> (jval \<times> bytes) option"
and readElements :: "nat \<Rightarrow> bytes \<Rightarrow> (jval list \<times> bytes) option"
and readMembers :: "nat \<Rightarrow> bytes \<Rightarrow> ((string \<times> jval) list \<times> bytes) option" where
  "readValue 0 s = None"
| "readValue (Suc n) s =
     (case skipWs s of
        [] \<Rightarrow> None
      | c # r \<Rightarrow>
          if c = quot then map_option (apfst JStr) (readString r)
          else if c = CHR ''{'' then
            (case skipWs r of
               [] \<Rightarrow> None
             | d # r' \<Rightarrow> if d = CHR ''}'' then Some (JObj [], r') else map_option (apfst JObj) (readMembers n (d # r')))
          else if c = CHR ''['' then
            (case skipWs r of
               [] \<Rightarrow> None
             | d # r' \<Rightarrow> if d = CHR '']'' then Some (JArr [], r') else map_option (apfst JArr) (readElements n (d # r')))
          else if c = CHR ''t'' then literal ''true'' (JBool True) (c # r)
          else if c = CHR ''f'' then literal ''false'' (JBool False) (c # r)
          else if c = CHR ''n'' then literal ''null'' JNull (c # r)
          else map_option (apfst JNum) (readNumber (c # r)))"
| "readElements 0 s = None"
| "readElements (Suc n) s =
     (case readValue n s of
        None \<Rightarrow> None
      | Some (v, r) \<Rightarrow>
          (case skipWs r of
             [] \<Rightarrow> None
           | c # r' \<Rightarrow>
               if c = CHR '']'' then Some ([v], r')
               else if c = CHR '','' then map_option (apfst ((#) v)) (readElements n r')
               else None))"
| "readMembers 0 s = None"
| "readMembers (Suc n) s =
     (case skipWs s of
        [] \<Rightarrow> None
      | q # r0 \<Rightarrow>
          if q \<noteq> quot then None
          else (case readString r0 of
              None \<Rightarrow> None
            | Some (k, r1) \<Rightarrow>
                (case skipWs r1 of
                   [] \<Rightarrow> None
                 | c # r2 \<Rightarrow>
                     if c \<noteq> CHR '':'' then None
                     else (case readValue n r2 of
                         None \<Rightarrow> None
                       | Some (v, r3) \<Rightarrow>
                           (case skipWs r3 of
                              [] \<Rightarrow> None
                            | d # r4 \<Rightarrow>
                                if d = CHR ''}'' then Some ([(k, v)], r4)
                                else if d = CHR '','' then map_option (apfst ((#) (k, v))) (readMembers n r4)
                                else None)))))"

text \<open>A whole text: one value and nothing but white space after it.\<close>

definition parseJSON :: "bytes \<Rightarrow> jval option" where
  "parseJSON s =
     (case readValue (2 * length s + 2) s of
        Some (v, r) \<Rightarrow> if skipWs r = [] then Some v else None
      | None \<Rightarrow> None)"

section \<open>Plain strings and decimal numbers are read back\<close>

text \<open>Characters that are written as they are.\<close>

definition plainJSON :: "char \<Rightarrow> bool" where
  "plainJSON c \<longleftrightarrow> 0x20 \<le> code c \<and> code c < 0x80 \<and> c \<notin> {quot, bsl, CHR ''<'', CHR ''>'', CHR ''&''}"

lemma quoteBody_plain: "list_all plainJSON s \<Longrightarrow> quoteBody s = s"
proof (induction s)
  case (Cons c r)
  then have "plainJSON c" "quoteBody r = r" by simp_all
  then show ?case by (auto simp: quoteBody.simps [of "c # r"] plainJSON_def escByte_def)
qed (simp add: quoteBody.simps)

lemma readString_plain:
  "list_all plainJSON s \<Longrightarrow> readString (s @ quot # r) = Some (s, r)"
proof (induction s)
  case (Cons c s)
  then have "plainJSON c" "readString (s @ quot # r) = Some (s, r)" by simp_all
  then show ?case by (auto simp: readString.simps [of "c # _"] plainJSON_def)
qed (simp add: readString.simps)

lemma dec_leading_zero: "hd (dec n) = digit 0 \<Longrightarrow> n = 0"
proof (induction n rule: dec.induct)
  case (1 n)
  show ?case
  proof (cases "n < 10")
    case True
    then have "undigit (digit n) = undigit (digit 0)" using 1 by (simp add: dec.simps [of n])
    then show ?thesis using True by simp
  next
    case False
    then have "hd (dec (n div 10)) = digit 0" using 1(2) by (simp add: dec.simps [of n])
    then show ?thesis using 1(1) False by auto
  qed
qed

text \<open>What may follow a number.\<close>

definition endsNumber :: "bytes \<Rightarrow> bool" where
  "endsNumber r \<longleftrightarrow> (case r of [] \<Rightarrow> True | c # _ \<Rightarrow> \<not> isDigit c \<and> c \<notin> {CHR ''.'', CHR ''e'', CHR ''E''})"

lemma endsNumber_Nil [simp]: "endsNumber []"
  by (simp add: endsNumber_def)

lemma endsNumber_Cons: "endsNumber (c # r) \<longleftrightarrow> \<not> isDigit c \<and> c \<notin> {CHR ''.'', CHR ''e'', CHR ''E''}"
  by (simp add: endsNumber_def)

lemma digitsOf_all: "list_all isDigit d \<Longrightarrow> endsNumber r \<Longrightarrow> digitsOf (d @ r) = (d, r)"
  by (cases r) (auto simp: digitsOf_def endsNumber_Cons list_all_iff takeWhile_append dropWhile_append)

lemma readInteger_dec:
  assumes "endsNumber r"
  shows "readInteger (dec n @ r) = Some (dec n, r)"
proof -
  obtain c t where d: "dec n = c # t" by (cases "dec n") auto
  have digits: "list_all isDigit (c # t)" using isDigit_dec [of n] d by simp
  have zero: "c = CHR ''0'' \<Longrightarrow> t = []"
  proof -
    assume "c = CHR ''0''"
    moreover have "digit 0 = CHR ''0''" by code_simp
    ultimately have "n = 0" using dec_leading_zero [of n] d by simp
    then show "t = []" using d by (simp add: dec.simps [of 0])
  qed
  show ?thesis using zero digitsOf_all [OF digits assms] digits d by (auto simp: readInteger_def)
qed

lemma readNumber_dec:
  assumes "endsNumber r"
  shows "readNumber (dec n @ r) = Some (dec n, r)"
proof -
  obtain c t where d: "dec n = c # t" by (cases "dec n") auto
  then have "isDigit c" using isDigit_dec [of n] by simp
  then have "c \<noteq> CHR ''-''" by (auto simp: isDigit_def code_def)
  moreover have "readFraction r = Some ([], r)" "readExponent r = Some ([], r)"
    using assms by (cases r; auto simp: readFraction_def readExponent_def endsNumber_Cons)+
  ultimately show ?thesis
    using readInteger_dec [OF assms, of n] d by (simp add: readNumber_def)
qed

end
