(* ===== verification/TTD_Auth.thy ===== *)
theory TTD_Auth
  imports Go_JSON Base64
begin

text \<open>
  Passwords, session tokens and one-time codes of the TTD server: \<^verbatim>\<open>ttd/server/internal/auth/auth.go\<close> and
  \<^verbatim>\<open>totp.go\<close>.  Argon2id (a third-party package) and the two HMACs are parameters; the encodings around them
  are written out.  Times are nanoseconds since the Unix epoch.
\<close>

section \<open>Encodings\<close>

text \<open>\<^verbatim>\<open>base64.RawStdEncoding\<close> and \<^verbatim>\<open>base64.RawURLEncoding\<close>: no padding; the decoders skip line breaks.\<close>

definition b64raw :: "bytes \<Rightarrow> string" where
  "b64raw bs = filter (\<lambda>c. c \<noteq> CHR ''='') (b64encode bs)"

definition b64rawDecode :: "string \<Rightarrow> bytes option" where
  "b64rawDecode s =
     (let t = filter (\<lambda>c. c \<noteq> CHR 0x0A \<and> c \<noteq> CHR 0x0D) s; k = length t mod 4
      in if CHR ''='' \<in> set t \<or> k = 1 then None
         else b64quads (t @ replicate (if k = 0 then 0 else 4 - k) (CHR ''='')))"

definition urlChar :: "char \<Rightarrow> char" where
  "urlChar c = (if c = CHR ''+'' then CHR ''-'' else if c = CHR ''/'' then CHR ''_'' else c)"

definition stdChar :: "char \<Rightarrow> char" where
  "stdChar c = (if c = CHR ''-'' then CHR ''+'' else if c = CHR ''_'' then CHR ''/'' else c)"

definition b64url :: "bytes \<Rightarrow> string" where
  "b64url bs = map urlChar (b64raw bs)"

definition b64urlDecode :: "string \<Rightarrow> bytes option" where
  "b64urlDecode s = (if CHR ''+'' \<in> set s \<or> CHR ''/'' \<in> set s then None else b64rawDecode (map stdChar s))"

text \<open>\<^verbatim>\<open>strings.Split\<close> with a separator of one byte.\<close>

fun splitOn :: "char \<Rightarrow> string \<Rightarrow> string list" where
  "splitOn sep [] = [[]]"
| "splitOn sep (c # s) =
     (if c = sep then [] # splitOn sep s
      else (case splitOn sep s of [] \<Rightarrow> [[c]] | p # ps \<Rightarrow> (c # p) # ps))"

text \<open>\<^verbatim>\<open>base32.StdEncoding\<close> without padding.  A last group of 1, 3 or 6 letters is dropped silently.\<close>

definition b32val :: "char \<Rightarrow> nat option" where
  "b32val c = (if inRange 65 90 c then Some (code c - 65) else if inRange 50 55 c then Some (code c - 24) else None)"

definition b32group :: "nat list \<Rightarrow> bytes" where
  "b32group vs =
     (let n = foldl (\<lambda>a v. 32 * a + v) 0 vs; k = length vs
      in if k = 8 then map (\<lambda>i. char_of (n div 256 ^ (4 - i) mod 256)) [0, 1, 2, 3, 4]
         else if k = 7 then map (\<lambda>i. char_of (n div 8 div 256 ^ (3 - i) mod 256)) [0, 1, 2, 3]
         else if k = 5 then map (\<lambda>i. char_of (n div 2 div 256 ^ (2 - i) mod 256)) [0, 1, 2]
         else if k = 4 then map (\<lambda>i. char_of (n div 16 div 256 ^ (1 - i) mod 256)) [0, 1]
         else if k = 2 then [char_of (n div 4 mod 256)]
         else [])"

function b32groups :: "nat list \<Rightarrow> bytes" where
  "b32groups vs = (if vs = [] then [] else b32group (take 8 vs) @ b32groups (drop 8 vs))"
  by pat_completeness auto
termination by (relation "measure length") auto

declare b32groups.simps [simp del]

definition b32decode :: "string \<Rightarrow> bytes option" where
  "b32decode s =
     (let t = filter (\<lambda>c. c \<noteq> CHR 0x0A \<and> c \<noteq> CHR 0x0D) s
      in if list_all (\<lambda>c. b32val c \<noteq> None) t then Some (b32groups (map (the \<circ> b32val) t)) else None)"

definition b32bits :: "bytes \<Rightarrow> bool list" where
  "b32bits bs = concat (map (\<lambda>c. map (\<lambda>i. odd (code c div 2 ^ (7 - i))) [0..<8]) bs)"

function b32encodeBits :: "bool list \<Rightarrow> string" where
  "b32encodeBits bs =
     (if bs = [] then []
      else let g = take 5 bs @ replicate (5 - length bs) False;
               v = foldl (\<lambda>a x. 2 * a + (if x then 1 else 0)) (0::nat) g
           in (if v < 26 then char_of (65 + v) else char_of (24 + v)) # b32encodeBits (drop 5 bs))"
  by pat_completeness auto
termination by (relation "measure length") auto

declare b32encodeBits.simps [simp del]

definition b32encode :: "bytes \<Rightarrow> string" where
  "b32encode bs = b32encodeBits (b32bits bs)"

section \<open>Primitives\<close>

text \<open>
  \<open>argon\<close> takes password, salt, time, memory, threads and key length; the HMACs take key and message.
\<close>

record auth_prims =
  argon :: "bytes \<Rightarrow> bytes \<Rightarrow> nat \<Rightarrow> nat \<Rightarrow> nat \<Rightarrow> nat \<Rightarrow> bytes"
  hmacSHA256 :: "bytes \<Rightarrow> bytes \<Rightarrow> bytes"
  hmacSHA1 :: "bytes \<Rightarrow> bytes \<Rightarrow> bytes"

section \<open>Passwords\<close>

definition argonTime :: nat where "argonTime = 3"
definition argonMemory :: nat where "argonMemory = 64 * 1024"
definition argonThreads :: nat where "argonThreads = 4"
definition argonKeyLen :: nat where "argonKeyLen = 32"
definition saltLen :: nat where "saltLen = 16"
definition MaxPasswordLength :: nat where "MaxPasswordLength = 128"

text \<open>The salt is what the random source returned, \<open>None\<close> when it failed.\<close>

definition HashPassword :: "auth_prims \<Rightarrow> bytes option \<Rightarrow> string \<Rightarrow> string option" where
  "HashPassword P salt password =
     (if length password > MaxPasswordLength then None
      else case salt of
          None \<Rightarrow> None
        | Some salt \<Rightarrow>
            let key = argon P password salt argonTime argonMemory argonThreads argonKeyLen
            in Some (''$argon2id$v='' @ dec 19 @ ''$m='' @ dec argonMemory @ '',t='' @ dec argonTime @ '',p='' @
                     dec argonThreads @ ''$'' @ b64raw salt @ ''$'' @ b64raw key))"

text \<open>
  \<^verbatim>\<open>fmt.Sscanf\<close> with \<^verbatim>\<open>%d\<close> into an unsigned integer: blanks are skipped (a line break is an error), then at least one
  digit, within the width.
\<close>

definition scanUint :: "nat \<Rightarrow> string \<Rightarrow> (nat \<times> string) option" where
  "scanUint width s =
     (let t = dropWhile (\<lambda>c. c \<in> {CHR '' '', CHR 0x09}) s; (ds, r) = digitsOf t
      in if ds = [] \<or> undec ds \<ge> 2 ^ width then None else Some (undec ds, r))"

definition scanLit :: "string \<Rightarrow> string \<Rightarrow> string option" where
  "scanLit w s = (if hasPrefix s w then Some (drop (length w) s) else None)"

definition scanParams :: "string \<Rightarrow> (nat \<times> nat \<times> nat) option" where
  "scanParams s =
     Option.bind (scanLit ''m='' s) (\<lambda>s. Option.bind (scanUint 32 s) (\<lambda>(mem, s).
     Option.bind (scanLit '',t='' s) (\<lambda>s. Option.bind (scanUint 32 s) (\<lambda>(tCost, s).
     Option.bind (scanLit '',p='' s) (\<lambda>s. Option.bind (scanUint 8 s) (\<lambda>(par, s). Some (mem, tCost, par)))))))"

definition VerifyPassword :: "auth_prims \<Rightarrow> string \<Rightarrow> string \<Rightarrow> bool" where
  "VerifyPassword P password encoded =
     (if length password > MaxPasswordLength then False
      else case splitOn (CHR ''$'') encoded of
          [p0, p1, p2, p3, p4, p5] \<Rightarrow>
            if p1 \<noteq> ''argon2id'' then False
            else (case scanParams p3 of
                None \<Rightarrow> False
              | Some (mem, tCost, par) \<Rightarrow>
                  (case (b64rawDecode p4, b64rawDecode p5) of
                     (Some salt, Some want) \<Rightarrow> argon P password salt tCost mem par (length want) = want
                   | _ \<Rightarrow> False))
        | _ \<Rightarrow> False)"

section \<open>Session tokens\<close>

definition second :: int where "second = 1000000000"
definition minute :: int where "minute = 60 * second"

definition unix :: "int \<Rightarrow> int" where "unix t = t div second"

record Claims =
  Sub :: string
  Role :: string
  Exp :: int
  Iat :: int

definition zeroClaims :: Claims where "zeroClaims = \<lparr>Sub = [], Role = [], Exp = 0, Iat = 0\<rparr>"

record Signer =
  sgSecret :: bytes
  sgTTL :: int

definition NewSigner :: "bytes \<Rightarrow> int \<Rightarrow> Signer" where
  "NewSigner secret ttl = \<lparr>sgSecret = secret, sgTTL = (if ttl \<le> 0 then 15 * minute else ttl)\<rparr>"

definition marshalClaims :: "Claims \<Rightarrow> bytes" where
  "marshalClaims c =
     ''{'' @ marshalString ''sub'' @ '':'' @ marshalString (Sub c) @ '','' @ marshalString ''role'' @ '':'' @ marshalString (Role c) @
     '','' @ marshalString ''exp'' @ '':'' @ fmt_d (Exp c) @ '','' @ marshalString ''iat'' @ '':'' @ fmt_d (Iat c) @ ''}''"

definition tokenHeader :: string where
  "tokenHeader =
     b64url (''{'' @ marshalString ''alg'' @ '':'' @ marshalString ''HS256'' @ '','' @ marshalString ''typ'' @ '':'' @
       marshalString ''JWT'' @ ''}'')"

definition mac :: "auth_prims \<Rightarrow> Signer \<Rightarrow> string \<Rightarrow> string" where
  "mac P s msg = b64url (hmacSHA256 P (sgSecret s) msg)"

definition Issue :: "auth_prims \<Rightarrow> Signer \<Rightarrow> int \<Rightarrow> string \<Rightarrow> string \<Rightarrow> string" where
  "Issue P s now accountID role =
     (let c = \<lparr>Sub = accountID, Role = role, Exp = unix (now + sgTTL s), Iat = unix now\<rparr>;
          signing = tokenHeader @ ''.'' @ b64url (marshalClaims c)
      in signing @ ''.'' @ mac P s signing)"

text \<open>
  A struct field is matched by name up to case folding, where the long s and the Kelvin sign fold to ASCII letters;
  \<^verbatim>\<open>null\<close> leaves a field as it is, unknown members are skipped, and a value of the wrong type is an error.
\<close>

fun foldKey :: "string \<Rightarrow> string" where
  "foldKey (a # b # c # r) =
     (if [a, b, c] = [CHR 0xE2, CHR 0x84, CHR 0xAA] then CHR ''k'' # foldKey r
      else if [a, b] = [CHR 0xC5, CHR 0xBF] then CHR ''s'' # foldKey (c # r)
      else toLowerAscii a # foldKey (b # c # r))"
| "foldKey [a, b] = (if [a, b] = [CHR 0xC5, CHR 0xBF] then ''s'' else [toLowerAscii a, toLowerAscii b])"
| "foldKey [a] = [toLowerAscii a]"
| "foldKey [] = []"

declare foldKey.simps [simp del]

definition intField :: "(int \<Rightarrow> Claims) \<Rightarrow> Claims \<Rightarrow> jval \<Rightarrow> Claims option" where
  "intField upd c v =
     (case v of JNull \<Rightarrow> Some c | JNum t \<Rightarrow> map_option upd (parseInt t) | _ \<Rightarrow> None)"

definition textField :: "(string \<Rightarrow> Claims) \<Rightarrow> Claims \<Rightarrow> jval \<Rightarrow> Claims option" where
  "textField upd c v = (case v of JNull \<Rightarrow> Some c | JStr t \<Rightarrow> Some (upd t) | _ \<Rightarrow> None)"

definition claimMember :: "Claims \<Rightarrow> string \<times> jval \<Rightarrow> Claims option" where
  "claimMember c kv =
     (let k = foldKey (fst kv); v = snd kv
      in if k = ''sub'' then textField (\<lambda>t. c\<lparr>Sub := t\<rparr>) c v
         else if k = ''role'' then textField (\<lambda>t. c\<lparr>Role := t\<rparr>) c v
         else if k = ''exp'' then intField (\<lambda>n. c\<lparr>Exp := n\<rparr>) c v
         else if k = ''iat'' then intField (\<lambda>n. c\<lparr>Iat := n\<rparr>) c v
         else Some c)"

fun claimMembers :: "Claims \<Rightarrow> (string \<times> jval) list \<Rightarrow> Claims option" where
  "claimMembers c [] = Some c"
| "claimMembers c (kv # r) = (case claimMember c kv of None \<Rightarrow> None | Some c' \<Rightarrow> claimMembers c' r)"

definition unmarshalClaims :: "bytes \<Rightarrow> Claims option" where
  "unmarshalClaims raw =
     (case parseJSON raw of
        Some (JObj kvs) \<Rightarrow> claimMembers zeroClaims kvs
      | Some JNull \<Rightarrow> Some zeroClaims
      | _ \<Rightarrow> None)"

definition Parse :: "auth_prims \<Rightarrow> Signer \<Rightarrow> int \<Rightarrow> string \<Rightarrow> Claims option" where
  "Parse P s now token =
     (case splitOn (CHR ''.'') token of
        [h, p, m] \<Rightarrow>
          if m \<noteq> mac P s (h @ ''.'' @ p) then None
          else (case b64urlDecode p of
              None \<Rightarrow> None
            | Some raw \<Rightarrow>
                (case unmarshalClaims raw of
                   None \<Rightarrow> None
                 | Some c \<Rightarrow> if unix now \<ge> Exp c then None else Some c))
      | _ \<Rightarrow> None)"

section \<open>One-time codes\<close>

definition totpPeriod :: int where "totpPeriod = 30"
definition totpDigits :: nat where "totpDigits = 6"

text \<open>The secret of 20 random bytes; the error of the random source is ignored.\<close>

definition NewTOTPSecret :: "bytes \<Rightarrow> string" where
  "NewTOTPSecret b = b32encode b"

text \<open>Go's division truncates; the clock is past 1970, where it agrees with \<open>div\<close>.\<close>

definition TOTPStep :: "int \<Rightarrow> int" where
  "TOTPStep t = (if unix t < 0 then - (- unix t div totpPeriod) else unix t div totpPeriod)"

definition toUpperAscii :: "char \<Rightarrow> char" where
  "toUpperAscii c = (if 97 \<le> code c \<and> code c \<le> 122 then char_of (code c - 32) else c)"

definition bigEndian64 :: "int \<Rightarrow> bytes" where
  "bigEndian64 n = map (\<lambda>i. char_of (nat (n mod 2 ^ 64) div 256 ^ (7 - i) mod 256)) [0..<8]"

text \<open>The byte at an index; an HMAC-SHA1 has 20 bytes and the indices stay below 19.\<close>

definition byteAt :: "bytes \<Rightarrow> nat \<Rightarrow> nat" where
  "byteAt b i = (if i < length b then code (b ! i) else 0)"

definition TOTPCodeAt :: "auth_prims \<Rightarrow> string \<Rightarrow> int \<Rightarrow> string option" where
  "TOTPCodeAt P secret step =
     (case b32decode (map toUpperAscii (filter (\<lambda>c. c \<noteq> CHR '' '') secret)) of
        None \<Rightarrow> None
      | Some key \<Rightarrow>
          let sum = hmacSHA1 P key (bigEndian64 step);
              off = byteAt sum (length sum - 1) mod 16;
              bin = byteAt sum off mod 128 * 2 ^ 24 + byteAt sum (off + 1) * 2 ^ 16 + byteAt sum (off + 2) * 2 ^ 8 +
                    byteAt sum (off + 3)
          in Some (zpad totpDigits (dec (bin mod 10 ^ totpDigits))))"

definition VerifyTOTP :: "auth_prims \<Rightarrow> string \<Rightarrow> string \<Rightarrow> int \<Rightarrow> int \<Rightarrow> int option" where
  "VerifyTOTP P secret given now lastStep =
     (let given = filter (\<lambda>c. c \<noteq> CHR '' '') (trimSpace given); cur = TOTPStep now
      in if length given \<noteq> totpDigits then None
         else if list_ex (\<lambda>step. TOTPCodeAt P secret step = None) [cur - 1, cur, cur + 1] then None
         else find (\<lambda>step. TOTPCodeAt P secret step = Some given \<and> step > lastStep) [cur - 1, cur, cur + 1])"

section \<open>Encodings round trip\<close>

lemma b64char_in_alphabet: "n < 64 \<Longrightarrow> b64val (b64char n) \<noteq> None"
  by (simp add: b64val_char)

lemma b64raw_shape:
  "\<exists>k\<le>2. b64encode bs = b64raw bs @ replicate k (CHR ''='') \<and> (length (b64raw bs) + k) mod 4 = 0 \<and>
     list_all (\<lambda>c. b64val c \<noteq> None) (b64raw bs)"
proof (induction bs rule: b64encode.induct)
  case 1
  then show ?case by (auto simp: b64raw_def)
next
  case (2 a)
  have "code a * 16 div 64 < 64" using code_less [of a] by linarith
  then show ?case
    by (intro exI [of _ 2]) (simp add: b64raw_def Let_def b64char_plain b64val_char numeral_2_eq_2)
next
  case (3 a b)
  have "(code a * 256 + code b) * 4 div 4096 < 64"
    using code_less [of a] code_less [of b] by (simp add: div_less_iff_less_mult)
  then show ?case by (intro exI [of _ 1]) (simp add: b64raw_def Let_def b64char_plain b64val_char)
next
  case (4 a b c r)
  note q = quad_bytes [OF code_less [of a] code_less [of b] code_less [of c]]
  obtain k where k: "k \<le> 2" "b64encode r = b64raw r @ replicate k (CHR ''='')" "(length (b64raw r) + k) mod 4 = 0"
    "list_all (\<lambda>c. b64val c \<noteq> None) (b64raw r)"
    using 4 [OF refl] by (elim exE conjE) (rule that)
  define n where "n = code a * 65536 + code b * 256 + code c"
  define four where "four = [b64char (n div 262144), b64char (n div 4096 mod 64), b64char (n div 64 mod 64), b64char (n mod 64)]"
  have e: "b64encode (a # b # c # r) = four @ b64encode r" by (simp add: four_def n_def Let_def)
  note q' = q(1-4) [folded n_def]
  have "list_all (\<lambda>c. b64val c \<noteq> None) four" "list_all (\<lambda>c. c \<noteq> CHR ''='') four" "length four = 4"
    unfolding four_def by (simp_all only: list.pred_inject b64val_char [OF q'(1)] b64val_char [OF q'(2)] b64val_char [OF q'(3)]
      b64val_char [OF q'(4)] b64char_plain q' list.size not_None_eq) simp_all
  moreover have "b64raw (a # b # c # r) = filter (\<lambda>c. c \<noteq> CHR ''='') four @ b64raw r" by (simp only: b64raw_def e filter_append)
  ultimately have f: "b64raw (a # b # c # r) = four @ b64raw r" "list_all (\<lambda>c. b64val c \<noteq> None) four" "length four = 4"
    by (simp_all add: list_all_iff filter_id_conv)
  have "(length (four @ b64raw r) + k) mod 4 = 0" using k(3) f(3) by (simp add: add.assoc)
  then show ?case unfolding e by (intro exI [of _ k]) (use k f in simp)
qed

lemma b64raw_chars: "c \<in> set (b64raw bs) \<Longrightarrow> b64val c \<noteq> None"
  using b64raw_shape [of bs] by (auto simp: list_all_iff)

lemma b64val_excludes [simp]:
  "b64val (CHR ''='') = None" "b64val (CHR 0x0A) = None" "b64val (CHR 0x0D) = None" "b64val (CHR ''$'') = None"
  "b64val (CHR ''.'') = None" "b64val (CHR ''-'') = None" "b64val (CHR ''_'') = None"
  by code_simp+

lemma b64rawDecode_raw [simp]: "b64rawDecode (b64raw bs) = Some bs"
proof -
  obtain k where k: "k \<le> 2" "b64encode bs = b64raw bs @ replicate k (CHR ''='')" "(length (b64raw bs) + k) mod 4 = 0"
    using b64raw_shape [of bs] by (elim exE conjE) (rule that)
  have out: "CHR ''='' \<notin> set (b64raw bs)" "CHR 0x0A \<notin> set (b64raw bs)" "CHR 0x0D \<notin> set (b64raw bs)"
    using b64raw_chars b64val_excludes by metis+
  then have "filter (\<lambda>c. c \<noteq> CHR 0x0A \<and> c \<noteq> CHR 0x0D) (b64raw bs) = b64raw bs" by (intro filter_True) metis
  note plain = this out(1)
  have "length (b64raw bs) mod 4 = 0 \<and> k = 0 \<or> length (b64raw bs) mod 4 = 3 \<and> k = 1 \<or> length (b64raw bs) mod 4 = 2 \<and> k = 2"
    using k(1,3) by (auto simp: le_Suc_eq numeral_2_eq_2) presburger+
  then have "b64rawDecode (b64raw bs) = b64quads (b64raw bs @ replicate k (CHR ''=''))"
    using plain by (auto simp: b64rawDecode_def Let_def)
  then show ?thesis by (simp only: b64quads_encode flip: k(2))
qed

lemma stdChar_urlChar: "c \<noteq> CHR ''-'' \<Longrightarrow> c \<noteq> CHR ''_'' \<Longrightarrow> stdChar (urlChar c) = c"
  by (simp add: stdChar_def urlChar_def)

lemma b64urlDecode_url [simp]: "b64urlDecode (b64url bs) = Some bs"
proof -
  have c: "c \<noteq> CHR ''-''" "c \<noteq> CHR ''_''" if "c \<in> set (b64raw bs)" for c using b64raw_chars [OF that] by auto
  then have "map (stdChar \<circ> urlChar) (b64raw bs) = b64raw bs" by (simp add: map_idI stdChar_urlChar)
  moreover have "CHR ''+'' \<notin> set (b64url bs)" "CHR ''/'' \<notin> set (b64url bs)"
    by (auto simp: b64url_def urlChar_def split: if_splits)
  ultimately show ?thesis by (simp add: b64urlDecode_def b64url_def)
qed

lemma dot_notin_b64url [simp]: "CHR ''.'' \<notin> set (b64url bs)"
  using b64raw_chars [of "CHR ''.''" bs] by (auto simp: b64url_def urlChar_def split: if_splits)

lemma splitOn_none: "sep \<notin> set a \<Longrightarrow> splitOn sep a = [a]"
  by (induction a) auto

lemma splitOn_cut: "sep \<notin> set a \<Longrightarrow> splitOn sep (a @ sep # b) = a # splitOn sep b"
  by (induction a) auto

section \<open>Passwords and tokens round trip\<close>

lemma dec_chars: "c \<in> set (dec n) \<Longrightarrow> isDigit c"
  using isDigit_dec [of n] by (simp add: list_all_iff)

lemma scanUint_dec: "n < 2 ^ w \<Longrightarrow> endsNumber r \<Longrightarrow> scanUint w (dec n @ r) = Some (n, r)"
proof -
  assume a: "n < 2 ^ w" "endsNumber r"
  obtain c t where d: "dec n = c # t" by (cases "dec n") auto
  then have "isDigit c" using isDigit_dec [of n] by simp
  then have "c \<noteq> CHR '' ''" "c \<noteq> CHR 0x09" by (auto simp: isDigit_def code_def)
  then show ?thesis
    using a digitsOf_all [OF isDigit_dec a(2), of n] undec_dec [of n] d by (simp add: scanUint_def)
qed

lemma hasPrefix_self [simp]: "hasPrefix (w @ r) w"
  by (induction w) simp_all

lemma scanLit_self: "scanLit w (w @ r) = Some r"
  by (simp add: scanLit_def)

text \<open>The parameters a hash was made with are read back from it.\<close>

lemma scanParams_format:
  assumes "m < 2 ^ 32" "t < 2 ^ 32" "p < 2 ^ 8"
  shows "scanParams (''m='' @ dec m @ '',t='' @ dec t @ '',p='' @ dec p) = Some (m, t, p)"
proof -
  have e: "endsNumber ('',t='' @ r)" "endsNumber ('',p='' @ r)" for r by (simp_all add: endsNumber_Cons isDigit_def code_def)
  show ?thesis
    using scanUint_dec [OF assms(3), of "[]"]
    by (simp only: scanParams_def scanLit_self scanUint_dec [OF assms(1) e(1)] scanUint_dec [OF assms(2) e(2)] bind.simps
        prod.case append_Nil2 endsNumber_Nil)
qed

lemma dollar_free: "CHR ''$'' \<notin> set (b64raw bs)" "CHR ''$'' \<notin> set (dec n)"
  using b64raw_chars b64val_excludes(4) dec_chars by (metis, fastforce simp: isDigit_def code_def)

lemma VerifyPassword_HashPassword:
  assumes "HashPassword P salt pw = Some h"
    and "\<And>x t m p n. length (argon P x (the salt) t m p n) = n"
  shows "VerifyPassword P pw h"
proof -
  obtain s where s: "salt = Some s" "\<not> length pw > MaxPasswordLength"
    using assms(1) by (auto simp: HashPassword_def split: if_splits option.splits)
  define key where "key = argon P pw s argonTime argonMemory argonThreads argonKeyLen"
  define params where "params = ''m='' @ dec argonMemory @ '',t='' @ dec argonTime @ '',p='' @ dec argonThreads"
  have h: "h = [] @ CHR ''$'' # ''argon2id'' @ CHR ''$'' # (''v='' @ dec 19) @ CHR ''$'' # params @ CHR ''$'' # b64raw s @ CHR ''$'' # b64raw key"
    using assms(1) s by (simp add: HashPassword_def key_def params_def)
  have "splitOn (CHR ''$'') h = [[], ''argon2id'', ''v='' @ dec 19, params, b64raw s, b64raw key]"
    unfolding h using dollar_free by (subst splitOn_cut, simp add: params_def)+ (simp add: splitOn_none)
  moreover have "scanParams params = Some (argonMemory, argonTime, argonThreads)"
    unfolding params_def by (rule scanParams_format) (simp_all add: argonMemory_def argonTime_def argonThreads_def)
  moreover have "length key = argonKeyLen" using assms(2) s by (simp add: key_def)
  ultimately show ?thesis using s by (simp add: VerifyPassword_def key_def)
qed

text \<open>A token that was issued is accepted until it expires.\<close>

lemma marshalString_plain: "list_all plainJSON a \<Longrightarrow> marshalString a = quot # a @ [quot]"
  by (simp add: marshalString_def quoteBody_plain)

lemma skipWs_other [simp]: "c \<notin> {CHR '' '', CHR 0x09, CHR 0x0A, CHR 0x0D} \<Longrightarrow> skipWs (c # r) = c # r"
  by (simp add: skipWs_def)

lemma quot_not_ws [simp]: "quot \<notin> {CHR '' '', CHR 0x09, CHR 0x0A, CHR 0x0D}" "quot \<noteq> CHR '' ''" "quot \<noteq> CHR 0x09"
  "quot \<noteq> CHR 0x0A" "quot \<noteq> CHR 0x0D"
  by (simp_all add: quot_def)

lemma readValue_string:
  "list_all plainJSON a \<Longrightarrow> readValue (Suc n) (marshalString a @ r) = Some (JStr a, r)"
  by (simp add: marshalString_plain readString_plain)

lemma readValue_number:
  assumes "endsNumber r"
  shows "readValue (Suc n) (dec k @ r) = Some (JNum (dec k), r)"
proof -
  obtain c t where d: "dec k = c # t" by (cases "dec k") auto
  then have c: "isDigit c" using isDigit_dec [of k] by simp
  then have "c \<notin> {CHR '' '', CHR 0x09, CHR 0x0A, CHR 0x0D, quot, CHR ''{'', CHR ''['', CHR ''t'', CHR ''f'', CHR ''n''}"
    by (auto simp: isDigit_def code_def quot_def)
  then show ?thesis using readNumber_dec [OF assms, of k] d by simp
qed

lemma readMembers_more:
  assumes "list_all plainJSON k" "\<And>r. c = CHR '','' \<Longrightarrow> readValue n (v @ c # r) = Some (x, c # r)"
    and "c = CHR '',''"
  shows "readMembers (Suc n) (marshalString k @ '':'' @ v @ c # r) = map_option (apfst ((#) (k, x))) (readMembers n r)"
  using assms by (simp add: marshalString_plain readString_plain)

lemma readMembers_last:
  assumes "list_all plainJSON k" "\<And>r. readValue n (v @ CHR ''}'' # r) = Some (x, CHR ''}'' # r)"
  shows "readMembers (Suc n) (marshalString k @ '':'' @ v @ CHR ''}'' # r) = Some ([(k, x)], r)"
  using assms by (simp add: marshalString_plain readString_plain)

lemma claim_keys: "list_all plainJSON ''sub''" "list_all plainJSON ''role''" "list_all plainJSON ''exp''" "list_all plainJSON ''iat''"
  by (simp_all add: plainJSON_def code_def quot_def bsl_def)

lemma endsNumber_seps: "endsNumber (CHR '','' # r)" "endsNumber (CHR ''}'' # r)"
  by (simp_all add: endsNumber_Cons isDigit_def code_def)

lemma parseJSON_claims:
  assumes "list_all plainJSON a" "list_all plainJSON b"
  shows "parseJSON (marshalClaims \<lparr>Sub = a, Role = b, Exp = int e, Iat = int i\<rparr>) =
    Some (JObj [(''sub'', JStr a), (''role'', JStr b), (''exp'', JNum (dec e)), (''iat'', JNum (dec i))])"
    (is "parseJSON ?t = Some (JObj ?o)")
proof -
  define body where "body = marshalString ''sub'' @ '':'' @ marshalString a @ CHR '','' # (marshalString ''role'' @ '':'' @
    marshalString b @ CHR '','' # (marshalString ''exp'' @ '':'' @ dec e @ CHR '','' # (marshalString ''iat'' @ '':'' @ dec i @ CHR ''}'' # [])))"
  have t: "?t = CHR ''{'' # body" by (simp add: marshalClaims_def body_def fmt_d_def)
  have m: "readMembers (Suc (Suc (Suc (Suc (Suc n))))) body = Some (?o, [])" for n
    unfolding body_def
    by (simp only: readMembers_more [OF claim_keys(1) readValue_string [OF assms(1)] refl]
      readMembers_more [OF claim_keys(2) readValue_string [OF assms(2)] refl]
      readMembers_more [OF claim_keys(3) readValue_number [OF endsNumber_seps(1)] refl]
      readMembers_last [OF claim_keys(4) readValue_number [OF endsNumber_seps(2)]] option.map apfst_conv)
  have q: "body = quot # tl body" unfolding body_def marshalString_plain [OF claim_keys(1)] by simp
  then have "length body = Suc (length (tl body))" by (metis length_Cons)
  then have fuel: "2 * length body + 3 = Suc (Suc (Suc (Suc (Suc (2 * length (tl body))))))" by simp
  have "readValue (Suc n) (CHR ''{'' # quot # t) = map_option (apfst JObj) (readMembers n (quot # t))" for n t
    by (simp add: quot_def)
  from this [of "2 * length body + 3" "tl body"]
  have "readValue (Suc (2 * length body + 3)) (CHR ''{'' # quot # tl body) = Some (JObj ?o, [])"
    unfolding fuel using m q by simp
  then have "readValue (Suc (2 * length body + 3)) (CHR ''{'' # body) = Some (JObj ?o, [])" using q by simp
  moreover have "2 * length ?t + 2 = Suc (2 * length body + 3)" by (simp add: t)
  ultimately show ?thesis by (simp only: t parseJSON_def option.case prod.case) (simp add: skipWs_def)
qed

lemma foldKey_claims: "foldKey ''sub'' = ''sub''" "foldKey ''role'' = ''role''" "foldKey ''exp'' = ''exp''" "foldKey ''iat'' = ''iat''"
  by code_simp+

lemma unmarshalClaims_marshal:
  assumes "list_all plainJSON a" "list_all plainJSON b" "0 \<le> e" "e < 2 ^ 63" "0 \<le> i" "i < 2 ^ 63"
  shows "unmarshalClaims (marshalClaims \<lparr>Sub = a, Role = b, Exp = e, Iat = i\<rparr>) = Some \<lparr>Sub = a, Role = b, Exp = e, Iat = i\<rparr>"
proof -
  have "parseInt (dec (nat n)) = Some n" if "0 \<le> n" "n < 2 ^ 63" for n
    using parseInt_fmt_d [OF that] that by (simp add: fmt_d_def)
  then show ?thesis
    using assms parseJSON_claims [OF assms(1,2), of "nat e" "nat i"]
    by (simp add: unmarshalClaims_def claimMember_def Let_def foldKey_claims textField_def intField_def zeroClaims_def)
qed

lemma Parse_Issue:
  assumes "list_all plainJSON a" "list_all plainJSON b" "0 \<le> issued" "unix (issued + sgTTL s) < 2 ^ 63" "0 \<le> sgTTL s"
    and "unix now < unix (issued + sgTTL s)"
  shows "Parse P s now (Issue P s issued a b) = Some \<lparr>Sub = a, Role = b, Exp = unix (issued + sgTTL s), Iat = unix issued\<rparr>"
proof -
  have u: "0 \<le> unix issued" "unix issued \<le> unix (issued + sgTTL s)"
    using assms(3,5) by (simp_all add: unix_def second_def zdiv_mono1)
  define c where "c = \<lparr>Sub = a, Role = b, Exp = unix (issued + sgTTL s), Iat = unix issued\<rparr>"
  have c: "unmarshalClaims (marshalClaims c) = Some c"
    unfolding c_def using assms u by (intro unmarshalClaims_marshal) linarith+
  have "splitOn (CHR ''.'') (Issue P s issued a b) =
      [tokenHeader, b64url (marshalClaims c), mac P s (tokenHeader @ ''.'' @ b64url (marshalClaims c))]"
    unfolding Issue_def Let_def c_def [symmetric] append_assoc append_Cons append_Nil tokenHeader_def mac_def
    by (simp add: splitOn_cut splitOn_none)
  then show ?thesis using c assms(6) by (simp add: Parse_def) (simp add: c_def)
qed

end
