(* ===== verification/TTD_Store.thy ===== *)
theory TTD_Store
  imports TTD_Auth "HOL-Library.State_Monad" "HOL-Library.AList"
begin

text \<open>
  The persistence of the TTD server: the records of \<^verbatim>\<open>ttd/server/internal/store/store.go\<close>, the interface \<^verbatim>\<open>Store\<close> of
  \<^verbatim>\<open>api.go\<close> and its in-memory implementation, \<^verbatim>\<open>memory.go\<close>.

  The server's code threads its state through many calls, so it is written in the state monad.  The
  state counts the draws made from outside: the clock, the random source and, for the database, which
  statement fails are functions of that count in the environment \<open>tenv\<close>.  A Go map is an
  association list with distinct keys; ranging over it visits the keys in the order \<open>teIter\<close> gives them.
  Methods return Go's pair of a value and an error, since callers use the value even when there is an error.
\<close>

section \<open>The monad\<close>

abbreviation ret :: "'a \<Rightarrow> ('s, 'a) state" where "ret \<equiv> State_Monad.return"
abbreviation getS :: "('s, 's) state" where "getS \<equiv> State_Monad.get"
abbreviation modify :: "('s \<Rightarrow> 's) \<Rightarrow> ('s, unit) state" where "modify \<equiv> State_Monad.update"

text \<open>The weakest precondition of a computation, with rules that push it to the leaves.\<close>

named_theorems wp_simps \<open>weakest preconditions of the monad\<close>

definition wp :: "('s, 'a) state \<Rightarrow> ('a \<Rightarrow> 's \<Rightarrow> bool) \<Rightarrow> 's \<Rightarrow> bool" where
  "wp m Q s = (case run_state m s of (x, s') \<Rightarrow> Q x s')"

lemma wp_return [wp_simps]: "wp (ret x) Q s = Q x s"
  by (simp add: wp_def)

lemma wp_bind [wp_simps]: "wp (State_Monad.bind m f) Q s = wp m (\<lambda>x. wp (f x) Q) s"
  by (simp add: wp_def split: prod.splits)

lemma wp_get [wp_simps]: "wp getS Q s = Q s s"
  by (simp add: wp_def)

lemma wp_modify [wp_simps]: "wp (modify f) Q s = Q () (f s)"
  by (simp add: wp_def State_Monad.update_def)

lemma wp_if [wp_simps]: "wp (if b then m else n) Q s = (if b then wp m Q s else wp n Q s)"
  by simp

lemma wp_option [wp_simps]:
  "wp (case x of None \<Rightarrow> m | Some y \<Rightarrow> f y) Q s = (case x of None \<Rightarrow> wp m Q s | Some y \<Rightarrow> wp (f y) Q s)"
  by (simp split: option.splits)

lemma wp_prod [wp_simps]: "wp (case p of (a, b) \<Rightarrow> f a b) Q s = (case p of (a, b) \<Rightarrow> wp (f a b) Q s)"
  by (simp split: prod.splits)

lemma wp_sum [wp_simps]:
  "wp (case x of Inl a \<Rightarrow> f a | Inr b \<Rightarrow> g b) Q s = (case x of Inl a \<Rightarrow> wp (f a) Q s | Inr b \<Rightarrow> wp (g b) Q s)"
  by (simp split: sum.splits)

lemma wp_let [wp_simps]: "wp (let x = a in f x) Q s = (let x = a in wp (f x) Q s)"
  by simp

lemma wp_mono: "wp m Q s \<Longrightarrow> (\<And>x s'. Q x s' \<Longrightarrow> R x s') \<Longrightarrow> wp m R s"
  by (simp add: wp_def split: prod.splits)

lemma wp_run: "wp m Q s \<Longrightarrow> run_state m s = (x, s') \<Longrightarrow> Q x s'"
  by (simp add: wp_def)

lemma wp_conj: "wp m (\<lambda>x s. Q x s \<and> R x s) s \<longleftrightarrow> wp m Q s \<and> wp m R s"
  by (auto simp: wp_def split: prod.splits)

section \<open>Records\<close>

definition RoleUser :: string where "RoleUser = ''user''"
definition RoleAdmin :: string where "RoleAdmin = ''admin''"
definition RoleSuperAdmin :: string where "RoleSuperAdmin = ''superadmin''"
definition AccountPending :: string where "AccountPending = ''pending''"
definition AccountActive :: string where "AccountActive = ''active''"
definition AccountDisabled :: string where "AccountDisabled = ''disabled''"
definition DeviceActive :: string where "DeviceActive = ''active''"
definition DeviceLost :: string where "DeviceLost = ''lost''"
definition EnrollmentSubmitted :: string where "EnrollmentSubmitted = ''submitted''"
definition EnrollmentApproved :: string where "EnrollmentApproved = ''approved''"
definition EnrollmentIssued :: string where "EnrollmentIssued = ''issued''"
definition CertActive :: string where "CertActive = ''active''"
definition CertRevoked :: string where "CertRevoked = ''revoked''"
definition ReservationReserved :: string where "ReservationReserved = ''reserved''"
definition ReservationAccepted :: string where "ReservationAccepted = ''accepted''"
definition VerificationAccepted :: string where "VerificationAccepted = ''accepted''"
definition VerificationStoredOnly :: string where "VerificationStoredOnly = ''stored_unverified''"

lemmas role_defs = RoleUser_def RoleAdmin_def RoleSuperAdmin_def
lemmas status_defs = AccountPending_def AccountActive_def AccountDisabled_def DeviceActive_def DeviceLost_def
  EnrollmentSubmitted_def EnrollmentApproved_def EnrollmentIssued_def CertActive_def CertRevoked_def
  ReservationReserved_def ReservationAccepted_def VerificationAccepted_def VerificationStoredOnly_def

text \<open>Times are nanoseconds; \<open>zeroTime\<close> is \<^verbatim>\<open>time.Time{}\<close>.\<close>

definition zeroTime :: int where "zeroTime = - 62135596800 * second"

record Account =
  acID :: string
  acEmail :: string
  acDisplayName :: string
  acFullName :: string
  acOrganization :: string
  acPosition :: string
  acNIP :: string
  acPasswordHash :: string
  acRole :: string
  acStatus :: string
  acCreatedAt :: int

record Device =
  dvID :: string
  dvAccountID :: string
  dvLabel :: string
  dvPlatform :: string
  dvStatus :: string
  dvCreatedAt :: int

record Enrollment =
  enrID :: string
  enrDeviceID :: string
  enrAccountID :: string
  enrCSRPEM :: bytes
  enrCSRKeyFP :: string
  enrStatus :: string
  enrCreatedAt :: int

record Certificate =
  ceID :: string
  ceEnrollmentID :: string
  ceDeviceID :: string
  ceAccountID :: string
  ceSerial :: string
  ceFingerprint :: string
  cePEM :: bytes
  ceNotBefore :: int
  ceNotAfter :: int
  ceStatus :: string
  ceRevokedAt :: int
  ceRevReason :: string

record Reservation =
  rsPublicID :: string
  rsAccountID :: string
  rsDeviceID :: string
  rsOriginalSHA512 :: string
  rsFileName :: string
  rsStatus :: string
  rsCreatedAt :: int
  rsExpiresAt :: int

record Signature =
  sgPublicID :: string
  sgAccountID :: string
  sgDeviceID :: string
  sgCertificateID :: string
  sgCertSerial :: string
  sgCertFingerprint :: string
  sgAlgorithm :: string
  sgPDFProfile :: string
  sgOriginalSHA512 :: string
  sgSignedSHA512 :: string
  sgClientClaimedSigningTime :: string
  sgServerReceivedAt :: int
  sgStorageObjectKey :: string
  sgSignedSize :: int
  sgVerificationStatus :: string
  sgCreatedAt :: int

record AuditEvent =
  auID :: string
  auTime :: int
  auType :: string
  auAccountID :: string
  auDeviceID :: string
  auResult :: string
  auDetail :: string

record SuperSecurity =
  ssAccountID :: string
  ssTOTPSecret :: bytes
  ssTOTPEnabled :: bool
  ssMustChange :: bool
  ssLastStep :: int
  ssFailedCount :: int
  ssLockedUntil :: int

definition zeroAccount :: Account where
  "zeroAccount = \<lparr>acID = [], acEmail = [], acDisplayName = [], acFullName = [], acOrganization = [], acPosition = [],
     acNIP = [], acPasswordHash = [], acRole = [], acStatus = [], acCreatedAt = zeroTime\<rparr>"

definition zeroDevice :: Device where
  "zeroDevice = \<lparr>dvID = [], dvAccountID = [], dvLabel = [], dvPlatform = [], dvStatus = [], dvCreatedAt = zeroTime\<rparr>"

definition zeroEnrollment :: Enrollment where
  "zeroEnrollment = \<lparr>enrID = [], enrDeviceID = [], enrAccountID = [], enrCSRPEM = [], enrCSRKeyFP = [], enrStatus = [],
     enrCreatedAt = zeroTime\<rparr>"

definition zeroCertificate :: Certificate where
  "zeroCertificate = \<lparr>ceID = [], ceEnrollmentID = [], ceDeviceID = [], ceAccountID = [], ceSerial = [], ceFingerprint = [],
     cePEM = [], ceNotBefore = zeroTime, ceNotAfter = zeroTime, ceStatus = [], ceRevokedAt = zeroTime, ceRevReason = []\<rparr>"

definition zeroReservation :: Reservation where
  "zeroReservation = \<lparr>rsPublicID = [], rsAccountID = [], rsDeviceID = [], rsOriginalSHA512 = [], rsFileName = [],
     rsStatus = [], rsCreatedAt = zeroTime, rsExpiresAt = zeroTime\<rparr>"

definition zeroSignature :: Signature where
  "zeroSignature = \<lparr>sgPublicID = [], sgAccountID = [], sgDeviceID = [], sgCertificateID = [], sgCertSerial = [],
     sgCertFingerprint = [], sgAlgorithm = [], sgPDFProfile = [], sgOriginalSHA512 = [], sgSignedSHA512 = [],
     sgClientClaimedSigningTime = [], sgServerReceivedAt = zeroTime, sgStorageObjectKey = [], sgSignedSize = 0,
     sgVerificationStatus = [], sgCreatedAt = zeroTime\<rparr>"

definition zeroSecurity :: SuperSecurity where
  "zeroSecurity = \<lparr>ssAccountID = [], ssTOTPSecret = [], ssTOTPEnabled = False, ssMustChange = False, ssLastStep = 0,
     ssFailedCount = 0, ssLockedUntil = zeroTime\<rparr>"

definition auditEventOf :: "string \<Rightarrow> string \<Rightarrow> string \<Rightarrow> string \<Rightarrow> string \<Rightarrow> AuditEvent" where
  "auditEventOf t accountID deviceID result detail =
     \<lparr>auID = [], auTime = zeroTime, auType = t, auAccountID = accountID, auDeviceID = deviceID, auResult = result,
      auDetail = detail\<rparr>"

section \<open>State\<close>

record tables =
  tbAccounts :: "(string \<times> Account) list"
  tbDevices :: "(string \<times> Device) list"
  tbEnrollments :: "(string \<times> Enrollment) list"
  tbCertificates :: "(string \<times> Certificate) list"
  tbReservations :: "(string \<times> Reservation) list"
  tbSignatures :: "(string \<times> Signature) list"
  tbAudit :: "AuditEvent list"
  tbObjects :: "(string \<times> bytes) list"
  tbSuper :: "(string \<times> SuperSecurity) list"

text \<open>
  A resumable upload (\<^verbatim>\<open>uploads.go\<close>).  The server also keeps the current CRL, the upload sessions and their scratch
  files; \<open>svByEmail\<close> is the index of the in-memory store.
\<close>

record uploadSession =
  usID :: string
  usAccount :: string
  usPath :: string
  usSize :: int
  usUpdated :: int

record server =
  svTick :: nat
  svTables :: tables
  svByEmail :: "(string \<times> string) list"
  svCRL :: bytes
  svUploads :: "(string \<times> uploadSession) list"
  svFiles :: "(string \<times> bytes) list"

type_synonym 'a act = "(server, 'a) state"

record tenv =
  teNow :: "nat \<Rightarrow> int"
  teRand :: "nat \<Rightarrow> nat \<Rightarrow> bytes"
  teRandFails :: "nat \<Rightarrow> bool"
  teFault :: "nat \<Rightarrow> bool"
  teIter :: "string list \<Rightarrow> string list"
  teAuth :: auth_prims

definition draw :: "(nat \<Rightarrow> 'a) \<Rightarrow> 'a act" where
  "draw f = State (\<lambda>s. (f (svTick s), s\<lparr>svTick := Suc (svTick s)\<rparr>))"

definition now :: "tenv \<Rightarrow> int act" where
  "now E = draw (teNow E)"

text \<open>\<^verbatim>\<open>rand.Read\<close> with its error checked.\<close>

definition randRead :: "tenv \<Rightarrow> nat \<Rightarrow> bytes option act" where
  "randRead E n = draw (\<lambda>k. if teRandFails E k then None else Some (teRand E k n))"

definition newID :: "tenv \<Rightarrow> string \<Rightarrow> string act" where
  "newID E prefix = draw (\<lambda>k. prefix @ ''_'' @ hexEncode (teRand E k 12))"

definition onTables :: "(tables \<Rightarrow> tables) \<Rightarrow> unit act" where
  "onTables f = modify (\<lambda>s. s\<lparr>svTables := f (svTables s)\<rparr>)"

definition readTables :: "(tables \<Rightarrow> 'a) \<Rightarrow> 'a act" where
  "readTables f = do { s \<leftarrow> getS; ret (f (svTables s)) }"

lemma wp_draw [wp_simps]: "wp (draw f) Q s = Q (f (svTick s)) (s\<lparr>svTick := Suc (svTick s)\<rparr>)"
  by (simp add: draw_def wp_def)

lemma wp_now [wp_simps]: "wp (now E) Q s = Q (teNow E (svTick s)) (s\<lparr>svTick := Suc (svTick s)\<rparr>)"
  by (simp add: now_def wp_simps)

lemma wp_onTables [wp_simps]: "wp (onTables f) Q s = Q () (s\<lparr>svTables := f (svTables s)\<rparr>)"
  by (simp add: onTables_def wp_simps)

lemma wp_readTables [wp_simps]: "wp (readTables f) Q s = Q (f (svTables s)) s"
  by (simp add: readTables_def wp_simps)

text \<open>The values of a Go map in the order a range visits them.\<close>

definition rangeOf :: "tenv \<Rightarrow> (string \<times> 'a) list \<Rightarrow> 'a list" where
  "rangeOf E m = map (\<lambda>k. the (map_of m k)) (teIter E (map fst m))"

datatype store_err =
    ErrNotFound
  | ErrEmailRegistered
  | ErrSignatureExists string
  | ErrDB

type_synonym err = "store_err option"

definition errText :: "store_err \<Rightarrow> string" where
  "errText e =
     (case e of
        ErrNotFound \<Rightarrow> ''store: not found''
      | ErrEmailRegistered \<Rightarrow> ''store: email already registered''
      | ErrSignatureExists pid \<Rightarrow> ''store: signature '' @ pid @ '' already exists''
      | ErrDB \<Rightarrow> ''store: database error'')"

section \<open>The interface\<close>

record Store =
  stCreateAccount :: "Account \<Rightarrow> (Account \<times> err) act"
  stAccountByEmail :: "string \<Rightarrow> (Account \<times> err) act"
  stAccount :: "string \<Rightarrow> (Account \<times> err) act"
  stListAccounts :: "Account list act"
  stSetAccountStatus :: "string \<Rightarrow> string \<Rightarrow> err act"
  stUpdateAccountProfile :: "string \<Rightarrow> string \<Rightarrow> string \<Rightarrow> err act"
  stSetAccountPassword :: "string \<Rightarrow> string \<Rightarrow> err act"
  stDeleteAccount :: "string \<Rightarrow> err act"
  stSuperSecurity :: "string \<Rightarrow> (SuperSecurity \<times> err) act"
  stPutSuperSecurity :: "SuperSecurity \<Rightarrow> err act"
  stCreateDevice :: "Device \<Rightarrow> (Device \<times> err) act"
  stDevice :: "string \<Rightarrow> (Device \<times> err) act"
  stSetDeviceStatus :: "string \<Rightarrow> string \<Rightarrow> err act"
  stDevicesByAccount :: "string \<Rightarrow> Device list act"
  stCreateEnrollment :: "Enrollment \<Rightarrow> (Enrollment \<times> err) act"
  stEnrollment :: "string \<Rightarrow> (Enrollment \<times> err) act"
  stListEnrollments :: "Enrollment list act"
  stSetEnrollmentStatus :: "string \<Rightarrow> string \<Rightarrow> err act"
  stCreateCertificate :: "Certificate \<Rightarrow> (Certificate \<times> err) act"
  stCertificate :: "string \<Rightarrow> (Certificate \<times> err) act"
  stCertificateByDevice :: "string \<Rightarrow> (Certificate \<times> err) act"
  stCertificateBySerial :: "string \<Rightarrow> (Certificate \<times> err) act"
  stCertificatesByAccount :: "string \<Rightarrow> Certificate list act"
  stRevokeCertificate :: "string \<Rightarrow> string \<Rightarrow> err act"
  stCreateReservation :: "Reservation \<Rightarrow> (Reservation \<times> err) act"
  stReservation :: "string \<Rightarrow> (Reservation \<times> err) act"
  stSetReservationStatus :: "string \<Rightarrow> string \<Rightarrow> err act"
  stCreateSignature :: "Signature \<Rightarrow> (Signature \<times> err) act"
  stSignature :: "string \<Rightarrow> (Signature \<times> err) act"
  stSignaturesByAccount :: "string \<Rightarrow> Signature list act"
  stPutObject :: "string \<Rightarrow> bytes \<Rightarrow> err act"
  stGetObject :: "string \<Rightarrow> (bytes \<times> err) act"
  stPutObjectFrom :: "string \<Rightarrow> bytes option \<Rightarrow> int \<Rightarrow> err act"
  stAppend :: "AuditEvent \<Rightarrow> unit act"
  stAuditEvents :: "int \<Rightarrow> AuditEvent list act"

end
