(* ===== verification/TTD_Server.thy ===== *)
theory TTD_Server
  imports TTD_Store
begin

text \<open>
  The frame of the TTD server: \<^verbatim>\<open>ttd/server/internal/api/api.go\<close> (configuration, start-up, authentication, responses), the
  keys, sealed secrets and bootstrap of \<^verbatim>\<open>superadmin.go\<close>, the sealed secrets of \<^verbatim>\<open>adminsecurity.go\<close>, and the
  provisioning URI of \<^verbatim>\<open>totp.go\<close>.

  The server value \<^verbatim>\<open>*Server\<close> is the record \<open>ttd\<close>: the store behind the interface, the environment, the configuration
  and the libraries it calls (key derivation, AES-GCM, PDF and certificate checks, the CA tool, the local calendar).
  A request body is the value it decodes to, \<open>None\<close> when it does not decode.
\<close>

section \<open>Configuration and libraries\<close>

record LabIssuer =
  liBin :: string
  liDir :: string
  liPassphrase :: string
  liOperator :: string
  liOrg :: string

record Config =
  cfgRootCAPEM :: bytes
  cfgCAChainPEM :: bytes
  cfgCRLPEM :: bytes
  cfgJWTSecret :: bytes
  cfgPublicBaseURL :: string
  cfgMaxUploadBytes :: int
  cfgMaxStampBytes :: int
  cfgMaxVerifyBytes :: int
  cfgUploadDir :: string
  cfgAccessTTL :: int
  cfgIssuer :: string
  cfgSuperAdminUsername :: string
  cfgSuperAdminPassword :: string
  cfgSuperAdminSessionTTL :: int
  cfgBootstrapAdminEmail :: string
  cfgBootstrapAdminPassword :: string
  cfgLabIssuer :: "LabIssuer option"
  cfgOfficeUpstream :: string
  cfgServerName :: string
  cfgOfficeSecret :: string

text \<open>One signature as the PDF verifier reports it, and its whole result.\<close>

record pdf_signature =
  psValid :: bool
  psAlgorithm :: string
  psTrustedChain :: bool
  psRevoked :: bool
  psPublicID :: string
  psCertificateSerial :: string
  psCertificateFingerprint :: string
  psClaimedTime :: string
  psErrors :: "string list"

record pdf_result =
  prValid :: bool
  prSignatures :: "pdf_signature list"
  prErrors :: "string list"

text \<open>What is used of a parsed certificate and a parsed signing request; the key is \<open>None\<close> when it is not ML-DSA.\<close>

record cert_info =
  ciSerial :: string
  ciFingerprint :: string
  ciNotBefore :: int
  ciNotAfter :: int
  ciKey :: "bytes option"

record csr_info =
  csKeyFP :: string
  csKey :: "bytes option"

text \<open>
  \<open>tlCA\<close> is a run of the CA tool at a path with additions to the environment and arguments (its output and whether it
  succeeded), \<open>tlCAFile\<close> the file it wrote; both depend on the draw, since the tool keeps a ledger of its own.
  \<open>tlFileFault\<close> is the error of an operation on a scratch file, if any, and \<open>tlWriteCut\<close> how much of a write gets through
  when it fails.  \<open>tlVerifyPDF\<close> (the PDF, the root, the chain, the revocation list) depends on the draw because it has a
  deadline and looks at the clock; \<open>tlAllow\<close> is the answer of a token bucket to a key; \<open>tlStampQR\<close> draws the stamp: the PDF, the
  query, the QR text, and name, position, number and place of the caption.
\<close>

record tlib =
  tlHKDF :: "bytes \<Rightarrow> string \<Rightarrow> bytes"
  tlSeal :: "bytes \<Rightarrow> bytes \<Rightarrow> bytes \<Rightarrow> string \<Rightarrow> bytes"
  tlOpen :: "bytes \<Rightarrow> bytes \<Rightarrow> bytes \<Rightarrow> string \<Rightarrow> bytes option"
  tlSHA512 :: "bytes \<Rightarrow> bytes"
  tlRootOK :: "bytes \<Rightarrow> bool"
  tlVerifyPDF :: "nat \<Rightarrow> bytes \<Rightarrow> bytes \<Rightarrow> bytes \<Rightarrow> bytes \<Rightarrow> string + pdf_result"
  tlResultJSON :: "pdf_result \<Rightarrow> jval"
  tlStampQR :: "nat \<Rightarrow> bytes \<Rightarrow> string \<Rightarrow> string \<Rightarrow> string \<times> string \<times> string \<times> string \<Rightarrow> string + bytes"
  tlUpstreamOK :: "string \<Rightarrow> bool"
  tlAllow :: "nat \<Rightarrow> string \<Rightarrow> string \<Rightarrow> bool"
  tlParseCert :: "bytes \<Rightarrow> int \<Rightarrow> string + cert_info"
  tlChainOK :: "bytes \<Rightarrow> bytes \<Rightarrow> bytes \<Rightarrow> int \<Rightarrow> bool"
  tlParseCSR :: "bytes \<Rightarrow> string + csr_info"
  tlParseCRL :: "bytes \<Rightarrow> string option"
  tlQR :: "string \<Rightarrow> bytes option"
  tlTempRoot :: string
  tlTempDir :: "nat \<Rightarrow> string + string"
  tlCA :: "nat \<Rightarrow> string \<Rightarrow> string list \<Rightarrow> string list \<Rightarrow> bytes \<times> bool"
  tlCAFile :: "nat \<Rightarrow> string + bytes"
  tlLocalDate :: "int \<Rightarrow> int \<times> int"
  tlLocalStamp :: "int \<Rightarrow> string"
  tlTimeJSON :: "int \<Rightarrow> string"
  tlEqualFold :: "string \<Rightarrow> string \<Rightarrow> bool"
  tlFileFault :: "nat \<Rightarrow> string option"
  tlWriteCut :: "nat \<Rightarrow> nat option"

record ttd =
  ttStore :: Store
  ttEnv :: tenv
  ttCfg :: Config
  ttLib :: tlib

section \<open>Responses\<close>

text \<open>A JSON reply, a file, a text, or a request passed on with these headers (and another path) to the office service.\<close>

datatype reply =
    Reply int jval
  | Bytes string bytes
  | Plain int string
  | Forward "(string \<times> string list) list" "string option"

definition writeErr :: "int \<Rightarrow> string \<Rightarrow> reply" where
  "writeErr st msg = Reply st (JObj [(''error'', JStr msg)])"

definition emDash :: string where
  "emDash = [CHR 0xE2, CHR 0x80, CHR 0x94]"

definition civil :: "int \<Rightarrow> int \<times> int \<times> int" where
  "civil days =
     (let z = days + 719468; era = z div 146097; doe = z mod 146097;
          yoe = (doe - doe div 1460 + doe div 36524 - doe div 146096) div 365;
          doy = doe - (365 * yoe + yoe div 4 - yoe div 100);
          mp = (5 * doy + 2) div 153;
          m = (if mp < 10 then mp + 3 else mp - 9)
      in (yoe + era * 400 + (if m \<le> 2 then 1 else 0), m, doy - (153 * mp + 2) div 5 + 1))"

definition pad :: "nat \<Rightarrow> int \<Rightarrow> string" where
  "pad w n = (if n < 0 then ''-'' else []) @ zpad w (dec (nat \<bar>n\<bar>))"

definition fmtTime :: "int \<Rightarrow> string" where
  "fmtTime t =
     (let secs = unix t mod 86400; (y, m, d) = civil (unix t div 86400)
      in pad 4 y @ ''-'' @ pad 2 m @ ''-'' @ pad 2 d @ ''T'' @ pad 2 (secs div 3600) @ '':'' @ pad 2 (secs div 60 mod 60) @ '':'' @
         pad 2 (secs mod 60) @ ''Z'')"

definition jint :: "int \<Rightarrow> jval" where
  "jint n = JNum (fmt_d n)"

definition seconds :: "int \<Rightarrow> int" where
  "seconds d = (if d < 0 then - (- d div second) else d div second)"

section \<open>Helpers\<close>

text \<open>A loop that collects its results, and its invariant rule.\<close>

primrec mapA :: "('a \<Rightarrow> ('s, 'b) state) \<Rightarrow> 'a list \<Rightarrow> ('s, 'b list) state" where
  "mapA f [] = ret []"
| "mapA f (x # xs) = do { y \<leftarrow> f x; ys \<leftarrow> mapA f xs; ret (y # ys) }"

lemma wp_mapA:
  assumes "\<And>x s. x \<in> set xs \<Longrightarrow> I s \<Longrightarrow> wp (f x) (\<lambda>_. I) s" "I s"
  shows "wp (mapA f xs) (\<lambda>_. I) s"
  using assms
proof (induction xs arbitrary: s)
  case (Cons x xs)
  have "wp (f x) (\<lambda>_. I) s" using Cons.prems by simp
  moreover have "wp (mapA f xs) (\<lambda>ys. wp (ret (y # ys)) (\<lambda>_. I)) s'" if "I s'" for y s'
    by (rule wp_mono [OF Cons.IH]) (use Cons.prems that in \<open>simp_all add: wp_simps\<close>)
  ultimately show ?case by (simp add: wp_bind) (erule wp_mono, simp add: wp_bind)
qed (simp add: wp_simps)

definition audit :: "ttd \<Rightarrow> string \<Rightarrow> Claims \<Rightarrow> string \<Rightarrow> string \<Rightarrow> string \<Rightarrow> unit act" where
  "audit T t c deviceID result detail = stAppend (ttStore T) (auditEventOf t (Sub c) deviceID result detail)"

definition firstNonEmpty :: "string list \<Rightarrow> string" where
  "firstNonEmpty v = (case filter (\<lambda>s. s \<noteq> []) v of [] \<Rightarrow> [] | s # _ \<Rightarrow> s)"

text \<open>The body read up to a limit, \<open>None\<close> when reading fails.\<close>

definition readBody :: "bytes option \<Rightarrow> int \<Rightarrow> bytes option" where
  "readBody r mx = map_option (take (nat (mx + 1))) r"

definition withinLimit :: "bytes \<Rightarrow> int \<Rightarrow> bool" where
  "withinLimit b mx \<longleftrightarrow> int (length b) \<le> mx"

definition queryUnreserved :: "char \<Rightarrow> bool" where
  "queryUnreserved c \<longleftrightarrow> inRange 48 57 c \<or> inRange 65 90 c \<or> inRange 97 122 c \<or> c \<in> {CHR ''-'', CHR ''_'', CHR ''.'', CHR ''~''}"

definition percentByte :: "char \<Rightarrow> string" where
  "percentByte c = ''%'' @ map toUpperAscii [hexDigit (code c div 16), hexDigit (code c mod 16)]"

definition queryEscape :: "string \<Rightarrow> string" where
  "queryEscape s = concat (map (\<lambda>c. if queryUnreserved c then [c] else if c = CHR '' '' then ''+'' else percentByte c) s)"

definition pathEscape :: "string \<Rightarrow> string" where
  "pathEscape s =
     concat (map (\<lambda>c. if queryUnreserved c \<or> c \<in> {CHR ''$'', CHR ''&'', CHR ''+'', CHR '':'', CHR ''='', CHR ''@''} then [c]
                       else percentByte c) s)"

definition TOTPURI :: "string \<Rightarrow> string \<Rightarrow> string \<Rightarrow> string" where
  "TOTPURI issuer acct secret =
     ''otpauth://totp/'' @ pathEscape issuer @ '':'' @ pathEscape acct @ ''?algorithm=SHA1&digits='' @ dec totpDigits @ ''&issuer='' @
     queryEscape issuer @ ''&period='' @ fmt_d totpPeriod @ ''&secret='' @ queryEscape secret"

definition joinPath :: "string \<Rightarrow> string \<Rightarrow> string" where
  "joinPath dir name = dir @ ''/'' @ name"

fun containsStr :: "string \<Rightarrow> string \<Rightarrow> bool" where
  "containsStr [] sub \<longleftrightarrow> sub = []"
| "containsStr (c # s) sub \<longleftrightarrow> hasPrefix (c # s) sub \<or> containsStr s sub"

section \<open>Keys\<close>

definition saMinPassword :: nat where "saMinPassword = 12"
definition saMaxFailures :: int where "saMaxFailures = 5"
definition saLockFor :: int where "saLockFor = 15 * minute"
definition saStepTTL :: int where "saStepTTL = 5 * minute"
definition saStepTOTP :: string where "saStepTOTP = ''totp''"
definition saStepSetup :: string where "saStepSetup = ''setup''"
definition saAccessRole :: string where "saAccessRole = ''superadmin''"
definition saDefaultSession :: int where "saDefaultSession = 15 * minute"
definition adminMFAStepRole :: string where "adminMFAStepRole = ''admin-totp''"

lemmas sa_defs = saMinPassword_def saMaxFailures_def saLockFor_def saStepTTL_def saStepTOTP_def saStepSetup_def saAccessRole_def
  saDefaultSession_def adminMFAStepRole_def

definition deriveKey :: "ttd \<Rightarrow> string \<Rightarrow> bytes" where
  "deriveKey T info = tlHKDF (ttLib T) (cfgJWTSecret (ttCfg T)) info"

definition signer :: "ttd \<Rightarrow> Signer" where
  "signer T = NewSigner (cfgJWTSecret (ttCfg T)) (cfgAccessTTL (ttCfg T))"

definition saStep :: "ttd \<Rightarrow> Signer" where
  "saStep T = NewSigner (deriveKey T ''pqc-sa-step/v1'') saStepTTL"

definition saAccess :: "ttd \<Rightarrow> Signer" where
  "saAccess T =
     NewSigner (deriveKey T ''pqc-sa-access/v1'')
       (if cfgSuperAdminSessionTTL (ttCfg T) \<le> 0 then saDefaultSession else cfgSuperAdminSessionTTL (ttCfg T))"

definition adminMFAStep :: "ttd \<Rightarrow> Signer" where
  "adminMFAStep T = NewSigner (deriveKey T ''pqc-admin-mfa-step/v1'') saStepTTL"

definition issue :: "ttd \<Rightarrow> Signer \<Rightarrow> string \<Rightarrow> string \<Rightarrow> string act" where
  "issue T sg sub role = do { t \<leftarrow> now (ttEnv T); ret (Issue (teAuth (ttEnv T)) sg t sub role) }"

definition parseToken :: "ttd \<Rightarrow> Signer \<Rightarrow> string \<Rightarrow> Claims option act" where
  "parseToken T sg token = do { t \<leftarrow> now (ttEnv T); ret (Parse (teAuth (ttEnv T)) sg t token) }"

text \<open>AES-GCM has nonces of 12 bytes; the sealed secret starts with its nonce.\<close>

definition sealWith :: "ttd \<Rightarrow> bytes \<Rightarrow> string \<Rightarrow> string \<Rightarrow> bytes option act" where
  "sealWith T key aad secret =
     do { nonce \<leftarrow> randRead (ttEnv T) 12;
          ret (map_option (\<lambda>n. n @ tlSeal (ttLib T) key n secret aad) nonce) }"

definition openWith :: "ttd \<Rightarrow> bytes \<Rightarrow> string \<Rightarrow> bytes \<Rightarrow> string option" where
  "openWith T key aad sealed =
     (if length sealed < 12 then None else tlOpen (ttLib T) key (take 12 sealed) (drop 12 sealed) aad)"

definition sealTOTP :: "ttd \<Rightarrow> string \<Rightarrow> bytes option act" where
  "sealTOTP T secret = sealWith T (deriveKey T ''pqc-sa-totp/v1'') ''superadmin-totp'' secret"

definition openTOTP :: "ttd \<Rightarrow> bytes \<Rightarrow> string option" where
  "openTOTP T sealed = openWith T (deriveKey T ''pqc-sa-totp/v1'') ''superadmin-totp'' sealed"

definition sealAdminTOTP :: "ttd \<Rightarrow> string \<Rightarrow> bytes option act" where
  "sealAdminTOTP T secret = sealWith T (deriveKey T ''pqc-admin-totp/v1'') ''admin-totp'' secret"

definition openAdminTOTP :: "ttd \<Rightarrow> bytes \<Rightarrow> string option" where
  "openAdminTOTP T sealed = openWith T (deriveKey T ''pqc-admin-totp/v1'') ''admin-totp'' sealed"

definition hashPassword :: "ttd \<Rightarrow> string \<Rightarrow> string option act" where
  "hashPassword T pw =
     (if length pw > MaxPasswordLength then ret None
      else do { salt \<leftarrow> randRead (ttEnv T) saltLen; ret (HashPassword (teAuth (ttEnv T)) salt pw) })"

definition randToken :: "ttd \<Rightarrow> nat \<Rightarrow> string act" where
  "randToken T n =
     do { b \<leftarrow> randRead (ttEnv T) n;
          (case b of
             Some b \<Rightarrow> ret (b64url b)
           | None \<Rightarrow> do { t \<leftarrow> now (ttEnv T); ret (''changeme-'' @ tlLocalStamp (ttLib T) t) }) }"

section \<open>Authentication\<close>

definition trimBearer :: "string \<Rightarrow> string" where
  "trimBearer h = (if hasPrefix h ''Bearer '' then drop 7 h else h)"

text \<open>\<open>hdr\<close> is the \<^verbatim>\<open>Authorization\<close> header.\<close>

definition authed :: "ttd \<Rightarrow> string \<Rightarrow> string \<Rightarrow> (Claims \<Rightarrow> reply act) \<Rightarrow> reply act" where
  "authed T minRole hdr h =
     (let tok = trimBearer hdr in
      if tok = [] \<or> tok = hdr then ret (writeErr 401 ''missing bearer token'')
      else do {
        c \<leftarrow> parseToken T (signer T) tok;
        (case c of
           None \<Rightarrow> ret (writeErr 401 ''invalid token'')
         | Some c \<Rightarrow>
             if minRole = RoleAdmin \<and> Role c \<noteq> RoleAdmin then ret (writeErr 403 ''admin only'')
             else h c) })"

section \<open>The super admin\<close>

record saAccount =
  saAcct :: Account
  saSec :: SuperSecurity

definition loadSA :: "ttd \<Rightarrow> string \<Rightarrow> saAccount option act" where
  "loadSA T i =
     do { (a, e) \<leftarrow> stAccount (ttStore T) i;
          if e \<noteq> None \<or> acRole a \<noteq> RoleSuperAdmin \<or> acStatus a \<noteq> AccountActive then ret None
          else do {
            (sec, e) \<leftarrow> stSuperSecurity (ttStore T) i;
            ret (Some \<lparr>saAcct = a, saSec = (if e \<noteq> None then zeroSecurity\<lparr>ssAccountID := i\<rparr> else sec)\<rparr>) } }"

definition superadmin :: "ttd \<Rightarrow> string \<Rightarrow> (Claims \<Rightarrow> reply act) \<Rightarrow> reply act" where
  "superadmin T hdr h =
     (let tok = trimBearer hdr in
      if tok = [] \<or> tok = hdr then ret (writeErr 401 ''missing bearer token'')
      else do {
        c \<leftarrow> parseToken T (saAccess T) tok;
        (case c of
           None \<Rightarrow> ret (writeErr 401 ''invalid token'')
         | Some c \<Rightarrow>
             if Role c \<noteq> saAccessRole then ret (writeErr 401 ''invalid token'')
             else do {
               a \<leftarrow> loadSA T (Sub c);
               if a = None then ret (writeErr 401 ''akun tidak aktif'') else h c }) })"

definition createSuperAdmin :: "ttd \<Rightarrow> string \<Rightarrow> string \<Rightarrow> unit act" where
  "createSuperAdmin T u hash =
     do { (acc, e) \<leftarrow> stCreateAccount (ttStore T) (zeroAccount\<lparr>acEmail := u, acDisplayName := u, acRole := RoleSuperAdmin,
              acStatus := AccountActive, acPasswordHash := hash\<rparr>);
          if e \<noteq> None then ret ()
          else do {
            e' \<leftarrow> stPutSuperSecurity (ttStore T) (zeroSecurity\<lparr>ssAccountID := acID acc, ssMustChange := True\<rparr>);
            ret () } }"

definition ensureSuperAdmin :: "ttd \<Rightarrow> unit act" where
  "ensureSuperAdmin T =
     (let u = trimSpace (cfgSuperAdminUsername (ttCfg T)) in
      if u = [] then ret ()
      else do {
        accounts \<leftarrow> stListAccounts (ttStore T);
        if list_ex (\<lambda>a. acRole a = RoleSuperAdmin) accounts then ret ()
        else do {
          pw \<leftarrow> (if length (cfgSuperAdminPassword (ttCfg T)) < 8 then randToken T 18
                  else ret (cfgSuperAdminPassword (ttCfg T)));
          hash \<leftarrow> hashPassword T pw;
          (case hash of
             None \<Rightarrow> ret ()
           | Some hash \<Rightarrow> createSuperAdmin T u hash) } })"

definition ensureBootstrapAdmin :: "ttd \<Rightarrow> unit act" where
  "ensureBootstrapAdmin T =
     (let email = trimSpace (cfgBootstrapAdminEmail (ttCfg T)); pw = cfgBootstrapAdminPassword (ttCfg T) in
      if email = [] \<or> pw = [] then ret ()
      else do {
        accounts \<leftarrow> stListAccounts (ttStore T);
        if list_ex (\<lambda>a. acRole a = RoleAdmin) accounts then ret ()
        else if length pw < 8 then ret ()
        else do {
          hash \<leftarrow> hashPassword T pw;
          (case hash of
             None \<Rightarrow> ret ()
           | Some hash \<Rightarrow>
               do { (acc, e) \<leftarrow> stCreateAccount (ttStore T) (zeroAccount\<lparr>acEmail := email, acDisplayName := email,
                        acRole := RoleAdmin, acStatus := AccountActive, acPasswordHash := hash\<rparr>);
                    ret () }) } })"

section \<open>Start-up\<close>

definition capped :: "int \<Rightarrow> int \<Rightarrow> int \<Rightarrow> int" where
  "capped n mx soft = (if n \<le> 0 \<or> n > mx then min mx soft else n)"

definition withDefaults :: "string \<Rightarrow> Config \<Rightarrow> Config" where
  "withDefaults tmp cfg =
     (let mx = (if cfgMaxUploadBytes cfg = 0 then 25 * 2 ^ 20 else cfgMaxUploadBytes cfg);
          st = capped (cfgMaxStampBytes cfg) mx (150 * 2 ^ 20);
          ve = capped (cfgMaxVerifyBytes cfg) mx (350 * 2 ^ 20)
      in cfg\<lparr>cfgMaxUploadBytes := mx, cfgMaxStampBytes := st, cfgMaxVerifyBytes := (if ve < st then st else ve),
             cfgUploadDir := (if cfgUploadDir cfg = [] then tmp else cfgUploadDir cfg),
             cfgAccessTTL := (if cfgAccessTTL cfg = 0 then 15 * minute else cfgAccessTTL cfg),
             cfgIssuer := (if cfgIssuer cfg = [] then ''PQC PDF Sign'' else cfgIssuer cfg)\<rparr>)"

definition New :: "Store \<Rightarrow> tenv \<Rightarrow> tlib \<Rightarrow> Config \<Rightarrow> (string + ttd) act" where
  "New st E lib cfg =
     (if cfgRootCAPEM cfg = [] then ret (Inl ''api: RootCAPEM is required'')
      else if \<not> tlRootOK lib (cfgRootCAPEM cfg) then ret (Inl ''api: RootCAPEM has no valid certificate'')
      else if length (cfgJWTSecret cfg) < 16 then ret (Inl ''api: JWTSecret must be at least 16 bytes'')
      else (let T = \<lparr>ttStore = st, ttEnv = E, ttCfg = withDefaults (tlTempRoot lib) cfg, ttLib = lib\<rparr> in
        do { modify (\<lambda>s. s\<lparr>svCRL := cfgCRLPEM cfg, svUploads := []\<rparr>);
             ensureSuperAdmin T;
             ensureBootstrapAdmin T;
             ret (Inr T) }))"

definition hCapabilities :: "ttd \<Rightarrow> Claims \<Rightarrow> reply act" where
  "hCapabilities T c =
     ret (Reply 200 (JObj [(''lab_issuer'', JBool (cfgLabIssuer (ttCfg T) \<noteq> None)), (''role'', JStr (Role c))]))"

end
