(* ===== verification/TTD_Login.thy ===== *)
theory TTD_Login
  imports TTD_Server
begin

text \<open>
  Registration and the three logins of the TTD server: \<^verbatim>\<open>hRegister\<close> and \<^verbatim>\<open>hLogin\<close> of \<^verbatim>\<open>handlers.go\<close>, the lockout and the opt-in
  one-time codes of \<^verbatim>\<open>adminsecurity.go\<close>, and the super-admin endpoints of \<^verbatim>\<open>superadmin.go\<close>.
\<close>

section \<open>Registration\<close>

record register_request =
  rgEmail :: string
  rgPassword :: string
  rgDisplayName :: string
  rgFullName :: string
  rgOrganization :: string
  rgPosition :: string
  rgNIP :: string

definition hRegister :: "ttd \<Rightarrow> register_request option \<Rightarrow> reply act" where
  "hRegister T body =
     (case body of
        None \<Rightarrow> ret (writeErr 400 ''email and an 8-128 char password are required'')
      | Some inp \<Rightarrow>
          if rgEmail inp = [] \<or> length (rgPassword inp) < 8 \<or> length (rgPassword inp) > MaxPasswordLength
            then ret (writeErr 400 ''email and an 8-128 char password are required'')
          else do {
            hash \<leftarrow> hashPassword T (rgPassword inp);
            (case hash of
               None \<Rightarrow> ret (writeErr 500 ''hash'')
             | Some hash \<Rightarrow>
                 do { (a, e) \<leftarrow> stCreateAccount (ttStore T) (zeroAccount\<lparr>acEmail := rgEmail inp,
                          acDisplayName := (if rgDisplayName inp = [] then rgFullName inp else rgDisplayName inp),
                          acFullName := rgFullName inp, acOrganization := rgOrganization inp, acPosition := rgPosition inp,
                          acNIP := rgNIP inp, acPasswordHash := hash, acRole := RoleUser, acStatus := AccountPending\<rparr>);
                      (case e of
                         Some e \<Rightarrow> ret (writeErr 409 (errText e))
                       | None \<Rightarrow>
                           do { stAppend (ttStore T) (auditEventOf ''account.register'' (acID a) [] ''ok'' (acStatus a));
                                ret (Reply 201 (JObj [(''account_id'', JStr (acID a)), (''role'', JStr (acRole a)),
                                  (''status'', JStr (acStatus a)), (''message'', JStr ''akun dibuat, menunggu persetujuan admin'')])) }) }) })"

section \<open>Lockout\<close>

definition adminSecurityFail :: "ttd \<Rightarrow> string \<Rightarrow> SuperSecurity \<Rightarrow> unit act" where
  "adminSecurityFail T accountID sec =
     (let sec = sec\<lparr>ssAccountID := accountID, ssFailedCount := ssFailedCount sec + 1\<rparr> in
      do { sec \<leftarrow> (if ssFailedCount sec \<ge> saMaxFailures then
             do { t \<leftarrow> now (ttEnv T);
                  stAppend (ttStore T) (auditEventOf ''admin.lock'' accountID [] ''locked'' []);
                  ret (sec\<lparr>ssLockedUntil := t + saLockFor, ssFailedCount := 0\<rparr>) }
             else ret sec);
           e \<leftarrow> stPutSuperSecurity (ttStore T) sec;
           ret () })"

definition adminSecuritySuccess :: "ttd \<Rightarrow> string \<Rightarrow> SuperSecurity \<Rightarrow> int \<Rightarrow> unit act" where
  "adminSecuritySuccess T accountID sec step =
     do { e \<leftarrow> stPutSuperSecurity (ttStore T) (sec\<lparr>ssAccountID := accountID, ssFailedCount := 0, ssLockedUntil := zeroTime,
            ssLastStep := (if step > 0 then step else ssLastStep sec)\<rparr>);
          ret () }"

definition lockedReply :: "int \<Rightarrow> reply" where
  "lockedReply d =
     Reply 429 (JObj [(''error'', JStr ''akun dikunci sementara karena terlalu banyak percobaan gagal''), (''retry_after'', jint (seconds d))])"

definition sessionReply :: "ttd \<Rightarrow> Signer \<Rightarrow> string \<Rightarrow> string \<Rightarrow> reply act" where
  "sessionReply T sg sub role =
     do { tok \<leftarrow> issue T sg sub role;
          ret (Reply 200 (JObj [(''access_token'', JStr tok), (''token_type'', JStr ''Bearer''), (''expires_in'', jint (seconds (sgTTL sg)))])) }"

section \<open>The ordinary login\<close>

record login_request =
  lgEmail :: string
  lgPassword :: string

text \<open>
  What follows a right password: the super admin is turned away, a pending or disabled account gets no session, an
  admin with one-time codes gets a step token.
\<close>

definition afterPassword :: "ttd \<Rightarrow> Account \<Rightarrow> SuperSecurity \<Rightarrow> reply act" where
  "afterPassword T a sec =
     (if acRole a = RoleSuperAdmin then
        do { stAppend (ttStore T) (auditEventOf ''auth.login'' (acID a) [] ''fail'' ''superadmin-wrong-page'');
             ret (Reply 403 (JObj [(''error'', JStr ''akun ini masuk lewat halaman khusus super admin (/superadmin)''),
               (''superadmin_login'', JBool True)])) }
      else if acStatus a = AccountPending then
        do { stAppend (ttStore T) (auditEventOf ''auth.login'' (acID a) [] ''fail'' ''pending'');
             ret (Reply 403 (JObj [(''error'', JStr ''akun menunggu persetujuan admin''), (''account_status'', JStr AccountPending)])) }
      else if acStatus a = AccountDisabled then
        do { stAppend (ttStore T) (auditEventOf ''auth.login'' (acID a) [] ''fail'' ''disabled'');
             ret (Reply 403 (JObj [(''error'', JStr ''akun dinonaktifkan, hubungi admin''), (''account_status'', JStr AccountDisabled)])) }
      else if acRole a = RoleAdmin \<and> ssTOTPEnabled sec then
        do { adminSecuritySuccess T (acID a) sec 0;
             stAppend (ttStore T) (auditEventOf ''auth.login'' (acID a) [] ''mfa-pending'' []);
             tok \<leftarrow> issue T (adminMFAStep T) (acID a) adminMFAStepRole;
             ret (Reply 200 (JObj [(''mfa_required'', JBool True), (''step_token'', JStr tok),
               (''expires_in'', jint (seconds (sgTTL (adminMFAStep T))))])) }
      else do {
        (if acRole a = RoleAdmin then adminSecuritySuccess T (acID a) sec 0 else ret ());
        stAppend (ttStore T) (auditEventOf ''auth.login'' (acID a) [] ''ok'' []);
        sessionReply T (signer T) (acID a) (acRole a) })"

definition hLogin :: "ttd \<Rightarrow> login_request option \<Rightarrow> reply act" where
  "hLogin T body =
     (case body of
        None \<Rightarrow> ret (writeErr 400 ''bad body'')
      | Some inp \<Rightarrow>
          do { (a, e) \<leftarrow> stAccountByEmail (ttStore T) (lgEmail inp);
               if e \<noteq> None then
                 do { stAppend (ttStore T) (auditEventOf ''auth.login'' [] [] ''fail'' []);
                      ret (writeErr 401 ''invalid credentials'') }
               else do {
                 (sec, e) \<leftarrow> (if acRole a = RoleAdmin then stSuperSecurity (ttStore T) (acID a) else ret (zeroSecurity, None));
                 t \<leftarrow> (if acRole a = RoleAdmin then now (ttEnv T) else ret (ssLockedUntil sec));
                 if acRole a = RoleAdmin \<and> ssLockedUntil sec - t > 0 then
                   do { stAppend (ttStore T) (auditEventOf ''auth.login'' (acID a) [] ''locked'' []);
                        ret (lockedReply (ssLockedUntil sec - t)) }
                 else if \<not> VerifyPassword (teAuth (ttEnv T)) (lgPassword inp) (acPasswordHash a) then
                   do { (if acRole a = RoleAdmin then adminSecurityFail T (acID a) sec else ret ());
                        stAppend (ttStore T) (auditEventOf ''auth.login'' (acID a) [] ''fail'' []);
                        ret (writeErr 401 ''invalid credentials'') }
                 else afterPassword T a sec } })"

record totp_request =
  tqToken :: string
  tqCode :: string

definition hLoginTOTP :: "ttd \<Rightarrow> totp_request option \<Rightarrow> reply act" where
  "hLoginTOTP T body =
     (case body of
        None \<Rightarrow> ret (writeErr 400 ''bad body'')
      | Some inp \<Rightarrow>
          do { c \<leftarrow> parseToken T (adminMFAStep T) (tqToken inp);
               (case c of
                  None \<Rightarrow> ret (writeErr 401 ''sesi masuk habis; ulangi dari awal'')
                | Some c \<Rightarrow>
                    if Role c \<noteq> adminMFAStepRole then ret (writeErr 401 ''sesi masuk habis; ulangi dari awal'')
                    else do {
                      (a, e) \<leftarrow> stAccount (ttStore T) (Sub c);
                      if e \<noteq> None \<or> acRole a \<noteq> RoleAdmin \<or> acStatus a \<noteq> AccountActive
                        then ret (writeErr 401 ''sesi masuk tidak valid'')
                      else do {
                        (sec, e) \<leftarrow> stSuperSecurity (ttStore T) (acID a);
                        if \<not> ssTOTPEnabled sec then ret (writeErr 409 ''TOTP tidak aktif untuk akun ini'')
                        else do {
                          t \<leftarrow> now (ttEnv T);
                          if ssLockedUntil sec - t > 0 then ret (lockedReply (ssLockedUntil sec - t))
                          else (case openAdminTOTP T (ssTOTPSecret sec) of
                              None \<Rightarrow> ret (writeErr 500 ''rahasia TOTP tidak terbaca'')
                            | Some secret \<Rightarrow>
                                do { t \<leftarrow> now (ttEnv T);
                                     (case VerifyTOTP (teAuth (ttEnv T)) secret (tqCode inp) t (ssLastStep sec) of
                                        None \<Rightarrow>
                                          do { adminSecurityFail T (acID a) sec;
                                               stAppend (ttStore T) (auditEventOf ''auth.login'' (acID a) [] ''fail'' ''totp'');
                                               ret (writeErr 401 ''kode salah atau sudah dipakai'') }
                                      | Some step \<Rightarrow>
                                          do { adminSecuritySuccess T (acID a) sec step;
                                               stAppend (ttStore T) (auditEventOf ''auth.login'' (acID a) [] ''ok'' []);
                                               sessionReply T (signer T) (acID a) (acRole a) }) }) } } }) })"

section \<open>An admin's own one-time codes\<close>

definition hAdminSecurityStatus :: "ttd \<Rightarrow> Claims \<Rightarrow> reply act" where
  "hAdminSecurityStatus T c =
     do { (sec, e) \<leftarrow> stSuperSecurity (ttStore T) (Sub c);
          ret (Reply 200 (JObj [(''totp_enabled'', JBool (ssTOTPEnabled sec))])) }"

definition enrolReply :: "ttd \<Rightarrow> string \<Rightarrow> string \<Rightarrow> reply" where
  "enrolReply T email secret =
     (let uri = TOTPURI (cfgIssuer (ttCfg T)) email secret in
      Reply 200 (JObj ([(''secret'', JStr secret), (''otpauth_uri'', JStr uri)] @
        (case tlQR (ttLib T) uri of
           None \<Rightarrow> []
         | Some png \<Rightarrow> [(''qr_png'', JStr (''data:image/png;base64,'' @ b64encode png))]))))"

definition newSecret :: "ttd \<Rightarrow> string act" where
  "newSecret T = draw (\<lambda>k. NewTOTPSecret (teRand (ttEnv T) k 20))"

definition hAdminTOTPBegin :: "ttd \<Rightarrow> Claims \<Rightarrow> reply act" where
  "hAdminTOTPBegin T c =
     do { (a, e) \<leftarrow> stAccount (ttStore T) (Sub c);
          if e \<noteq> None then ret (writeErr 401 ''akun tidak aktif'')
          else do {
            secret \<leftarrow> newSecret T;
            sealed \<leftarrow> sealAdminTOTP T secret;
            (case sealed of
               None \<Rightarrow> ret (writeErr 500 ''gagal menyiapkan TOTP'')
             | Some sealed \<Rightarrow>
                 do { (sec, e) \<leftarrow> stSuperSecurity (ttStore T) (Sub c);
                      e \<leftarrow> stPutSuperSecurity (ttStore T) (sec\<lparr>ssAccountID := Sub c, ssTOTPSecret := sealed, ssTOTPEnabled := False\<rparr>);
                      if e \<noteq> None then ret (writeErr 500 ''gagal menyimpan'')
                      else ret (enrolReply T (acEmail a) secret) }) } }"

definition statusOK :: reply where
  "statusOK = Reply 200 (JObj [(''status'', JStr ''ok'')])"

definition hAdminTOTPConfirm :: "ttd \<Rightarrow> Claims \<Rightarrow> string option \<Rightarrow> reply act" where
  "hAdminTOTPConfirm T c body =
     (case body of
        None \<Rightarrow> ret (writeErr 400 ''bad body'')
      | Some given \<Rightarrow>
          do { (sec, e) \<leftarrow> stSuperSecurity (ttStore T) (Sub c);
               if e \<noteq> None \<or> ssTOTPSecret sec = [] \<or> ssTOTPEnabled sec
                 then ret (writeErr 409 ''belum ada pengaturan TOTP yang menunggu konfirmasi'')
               else (case openAdminTOTP T (ssTOTPSecret sec) of
                   None \<Rightarrow> ret (writeErr 500 ''rahasia TOTP tidak terbaca'')
                 | Some secret \<Rightarrow>
                     do { t \<leftarrow> now (ttEnv T);
                          (case VerifyTOTP (teAuth (ttEnv T)) secret given t (ssLastStep sec) of
                             None \<Rightarrow> ret (writeErr 401 (''kode tidak cocok '' @ emDash @ '' periksa jam perangkat dan coba lagi''))
                           | Some step \<Rightarrow>
                               do { e \<leftarrow> stPutSuperSecurity (ttStore T) (sec\<lparr>ssTOTPEnabled := True, ssLastStep := step\<rparr>);
                                    if e \<noteq> None then ret (writeErr 500 ''gagal menyimpan'')
                                    else do {
                                      stAppend (ttStore T) (auditEventOf ''admin.totp'' (Sub c) [] ''enrolled'' []);
                                      ret statusOK } }) }) })"

definition hAdminTOTPDisable :: "ttd \<Rightarrow> Claims \<Rightarrow> string option \<Rightarrow> reply act" where
  "hAdminTOTPDisable T c body =
     (case body of
        None \<Rightarrow> ret (writeErr 400 ''bad body'')
      | Some given \<Rightarrow>
          do { (sec, e) \<leftarrow> stSuperSecurity (ttStore T) (Sub c);
               if e \<noteq> None \<or> \<not> ssTOTPEnabled sec then ret (writeErr 409 ''TOTP tidak aktif'')
               else (case openAdminTOTP T (ssTOTPSecret sec) of
                   None \<Rightarrow> ret (writeErr 500 ''rahasia TOTP tidak terbaca'')
                 | Some secret \<Rightarrow>
                     do { t \<leftarrow> now (ttEnv T);
                          if VerifyTOTP (teAuth (ttEnv T)) secret given t (ssLastStep sec) = None
                            then ret (writeErr 401 ''kode tidak cocok'')
                          else do {
                            e \<leftarrow> stPutSuperSecurity (ttStore T) (sec\<lparr>ssTOTPEnabled := False, ssTOTPSecret := []\<rparr>);
                            if e \<noteq> None then ret (writeErr 500 ''gagal menyimpan'')
                            else do {
                              stAppend (ttStore T) (auditEventOf ''admin.totp'' (Sub c) [] ''disabled'' []);
                              ret statusOK } } }) })"

definition hResetAdminSecurity :: "ttd \<Rightarrow> Claims \<Rightarrow> string \<Rightarrow> reply act" where
  "hResetAdminSecurity T c i =
     do { (a, e) \<leftarrow> stAccount (ttStore T) i;
          if e \<noteq> None \<or> acRole a \<noteq> RoleAdmin then ret (writeErr 404 ''admin tidak ditemukan'')
          else do {
            e \<leftarrow> stPutSuperSecurity (ttStore T) (zeroSecurity\<lparr>ssAccountID := acID a\<rparr>);
            if e \<noteq> None then ret (writeErr 500 ''gagal menyimpan'')
            else do {
              stAppend (ttStore T) (auditEventOf ''admin.security-reset'' (acID a) [] ''ok'' (Sub c));
              ret statusOK } } }"

section \<open>The super-admin login\<close>

definition saLocked :: "ttd \<Rightarrow> SuperSecurity \<Rightarrow> int option act" where
  "saLocked T sec =
     do { t \<leftarrow> now (ttEnv T);
          ret (if ssLockedUntil sec - t > 0 then Some (ssLockedUntil sec - t) else None) }"

definition saFail :: "ttd \<Rightarrow> saAccount \<Rightarrow> string \<Rightarrow> reply act" where
  "saFail T a what =
     (let sec = (saSec a)\<lparr>ssFailedCount := ssFailedCount (saSec a) + 1\<rparr> in
      do { (sec, msg) \<leftarrow> (if ssFailedCount sec \<ge> saMaxFailures then
             do { t \<leftarrow> now (ttEnv T);
                  stAppend (ttStore T) (auditEventOf ''superadmin.lock'' (acID (saAcct a)) [] ''locked'' []);
                  ret (sec\<lparr>ssLockedUntil := t + saLockFor, ssFailedCount := 0\<rparr>,
                       what @ '' '' @ emDash @ '' terlalu banyak percobaan gagal, akun dikunci 15m0s'') }
             else ret (sec, what));
           e \<leftarrow> stPutSuperSecurity (ttStore T) sec;
           stAppend (ttStore T) (auditEventOf ''superadmin.login'' (acID (saAcct a)) [] ''fail'' what);
           ret (writeErr 401 msg) })"

definition saSuccess :: "ttd \<Rightarrow> saAccount \<Rightarrow> int \<Rightarrow> reply act" where
  "saSuccess T a step =
     do { e \<leftarrow> stPutSuperSecurity (ttStore T) ((saSec a)\<lparr>ssFailedCount := 0, ssLockedUntil := zeroTime,
            ssLastStep := (if step > 0 then step else ssLastStep (saSec a))\<rparr>);
          if e \<noteq> None then ret (writeErr 500 ''gagal menyimpan status keamanan'')
          else do {
            stAppend (ttStore T) (auditEventOf ''superadmin.login'' (acID (saAcct a)) [] ''ok'' []);
            sessionReply T (saAccess T) (acID (saAcct a)) saAccessRole } }"

record sa_login_request =
  slUsername :: string
  slPassword :: string

definition hSALogin :: "ttd \<Rightarrow> sa_login_request option \<Rightarrow> reply act" where
  "hSALogin T body =
     (case body of
        None \<Rightarrow> ret (writeErr 400 ''bad body'')
      | Some inp \<Rightarrow>
          do { (acct, e) \<leftarrow> stAccountByEmail (ttStore T) (trimSpace (slUsername inp));
               if e \<noteq> None \<or> acRole acct \<noteq> RoleSuperAdmin then ret (writeErr 401 ''nama pengguna atau kata sandi salah'')
               else do {
                 a \<leftarrow> loadSA T (acID acct);
                 (case a of
                    None \<Rightarrow> ret (writeErr 403 ''akun tidak aktif'')
                  | Some a \<Rightarrow>
                      do { l \<leftarrow> saLocked T (saSec a);
                           (case l of
                              Some d \<Rightarrow>
                                do { stAppend (ttStore T) (auditEventOf ''superadmin.login'' (acID (saAcct a)) [] ''locked'' []);
                                     ret (lockedReply d) }
                            | None \<Rightarrow>
                                if \<not> VerifyPassword (teAuth (ttEnv T)) (slPassword inp) (acPasswordHash (saAcct a))
                                  then saFail T a ''nama pengguna atau kata sandi salah''
                                else (let step = (if \<not> ssTOTPEnabled (saSec a) \<or> ssMustChange (saSec a) then saStepSetup else saStepTOTP) in
                                  do { tok \<leftarrow> issue T (saStep T) (acID (saAcct a)) step;
                                       ret (Reply 200 (JObj [(''step'', JStr step), (''must_change'', JBool (ssMustChange (saSec a))),
                                         (''challenge'', JStr tok), (''expires_in'', jint (seconds saStepTTL))])) })) }) } })"

definition checkNewPassword :: "ttd \<Rightarrow> saAccount \<Rightarrow> string \<Rightarrow> string" where
  "checkNewPassword T a pw =
     (if runeCount pw < saMinPassword then ''kata sandi baru minimal 12 karakter''
      else if runeCount pw > MaxPasswordLength then ''kata sandi baru maksimal 128 karakter''
      else if VerifyPassword (teAuth (ttEnv T)) pw (acPasswordHash (saAcct a)) then ''kata sandi baru harus berbeda dari yang lama''
      else if tlEqualFold (ttLib T) pw (acEmail (saAcct a)) then ''kata sandi tidak boleh sama dengan nama pengguna''
      else [])"

record sa_setup_request =
  ssuChallenge :: string
  ssuNewPassword :: string

text \<open>The new secret, stored before it is confirmed.\<close>

definition saEnrol :: "ttd \<Rightarrow> saAccount \<Rightarrow> reply act" where
  "saEnrol T a =
     do { secret \<leftarrow> newSecret T;
          sealed \<leftarrow> sealTOTP T secret;
          (case sealed of
             None \<Rightarrow> ret (writeErr 500 ''gagal menyimpan rahasia TOTP'')
           | Some sealed \<Rightarrow>
               do { e \<leftarrow> stPutSuperSecurity (ttStore T) ((saSec a)\<lparr>ssTOTPSecret := sealed, ssTOTPEnabled := False\<rparr>);
                    if e \<noteq> None then ret (writeErr 500 ''gagal menyimpan'')
                    else ret (enrolReply T (acEmail (saAcct a)) secret) }) }"

definition setNewPassword :: "ttd \<Rightarrow> saAccount \<Rightarrow> string \<Rightarrow> bool act" where
  "setNewPassword T a pw =
     do { hash \<leftarrow> hashPassword T pw;
          (case hash of
             None \<Rightarrow> ret False
           | Some hash \<Rightarrow> do { e \<leftarrow> stSetAccountPassword (ttStore T) (acID (saAcct a)) hash; ret (e = None) }) }"

definition hSASetupBegin :: "ttd \<Rightarrow> sa_setup_request option \<Rightarrow> reply act" where
  "hSASetupBegin T body =
     (case body of
        None \<Rightarrow> ret (writeErr 400 ''bad body'')
      | Some inp \<Rightarrow>
          do { c \<leftarrow> parseToken T (saStep T) (ssuChallenge inp);
               (case c of
                  None \<Rightarrow> ret (writeErr 401 ''sesi pengaturan habis; masuk lagi'')
                | Some c \<Rightarrow>
                    if Role c \<noteq> saStepSetup then ret (writeErr 401 ''sesi pengaturan habis; masuk lagi'')
                    else do {
                      a \<leftarrow> loadSA T (Sub c);
                      (case a of
                         None \<Rightarrow> ret (writeErr 401 ''sesi pengaturan habis; masuk lagi'')
                       | Some a \<Rightarrow>
                           if ssMustChange (saSec a) \<or> ssuNewPassword inp \<noteq> [] then
                             (let msg = checkNewPassword T a (ssuNewPassword inp) in
                              if msg \<noteq> [] then ret (writeErr 400 msg)
                              else do {
                                ok \<leftarrow> setNewPassword T a (ssuNewPassword inp);
                                if \<not> ok then ret (writeErr 500 ''gagal menyimpan sandi'')
                                else do {
                                  stAppend (ttStore T) (auditEventOf ''superadmin.password'' (acID (saAcct a)) [] ''ok'' ''setup'');
                                  saEnrol T (a\<lparr>saSec := (saSec a)\<lparr>ssMustChange := False\<rparr>\<rparr>) } })
                           else saEnrol T a) }) })"

definition hSASetupConfirm :: "ttd \<Rightarrow> totp_request option \<Rightarrow> reply act" where
  "hSASetupConfirm T body =
     (case body of
        None \<Rightarrow> ret (writeErr 400 ''bad body'')
      | Some inp \<Rightarrow>
          do { c \<leftarrow> parseToken T (saStep T) (tqToken inp);
               (case c of
                  None \<Rightarrow> ret (writeErr 401 ''sesi pengaturan habis; masuk lagi'')
                | Some c \<Rightarrow>
                    if Role c \<noteq> saStepSetup then ret (writeErr 401 ''sesi pengaturan habis; masuk lagi'')
                    else do {
                      a \<leftarrow> loadSA T (Sub c);
                      (case a of
                         None \<Rightarrow> ret (writeErr 409 ''urutan pengaturan tidak valid; masuk lagi'')
                       | Some a \<Rightarrow>
                           if ssMustChange (saSec a) \<or> ssTOTPSecret (saSec a) = [] \<or> ssTOTPEnabled (saSec a)
                             then ret (writeErr 409 ''urutan pengaturan tidak valid; masuk lagi'')
                           else do {
                             l \<leftarrow> saLocked T (saSec a);
                             if l \<noteq> None then ret (writeErr 429 ''akun dikunci sementara'')
                             else (case openTOTP T (ssTOTPSecret (saSec a)) of
                                 None \<Rightarrow> ret (writeErr 500 ''rahasia TOTP tidak terbaca'')
                               | Some secret \<Rightarrow>
                                   do { t \<leftarrow> now (ttEnv T);
                                        (case VerifyTOTP (teAuth (ttEnv T)) secret (tqCode inp) t (ssLastStep (saSec a)) of
                                           None \<Rightarrow> saFail T a (''kode tidak cocok '' @ emDash @ '' periksa jam perangkat dan coba lagi'')
                                         | Some step \<Rightarrow>
                                             do { stAppend (ttStore T) (auditEventOf ''superadmin.totp'' (acID (saAcct a)) [] ''enrolled'' []);
                                                  saSuccess T (a\<lparr>saSec := (saSec a)\<lparr>ssTOTPEnabled := True\<rparr>\<rparr>) step }) }) }) }) })"

definition hSAVerify :: "ttd \<Rightarrow> totp_request option \<Rightarrow> reply act" where
  "hSAVerify T body =
     (case body of
        None \<Rightarrow> ret (writeErr 400 ''bad body'')
      | Some inp \<Rightarrow>
          do { c \<leftarrow> parseToken T (saStep T) (tqToken inp);
               (case c of
                  None \<Rightarrow> ret (writeErr 401 ''sesi masuk habis; ulangi dari awal'')
                | Some c \<Rightarrow>
                    if Role c \<noteq> saStepTOTP then ret (writeErr 401 ''sesi masuk habis; ulangi dari awal'')
                    else do {
                      a \<leftarrow> loadSA T (Sub c);
                      (case a of
                         None \<Rightarrow> ret (writeErr 401 ''sesi masuk tidak valid'')
                       | Some a \<Rightarrow>
                           if \<not> ssTOTPEnabled (saSec a) then ret (writeErr 401 ''sesi masuk tidak valid'')
                           else do {
                             l \<leftarrow> saLocked T (saSec a);
                             (case l of
                                Some d \<Rightarrow> ret (lockedReply d)
                              | None \<Rightarrow>
                                  (case openTOTP T (ssTOTPSecret (saSec a)) of
                                     None \<Rightarrow> ret (writeErr 500 ''rahasia TOTP tidak terbaca'')
                                   | Some secret \<Rightarrow>
                                       do { t \<leftarrow> now (ttEnv T);
                                            (case VerifyTOTP (teAuth (ttEnv T)) secret (tqCode inp) t (ssLastStep (saSec a)) of
                                               None \<Rightarrow> saFail T a ''kode salah atau sudah dipakai''
                                             | Some step \<Rightarrow> saSuccess T a step) })) }) }) })"

definition hSAMe :: "ttd \<Rightarrow> Claims \<Rightarrow> reply act" where
  "hSAMe T c =
     do { (a, e) \<leftarrow> stAccount (ttStore T) (Sub c);
          ret (Reply 200 (JObj [(''username'', JStr (acEmail a)), (''expires_at'', JStr (fmtTime (Exp c * second)))])) }"

record change_password_request =
  cpCurrent :: string
  cpNew :: string

definition hSAChangePassword :: "ttd \<Rightarrow> Claims \<Rightarrow> change_password_request option \<Rightarrow> reply act" where
  "hSAChangePassword T c body =
     (case body of
        None \<Rightarrow> ret (writeErr 400 ''bad body'')
      | Some inp \<Rightarrow>
          do { a \<leftarrow> loadSA T (Sub c);
               (case a of
                  None \<Rightarrow> ret (writeErr 401 ''akun tidak aktif'')
                | Some a \<Rightarrow>
                    if \<not> VerifyPassword (teAuth (ttEnv T)) (cpCurrent inp) (acPasswordHash (saAcct a)) then
                      do { stAppend (ttStore T) (auditEventOf ''superadmin.password'' (acID (saAcct a)) [] ''fail'' []);
                           ret (writeErr 403 ''kata sandi saat ini salah'') }
                    else (let msg = checkNewPassword T a (cpNew inp) in
                      if msg \<noteq> [] then ret (writeErr 400 msg)
                      else do {
                        ok \<leftarrow> setNewPassword T a (cpNew inp);
                        if \<not> ok then ret (writeErr 500 ''gagal menyimpan'')
                        else do {
                          stAppend (ttStore T) (auditEventOf ''superadmin.password'' (acID (saAcct a)) [] ''ok'' []);
                          ret statusOK } })) })"

end
