(* ===== verification/TTD_Certificates.thy ===== *)
theory TTD_Certificates
  imports TTD_Server
begin

text \<open>
  Devices, enrolments and certificates of the TTD server: the CA tool of \<^verbatim>\<open>devissue.go\<close>, the device, enrolment, issuance and
  revocation handlers of \<^verbatim>\<open>handlers.go\<close>, and the certificate list and renewal of \<^verbatim>\<open>certificates.go\<close>.

  A body that the code decodes without looking at the error is the record its fields hold afterwards.
\<close>

section \<open>The CA tool\<close>

definition run :: "ttd \<Rightarrow> LabIssuer \<Rightarrow> string list \<Rightarrow> (bytes \<times> bool) act" where
  "run T li args =
     draw (\<lambda>k. tlCA (ttLib T) k (liBin li)
       [''PQC_CA_PASSPHRASE='' @ liPassphrase li, ''PQC_CA_OPERATOR='' @ firstNonEmpty [liOperator li, ''pqc-api'']] args)"

definition clip :: "bytes \<Rightarrow> nat \<Rightarrow> string" where
  "clip b n = (if length b > n then take n b else b)"

definition clipContains :: "bytes \<Rightarrow> string \<Rightarrow> bool" where
  "clipContains b sub \<longleftrightarrow> length b > 0 \<and> containsStr b sub"

definition issueViaCA :: "ttd \<Rightarrow> Enrollment \<Rightarrow> (string + bytes) act" where
  "issueViaCA T e =
     (case cfgLabIssuer (ttCfg T) of
        None \<Rightarrow> ret (Inl ''no CA issuer configured'')
      | Some li \<Rightarrow>
          do { (acc, _) \<leftarrow> stAccount (ttStore T) (enrAccountID e);
               (dev, _) \<leftarrow> stDevice (ttStore T) (enrDeviceID e);
               (let cn = firstNonEmpty [acFullName acc, acDisplayName acc, acEmail acc, ''Lab Device''];
                    org = firstNonEmpty [acOrganization acc, liOrg li, ''PQC PDF Sign (lab)''] in
                do { tmp \<leftarrow> draw (tlTempDir (ttLib T));
                     (case tmp of
                        Inl err \<Rightarrow> ret (Inl err)
                      | Inr tmp \<Rightarrow>
                          do { werr \<leftarrow> draw (tlFileFault (ttLib T));
                               (case werr of
                                  Some err \<Rightarrow> ret (Inl err)
                                | None \<Rightarrow>
                                    do { (out, ok) \<leftarrow> run T li [''issue'', ''--dir'', liDir li, ''--csr'', joinPath tmp ''device.csr.pem'',
                                           ''--account'', firstNonEmpty [acEmail acc, enrAccountID e],
                                           ''--device'', firstNonEmpty [dvLabel dev, enrDeviceID e],
                                           ''--cn'', cn, ''--org'', org, ''--out'', joinPath tmp ''device.crt.pem''];
                                         if \<not> ok then ret (Inl (''ca-admin issue: '' @ clip out 400))
                                         else draw (tlCAFile (ttLib T)) }) }) }) })"

text \<open>The error of \<^verbatim>\<open>ca-admin revoke\<close>, if any.\<close>

definition revokeViaCA :: "ttd \<Rightarrow> string \<Rightarrow> string \<Rightarrow> string option act" where
  "revokeViaCA T serialHex reason =
     (case cfgLabIssuer (ttCfg T) of
        None \<Rightarrow> ret None
      | Some li \<Rightarrow>
          do { (out, ok) \<leftarrow> run T li [''revoke'', ''--dir'', liDir li, ''--serial'', serialHex, ''--reason'', reason];
               ret (if \<not> ok \<and> \<not> clipContains out ''already revoked'' then Some (''ca-admin revoke: '' @ clip out 400) else None) })"

definition publishCRLViaCA :: "ttd \<Rightarrow> (string + bytes) act" where
  "publishCRLViaCA T =
     (case cfgLabIssuer (ttCfg T) of
        None \<Rightarrow> ret (Inr [])
      | Some li \<Rightarrow>
          do { tmp \<leftarrow> draw (tlTempDir (ttLib T));
               (case tmp of
                  Inl err \<Rightarrow> ret (Inl err)
                | Inr tmp \<Rightarrow>
                    do { (out, ok) \<leftarrow> run T li [''crl'', ''--dir'', liDir li, ''--out'', joinPath tmp ''crl.pem''];
                         if \<not> ok then ret (Inl (''ca-admin crl: '' @ clip out 400))
                         else draw (tlCAFile (ttLib T)) }) })"

section \<open>Issuance\<close>

definition bindIssuedCert :: "ttd \<Rightarrow> Enrollment \<Rightarrow> bytes \<Rightarrow> (string + Certificate) act" where
  "bindIssuedCert T e leafPEM =
     do { t \<leftarrow> now (ttEnv T);
          (case tlParseCert (ttLib T) leafPEM t of
             Inl err \<Rightarrow> ret (Inl (''certificate rejected: '' @ err))
           | Inr info \<Rightarrow>
               do { t \<leftarrow> now (ttEnv T);
                    if \<not> tlChainOK (ttLib T) leafPEM (cfgCAChainPEM (ttCfg T)) (cfgRootCAPEM (ttCfg T)) t
                      then ret (Inl ''certificate does not chain to the configured Root CA'')
                    else (case tlParseCSR (ttLib T) (enrCSRPEM e) of
                        Inl _ \<Rightarrow> ret (Inl ''stored CSR no longer parses'')
                      | Inr csr \<Rightarrow>
                          if csKey csr = None \<or> ciKey info = None \<or> csKey csr \<noteq> ciKey info
                            then ret (Inl ''certificate public key does not match the enrolled CSR'')
                          else do {
                            (stored, _) \<leftarrow> stCreateCertificate (ttStore T) (zeroCertificate\<lparr>ceEnrollmentID := enrID e,
                                ceDeviceID := enrDeviceID e, ceAccountID := enrAccountID e, ceSerial := ciSerial info,
                                ceFingerprint := ciFingerprint info, cePEM := leafPEM, ceNotBefore := ciNotBefore info,
                                ceNotAfter := ciNotAfter info, ceStatus := CertActive\<rparr>);
                            _ \<leftarrow> stSetEnrollmentStatus (ttStore T) (enrID e) EnrollmentIssued;
                            stAppend (ttStore T) (auditEventOf ''certificate.issue'' (enrAccountID e) (enrDeviceID e) ''ok'' (ceSerial stored));
                            ret (Inr stored) }) }) }"

definition issuedReply :: "Certificate \<Rightarrow> reply" where
  "issuedReply stored =
     Reply 201 (JObj [(''certificate_id'', JStr (ceID stored)), (''serial'', JStr (ceSerial stored)),
       (''fingerprint'', JStr (ceFingerprint stored))])"

definition hLabIssue :: "ttd \<Rightarrow> string \<Rightarrow> reply act" where
  "hLabIssue T i =
     (if cfgLabIssuer (ttCfg T) = None then ret (writeErr 404 ''lab issuer not enabled'')
      else do {
        (e, err) \<leftarrow> stEnrollment (ttStore T) i;
        if err \<noteq> None then ret (writeErr 404 ''enrollment not found'')
        else do {
          leaf \<leftarrow> issueViaCA T e;
          (case leaf of
             Inl err \<Rightarrow> ret (writeErr 502 (''issuance failed: '' @ err))
           | Inr leaf \<Rightarrow>
               do { stored \<leftarrow> bindIssuedCert T e leaf;
                    ret (case stored of Inl err \<Rightarrow> writeErr 400 err | Inr stored \<Rightarrow> issuedReply stored) }) } })"

definition hIssueCertificate :: "ttd \<Rightarrow> string \<Rightarrow> bytes option \<Rightarrow> reply act" where
  "hIssueCertificate T i rd =
     do { (e, err) \<leftarrow> stEnrollment (ttStore T) i;
          if err \<noteq> None then ret (writeErr 404 ''enrollment not found'')
          else (case readBody rd (64 * 1024) of
              None \<Rightarrow> ret (writeErr 400 ''read'')
            | Some body \<Rightarrow>
                do { stored \<leftarrow> bindIssuedCert T e body;
                     ret (case stored of Inl err \<Rightarrow> writeErr 400 err | Inr stored \<Rightarrow> issuedReply stored) }) }"

section \<open>Devices and enrolments\<close>

record device_request =
  dqLabel :: string
  dqPlatform :: string

definition hCreateDevice :: "ttd \<Rightarrow> Claims \<Rightarrow> device_request \<Rightarrow> reply act" where
  "hCreateDevice T c inp =
     do { (d, _) \<leftarrow> stCreateDevice (ttStore T) (zeroDevice\<lparr>dvAccountID := Sub c, dvLabel := dqLabel inp, dvPlatform := dqPlatform inp\<rparr>);
          audit T ''device.create'' c (dvID d) ''ok'' (dvLabel d);
          ret (Reply 201 (JObj [(''device_id'', JStr (dvID d)), (''status'', JStr (dvStatus d))])) }"

definition deviceRow :: "ttd \<Rightarrow> Device \<Rightarrow> jval act" where
  "deviceRow T d =
     do { (cert, err) \<leftarrow> stCertificateByDevice (ttStore T) (dvID d);
          ret (JObj ([(''device_id'', JStr (dvID d)), (''label'', JStr (dvLabel d)), (''platform'', JStr (dvPlatform d)),
              (''status'', JStr (dvStatus d))] @
            (if err = None then [(''certificate_serial'', JStr (ceSerial cert)), (''certificate_status'', JStr (ceStatus cert))] else []))) }"

definition hListDevices :: "ttd \<Rightarrow> Claims \<Rightarrow> reply act" where
  "hListDevices T c =
     do { ds \<leftarrow> stDevicesByAccount (ttStore T) (Sub c);
          out \<leftarrow> mapA (deviceRow T) ds;
          ret (Reply 200 (JObj [(''devices'', JArr out)])) }"

text \<open>\<open>None\<close> is either of the code's two errors; callers do not tell them apart.\<close>

definition deviceOwnedBy :: "ttd \<Rightarrow> Claims \<Rightarrow> string \<Rightarrow> Device option act" where
  "deviceOwnedBy T c i =
     do { (d, err) \<leftarrow> stDevice (ttStore T) i;
          ret (if err \<noteq> None then None else if dvAccountID d \<noteq> Sub c then None else Some d) }"

definition pendingNote :: "(string \<times> jval) list" where
  "pendingNote = [(''note'', JStr ''penerbitan sertifikat tertunda, hubungi admin'')]"

text \<open>
  The automatic issuance after a signing request: what it adds to the reply, and the status it sets there.
\<close>

definition tryAutoIssue :: "ttd \<Rightarrow> Claims \<Rightarrow> Device \<Rightarrow> Enrollment \<Rightarrow> (string \<times> (string \<times> jval) list) act" where
  "tryAutoIssue T c d e =
     do { (acc, _) \<leftarrow> stAccount (ttStore T) (Sub c);
          if cfgLabIssuer (ttCfg T) \<noteq> None \<and> acStatus acc = AccountActive then
            do { leaf \<leftarrow> issueViaCA T e;
                 (case leaf of
                    Inl err \<Rightarrow> do { audit T ''certificate.issue'' c (dvID d) ''fail'' err; ret (enrStatus e, pendingNote) }
                  | Inr leaf \<Rightarrow>
                      do { stored \<leftarrow> bindIssuedCert T e leaf;
                           (case stored of
                              Inl err \<Rightarrow> do { audit T ''certificate.issue'' c (dvID d) ''fail'' err; ret (enrStatus e, pendingNote) }
                            | Inr stored \<Rightarrow> ret (EnrollmentIssued, [(''certificate_serial'', JStr (ceSerial stored))])) }) }
          else ret (enrStatus e, []) }"

definition hSubmitCSR :: "ttd \<Rightarrow> Claims \<Rightarrow> string \<Rightarrow> bytes option \<Rightarrow> reply act" where
  "hSubmitCSR T c i rd =
     do { d \<leftarrow> deviceOwnedBy T c i;
          (case d of
             None \<Rightarrow> ret (writeErr 404 ''device not found'')
           | Some d \<Rightarrow>
               (case readBody rd (64 * 1024) of
                  None \<Rightarrow> ret (writeErr 400 ''read'')
                | Some body \<Rightarrow>
                    (case tlParseCSR (ttLib T) body of
                       Inl err \<Rightarrow>
                         do { audit T ''csr.submit'' c (dvID d) ''reject'' err;
                              ret (writeErr 400 (''CSR rejected: '' @ err)) }
                     | Inr info \<Rightarrow>
                         do { (e, _) \<leftarrow> stCreateEnrollment (ttStore T) (zeroEnrollment\<lparr>enrDeviceID := dvID d, enrAccountID := Sub c,
                                  enrCSRPEM := body, enrCSRKeyFP := csKeyFP info\<rparr>);
                              audit T ''csr.submit'' c (dvID d) ''accept'' (enrID e);
                              (status, more) \<leftarrow> tryAutoIssue T c d e;
                              ret (Reply 201 (JObj ([(''enrollment_id'', JStr (enrID e)), (''status'', JStr status)] @ more))) }))) }"

definition hDeviceCertificate :: "ttd \<Rightarrow> Claims \<Rightarrow> string \<Rightarrow> reply act" where
  "hDeviceCertificate T c i =
     do { d \<leftarrow> deviceOwnedBy T c i;
          if d = None then ret (writeErr 404 ''device not found'')
          else do {
            (cert, err) \<leftarrow> stCertificateByDevice (ttStore T) i;
            ret (if err \<noteq> None then writeErr 404 ''no certificate issued yet'' else Bytes ''application/x-pem-file'' (cePEM cert)) } }"

definition hReportLost :: "ttd \<Rightarrow> Claims \<Rightarrow> string \<Rightarrow> reply act" where
  "hReportLost T c i =
     do { d \<leftarrow> deviceOwnedBy T c i;
          (case d of
             None \<Rightarrow> ret (writeErr 404 ''device not found'')
           | Some d \<Rightarrow>
               do { _ \<leftarrow> stSetDeviceStatus (ttStore T) (dvID d) DeviceLost;
                    audit T ''device.report_lost'' c (dvID d) ''ok'' [];
                    ret (Reply 200 (JObj [(''device_id'', JStr (dvID d)), (''status'', JStr DeviceLost),
                      (''note'', JStr ''an admin must now revoke the device certificate and publish a new CRL'')])) }) }"

section \<open>The admin's side\<close>

definition enrollmentRow :: "Enrollment \<Rightarrow> jval" where
  "enrollmentRow e =
     JObj [(''enrollment_id'', JStr (enrID e)), (''device_id'', JStr (enrDeviceID e)), (''account_id'', JStr (enrAccountID e)),
       (''csr_key_fingerprint'', JStr (enrCSRKeyFP e)), (''status'', JStr (enrStatus e)), (''created_at'', JStr (fmtTime (enrCreatedAt e)))]"

definition hListEnrollments :: "ttd \<Rightarrow> reply act" where
  "hListEnrollments T =
     do { es \<leftarrow> stListEnrollments (ttStore T);
          ret (Reply 200 (JObj [(''enrollments'', JArr (map enrollmentRow es))])) }"

definition hExportEnrollment :: "ttd \<Rightarrow> string \<Rightarrow> reply act" where
  "hExportEnrollment T i =
     do { (e, err) \<leftarrow> stEnrollment (ttStore T) i;
          ret (if err \<noteq> None then writeErr 404 ''enrollment not found'' else Bytes ''application/x-pem-file'' (enrCSRPEM e)) }"

definition hApproveEnrollment :: "ttd \<Rightarrow> string \<Rightarrow> reply act" where
  "hApproveEnrollment T i =
     do { err \<leftarrow> stSetEnrollmentStatus (ttStore T) i EnrollmentApproved;
          if err \<noteq> None then ret (writeErr 404 ''enrollment not found'')
          else do {
            stAppend (ttStore T) (auditEventOf ''enrollment.approve'' [] [] ''ok'' i);
            ret (Reply 200 (JObj [(''enrollment_id'', JStr i), (''status'', JStr EnrollmentApproved)])) } }"

definition hRevoke :: "ttd \<Rightarrow> string \<Rightarrow> string \<Rightarrow> reply act" where
  "hRevoke T i reason =
     do { err \<leftarrow> stRevokeCertificate (ttStore T) i reason;
          if err \<noteq> None then ret (writeErr 404 ''certificate not found'')
          else do {
            (cert, _) \<leftarrow> stCertificate (ttStore T) i;
            stAppend (ttStore T) (auditEventOf ''certificate.revoke'' (ceAccountID cert) (ceDeviceID cert) ''ok'' (ceSerial cert @ '' '' @ reason));
            ret (Reply 200 (JObj [(''certificate_id'', JStr i), (''status'', JStr CertRevoked)])) } }"

definition hImportCRL :: "ttd \<Rightarrow> bytes option \<Rightarrow> reply act" where
  "hImportCRL T rd =
     (case readBody rd (256 * 1024) of
        None \<Rightarrow> ret (writeErr 400 ''read'')
      | Some body \<Rightarrow>
          (case tlParseCRL (ttLib T) body of
             Some err \<Rightarrow> ret (writeErr 400 (''not a parseable CRL: '' @ err))
           | None \<Rightarrow>
               do { modify (\<lambda>s. s\<lparr>svCRL := body\<rparr>);
                    stAppend (ttStore T) (auditEventOf ''crl.import'' [] [] ''ok'' []);
                    ret (Reply 200 (JObj [(''status'', JStr ''crl updated'')])) }))"

definition auditRow :: "ttd \<Rightarrow> AuditEvent \<Rightarrow> jval" where
  "auditRow T e =
     JObj [(''ID'', JStr (auID e)), (''Time'', JStr (tlTimeJSON (ttLib T) (auTime e))), (''Type'', JStr (auType e)), (''AccountID'', JStr (auAccountID e)),
       (''DeviceID'', JStr (auDeviceID e)), (''Result'', JStr (auResult e)), (''Detail'', JStr (auDetail e))]"

definition hAudit :: "ttd \<Rightarrow> reply act" where
  "hAudit T =
     do { es \<leftarrow> stAuditEvents (ttStore T) 500;
          ret (Reply 200 (JObj [(''events'', JArr (map (auditRow T) es))])) }"

section \<open>Certificates of an account\<close>

definition clientTarget :: "ttd \<Rightarrow> string \<Rightarrow> (reply + Account) act" where
  "clientTarget T i =
     do { (a, err) \<leftarrow> stAccount (ttStore T) i;
          ret (if err \<noteq> None then Inl (writeErr 404 ''account not found'')
               else if acRole a \<noteq> RoleUser then Inl (writeErr 403 ''akun admin dikelola di menu Admin (khusus super admin)'')
               else Inr a) }"

definition onClient :: "ttd \<Rightarrow> string \<Rightarrow> (Account \<Rightarrow> reply act) \<Rightarrow> reply act" where
  "onClient T i f = do { r \<leftarrow> clientTarget T i; (case r of Inl rep \<Rightarrow> ret rep | Inr a \<Rightarrow> f a) }"

definition certView :: "ttd \<Rightarrow> Certificate \<Rightarrow> jval act" where
  "certView T c =
     do { t \<leftarrow> now (ttEnv T);
          ret (JObj ([(''certificate_id'', JStr (ceID c)), (''enrollment_id'', JStr (ceEnrollmentID c)), (''device_id'', JStr (ceDeviceID c)),
              (''serial'', JStr (ceSerial c)), (''fingerprint'', JStr (ceFingerprint c)), (''status'', JStr (ceStatus c)),
              (''not_before'', JStr (fmtTime (ceNotBefore c))), (''not_after'', JStr (fmtTime (ceNotAfter c))), (''expired'', JBool (t > ceNotAfter c))] @
            (if ceRevokedAt c = zeroTime then []
             else [(''revoked_at'', JStr (fmtTime (ceRevokedAt c))), (''rev_reason'', JStr (ceRevReason c))]))) }"

definition hListAccountCertificates :: "ttd \<Rightarrow> string \<Rightarrow> reply act" where
  "hListAccountCertificates T i =
     onClient T i (\<lambda>a.
       do { certs \<leftarrow> stCertificatesByAccount (ttStore T) (acID a);
            out \<leftarrow> mapA (certView T) certs;
            ret (Reply 200 (JObj [(''account_id'', JStr (acID a)), (''certificates'', JArr out)])) })"

definition hRenewCertificate :: "ttd \<Rightarrow> string \<Rightarrow> string \<Rightarrow> reply act" where
  "hRenewCertificate T i certID =
     onClient T i (\<lambda>a.
       do { (c, err) \<leftarrow> stCertificate (ttStore T) certID;
            if err \<noteq> None \<or> ceAccountID c \<noteq> acID a then ret (writeErr 404 ''sertifikat tidak ditemukan'')
            else do {
              (old, err) \<leftarrow> stEnrollment (ttStore T) (ceEnrollmentID c);
              if err \<noteq> None then ret (writeErr 500 ''data pendaftaran asal tidak ditemukan'')
              else do {
                (e, err) \<leftarrow> stCreateEnrollment (ttStore T) (zeroEnrollment\<lparr>enrDeviceID := enrDeviceID old, enrAccountID := acID a,
                    enrCSRPEM := enrCSRPEM old, enrCSRKeyFP := enrCSRKeyFP old, enrStatus := EnrollmentApproved\<rparr>);
                if err \<noteq> None then ret (writeErr 500 ''gagal membuat pendaftaran perpanjangan'')
                else do {
                  stAppend (ttStore T) (auditEventOf ''certificate.renew'' (acID a) (enrDeviceID old) ''ok''
                    (''dari '' @ ceID c @ '' -> pendaftaran '' @ enrID e));
                  ret (Reply 201 (JObj [(''enrollment_id'', JStr (enrID e)), (''device_id'', JStr (enrDeviceID e)), (''renewed_from'', JStr (ceID c)),
                    (''note'', JStr ''Lanjutkan di tab Perangkat: unduh CSR, terbitkan lewat CA, lalu unggah sertifikat baru.'')])) } } } })"

end
