(* ===== verification/TTD_Accounts.thy ===== *)
theory TTD_Accounts
  imports TTD_Certificates
begin

text \<open>
  The account life cycle of the TTD server (\<^verbatim>\<open>accounts.go\<close>): the super admin's roster of admins, and the admins' approval,
  disabling and deletion of users, which cascades to every certificate the user holds.
\<close>

section \<open>Views\<close>

definition accountView :: "ttd \<Rightarrow> Account \<Rightarrow> jval act" where
  "accountView T a =
     do { certs \<leftarrow> stCertificatesByAccount (ttStore T) (acID a);
          ret (JObj [(''account_id'', JStr (acID a)), (''email'', JStr (acEmail a)), (''username'', JStr (acEmail a)),
            (''full_name'', JStr (acFullName a)), (''organization'', JStr (acOrganization a)), (''role'', JStr (acRole a)),
            (''status'', JStr (acStatus a)), (''created_at'', JStr (fmtTime (acCreatedAt a))),
            (''certificates'', jint (int (length certs))),
            (''active_certificates'', jint (int (length (filter (\<lambda>c. ceStatus c = CertActive) certs))))]) }"

definition replyView :: "ttd \<Rightarrow> int \<Rightarrow> Account \<Rightarrow> reply act" where
  "replyView T st a = do { v \<leftarrow> accountView T a; ret (Reply st v) }"

section \<open>Admins\<close>

record create_admin_request =
  cqUsername :: string
  cqEmail :: string
  cqPassword :: string

definition hCreateAdmin :: "ttd \<Rightarrow> Claims \<Rightarrow> create_admin_request option \<Rightarrow> reply act" where
  "hCreateAdmin T c body =
     (case body of
        None \<Rightarrow> ret (writeErr 400 ''bad body'')
      | Some inp \<Rightarrow>
          (let u = (if trimSpace (cqUsername inp) = [] then trimSpace (cqEmail inp) else trimSpace (cqUsername inp)) in
           if u = [] \<or> length (cqPassword inp) < 8 \<or> length (cqPassword inp) > MaxPasswordLength
             then ret (writeErr 400 ''username dan kata sandi (8-128 karakter) wajib diisi'')
           else do {
             hash \<leftarrow> hashPassword T (cqPassword inp);
             (case hash of
                None \<Rightarrow> ret (writeErr 500 ''hash'')
              | Some hash \<Rightarrow>
                  do { (a, err) \<leftarrow> stCreateAccount (ttStore T) (zeroAccount\<lparr>acEmail := u, acDisplayName := u, acRole := RoleAdmin,
                           acStatus := AccountActive, acPasswordHash := hash\<rparr>);
                       (case err of
                          Some err \<Rightarrow> ret (writeErr 409 (errText err))
                        | None \<Rightarrow>
                            do { stAppend (ttStore T) (auditEventOf ''admin.create'' (acID a) [] ''ok'' (Sub c));
                                 replyView T 201 a }) }) }))"

definition adminRow :: "ttd \<Rightarrow> Claims \<Rightarrow> Account \<Rightarrow> jval act" where
  "adminRow T me a =
     (let row = [(''account_id'', JStr (acID a)), (''username'', JStr (acEmail a)), (''role'', JStr (acRole a)),
        (''status'', JStr (acStatus a)), (''self'', JBool (acID a = Sub me)), (''created_at'', JStr (fmtTime (acCreatedAt a)))] in
      if acRole a = RoleAdmin then
        do { (sec, err) \<leftarrow> stSuperSecurity (ttStore T) (acID a);
             if err = None then
               do { t \<leftarrow> now (ttEnv T);
                    ret (JObj (row @ [(''totp_enabled'', JBool (ssTOTPEnabled sec)), (''locked'', JBool (ssLockedUntil sec - t > 0))])) }
             else ret (JObj row) }
      else ret (JObj row))"

definition hListAdmins :: "ttd \<Rightarrow> Claims \<Rightarrow> reply act" where
  "hListAdmins T me =
     do { accounts \<leftarrow> stListAccounts (ttStore T);
          out \<leftarrow> mapA (adminRow T me) (filter (\<lambda>a. acRole a = RoleAdmin \<or> acRole a = RoleSuperAdmin) accounts);
          ret (Reply 200 (JObj [(''admins'', JArr out)])) }"

record update_admin_request =
  uqPassword :: string
  uqStatus :: string

text \<open>The two halves of an update; a reply ends the request.\<close>

definition updateAdminPassword :: "ttd \<Rightarrow> Claims \<Rightarrow> Account \<Rightarrow> string \<Rightarrow> reply option act" where
  "updateAdminPassword T c a pw =
     (if pw = [] then ret None
      else if length pw < 8 \<or> length pw > MaxPasswordLength then ret (Some (writeErr 400 ''kata sandi harus 8-128 karakter''))
      else do {
        hash \<leftarrow> hashPassword T pw;
        (case hash of
           None \<Rightarrow> ret (Some (writeErr 500 ''hash''))
         | Some hash \<Rightarrow>
             do { err \<leftarrow> stSetAccountPassword (ttStore T) (acID a) hash;
                  if err \<noteq> None then ret (Some (writeErr 500 ''update''))
                  else do { stAppend (ttStore T) (auditEventOf ''admin.password'' (acID a) [] ''ok'' (Sub c)); ret None } }) })"

definition updateAdminStatus :: "ttd \<Rightarrow> Account \<Rightarrow> string \<Rightarrow> reply option act" where
  "updateAdminStatus T a st =
     (if st = AccountActive \<or> st = AccountDisabled then
        do { err \<leftarrow> stSetAccountStatus (ttStore T) (acID a) st;
             if err \<noteq> None then ret (Some (writeErr 500 ''update''))
             else do { stAppend (ttStore T) (auditEventOf ''admin.status'' (acID a) [] ''ok'' st); ret None } }
      else if st = [] then ret None
      else ret (Some (writeErr 400 ''status harus active atau disabled'')))"

definition hUpdateAdmin :: "ttd \<Rightarrow> Claims \<Rightarrow> string \<Rightarrow> update_admin_request option \<Rightarrow> reply act" where
  "hUpdateAdmin T c i body =
     do { (a, err) \<leftarrow> stAccount (ttStore T) i;
          if err \<noteq> None \<or> acRole a \<noteq> RoleAdmin \<and> acRole a \<noteq> RoleSuperAdmin then ret (writeErr 404 ''admin tidak ditemukan'')
          else if acRole a = RoleSuperAdmin then ret (writeErr 403 ''akun super admin tidak bisa diubah dari sini'')
          else (case body of
              None \<Rightarrow> ret (writeErr 400 ''bad body'')
            | Some inp \<Rightarrow>
                do { r \<leftarrow> updateAdminPassword T c a (uqPassword inp);
                     (case r of
                        Some rep \<Rightarrow> ret rep
                      | None \<Rightarrow>
                          do { r \<leftarrow> updateAdminStatus T a (uqStatus inp);
                               (case r of
                                  Some rep \<Rightarrow> ret rep
                                | None \<Rightarrow> do { (na, _) \<leftarrow> stAccount (ttStore T) (acID a); replyView T 200 na }) }) }) }"

definition accountStatusReply :: "string \<Rightarrow> string \<Rightarrow> (string \<times> jval) list \<Rightarrow> reply" where
  "accountStatusReply i st extra = Reply 200 (JObj ([(''account_id'', JStr i), (''status'', JStr st)] @ extra))"

definition hDeleteAdmin :: "ttd \<Rightarrow> Claims \<Rightarrow> string \<Rightarrow> reply act" where
  "hDeleteAdmin T c i =
     do { (a, err) \<leftarrow> stAccount (ttStore T) i;
          if err \<noteq> None \<or> acRole a \<noteq> RoleAdmin then ret (writeErr 404 ''admin tidak ditemukan'')
          else do {
            err \<leftarrow> stDeleteAccount (ttStore T) (acID a);
            if err \<noteq> None then
              do { _ \<leftarrow> stSetAccountStatus (ttStore T) (acID a) AccountDisabled;
                   stAppend (ttStore T) (auditEventOf ''admin.delete'' (acID a) [] ''tombstone'' []);
                   ret (accountStatusReply (acID a) AccountDisabled
                     [(''note'', JStr ''akun masih dirujuk; dinonaktifkan permanen alih-alih dihapus'')]) }
            else do {
              stAppend (ttStore T) (auditEventOf ''admin.delete'' (acID a) [] ''ok'' (Sub c));
              ret (accountStatusReply (acID a) ''deleted'' []) } } }"

section \<open>Users\<close>

definition hListAccounts :: "ttd \<Rightarrow> reply act" where
  "hListAccounts T =
     do { accounts \<leftarrow> stListAccounts (ttStore T);
          out \<leftarrow> mapA (accountView T) accounts;
          ret (Reply 200 (JObj [(''accounts'', JArr out)])) }"

definition reloadView :: "ttd \<Rightarrow> Account \<Rightarrow> reply act" where
  "reloadView T a = do { (a, _) \<leftarrow> stAccount (ttStore T) (acID a); replyView T 200 a }"

definition hApproveAccount :: "ttd \<Rightarrow> string \<Rightarrow> reply act" where
  "hApproveAccount T i =
     onClient T i (\<lambda>a.
       if acStatus a = AccountActive then replyView T 200 a
       else do {
         err \<leftarrow> stSetAccountStatus (ttStore T) (acID a) AccountActive;
         if err \<noteq> None then ret (writeErr 500 ''update'')
         else do {
           stAppend (ttStore T) (auditEventOf ''account.approve'' (acID a) [] ''ok'' []);
           reloadView T a } })"

definition hEnableAccount :: "ttd \<Rightarrow> string \<Rightarrow> reply act" where
  "hEnableAccount T i =
     onClient T i (\<lambda>a.
       do { err \<leftarrow> stSetAccountStatus (ttStore T) (acID a) AccountActive;
            if err \<noteq> None then ret (writeErr 500 ''update'')
            else do {
              stAppend (ttStore T) (auditEventOf ''account.enable'' (acID a) [] ''ok''
                ''prior certificates stay revoked; the user re-enrols on next login'');
              reloadView T a } })"

record update_account_request =
  uaFullName :: string
  uaOrganization :: string

definition hUpdateAccount :: "ttd \<Rightarrow> string \<Rightarrow> update_account_request option \<Rightarrow> reply act" where
  "hUpdateAccount T i body =
     onClient T i (\<lambda>a.
       case body of
         None \<Rightarrow> ret (writeErr 400 ''bad body'')
       | Some inp \<Rightarrow>
           do { err \<leftarrow> stUpdateAccountProfile (ttStore T) (acID a) (uaFullName inp) (uaOrganization inp);
                if err \<noteq> None then ret (writeErr 500 ''update'')
                else do {
                  stAppend (ttStore T) (auditEventOf ''account.update'' (acID a) [] ''ok'' []);
                  reloadView T a } })"

section \<open>The cascade\<close>

definition loseDevice :: "ttd \<Rightarrow> Certificate \<Rightarrow> Device \<Rightarrow> unit act" where
  "loseDevice T c d =
     (if dvID d = ceDeviceID c then do { _ \<leftarrow> stSetDeviceStatus (ttStore T) (dvID d) DeviceLost; ret () } else ret ())"

text \<open>One turn of the loop; whether it counts as a revocation.\<close>

definition cascadeOne :: "ttd \<Rightarrow> string \<Rightarrow> string \<Rightarrow> Certificate \<Rightarrow> bool act" where
  "cascadeOne T accountID reason c =
     (if ceStatus c \<noteq> CertActive then ret False
      else do {
        _ \<leftarrow> stRevokeCertificate (ttStore T) (ceID c) reason;
        _ \<leftarrow> revokeViaCA T (ceSerial c) ''cessationOfOperation'';
        ds \<leftarrow> stDevicesByAccount (ttStore T) accountID;
        _ \<leftarrow> mapA (loseDevice T c) ds;
        stAppend (ttStore T) (auditEventOf ''certificate.revoke'' accountID (ceDeviceID c) ''ok'' (ceSerial c @ '' '' @ reason));
        ret True })"

definition swapCRL :: "ttd \<Rightarrow> string \<Rightarrow> unit act" where
  "swapCRL T accountID =
     do { crl \<leftarrow> publishCRLViaCA T;
          (case crl of
             Inl _ \<Rightarrow> ret ()
           | Inr crl \<Rightarrow>
               if length crl > 0 then
                 do { modify (\<lambda>s. s\<lparr>svCRL := crl\<rparr>);
                      stAppend (ttStore T) (auditEventOf ''crl.publish'' accountID [] ''ok'' []) }
               else ret ()) }"

definition disableCascade :: "ttd \<Rightarrow> string \<Rightarrow> string \<Rightarrow> nat act" where
  "disableCascade T accountID reason =
     do { certs \<leftarrow> stCertificatesByAccount (ttStore T) accountID;
          turns \<leftarrow> mapA (cascadeOne T accountID reason) certs;
          (let n = length (filter id turns) in
           do { (if n > 0 then swapCRL T accountID else ret ());
                ret n }) }"

definition hDisableAccount :: "ttd \<Rightarrow> string \<Rightarrow> reply act" where
  "hDisableAccount T i =
     onClient T i (\<lambda>a.
       do { _ \<leftarrow> stSetAccountStatus (ttStore T) (acID a) AccountDisabled;
            revoked \<leftarrow> disableCascade T (acID a) ''account disabled'';
            stAppend (ttStore T) (auditEventOf ''account.disable'' (acID a) [] ''ok'' []);
            ret (accountStatusReply (acID a) AccountDisabled [(''certificates_revoked'', jint (int revoked))]) })"

definition hDeleteAccount :: "ttd \<Rightarrow> string \<Rightarrow> reply act" where
  "hDeleteAccount T i =
     onClient T i (\<lambda>a.
       do { _ \<leftarrow> stSetAccountStatus (ttStore T) (acID a) AccountDisabled;
            revoked \<leftarrow> disableCascade T (acID a) ''account deleted'';
            err \<leftarrow> stDeleteAccount (ttStore T) (acID a);
            if err \<noteq> None then
              do { stAppend (ttStore T) (auditEventOf ''account.delete'' (acID a) [] ''tombstone'' []);
                   ret (accountStatusReply (acID a) AccountDisabled [(''certificates_revoked'', jint (int revoked)),
                     (''note'', JStr ''akun punya riwayat tanda tangan; dinonaktifkan permanen alih-alih dihapus'')]) }
            else do {
              stAppend (ttStore T) (auditEventOf ''account.delete'' (acID a) [] ''ok'' []);
              ret (accountStatusReply (acID a) ''deleted'' [(''certificates_revoked'', jint (int revoked))]) } })"

end
