(* ===== verification/TTD_Uploads.thy ===== *)
theory TTD_Uploads
  imports TTD_Server
begin

text \<open>
  Resumable uploads of the TTD server (\<^verbatim>\<open>uploads.go\<close>): sessions in memory, each with a scratch file, and the reader that
  \<^verbatim>\<open>signedInput\<close> of \<^verbatim>\<open>handlers.go\<close> makes of a request body or a finished upload.
\<close>

section \<open>The manager\<close>

definition createUpload :: "ttd \<Rightarrow> string \<Rightarrow> uploadSession option act" where
  "createUpload T account =
     do { b \<leftarrow> randRead (ttEnv T) 16;
          (case b of
             None \<Rightarrow> ret None
           | Some b \<Rightarrow>
               do { t \<leftarrow> now (ttEnv T);
                    (let i = ''up_'' @ hexEncode b;
                         u = \<lparr>usID = i, usAccount = account, usPath = joinPath (cfgUploadDir (ttCfg T)) (i @ ''.part''), usSize = 0, usUpdated = t\<rparr> in
                     do { err \<leftarrow> draw (tlFileFault (ttLib T));
                          if err \<noteq> None then ret None
                          else do {
                            modify (\<lambda>s. s\<lparr>svFiles := AList.update (usPath u) [] (svFiles s), svUploads := AList.update i u (svUploads s)\<rparr>);
                            ret (Some u) } }) }) }"

definition getUpload :: "string \<Rightarrow> string \<Rightarrow> uploadSession option act" where
  "getUpload i account =
     do { s \<leftarrow> getS;
          ret (case map_of (svUploads s) i of
                 None \<Rightarrow> None
               | Some u \<Rightarrow> if usAccount u = account then Some u else None) }"

datatype upload_err = UploadOffset | UploadTooBig | UploadIO

text \<open>
  A chunk is what the request body yields and whether reading it then fails.  The limited reader takes one byte more than
  fits; a read error beyond that is not seen.
\<close>

definition appendChunk :: "ttd \<Rightarrow> uploadSession \<Rightarrow> int \<Rightarrow> int \<Rightarrow> bytes \<times> bool \<Rightarrow> (int \<times> upload_err option) act" where
  "appendChunk T u offset mx chunk =
     (if offset \<noteq> usSize u then ret (usSize u, Some UploadOffset)
      else do {
        err \<leftarrow> draw (tlFileFault (ttLib T));
        s \<leftarrow> getS;
        (case map_of (svFiles s) (usPath u) of
           None \<Rightarrow> ret (usSize u, Some UploadIO)
         | Some old \<Rightarrow>
             if err \<noteq> None then ret (usSize u, Some UploadIO)
             else do {
               cut \<leftarrow> draw (tlWriteCut (ttLib T));
               (let lim = nat (mx - usSize u + 1);
                    got = (case cut of None \<Rightarrow> take lim (fst chunk) | Some k \<Rightarrow> take (min k lim) (fst chunk));
                    sz = usSize u + int (length got) in
                do { t \<leftarrow> now (ttEnv T);
                     modify (\<lambda>s. s\<lparr>svFiles := AList.update (usPath u) (old @ got) (svFiles s),
                       svUploads := AList.update (usID u) (u\<lparr>usSize := sz, usUpdated := t\<rparr>) (svUploads s)\<rparr>);
                     ret (sz, if cut \<noteq> None \<or> snd chunk \<and> length (fst chunk) < lim then Some UploadIO
                              else if sz > mx then Some UploadTooBig else None) }) }) })"

definition discard :: "uploadSession \<Rightarrow> unit act" where
  "discard u =
     modify (\<lambda>s. s\<lparr>svUploads := AList.delete (usID u) (svUploads s), svFiles := AList.delete (usPath u) (svFiles s)\<rparr>)"

text \<open>One tick of the reaper.\<close>

definition reapOne :: "ttd \<Rightarrow> uploadSession \<Rightarrow> unit act" where
  "reapOne T u = do { t \<leftarrow> now (ttEnv T); if t - usUpdated u > 7200 * second then discard u else ret () }"

definition reaper :: "ttd \<Rightarrow> unit act" where
  "reaper T =
     do { s \<leftarrow> getS;
          _ \<leftarrow> mapA (reapOne T) (rangeOf (ttEnv T) (svUploads s));
          ret () }"

section \<open>Handlers\<close>

definition noUploadReply :: reply where
  "noUploadReply = writeErr 404 ''sesi unggah tidak ditemukan''"

definition hUploadCreate :: "ttd \<Rightarrow> Claims \<Rightarrow> reply act" where
  "hUploadCreate T c =
     do { u \<leftarrow> createUpload T (Sub c);
          ret (case u of
                 None \<Rightarrow> writeErr 500 ''gagal memulai unggah''
               | Some u \<Rightarrow> Reply 201 (JObj [(''upload_id'', JStr (usID u)), (''received'', jint 0), (''max_bytes'', jint (cfgMaxUploadBytes (ttCfg T)))])) }"

text \<open>
  \<^verbatim>\<open>offset\<close> is what \<^verbatim>\<open>strconv.ParseInt\<close> returns when it fails too: 0 for a bad number, the nearest bound for one out of range.
\<close>

definition parseOffset :: "string \<Rightarrow> int" where
  "parseOffset q =
     (let ds = (if q \<noteq> [] \<and> (hd q = CHR ''+'' \<or> hd q = CHR ''-'') then tl q else q) in
      case parseInt q of
        Some n \<Rightarrow> n
      | None \<Rightarrow> if ds \<noteq> [] \<and> list_all isDigit ds then (if hd q = CHR ''-'' then - (2 ^ 63) else 2 ^ 63 - 1) else 0)"

definition hUploadChunk :: "ttd \<Rightarrow> Claims \<Rightarrow> string \<Rightarrow> string \<Rightarrow> bytes \<times> bool \<Rightarrow> reply act" where
  "hUploadChunk T c i offset chunk =
     do { u \<leftarrow> getUpload i (Sub c);
          (case u of
             None \<Rightarrow> ret noUploadReply
           | Some u \<Rightarrow>
               do { (got, err) \<leftarrow> appendChunk T u (parseOffset offset) (cfgMaxUploadBytes (ttCfg T)) chunk;
                    (case err of
                       None \<Rightarrow> ret (Reply 200 (JObj [(''received'', jint got)]))
                     | Some UploadOffset \<Rightarrow> ret (Reply 409 (JObj [(''error'', JStr ''offset tidak sesuai''), (''received'', jint got)]))
                     | Some UploadTooBig \<Rightarrow> do { discard u; ret (writeErr 413 ''unggahan melebihi batas'') }
                     | Some UploadIO \<Rightarrow> ret (writeErr 500 ''gagal menulis potongan'')) }) }"

definition hUploadStatus :: "ttd \<Rightarrow> Claims \<Rightarrow> string \<Rightarrow> reply act" where
  "hUploadStatus T c i =
     do { u \<leftarrow> getUpload i (Sub c);
          ret (case u of None \<Rightarrow> noUploadReply | Some u \<Rightarrow> Reply 200 (JObj [(''received'', jint (usSize u))])) }"

section \<open>The submitted document\<close>

datatype input_err = NoUpload | TooLarge | ReadFailed

definition signedInput :: "ttd \<Rightarrow> string \<Rightarrow> string \<Rightarrow> bytes option \<Rightarrow> (input_err + bytes \<times> int \<times> uploadSession option) act" where
  "signedInput T uploadID account rd =
     (if uploadID \<noteq> [] then
        do { u \<leftarrow> getUpload uploadID account;
             (case u of
                None \<Rightarrow> ret (Inl NoUpload)
              | Some u \<Rightarrow>
                  do { err \<leftarrow> draw (tlFileFault (ttLib T));
                       s \<leftarrow> getS;
                       ret (case map_of (svFiles s) (usPath u) of
                              None \<Rightarrow> Inl ReadFailed
                            | Some b \<Rightarrow> if err \<noteq> None then Inl ReadFailed else Inr (b, usSize u, Some u)) }) }
      else ret (case readBody rd (cfgMaxUploadBytes (ttCfg T)) of
          None \<Rightarrow> Inl ReadFailed
        | Some body \<Rightarrow> if withinLimit body (cfgMaxUploadBytes (ttCfg T)) then Inr (body, int (length body), None) else Inl TooLarge))"

text \<open>What reading it yields; a scratch file may fail to read.\<close>

definition readSource :: "ttd \<Rightarrow> bytes \<Rightarrow> uploadSession option \<Rightarrow> bytes option act" where
  "readSource T b u =
     (if u = None then ret (Some b) else draw (\<lambda>k. if tlFileFault (ttLib T) k = None then Some b else None))"

definition inputErrReply :: "input_err \<Rightarrow> reply" where
  "inputErrReply e =
     (case e of
        NoUpload \<Rightarrow> noUploadReply
      | TooLarge \<Rightarrow> writeErr 413 ''PDF exceeds the upload limit''
      | ReadFailed \<Rightarrow> writeErr 400 ''read'')"

definition discardOpt :: "uploadSession option \<Rightarrow> unit act" where
  "discardOpt u = (case u of None \<Rightarrow> ret () | Some u \<Rightarrow> discard u)"

end
