(* ===== verification/TTD_Signing.thy ===== *)
theory TTD_Signing
  imports TTD_Uploads TTD_Certificates
begin

text \<open>
  Reservations, submissions and the public verifier of the TTD server (\<^verbatim>\<open>handlers.go\<close>), the strict re-verification of a
  submitted PDF (\<^verbatim>\<open>verify.go\<close>), the QR stamp request (\<^verbatim>\<open>stamp.go\<close>) and the document behind a QR code (\<^verbatim>\<open>qrpage.go\<close>).
\<close>

section \<open>Addresses\<close>

record request_meta =
  rqHost :: string
  rqTLS :: bool
  rqProto :: string
  rqBase :: string

definition trimRightSlash :: "string \<Rightarrow> string" where
  "trimRightSlash s = rev (dropWhile (\<lambda>c. c = CHR ''/'') (rev s))"

definition publicBase :: "ttd \<Rightarrow> string" where
  "publicBase T =
     (let base = trimRightSlash (cfgPublicBaseURL (ttCfg T)) in if base = [] then ''http://localhost:8443'' else base)"

definition verifyURL :: "ttd \<Rightarrow> string \<Rightarrow> string" where
  "verifyURL T publicID = publicBase T @ ''/v/'' @ publicID"

definition isLoopbackBase :: "string \<Rightarrow> bool" where
  "isLoopbackBase b \<longleftrightarrow> b = [] \<or> containsStr b ''localhost'' \<or> containsStr b ''127.0.0.1''"

definition secureRequest :: "ttd \<Rightarrow> request_meta \<Rightarrow> bool" where
  "secureRequest T r \<longleftrightarrow> rqTLS r \<or> tlEqualFold (ttLib T) (rqProto r) ''https''"

definition reqBase :: "ttd \<Rightarrow> request_meta \<Rightarrow> string" where
  "reqBase T r = (if secureRequest T r then ''https'' else ''http'') @ ''://'' @ rqHost r"

definition qrTarget :: "ttd \<Rightarrow> request_meta \<Rightarrow> string \<Rightarrow> string" where
  "qrTarget T r publicID =
     (case filter (\<lambda>b. \<not> isLoopbackBase b) (map trimRightSlash [trimSpace (rqBase r), reqBase T r, trimRightSlash (cfgPublicBaseURL (ttCfg T))]) of
        [] \<Rightarrow> publicID
      | b # _ \<Rightarrow> (if \<not> hasPrefix b ''http://'' \<and> \<not> hasPrefix b ''https://'' then ''http://'' @ b else b) @ ''/v/'' @ publicID)"

section \<open>File names\<close>

definition pathBase :: "string \<Rightarrow> string" where
  "pathBase p =
     (if p = [] then ''.''
      else (let q = trimRightSlash p; b = rev (takeWhile (\<lambda>c. c \<noteq> CHR ''/'') (rev q)) in if b = [] then ''/'' else b))"

definition nameChar :: "char \<Rightarrow> bool" where
  "nameChar c \<longleftrightarrow> inRange 97 122 c \<or> inRange 65 90 c \<or> inRange 48 57 c \<or> c \<in> {CHR ''.'', CHR ''-'', CHR ''_'', CHR '' ''}"

text \<open>Every rune that is not a name character becomes one underscore.\<close>

function mapName :: "string \<Rightarrow> string" where
  "mapName s = (if s = [] then [] else (if nameChar (hd s) then hd s else CHR ''_'') # mapName (drop (max 1 (utf8Width s)) s))"
  by pat_completeness auto
termination by (relation "measure length") auto

declare mapName.simps [simp del]

definition sanitizeName :: "string \<Rightarrow> string" where
  "sanitizeName name =
     (let n = mapName (pathBase (map (\<lambda>c. if c = CHR 0x5C then CHR ''/'' else c) name)) in
      if n = [] \<or> n = ''.'' \<or> n = ''..'' then ''document.pdf'' else take 128 n)"

section \<open>Reservation\<close>

record reserve_request =
  rvDeviceID :: string
  rvOriginalSHA512 :: string
  rvFileName :: string

definition hReserve :: "ttd \<Rightarrow> Claims \<Rightarrow> reserve_request option \<Rightarrow> reply act" where
  "hReserve T c body =
     (case body of
        None \<Rightarrow> ret (writeErr 400 ''device_id is required'')
      | Some inp \<Rightarrow>
          if rvDeviceID inp = [] then ret (writeErr 400 ''device_id is required'')
          else do {
            (d, err) \<leftarrow> stDevice (ttStore T) (rvDeviceID inp);
            if err \<noteq> None \<or> dvAccountID d \<noteq> Sub c then ret (writeErr 404 ''device not found'')
            else if dvStatus d \<noteq> DeviceActive then ret (writeErr 403 (''device is '' @ dvStatus d))
            else do {
              (cert, err) \<leftarrow> stCertificateByDevice (ttStore T) (dvID d);
              if err \<noteq> None \<or> ceStatus cert \<noteq> CertActive then ret (writeErr 403 ''device has no active certificate'')
              else do {
                t \<leftarrow> now (ttEnv T);
                (res, _) \<leftarrow> stCreateReservation (ttStore T) (zeroReservation\<lparr>rsAccountID := Sub c, rsDeviceID := dvID d,
                    rsOriginalSHA512 := rvOriginalSHA512 inp, rsFileName := sanitizeName (rvFileName inp), rsExpiresAt := t + 7200 * second\<rparr>);
                audit T ''signature.reserve'' c (dvID d) ''ok'' (rsPublicID res);
                ret (Reply 201 (JObj [(''public_id'', JStr (rsPublicID res)), (''verification_url'', JStr (verifyURL T (rsPublicID res))),
                  (''expires_at'', JStr (fmtTime (rsExpiresAt res)))])) } } })"

section \<open>Strict re-verification\<close>

record verifiedInfo =
  viCertificateID :: string
  viCertSerial :: string
  viCertFingerprint :: string
  viClaimedTime :: string

definition firstReason :: "pdf_result \<Rightarrow> string \<Rightarrow> string" where
  "firstReason vr fallback =
     (case prErrors vr of
        e # _ \<Rightarrow> e
      | [] \<Rightarrow> (case prSignatures vr of
                 [] \<Rightarrow> fallback
               | sig # _ \<Rightarrow> (case psErrors sig of e # _ \<Rightarrow> e | [] \<Rightarrow> fallback)))"

definition verifyPDF :: "ttd \<Rightarrow> bytes \<Rightarrow> (string + pdf_result) act" where
  "verifyPDF T pdf =
     do { s \<leftarrow> getS;
          draw (\<lambda>k. tlVerifyPDF (ttLib T) k pdf (cfgRootCAPEM (ttCfg T)) (cfgCAChainPEM (ttCfg T)) (svCRL s)) }"

text \<open>The checks on the result of the PDF verifier alone: the one signature it must hold, or the reason for a rejection.\<close>

definition checkResult :: "Reservation \<Rightarrow> pdf_result \<Rightarrow> string + pdf_signature" where
  "checkResult res vr =
     (case prSignatures vr of
        [sig] \<Rightarrow>
          if \<not> prValid vr \<or> \<not> psValid sig then Inl (firstReason vr ''signature is not valid'')
          else if psAlgorithm sig \<noteq> ''ML-DSA-65'' then Inl ''signature algorithm is not ML-DSA-65''
          else if \<not> psTrustedChain sig then Inl ''certificate chain does not reach the configured Root CA''
          else if psRevoked sig then Inl ''signer certificate is revoked''
          else if psPublicID sig \<noteq> rsPublicID res then Inl ''public id in the PDF does not match this reservation''
          else Inr sig
      | _ \<Rightarrow> Inl ''expected exactly one signature'')"

definition checkCert :: "Reservation \<Rightarrow> pdf_signature \<Rightarrow> Certificate \<Rightarrow> string + verifiedInfo" where
  "checkCert res sig cert =
     (if ceAccountID cert \<noteq> rsAccountID res then Inl ''signer certificate belongs to a different account''
      else if ceDeviceID cert \<noteq> rsDeviceID res then Inl ''signer certificate belongs to a different device''
      else if ceStatus cert \<noteq> CertActive then Inl (''signer certificate is '' @ ceStatus cert)
      else if ceFingerprint cert \<noteq> psCertificateFingerprint sig then Inl ''certificate fingerprint mismatch''
      else Inr \<lparr>viCertificateID = ceID cert, viCertSerial = ceSerial cert, viCertFingerprint = ceFingerprint cert,
                viClaimedTime = psClaimedTime sig\<rparr>)"

definition strictVerify :: "ttd \<Rightarrow> Reservation \<Rightarrow> bytes \<Rightarrow> (string + verifiedInfo) act" where
  "strictVerify T res pdf =
     (if length pdf < 5 \<or> take 5 pdf \<noteq> ''%PDF-'' then ret (Inl ''not a PDF (missing %PDF- magic)'')
      else do {
        (_, err) \<leftarrow> stSignature (ttStore T) (rsPublicID res);
        if err = None then ret (Inl ''this reservation has already been completed'')
        else do {
          (d, err) \<leftarrow> stDevice (ttStore T) (rsDeviceID res);
          if err \<noteq> None \<or> dvStatus d \<noteq> DeviceActive then ret (Inl ''device is not active'')
          else do {
            vr \<leftarrow> verifyPDF T pdf;
            (case vr of
               Inl err \<Rightarrow> ret (Inl (''verification error: '' @ err))
             | Inr vr \<Rightarrow>
                 (case checkResult res vr of
                    Inl why \<Rightarrow> ret (Inl why)
                  | Inr sig \<Rightarrow>
                      do { (cert, err) \<leftarrow> stCertificateBySerial (ttStore T) (psCertificateSerial sig);
                           ret (if err \<noteq> None then Inl ''signer certificate is not registered with this server''
                                else checkCert res sig cert) })) } } })"

section \<open>Submission\<close>

definition submissionResult :: "Signature \<Rightarrow> reply" where
  "submissionResult sig =
     Reply 200 (JObj [(''public_id'', JStr (sgPublicID sig)),
       (''status'', JStr (if sgVerificationStatus sig = VerificationStoredOnly then ''stored_unverified'' else ''accepted'')),
       (''verification_status'', JStr (sgVerificationStatus sig)), (''signed_pdf_sha512'', JStr (sgSignedSHA512 sig)),
       (''certificate_serial'', JStr (sgCertSerial sig)), (''server_received_at'', JStr (fmtTime (sgServerReceivedAt sig)))])"

definition objectKey :: "ttd \<Rightarrow> string \<Rightarrow> string act" where
  "objectKey T publicID =
     do { t \<leftarrow> now (ttEnv T);
          t' \<leftarrow> now (ttEnv T);
          ret (''documents/'' @ fmt_d (fst (tlLocalDate (ttLib T) t)) @ ''/'' @ pad 2 (snd (tlLocalDate (ttLib T) t')) @ ''/'' @ publicID @ ''/signed.pdf'') }"

definition calculateSHA512 :: "ttd \<Rightarrow> bytes \<Rightarrow> string" where
  "calculateSHA512 T b = hexEncode (tlSHA512 (ttLib T) b)"

definition newSignature :: "ttd \<Rightarrow> Reservation \<Rightarrow> string \<Rightarrow> bytes \<Rightarrow> int \<Rightarrow> int \<Rightarrow> string \<Rightarrow> Signature" where
  "newSignature T res key body sz t status =
     zeroSignature\<lparr>sgPublicID := rsPublicID res, sgAccountID := rsAccountID res, sgDeviceID := rsDeviceID res,
       sgOriginalSHA512 := rsOriginalSHA512 res, sgSignedSHA512 := calculateSHA512 T body, sgStorageObjectKey := key, sgSignedSize := sz,
       sgServerReceivedAt := t, sgVerificationStatus := status, sgAlgorithm := ''ML-DSA-65'', sgPDFProfile := ''PAdES_B''\<rparr>"

definition verifiedSignature :: "ttd \<Rightarrow> Reservation \<Rightarrow> string \<Rightarrow> bytes \<Rightarrow> verifiedInfo \<Rightarrow> int \<Rightarrow> Signature" where
  "verifiedSignature T res key body info t =
     (newSignature T res key body (int (length body)) t VerificationAccepted)\<lparr>sgCertSerial := viCertSerial info,
       sgCertFingerprint := viCertFingerprint info, sgCertificateID := viCertificateID info, sgClientClaimedSigningTime := viClaimedTime info\<rparr>"

text \<open>The two tiers: an early reply, or what \<^verbatim>\<open>CreateSignature\<close> returned.\<close>

definition submitVerified :: "ttd \<Rightarrow> Claims \<Rightarrow> Reservation \<Rightarrow> string \<Rightarrow> bytes option \<Rightarrow> (reply + Signature \<times> err) act" where
  "submitVerified T c res key body =
     (case body of
        None \<Rightarrow> ret (Inl (writeErr 400 ''read''))
      | Some body \<Rightarrow>
          do { v \<leftarrow> strictVerify T res body;
               (case v of
                  Inl reason \<Rightarrow>
                    do { audit T ''signature.submit'' c (rsDeviceID res) ''reject'' reason;
                         ret (Inl (writeErr 422 reason)) }
                | Inr info \<Rightarrow>
                    do { err \<leftarrow> stPutObject (ttStore T) key body;
                         if err \<noteq> None then ret (Inl (writeErr 500 ''store''))
                         else do {
                           t \<leftarrow> now (ttEnv T);
                           r \<leftarrow> stCreateSignature (ttStore T) (verifiedSignature T res key body info t);
                           ret (Inr r) } }) })"

definition submitStored :: "ttd \<Rightarrow> Reservation \<Rightarrow> string \<Rightarrow> bytes \<Rightarrow> uploadSession option \<Rightarrow> int \<Rightarrow> (reply + Signature \<times> err) act" where
  "submitStored T res key b u sz =
     do { body \<leftarrow> readSource T b u;
          err \<leftarrow> stPutObjectFrom (ttStore T) key body sz;
          if err \<noteq> None then ret (Inl (writeErr 500 ''store''))
          else do {
            t \<leftarrow> now (ttEnv T);
            r \<leftarrow> stCreateSignature (ttStore T) (newSignature T res key b sz t VerificationStoredOnly);
            ret (Inr r) } }"

definition submitTier :: "ttd \<Rightarrow> Claims \<Rightarrow> Reservation \<Rightarrow> string \<Rightarrow> bytes \<Rightarrow> int \<Rightarrow> uploadSession option \<Rightarrow> (reply + Signature \<times> err) act" where
  "submitTier T c res key b sz u =
     (if sz \<le> cfgMaxVerifyBytes (ttCfg T) then do { body \<leftarrow> readSource T b u; submitVerified T c res key body }
      else submitStored T res key b u sz)"

definition finishSubmit :: "ttd \<Rightarrow> Claims \<Rightarrow> Reservation \<Rightarrow> uploadSession option \<Rightarrow> reply + Signature \<times> err \<Rightarrow> reply act" where
  "finishSubmit T c res u r =
     (case r of
        Inl rep \<Rightarrow> ret rep
      | Inr (sig, err) \<Rightarrow>
          if err \<noteq> None then ret (writeErr 409 ''submission already recorded'')
          else do {
            _ \<leftarrow> stSetReservationStatus (ttStore T) (rsPublicID res) ReservationAccepted;
            audit T ''signature.submit'' c (rsDeviceID res) ''accept'' (rsPublicID res @ '' '' @ sgVerificationStatus sig);
            discardOpt u;
            ret (submissionResult sig) })"

definition submitBody :: "ttd \<Rightarrow> Claims \<Rightarrow> Reservation \<Rightarrow> string \<Rightarrow> bytes option \<Rightarrow> reply act" where
  "submitBody T c res uploadID rd =
     do { inp \<leftarrow> signedInput T uploadID (Sub c) rd;
          (case inp of
             Inl e \<Rightarrow> ret (inputErrReply e)
           | Inr (b, sz, u) \<Rightarrow>
               do { key \<leftarrow> objectKey T (rsPublicID res);
                    r \<leftarrow> submitTier T c res key b sz u;
                    finishSubmit T c res u r }) }"

definition hSubmitDocument :: "ttd \<Rightarrow> Claims \<Rightarrow> string \<Rightarrow> string \<Rightarrow> bytes option \<Rightarrow> reply act" where
  "hSubmitDocument T c publicID uploadID rd =
     do { (res, err) \<leftarrow> stReservation (ttStore T) publicID;
          if err \<noteq> None \<or> rsAccountID res \<noteq> Sub c then ret (writeErr 404 ''reservation not found'')
          else if rsStatus res = ReservationAccepted then
            do { (sig, err) \<leftarrow> stSignature (ttStore T) (rsPublicID res);
                 if err = None then ret (submissionResult sig) else submitBody T c res uploadID rd }
          else submitBody T c res uploadID rd }"

section \<open>The stamp\<close>

record stamp_request =
  spUploadID :: string
  spBody :: "bytes option"
  spQuery :: string
  spIssuedPlace :: string
  spMeta :: request_meta

definition megabytes :: "int \<Rightarrow> string" where
  "megabytes n = fmt_d (n div 2 ^ 20)"

definition unsupportedPDF :: string where
  "unsupportedPDF =
     ''PDF ini tidak bisa diproses untuk penempelan QR (mungkin memakai fitur seperti Content Credentials/C2PA, enkripsi, atau formulir yang kompleks). Cetak ulang ke PDF (Print '' @ [CHR 0xE2, CHR 0x86, CHR 0x92] @ '' Simpan sebagai PDF) lalu coba lagi.''"

definition stampBody :: "ttd \<Rightarrow> Claims \<Rightarrow> Reservation \<Rightarrow> Account \<Rightarrow> stamp_request \<Rightarrow> bytes \<Rightarrow> reply act" where
  "stampBody T c res acc r body =
     (if \<not> hasPrefix body ''%PDF-'' then ret (writeErr 422 ''bukan berkas PDF'')
      else do {
        stamped \<leftarrow> draw (\<lambda>k. tlStampQR (ttLib T) k body (spQuery r) (qrTarget T (spMeta r) (rsPublicID res))
          (firstNonEmpty [acFullName acc, acDisplayName acc], acPosition acc, acNIP acc, trimSpace (spIssuedPlace r)));
        (case stamped of
           Inl err \<Rightarrow>
             do { audit T ''stamp.apply'' c (rsDeviceID res) ''fail'' err; ret (writeErr 422 unsupportedPDF) }
         | Inr pdf \<Rightarrow>
             do { audit T ''stamp.apply'' c (rsDeviceID res) ''ok'' (rsPublicID res); ret (Bytes ''application/pdf'' pdf) }) })"

definition hStamp :: "ttd \<Rightarrow> Claims \<Rightarrow> string \<Rightarrow> stamp_request \<Rightarrow> reply act" where
  "hStamp T c publicID r =
     do { (res, err) \<leftarrow> stReservation (ttStore T) publicID;
          if err \<noteq> None \<or> rsAccountID res \<noteq> Sub c then ret (writeErr 404 ''reservation not found'')
          else if rsStatus res = ReservationAccepted then ret (writeErr 409 ''this reservation is already completed'')
          else do {
            (cert, err) \<leftarrow> stCertificateByDevice (ttStore T) (rsDeviceID res);
            if err \<noteq> None \<or> ceStatus cert \<noteq> CertActive then ret (writeErr 409 ''perangkat belum punya sertifikat aktif'')
            else do {
              (acc, err) \<leftarrow> stAccount (ttStore T) (Sub c);
              if err \<noteq> None then ret (writeErr 404 ''account not found'')
              else do {
                inp \<leftarrow> signedInput T (spUploadID r) (Sub c) (spBody r);
                (case inp of
                   Inl e \<Rightarrow> ret (inputErrReply e)
                 | Inr (b, sz, u) \<Rightarrow>
                     if sz > cfgMaxStampBytes (ttCfg T) then
                       ret (writeErr 413 (''berkas '' @ megabytes sz @ '' MB terlalu besar untuk stempel QR di server (maks '' @
                         megabytes (cfgMaxStampBytes (ttCfg T)) @ '' MB). Tandatangani tanpa stempel server untuk berkas sebesar ini.''))
                     else do {
                       body \<leftarrow> readSource T b u;
                       discardOpt u;
                       (case body of
                          None \<Rightarrow> ret (writeErr 400 ''read'')
                        | Some body \<Rightarrow> stampBody T c res acc r body) }) } } } }"

section \<open>The owner's view\<close>

definition signatureView :: "Signature \<Rightarrow> jval" where
  "signatureView sig =
     JObj [(''public_id'', JStr (sgPublicID sig)), (''device_id'', JStr (sgDeviceID sig)), (''certificate_id'', JStr (sgCertificateID sig)),
       (''cert_serial'', JStr (sgCertSerial sig)), (''cert_fingerprint'', JStr (sgCertFingerprint sig)), (''algorithm'', JStr (sgAlgorithm sig)),
       (''pdf_profile'', JStr (sgPDFProfile sig)), (''original_sha512'', JStr (sgOriginalSHA512 sig)), (''signed_sha512'', JStr (sgSignedSHA512 sig)),
       (''client_claimed_signing_time'', JStr (sgClientClaimedSigningTime sig)), (''server_received_at'', JStr (fmtTime (sgServerReceivedAt sig))),
       (''signed_size'', jint (sgSignedSize sig)), (''verification_status'', JStr (sgVerificationStatus sig)),
       (''created_at'', JStr (fmtTime (sgCreatedAt sig)))]"

definition hGetSignature :: "ttd \<Rightarrow> Claims \<Rightarrow> string \<Rightarrow> reply act" where
  "hGetSignature T c i =
     do { (sig, err) \<leftarrow> stSignature (ttStore T) i;
          ret (if err \<noteq> None \<or> sgAccountID sig \<noteq> Sub c then writeErr 404 ''not found'' else Reply 200 (signatureView sig)) }"

definition hDownload :: "ttd \<Rightarrow> Claims \<Rightarrow> string \<Rightarrow> reply act" where
  "hDownload T c i =
     do { (sig, err) \<leftarrow> stSignature (ttStore T) i;
          if err \<noteq> None \<or> sgAccountID sig \<noteq> Sub c then ret (writeErr 404 ''not found'')
          else do {
            (b, err) \<leftarrow> stGetObject (ttStore T) (sgStorageObjectKey sig);
            ret (if err \<noteq> None then writeErr 404 ''object missing'' else Bytes ''application/pdf'' b) } }"

definition hMySignatures :: "ttd \<Rightarrow> Claims \<Rightarrow> reply act" where
  "hMySignatures T c =
     do { sigs \<leftarrow> stSignaturesByAccount (ttStore T) (Sub c);
          ret (Reply 200 (JObj [(''signatures'', JArr (map signatureView sigs))])) }"

section \<open>The public verifier\<close>

definition noteMatch :: string where
  "noteMatch = ''QR memastikan kecocokan dengan catatan server; integritas seluruh dokumen diverifikasi dari file PDF asli.''"

definition noteStored :: string where
  "noteStored = ''Berkas ini terlalu besar untuk diverifikasi otomatis di server. Server hanya mencatat SHA-512-nya dan menyimpan salinannya. Verifikasi tanda tangan secara manual dengan mengunggah PDF di halaman verifikasi.''"

definition certStatusOf :: "Signature \<Rightarrow> Certificate \<times> err \<Rightarrow> Device \<Rightarrow> string" where
  "certStatusOf sig ce d =
     (if sgVerificationStatus sig = VerificationStoredOnly then ''not_server_verified''
      else if snd ce = None \<and> ceStatus (fst ce) = CertRevoked then ''revoked''
      else if dvStatus d = DeviceLost then ''device_reported_lost''
      else ''active'')"

definition publicRecord :: "ttd \<Rightarrow> Signature \<Rightarrow> Account \<Rightarrow> Device \<Rightarrow> jval act" where
  "publicRecord T sig a d =
     do { ce \<leftarrow> stCertificateBySerial (ttStore T) (sgCertSerial sig);
          ret (JObj [(''public_id'', JStr (sgPublicID sig)), (''signer_name'', JStr (acDisplayName a)), (''position'', JStr (acPosition a)),
            (''nip'', JStr (acNIP a)), (''device_label'', JStr (dvLabel d)), (''certificate_serial'', JStr (sgCertSerial sig)),
            (''certificate_fingerprint'', JStr (sgCertFingerprint sig)), (''certificate_status'', JStr (certStatusOf sig ce d)),
            (''verification_status'', JStr (sgVerificationStatus sig)), (''signed_pdf_sha512'', JStr (sgSignedSHA512 sig)),
            (''client_claimed_signing_time'', JStr (sgClientClaimedSigningTime sig)),
            (''server_received_at'', JStr (fmtTime (sgServerReceivedAt sig))),
            (''note'', JStr (if sgVerificationStatus sig = VerificationStoredOnly then noteStored else noteMatch))]) }"

definition recordOf :: "ttd \<Rightarrow> Signature \<Rightarrow> jval act" where
  "recordOf T sig =
     do { (a, _) \<leftarrow> stAccount (ttStore T) (sgAccountID sig);
          (d, _) \<leftarrow> stDevice (ttStore T) (sgDeviceID sig);
          publicRecord T sig a d }"

definition hPublicRecord :: "ttd \<Rightarrow> string \<Rightarrow> reply act" where
  "hPublicRecord T i =
     do { (sig, err) \<leftarrow> stSignature (ttStore T) i;
          if err \<noteq> None then ret (writeErr 404 ''no such record'')
          else do { v \<leftarrow> recordOf T sig; ret (Reply 200 v) } }"

text \<open>The multipart form of the verifier: not a form, no file in it, or a file that reads to some bytes or fails.\<close>

datatype verify_form = BadForm | NoFile | FormFile "bytes option"

definition quotedFile :: string where
  "quotedFile = [CHR 0x27] @ ''file'' @ [CHR 0x27]"

definition readAllMax :: "bytes option \<Rightarrow> int \<Rightarrow> bytes option" where
  "readAllMax rd mx =
     (case readBody rd mx of None \<Rightarrow> None | Some b \<Rightarrow> if int (length b) > mx then None else Some b)"

definition registeredPart :: "ttd \<Rightarrow> pdf_result \<Rightarrow> (string \<times> jval) list act" where
  "registeredPart T vr =
     (case prSignatures vr of
        [] \<Rightarrow> ret [(''registered'', JBool False)]
      | sig # _ \<Rightarrow>
          if psPublicID sig = [] then ret [(''registered'', JBool False)]
          else do {
            (g, err) \<leftarrow> stSignature (ttStore T) (psPublicID sig);
            if err \<noteq> None then ret [(''registered'', JBool False)]
            else do { v \<leftarrow> recordOf T g; ret [(''registered'', JBool True), (''record'', v)] } })"

definition hPublicVerify :: "ttd \<Rightarrow> verify_form \<Rightarrow> reply act" where
  "hPublicVerify T form =
     (case form of
        BadForm \<Rightarrow> ret (writeErr 400 (''expected multipart/form-data with a '' @ quotedFile @ '' field''))
      | NoFile \<Rightarrow> ret (writeErr 400 (''missing '' @ quotedFile))
      | FormFile rd \<Rightarrow>
          (case readAllMax rd (cfgMaxUploadBytes (ttCfg T)) of
             None \<Rightarrow> ret (writeErr 413 ''file too large'')
           | Some pdf \<Rightarrow>
               do { vr \<leftarrow> verifyPDF T pdf;
                    (case vr of
                       Inl err \<Rightarrow> ret (writeErr 422 err)
                     | Inr vr \<Rightarrow>
                         do { out \<leftarrow> registeredPart T vr;
                              ret (Reply 200 (JObj ((''verification'', tlResultJSON (ttLib T) vr) # out))) }) }))"

definition hPublicDocument :: "ttd \<Rightarrow> string \<Rightarrow> reply act" where
  "hPublicDocument T i =
     do { (sig, err) \<leftarrow> stSignature (ttStore T) i;
          if err \<noteq> None then ret (Plain 404 ''tidak ada dokumen dengan ID itu'')
          else do {
            (b, err) \<leftarrow> stGetObject (ttStore T) (sgStorageObjectKey sig);
            ret (if err \<noteq> None then Plain 404 ''berkas dokumen tidak tersedia di server'' else Bytes ''application/pdf'' b) } }"

end
