(* ===== verification/TTD_Routes.thy ===== *)
theory TTD_Routes
  imports TTD_Login TTD_Accounts TTD_Signing
begin

text \<open>
  The TTD server as a whole: the office integration of \<^verbatim>\<open>office.go\<close>, the route table of \<^verbatim>\<open>api.go\<close> and \<^verbatim>\<open>superadmin.go\<close> with its guards and
  rate limits, and the states the server can reach.  Requests run one after the other.
\<close>

section \<open>The office service behind the same origin\<close>

type_synonym headers = "(string \<times> string list) list"

definition officeOn :: "ttd \<Rightarrow> bool" where
  "officeOn T \<longleftrightarrow>
     cfgOfficeUpstream (ttCfg T) \<noteq> [] \<and> cfgOfficeSecret (ttCfg T) \<noteq> [] \<and> length (cfgOfficeSecret (ttCfg T)) \<ge> 16 \<and>
     tlUpstreamOK (ttLib T) (cfgOfficeUpstream (ttCfg T))"

definition stripHeaders :: "headers \<Rightarrow> headers" where
  "stripHeaders h =
     AList.delete ''X-Forwarded-For'' (AList.delete ''Authorization''
       (filter (\<lambda>(k, _). \<not> hasPrefix (map toLowerAscii k) ''x-office-'') h))"

definition setHeader :: "string \<Rightarrow> string \<Rightarrow> headers \<Rightarrow> headers" where
  "setHeader k v h = AList.update k [v] h"

definition vouch :: "ttd \<Rightarrow> Account \<Rightarrow> headers \<Rightarrow> headers" where
  "vouch T acc h =
     setHeader ''X-Office-Role'' (acRole acc)
      (setHeader ''X-Office-Name'' (if acDisplayName acc = [] then acFullName acc else acDisplayName acc)
       (setHeader ''X-Office-Email'' (acEmail acc)
        (setHeader ''X-Office-Account'' (acID acc)
         (setHeader ''X-Office-Secret'' (cfgOfficeSecret (ttCfg T)) (stripHeaders h)))))"

definition hOfficeProxy :: "ttd \<Rightarrow> Claims \<Rightarrow> headers \<Rightarrow> reply act" where
  "hOfficeProxy T c h =
     do { (acc, err) \<leftarrow> stAccount (ttStore T) (Sub c);
          ret (if err \<noteq> None \<or> acStatus acc \<noteq> AccountActive then writeErr 403 ''akun tidak aktif''
               else Forward (vouch T acc h) None) }"

definition publicForward :: "ttd \<Rightarrow> string \<Rightarrow> string \<Rightarrow> headers \<Rightarrow> reply act" where
  "publicForward T upstreamPrefix param h =
     ret (Forward (setHeader ''X-Office-Secret'' (cfgOfficeSecret (ttCfg T)) (stripHeaders h)) (Some (upstreamPrefix @ param)))"

definition hPublicServer :: "ttd \<Rightarrow> request_meta \<Rightarrow> reply act" where
  "hPublicServer T r =
     ret (Reply 200 (JObj [(''server_name'', JStr (cfgServerName (ttCfg T))), (''host'', JStr (rqHost r)), (''https'', JBool (secureRequest T r)),
       (''office_enabled'', JBool (cfgOfficeUpstream (ttCfg T) \<noteq> [] \<and> length (cfgOfficeSecret (ttCfg T)) \<ge> 16))]))"

definition officeSecret :: "ttd \<Rightarrow> string \<Rightarrow> reply act \<Rightarrow> reply act" where
  "officeSecret T given h = (if given \<noteq> cfgOfficeSecret (ttCfg T) then ret (writeErr 401 ''unauthorized'') else h)"

definition hOfficeSignature :: "ttd \<Rightarrow> string \<Rightarrow> reply act" where
  "hOfficeSignature T i =
     do { (sig, err) \<leftarrow> stSignature (ttStore T) i;
          ret (if err \<noteq> None then writeErr 404 ''no such signature''
               else Reply 200 (JObj [(''public_id'', JStr (sgPublicID sig)), (''account_id'', JStr (sgAccountID sig)),
                 (''original_sha512'', JStr (sgOriginalSHA512 sig)), (''signed_sha512'', JStr (sgSignedSHA512 sig)),
                 (''verification_status'', JStr (sgVerificationStatus sig)), (''verification_url'', JStr (verifyURL T (sgPublicID sig)))])) }"

definition hOfficeSignatureDocument :: "ttd \<Rightarrow> string \<Rightarrow> reply act" where
  "hOfficeSignatureDocument T i =
     do { (sig, err) \<leftarrow> stSignature (ttStore T) i;
          if err \<noteq> None then ret (writeErr 404 ''no such signature'')
          else do {
            (b, err) \<leftarrow> stGetObject (ttStore T) (sgStorageObjectKey sig);
            ret (if err \<noteq> None then writeErr 404 ''document not available'' else Bytes ''application/pdf'' b) } }"

section \<open>Routes\<close>

text \<open>
  A request after routing, with its path parameters and decoded body.  \<open>ip\<close> is the address the rate limiter keys on, \<open>hdr\<close> the
  \<^verbatim>\<open>Authorization\<close> header.
\<close>

datatype user_request =
    CreateDevice device_request
  | ListDevices
  | SubmitCSR string "bytes option"
  | DeviceCertificate string
  | ReportLost string
  | UploadCreate
  | UploadChunk string string "bytes \<times> bool"
  | UploadStatus string
  | Reserve "reserve_request option"
  | Stamp string stamp_request
  | SubmitDocument string string "bytes option"
  | GetSignature string
  | Download string
  | MySignatures
  | OfficeProxy headers

datatype admin_request =
    Capabilities
  | SecurityStatus
  | TOTPBegin
  | TOTPConfirm "string option"
  | TOTPDisable "string option"
  | ListAccounts
  | ApproveAccount string
  | DisableAccount string
  | EnableAccount string
  | UpdateAccount string "update_account_request option"
  | DeleteAccount string
  | ListAccountCertificates string
  | RenewCertificate string string
  | ListEnrollments
  | ExportEnrollment string
  | ApproveEnrollment string
  | IssueCertificate string "bytes option"
  | Revoke string string
  | ImportCRL "bytes option"
  | Audit
  | LabIssue string

datatype super_request =
    SAMe
  | SAChangePassword "change_password_request option"
  | ListAdmins
  | CreateAdmin "create_admin_request option"
  | UpdateAdmin string "update_admin_request option"
  | DeleteAdmin string
  | ResetAdminSecurity string

datatype public_request =
    Register "register_request option"
  | Login "login_request option"
  | LoginTOTP "totp_request option"
  | SALogin "sa_login_request option"
  | SASetupBegin "sa_setup_request option"
  | SASetupConfirm "totp_request option"
  | SAVerify "totp_request option"
  | PublicVerify verify_form
  | PublicRecord string
  | PublicDocument string
  | PublicServer request_meta
  | RootCert
  | Chain
  | CRL
  | PublicReceipt string headers
  | PublicDownload string headers

datatype request =
    Public string public_request
  | User string user_request
  | Admin string admin_request
  | Super string super_request
  | OfficeSignature string string
  | OfficeDocument string string

definition limit :: "ttd \<Rightarrow> string \<Rightarrow> string \<Rightarrow> reply act \<Rightarrow> reply act" where
  "limit T ls key h =
     do { ok \<leftarrow> draw (\<lambda>k. tlAllow (ttLib T) k ls key);
          if ok then h else ret (writeErr 429 ''rate limit exceeded, slow down'') }"

definition pem :: "bytes \<Rightarrow> reply" where
  "pem b = (if length b = 0 then writeErr 404 ''not configured'' else Bytes ''application/x-pem-file'' b)"

definition notFound :: reply where
  "notFound = Plain 404 ''404 page not found''"

definition whenOffice :: "ttd \<Rightarrow> reply act \<Rightarrow> reply act" where
  "whenOffice T h = (if officeOn T then h else ret notFound)"

fun serveUser :: "ttd \<Rightarrow> Claims \<Rightarrow> user_request \<Rightarrow> reply act" where
  "serveUser T c (CreateDevice d) = hCreateDevice T c d"
| "serveUser T c ListDevices = hListDevices T c"
| "serveUser T c (SubmitCSR i rd) = hSubmitCSR T c i rd"
| "serveUser T c (DeviceCertificate i) = hDeviceCertificate T c i"
| "serveUser T c (ReportLost i) = hReportLost T c i"
| "serveUser T c UploadCreate = hUploadCreate T c"
| "serveUser T c (UploadChunk i off chunk) = hUploadChunk T c i off chunk"
| "serveUser T c (UploadStatus i) = hUploadStatus T c i"
| "serveUser T c (Reserve b) = limit T ''reserve'' (Sub c) (hReserve T c b)"
| "serveUser T c (Stamp i r) = limit T ''submit'' (Sub c) (hStamp T c i r)"
| "serveUser T c (SubmitDocument i up rd) = limit T ''submit'' (Sub c) (hSubmitDocument T c i up rd)"
| "serveUser T c (GetSignature i) = hGetSignature T c i"
| "serveUser T c (Download i) = hDownload T c i"
| "serveUser T c MySignatures = hMySignatures T c"
| "serveUser T c (OfficeProxy h) = limit T ''office'' (Sub c) (hOfficeProxy T c h)"

fun serveAdmin :: "ttd \<Rightarrow> Claims \<Rightarrow> admin_request \<Rightarrow> reply act" where
  "serveAdmin T c Capabilities = hCapabilities T c"
| "serveAdmin T c SecurityStatus = hAdminSecurityStatus T c"
| "serveAdmin T c TOTPBegin = hAdminTOTPBegin T c"
| "serveAdmin T c (TOTPConfirm b) = hAdminTOTPConfirm T c b"
| "serveAdmin T c (TOTPDisable b) = hAdminTOTPDisable T c b"
| "serveAdmin T c ListAccounts = hListAccounts T"
| "serveAdmin T c (ApproveAccount i) = hApproveAccount T i"
| "serveAdmin T c (DisableAccount i) = hDisableAccount T i"
| "serveAdmin T c (EnableAccount i) = hEnableAccount T i"
| "serveAdmin T c (UpdateAccount i b) = hUpdateAccount T i b"
| "serveAdmin T c (DeleteAccount i) = hDeleteAccount T i"
| "serveAdmin T c (ListAccountCertificates i) = hListAccountCertificates T i"
| "serveAdmin T c (RenewCertificate i ci) = hRenewCertificate T i ci"
| "serveAdmin T c ListEnrollments = hListEnrollments T"
| "serveAdmin T c (ExportEnrollment i) = hExportEnrollment T i"
| "serveAdmin T c (ApproveEnrollment i) = hApproveEnrollment T i"
| "serveAdmin T c (IssueCertificate i rd) = hIssueCertificate T i rd"
| "serveAdmin T c (Revoke i reason) = hRevoke T i reason"
| "serveAdmin T c (ImportCRL rd) = hImportCRL T rd"
| "serveAdmin T c Audit = hAudit T"
| "serveAdmin T c (LabIssue i) = hLabIssue T i"

fun serveSuper :: "ttd \<Rightarrow> Claims \<Rightarrow> super_request \<Rightarrow> reply act" where
  "serveSuper T c SAMe = hSAMe T c"
| "serveSuper T c (SAChangePassword b) = hSAChangePassword T c b"
| "serveSuper T c ListAdmins = hListAdmins T c"
| "serveSuper T c (CreateAdmin b) = hCreateAdmin T c b"
| "serveSuper T c (UpdateAdmin i b) = hUpdateAdmin T c i b"
| "serveSuper T c (DeleteAdmin i) = hDeleteAdmin T c i"
| "serveSuper T c (ResetAdminSecurity i) = hResetAdminSecurity T c i"

fun servePublic :: "ttd \<Rightarrow> string \<Rightarrow> public_request \<Rightarrow> reply act" where
  "servePublic T ip (Register b) = limit T ''register'' ip (hRegister T b)"
| "servePublic T ip (Login b) = limit T ''login'' ip (hLogin T b)"
| "servePublic T ip (LoginTOTP b) = limit T ''login'' ip (hLoginTOTP T b)"
| "servePublic T ip (SALogin b) = limit T ''login'' ip (hSALogin T b)"
| "servePublic T ip (SASetupBegin b) = limit T ''login'' ip (hSASetupBegin T b)"
| "servePublic T ip (SASetupConfirm b) = limit T ''login'' ip (hSASetupConfirm T b)"
| "servePublic T ip (SAVerify b) = limit T ''login'' ip (hSAVerify T b)"
| "servePublic T ip (PublicVerify f) = limit T ''verify'' ip (hPublicVerify T f)"
| "servePublic T ip (PublicRecord i) = hPublicRecord T i"
| "servePublic T ip (PublicDocument i) = hPublicDocument T i"
| "servePublic T ip (PublicServer r) = hPublicServer T r"
| "servePublic T ip RootCert = ret (pem (cfgRootCAPEM (ttCfg T)))"
| "servePublic T ip Chain = ret (pem (cfgCAChainPEM (ttCfg T)))"
| "servePublic T ip CRL = do { s \<leftarrow> getS; ret (pem (svCRL s)) }"
| "servePublic T ip (PublicReceipt i h) = whenOffice T (limit T ''verify'' ip (publicForward T ''/public/receipts/'' i h))"
| "servePublic T ip (PublicDownload i h) = whenOffice T (limit T ''verify'' ip (publicForward T ''/public/dl/'' i h))"

text \<open>Routes that are not mounted answer 404 before any guard.\<close>

fun serve :: "ttd \<Rightarrow> request \<Rightarrow> reply act" where
  "serve T (Public ip r) = servePublic T ip r"
| "serve T (User hdr r) =
     (case r of
        OfficeProxy _ \<Rightarrow> whenOffice T (authed T RoleUser hdr (\<lambda>c. serveUser T c r))
      | _ \<Rightarrow> authed T RoleUser hdr (\<lambda>c. serveUser T c r))"
| "serve T (Admin hdr r) =
     (case r of
        LabIssue _ \<Rightarrow> if cfgLabIssuer (ttCfg T) \<noteq> None then authed T RoleAdmin hdr (\<lambda>c. serveAdmin T c r) else ret notFound
      | _ \<Rightarrow> authed T RoleAdmin hdr (\<lambda>c. serveAdmin T c r))"
| "serve T (Super hdr r) = superadmin T hdr (\<lambda>c. serveSuper T c r)"
| "serve T (OfficeSignature secret i) = whenOffice T (officeSecret T secret (hOfficeSignature T i))"
| "serve T (OfficeDocument secret i) = whenOffice T (officeSecret T secret (hOfficeSignatureDocument T i))"

section \<open>Reachable states\<close>

text \<open>
  The server starts on a state, answers requests, reaps stale uploads, and is started again on the tables it left (the
  in-memory store instead starts over from \<open>s0\<close>).
\<close>

inductive ttdReach :: "Store \<Rightarrow> tenv \<Rightarrow> tlib \<Rightarrow> Config \<Rightarrow> server \<Rightarrow> ttd \<Rightarrow> server \<Rightarrow> bool" for st E lib cfg s0 where
  ttd_start: "run_state (New st E lib cfg) s0 = (Inr T, s) \<Longrightarrow> ttdReach st E lib cfg s0 T s"
| ttd_restart: "ttdReach st E lib cfg s0 T s \<Longrightarrow> run_state (New st E lib cfg) s = (Inr T', s') \<Longrightarrow> ttdReach st E lib cfg s0 T' s'"
| ttd_serve: "ttdReach st E lib cfg s0 T s \<Longrightarrow> run_state (serve T r) s = (rep, s') \<Longrightarrow> ttdReach st E lib cfg s0 T s'"
| ttd_reap: "ttdReach st E lib cfg s0 T s \<Longrightarrow> run_state (reaper T) s = (u, s') \<Longrightarrow> ttdReach st E lib cfg s0 T s'"

definition emptyTables :: tables where
  "emptyTables = \<lparr>tbAccounts = [], tbDevices = [], tbEnrollments = [], tbCertificates = [], tbReservations = [], tbSignatures = [],
     tbAudit = [], tbObjects = [], tbSuper = []\<rparr>"

definition emptyServer :: server where
  "emptyServer = \<lparr>svTick = 0, svTables = emptyTables, svByEmail = [], svCRL = [], svUploads = [], svFiles = []\<rparr>"

end
