(* ===== verification/TTD_Interface.thy ===== *)
theory TTD_Interface
  imports TTD_Store
begin

text \<open>
  What the handlers of the TTD server may rely on, whichever store is behind them: the locale \<open>ttd_store\<close>.  Its
  parameters are the operations, an invariant of the state, and whether the store is reliable, that is, whether its
  reads and updates succeed whenever the row is there.  The invariant implies that the tables are well formed.
\<close>

section \<open>Well-formed tables\<close>

definition keyed :: "('a \<Rightarrow> string) \<Rightarrow> (string \<times> 'a) list \<Rightarrow> bool" where
  "keyed key m \<longleftrightarrow> distinct (map fst m) \<and> (\<forall>k x. map_of m k = Some x \<longrightarrow> key x = k)"

text \<open>
  Accounts: an e-mail address and the super-admin role belong to one account each, and roles are the three known ones.
\<close>

definition accounts_wf :: "(string \<rightharpoonup> Account) \<Rightarrow> bool" where
  "accounts_wf m \<longleftrightarrow>
     (\<forall>i j a b. m i = Some a \<longrightarrow> m j = Some b \<longrightarrow>
        acEmail a = acEmail b \<or> acRole a = RoleSuperAdmin \<and> acRole b = RoleSuperAdmin \<longrightarrow> i = j) \<and>
     (\<forall>i a. m i = Some a \<longrightarrow> acRole a \<in> {RoleUser, RoleAdmin, RoleSuperAdmin})"

definition tables_wf :: "tables \<Rightarrow> bool" where
  "tables_wf t \<longleftrightarrow>
     keyed acID (tbAccounts t) \<and> keyed dvID (tbDevices t) \<and> keyed enrID (tbEnrollments t) \<and>
     keyed ceID (tbCertificates t) \<and> keyed rsPublicID (tbReservations t) \<and> keyed sgPublicID (tbSignatures t) \<and>
     keyed ssAccountID (tbSuper t) \<and> distinct (map fst (tbObjects t)) \<and> accounts_wf (map_of (tbAccounts t)) \<and>
     (\<forall>i \<in> dom (map_of (tbReservations t)). CHR ''/'' \<notin> set i)"

definition superAdmins :: "tables \<Rightarrow> string set" where
  "superAdmins t = {i. \<exists>a. map_of (tbAccounts t) i = Some a \<and> acRole a = RoleSuperAdmin}"

lemma keyedD: "keyed key m \<Longrightarrow> map_of m k = Some x \<Longrightarrow> key x = k"
  by (simp add: keyed_def)

lemma keyed_update: "keyed key m \<Longrightarrow> key x = k \<Longrightarrow> keyed key (AList.update k x m)"
  by (simp add: keyed_def AList.distinct_update AList.update_Some_unfold)

lemma keyed_delete: "keyed key m \<Longrightarrow> keyed key (AList.delete k m)"
  by (simp add: keyed_def AList.distinct_delete AList.delete_conv')

lemma keyed_set: "keyed key m \<Longrightarrow> (k, x) \<in> set m \<longleftrightarrow> map_of m k = Some x"
  by (auto simp: keyed_def dest: map_of_SomeD)

text \<open>How the changes the stores make keep the tables well formed.\<close>

lemma wf_keyed:
  assumes "tables_wf t"
  shows "map_of (tbAccounts t) i = Some a \<Longrightarrow> acID a = i" "map_of (tbDevices t) i = Some d \<Longrightarrow> dvID d = i"
    "map_of (tbEnrollments t) i = Some e \<Longrightarrow> enrID e = i" "map_of (tbCertificates t) i = Some c \<Longrightarrow> ceID c = i"
    "map_of (tbReservations t) i = Some r \<Longrightarrow> rsPublicID r = i" "map_of (tbSignatures t) i = Some g \<Longrightarrow> sgPublicID g = i"
    "map_of (tbSuper t) i = Some x \<Longrightarrow> ssAccountID x = i"
  using assms unfolding tables_wf_def by (blast intro: keyedD)+

lemma accounts_wf_change:
  assumes "accounts_wf m" "m i = Some a" "acEmail b = acEmail a" "acRole b = acRole a"
  shows "accounts_wf (m(i \<mapsto> b))"
  using assms unfolding accounts_wf_def fun_upd_apply by (smt (verit, best) option.inject)

lemma accounts_wf_new:
  assumes "accounts_wf m" "m i = None" "acRole a \<in> {RoleUser, RoleAdmin, RoleSuperAdmin}"
    and "\<And>j b. m j = Some b \<Longrightarrow> acEmail b \<noteq> acEmail a \<and> \<not> (acRole a = RoleSuperAdmin \<and> acRole b = RoleSuperAdmin)"
  shows "accounts_wf (m(i \<mapsto> a))"
  using assms unfolding accounts_wf_def fun_upd_apply by (smt (verit, best) option.inject)

lemma accounts_wf_delete: "accounts_wf m \<Longrightarrow> accounts_wf (m(i := None))"
  unfolding accounts_wf_def fun_upd_apply by (smt (verit, best) option.simps(3))

lemma wf_accounts_update:
  "tables_wf t \<Longrightarrow> acID a = i \<Longrightarrow> accounts_wf ((map_of (tbAccounts t))(i \<mapsto> a)) \<Longrightarrow>
   tables_wf (tbAccounts_update (AList.update i a) t)"
  by (simp add: tables_wf_def keyed_update AList.update_conv')

lemma wf_accounts_change:
  assumes "tables_wf t" "map_of (tbAccounts t) i = Some a" "acID b = acID a" "acEmail b = acEmail a" "acRole b = acRole a"
  shows "tables_wf (tbAccounts_update (AList.update i b) t)"
proof (rule wf_accounts_update [OF assms(1)])
  show "acID b = i" using wf_keyed(1) [OF assms(1,2)] assms(3) by simp
  show "accounts_wf ((map_of (tbAccounts t))(i \<mapsto> b))"
    using assms by (intro accounts_wf_change) (simp_all add: tables_wf_def)
qed

lemma wf_accounts_delete: "tables_wf t \<Longrightarrow> tables_wf (tbAccounts_update (AList.delete i) t)"
  by (simp add: tables_wf_def keyed_delete AList.delete_conv' accounts_wf_delete)

lemma wf_others:
  assumes "tables_wf t"
  shows "dvID d = k \<Longrightarrow> tables_wf (tbDevices_update (AList.update k d) t)"
    and "enrID e = k \<Longrightarrow> tables_wf (tbEnrollments_update (AList.update k e) t)"
    and "ceID c = k \<Longrightarrow> tables_wf (tbCertificates_update (AList.update k c) t)"
    and "rsPublicID r = k \<Longrightarrow> CHR ''/'' \<notin> set k \<Longrightarrow> tables_wf (tbReservations_update (AList.update k r) t)"
    and "sgPublicID g = k \<Longrightarrow> tables_wf (tbSignatures_update (AList.update k g) t)"
    and "ssAccountID x = k \<Longrightarrow> tables_wf (tbSuper_update (AList.update k x) t)"
    and "tables_wf (tbSuper_update (AList.delete k) t)"
    and "tables_wf (tbObjects_update (AList.update k b) t)"
    and "tables_wf (tbAudit_update f t)"
  using assms by (simp_all add: tables_wf_def keyed_update keyed_delete AList.distinct_update AList.update_conv')

lemma wf_reservation_id: "tables_wf t \<Longrightarrow> map_of (tbReservations t) i = Some r \<Longrightarrow> CHR ''/'' \<notin> set i"
  unfolding tables_wf_def by blast

section \<open>What an operation does\<close>

text \<open>The parts of the state a store leaves alone.\<close>

definition frame :: "server \<Rightarrow> server \<Rightarrow> bool" where
  "frame s s' \<longleftrightarrow> svCRL s' = svCRL s \<and> svUploads s' = svUploads s \<and> svFiles s' = svFiles s \<and> svTick s \<le> svTick s'"

definition readOK :: "(server \<Rightarrow> bool) \<Rightarrow> server \<Rightarrow> ('a \<Rightarrow> tables \<Rightarrow> bool) \<Rightarrow> 'a \<Rightarrow> server \<Rightarrow> bool" where
  "readOK invar s P x s' \<longleftrightarrow> invar s' \<and> frame s s' \<and> svTables s' = svTables s \<and> P x (svTables s)"

definition found :: "bool \<Rightarrow> 'a option \<Rightarrow> 'a \<times> err \<Rightarrow> bool" where
  "found reliable r xe \<longleftrightarrow> (if snd xe = None then r = Some (fst xe) else reliable \<longrightarrow> r = None)"

text \<open>A change to the row of a key, or an error and no change.\<close>

definition changeOK ::
  "(server \<Rightarrow> bool) \<Rightarrow> bool \<Rightarrow> (tables \<Rightarrow> (string \<times> 'a) list) \<Rightarrow>
   (((string \<times> 'a) list \<Rightarrow> (string \<times> 'a) list) \<Rightarrow> tables \<Rightarrow> tables) \<Rightarrow> string \<Rightarrow> ('a \<Rightarrow> 'a \<Rightarrow> bool) \<Rightarrow>
   server \<Rightarrow> err \<Rightarrow> server \<Rightarrow> bool" where
  "changeOK invar reliable tb upd i R s e s' \<longleftrightarrow>
     invar s' \<and> frame s s' \<and>
     (if e = None then
        \<exists>a b. map_of (tb (svTables s)) i = Some a \<and> R a b \<and> svTables s' = upd (AList.update i b) (svTables s)
      else svTables s' = svTables s \<and> (reliable \<longrightarrow> map_of (tb (svTables s)) i = None))"

text \<open>A new row under a fresh key, or an error and no change.\<close>

definition createOK ::
  "(server \<Rightarrow> bool) \<Rightarrow> (tables \<Rightarrow> (string \<times> 'a) list) \<Rightarrow>
   (((string \<times> 'a) list \<Rightarrow> (string \<times> 'a) list) \<Rightarrow> tables \<Rightarrow> tables) \<Rightarrow> ('a \<Rightarrow> string) \<Rightarrow> ('a \<Rightarrow> bool) \<Rightarrow>
   server \<Rightarrow> 'a \<times> err \<Rightarrow> server \<Rightarrow> bool" where
  "createOK invar tb upd key P s xe s' \<longleftrightarrow>
     invar s' \<and> frame s s' \<and>
     (if snd xe = None then
        map_of (tb (svTables s)) (key (fst xe)) = None \<and> P (fst xe) \<and>
        svTables s' = upd (AList.update (key (fst xe)) (fst xe)) (svTables s)
      else svTables s' = svTables s)"

text \<open>A write that is done or, on an error, is not.\<close>

definition writeOK :: "(server \<Rightarrow> bool) \<Rightarrow> (tables \<Rightarrow> tables) \<Rightarrow> server \<Rightarrow> err \<Rightarrow> server \<Rightarrow> bool" where
  "writeOK invar f s e s' \<longleftrightarrow> invar s' \<and> frame s s' \<and> svTables s' = (if e = None then f (svTables s) else svTables s)"

text \<open>Deleting an account may take its security row along, even when it fails.\<close>

definition deletedAccount :: "string \<Rightarrow> tables \<Rightarrow> err \<Rightarrow> tables \<Rightarrow> bool" where
  "deletedAccount i t e t' \<longleftrightarrow>
     (\<exists>u. t' = t\<lparr>tbAccounts := (if e = None then AList.delete i (tbAccounts t) else tbAccounts t), tbSuper := u\<rparr> \<and>
        (u = tbSuper t \<or> u = AList.delete i (tbSuper t)))"

lemma deletedAccount_cases:
  "deletedAccount i t (Some x) t" "deletedAccount i t (Some x) (tbSuper_update (AList.delete i) t)"
  "deletedAccount i t None (tbAccounts_update (AList.delete i) (tbSuper_update (AList.delete i) t))"
  "deletedAccount i t None (tbAccounts_update (AList.delete i) t)"
proof -
  show "deletedAccount i t (Some x) t" unfolding deletedAccount_def by (rule exI [of _ "tbSuper t"]) simp
  show "deletedAccount i t (Some x) (tbSuper_update (AList.delete i) t)"
    unfolding deletedAccount_def by (rule exI [of _ "AList.delete i (tbSuper t)"]) (cases t, simp)
  show "deletedAccount i t None (tbAccounts_update (AList.delete i) (tbSuper_update (AList.delete i) t))"
    unfolding deletedAccount_def by (rule exI [of _ "AList.delete i (tbSuper t)"]) (cases t, simp)
  show "deletedAccount i t None (tbAccounts_update (AList.delete i) t)"
    unfolding deletedAccount_def by (rule exI [of _ "tbSuper t"]) (cases t, simp)
qed

text \<open>Arguments of the create operations: no id yet, and no second super admin.\<close>

definition newAccount :: "Account \<Rightarrow> tables \<Rightarrow> bool" where
  "newAccount a t \<longleftrightarrow> acID a = [] \<and> acStatus a \<noteq> [] \<and> acRole a \<in> {RoleUser, RoleAdmin, RoleSuperAdmin} \<and>
     (acRole a = RoleSuperAdmin \<longrightarrow> superAdmins t = {})"

section \<open>The interface\<close>

locale ttd_store =
  fixes S :: Store and invar :: "server \<Rightarrow> bool" and reliable :: bool
  assumes inv_wf: "invar s \<Longrightarrow> tables_wf (svTables s)"
    and inv_frame: "invar s \<Longrightarrow> svTables s' = svTables s \<Longrightarrow> svByEmail s' = svByEmail s \<Longrightarrow> svTick s \<le> svTick s' \<Longrightarrow> invar s'"
    and create_account: "invar s \<Longrightarrow> newAccount a (svTables s) \<Longrightarrow>
      wp (stCreateAccount S a)
        (createOK invar tbAccounts tbAccounts_update acID
          (\<lambda>x. x = a\<lparr>acID := acID x, acCreatedAt := acCreatedAt x\<rparr>) s) s"
    and account_by_email: "invar s \<Longrightarrow>
      wp (stAccountByEmail S email)
        (readOK invar s (\<lambda>xe t. if snd xe = None then map_of (tbAccounts t) (acID (fst xe)) = Some (fst xe) \<and> acEmail (fst xe) = email
          else reliable \<longrightarrow> (\<forall>i a. map_of (tbAccounts t) i = Some a \<longrightarrow> acEmail a \<noteq> email))) s"
    and account: "invar s \<Longrightarrow> wp (stAccount S i) (readOK invar s (\<lambda>xe t. found reliable (map_of (tbAccounts t) i) xe)) s"
    and list_accounts: "invar s \<Longrightarrow>
      wp (stListAccounts S) (readOK invar s (\<lambda>xs t. reliable \<longrightarrow> set xs = snd ` set (tbAccounts t))) s"
    and set_account_status: "invar s \<Longrightarrow>
      wp (stSetAccountStatus S i st)
        (changeOK invar reliable tbAccounts tbAccounts_update i (\<lambda>a b. b = a\<lparr>acStatus := st\<rparr>) s) s"
    and update_account_profile: "invar s \<Longrightarrow>
      wp (stUpdateAccountProfile S i fn org)
        (changeOK invar reliable tbAccounts tbAccounts_update i (\<lambda>a b. b = a\<lparr>acFullName := fn, acOrganization := org\<rparr>) s) s"
    and set_account_password: "invar s \<Longrightarrow>
      wp (stSetAccountPassword S i h)
        (changeOK invar reliable tbAccounts tbAccounts_update i (\<lambda>a b. b = a\<lparr>acPasswordHash := h\<rparr>) s) s"
    and delete_account: "invar s \<Longrightarrow>
      wp (stDeleteAccount S i)
        (\<lambda>e s'. invar s' \<and> frame s s' \<and> deletedAccount i (svTables s) e (svTables s')) s"
    and super_security: "invar s \<Longrightarrow>
      wp (stSuperSecurity S i) (readOK invar s (\<lambda>xe t. found reliable (map_of (tbSuper t) i) xe \<and>
        (snd xe \<noteq> None \<longrightarrow> fst xe = zeroSecurity))) s"
    and put_super_security: "invar s \<Longrightarrow>
      wp (stPutSuperSecurity S x) (writeOK invar (tbSuper_update (AList.update (ssAccountID x) x)) s) s"
    and create_device: "invar s \<Longrightarrow> dvID d = [] \<Longrightarrow> dvStatus d = [] \<Longrightarrow>
      wp (stCreateDevice S d)
        (createOK invar tbDevices tbDevices_update dvID
          (\<lambda>x. x = d\<lparr>dvID := dvID x, dvStatus := DeviceActive, dvCreatedAt := dvCreatedAt x\<rparr>) s) s"
    and device: "invar s \<Longrightarrow> wp (stDevice S i) (readOK invar s (\<lambda>xe t. found reliable (map_of (tbDevices t) i) xe)) s"
    and set_device_status: "invar s \<Longrightarrow>
      wp (stSetDeviceStatus S i st)
        (changeOK invar reliable tbDevices tbDevices_update i (\<lambda>a b. b = a\<lparr>dvStatus := st\<rparr>) s) s"
    and devices_by_account: "invar s \<Longrightarrow>
      wp (stDevicesByAccount S i)
        (readOK invar s (\<lambda>xs t. (\<forall>d \<in> set xs. dvAccountID d = i \<and> map_of (tbDevices t) (dvID d) = Some d) \<and>
          (reliable \<longrightarrow> (\<forall>k d. map_of (tbDevices t) k = Some d \<longrightarrow> dvAccountID d = i \<longrightarrow> d \<in> set xs)))) s"
    and create_enrollment: "invar s \<Longrightarrow> enrID e = [] \<Longrightarrow>
      wp (stCreateEnrollment S e)
        (createOK invar tbEnrollments tbEnrollments_update enrID
          (\<lambda>x. x = e\<lparr>enrID := enrID x, enrStatus := enrStatus x, enrCreatedAt := enrCreatedAt x\<rparr>) s) s"
    and enrollment: "invar s \<Longrightarrow> wp (stEnrollment S i) (readOK invar s (\<lambda>xe t. found reliable (map_of (tbEnrollments t) i) xe)) s"
    and list_enrollments: "invar s \<Longrightarrow> wp (stListEnrollments S) (readOK invar s (\<lambda>xs t. True)) s"
    and set_enrollment_status: "invar s \<Longrightarrow>
      wp (stSetEnrollmentStatus S i st)
        (changeOK invar reliable tbEnrollments tbEnrollments_update i (\<lambda>a b. b = a\<lparr>enrStatus := st\<rparr>) s) s"
    and create_certificate: "invar s \<Longrightarrow> ceID c = [] \<Longrightarrow> ceStatus c = CertActive \<Longrightarrow> ceRevokedAt c = zeroTime \<Longrightarrow> ceRevReason c = [] \<Longrightarrow>
      wp (stCreateCertificate S c)
        (createOK invar tbCertificates tbCertificates_update ceID (\<lambda>x. x = c\<lparr>ceID := ceID x\<rparr>) s) s"
    and certificate: "invar s \<Longrightarrow>
      wp (stCertificate S i) (readOK invar s (\<lambda>xe t. found reliable (map_of (tbCertificates t) i) xe)) s"
    and certificate_by_device: "invar s \<Longrightarrow>
      wp (stCertificateByDevice S dev)
        (readOK invar s (\<lambda>xe t. if snd xe = None then map_of (tbCertificates t) (ceID (fst xe)) = Some (fst xe) \<and> ceDeviceID (fst xe) = dev
          else reliable \<longrightarrow> (\<forall>k c. map_of (tbCertificates t) k = Some c \<longrightarrow> ceDeviceID c \<noteq> dev))) s"
    and certificate_by_serial: "invar s \<Longrightarrow>
      wp (stCertificateBySerial S serial)
        (readOK invar s (\<lambda>xe t. if snd xe = None then map_of (tbCertificates t) (ceID (fst xe)) = Some (fst xe) \<and> ceSerial (fst xe) = serial
          else reliable \<longrightarrow> (\<forall>k c. map_of (tbCertificates t) k = Some c \<longrightarrow> ceSerial c \<noteq> serial))) s"
    and certificates_by_account: "invar s \<Longrightarrow>
      wp (stCertificatesByAccount S i)
        (readOK invar s (\<lambda>xs t. (\<forall>c \<in> set xs. ceAccountID c = i \<and> map_of (tbCertificates t) (ceID c) = Some c) \<and>
          (reliable \<longrightarrow> (\<forall>k c. map_of (tbCertificates t) k = Some c \<longrightarrow> ceAccountID c = i \<longrightarrow> c \<in> set xs)))) s"
    and revoke_certificate: "invar s \<Longrightarrow>
      wp (stRevokeCertificate S i reason)
        (changeOK invar reliable tbCertificates tbCertificates_update i
          (\<lambda>a b. b = a\<lparr>ceStatus := CertRevoked, ceRevokedAt := ceRevokedAt b, ceRevReason := reason\<rparr>) s) s"
    and create_reservation: "invar s \<Longrightarrow> rsPublicID r = [] \<Longrightarrow> rsStatus r = [] \<Longrightarrow>
      wp (stCreateReservation S r)
        (createOK invar tbReservations tbReservations_update rsPublicID
          (\<lambda>x. x = r\<lparr>rsPublicID := rsPublicID x, rsStatus := ReservationReserved, rsCreatedAt := rsCreatedAt x\<rparr>) s) s"
    and reservation: "invar s \<Longrightarrow>
      wp (stReservation S i) (readOK invar s (\<lambda>xe t. found reliable (map_of (tbReservations t) i) xe)) s"
    and set_reservation_status: "invar s \<Longrightarrow>
      wp (stSetReservationStatus S i st)
        (changeOK invar reliable tbReservations tbReservations_update i (\<lambda>a b. b = a\<lparr>rsStatus := st\<rparr>) s) s"
    and create_signature: "invar s \<Longrightarrow>
      wp (stCreateSignature S g)
        (createOK invar tbSignatures tbSignatures_update sgPublicID (\<lambda>x. x = g\<lparr>sgCreatedAt := sgCreatedAt x\<rparr>) s) s"
    and signature: "invar s \<Longrightarrow>
      wp (stSignature S i) (readOK invar s (\<lambda>xe t. found reliable (map_of (tbSignatures t) i) xe)) s"
    and signatures_by_account: "invar s \<Longrightarrow> wp (stSignaturesByAccount S i) (readOK invar s (\<lambda>xs t. True)) s"
    and put_object: "invar s \<Longrightarrow> wp (stPutObject S k b) (writeOK invar (tbObjects_update (AList.update k b)) s) s"
    and get_object: "invar s \<Longrightarrow> wp (stGetObject S k) (readOK invar s (\<lambda>xe t. found reliable (map_of (tbObjects t) k) xe)) s"
    and put_object_from: "invar s \<Longrightarrow>
      wp (stPutObjectFrom S k rd sz)
        (\<lambda>e s'. writeOK invar (tbObjects_update (AList.update k (the rd))) s e s' \<and> (e = None \<longrightarrow> rd \<noteq> None)) s"
    and append: "invar s \<Longrightarrow>
      wp (stAppend S ev) (\<lambda>_ s'. invar s' \<and> frame s s' \<and> (\<exists>l. svTables s' = svTables s\<lparr>tbAudit := l\<rparr>)) s"
    and audit_events: "invar s \<Longrightarrow> wp (stAuditEvents S lim) (readOK invar s (\<lambda>xs t. True)) s"

end
