(* ===== verification/TTD_Invariant.thy ===== *)
theory TTD_Invariant
  imports TTD_Routes TTD_Interface
begin

text \<open>
  What every request of the TTD server keeps, whichever store is behind it.  \<open>runs\<close> says that a computation keeps an
  invariant of the state and relates the tables before and after; the locale \<open>table_relation\<close> lists the changes a relation has to
  allow, and proves in it once that the handlers stay within the relation.  Its extension \<open>security_relation\<close> adds the handlers that write the
  security rows or delete accounts.
\<close>

section \<open>Computations within a relation\<close>

named_theorems runs_intros \<open>computations that stay within a relation\<close>

definition runs :: "(server \<Rightarrow> bool) \<Rightarrow> (tables \<Rightarrow> tables \<Rightarrow> bool) \<Rightarrow> 'a act \<Rightarrow> bool" where
  "runs I R m \<longleftrightarrow> (\<forall>s. I s \<longrightarrow> wp m (\<lambda>_ s'. I s' \<and> R (svTables s) (svTables s')) s)"

lemma runsD: "runs I R m \<Longrightarrow> I s \<Longrightarrow> wp m (\<lambda>_ s'. I s' \<and> R (svTables s) (svTables s')) s"
  by (simp add: runs_def)

lemma runs_run: "runs I R m \<Longrightarrow> I s \<Longrightarrow> run_state m s = (x, s') \<Longrightarrow> I s' \<and> R (svTables s) (svTables s')"
  using wp_run [OF runsD] by fast

lemma runs_mono: "runs I R m \<Longrightarrow> (\<And>t t'. R t t' \<Longrightarrow> R' t t') \<Longrightarrow> runs I R' m"
  unfolding runs_def by (blast intro: wp_mono)

lemma runs_if [runs_intros]: "runs I R m \<Longrightarrow> runs I R n \<Longrightarrow> runs I R (if b then m else n)"
  by simp

lemma runs_option [runs_intros]:
  "runs I R m \<Longrightarrow> (\<And>y. runs I R (f y)) \<Longrightarrow> runs I R (case x of None \<Rightarrow> m | Some y \<Rightarrow> f y)"
  by (simp split: option.splits)

lemma runs_prod [runs_intros]: "(\<And>a b. runs I R (f a b)) \<Longrightarrow> runs I R (case p of (a, b) \<Rightarrow> f a b)"
  by (simp split: prod.splits)

lemma runs_sum [runs_intros]:
  "(\<And>a. runs I R (f a)) \<Longrightarrow> (\<And>b. runs I R (g b)) \<Longrightarrow> runs I R (case x of Inl a \<Rightarrow> f a | Inr b \<Rightarrow> g b)"
  by (simp split: sum.splits)

lemma runs_list [runs_intros]:
  "runs I R m \<Longrightarrow> (\<And>y ys. runs I R (f y ys)) \<Longrightarrow> runs I R (case xs of [] \<Rightarrow> m | y # ys \<Rightarrow> f y ys)"
  by (simp split: list.splits)

lemma runs_let [runs_intros]: "(\<And>x. runs I R (f x)) \<Longrightarrow> runs I R (let x = a in f x)"
  by simp

section \<open>Relations on tables\<close>

locale table_relation = ttd_store +
  fixes R :: "tables \<Rightarrow> tables \<Rightarrow> bool"
  assumes rel_refl: "R t t"
    and rel_trans: "R t t' \<Longrightarrow> R t' t'' \<Longrightarrow> R t t''"
    and rel_audit: "R t (t\<lparr>tbAudit := l\<rparr>)"
    and rel_account: "map_of (tbAccounts t) i = Some a \<Longrightarrow> acRole b = acRole a \<Longrightarrow> R t (tbAccounts_update (AList.update i b) t)"
    and rel_new_account: "map_of (tbAccounts t) i = None \<Longrightarrow> R t (tbAccounts_update (AList.update i a) t)"
    and rel_device: "R t (tbDevices_update f t)"
    and rel_enrollment: "R t (tbEnrollments_update g t)"
    and rel_revoke: "map_of (tbCertificates t) i = Some c \<Longrightarrow>
      R t (tbCertificates_update (AList.update i (c\<lparr>ceStatus := CertRevoked, ceRevokedAt := ra, ceRevReason := rr\<rparr>)) t)"
    and rel_new_certificate: "map_of (tbCertificates t) i = None \<Longrightarrow> R t (tbCertificates_update (AList.update i c) t)"
    and rel_new_reservation: "map_of (tbReservations t) i = None \<Longrightarrow> R t (tbReservations_update (AList.update i r) t)"
begin

abbreviation keeps :: "'a act \<Rightarrow> bool" where
  "keeps \<equiv> runs invar R"

lemma keeps_ret [runs_intros]: "keeps (ret x)"
  by (simp add: runs_def wp_simps rel_refl)

lemma keeps_bind [runs_intros]: "keeps m \<Longrightarrow> (\<And>x. keeps (f x)) \<Longrightarrow> keeps (State_Monad.bind m f)"
  unfolding runs_def wp_bind by (blast intro: wp_mono rel_trans)

lemma keeps_get [runs_intros]: "keeps getS"
  by (simp add: runs_def wp_simps rel_refl)

lemma keeps_draw [runs_intros]: "keeps (draw f)"
  by (auto simp: runs_def wp_simps rel_refl intro: inv_frame)

lemma keeps_now [runs_intros]: "keeps (now E)"
  by (simp add: now_def runs_intros)

lemma keeps_randRead [runs_intros]: "keeps (randRead E n)"
  by (simp add: randRead_def runs_intros)

lemma keeps_modify:
  "(\<And>s. svTables (f s) = svTables s \<and> svByEmail (f s) = svByEmail s \<and> svTick (f s) = svTick s) \<Longrightarrow> keeps (modify f)"
  by (auto simp: runs_def wp_simps rel_refl intro: inv_frame)

lemma keeps_mapA [runs_intros]: "(\<And>x. keeps (f x)) \<Longrightarrow> keeps (mapA f xs)"
  by (induction xs) (simp_all add: runs_intros)

text \<open>The three shapes of the store's promises.\<close>

lemma keeps_read: "(\<And>s. invar s \<Longrightarrow> wp m (readOK invar s P) s) \<Longrightarrow> keeps m"
  unfolding runs_def by (fastforce simp: readOK_def intro: wp_mono rel_refl)

lemma keeps_change:
  assumes "\<And>s. invar s \<Longrightarrow> wp m (changeOK invar reliable tb upd i Q s) s"
    and "\<And>t a b. map_of (tb t) i = Some a \<Longrightarrow> Q a b \<Longrightarrow> R t (upd (AList.update i b) t)"
  shows "keeps m"
  unfolding runs_def
proof (intro allI impI)
  fix s assume "invar s"
  then show "wp m (\<lambda>_ s'. invar s' \<and> R (svTables s) (svTables s')) s"
    using assms(2) [of "svTables s"] by (intro wp_mono [OF assms(1)]) (auto simp: changeOK_def rel_refl split: if_splits)
qed

lemma keeps_create:
  assumes "\<And>s. invar s \<Longrightarrow> wp m (createOK invar tb upd key P s) s"
    and "\<And>t i a. map_of (tb t) i = None \<Longrightarrow> R t (upd (AList.update i a) t)"
  shows "keeps m"
  unfolding runs_def
proof (intro allI impI)
  fix s assume "invar s"
  then show "wp m (\<lambda>_ s'. invar s' \<and> R (svTables s) (svTables s')) s"
    using assms(2) [of "svTables s"] by (intro wp_mono [OF assms(1)]) (auto simp: createOK_def rel_refl split: if_splits)
qed

lemma keeps_append [runs_intros]: "keeps (stAppend S ev)"
  unfolding runs_def by (rule allI, rule impI, rule wp_mono [OF append], assumption) (auto intro: rel_audit)

lemma keeps_reads [runs_intros]:
  "keeps (stAccountByEmail S i)" "keeps (stAccount S i)" "keeps (stListAccounts S)" "keeps (stSuperSecurity S i)" "keeps (stDevice S i)"
  "keeps (stDevicesByAccount S i)" "keeps (stEnrollment S i)" "keeps (stListEnrollments S)" "keeps (stCertificate S i)"
  "keeps (stCertificateByDevice S i)" "keeps (stCertificateBySerial S i)" "keeps (stCertificatesByAccount S i)" "keeps (stReservation S i)"
  "keeps (stSignature S i)" "keeps (stSignaturesByAccount S i)" "keeps (stGetObject S i)" "keeps (stAuditEvents S lim)"
  by (rule keeps_read, erule account_by_email account list_accounts super_security device devices_by_account enrollment list_enrollments
        certificate certificate_by_device certificate_by_serial certificates_by_account reservation signature signatures_by_account
        get_object audit_events)+

lemma keeps_account_changes [runs_intros]:
  "keeps (stSetAccountStatus S i st)" "keeps (stUpdateAccountProfile S i fn org)" "keeps (stSetAccountPassword S i h)"
  by (rule keeps_change [OF set_account_status], assumption, erule rel_account, simp,
      rule keeps_change [OF update_account_profile], assumption, erule rel_account, simp,
      rule keeps_change [OF set_account_password], assumption, erule rel_account, simp)

lemma keeps_creates [runs_intros]:
  "newAccount a emptyTables \<Longrightarrow> acRole a \<noteq> RoleSuperAdmin \<Longrightarrow> keeps (stCreateAccount S a)"
  "dvID d = [] \<Longrightarrow> dvStatus d = [] \<Longrightarrow> keeps (stCreateDevice S d)"
  "enrID e = [] \<Longrightarrow> keeps (stCreateEnrollment S e)"
  "ceID c = [] \<Longrightarrow> ceStatus c = CertActive \<Longrightarrow> ceRevokedAt c = zeroTime \<Longrightarrow> ceRevReason c = [] \<Longrightarrow> keeps (stCreateCertificate S c)"
  "rsPublicID r = [] \<Longrightarrow> rsStatus r = [] \<Longrightarrow> keeps (stCreateReservation S r)"
  by (rule keeps_create [OF create_account], assumption, simp add: newAccount_def, erule rel_new_account)
    (rule keeps_create [OF create_device] keeps_create [OF create_enrollment] keeps_create [OF create_certificate]
       keeps_create [OF create_reservation]; (assumption | rule rel_device rel_enrollment | erule rel_new_certificate rel_new_reservation))+

lemma keeps_updates [runs_intros]:
  "keeps (stSetDeviceStatus S i st)" "keeps (stSetEnrollmentStatus S i st)" "keeps (stRevokeCertificate S i reason)"
proof -
  show "keeps (stSetDeviceStatus S i st)"
    by (rule keeps_change [OF set_device_status], assumption, rule rel_device)
  show "keeps (stSetEnrollmentStatus S i st)"
    by (rule keeps_change [OF set_enrollment_status], assumption, rule rel_enrollment)
  show "keeps (stRevokeCertificate S i reason)"
    by (rule keeps_change [OF revoke_certificate], assumption) (metis rel_revoke)
qed

section \<open>Handlers\<close>

lemma keeps_audit [runs_intros]: "ttStore T = S \<Longrightarrow> keeps (audit T t c d r x)"
  by (simp add: audit_def runs_intros)

lemma keeps_tokens [runs_intros]: "keeps (issue T sg sub role)" "keeps (parseToken T sg token)" "keeps (hashPassword T pw)"
    "keeps (randToken T n)" "keeps (sealWith T key aad secret)" "keeps (sealTOTP T sec)" "keeps (sealAdminTOTP T sec)" "keeps (newSecret T)"
    "keeps (sessionReply T sg sub role)" "keeps (saLocked T x)"
  unfolding issue_def parseToken_def hashPassword_def randToken_def sealTOTP_def sealAdminTOTP_def sealWith_def newSecret_def
    sessionReply_def saLocked_def by (intro runs_intros)+

lemma keeps_authed [runs_intros]: "(\<And>c. keeps (h c)) \<Longrightarrow> keeps (authed T role hdr h)"
  unfolding authed_def by (intro runs_intros)

lemma keeps_loadSA [runs_intros]: "ttStore T = S \<Longrightarrow> keeps (loadSA T i)"
  unfolding loadSA_def by (simp only:) (intro runs_intros)

lemma keeps_superadmin [runs_intros]: "ttStore T = S \<Longrightarrow> (\<And>c. keeps (h c)) \<Longrightarrow> keeps (superadmin T hdr h)"
  unfolding superadmin_def by (intro runs_intros)

lemma keeps_register [runs_intros]: "ttStore T = S \<Longrightarrow> keeps (hRegister T body)"
  unfolding hRegister_def
  by (simp only:) (intro runs_intros; simp add: newAccount_def zeroAccount_def role_defs status_defs)

lemma keeps_ca [runs_intros]: "keeps (run T li args)" "keeps (revokeViaCA T sr rs)" "keeps (publishCRLViaCA T)"
  unfolding run_def revokeViaCA_def publishCRLViaCA_def by (intro runs_intros)+

lemma keeps_issuance [runs_intros]:
  assumes [simp]: "ttStore T = S"
  shows "keeps (issueViaCA T e)" "keeps (bindIssuedCert T e leaf)"
  unfolding issueViaCA_def bindIssuedCert_def assms by (intro runs_intros; simp add: zeroCertificate_def)+

lemma keeps_autoIssue [runs_intros]: "ttStore T = S \<Longrightarrow> keeps (tryAutoIssue T c d e)"
  unfolding tryAutoIssue_def by (simp only:) (intro runs_intros, simp_all)

lemma keeps_certificates [runs_intros]:
  assumes [simp]: "ttStore T = S"
  shows "keeps (hLabIssue T i)" "keeps (hIssueCertificate T i rd)" "keeps (hCreateDevice T c dq)" "keeps (hListDevices T c)"
    "keeps (hSubmitCSR T c i rd)" "keeps (hDeviceCertificate T c i)" "keeps (hReportLost T c i)" "keeps (hListEnrollments T)"
    "keeps (hExportEnrollment T i)" "keeps (hApproveEnrollment T i)" "keeps (hRevoke T i reason)" "keeps (hImportCRL T rd)" "keeps (hAudit T)"
  unfolding hLabIssue_def hIssueCertificate_def hCreateDevice_def hListDevices_def deviceRow_def hSubmitCSR_def hDeviceCertificate_def
    hReportLost_def hListEnrollments_def hExportEnrollment_def hApproveEnrollment_def hRevoke_def hImportCRL_def hAudit_def deviceOwnedBy_def assms
  by (intro runs_intros keeps_modify; simp add: zeroDevice_def zeroEnrollment_def)+

lemma keeps_onClient [runs_intros]: "ttStore T = S \<Longrightarrow> (\<And>a. keeps (f a)) \<Longrightarrow> keeps (onClient T i f)"
  unfolding onClient_def clientTarget_def by (simp only:) (intro runs_intros)

lemma keeps_views [runs_intros]:
  assumes [simp]: "ttStore T = S"
  shows "keeps (accountView T a)" "keeps (replyView T n a)" "keeps (reloadView T a)" "keeps (certView T ce)"
  unfolding reloadView_def replyView_def accountView_def certView_def assms by (intro runs_intros)+

lemma keeps_cascade [runs_intros]:
  assumes [simp]: "ttStore T = S"
  shows "keeps (disableCascade T i reason)"
  unfolding disableCascade_def swapCRL_def cascadeOne_def loseDevice_def assms by (intro runs_intros keeps_modify) simp_all

lemma keeps_accounts [runs_intros]:
  assumes [simp]: "ttStore T = S"
  shows "keeps (hCreateAdmin T c cb)" "keeps (hListAdmins T c)" "keeps (hUpdateAdmin T c i ub)" "keeps (hListAccounts T)"
    "keeps (hApproveAccount T i)" "keeps (hEnableAccount T i)" "keeps (hUpdateAccount T i pb)" "keeps (hDisableAccount T i)"
    "keeps (hListAccountCertificates T i)" "keeps (hRenewCertificate T i ci)"
  unfolding hCreateAdmin_def hListAdmins_def adminRow_def hUpdateAdmin_def updateAdminPassword_def updateAdminStatus_def hListAccounts_def
    hApproveAccount_def hEnableAccount_def hUpdateAccount_def hDisableAccount_def hListAccountCertificates_def hRenewCertificate_def assms
  by (intro runs_intros; simp add: newAccount_def zeroAccount_def zeroEnrollment_def role_defs status_defs)+

lemma keeps_uploads [runs_intros]: "keeps (hUploadCreate T c)" "keeps (hUploadChunk T c i off chunk)" "keeps (hUploadStatus T c i)"
    "keeps (discardOpt u)" "keeps (signedInput T up acct rd)" "keeps (readSource T b u)" "keeps (reaper T)"
proof -
  have d [runs_intros]: "keeps (discard u)" for u unfolding discard_def by (rule keeps_modify) simp
  have g [runs_intros]: "keeps (getUpload i a)" for i a unfolding getUpload_def by (intro runs_intros)
  have "keeps (appendChunk T u n mx ch)" for u n mx ch unfolding appendChunk_def by (intro runs_intros keeps_modify) simp_all
  then show "keeps (hUploadChunk T c i off chunk)"
    unfolding hUploadChunk_def by (intro runs_intros d g) (auto split: upload_err.splits intro!: runs_intros d)
  show "keeps (hUploadCreate T c)" unfolding hUploadCreate_def createUpload_def by (intro runs_intros keeps_modify) simp_all
  show "keeps (hUploadStatus T c i)" unfolding hUploadStatus_def by (intro runs_intros g)
  show "keeps (discardOpt u)" unfolding discardOpt_def by (intro runs_intros d)
  show "keeps (signedInput T up acct rd)" unfolding signedInput_def by (intro runs_intros g)
  show "keeps (readSource T b u)" unfolding readSource_def by (intro runs_intros)
  show "keeps (reaper T)" unfolding reaper_def reapOne_def by (intro runs_intros d)
qed

lemma keeps_signing [runs_intros]:
  assumes [simp]: "ttStore T = S"
  shows "keeps (hReserve T c rb)" "keeps (hStamp T c i sr)" "keeps (hGetSignature T c i)" "keeps (hDownload T c i)" "keeps (hMySignatures T c)"
    "keeps (hPublicRecord T i)" "keeps (hPublicVerify T form)" "keeps (hPublicDocument T i)" "keeps (strictVerify T res pdf)"
    "keeps (objectKey T pid)"
proof -
  have rec: "keeps (recordOf T sig)" for sig unfolding recordOf_def publicRecord_def assms by (intro runs_intros)
  have vp: "keeps (verifyPDF T pdf)" for pdf unfolding verifyPDF_def by (intro runs_intros)
  show "keeps (hReserve T c rb)" unfolding hReserve_def assms by (intro runs_intros; simp add: zeroReservation_def)
  show "keeps (hStamp T c i sr)" unfolding hStamp_def stampBody_def assms by (intro runs_intros) simp_all
  show "keeps (hPublicVerify T form)"
    unfolding hPublicVerify_def registeredPart_def assms by (cases form) (simp_all only: verify_form.case, (intro runs_intros rec vp)+)
  show "keeps (strictVerify T res pdf)" unfolding strictVerify_def assms by (intro runs_intros vp)
qed (simp_all only: hGetSignature_def hDownload_def hMySignatures_def hPublicRecord_def hPublicDocument_def objectKey_def assms
       recordOf_def publicRecord_def, (intro runs_intros)+)

lemma keeps_limit [runs_intros]: "keeps h \<Longrightarrow> keeps (limit T ls k h)"
  unfolding limit_def by (intro runs_intros)

lemma keeps_office [runs_intros]: "ttStore T = S \<Longrightarrow> keeps (hOfficeProxy T c h)" "keeps (publicForward T pre i h)" "keeps (hPublicServer T r)"
    "ttStore T = S \<Longrightarrow> keeps (hOfficeSignature T i)" "ttStore T = S \<Longrightarrow> keeps (hOfficeSignatureDocument T i)"
    "keeps m \<Longrightarrow> keeps (officeSecret T secret m)" "keeps m \<Longrightarrow> keeps (whenOffice T m)" "keeps (hCapabilities T c)"
  unfolding hOfficeProxy_def publicForward_def hPublicServer_def hOfficeSignature_def hOfficeSignatureDocument_def officeSecret_def whenOffice_def
    hCapabilities_def
  by (simp_all only:) (intro runs_intros | assumption)+

lemma keeps_routes:
  assumes T: "ttStore T = S"
    and "\<And>ip p. r = Public ip p \<Longrightarrow> keeps (servePublic T ip p)" "\<And>hdr u c. r = User hdr u \<Longrightarrow> keeps (serveUser T c u)"
    and "\<And>hdr a c. r = Admin hdr a \<Longrightarrow> keeps (serveAdmin T c a)" "\<And>hdr x c. r = Super hdr x \<Longrightarrow> keeps (serveSuper T c x)"
  shows "keeps (serve T r)"
proof (cases r)
  case (User hdr u)
  then show ?thesis using assms(3) by (simp only: serve.simps split: user_request.split) (blast intro: runs_intros)
next
  case (Admin hdr a)
  then show ?thesis using assms(4) by (simp only: serve.simps split: admin_request.split) (blast intro: runs_intros)
next
  case (Super hdr x)
  then show ?thesis using assms(5) T by (simp add: runs_intros)
qed (simp_all add: assms(2) runs_intros T)

end

section \<open>Security rows and deletion\<close>

locale security_relation = table_relation +
  assumes rel_security: "R t (tbSuper_update f t)"
    and rel_delete: "R t (tbAccounts_update (AList.delete i) t)"
begin

lemma keeps_put_security [runs_intros]: "keeps (stPutSuperSecurity S x)"
  unfolding runs_def
  by (rule allI, rule impI, rule wp_mono [OF put_super_security], assumption) (auto simp: writeOK_def rel_refl rel_security)

lemma keeps_delete_account [runs_intros]: "keeps (stDeleteAccount S i)"
  unfolding runs_def
proof (intro allI impI)
  fix s assume "invar s"
  moreover have "R t t'" if d: "deletedAccount i t e t'" for t t' e
  proof -
    obtain u where "t' = t\<lparr>tbAccounts := (if e = None then AList.delete i (tbAccounts t) else tbAccounts t), tbSuper := u\<rparr>"
      using d unfolding deletedAccount_def by blast
    then have "t' = tbSuper_update (\<lambda>_. u) (if e = None then tbAccounts_update (AList.delete i) t else t)" by (cases t) simp
    then show ?thesis using rel_trans [OF rel_delete rel_security] rel_security by (simp split: if_splits)
  qed
  ultimately show "wp (stDeleteAccount S i) (\<lambda>_ s'. invar s' \<and> R (svTables s) (svTables s')) s"
    by (intro wp_mono [OF delete_account]) auto
qed

lemma keeps_lockout [runs_intros]:
  assumes [simp]: "ttStore T = S"
  shows "keeps (adminSecurityFail T i sec)" "keeps (adminSecuritySuccess T i sec n)" "keeps (saFail T a what)" "keeps (saSuccess T a n)"
    "keeps (saEnrol T a)" "keeps (setNewPassword T a pw)"
  unfolding adminSecurityFail_def adminSecuritySuccess_def saFail_def saSuccess_def saEnrol_def setNewPassword_def assms by (intro runs_intros)+

lemma keeps_logins [runs_intros]:
  assumes [simp]: "ttStore T = S"
  shows "keeps (hLogin T lb)" "keeps (hLoginTOTP T tb)" "keeps (hAdminSecurityStatus T c)" "keeps (hAdminTOTPBegin T c)"
    "keeps (hAdminTOTPConfirm T c cb)" "keeps (hAdminTOTPDisable T c cb)" "keeps (hResetAdminSecurity T c i)"
    "keeps (hSALogin T sb)" "keeps (hSASetupBegin T qb)" "keeps (hSASetupConfirm T tb)" "keeps (hSAVerify T tb)" "keeps (hSAMe T c)"
    "keeps (hSAChangePassword T c pb)" "keeps (hDeleteAdmin T c i)" "keeps (hDeleteAccount T i)"
  unfolding hLogin_def afterPassword_def hLoginTOTP_def hAdminSecurityStatus_def hAdminTOTPBegin_def hAdminTOTPConfirm_def hAdminTOTPDisable_def
    hResetAdminSecurity_def hSALogin_def hSASetupBegin_def hSASetupConfirm_def hSAVerify_def hSAMe_def hSAChangePassword_def hDeleteAdmin_def
    hDeleteAccount_def assms
  by (intro runs_intros; simp)+

lemma keeps_public: "ttStore T = S \<Longrightarrow> keeps (servePublic T ip r)"
  by (cases r) (simp_all only: servePublic.simps, (intro runs_intros; assumption)+)

lemma keeps_admin: "ttStore T = S \<Longrightarrow> keeps (serveAdmin T c r)"
  by (cases r) (simp_all only: serveAdmin.simps, (intro runs_intros; assumption)+)

lemma keeps_super: "ttStore T = S \<Longrightarrow> keeps (serveSuper T c r)"
  by (cases r) (simp_all only: serveSuper.simps, (intro runs_intros; assumption)+)

lemma keeps_user: "ttStore T = S \<Longrightarrow> (\<And>i up rd. r \<noteq> SubmitDocument i up rd) \<Longrightarrow> keeps (serveUser T c r)"
  by (cases r) (simp_all only: serveUser.simps, (blast | intro runs_intros; assumption)+)

lemma keeps_serve:
  assumes T: "ttStore T = S" and sub: "\<And>hdr i up rd c. r = User hdr (SubmitDocument i up rd) \<Longrightarrow> keeps (hSubmitDocument T c i up rd)"
  shows "keeps (serve T r)"
proof (rule keeps_routes [OF T])
  show "keeps (serveUser T c u)" if "r = User hdr u" for hdr u c
    using keeps_user [OF T, of u] sub that by (cases u) (auto intro!: keeps_limit)
qed (simp_all add: keeps_public keeps_admin keeps_super T)

end

section \<open>Submission\<close>

locale signing_relation = security_relation +
  assumes rel_object: "R t (tbObjects_update h t)"
    and rel_accept: "map_of (tbReservations t) i = Some r \<Longrightarrow>
      R t (tbReservations_update (AList.update i (r\<lparr>rsStatus := ReservationAccepted\<rparr>)) t)"
    and rel_new_signature: "map_of (tbSignatures t) i = None \<Longrightarrow> R t (tbSignatures_update (AList.update i sg) t)"
begin

lemma keeps_objects [runs_intros]: "keeps (stPutObject S k b)" "keeps (stPutObjectFrom S k rd n)"
  unfolding runs_def
  by (rule allI, rule impI, rule wp_mono [OF put_object], assumption, simp add: writeOK_def rel_refl rel_object,
      rule allI, rule impI, rule wp_mono [OF put_object_from], assumption, simp add: writeOK_def rel_refl rel_object)

lemma keeps_signature [runs_intros]: "keeps (stCreateSignature S g)" "keeps (stSetReservationStatus S i ReservationAccepted)"
  by (rule keeps_create [OF create_signature], assumption, erule rel_new_signature)
    (rule keeps_change [OF set_reservation_status], assumption, simp add: rel_accept)

lemma keeps_submit: "ttStore T = S \<Longrightarrow> keeps (hSubmitDocument T c i up rd)"
  unfolding hSubmitDocument_def submitBody_def submitTier_def finishSubmit_def submitVerified_def submitStored_def by (simp only:) (intro runs_intros; simp)

lemma keeps_any: "ttStore T = S \<Longrightarrow> keeps (serve T r)"
  by (rule keeps_serve) (simp_all add: keeps_submit)

end

end
