(* ===== verification/TTD_Backing.thy ===== *)
theory TTD_Backing
  imports TTD_Invariant
begin

text \<open>
  Every signature record of the TTD server is backed: its reservation is complete, the object behind it has the recorded digest, and
  when the record says the server accepted it, that very object passed the strict verification with a certificate
  registered for the same account and device.
\<close>

section \<open>What backs a signature\<close>

definition keyFor :: "string \<Rightarrow> string \<Rightarrow> bool" where
  "keyFor i key \<longleftrightarrow> (\<exists>d. key = d @ ''/'' @ i @ ''/signed.pdf'')"

definition strictlyVerified :: "tlib \<Rightarrow> Config \<Rightarrow> Reservation \<Rightarrow> Certificate \<Rightarrow> bytes \<Rightarrow> bool" where
  "strictlyVerified lib cfg r c b \<longleftrightarrow>
     take 5 b = ''%PDF-'' \<and> ceAccountID c = rsAccountID r \<and> ceDeviceID c = rsDeviceID r \<and>
     (\<exists>k crl vr sig. tlVerifyPDF lib k b (cfgRootCAPEM cfg) (cfgCAChainPEM cfg) crl = Inr vr \<and> checkResult r vr = Inr sig \<and>
        psCertificateSerial sig = ceSerial c \<and> psCertificateFingerprint sig = ceFingerprint c)"

lemma strictlyVerified_account: "strictlyVerified lib cfg r c b \<Longrightarrow> ceAccountID c = rsAccountID r"
  by (simp add: strictlyVerified_def)

definition backedBy :: "tlib \<Rightarrow> Config \<Rightarrow> tables \<Rightarrow> Signature \<Rightarrow> Reservation \<Rightarrow> bytes \<Rightarrow> bool" where
  "backedBy lib cfg t g r b \<longleftrightarrow>
     rsStatus r = ReservationAccepted \<and> sgAccountID g = rsAccountID r \<and> sgDeviceID g = rsDeviceID r \<and>
     sgOriginalSHA512 g = rsOriginalSHA512 r \<and> sgSignedSHA512 g = hexEncode (tlSHA512 lib b) \<and>
     (sgVerificationStatus g = VerificationAccepted \<longrightarrow>
        (\<exists>c. map_of (tbCertificates t) (sgCertificateID g) = Some c \<and> ceSerial c = sgCertSerial g \<and>
           ceFingerprint c = sgCertFingerprint g \<and> ceStatus c \<in> {CertActive, CertRevoked} \<and> strictlyVerified lib cfg r c b))"

definition backed :: "tlib \<Rightarrow> Config \<Rightarrow> tables \<Rightarrow> bool" where
  "backed lib cfg t \<longleftrightarrow>
     (\<forall>i g. map_of (tbSignatures t) i = Some g \<longrightarrow> keyFor i (sgStorageObjectKey g) \<and>
        (\<exists>r b. map_of (tbReservations t) i = Some r \<and> map_of (tbObjects t) (sgStorageObjectKey g) = Some b \<and> backedBy lib cfg t g r b))"

text \<open>What a passing strict verification has established.\<close>

definition accepts :: "tlib \<Rightarrow> Config \<Rightarrow> tables \<Rightarrow> Reservation \<Rightarrow> bytes \<Rightarrow> verifiedInfo \<Rightarrow> bool" where
  "accepts lib cfg t res pdf info \<longleftrightarrow>
     take 5 pdf = ''%PDF-'' \<and>
     (\<exists>c k crl vr sig. map_of (tbCertificates t) (ceID c) = Some c \<and>
        tlVerifyPDF lib k pdf (cfgRootCAPEM cfg) (cfgCAChainPEM cfg) crl = Inr vr \<and>
        checkResult res vr = Inr sig \<and> ceSerial c = psCertificateSerial sig \<and> checkCert res sig c = Inr info)"

lemma acceptsI:
  "take 5 pdf = ''%PDF-'' \<Longrightarrow> map_of (tbCertificates t) (ceID c) = Some c \<Longrightarrow>
   tlVerifyPDF lib k pdf (cfgRootCAPEM cfg) (cfgCAChainPEM cfg) crl = Inr vr \<Longrightarrow> checkResult res vr = Inr sig \<Longrightarrow>
   ceSerial c = psCertificateSerial sig \<Longrightarrow> checkCert res sig c = Inr info \<Longrightarrow> accepts lib cfg t res pdf info"
  unfolding accepts_def by blast

section \<open>How the tables evolve\<close>

definition sameCert :: "Certificate \<Rightarrow> Certificate \<Rightarrow> bool" where
  "sameCert c c' \<longleftrightarrow> c' = c \<or> (\<exists>ra rr. c' = c\<lparr>ceStatus := CertRevoked, ceRevokedAt := ra, ceRevReason := rr\<rparr>)"

definition sameReservation :: "Reservation \<Rightarrow> Reservation \<Rightarrow> bool" where
  "sameReservation r r' \<longleftrightarrow> r' = r \<or> r' = r\<lparr>rsStatus := ReservationAccepted\<rparr>"

definition grows :: "tables \<Rightarrow> tables \<Rightarrow> bool" where
  "grows t t' \<longleftrightarrow>
     (\<forall>i c. map_of (tbCertificates t) i = Some c \<longrightarrow> (\<exists>c'. map_of (tbCertificates t') i = Some c' \<and> sameCert c c')) \<and>
     (\<forall>i r. map_of (tbReservations t) i = Some r \<longrightarrow> (\<exists>r'. map_of (tbReservations t') i = Some r' \<and> sameReservation r r')) \<and>
     map_of (tbSignatures t) \<subseteq>\<^sub>m map_of (tbSignatures t')"

definition quiet :: "tables \<Rightarrow> tables \<Rightarrow> bool" where
  "quiet t t' \<longleftrightarrow> grows t t' \<and> tbSignatures t' = tbSignatures t \<and> tbObjects t' = tbObjects t"

lemma sameCert_refl [simp]: "sameCert c c"
  by (simp add: sameCert_def)

lemma sameCert_trans: "sameCert c c' \<Longrightarrow> sameCert c' c'' \<Longrightarrow> sameCert c c''"
  unfolding sameCert_def by (elim disjE exE) auto

lemma sameReservation_refl [simp]: "sameReservation r r"
  by (simp add: sameReservation_def)

lemma sameReservation_trans: "sameReservation r r' \<Longrightarrow> sameReservation r' r'' \<Longrightarrow> sameReservation r r''"
  unfolding sameReservation_def by (elim disjE) auto

lemma grows_refl: "grows t t"
  unfolding grows_def by auto

lemma grows_trans: "grows t t' \<Longrightarrow> grows t' t'' \<Longrightarrow> grows t t''"
  unfolding grows_def by (meson map_le_trans sameCert_trans sameReservation_trans)

lemma sameCert_fields:
  "sameCert c c' \<Longrightarrow> ceSerial c' = ceSerial c \<and> ceFingerprint c' = ceFingerprint c \<and> ceAccountID c' = ceAccountID c \<and>
     ceDeviceID c' = ceDeviceID c \<and> (ceStatus c = CertRevoked \<longrightarrow> ceStatus c' = CertRevoked) \<and>
     (ceStatus c \<in> {CertActive, CertRevoked} \<longrightarrow> ceStatus c' \<in> {CertActive, CertRevoked})"
  unfolding sameCert_def by auto

lemma sameReservation_fields:
  "sameReservation r r' \<Longrightarrow> rsPublicID r' = rsPublicID r \<and> rsAccountID r' = rsAccountID r \<and> rsDeviceID r' = rsDeviceID r \<and>
     rsOriginalSHA512 r' = rsOriginalSHA512 r \<and> (rsStatus r = ReservationAccepted \<longrightarrow> rsStatus r' = ReservationAccepted)"
  unfolding sameReservation_def by auto

lemma checkResult_cong:
  assumes "rsPublicID r' = rsPublicID r"
  shows "checkResult r' vr = checkResult r vr"
  unfolding checkResult_def assms by (rule refl)

lemma backedBy_grows:
  assumes "backedBy lib cfg t g r b" "grows t t'" "sameReservation r r'"
  shows "backedBy lib cfg t' g r' b"
proof -
  have r: "rsPublicID r' = rsPublicID r" "rsAccountID r' = rsAccountID r" "rsDeviceID r' = rsDeviceID r"
    "rsOriginalSHA512 r' = rsOriginalSHA512 r" "rsStatus r = ReservationAccepted \<longrightarrow> rsStatus r' = ReservationAccepted"
    using sameReservation_fields [OF assms(3)] by auto
  have c: "\<exists>c'. map_of (tbCertificates t') i = Some c' \<and> sameCert c c'" if "map_of (tbCertificates t) i = Some c" for i c
    using assms(2) that unfolding grows_def by blast
  have s: "strictlyVerified lib cfg r' c' b" if "strictlyVerified lib cfg r c b" "sameCert c c'" for c c'
    using that r sameCert_fields [OF that(2)] checkResult_cong [OF r(1)] unfolding strictlyVerified_def by auto
  have "\<exists>c'. map_of (tbCertificates t') (sgCertificateID g) = Some c' \<and> ceSerial c' = sgCertSerial g \<and>
      ceFingerprint c' = sgCertFingerprint g \<and> ceStatus c' \<in> {CertActive, CertRevoked} \<and> strictlyVerified lib cfg r' c' b"
    if "sgVerificationStatus g = VerificationAccepted"
  proof -
    obtain c1 where c1: "map_of (tbCertificates t) (sgCertificateID g) = Some c1" "ceSerial c1 = sgCertSerial g"
      "ceFingerprint c1 = sgCertFingerprint g" "strictlyVerified lib cfg r c1 b" "ceStatus c1 \<in> {CertActive, CertRevoked}"
      using assms(1) \<open>sgVerificationStatus g = VerificationAccepted\<close> unfolding backedBy_def by blast
    then obtain c2 where "map_of (tbCertificates t') (sgCertificateID g) = Some c2" "sameCert c1 c2" using c by blast
    then show ?thesis using c1 s [OF c1(4)] sameCert_fields [of c1 c2] by (intro exI [of _ c2]) simp
  qed
  then show ?thesis using assms(1) r unfolding backedBy_def by simp
qed

lemma backed_quiet:
  assumes "backed lib cfg t" "quiet t t'"
  shows "backed lib cfg t'"
  unfolding backed_def
proof (intro allI impI)
  fix i g assume "map_of (tbSignatures t') i = Some g"
  then have g: "map_of (tbSignatures t) i = Some g" using assms(2) by (simp add: quiet_def)
  then obtain r b where k: "keyFor i (sgStorageObjectKey g)" and "map_of (tbReservations t) i = Some r"
    "map_of (tbObjects t) (sgStorageObjectKey g) = Some b" and b: "backedBy lib cfg t g r b"
    using assms(1) unfolding backed_def by blast
  moreover then obtain r' where "map_of (tbReservations t') i = Some r'" "sameReservation r r'"
    using assms(2) unfolding quiet_def grows_def by blast
  ultimately show "keyFor i (sgStorageObjectKey g) \<and> (\<exists>r b. map_of (tbReservations t') i = Some r \<and>
      map_of (tbObjects t') (sgStorageObjectKey g) = Some b \<and> backedBy lib cfg t' g r b)"
    using backedBy_grows [OF b] assms(2) unfolding quiet_def by metis
qed

text \<open>Keys of different reservations differ.\<close>

lemma keyFor_inj:
  assumes "keyFor i key" "keyFor j key" "CHR ''/'' \<notin> set i" "CHR ''/'' \<notin> set j"
  shows "i = j"
proof -
  obtain d e where "d @ ''/'' @ i @ ''/signed.pdf'' = e @ ''/'' @ j @ ''/signed.pdf''" using assms(1,2) unfolding keyFor_def by auto
  then have "(d @ ''/'' @ i) = (e @ ''/'' @ j)" by (metis append.assoc append_same_eq)
  then have "rev i @ CHR ''/'' # rev d = rev j @ CHR ''/'' # rev e" by (metis append_Cons append_Nil append_assoc rev.simps(2) rev_append)
  then have "takeWhile (\<lambda>c. c \<noteq> CHR ''/'') (rev i @ CHR ''/'' # rev d) = takeWhile (\<lambda>c. c \<noteq> CHR ''/'') (rev j @ CHR ''/'' # rev e)" by simp
  moreover have "takeWhile (\<lambda>c. c \<noteq> CHR ''/'') (rev k @ CHR ''/'' # xs) = rev k" if "CHR ''/'' \<notin> set k" for k xs
    using that by (subst takeWhile_append2) auto
  ultimately show ?thesis using assms(3,4) by simp
qed

section \<open>The writes of a submission\<close>

lemma backedD:
  assumes "backed lib cfg t" "map_of (tbSignatures t) j = Some g"
  obtains r b where "keyFor j (sgStorageObjectKey g)" "map_of (tbReservations t) j = Some r"
    "map_of (tbObjects t) (sgStorageObjectKey g) = Some b" "backedBy lib cfg t g r b"
  using assms unfolding backed_def by blast

lemma backedBy_tables [simp]:
  "backedBy lib cfg (tbObjects_update f1 t) g r b = backedBy lib cfg t g r b"
  "backedBy lib cfg (tbReservations_update f2 t) g r b = backedBy lib cfg t g r b"
  "backedBy lib cfg (tbSignatures_update f3 t) g r b = backedBy lib cfg t g r b"
  by (simp_all add: backedBy_def)

text \<open>An object stored for a reservation without a signature yet.\<close>

lemma backed_object:
  assumes b: "backed lib cfg t" and wf: "tables_wf t" and i: "map_of (tbReservations t) i = Some res" "map_of (tbSignatures t) i = None"
    and key: "keyFor i key"
  shows "backed lib cfg (tbObjects_update (AList.update key body) t)"
  unfolding backed_def
proof (intro allI impI)
  fix j g assume "map_of (tbSignatures (tbObjects_update (AList.update key body) t)) j = Some g"
  then have g: "map_of (tbSignatures t) j = Some g" by simp
  obtain r x where j: "keyFor j (sgStorageObjectKey g)" "map_of (tbReservations t) j = Some r"
    "map_of (tbObjects t) (sgStorageObjectKey g) = Some x" "backedBy lib cfg t g r x"
    by (rule backedD [OF b g])
  have "sgStorageObjectKey g \<noteq> key"
    using keyFor_inj [of i key j] key j(1) wf_reservation_id [OF wf] i j(2) g by force
  with j show "keyFor j (sgStorageObjectKey g) \<and> (\<exists>r b. map_of (tbReservations (tbObjects_update (AList.update key body) t)) j = Some r \<and>
      map_of (tbObjects (tbObjects_update (AList.update key body) t)) (sgStorageObjectKey g) = Some b \<and>
      backedBy lib cfg (tbObjects_update (AList.update key body) t) g r b)"
    by (auto simp: AList.update_conv')
qed

text \<open>The tables after the signature is inserted and before its reservation is marked complete.\<close>

definition recorded :: "tlib \<Rightarrow> Config \<Rightarrow> Reservation \<Rightarrow> Signature \<Rightarrow> tables \<Rightarrow> bool" where
  "recorded lib cfg res g t' \<longleftrightarrow>
     (\<exists>t b. backed lib cfg t \<and> t' = tbSignatures_update (AList.update (rsPublicID res) g) t \<and>
        map_of (tbReservations t) (rsPublicID res) = Some res \<and> keyFor (rsPublicID res) (sgStorageObjectKey g) \<and>
        map_of (tbObjects t) (sgStorageObjectKey g) = Some b \<and> backedBy lib cfg t g (res\<lparr>rsStatus := ReservationAccepted\<rparr>) b)"

lemma recorded_complete:
  assumes "recorded lib cfg res g t"
  shows "backed lib cfg (tbReservations_update (AList.update (rsPublicID res) (res\<lparr>rsStatus := ReservationAccepted\<rparr>)) t)"
    (is "backed lib cfg ?t")
  unfolding backed_def
proof (intro allI impI)
  obtain t0 b where t0: "backed lib cfg t0" "t = tbSignatures_update (AList.update (rsPublicID res) g) t0"
      "keyFor (rsPublicID res) (sgStorageObjectKey g)" "map_of (tbObjects t0) (sgStorageObjectKey g) = Some b"
      "backedBy lib cfg t0 g (res\<lparr>rsStatus := ReservationAccepted\<rparr>) b"
    using assms unfolding recorded_def by blast
  fix j h assume h: "map_of (tbSignatures ?t) j = Some h"
  show "keyFor j (sgStorageObjectKey h) \<and> (\<exists>r b. map_of (tbReservations ?t) j = Some r \<and>
      map_of (tbObjects ?t) (sgStorageObjectKey h) = Some b \<and> backedBy lib cfg ?t h r b)"
  proof (cases "j = rsPublicID res")
    case True
    then show ?thesis using h t0 by (auto simp: AList.update_conv')
  next
    case False
    then have "map_of (tbSignatures t0) j = Some h" using h t0(2) by (simp add: AList.update_conv')
    then obtain r x where "keyFor j (sgStorageObjectKey h)" "map_of (tbReservations t0) j = Some r"
      "map_of (tbObjects t0) (sgStorageObjectKey h) = Some x" "backedBy lib cfg t0 h r x"
      by (rule backedD [OF t0(1)])
    then show ?thesis using False t0(2) by (auto simp: AList.update_conv')
  qed
qed

lemma accepts_backedBy:
  assumes "accepts lib cfg t res body info"
    and "ttLib T = lib"
  shows "backedBy lib cfg t ((verifiedSignature T res key body info tm)\<lparr>sgCreatedAt := ca\<rparr>) (res\<lparr>rsStatus := ReservationAccepted\<rparr>) body"
proof -
  obtain c k crl vr sig where c: "map_of (tbCertificates t) (ceID c) = Some c" "take 5 body = ''%PDF-''"
      "tlVerifyPDF lib k body (cfgRootCAPEM cfg) (cfgCAChainPEM cfg) crl = Inr vr" "checkResult res vr = Inr sig"
      "ceSerial c = psCertificateSerial sig" "checkCert res sig c = Inr info"
    using assms(1) unfolding accepts_def by blast
  have i: "viCertificateID info = ceID c" "viCertSerial info = ceSerial c" "viCertFingerprint info = ceFingerprint c"
    "ceAccountID c = rsAccountID res" "ceDeviceID c = rsDeviceID res" "ceFingerprint c = psCertificateFingerprint sig" "ceStatus c = CertActive"
    using c(6) by (auto simp: checkCert_def split: if_splits)
  have "checkResult (res\<lparr>rsStatus := ReservationAccepted\<rparr>) vr = Inr sig" using c(4) checkResult_cong [of "res\<lparr>rsStatus := ReservationAccepted\<rparr>" res] by simp
  then have "strictlyVerified lib cfg (res\<lparr>rsStatus := ReservationAccepted\<rparr>) c body"
    using c i unfolding strictlyVerified_def by auto
  then show ?thesis using c i assms(2) by (simp add: backedBy_def verifiedSignature_def newSignature_def calculateSHA512_def)
qed

lemma stored_backedBy:
  "ttLib T = lib \<Longrightarrow> backedBy lib cfg t ((newSignature T res key body n tm VerificationStoredOnly)\<lparr>sgCreatedAt := ca\<rparr>) (res\<lparr>rsStatus := ReservationAccepted\<rparr>) body"
  by (simp add: backedBy_def newSignature_def calculateSHA512_def VerificationStoredOnly_def VerificationAccepted_def)

section \<open>Every store\<close>

lemma grows_tables:
  "grows t (tbAccounts_update f1 t)" "grows t (tbDevices_update f2 t)" "grows t (tbEnrollments_update f3 t)" "grows t (tbObjects_update f4 t)"
  "grows t (tbSuper_update f5 t)" "grows t (tbAudit_update f6 t)"
  by (simp_all add: grows_def)

lemma grows_rows:
  "map_of (tbCertificates t) i = Some c \<Longrightarrow> sameCert c c' \<Longrightarrow> grows t (tbCertificates_update (AList.update i c') t)"
  "map_of (tbCertificates t) i = None \<Longrightarrow> grows t (tbCertificates_update (AList.update i c'') t)"
  "map_of (tbReservations t) i = Some r \<Longrightarrow> sameReservation r r' \<Longrightarrow> grows t (tbReservations_update (AList.update i r') t)"
  "map_of (tbReservations t) i = None \<Longrightarrow> grows t (tbReservations_update (AList.update i r'') t)"
  "map_of (tbSignatures t) i = None \<Longrightarrow> grows t (tbSignatures_update (AList.update i g) t)"
  by (auto simp: grows_def AList.update_conv' map_le_def dom_def)

lemma grows_revoke:
  "map_of (tbCertificates t) i = Some c \<Longrightarrow>
   grows t (tbCertificates_update (AList.update i (c\<lparr>ceStatus := CertRevoked, ceRevokedAt := ra, ceRevReason := rr\<rparr>)) t)"
  by (erule grows_rows) (auto simp: sameCert_def)

lemma quiet_trans: "quiet t t' \<Longrightarrow> quiet t' t'' \<Longrightarrow> quiet t t''"
  unfolding quiet_def by (auto intro: grows_trans)

sublocale ttd_store \<subseteq> quiet: security_relation S invar reliable quiet
  by unfold_locales
    (auto simp: quiet_def grows_refl grows_tables intro: grows_rows grows_revoke grows_trans)

sublocale ttd_store \<subseteq> grow: signing_relation S invar reliable grows
  by unfold_locales
    (auto simp: grows_refl grows_tables sameReservation_def intro: grows_rows grows_revoke grows_trans)

section \<open>A submission keeps the records backed\<close>

context ttd_store
begin

text \<open>Steps that leave the tables alone, and what they return.\<close>

definition same :: "server \<Rightarrow> ('a \<Rightarrow> bool) \<Rightarrow> 'a \<Rightarrow> server \<Rightarrow> bool" where
  "same s P x s' \<longleftrightarrow> invar s' \<and> svTables s' = svTables s \<and> P x"

lemma same_draw: "invar s \<Longrightarrow> P (f (svTick s)) \<Longrightarrow> wp (draw f) (same s P) s"
  by (auto simp: wp_simps same_def intro: inv_frame)

lemma same_read: "wp m (readOK invar s Q) s \<Longrightarrow> (\<And>x. Q x (svTables s) \<Longrightarrow> P x) \<Longrightarrow> wp m (same s P) s"
  by (erule wp_mono) (auto simp: readOK_def same_def)

lemma same_bind:
  assumes "wp m (same s P) s" "\<And>x s'. invar s' \<Longrightarrow> svTables s' = svTables s \<Longrightarrow> P x \<Longrightarrow> wp (f x) (same s' Q) s'"
  shows "wp (State_Monad.bind m f) (same s Q) s"
  unfolding wp_bind by (rule wp_mono [OF assms(1)]) (auto simp: same_def intro: wp_mono [OF assms(2)])

lemma same_ret: "invar s \<Longrightarrow> P x \<Longrightarrow> wp (ret x) (same s P) s"
  by (simp add: wp_simps same_def)

lemma same_cases:
  "(b \<Longrightarrow> wp m (same s P) s) \<Longrightarrow> (\<not> b \<Longrightarrow> wp n (same s P) s) \<Longrightarrow> wp (if b then m else n) (same s P) s"
  "(\<And>x y. p = (x, y) \<Longrightarrow> wp (f x y) (same s P) s) \<Longrightarrow> wp (case p of (x, y) \<Rightarrow> f x y) (same s P) s"
  "(\<And>x. v = Inl x \<Longrightarrow> wp (g x) (same s P) s) \<Longrightarrow> (\<And>y. v = Inr y \<Longrightarrow> wp (h y) (same s P) s) \<Longrightarrow>
     wp (case v of Inl x \<Rightarrow> g x | Inr y \<Rightarrow> h y) (same s P) s"
  by (simp_all split: prod.splits sum.splits)

lemma same_objectKey: "invar s \<Longrightarrow> wp (objectKey T i) (same s (keyFor i)) s"
  unfolding objectKey_def now_def
  by (rule same_bind, erule same_draw, rule TrueI, rule same_bind, erule same_draw, rule TrueI, rule same_ret)
    (auto simp: keyFor_def)

lemma same_readSource: "invar s \<Longrightarrow> wp (readSource T b u) (same s (\<lambda>x. x = None \<or> x = Some b)) s"
  unfolding readSource_def by (intro same_cases same_ret same_draw) auto

lemma same_signedInput: "invar s \<Longrightarrow> wp (signedInput T up acct rd) (same s (\<lambda>_. True)) s"
  unfolding signedInput_def getUpload_def
  by (auto simp: wp_simps same_def split: option.splits intro: inv_frame)

lemma same_verifyPDF:
  "invar s \<Longrightarrow> wp (verifyPDF T pdf) (same s (\<lambda>v. \<exists>k crl. v = tlVerifyPDF (ttLib T) k pdf (cfgRootCAPEM (ttCfg T)) (cfgCAChainPEM (ttCfg T)) crl)) s"
  unfolding verifyPDF_def by (auto simp: wp_simps same_def intro: inv_frame)

lemma same_strictVerify:
  assumes s: "invar s" and T: "ttStore T = S"
  shows "wp (strictVerify T res pdf)
    (same s (\<lambda>v. \<forall>info. v = Inr info \<longrightarrow> accepts (ttLib T) (ttCfg T) (svTables s) res pdf info)) s" (is "wp _ (same s ?P) s")
proof -
  have cert: "wp (stCertificateBySerial S (psCertificateSerial sig) \<bind>
        (\<lambda>(cert, err). ret (if err \<noteq> None then Inl w else checkCert res sig cert))) (same s' ?P) s'"
    if cond: "invar s'" "svTables s' = svTables s" "take 5 pdf = ''%PDF-''" "checkResult res vr = Inr sig"
      "\<exists>k crl. Inr vr = tlVerifyPDF (ttLib T) k pdf (cfgRootCAPEM (ttCfg T)) (cfgCAChainPEM (ttCfg T)) crl" for s' sig vr w
  proof (rule same_bind [OF same_read [OF certificate_by_serial [OF cond(1)]]], assumption)
    fix x s'' assume s'': "invar s''" and x: "if snd x = None
        then map_of (tbCertificates (svTables s')) (ceID (fst x)) = Some (fst x) \<and> ceSerial (fst x) = psCertificateSerial sig
        else reliable \<longrightarrow> (\<forall>k c. map_of (tbCertificates (svTables s')) k = Some c \<longrightarrow> ceSerial c \<noteq> psCertificateSerial sig)"
    show "wp (case x of (cert, err) \<Rightarrow> ret (if err \<noteq> None then Inl w else checkCert res sig cert)) (same s'' ?P) s''"
    proof (intro same_cases same_ret s'' allI impI)
      fix c e info assume "x = (c, e)" "(if e \<noteq> None then Inl w else checkCert res sig c) = Inr info"
      moreover obtain k crl where "tlVerifyPDF (ttLib T) k pdf (cfgRootCAPEM (ttCfg T)) (cfgCAChainPEM (ttCfg T)) crl = Inr vr"
        using cond(5) by metis
      ultimately show "accepts (ttLib T) (ttCfg T) (svTables s) res pdf info"
        using x cond(2-4) by (intro acceptsI [of pdf _ c _ k _ crl vr res sig]) (auto split: if_splits)
    qed
  qed
  show ?thesis
    unfolding strictVerify_def T
  proof (intro same_cases same_ret s allI impI)
    assume magic: "\<not> (length pdf < 5 \<or> take 5 pdf \<noteq> ''%PDF-'')"
    show "wp (stSignature S (rsPublicID res) \<bind> (\<lambda>(_, err).
        if err = None then ret (Inl ''this reservation has already been completed'')
        else stDevice S (rsDeviceID res) \<bind> (\<lambda>(d, err).
          if err \<noteq> None \<or> dvStatus d \<noteq> DeviceActive then ret (Inl ''device is not active'')
          else verifyPDF T pdf \<bind> (\<lambda>vr. case vr of
              Inl err \<Rightarrow> ret (Inl (''verification error: '' @ err))
            | Inr vr \<Rightarrow> (case checkResult res vr of
                Inl why \<Rightarrow> ret (Inl why)
              | Inr sig \<Rightarrow> stCertificateBySerial S (psCertificateSerial sig) \<bind>
                  (\<lambda>(cert, err). ret (if err \<noteq> None then Inl ''signer certificate is not registered with this server''
                    else checkCert res sig cert))))))) (same s ?P) s"
      by (rule same_bind [OF same_read [OF signature [OF s]]], assumption, rule same_cases, rule same_cases, rule same_ret, assumption, simp,
          rule same_bind [OF same_read [OF device]], assumption, assumption, rule same_cases, rule same_cases, rule same_ret, assumption, simp,
          rule same_bind [OF same_verifyPDF], assumption, rule same_cases, rule same_ret, assumption, simp,
          rule same_cases, rule same_ret, assumption, simp, rule cert) (use magic in auto)
  qed simp
qed

definition ready :: "tlib \<Rightarrow> Config \<Rightarrow> Reservation \<Rightarrow> server \<Rightarrow> bool" where
  "ready lib cfg res s \<longleftrightarrow>
     invar s \<and> backed lib cfg (svTables s) \<and> map_of (tbReservations (svTables s)) (rsPublicID res) = Some res \<and>
     map_of (tbSignatures (svTables s)) (rsPublicID res) = None"

definition submitted :: "tlib \<Rightarrow> Config \<Rightarrow> Reservation \<Rightarrow> reply + Signature \<times> err \<Rightarrow> server \<Rightarrow> bool" where
  "submitted lib cfg res v s \<longleftrightarrow>
     invar s \<and> (case v of
        Inr (g, None) \<Rightarrow> recorded lib cfg res g (svTables s)
      | _ \<Rightarrow> backed lib cfg (svTables s))"

lemma ready_same: "ready lib cfg res s \<Longrightarrow> invar s' \<Longrightarrow> svTables s' = svTables s \<Longrightarrow> ready lib cfg res s'"
  by (simp add: ready_def)

lemma keeps_backed:
  "runs invar quiet m \<Longrightarrow> invar s \<Longrightarrow> backed lib cfg (svTables s) \<Longrightarrow> wp m (\<lambda>_ s'. invar s' \<and> backed lib cfg (svTables s')) s"
  by (erule wp_mono [OF runsD]) (auto intro: backed_quiet)

lemma object_ready:
  assumes "ready lib cfg res s" "keyFor (rsPublicID res) key" "invar s'" "svTables s' = tbObjects_update (AList.update key body) (svTables s)"
  shows "ready lib cfg res s'"
  using assms backed_object [OF _ inv_wf, of lib cfg s "rsPublicID res" res key body] by (simp add: ready_def)

text \<open>Both tiers end by inserting the signature of the object they have just stored.\<close>

lemma sign_stored:
  assumes s: "ready lib cfg res s" and g: "sgPublicID g = rsPublicID res" "sgStorageObjectKey g = key" "keyFor (rsPublicID res) key"
    and b: "map_of (tbObjects (svTables s)) key = Some body"
    and ok: "\<And>ca. backedBy lib cfg (svTables s) (g\<lparr>sgCreatedAt := ca\<rparr>) (res\<lparr>rsStatus := ReservationAccepted\<rparr>) body"
  shows "wp (do { t \<leftarrow> stCreateSignature S g; ret (Inr t) }) (submitted lib cfg res) s"
  unfolding wp_bind
proof (rule wp_mono [OF create_signature])
  show "invar s" using s by (simp add: ready_def)
  fix x s' assume c: "createOK invar tbSignatures tbSignatures_update sgPublicID (\<lambda>x. x = g\<lparr>sgCreatedAt := sgCreatedAt x\<rparr>) s x s'"
  obtain h e where x: "x = (h, e)" by force
  have "recorded lib cfg res h (svTables s')" if "e = None"
  proof -
    have h: "h = g\<lparr>sgCreatedAt := sgCreatedAt h\<rparr>" "svTables s' = tbSignatures_update (AList.update (sgPublicID h) h) (svTables s)"
      using c x that by (auto simp: createOK_def)
    have f: "sgPublicID h = rsPublicID res" "sgStorageObjectKey h = key"
      using g arg_cong [OF h(1), of sgPublicID] arg_cong [OF h(1), of sgStorageObjectKey] by simp_all
    show ?thesis
      unfolding recorded_def
      using s g(3) b ok [of "sgCreatedAt h"] h(1)
      by (intro exI [of _ "svTables s"] exI [of _ body]) (simp add: ready_def f h(2) flip: h(1))
  qed
  moreover have "backed lib cfg (svTables s')" if "e \<noteq> None" using s c x that by (simp add: createOK_def ready_def)
  ultimately show "wp (ret (Inr x)) (submitted lib cfg res) s'"
    using c x by (auto simp: wp_simps submitted_def createOK_def split: option.splits)
qed

lemma now_sign_stored:
  assumes s: "ready lib cfg res s" and g: "\<And>t. sgPublicID (g t) = rsPublicID res" "\<And>t. sgStorageObjectKey (g t) = key"
    and key: "keyFor (rsPublicID res) key" "map_of (tbObjects (svTables s)) key = Some body"
    and ok: "\<And>t ca. backedBy lib cfg (svTables s) ((g t)\<lparr>sgCreatedAt := ca\<rparr>) (res\<lparr>rsStatus := ReservationAccepted\<rparr>) body"
  shows "wp (do { t \<leftarrow> now E; r \<leftarrow> stCreateSignature S (g t); ret (Inr r) }) (submitted lib cfg res) s"
proof (subst wp_bind, subst wp_now, rule sign_stored)
  show "ready lib cfg res (s\<lparr>svTick := Suc (svTick s)\<rparr>)"
    using s by (rule ready_same) (use s in \<open>auto simp: ready_def intro: inv_frame\<close>)
qed (use g key ok in simp_all)

lemma failed_backed: "ready lib cfg res s \<Longrightarrow> wp (ret (Inl rep)) (submitted lib cfg res) s"
  by (simp add: wp_simps submitted_def ready_def)

lemma submitVerified_backed:
  assumes s: "ready (ttLib T) (ttCfg T) res s" and T: "ttStore T = S" and key: "keyFor (rsPublicID res) key"
  shows "wp (submitVerified T c res key body) (submitted (ttLib T) (ttCfg T) res) s"
proof (cases body)
  case (Some pdf)
  let ?sub = "submitted (ttLib T) (ttCfg T) res" and ?ready = "ready (ttLib T) (ttCfg T) res"
  have inv: "invar s" using s by (simp add: ready_def)
  have rej: "wp (do { audit T ''signature.submit'' c (rsDeviceID res) ''reject'' why; ret (Inl rep) }) ?sub s'" if "?ready s'" for s' why rep
    unfolding wp_bind using that
    by (intro wp_mono [OF keeps_backed [OF quiet.keeps_audit [OF T]]]) (auto simp: ready_def wp_simps submitted_def)
  have acc: "wp (do { err \<leftarrow> stPutObject S key pdf;
      if err \<noteq> None then ret (Inl (writeErr 500 ''store''))
      else do { t \<leftarrow> now (ttEnv T); r \<leftarrow> stCreateSignature S (verifiedSignature T res key pdf info t); ret (Inr r) } }) ?sub s'"
    if r: "?ready s'" and a: "accepts (ttLib T) (ttCfg T) (svTables s') res pdf info" for s' info
  proof (subst wp_bind, rule wp_mono [OF put_object])
    show "invar s'" using r by (simp add: ready_def)
    fix e s1 assume w: "writeOK invar (tbObjects_update (AList.update key pdf)) s' e s1"
    have r1: "?ready s1" using w r object_ready [OF r key, of s1 pdf] by (cases e) (auto simp: writeOK_def ready_def)
    have "wp (do { t \<leftarrow> now (ttEnv T); r \<leftarrow> stCreateSignature S (verifiedSignature T res key pdf info t); ret (Inr r) }) ?sub s1"
      if "e = None"
      using w a key that
      by (intro now_sign_stored [OF r1, where key = key and body = pdf] accepts_backedBy)
        (auto simp: writeOK_def accepts_def AList.update_conv' verifiedSignature_def newSignature_def)
    then show "wp (if e \<noteq> None then ret (Inl (writeErr 500 ''store''))
        else do { t \<leftarrow> now (ttEnv T); r \<leftarrow> stCreateSignature S (verifiedSignature T res key pdf info t); ret (Inr r) }) ?sub s1"
      using failed_backed [OF r1] by simp
  qed
  show ?thesis
    unfolding submitVerified_def Some option.case T
  proof (subst wp_bind, rule wp_mono [OF same_strictVerify [OF inv T]])
    fix v :: "string + verifiedInfo" and s1
    assume v: "same s (\<lambda>v. \<forall>info. v = Inr info \<longrightarrow> accepts (ttLib T) (ttCfg T) (svTables s) res pdf info) v s1"
    have r1: "?ready s1" using ready_same [OF s] v by (simp add: same_def)
    show "wp (case v of
        Inl reason \<Rightarrow> do { audit T ''signature.submit'' c (rsDeviceID res) ''reject'' reason; ret (Inl (writeErr 422 reason)) }
      | Inr info \<Rightarrow> do { err \<leftarrow> stPutObject S key pdf;
          if err \<noteq> None then ret (Inl (writeErr 500 ''store''))
          else do { t \<leftarrow> now (ttEnv T); r \<leftarrow> stCreateSignature S (verifiedSignature T res key pdf info t); ret (Inr r) } }) ?sub s1"
      using rej [OF r1] acc [OF r1] v by (cases v) (simp_all add: same_def)
  qed
qed (simp add: submitVerified_def failed_backed s)

lemma submitStored_backed:
  assumes s: "ready (ttLib T) (ttCfg T) res s" and T: "ttStore T = S" and key: "keyFor (rsPublicID res) key"
  shows "wp (submitStored T res key b u n) (submitted (ttLib T) (ttCfg T) res) s"
  unfolding submitStored_def T
proof (subst wp_bind, rule wp_mono [OF same_readSource], use s in \<open>simp add: ready_def\<close>)
  let ?sub = "submitted (ttLib T) (ttCfg T) res" and ?ready = "ready (ttLib T) (ttCfg T) res"
  fix body s1 assume v: "same s (\<lambda>x. x = None \<or> x = Some b) body s1"
  have r1: "?ready s1" using ready_same [OF s] v by (simp add: same_def)
  show "wp (do { err \<leftarrow> stPutObjectFrom S key body n;
      if err \<noteq> None then ret (Inl (writeErr 500 ''store''))
      else do { t \<leftarrow> now (ttEnv T); r \<leftarrow> stCreateSignature S (newSignature T res key b n t VerificationStoredOnly); ret (Inr r) } }) ?sub s1"
  proof (subst wp_bind, rule wp_mono [OF put_object_from])
    show "invar s1" using r1 by (simp add: ready_def)
    fix e s2 assume w: "writeOK invar (tbObjects_update (AList.update key (the body))) s1 e s2 \<and> (e = None \<longrightarrow> body \<noteq> None)"
    have r2: "?ready s2" using w r1 object_ready [OF r1 key, of s2 "the body"] by (cases e) (auto simp: writeOK_def ready_def)
    have "wp (do { t \<leftarrow> now (ttEnv T); r \<leftarrow> stCreateSignature S (newSignature T res key b n t VerificationStoredOnly); ret (Inr r) }) ?sub s2"
      if "e = None"
      using w v key that
      by (intro now_sign_stored [OF r2, where key = key and body = b] stored_backedBy)
        (auto simp: writeOK_def same_def AList.update_conv' newSignature_def)
    then show "wp (if e \<noteq> None then ret (Inl (writeErr 500 ''store''))
        else do { t \<leftarrow> now (ttEnv T); r \<leftarrow> stCreateSignature S (newSignature T res key b n t VerificationStoredOnly); ret (Inr r) }) ?sub s2"
      using failed_backed [OF r2] by simp
  qed
qed

abbreviation records_backed :: "tlib \<Rightarrow> Config \<Rightarrow> server \<Rightarrow> bool" where
  "records_backed lib cfg s \<equiv> invar s \<and> backed lib cfg (svTables s)"

lemma complete_backed:
  assumes rel: reliable and T: "ttStore T = S" and s: "invar s" "recorded lib cfg res g (svTables s)"
  shows "wp (do { _ \<leftarrow> stSetReservationStatus S (rsPublicID res) ReservationAccepted;
      audit T ''signature.submit'' c (rsDeviceID res) ''accept'' what; discardOpt u; ret rep }) (\<lambda>_. records_backed lib cfg) s"
proof (subst wp_bind, rule wp_mono [OF set_reservation_status [OF s(1)]])
  fix e s1
  assume w: "changeOK invar reliable tbReservations tbReservations_update (rsPublicID res) (\<lambda>a b. b = a\<lparr>rsStatus := ReservationAccepted\<rparr>) s e s1"
  have "map_of (tbReservations (svTables s)) (rsPublicID res) = Some res" using s(2) unfolding recorded_def by auto
  then have "svTables s1 = tbReservations_update (AList.update (rsPublicID res) (res\<lparr>rsStatus := ReservationAccepted\<rparr>)) (svTables s)" "invar s1"
    using w rel by (auto simp: changeOK_def split: if_splits)
  then show "wp (do { audit T ''signature.submit'' c (rsDeviceID res) ''accept'' what; discardOpt u; ret rep })
      (\<lambda>_. records_backed lib cfg) s1"
    using recorded_complete [OF s(2)] by (intro keeps_backed runs_intros T) simp_all
qed

lemma tier_backed:
  assumes r: "ready (ttLib T) (ttCfg T) res s" and T: "ttStore T = S" and k: "keyFor (rsPublicID res) key"
  shows "wp (submitTier T c res key b n u) (submitted (ttLib T) (ttCfg T) res) s"
proof -
  have "wp (do { body \<leftarrow> readSource T b u; submitVerified T c res key body }) (submitted (ttLib T) (ttCfg T) res) s"
    using r by (subst wp_bind, intro wp_mono [OF same_readSource])
      (auto simp: same_def ready_def intro!: submitVerified_backed [OF ready_same [OF r] T k])
  then show ?thesis using submitStored_backed [OF r T k] by (simp add: submitTier_def)
qed

lemma finish_backed:
  assumes rel: reliable and T: "ttStore T = S" and s: "submitted lib cfg res r s"
  shows "wp (finishSubmit T c res u r) (\<lambda>_. records_backed lib cfg) s"
  unfolding finishSubmit_def T
  using s complete_backed [OF rel T] by (auto simp: submitted_def wp_return split: sum.splits option.splits)

lemma submitBody_backed:
  assumes rel: reliable and T: "ttStore T = S" and s: "ready (ttLib T) (ttCfg T) res s"
  shows "wp (submitBody T c res up rd) (\<lambda>_. records_backed (ttLib T) (ttCfg T)) s"
  unfolding submitBody_def
proof (subst wp_bind, rule wp_mono [OF same_signedInput], use s in \<open>simp add: ready_def\<close>)
  fix inp :: "input_err + bytes \<times> int \<times> uploadSession option" and s1
  assume v: "same s (\<lambda>_. True) inp s1"
  have r1: "ready (ttLib T) (ttCfg T) res s1" using ready_same [OF s] v by (simp add: same_def)
  have key: "wp (do { key \<leftarrow> objectKey T (rsPublicID res); r \<leftarrow> submitTier T c res key b n u; finishSubmit T c res u r })
      (\<lambda>_. records_backed (ttLib T) (ttCfg T)) s1" for b n u
    using r1
    by (subst wp_bind, intro wp_mono [OF same_objectKey], simp add: ready_def, subst wp_bind)
      (intro wp_mono [OF tier_backed [OF ready_same T]] finish_backed [OF rel T]; simp add: same_def)
  show "wp (case inp of
      Inl e \<Rightarrow> ret (inputErrReply e)
    | Inr (b, n, u) \<Rightarrow> do { key \<leftarrow> objectKey T (rsPublicID res); r \<leftarrow> submitTier T c res key b n u; finishSubmit T c res u r })
      (\<lambda>_. records_backed (ttLib T) (ttCfg T)) s1"
    using key r1 by (auto simp: ready_def wp_return split: sum.splits)
qed

lemma submit_backed:
  assumes rel: reliable and T: "ttStore T = S" and s: "records_backed (ttLib T) (ttCfg T) s"
  shows "wp (hSubmitDocument T c i up rd) (\<lambda>_. records_backed (ttLib T) (ttCfg T)) s"
  unfolding hSubmitDocument_def T
proof (subst wp_bind, rule wp_mono [OF reservation], use s in simp)
  let ?ok = "records_backed (ttLib T) (ttCfg T)"
  fix x s1 assume v: "readOK invar s (\<lambda>xe t. found reliable (map_of (tbReservations t) i) xe) x s1"
  obtain res err where x: "x = (res, err)" by (cases x)
  have s1: "?ok s1" using s v by (simp add: readOK_def)
  have res: "map_of (tbReservations (svTables s1)) (rsPublicID res) = Some res" if "err = None"
    using that v x wf_keyed(5) [OF inv_wf, of s i res] s by (auto simp: readOK_def found_def)
  have body: "wp (submitBody T c res up rd) (\<lambda>_. ?ok) s2"
    if "err = None" "?ok s2" "svTables s2 = svTables s1" "map_of (tbSignatures (svTables s1)) (rsPublicID res) = None" for s2
    using res that by (intro submitBody_backed [OF rel T]) (simp add: ready_def)
  have fresh: "map_of (tbSignatures (svTables s1)) (rsPublicID res) = None" if "err = None" "rsStatus res \<noteq> ReservationAccepted"
    using res that s1 by (cases "map_of (tbSignatures (svTables s1)) (rsPublicID res)") (auto simp: backedBy_def elim: backedD)
  have again: "wp (do { (sig, err) \<leftarrow> stSignature S (rsPublicID res);
      if err = None then ret (submissionResult sig) else submitBody T c res up rd }) (\<lambda>_. ?ok) s1" if "err = None"
  proof (subst wp_bind, rule wp_mono [OF signature], use s1 in simp)
    fix y s2 assume y: "readOK invar s1 (\<lambda>xe t. found reliable (map_of (tbSignatures t) (rsPublicID res)) xe) y s2"
    then show "wp (case y of (sig, err) \<Rightarrow> if err = None then ret (submissionResult sig) else submitBody T c res up rd) (\<lambda>_. ?ok) s2"
      using body [of s2] s1 that rel by (cases y) (auto simp: readOK_def found_def wp_return)
  qed
  show "wp (case x of (res, err) \<Rightarrow>
      if err \<noteq> None \<or> rsAccountID res \<noteq> Sub c then ret (writeErr 404 ''reservation not found'')
      else if rsStatus res = ReservationAccepted then
        do { (sig, err) \<leftarrow> stSignature S (rsPublicID res);
             if err = None then ret (submissionResult sig) else submitBody T c res up rd }
      else submitBody T c res up rd) (\<lambda>_. ?ok) s1"
    using again body [of s1] fresh s1 by (simp add: x wp_return)
qed

lemma serve_backed:
  assumes rel: reliable and T: "ttStore T = S" and s: "records_backed (ttLib T) (ttCfg T) s"
  shows "wp (serve T r) (\<lambda>_. records_backed (ttLib T) (ttCfg T)) s"
proof (cases "\<exists>hdr i up rd. r = User hdr (SubmitDocument i up rd)")
  case True
  then obtain hdr i up rd where r: "r = User hdr (SubmitDocument i up rd)" by blast
  have tick: "records_backed lib cfg (s'\<lparr>svTick := Suc (svTick s')\<rparr>)" if "records_backed lib cfg s'" for lib cfg s'
    using that by (auto intro: inv_frame)
  have "wp (limit T ls k (hSubmitDocument T c i up rd)) (\<lambda>_. records_backed (ttLib T) (ttCfg T)) s'"
    if "records_backed (ttLib T) (ttCfg T) s'" for s' c ls k
    unfolding limit_def wp_bind wp_draw using tick [OF that] submit_backed [OF rel T] by (simp add: wp_return)
  then show ?thesis
    using s tick [OF s] by (simp add: r authed_def parseToken_def Let_def wp_bind wp_now wp_return split: option.splits)
next
  case False
  then show ?thesis using s by (intro keeps_backed quiet.keeps_serve [OF T]) auto
qed

end

end
