(* ===== verification/TTD_Memory.thy ===== *)
theory TTD_Memory
  imports TTD_Interface
begin

text \<open>
  The in-memory store, \<^verbatim>\<open>ttd/server/internal/store/memory.go\<close>: one definition per method, collected in \<open>memoryStore\<close>.
  The mutex makes each method one step of the model.
\<close>

definition NewMemory :: server where
  "NewMemory = \<lparr>svTick = 0, svTables = \<lparr>tbAccounts = [], tbDevices = [], tbEnrollments = [], tbCertificates = [],
     tbReservations = [], tbSignatures = [], tbAudit = [], tbObjects = [], tbSuper = []\<rparr>, svByEmail = [], svCRL = [],
     svUploads = [], svFiles = []\<rparr>"

text \<open>A lookup, and an update that reports a missing key.\<close>

definition memLookup :: "(tables \<Rightarrow> (string \<times> 'a) list) \<Rightarrow> 'a \<Rightarrow> string \<Rightarrow> ('a \<times> err) act" where
  "memLookup tb zero i =
     readTables (\<lambda>t. case map_of (tb t) i of None \<Rightarrow> (zero, Some ErrNotFound) | Some x \<Rightarrow> (x, None))"

definition memChange ::
  "(tables \<Rightarrow> (string \<times> 'a) list) \<Rightarrow> (((string \<times> 'a) list \<Rightarrow> (string \<times> 'a) list) \<Rightarrow> tables \<Rightarrow> tables) \<Rightarrow>
   string \<Rightarrow> ('a \<Rightarrow> 'a) \<Rightarrow> err act" where
  "memChange tb upd i f =
     do { x \<leftarrow> readTables (\<lambda>t. map_of (tb t) i);
          (case x of
             None \<Rightarrow> ret (Some ErrNotFound)
           | Some a \<Rightarrow> do { onTables (upd (AList.update i (f a))); ret None }) }"

section \<open>Accounts\<close>

definition memCreateAccount :: "tenv \<Rightarrow> Account \<Rightarrow> (Account \<times> err) act" where
  "memCreateAccount E a =
     do { s \<leftarrow> getS;
          if map_of (svByEmail s) (acEmail a) \<noteq> None then ret (zeroAccount, Some ErrEmailRegistered)
          else do {
            i \<leftarrow> (if acID a = [] then newID E ''acct'' else ret (acID a));
            t \<leftarrow> now E;
            let a = a\<lparr>acID := i, acRole := (if acRole a = [] then RoleUser else acRole a),
                       acStatus := (if acStatus a = [] then AccountActive else acStatus a), acCreatedAt := t\<rparr>;
            onTables (tbAccounts_update (AList.update i a));
            modify (\<lambda>s. s\<lparr>svByEmail := AList.update (acEmail a) i (svByEmail s)\<rparr>);
            ret (a, None) } }"

definition memListAccounts :: "tenv \<Rightarrow> Account list act" where
  "memListAccounts E = readTables (\<lambda>t. sort_key acCreatedAt (rangeOf E (tbAccounts t)))"

definition memSetAccountStatus :: "string \<Rightarrow> string \<Rightarrow> err act" where
  "memSetAccountStatus i status = memChange tbAccounts tbAccounts_update i (\<lambda>a. a\<lparr>acStatus := status\<rparr>)"

definition memUpdateAccountProfile :: "string \<Rightarrow> string \<Rightarrow> string \<Rightarrow> err act" where
  "memUpdateAccountProfile i fullName org =
     memChange tbAccounts tbAccounts_update i (\<lambda>a. a\<lparr>acFullName := fullName, acOrganization := org\<rparr>)"

definition memSetAccountPassword :: "string \<Rightarrow> string \<Rightarrow> err act" where
  "memSetAccountPassword i passwordHash =
     memChange tbAccounts tbAccounts_update i (\<lambda>a. a\<lparr>acPasswordHash := passwordHash\<rparr>)"

definition memDeleteAccount :: "string \<Rightarrow> err act" where
  "memDeleteAccount i =
     do { x \<leftarrow> readTables (\<lambda>t. map_of (tbAccounts t) i);
          (case x of
             None \<Rightarrow> ret (Some ErrNotFound)
           | Some a \<Rightarrow>
               do { onTables (tbAccounts_update (AList.delete i));
                    modify (\<lambda>s. s\<lparr>svByEmail := AList.delete (acEmail a) (svByEmail s)\<rparr>);
                    ret None }) }"

text \<open>A Go map yields the zero value for a missing key.\<close>

definition memAccountByEmail :: "string \<Rightarrow> (Account \<times> err) act" where
  "memAccountByEmail email =
     do { s \<leftarrow> getS;
          ret (case map_of (svByEmail s) email of
                 None \<Rightarrow> (zeroAccount, Some ErrNotFound)
               | Some i \<Rightarrow> (case map_of (tbAccounts (svTables s)) i of None \<Rightarrow> zeroAccount | Some a \<Rightarrow> a, None)) }"

definition memAccount :: "string \<Rightarrow> (Account \<times> err) act" where
  "memAccount i = memLookup tbAccounts zeroAccount i"

section \<open>Devices and enrollments\<close>

definition memCreateDevice :: "tenv \<Rightarrow> Device \<Rightarrow> (Device \<times> err) act" where
  "memCreateDevice E d =
     do { i \<leftarrow> (if dvID d = [] then newID E ''dev'' else ret (dvID d));
          t \<leftarrow> now E;
          let d = d\<lparr>dvID := i, dvStatus := (if dvStatus d = [] then DeviceActive else dvStatus d), dvCreatedAt := t\<rparr>;
          onTables (tbDevices_update (AList.update i d));
          ret (d, None) }"

definition memDevice :: "string \<Rightarrow> (Device \<times> err) act" where
  "memDevice i = memLookup tbDevices zeroDevice i"

definition memSetDeviceStatus :: "string \<Rightarrow> string \<Rightarrow> err act" where
  "memSetDeviceStatus i status = memChange tbDevices tbDevices_update i (\<lambda>d. d\<lparr>dvStatus := status\<rparr>)"

definition memDevicesByAccount :: "tenv \<Rightarrow> string \<Rightarrow> Device list act" where
  "memDevicesByAccount E accountID =
     readTables (\<lambda>t. sort_key dvCreatedAt (filter (\<lambda>d. dvAccountID d = accountID) (rangeOf E (tbDevices t))))"

definition memCreateEnrollment :: "tenv \<Rightarrow> Enrollment \<Rightarrow> (Enrollment \<times> err) act" where
  "memCreateEnrollment E e =
     do { i \<leftarrow> (if enrID e = [] then newID E ''enr'' else ret (enrID e));
          t \<leftarrow> now E;
          let e = e\<lparr>enrID := i, enrStatus := (if enrStatus e = [] then EnrollmentSubmitted else enrStatus e),
                     enrCreatedAt := t\<rparr>;
          onTables (tbEnrollments_update (AList.update i e));
          ret (e, None) }"

definition memEnrollment :: "string \<Rightarrow> (Enrollment \<times> err) act" where
  "memEnrollment i = memLookup tbEnrollments zeroEnrollment i"

text \<open>The latest row by a strictly later time, in the order of the range.\<close>

definition latestOf :: "('a \<Rightarrow> int) \<Rightarrow> 'a list \<Rightarrow> 'a option" where
  "latestOf f xs = foldl (\<lambda>b x. case b of None \<Rightarrow> Some x | Some l \<Rightarrow> if f x > f l then Some x else b) None xs"

definition memEnrollmentByDevice :: "tenv \<Rightarrow> string \<Rightarrow> (Enrollment \<times> err) act" where
  "memEnrollmentByDevice E deviceID =
     readTables (\<lambda>t. case latestOf enrCreatedAt (filter (\<lambda>e. enrDeviceID e = deviceID) (rangeOf E (tbEnrollments t))) of
        None \<Rightarrow> (zeroEnrollment, Some ErrNotFound) | Some e \<Rightarrow> (e, None))"

definition memListEnrollments :: "tenv \<Rightarrow> Enrollment list act" where
  "memListEnrollments E = readTables (\<lambda>t. sort_key enrCreatedAt (rangeOf E (tbEnrollments t)))"

definition memSetEnrollmentStatus :: "string \<Rightarrow> string \<Rightarrow> err act" where
  "memSetEnrollmentStatus i status = memChange tbEnrollments tbEnrollments_update i (\<lambda>e. e\<lparr>enrStatus := status\<rparr>)"

section \<open>Certificates\<close>

definition memCreateCertificate :: "tenv \<Rightarrow> Certificate \<Rightarrow> (Certificate \<times> err) act" where
  "memCreateCertificate E c =
     do { i \<leftarrow> (if ceID c = [] then newID E ''cert'' else ret (ceID c));
          let c = c\<lparr>ceID := i, ceStatus := (if ceStatus c = [] then CertActive else ceStatus c)\<rparr>;
          onTables (tbCertificates_update (AList.update i c));
          ret (c, None) }"

definition memCertificate :: "string \<Rightarrow> (Certificate \<times> err) act" where
  "memCertificate i = memLookup tbCertificates zeroCertificate i"

definition memCertificateByDevice :: "tenv \<Rightarrow> string \<Rightarrow> (Certificate \<times> err) act" where
  "memCertificateByDevice E deviceID =
     readTables (\<lambda>t. case latestOf ceNotBefore (filter (\<lambda>c. ceDeviceID c = deviceID) (rangeOf E (tbCertificates t))) of
        None \<Rightarrow> (zeroCertificate, Some ErrNotFound) | Some c \<Rightarrow> (c, None))"

definition memCertificatesByAccount :: "tenv \<Rightarrow> string \<Rightarrow> Certificate list act" where
  "memCertificatesByAccount E accountID =
     readTables (\<lambda>t. sort_key ceNotBefore (filter (\<lambda>c. ceAccountID c = accountID) (rangeOf E (tbCertificates t))))"

definition memCertificateBySerial :: "tenv \<Rightarrow> string \<Rightarrow> (Certificate \<times> err) act" where
  "memCertificateBySerial E serial =
     readTables (\<lambda>t. case find (\<lambda>c. ceSerial c = serial) (rangeOf E (tbCertificates t)) of
        None \<Rightarrow> (zeroCertificate, Some ErrNotFound) | Some c \<Rightarrow> (c, None))"

definition memRevokeCertificate :: "tenv \<Rightarrow> string \<Rightarrow> string \<Rightarrow> err act" where
  "memRevokeCertificate E i reason =
     do { t \<leftarrow> now E;
          memChange tbCertificates tbCertificates_update i
            (\<lambda>c. c\<lparr>ceStatus := CertRevoked, ceRevokedAt := t, ceRevReason := reason\<rparr>) }"

section \<open>Reservations and signatures\<close>

definition memCreateReservation :: "tenv \<Rightarrow> Reservation \<Rightarrow> (Reservation \<times> err) act" where
  "memCreateReservation E r =
     do { i \<leftarrow> (if rsPublicID r = [] then newID E ''sig'' else ret (rsPublicID r));
          t \<leftarrow> now E;
          let r = r\<lparr>rsPublicID := i, rsStatus := (if rsStatus r = [] then ReservationReserved else rsStatus r),
                     rsCreatedAt := t\<rparr>;
          onTables (tbReservations_update (AList.update i r));
          ret (r, None) }"

definition memReservation :: "string \<Rightarrow> (Reservation \<times> err) act" where
  "memReservation i = memLookup tbReservations zeroReservation i"

definition memSetReservationStatus :: "string \<Rightarrow> string \<Rightarrow> err act" where
  "memSetReservationStatus i status = memChange tbReservations tbReservations_update i (\<lambda>r. r\<lparr>rsStatus := status\<rparr>)"

definition memCreateSignature :: "tenv \<Rightarrow> Signature \<Rightarrow> (Signature \<times> err) act" where
  "memCreateSignature E g =
     do { x \<leftarrow> readTables (\<lambda>t. map_of (tbSignatures t) (sgPublicID g));
          if x \<noteq> None then ret (zeroSignature, Some (ErrSignatureExists (sgPublicID g)))
          else do {
            t \<leftarrow> now E;
            let g = g\<lparr>sgCreatedAt := t\<rparr>;
            onTables (tbSignatures_update (AList.update (sgPublicID g) g));
            ret (g, None) } }"

definition memSignature :: "string \<Rightarrow> (Signature \<times> err) act" where
  "memSignature i = memLookup tbSignatures zeroSignature i"

definition memSignaturesByAccount :: "tenv \<Rightarrow> string \<Rightarrow> Signature list act" where
  "memSignaturesByAccount E accountID =
     readTables (\<lambda>t. sort_key (\<lambda>g. - sgCreatedAt g) (filter (\<lambda>g. sgAccountID g = accountID) (rangeOf E (tbSignatures t))))"

section \<open>Objects, audit, security rows\<close>

definition memPutObject :: "string \<Rightarrow> bytes \<Rightarrow> err act" where
  "memPutObject key data = do { onTables (tbObjects_update (AList.update key data)); ret None }"

definition memGetObject :: "string \<Rightarrow> (bytes \<times> err) act" where
  "memGetObject key = memLookup tbObjects [] key"

text \<open>The reader is what it yields, \<open>None\<close> when reading fails.\<close>

definition memPutObjectFrom :: "string \<Rightarrow> bytes option \<Rightarrow> int \<Rightarrow> err act" where
  "memPutObjectFrom key r sz = (case r of None \<Rightarrow> ret (Some ErrDB) | Some b \<Rightarrow> memPutObject key b)"

definition memAppend :: "tenv \<Rightarrow> AuditEvent \<Rightarrow> unit act" where
  "memAppend E ev =
     do { i \<leftarrow> newID E ''evt'';
          t \<leftarrow> now E;
          onTables (tbAudit_update (\<lambda>a. a @ [ev\<lparr>auID := i, auTime := t\<rparr>])) }"

definition memAuditEvents :: "int \<Rightarrow> AuditEvent list act" where
  "memAuditEvents limit =
     readTables (\<lambda>t. let n = length (tbAudit t); l = (if limit \<le> 0 \<or> limit > int n then n else nat limit)
       in drop (n - l) (tbAudit t))"

definition memSuperSecurity :: "string \<Rightarrow> (SuperSecurity \<times> err) act" where
  "memSuperSecurity i = memLookup tbSuper zeroSecurity i"

definition memPutSuperSecurity :: "SuperSecurity \<Rightarrow> err act" where
  "memPutSuperSecurity x = do { onTables (tbSuper_update (AList.update (ssAccountID x) x)); ret None }"

definition memoryStore :: "tenv \<Rightarrow> Store" where
  "memoryStore E = \<lparr>
     stCreateAccount = memCreateAccount E, stAccountByEmail = memAccountByEmail, stAccount = memAccount,
     stListAccounts = memListAccounts E, stSetAccountStatus = memSetAccountStatus,
     stUpdateAccountProfile = memUpdateAccountProfile, stSetAccountPassword = memSetAccountPassword,
     stDeleteAccount = memDeleteAccount, stSuperSecurity = memSuperSecurity, stPutSuperSecurity = memPutSuperSecurity,
     stCreateDevice = memCreateDevice E, stDevice = memDevice, stSetDeviceStatus = memSetDeviceStatus,
     stDevicesByAccount = memDevicesByAccount E, stCreateEnrollment = memCreateEnrollment E, stEnrollment = memEnrollment,
     stListEnrollments = memListEnrollments E, stSetEnrollmentStatus = memSetEnrollmentStatus,
     stCreateCertificate = memCreateCertificate E, stCertificate = memCertificate,
     stCertificateByDevice = memCertificateByDevice E, stCertificateBySerial = memCertificateBySerial E,
     stCertificatesByAccount = memCertificatesByAccount E, stRevokeCertificate = memRevokeCertificate E,
     stCreateReservation = memCreateReservation E, stReservation = memReservation,
     stSetReservationStatus = memSetReservationStatus, stCreateSignature = memCreateSignature E,
     stSignature = memSignature, stSignaturesByAccount = memSignaturesByAccount E, stPutObject = memPutObject,
     stGetObject = memGetObject, stPutObjectFrom = memPutObjectFrom, stAppend = memAppend E,
     stAuditEvents = memAuditEvents\<rparr>"

section \<open>The invariant\<close>

text \<open>
  Generated ids do not repeat, a range visits every key once, the e-mail index is exact, and every key was
  generated earlier.
\<close>

definition uniqueIDs :: "tenv \<Rightarrow> bool" where
  "uniqueIDs E \<longleftrightarrow> (\<forall>j k. hexEncode (teRand E j 12) = hexEncode (teRand E k 12) \<longrightarrow> j = k)"

definition iterates :: "tenv \<Rightarrow> bool" where
  "iterates E \<longleftrightarrow> (\<forall>ks. set (teIter E ks) = set ks)"

definition idAt :: "tenv \<Rightarrow> string \<Rightarrow> nat \<Rightarrow> string" where
  "idAt E prefix k = prefix @ ''_'' @ hexEncode (teRand E k 12)"

definition minted :: "tenv \<Rightarrow> nat \<Rightarrow> string \<Rightarrow> (string \<times> 'a) list \<Rightarrow> bool" where
  "minted E tick prefix m \<longleftrightarrow> (\<forall>i \<in> dom (map_of m). \<exists>k < tick. i = idAt E prefix k)"

definition emailIndex :: "(string \<rightharpoonup> string) \<Rightarrow> (string \<rightharpoonup> Account) \<Rightarrow> bool" where
  "emailIndex idx m \<longleftrightarrow> (\<forall>e i. idx e = Some i \<longleftrightarrow> (\<exists>a. m i = Some a \<and> acEmail a = e))"

definition memInv :: "tenv \<Rightarrow> server \<Rightarrow> bool" where
  "memInv E s \<longleftrightarrow>
     uniqueIDs E \<and> iterates E \<and> tables_wf (svTables s) \<and> emailIndex (map_of (svByEmail s)) (map_of (tbAccounts (svTables s))) \<and>
     minted E (svTick s) ''acct'' (tbAccounts (svTables s)) \<and> minted E (svTick s) ''dev'' (tbDevices (svTables s)) \<and>
     minted E (svTick s) ''enr'' (tbEnrollments (svTables s)) \<and> minted E (svTick s) ''cert'' (tbCertificates (svTables s)) \<and>
     minted E (svTick s) ''sig'' (tbReservations (svTables s))"

lemma wp_newID [wp_simps]: "wp (newID E prefix) Q s = Q (idAt E prefix (svTick s)) (s\<lparr>svTick := Suc (svTick s)\<rparr>)"
  by (simp add: newID_def wp_simps idAt_def)

lemma emailIndex_change:
  assumes "emailIndex idx m" "m i = Some a" "acEmail b = acEmail a"
  shows "emailIndex idx (m(i \<mapsto> b))"
  unfolding emailIndex_def
proof (intro allI)
  fix e j
  show "idx e = Some j \<longleftrightarrow> (\<exists>c. (m(i \<mapsto> b)) j = Some c \<and> acEmail c = e)"
    using assms unfolding emailIndex_def by (cases "j = i") auto
qed

lemma emailIndex_new:
  assumes "emailIndex idx m" "m i = None" "idx (acEmail a) = None"
  shows "emailIndex (idx(acEmail a \<mapsto> i)) (m(i \<mapsto> a))"
  unfolding emailIndex_def
proof (intro allI)
  fix e j
  have "idx e \<noteq> Some i" using assms(1,2) unfolding emailIndex_def by auto
  moreover have iff: "idx e = Some j \<longleftrightarrow> (\<exists>c. m j = Some c \<and> acEmail c = e)" for e j using assms(1) unfolding emailIndex_def by blast
  moreover have "\<nexists>c. m j = Some c \<and> acEmail c = acEmail a" using iff [of "acEmail a" j] assms(3) by simp
  ultimately show "(idx(acEmail a \<mapsto> i)) e = Some j \<longleftrightarrow> (\<exists>c. (m(i \<mapsto> a)) j = Some c \<and> acEmail c = e)"
    using assms(2) by (cases "j = i"; cases "e = acEmail a") auto
qed

lemma emailIndex_delete:
  assumes "emailIndex idx m" "m i = Some a"
  shows "emailIndex (idx(acEmail a := None)) (m(i := None))"
  unfolding emailIndex_def
proof (intro allI)
  fix e j
  have "idx (acEmail a) = Some i" using assms unfolding emailIndex_def by auto
  moreover have "idx e = Some j \<longleftrightarrow> (\<exists>c. m j = Some c \<and> acEmail c = e)" using assms(1) unfolding emailIndex_def by blast
  ultimately show "(idx(acEmail a := None)) e = Some j \<longleftrightarrow> (\<exists>c. (m(i := None)) j = Some c \<and> acEmail c = e)"
    using assms(2) by (cases "j = i"; cases "e = acEmail a") auto
qed

lemma minted_later: "minted E k p m \<Longrightarrow> k \<le> k' \<Longrightarrow> minted E k' p m"
  unfolding minted_def by (meson less_le_trans)

lemma minted_update: "minted E k p m \<Longrightarrow> i = idAt E p j \<Longrightarrow> j < k \<Longrightarrow> minted E k p (AList.update i x m)"
  unfolding minted_def AList.update_conv' by auto

lemma minted_change: "minted E k p m \<Longrightarrow> map_of m i = Some a \<Longrightarrow> minted E k p (AList.update i x m)"
  unfolding minted_def AList.update_conv' by auto

lemma minted_delete: "minted E k p m \<Longrightarrow> minted E k p (AList.delete i m)"
  unfolding minted_def AList.delete_conv' by auto

lemma minted_fresh: "uniqueIDs E \<Longrightarrow> minted E k p m \<Longrightarrow> map_of m (idAt E p k) = None"
proof (rule ccontr)
  assume a: "uniqueIDs E" "minted E k p m" "map_of m (idAt E p k) \<noteq> None"
  then obtain j where "j < k" "idAt E p k = idAt E p j" unfolding minted_def by blast
  then show False using a(1) by (auto simp: uniqueIDs_def idAt_def)
qed

lemma idAt_nonempty: "idAt E p k \<noteq> []"
  by (simp add: idAt_def)

lemma hexEncode_slash: "CHR ''/'' \<notin> set (hexEncode bs)"
proof -
  have "hexDigit n \<noteq> CHR ''/''" if "n < 16" for n
  proof -
    have "code (hexDigit n) \<noteq> 47" using that by (simp add: hexDigit_def)
    then show ?thesis by (auto simp: code_def)
  qed
  note digit = this
  have "x \<noteq> CHR ''/''" if "x \<in> set (hexEncode bs)" for x
  proof -
    obtain c where "x = hexDigit (code c div 16) \<or> x = hexDigit (code c mod 16)"
      using \<open>x \<in> set (hexEncode bs)\<close> by (auto simp: hexEncode_def)
    moreover have "code c div 16 < 16" "code c mod 16 < 16" using code_less [of c] by linarith+
    ultimately show ?thesis using digit by metis
  qed
  then show ?thesis by blast
qed

lemma idAt_slash: "CHR ''/'' \<notin> set p \<Longrightarrow> CHR ''/'' \<notin> set (idAt E p k)"
  using hexEncode_slash by (auto simp: idAt_def)

lemma memInv_frame:
  "memInv E s \<Longrightarrow> svTables s' = svTables s \<Longrightarrow> svByEmail s' = svByEmail s \<Longrightarrow> svTick s \<le> svTick s' \<Longrightarrow> memInv E s'"
  by (auto simp: memInv_def intro: minted_later)

lemma rangeOf_set:
  assumes "iterates E" "distinct (map fst m)"
  shows "set (rangeOf E m) = snd ` set m"
proof -
  have "set (rangeOf E m) = (\<lambda>k. the (map_of m k)) ` fst ` set m"
    using assms by (simp add: rangeOf_def iterates_def)
  also have "\<dots> = snd ` set m" using assms(2) by (force simp: image_image)
  finally show ?thesis .
qed

section \<open>Each method keeps the invariant and does what the interface says\<close>

lemmas ok_defs = readOK_def found_def changeOK_def createOK_def writeOK_def frame_def

lemma memLookup_OK:
  "memInv E s \<Longrightarrow> wp (memLookup tb zero i) (readOK (memInv E) s (\<lambda>xe t. found True (map_of (tb t) i) xe \<and> (snd xe \<noteq> None \<longrightarrow> fst xe = zero))) s"
  by (auto simp: memLookup_def wp_simps ok_defs split: option.splits)

lemma memRead_OK:
  "memInv E s \<Longrightarrow> P (f (svTables s)) (svTables s) \<Longrightarrow> wp (readTables f) (readOK (memInv E) s P) s"
  by (simp add: wp_simps ok_defs)

lemma memChange_OK:
  assumes "memInv E s"
    and "\<And>a. map_of (tb (svTables s)) i = Some a \<Longrightarrow> memInv E (s\<lparr>svTables := upd (AList.update i (f a)) (svTables s)\<rparr>)"
    and "\<And>a. R a (f a)"
  shows "wp (memChange tb upd i f) (changeOK (memInv E) True tb upd i R s) s"
  using assms by (auto simp: memChange_def wp_simps ok_defs split: option.splits)

lemma memInv_accounts_change:
  assumes "memInv E s" "map_of (tbAccounts (svTables s)) i = Some a" "acID b = acID a" "acEmail b = acEmail a" "acRole b = acRole a"
  shows "memInv E (s\<lparr>svTables := tbAccounts_update (AList.update i b) (svTables s)\<rparr>)"
  using assms emailIndex_change [where m = "map_of (tbAccounts (svTables s))", OF _ assms(2,4)]
  by (simp add: memInv_def wf_accounts_change minted_change AList.update_conv')

lemma memInv_others:
  assumes "memInv E s"
  shows "map_of (tbDevices (svTables s)) i = Some d \<Longrightarrow> dvID d' = dvID d \<Longrightarrow>
      memInv E (s\<lparr>svTables := tbDevices_update (AList.update i d') (svTables s)\<rparr>)"
    and "map_of (tbEnrollments (svTables s)) i = Some e \<Longrightarrow> enrID e' = enrID e \<Longrightarrow>
      memInv E (s\<lparr>svTables := tbEnrollments_update (AList.update i e') (svTables s)\<rparr>)"
    and "map_of (tbCertificates (svTables s)) i = Some c \<Longrightarrow> ceID c' = ceID c \<Longrightarrow>
      memInv E (s\<lparr>svTables := tbCertificates_update (AList.update i c') (svTables s)\<rparr>)"
    and "map_of (tbReservations (svTables s)) i = Some r \<Longrightarrow> rsPublicID r' = rsPublicID r \<Longrightarrow>
      memInv E (s\<lparr>svTables := tbReservations_update (AList.update i r') (svTables s)\<rparr>)"
    and "sgPublicID g = i \<Longrightarrow> memInv E (s\<lparr>svTables := tbSignatures_update (AList.update i g) (svTables s)\<rparr>)"
    and "ssAccountID x = i \<Longrightarrow> memInv E (s\<lparr>svTables := tbSuper_update (AList.update i x) (svTables s)\<rparr>)"
    and "memInv E (s\<lparr>svTables := tbObjects_update (AList.update i b) (svTables s)\<rparr>)"
    and "memInv E (s\<lparr>svTables := tbAudit_update l (svTables s)\<rparr>)"
  using assms
  by (auto simp: memInv_def minted_change wf_keyed intro!: wf_others dest: wf_reservation_id)

lemma memInv_new:
  assumes "memInv E s"
  shows "dvID d = idAt E ''dev'' (svTick s) \<Longrightarrow>
      memInv E (s\<lparr>svTick := Suc (Suc (svTick s)), svTables := tbDevices_update (AList.update (dvID d) d) (svTables s)\<rparr>)"
    and "enrID e = idAt E ''enr'' (svTick s) \<Longrightarrow>
      memInv E (s\<lparr>svTick := Suc (Suc (svTick s)), svTables := tbEnrollments_update (AList.update (enrID e) e) (svTables s)\<rparr>)"
    and "ceID c = idAt E ''cert'' (svTick s) \<Longrightarrow>
      memInv E (s\<lparr>svTick := Suc (svTick s), svTables := tbCertificates_update (AList.update (ceID c) c) (svTables s)\<rparr>)"
    and "rsPublicID r = idAt E ''sig'' (svTick s) \<Longrightarrow>
      memInv E (s\<lparr>svTick := Suc (Suc (svTick s)), svTables := tbReservations_update (AList.update (rsPublicID r) r) (svTables s)\<rparr>)"
proof -
  let ?n = "Suc (Suc (svTick s))" and ?m = "Suc (svTick s)"
  note facts = assms [unfolded memInv_def]
  show "dvID d = idAt E ''dev'' (svTick s) \<Longrightarrow>
      memInv E (s\<lparr>svTick := ?n, svTables := tbDevices_update (AList.update (dvID d) d) (svTables s)\<rparr>)"
    using facts by (simp add: memInv_def wf_others minted_later [of E "svTick s"] minted_update [OF minted_later [of E "svTick s"]])
  show "enrID e = idAt E ''enr'' (svTick s) \<Longrightarrow>
      memInv E (s\<lparr>svTick := ?n, svTables := tbEnrollments_update (AList.update (enrID e) e) (svTables s)\<rparr>)"
    using facts by (simp add: memInv_def wf_others minted_later [of E "svTick s"] minted_update [OF minted_later [of E "svTick s"]])
  show "ceID c = idAt E ''cert'' (svTick s) \<Longrightarrow>
      memInv E (s\<lparr>svTick := ?m, svTables := tbCertificates_update (AList.update (ceID c) c) (svTables s)\<rparr>)"
    using facts by (simp add: memInv_def wf_others minted_later [of E "svTick s"] minted_update [OF minted_later [of E "svTick s"]])
  show "rsPublicID r = idAt E ''sig'' (svTick s) \<Longrightarrow>
      memInv E (s\<lparr>svTick := ?n, svTables := tbReservations_update (AList.update (rsPublicID r) r) (svTables s)\<rparr>)"
    using facts idAt_slash [of "''sig''" E "svTick s"]
    by (simp add: memInv_def wf_others minted_later [of E "svTick s"] minted_update [OF minted_later [of E "svTick s"]])
qed

lemma memInv_account_new:
  assumes "memInv E s" "acID a = idAt E ''acct'' (svTick s)" "map_of (svByEmail s) (acEmail a) = None"
    and "acRole a \<in> {RoleUser, RoleAdmin, RoleSuperAdmin}" "acRole a = RoleSuperAdmin \<Longrightarrow> superAdmins (svTables s) = {}"
  shows "memInv E (s\<lparr>svTick := Suc (Suc (svTick s)), svTables := tbAccounts_update (AList.update (acID a) a) (svTables s),
    svByEmail := AList.update (acEmail a) (acID a) (svByEmail s)\<rparr>)" (is "memInv E ?s")
proof -
  have free: "map_of (tbAccounts (svTables s)) (acID a) = None"
    using assms(1,2) minted_fresh unfolding memInv_def by metis
  have mail: "acEmail b \<noteq> acEmail a" if "map_of (tbAccounts (svTables s)) j = Some b" for j b
    using assms(1,3) that unfolding memInv_def emailIndex_def by (metis option.simps(3))
  have "accounts_wf ((map_of (tbAccounts (svTables s)))(acID a \<mapsto> a))"
    using assms(1,4,5) free mail by (intro accounts_wf_new) (auto simp: memInv_def tables_wf_def superAdmins_def)
  then show ?thesis
    using assms(1,2) emailIndex_new [where m = "map_of (tbAccounts (svTables s))" and idx = "map_of (svByEmail s)", OF _ free assms(3)]
    by (simp add: memInv_def AList.update_conv' wf_accounts_update minted_later [of E "svTick s"] minted_update [OF minted_later [of E "svTick s"]])
qed

lemma memCreateAccount_OK:
  assumes "memInv E s" "newAccount a (svTables s)"
  shows "wp (memCreateAccount E a) (createOK (memInv E) tbAccounts tbAccounts_update acID
    (\<lambda>x. x = a\<lparr>acID := acID x, acCreatedAt := acCreatedAt x\<rparr>) s) s"
proof -
  have free: "map_of (tbAccounts (svTables s)) (idAt E ''acct'' (svTick s)) = None"
    using assms(1) minted_fresh unfolding memInv_def by metis
  have roles: "acRole a \<noteq> []" using assms(2) by (auto simp: newAccount_def role_defs)
  let ?a = "a\<lparr>acID := idAt E ''acct'' (svTick s), acCreatedAt := teNow E (Suc (svTick s))\<rparr>"
  show ?thesis
    using assms roles free memInv_account_new [of E s ?a]
    by (auto simp: memCreateAccount_def newAccount_def wp_simps ok_defs Let_def)
qed

lemma memDeleteAccount_OK:
  assumes "memInv E s"
  shows "wp (memDeleteAccount i) (\<lambda>e s'. memInv E s' \<and> frame s s' \<and> deletedAccount i (svTables s) e (svTables s')) s"
proof (cases "map_of (tbAccounts (svTables s)) i")
  case (Some a)
  have "memInv E (s\<lparr>svTables := tbAccounts_update (AList.delete i) (svTables s), svByEmail := AList.delete (acEmail a) (svByEmail s)\<rparr>)"
    using assms emailIndex_delete [where m = "map_of (tbAccounts (svTables s))", OF _ Some]
    by (simp add: memInv_def wf_accounts_delete minted_delete AList.delete_conv')
  then show ?thesis using Some by (simp add: memDeleteAccount_def wp_simps frame_def deletedAccount_cases)
qed (use assms in \<open>simp add: memDeleteAccount_def wp_simps frame_def deletedAccount_cases\<close>)

lemma memCreates_OK:
  assumes "memInv E s"
  shows "dvID d = [] \<Longrightarrow> dvStatus d = [] \<Longrightarrow> wp (memCreateDevice E d) (createOK (memInv E) tbDevices tbDevices_update dvID
      (\<lambda>x. x = d\<lparr>dvID := dvID x, dvStatus := DeviceActive, dvCreatedAt := dvCreatedAt x\<rparr>) s) s"
    and "enrID e = [] \<Longrightarrow> wp (memCreateEnrollment E e) (createOK (memInv E) tbEnrollments tbEnrollments_update enrID
      (\<lambda>x. x = e\<lparr>enrID := enrID x, enrStatus := enrStatus x, enrCreatedAt := enrCreatedAt x\<rparr>) s) s"
    and "ceID c = [] \<Longrightarrow> ceStatus c = CertActive \<Longrightarrow> wp (memCreateCertificate E c)
      (createOK (memInv E) tbCertificates tbCertificates_update ceID (\<lambda>x. x = c\<lparr>ceID := ceID x\<rparr>) s) s"
    and "rsPublicID r = [] \<Longrightarrow> rsStatus r = [] \<Longrightarrow> wp (memCreateReservation E r)
      (createOK (memInv E) tbReservations tbReservations_update rsPublicID
        (\<lambda>x. x = r\<lparr>rsPublicID := rsPublicID x, rsStatus := ReservationReserved, rsCreatedAt := rsCreatedAt x\<rparr>) s) s"
    and "wp (memCreateSignature E g) (createOK (memInv E) tbSignatures tbSignatures_update sgPublicID
        (\<lambda>x. x = g\<lparr>sgCreatedAt := sgCreatedAt x\<rparr>) s) s"
proof -
  have free: "map_of (tbDevices (svTables s)) (idAt E ''dev'' (svTick s)) = None"
    "map_of (tbEnrollments (svTables s)) (idAt E ''enr'' (svTick s)) = None"
    "map_of (tbCertificates (svTables s)) (idAt E ''cert'' (svTick s)) = None"
    "map_of (tbReservations (svTables s)) (idAt E ''sig'' (svTick s)) = None"
    using assms minted_fresh unfolding memInv_def by metis+
  note new = memInv_new [OF assms]
  show "dvID d = [] \<Longrightarrow> dvStatus d = [] \<Longrightarrow> wp (memCreateDevice E d) (createOK (memInv E) tbDevices tbDevices_update dvID
      (\<lambda>x. x = d\<lparr>dvID := dvID x, dvStatus := DeviceActive, dvCreatedAt := dvCreatedAt x\<rparr>) s) s"
    using free(1) new(1) [of "d\<lparr>dvID := idAt E ''dev'' (svTick s), dvStatus := DeviceActive, dvCreatedAt := teNow E (Suc (svTick s))\<rparr>"]
    by (simp add: memCreateDevice_def wp_simps ok_defs Let_def)
  show "enrID e = [] \<Longrightarrow> wp (memCreateEnrollment E e) (createOK (memInv E) tbEnrollments tbEnrollments_update enrID
      (\<lambda>x. x = e\<lparr>enrID := enrID x, enrStatus := enrStatus x, enrCreatedAt := enrCreatedAt x\<rparr>) s) s"
    using free(2) new(2) [of "e\<lparr>enrID := idAt E ''enr'' (svTick s),
      enrStatus := (if enrStatus e = [] then EnrollmentSubmitted else enrStatus e), enrCreatedAt := teNow E (Suc (svTick s))\<rparr>"]
    by (simp add: memCreateEnrollment_def wp_simps ok_defs Let_def)
  show "ceID c = [] \<Longrightarrow> ceStatus c = CertActive \<Longrightarrow> wp (memCreateCertificate E c)
      (createOK (memInv E) tbCertificates tbCertificates_update ceID (\<lambda>x. x = c\<lparr>ceID := ceID x\<rparr>) s) s"
    using free(3) new(3) [of "c\<lparr>ceID := idAt E ''cert'' (svTick s)\<rparr>"]
    by (cases c) (simp add: memCreateCertificate_def wp_simps ok_defs Let_def CertActive_def)
  show "rsPublicID r = [] \<Longrightarrow> rsStatus r = [] \<Longrightarrow> wp (memCreateReservation E r)
      (createOK (memInv E) tbReservations tbReservations_update rsPublicID
        (\<lambda>x. x = r\<lparr>rsPublicID := rsPublicID x, rsStatus := ReservationReserved, rsCreatedAt := rsCreatedAt x\<rparr>) s) s"
    using free(4) new(4) [of "r\<lparr>rsPublicID := idAt E ''sig'' (svTick s), rsStatus := ReservationReserved, rsCreatedAt := teNow E (Suc (svTick s))\<rparr>"]
    by (simp add: memCreateReservation_def wp_simps ok_defs Let_def)
  have "memInv E (s\<lparr>svTick := Suc (svTick s)\<rparr>)" by (rule memInv_frame [OF assms]) simp_all
  from memInv_others(5) [OF this, of "g\<lparr>sgCreatedAt := teNow E (svTick s)\<rparr>" "sgPublicID g"]
  show "wp (memCreateSignature E g) (createOK (memInv E) tbSignatures tbSignatures_update sgPublicID
        (\<lambda>x. x = g\<lparr>sgCreatedAt := sgCreatedAt x\<rparr>) s) s"
    using assms by (simp add: memCreateSignature_def wp_simps ok_defs Let_def)
qed

lemma latestOf_fold_in:
  "foldl (\<lambda>b x. case b of None \<Rightarrow> Some x | Some l \<Rightarrow> if f x > f l then Some x else b) b xs = Some y \<Longrightarrow>
   y \<in> set xs \<or> b = Some y"
  by (induction xs arbitrary: b) (fastforce split: option.splits if_splits)+

lemma latestOf_fold_None:
  "foldl (\<lambda>b x. case b of None \<Rightarrow> Some x | Some l \<Rightarrow> if f x > f l then Some x else b) b xs = None \<longleftrightarrow> xs = [] \<and> b = None"
  by (induction xs arbitrary: b) (auto split: option.splits)

lemma latestOf_in: "latestOf f xs = Some y \<Longrightarrow> y \<in> set xs"
  using latestOf_fold_in [of f None xs y] by (simp add: latestOf_def)

lemma latestOf_None: "latestOf f xs = None \<longleftrightarrow> xs = []"
  by (simp add: latestOf_def latestOf_fold_None)

lemma mem_rangeOf:
  assumes "iterates E" "tables_wf t"
  shows "a \<in> set (rangeOf E (tbAccounts t)) \<longleftrightarrow> map_of (tbAccounts t) (acID a) = Some a"
    and "d \<in> set (rangeOf E (tbDevices t)) \<longleftrightarrow> map_of (tbDevices t) (dvID d) = Some d"
    and "c \<in> set (rangeOf E (tbCertificates t)) \<longleftrightarrow> map_of (tbCertificates t) (ceID c) = Some c"
proof -
  have in_range: "x \<in> set (rangeOf E m) \<longleftrightarrow> map_of m (key x) = Some x" if "keyed key m" for key x and m :: "(string \<times> 'x) list"
    using that rangeOf_set [OF assms(1), of m] keyed_set [OF that] by (force simp: keyed_def image_iff)
  show "a \<in> set (rangeOf E (tbAccounts t)) \<longleftrightarrow> map_of (tbAccounts t) (acID a) = Some a"
    and "d \<in> set (rangeOf E (tbDevices t)) \<longleftrightarrow> map_of (tbDevices t) (dvID d) = Some d"
    and "c \<in> set (rangeOf E (tbCertificates t)) \<longleftrightarrow> map_of (tbCertificates t) (ceID c) = Some c"
    using assms(2) by (simp_all add: in_range tables_wf_def)
qed

lemma find_range:
  "find P xs = None \<longleftrightarrow> (\<forall>x \<in> set xs. \<not> P x)" "find P xs = Some y \<Longrightarrow> y \<in> set xs \<and> P y"
  by (auto simp: find_None_iff find_Some_iff)

lemma memQueries_OK:
  assumes "memInv E s"
  shows "wp (memAccountByEmail email) (readOK (memInv E) s (\<lambda>xe t.
      if snd xe = None then map_of (tbAccounts t) (acID (fst xe)) = Some (fst xe) \<and> acEmail (fst xe) = email
      else True \<longrightarrow> (\<forall>i a. map_of (tbAccounts t) i = Some a \<longrightarrow> acEmail a \<noteq> email))) s"
    and "wp (memListAccounts E) (readOK (memInv E) s (\<lambda>xs t. True \<longrightarrow> set xs = snd ` set (tbAccounts t))) s"
    and "wp (memDevicesByAccount E i) (readOK (memInv E) s (\<lambda>xs t.
      (\<forall>d \<in> set xs. dvAccountID d = i \<and> map_of (tbDevices t) (dvID d) = Some d) \<and>
      (True \<longrightarrow> (\<forall>k d. map_of (tbDevices t) k = Some d \<longrightarrow> dvAccountID d = i \<longrightarrow> d \<in> set xs)))) s"
    and "wp (memCertificateByDevice E dev) (readOK (memInv E) s (\<lambda>xe t.
      if snd xe = None then map_of (tbCertificates t) (ceID (fst xe)) = Some (fst xe) \<and> ceDeviceID (fst xe) = dev
      else True \<longrightarrow> (\<forall>k c. map_of (tbCertificates t) k = Some c \<longrightarrow> ceDeviceID c \<noteq> dev))) s"
    and "wp (memCertificateBySerial E serial) (readOK (memInv E) s (\<lambda>xe t.
      if snd xe = None then map_of (tbCertificates t) (ceID (fst xe)) = Some (fst xe) \<and> ceSerial (fst xe) = serial
      else True \<longrightarrow> (\<forall>k c. map_of (tbCertificates t) k = Some c \<longrightarrow> ceSerial c \<noteq> serial))) s"
    and "wp (memCertificatesByAccount E i) (readOK (memInv E) s (\<lambda>xs t.
      (\<forall>c \<in> set xs. ceAccountID c = i \<and> map_of (tbCertificates t) (ceID c) = Some c) \<and>
      (True \<longrightarrow> (\<forall>k c. map_of (tbCertificates t) k = Some c \<longrightarrow> ceAccountID c = i \<longrightarrow> c \<in> set xs)))) s"
proof -
  have wf: "iterates E" "tables_wf (svTables s)" "emailIndex (map_of (svByEmail s)) (map_of (tbAccounts (svTables s)))"
    using assms by (simp_all add: memInv_def)
  note range = mem_rangeOf [OF wf(1,2)] and key = wf_keyed [OF wf(2)]
  show "wp (memAccountByEmail email) (readOK (memInv E) s (\<lambda>xe t.
      if snd xe = None then map_of (tbAccounts t) (acID (fst xe)) = Some (fst xe) \<and> acEmail (fst xe) = email
      else True \<longrightarrow> (\<forall>i a. map_of (tbAccounts t) i = Some a \<longrightarrow> acEmail a \<noteq> email))) s"
  proof (cases "map_of (svByEmail s) email")
    case None
    then have "acEmail a \<noteq> email" if "map_of (tbAccounts (svTables s)) i = Some a" for i a
      using wf(3) that unfolding emailIndex_def by (metis option.simps(3))
    with None assms show ?thesis by (simp add: memAccountByEmail_def wp_simps ok_defs)
  next
    case (Some i)
    then obtain a where "map_of (tbAccounts (svTables s)) i = Some a" "acEmail a = email"
      using wf(3) unfolding emailIndex_def by blast
    with Some assms key(1) show ?thesis by (simp add: memAccountByEmail_def wp_simps ok_defs)
  qed
  have "distinct (map fst (tbAccounts (svTables s)))" using wf(2) by (simp add: tables_wf_def keyed_def)
  then show "wp (memListAccounts E) (readOK (memInv E) s (\<lambda>xs t. True \<longrightarrow> set xs = snd ` set (tbAccounts t))) s"
    unfolding memListAccounts_def using rangeOf_set [OF wf(1)] by (intro memRead_OK [OF assms]) simp
  show "wp (memDevicesByAccount E i) (readOK (memInv E) s (\<lambda>xs t.
      (\<forall>d \<in> set xs. dvAccountID d = i \<and> map_of (tbDevices t) (dvID d) = Some d) \<and>
      (True \<longrightarrow> (\<forall>k d. map_of (tbDevices t) k = Some d \<longrightarrow> dvAccountID d = i \<longrightarrow> d \<in> set xs)))) s"
    unfolding memDevicesByAccount_def using range(2) key(2) by (intro memRead_OK [OF assms]) auto
  show "wp (memCertificateByDevice E dev) (readOK (memInv E) s (\<lambda>xe t.
      if snd xe = None then map_of (tbCertificates t) (ceID (fst xe)) = Some (fst xe) \<and> ceDeviceID (fst xe) = dev
      else True \<longrightarrow> (\<forall>k c. map_of (tbCertificates t) k = Some c \<longrightarrow> ceDeviceID c \<noteq> dev))) s"
    unfolding memCertificateByDevice_def using range(3) key(4)
    by (intro memRead_OK [OF assms]) (auto split: option.splits simp: latestOf_None filter_empty_conv dest!: latestOf_in)
  show "wp (memCertificateBySerial E serial) (readOK (memInv E) s (\<lambda>xe t.
      if snd xe = None then map_of (tbCertificates t) (ceID (fst xe)) = Some (fst xe) \<and> ceSerial (fst xe) = serial
      else True \<longrightarrow> (\<forall>k c. map_of (tbCertificates t) k = Some c \<longrightarrow> ceSerial c \<noteq> serial))) s"
    unfolding memCertificateBySerial_def using range(3) key(4)
    by (intro memRead_OK [OF assms]) (auto split: option.splits simp: find_range(1) dest!: find_range(2))
  show "wp (memCertificatesByAccount E i) (readOK (memInv E) s (\<lambda>xs t.
      (\<forall>c \<in> set xs. ceAccountID c = i \<and> map_of (tbCertificates t) (ceID c) = Some c) \<and>
      (True \<longrightarrow> (\<forall>k c. map_of (tbCertificates t) k = Some c \<longrightarrow> ceAccountID c = i \<longrightarrow> c \<in> set xs)))) s"
    unfolding memCertificatesByAccount_def using range(3) key(4) by (intro memRead_OK [OF assms]) auto
qed

lemma memChanges_OK:
  assumes "memInv E s"
  shows "wp (memSetAccountStatus i st)
      (changeOK (memInv E) True tbAccounts tbAccounts_update i (\<lambda>a b. b = a\<lparr>acStatus := st\<rparr>) s) s"
    and "wp (memUpdateAccountProfile i fn org)
      (changeOK (memInv E) True tbAccounts tbAccounts_update i (\<lambda>a b. b = a\<lparr>acFullName := fn, acOrganization := org\<rparr>) s) s"
    and "wp (memSetAccountPassword i h)
      (changeOK (memInv E) True tbAccounts tbAccounts_update i (\<lambda>a b. b = a\<lparr>acPasswordHash := h\<rparr>) s) s"
    and "wp (memSetDeviceStatus i st)
      (changeOK (memInv E) True tbDevices tbDevices_update i (\<lambda>a b. b = a\<lparr>dvStatus := st\<rparr>) s) s"
    and "wp (memSetEnrollmentStatus i st)
      (changeOK (memInv E) True tbEnrollments tbEnrollments_update i (\<lambda>a b. b = a\<lparr>enrStatus := st\<rparr>) s) s"
    and "wp (memSetReservationStatus i st)
      (changeOK (memInv E) True tbReservations tbReservations_update i (\<lambda>a b. b = a\<lparr>rsStatus := st\<rparr>) s) s"
    and "wp (memRevokeCertificate E i reason) (changeOK (memInv E) True tbCertificates tbCertificates_update i
      (\<lambda>a b. b = a\<lparr>ceStatus := CertRevoked, ceRevokedAt := ceRevokedAt b, ceRevReason := reason\<rparr>) s) s"
proof -
  note acct = memInv_accounts_change [OF assms] and rest = memInv_others [OF assms]
  show "wp (memSetAccountStatus i st)
      (changeOK (memInv E) True tbAccounts tbAccounts_update i (\<lambda>a b. b = a\<lparr>acStatus := st\<rparr>) s) s"
    unfolding memSetAccountStatus_def by (rule memChange_OK [OF assms]) (auto intro: acct)
  show "wp (memUpdateAccountProfile i fn org)
      (changeOK (memInv E) True tbAccounts tbAccounts_update i (\<lambda>a b. b = a\<lparr>acFullName := fn, acOrganization := org\<rparr>) s) s"
    unfolding memUpdateAccountProfile_def by (rule memChange_OK [OF assms]) (auto intro: acct)
  show "wp (memSetAccountPassword i h)
      (changeOK (memInv E) True tbAccounts tbAccounts_update i (\<lambda>a b. b = a\<lparr>acPasswordHash := h\<rparr>) s) s"
    unfolding memSetAccountPassword_def by (rule memChange_OK [OF assms]) (auto intro: acct)
  show "wp (memSetDeviceStatus i st)
      (changeOK (memInv E) True tbDevices tbDevices_update i (\<lambda>a b. b = a\<lparr>dvStatus := st\<rparr>) s) s"
    unfolding memSetDeviceStatus_def by (rule memChange_OK [OF assms]) (auto intro: rest(1))
  show "wp (memSetEnrollmentStatus i st)
      (changeOK (memInv E) True tbEnrollments tbEnrollments_update i (\<lambda>a b. b = a\<lparr>enrStatus := st\<rparr>) s) s"
    unfolding memSetEnrollmentStatus_def by (rule memChange_OK [OF assms]) (auto intro: rest(2))
  show "wp (memSetReservationStatus i st)
      (changeOK (memInv E) True tbReservations tbReservations_update i (\<lambda>a b. b = a\<lparr>rsStatus := st\<rparr>) s) s"
    unfolding memSetReservationStatus_def by (rule memChange_OK [OF assms]) (auto intro: rest(4))
  have i': "memInv E (s\<lparr>svTick := Suc (svTick s)\<rparr>)" by (rule memInv_frame [OF assms]) simp_all
  show "wp (memRevokeCertificate E i reason) (changeOK (memInv E) True tbCertificates tbCertificates_update i
      (\<lambda>a b. b = a\<lparr>ceStatus := CertRevoked, ceRevokedAt := ceRevokedAt b, ceRevReason := reason\<rparr>) s) s"
  proof (cases "map_of (tbCertificates (svTables s)) i")
    case (Some c)
    let ?c = "c\<lparr>ceStatus := CertRevoked, ceRevokedAt := teNow E (svTick s), ceRevReason := reason\<rparr>"
    have "memInv E (s\<lparr>svTick := Suc (svTick s), svTables := tbCertificates_update (AList.update i ?c) (svTables s)\<rparr>)"
      using memInv_others(3) [OF i', of i c ?c] Some by simp
    moreover have "\<exists>b. b = c\<lparr>ceStatus := CertRevoked, ceRevokedAt := ceRevokedAt b, ceRevReason := reason\<rparr> \<and>
        tbCertificates_update (AList.update i ?c) (svTables s) = tbCertificates_update (AList.update i b) (svTables s)"
      by (rule exI [of _ ?c]) simp
    ultimately show ?thesis using Some by (simp add: memRevokeCertificate_def memChange_def wp_simps ok_defs)
  qed (use i' in \<open>simp add: memRevokeCertificate_def memChange_def wp_simps ok_defs\<close>)
qed

interpretation mem: ttd_store "memoryStore E" "memInv E" True for E
proof (unfold_locales, goal_cases)
  case (1 s) then show ?case by (simp add: memInv_def)
next
  case (2 s s') then show ?case by (rule memInv_frame)
next
  case 3 then show ?case by (simp add: memoryStore_def memCreateAccount_OK)
next
  case 4 then show ?case using memQueries_OK(1) by (simp add: memoryStore_def)
next
  case (5 s i) then show ?case
    using wp_mono [OF memLookup_OK [OF 5, of tbAccounts zeroAccount i]] by (simp add: memoryStore_def memAccount_def readOK_def)
next
  case 6 then show ?case using memQueries_OK(2) by (simp add: memoryStore_def)
next
  case 7 then show ?case using memChanges_OK(1) by (simp add: memoryStore_def)
next
  case 8 then show ?case using memChanges_OK(2) by (simp add: memoryStore_def)
next
  case 9 then show ?case using memChanges_OK(3) by (simp add: memoryStore_def)
next
  case 10 then show ?case using memDeleteAccount_OK by (simp add: memoryStore_def)
next
  case 11 then show ?case using memLookup_OK by (simp add: memoryStore_def memSuperSecurity_def)
next
  case 12 then show ?case using memInv_others(6) by (simp add: memoryStore_def memPutSuperSecurity_def wp_simps ok_defs)
next
  case 13 then show ?case using memCreates_OK(1) by (simp add: memoryStore_def)
next
  case (14 s i) then show ?case
    using wp_mono [OF memLookup_OK [OF 14, of tbDevices zeroDevice i]] by (simp add: memoryStore_def memDevice_def readOK_def)
next
  case 15 then show ?case using memChanges_OK(4) by (simp add: memoryStore_def)
next
  case 16 then show ?case using memQueries_OK(3) by (simp add: memoryStore_def)
next
  case 17 then show ?case using memCreates_OK(2) by (simp add: memoryStore_def)
next
  case (18 s i) then show ?case
    using wp_mono [OF memLookup_OK [OF 18, of tbEnrollments zeroEnrollment i]] by (simp add: memoryStore_def memEnrollment_def readOK_def)
next
  case 19 then show ?case by (simp add: memoryStore_def memListEnrollments_def wp_simps ok_defs)
next
  case 20 then show ?case using memChanges_OK(5) by (simp add: memoryStore_def)
next
  case 21 then show ?case using memCreates_OK(3) by (simp add: memoryStore_def)
next
  case (22 s i) then show ?case
    using wp_mono [OF memLookup_OK [OF 22, of tbCertificates zeroCertificate i]] by (simp add: memoryStore_def memCertificate_def readOK_def)
next
  case 23 then show ?case using memQueries_OK(4) by (simp add: memoryStore_def)
next
  case 24 then show ?case using memQueries_OK(5) by (simp add: memoryStore_def)
next
  case 25 then show ?case using memQueries_OK(6) by (simp add: memoryStore_def)
next
  case 26 then show ?case using memChanges_OK(7) by (simp add: memoryStore_def)
next
  case 27 then show ?case using memCreates_OK(4) by (simp add: memoryStore_def)
next
  case (28 s i) then show ?case
    using wp_mono [OF memLookup_OK [OF 28, of tbReservations zeroReservation i]] by (simp add: memoryStore_def memReservation_def readOK_def)
next
  case 29 then show ?case using memChanges_OK(6) by (simp add: memoryStore_def)
next
  case 30 then show ?case using memCreates_OK(5) by (simp add: memoryStore_def)
next
  case (31 s i) then show ?case
    using wp_mono [OF memLookup_OK [OF 31, of tbSignatures zeroSignature i]] by (simp add: memoryStore_def memSignature_def readOK_def)
next
  case 32 then show ?case by (simp add: memoryStore_def memSignaturesByAccount_def wp_simps ok_defs)
next
  case 33 then show ?case using memInv_others(7) by (simp add: memoryStore_def memPutObject_def wp_simps ok_defs)
next
  case (34 s k) then show ?case
    using wp_mono [OF memLookup_OK [OF 34, of tbObjects "[]" k]] by (simp add: memoryStore_def memGetObject_def readOK_def)
next
  case (35 s k rd sz) then show ?case
    using memInv_others(7) by (cases rd) (simp_all add: memoryStore_def memPutObjectFrom_def memPutObject_def wp_simps ok_defs)
next
  case (36 s ev)
  have "memInv E (s\<lparr>svTick := Suc (Suc (svTick s))\<rparr>)" by (rule memInv_frame [OF 36]) simp_all
  from memInv_others(8) [OF this, of "\<lambda>a. a @ [ev\<lparr>auID := idAt E ''evt'' (svTick s), auTime := teNow E (Suc (svTick s))\<rparr>]"]
  have "memInv E (s\<lparr>svTick := Suc (Suc (svTick s)),
    svTables := tbAudit_update (\<lambda>a. a @ [ev\<lparr>auID := idAt E ''evt'' (svTick s), auTime := teNow E (Suc (svTick s))\<rparr>]) (svTables s)\<rparr>)" by simp
  moreover have "\<exists>l. tbAudit_update f t = t\<lparr>tbAudit := l\<rparr>" for f and t :: tables by (rule exI [of _ "f (tbAudit t)"]) (cases t, simp)
  ultimately show ?case by (simp add: memoryStore_def memAppend_def wp_simps frame_def)
next
  case 37 then show ?case by (simp add: memoryStore_def memAuditEvents_def wp_simps ok_defs)
qed

end
