(* ===== verification/TTD_Postgres.thy ===== *)
theory TTD_Postgres
  imports TTD_Memory
begin

text \<open>
  The PostgreSQL store, \<^verbatim>\<open>ttd/server/internal/store/postgres.go\<close>, with blobs in the \<^verbatim>\<open>objects\<close> table (the default of
  \<^verbatim>\<open>objectstore.go\<close>): one definition per method, over the same tables, collected in \<open>postgresStore\<close>.

  Every statement can fail (\<open>teFault\<close>).  The constraints of the migrations are part of the statements: primary keys, the
  unique e-mail address, certificate serial and super admin, foreign keys, and the 32-bit columns.  The order of rows
  that no \<^verbatim>\<open>ORDER BY\<close> fixes is the one \<open>teIter\<close> gives.
\<close>

section \<open>Statements\<close>

text \<open>A query; \<open>norm\<close> turns no row into \<open>ErrNotFound\<close>.\<close>

definition pgQuery :: "tenv \<Rightarrow> 'a \<Rightarrow> (tables \<Rightarrow> 'a option) \<Rightarrow> ('a \<times> err) act" where
  "pgQuery E zero f =
     do { fault \<leftarrow> draw (teFault E);
          if fault then ret (zero, Some ErrDB)
          else readTables (\<lambda>t. case f t of None \<Rightarrow> (zero, Some ErrNotFound) | Some x \<Rightarrow> (x, None)) }"

definition pgList :: "tenv \<Rightarrow> (tables \<Rightarrow> 'a list) \<Rightarrow> 'a list act" where
  "pgList E f = do { fault \<leftarrow> draw (teFault E); if fault then ret [] else readTables f }"

text \<open>An insert that fails when a constraint does not hold.\<close>

definition pgInsert :: "tenv \<Rightarrow> (tables \<Rightarrow> bool) \<Rightarrow> (tables \<Rightarrow> tables) \<Rightarrow> err act" where
  "pgInsert E ok f =
     do { fault \<leftarrow> draw (teFault E);
          holds \<leftarrow> readTables ok;
          if fault \<or> \<not> holds then ret (Some ErrDB) else do { onTables f; ret None } }"

text \<open>An update of the row with a given key; \<^verbatim>\<open>affected\<close> reports that there was none.\<close>

definition pgUpdate ::
  "tenv \<Rightarrow> (tables \<Rightarrow> (string \<times> 'a) list) \<Rightarrow> (((string \<times> 'a) list \<Rightarrow> (string \<times> 'a) list) \<Rightarrow> tables \<Rightarrow> tables) \<Rightarrow>
   string \<Rightarrow> ('a \<Rightarrow> 'a) \<Rightarrow> err act" where
  "pgUpdate E tb upd i f =
     do { fault \<leftarrow> draw (teFault E);
          if fault then ret (Some ErrDB) else memChange tb upd i f }"

definition hasKey :: "string \<Rightarrow> (string \<times> 'a) list \<Rightarrow> bool" where
  "hasKey k m \<longleftrightarrow> map_of m k \<noteq> None"

definition int4 :: "int \<Rightarrow> bool" where
  "int4 n \<longleftrightarrow> - (2 ^ 31) \<le> n \<and> n < 2 ^ 31"

section \<open>Accounts\<close>

definition accountConstraints :: "Account \<Rightarrow> tables \<Rightarrow> bool" where
  "accountConstraints a t \<longleftrightarrow>
     \<not> hasKey (acID a) (tbAccounts t) \<and>
     (\<forall>(k, b) \<in> set (tbAccounts t). acEmail b \<noteq> acEmail a \<and> \<not> (acRole a = RoleSuperAdmin \<and> acRole b = RoleSuperAdmin))"

definition pgCreateAccount :: "tenv \<Rightarrow> Account \<Rightarrow> (Account \<times> err) act" where
  "pgCreateAccount E a =
     do { i \<leftarrow> (if acID a = [] then newID E ''acct'' else ret (acID a));
          t \<leftarrow> now E;
          let a = a\<lparr>acID := i, acRole := (if acRole a = [] then RoleUser else acRole a),
                     acStatus := (if acStatus a = [] then AccountActive else acStatus a), acCreatedAt := t\<rparr>;
          e \<leftarrow> pgInsert E (accountConstraints a) (tbAccounts_update (AList.update i a));
          ret (if e \<noteq> None then (zeroAccount, Some ErrEmailRegistered) else (a, None)) }"

definition pgAccountByEmail :: "tenv \<Rightarrow> string \<Rightarrow> (Account \<times> err) act" where
  "pgAccountByEmail E email =
     pgQuery E zeroAccount (\<lambda>t. find (\<lambda>a. acEmail a = email) (map snd (tbAccounts t)))"

definition pgAccount :: "tenv \<Rightarrow> string \<Rightarrow> (Account \<times> err) act" where
  "pgAccount E i = pgQuery E zeroAccount (\<lambda>t. map_of (tbAccounts t) i)"

definition pgListAccounts :: "tenv \<Rightarrow> Account list act" where
  "pgListAccounts E = pgList E (\<lambda>t. sort_key acCreatedAt (rangeOf E (tbAccounts t)))"

definition pgSetAccountStatus :: "tenv \<Rightarrow> string \<Rightarrow> string \<Rightarrow> err act" where
  "pgSetAccountStatus E i status = pgUpdate E tbAccounts tbAccounts_update i (\<lambda>a. a\<lparr>acStatus := status\<rparr>)"

definition pgUpdateAccountProfile :: "tenv \<Rightarrow> string \<Rightarrow> string \<Rightarrow> string \<Rightarrow> err act" where
  "pgUpdateAccountProfile E i fullName org =
     pgUpdate E tbAccounts tbAccounts_update i (\<lambda>a. a\<lparr>acFullName := fullName, acOrganization := org\<rparr>)"

definition pgSetAccountPassword :: "tenv \<Rightarrow> string \<Rightarrow> string \<Rightarrow> err act" where
  "pgSetAccountPassword E i passwordHash =
     pgUpdate E tbAccounts tbAccounts_update i (\<lambda>a. a\<lparr>acPasswordHash := passwordHash\<rparr>)"

text \<open>The rows whose foreign keys keep an account from being deleted.\<close>

definition accountReferenced :: "string \<Rightarrow> tables \<Rightarrow> bool" where
  "accountReferenced i t \<longleftrightarrow>
     (\<exists>(k, d) \<in> set (tbDevices t). dvAccountID d = i) \<or> (\<exists>(k, e) \<in> set (tbEnrollments t). enrAccountID e = i) \<or>
     (\<exists>(k, c) \<in> set (tbCertificates t). ceAccountID c = i) \<or> (\<exists>(k, r) \<in> set (tbReservations t). rsAccountID r = i) \<or>
     (\<exists>(k, g) \<in> set (tbSignatures t). sgAccountID g = i) \<or> hasKey i (tbSuper t)"

definition pgDeleteAccount :: "tenv \<Rightarrow> string \<Rightarrow> err act" where
  "pgDeleteAccount E i =
     do { e \<leftarrow> pgInsert E (\<lambda>t. True) (tbSuper_update (AList.delete i));
          if e \<noteq> None then ret e
          else do {
            fault \<leftarrow> draw (teFault E);
            t \<leftarrow> readTables id;
            if fault \<or> (hasKey i (tbAccounts t) \<and> accountReferenced i t) then ret (Some ErrDB)
            else if \<not> hasKey i (tbAccounts t) then ret (Some ErrNotFound)
            else do { onTables (tbAccounts_update (AList.delete i)); ret None } } }"

section \<open>Security rows\<close>

definition pgSuperSecurity :: "tenv \<Rightarrow> string \<Rightarrow> (SuperSecurity \<times> err) act" where
  "pgSuperSecurity E i = pgQuery E zeroSecurity (\<lambda>t. map_of (tbSuper t) i)"

definition pgPutSuperSecurity :: "tenv \<Rightarrow> SuperSecurity \<Rightarrow> err act" where
  "pgPutSuperSecurity E x =
     pgInsert E (\<lambda>t. hasKey (ssAccountID x) (tbAccounts t) \<and> int4 (ssFailedCount x))
       (tbSuper_update (AList.update (ssAccountID x) x))"

section \<open>Devices and enrollments\<close>

definition pgCreateDevice :: "tenv \<Rightarrow> Device \<Rightarrow> (Device \<times> err) act" where
  "pgCreateDevice E d =
     do { i \<leftarrow> (if dvID d = [] then newID E ''dev'' else ret (dvID d));
          t \<leftarrow> now E;
          let d = d\<lparr>dvID := i, dvStatus := (if dvStatus d = [] then DeviceActive else dvStatus d), dvCreatedAt := t\<rparr>;
          e \<leftarrow> pgInsert E (\<lambda>t. \<not> hasKey i (tbDevices t) \<and> hasKey (dvAccountID d) (tbAccounts t))
                 (tbDevices_update (AList.update i d));
          ret (d, e) }"

definition pgDevice :: "tenv \<Rightarrow> string \<Rightarrow> (Device \<times> err) act" where
  "pgDevice E i = pgQuery E zeroDevice (\<lambda>t. map_of (tbDevices t) i)"

definition pgSetDeviceStatus :: "tenv \<Rightarrow> string \<Rightarrow> string \<Rightarrow> err act" where
  "pgSetDeviceStatus E i status = pgUpdate E tbDevices tbDevices_update i (\<lambda>d. d\<lparr>dvStatus := status\<rparr>)"

definition pgDevicesByAccount :: "tenv \<Rightarrow> string \<Rightarrow> Device list act" where
  "pgDevicesByAccount E accountID =
     pgList E (\<lambda>t. sort_key dvCreatedAt (filter (\<lambda>d. dvAccountID d = accountID) (rangeOf E (tbDevices t))))"

definition pgCreateEnrollment :: "tenv \<Rightarrow> Enrollment \<Rightarrow> (Enrollment \<times> err) act" where
  "pgCreateEnrollment E e =
     do { i \<leftarrow> (if enrID e = [] then newID E ''enr'' else ret (enrID e));
          t \<leftarrow> now E;
          let e = e\<lparr>enrID := i, enrStatus := (if enrStatus e = [] then EnrollmentSubmitted else enrStatus e),
                     enrCreatedAt := t\<rparr>;
          err \<leftarrow> pgInsert E (\<lambda>t. \<not> hasKey i (tbEnrollments t) \<and> hasKey (enrDeviceID e) (tbDevices t) \<and>
                                 hasKey (enrAccountID e) (tbAccounts t))
                 (tbEnrollments_update (AList.update i e));
          ret (e, err) }"

definition pgEnrollment :: "tenv \<Rightarrow> string \<Rightarrow> (Enrollment \<times> err) act" where
  "pgEnrollment E i = pgQuery E zeroEnrollment (\<lambda>t. map_of (tbEnrollments t) i)"

definition pgListEnrollments :: "tenv \<Rightarrow> Enrollment list act" where
  "pgListEnrollments E = pgList E (\<lambda>t. sort_key enrCreatedAt (rangeOf E (tbEnrollments t)))"

definition pgSetEnrollmentStatus :: "tenv \<Rightarrow> string \<Rightarrow> string \<Rightarrow> err act" where
  "pgSetEnrollmentStatus E i status = pgUpdate E tbEnrollments tbEnrollments_update i (\<lambda>e. e\<lparr>enrStatus := status\<rparr>)"

section \<open>Certificates\<close>

definition certificateConstraints :: "Certificate \<Rightarrow> tables \<Rightarrow> bool" where
  "certificateConstraints c t \<longleftrightarrow>
     \<not> hasKey (ceID c) (tbCertificates t) \<and> hasKey (ceEnrollmentID c) (tbEnrollments t) \<and> hasKey (ceDeviceID c) (tbDevices t) \<and>
     hasKey (ceAccountID c) (tbAccounts t) \<and> (\<forall>(k, d) \<in> set (tbCertificates t). ceSerial d \<noteq> ceSerial c)"

text \<open>\<^verbatim>\<open>revoked_at\<close> and \<^verbatim>\<open>rev_reason\<close> are not among the inserted columns.\<close>

definition pgCreateCertificate :: "tenv \<Rightarrow> Certificate \<Rightarrow> (Certificate \<times> err) act" where
  "pgCreateCertificate E c =
     do { i \<leftarrow> (if ceID c = [] then newID E ''cert'' else ret (ceID c));
          let c = c\<lparr>ceID := i, ceStatus := (if ceStatus c = [] then CertActive else ceStatus c)\<rparr>;
          e \<leftarrow> pgInsert E (certificateConstraints c)
                 (tbCertificates_update (AList.update i (c\<lparr>ceRevokedAt := zeroTime, ceRevReason := []\<rparr>)));
          ret (c, e) }"

definition pgCertificate :: "tenv \<Rightarrow> string \<Rightarrow> (Certificate \<times> err) act" where
  "pgCertificate E i = pgQuery E zeroCertificate (\<lambda>t. map_of (tbCertificates t) i)"

definition pgCertificateByDevice :: "tenv \<Rightarrow> string \<Rightarrow> (Certificate \<times> err) act" where
  "pgCertificateByDevice E deviceID =
     pgQuery E zeroCertificate
       (\<lambda>t. latestOf ceNotBefore (filter (\<lambda>c. ceDeviceID c = deviceID) (rangeOf E (tbCertificates t))))"

definition pgCertificateBySerial :: "tenv \<Rightarrow> string \<Rightarrow> (Certificate \<times> err) act" where
  "pgCertificateBySerial E serial =
     pgQuery E zeroCertificate (\<lambda>t. find (\<lambda>c. ceSerial c = serial) (rangeOf E (tbCertificates t)))"

definition pgCertificatesByAccount :: "tenv \<Rightarrow> string \<Rightarrow> Certificate list act" where
  "pgCertificatesByAccount E accountID =
     pgList E (\<lambda>t. sort_key ceNotBefore (filter (\<lambda>c. ceAccountID c = accountID) (rangeOf E (tbCertificates t))))"

definition pgRevokeCertificate :: "tenv \<Rightarrow> string \<Rightarrow> string \<Rightarrow> err act" where
  "pgRevokeCertificate E i reason =
     do { t \<leftarrow> now E;
          pgUpdate E tbCertificates tbCertificates_update i
            (\<lambda>c. c\<lparr>ceStatus := CertRevoked, ceRevokedAt := t, ceRevReason := reason\<rparr>) }"

section \<open>Reservations and signatures\<close>

definition pgCreateReservation :: "tenv \<Rightarrow> Reservation \<Rightarrow> (Reservation \<times> err) act" where
  "pgCreateReservation E r =
     do { i \<leftarrow> (if rsPublicID r = [] then newID E ''sig'' else ret (rsPublicID r));
          t \<leftarrow> now E;
          let r = r\<lparr>rsPublicID := i, rsStatus := (if rsStatus r = [] then ReservationReserved else rsStatus r),
                     rsCreatedAt := t\<rparr>;
          e \<leftarrow> pgInsert E (\<lambda>t. \<not> hasKey i (tbReservations t) \<and> hasKey (rsAccountID r) (tbAccounts t) \<and>
                               hasKey (rsDeviceID r) (tbDevices t))
                 (tbReservations_update (AList.update i r));
          ret (r, e) }"

definition pgReservation :: "tenv \<Rightarrow> string \<Rightarrow> (Reservation \<times> err) act" where
  "pgReservation E i = pgQuery E zeroReservation (\<lambda>t. map_of (tbReservations t) i)"

definition pgSetReservationStatus :: "tenv \<Rightarrow> string \<Rightarrow> string \<Rightarrow> err act" where
  "pgSetReservationStatus E i status = pgUpdate E tbReservations tbReservations_update i (\<lambda>r. r\<lparr>rsStatus := status\<rparr>)"

definition signatureConstraints :: "Signature \<Rightarrow> tables \<Rightarrow> bool" where
  "signatureConstraints g t \<longleftrightarrow>
     \<not> hasKey (sgPublicID g) (tbSignatures t) \<and> hasKey (sgPublicID g) (tbReservations t) \<and>
     hasKey (sgAccountID g) (tbAccounts t) \<and> hasKey (sgDeviceID g) (tbDevices t) \<and> int4 (sgSignedSize g)"

definition pgCreateSignature :: "tenv \<Rightarrow> Signature \<Rightarrow> (Signature \<times> err) act" where
  "pgCreateSignature E g =
     do { t \<leftarrow> now E;
          let g = g\<lparr>sgCreatedAt := t\<rparr>;
          e \<leftarrow> pgInsert E (signatureConstraints g) (tbSignatures_update (AList.update (sgPublicID g) g));
          ret (if e \<noteq> None then (zeroSignature, Some (ErrSignatureExists (sgPublicID g))) else (g, None)) }"

definition pgSignature :: "tenv \<Rightarrow> string \<Rightarrow> (Signature \<times> err) act" where
  "pgSignature E i = pgQuery E zeroSignature (\<lambda>t. map_of (tbSignatures t) i)"

definition pgSignaturesByAccount :: "tenv \<Rightarrow> string \<Rightarrow> Signature list act" where
  "pgSignaturesByAccount E accountID =
     pgList E (\<lambda>t. sort_key (\<lambda>g. - sgCreatedAt g) (filter (\<lambda>g. sgAccountID g = accountID) (rangeOf E (tbSignatures t))))"

section \<open>Objects and audit\<close>

definition dbPutObject :: "tenv \<Rightarrow> string \<Rightarrow> bytes \<Rightarrow> err act" where
  "dbPutObject E key data = pgInsert E (\<lambda>t. True) (tbObjects_update (AList.update key data))"

definition dbGetObject :: "tenv \<Rightarrow> string \<Rightarrow> (bytes \<times> err) act" where
  "dbGetObject E key = pgQuery E [] (\<lambda>t. map_of (tbObjects t) key)"

definition dbPutObjectFrom :: "tenv \<Rightarrow> string \<Rightarrow> bytes option \<Rightarrow> int \<Rightarrow> err act" where
  "dbPutObjectFrom E key r sz = (case r of None \<Rightarrow> ret (Some ErrDB) | Some b \<Rightarrow> dbPutObject E key b)"

text \<open>A failed insert is ignored.\<close>

definition pgAppend :: "tenv \<Rightarrow> AuditEvent \<Rightarrow> unit act" where
  "pgAppend E ev =
     do { i \<leftarrow> newID E ''evt'';
          t \<leftarrow> now E;
          e \<leftarrow> pgInsert E (\<lambda>t. \<forall>a \<in> set (tbAudit t). auID a \<noteq> i)
                 (tbAudit_update (\<lambda>a. a @ [ev\<lparr>auID := i, auTime := t\<rparr>]));
          ret () }"

text \<open>The latest rows by time, oldest first.\<close>

definition pgAuditEvents :: "tenv \<Rightarrow> int \<Rightarrow> AuditEvent list act" where
  "pgAuditEvents E limit =
     pgList E (\<lambda>t. rev (take (nat (if limit \<le> 0 then 500 else limit)) (sort_key (\<lambda>a. - auTime a) (tbAudit t))))"

definition postgresStore :: "tenv \<Rightarrow> Store" where
  "postgresStore E = \<lparr>
     stCreateAccount = pgCreateAccount E, stAccountByEmail = pgAccountByEmail E, stAccount = pgAccount E,
     stListAccounts = pgListAccounts E, stSetAccountStatus = pgSetAccountStatus E,
     stUpdateAccountProfile = pgUpdateAccountProfile E, stSetAccountPassword = pgSetAccountPassword E,
     stDeleteAccount = pgDeleteAccount E, stSuperSecurity = pgSuperSecurity E, stPutSuperSecurity = pgPutSuperSecurity E,
     stCreateDevice = pgCreateDevice E, stDevice = pgDevice E, stSetDeviceStatus = pgSetDeviceStatus E,
     stDevicesByAccount = pgDevicesByAccount E, stCreateEnrollment = pgCreateEnrollment E, stEnrollment = pgEnrollment E,
     stListEnrollments = pgListEnrollments E, stSetEnrollmentStatus = pgSetEnrollmentStatus E,
     stCreateCertificate = pgCreateCertificate E, stCertificate = pgCertificate E,
     stCertificateByDevice = pgCertificateByDevice E, stCertificateBySerial = pgCertificateBySerial E,
     stCertificatesByAccount = pgCertificatesByAccount E, stRevokeCertificate = pgRevokeCertificate E,
     stCreateReservation = pgCreateReservation E, stReservation = pgReservation E,
     stSetReservationStatus = pgSetReservationStatus E, stCreateSignature = pgCreateSignature E,
     stSignature = pgSignature E, stSignaturesByAccount = pgSignaturesByAccount E, stPutObject = dbPutObject E,
     stGetObject = dbGetObject E, stPutObjectFrom = dbPutObjectFrom E, stAppend = pgAppend E,
     stAuditEvents = pgAuditEvents E\<rparr>"

section \<open>The laws of the interface\<close>

definition noFaults :: "tenv \<Rightarrow> bool" where
  "noFaults E \<longleftrightarrow> (\<forall>k. \<not> teFault E k)"

definition pgInv :: "tenv \<Rightarrow> server \<Rightarrow> bool" where
  "pgInv E s \<longleftrightarrow> iterates E \<and> tables_wf (svTables s)"

lemma pgInv_frame: "pgInv E s \<Longrightarrow> svTables s' = svTables s \<Longrightarrow> pgInv E s'"
  by (simp add: pgInv_def)

lemma pgQuery_OK:
  "pgInv E s \<Longrightarrow> wp (pgQuery E zero f) (readOK (pgInv E) s (\<lambda>xe t. found (noFaults E) (f t) xe \<and> (snd xe \<noteq> None \<longrightarrow> fst xe = zero))) s"
  by (auto simp: pgQuery_def wp_simps ok_defs pgInv_def noFaults_def split: option.splits)

lemma pgFind_OK:
  assumes "pgInv E s" "\<And>x. f (svTables s) = Some x \<Longrightarrow> P x (svTables s)" "f (svTables s) = None \<Longrightarrow> N (svTables s)"
  shows "wp (pgQuery E zero f) (readOK (pgInv E) s (\<lambda>xe t. if snd xe = None then P (fst xe) t else noFaults E \<longrightarrow> N t)) s"
  using assms by (auto simp: pgQuery_def wp_simps ok_defs pgInv_def noFaults_def split: option.splits)

lemma pgList_OK:
  assumes "pgInv E s" "P [] (svTables s) \<or> noFaults E" "P (f (svTables s)) (svTables s)"
  shows "wp (pgList E f) (readOK (pgInv E) s P) s"
  using assms by (auto simp: pgList_def wp_simps ok_defs pgInv_def noFaults_def)

lemma pgInsert_OK:
  assumes "pgInv E s" "ok (svTables s) \<Longrightarrow> tables_wf (f (svTables s))"
  shows "wp (pgInsert E ok f) (\<lambda>e s'. writeOK (pgInv E) f s e s' \<and> (e = None \<longrightarrow> ok (svTables s))) s"
  using assms by (simp add: pgInsert_def wp_simps ok_defs pgInv_def)

lemma pgUpdate_OK:
  assumes "pgInv E s" "\<And>a. map_of (tb (svTables s)) i = Some a \<Longrightarrow> tables_wf (upd (AList.update i (f a)) (svTables s))"
    and "\<And>a. R a (f a)"
  shows "wp (pgUpdate E tb upd i f) (changeOK (pgInv E) (noFaults E) tb upd i R s) s"
  using assms by (auto simp: pgUpdate_def memChange_def wp_simps ok_defs pgInv_def noFaults_def split: option.splits)

text \<open>A created row: the id and the time are drawn first.\<close>

lemma pgTick: "pgInv E s \<Longrightarrow> pgInv E (s\<lparr>svTick := n\<rparr>)"
  by (simp add: pgInv_def)

lemma pgCreateAccount_OK:
  assumes "pgInv E s" "newAccount a (svTables s)"
  shows "wp (pgCreateAccount E a) (createOK (pgInv E) tbAccounts tbAccounts_update acID
    (\<lambda>x. x = a\<lparr>acID := acID x, acCreatedAt := acCreatedAt x\<rparr>) s) s"
proof -
  let ?a = "a\<lparr>acID := idAt E ''acct'' (svTick s), acCreatedAt := teNow E (Suc (svTick s))\<rparr>"
  let ?s = "s\<lparr>svTick := Suc (Suc (svTick s))\<rparr>"
  have "tables_wf (tbAccounts_update (AList.update (acID ?a) ?a) (svTables s))" if ok: "accountConstraints ?a (svTables s)"
  proof (rule wf_accounts_update)
    show "accounts_wf ((map_of (tbAccounts (svTables s)))(acID ?a \<mapsto> ?a))"
      using assms ok
      by (intro accounts_wf_new)
         (auto simp: pgInv_def tables_wf_def accountConstraints_def newAccount_def hasKey_def dest: map_of_SomeD)
  qed (use assms in \<open>simp_all add: pgInv_def\<close>)
  from pgInsert_OK [of E ?s "accountConstraints ?a" "tbAccounts_update (AList.update (acID ?a) ?a)", OF pgTick [OF assms(1)]] this
  have "wp (pgInsert E (accountConstraints ?a) (tbAccounts_update (AList.update (acID ?a) ?a)))
      (\<lambda>e s'. writeOK (pgInv E) (tbAccounts_update (AList.update (acID ?a) ?a)) ?s e s' \<and> (e = None \<longrightarrow> accountConstraints ?a (svTables s))) ?s"
    by simp
  moreover have "acRole a \<noteq> []" "acStatus a \<noteq> []" "acID a = []" using assms(2) by (auto simp: newAccount_def role_defs)
  ultimately show ?thesis
    by (simp add: pgCreateAccount_def wp_simps Let_def)
       (erule wp_mono, auto simp: wp_simps ok_defs accountConstraints_def hasKey_def split: if_splits)
qed

lemma pgCreates_OK:
  assumes "pgInv E s"
  shows "dvID d = [] \<Longrightarrow> dvStatus d = [] \<Longrightarrow> wp (pgCreateDevice E d) (createOK (pgInv E) tbDevices tbDevices_update dvID
      (\<lambda>x. x = d\<lparr>dvID := dvID x, dvStatus := DeviceActive, dvCreatedAt := dvCreatedAt x\<rparr>) s) s"
    and "enrID e = [] \<Longrightarrow> wp (pgCreateEnrollment E e) (createOK (pgInv E) tbEnrollments tbEnrollments_update enrID
      (\<lambda>x. x = e\<lparr>enrID := enrID x, enrStatus := enrStatus x, enrCreatedAt := enrCreatedAt x\<rparr>) s) s"
    and "ceID c = [] \<Longrightarrow> ceStatus c = CertActive \<Longrightarrow> ceRevokedAt c = zeroTime \<Longrightarrow> ceRevReason c = [] \<Longrightarrow> wp (pgCreateCertificate E c)
      (createOK (pgInv E) tbCertificates tbCertificates_update ceID (\<lambda>x. x = c\<lparr>ceID := ceID x\<rparr>) s) s"
    and "rsPublicID r = [] \<Longrightarrow> rsStatus r = [] \<Longrightarrow> wp (pgCreateReservation E r)
      (createOK (pgInv E) tbReservations tbReservations_update rsPublicID
        (\<lambda>x. x = r\<lparr>rsPublicID := rsPublicID x, rsStatus := ReservationReserved, rsCreatedAt := rsCreatedAt x\<rparr>) s) s"
    and "wp (pgCreateSignature E g) (createOK (pgInv E) tbSignatures tbSignatures_update sgPublicID
        (\<lambda>x. x = g\<lparr>sgCreatedAt := sgCreatedAt x\<rparr>) s) s"
proof -
  have wf: "tables_wf (svTables s)" using assms by (simp add: pgInv_def)
  let ?n = "Suc (Suc (svTick s))"
  define d' where "d' = d\<lparr>dvID := idAt E ''dev'' (svTick s), dvStatus := DeviceActive, dvCreatedAt := teNow E (Suc (svTick s))\<rparr>"
  show "wp (pgCreateDevice E d) (createOK (pgInv E) tbDevices tbDevices_update dvID
      (\<lambda>x. x = d\<lparr>dvID := dvID x, dvStatus := DeviceActive, dvCreatedAt := dvCreatedAt x\<rparr>) s) s" if "dvID d = []" "dvStatus d = []"
    using that assms wf_others(1) [OF wf, of d']
    by (simp add: pgCreateDevice_def pgInsert_def wp_simps ok_defs pgInv_def Let_def d'_def hasKey_def)
  define e' where "e' = e\<lparr>enrID := idAt E ''enr'' (svTick s),
      enrStatus := (if enrStatus e = [] then EnrollmentSubmitted else enrStatus e), enrCreatedAt := teNow E (Suc (svTick s))\<rparr>"
  show "wp (pgCreateEnrollment E e) (createOK (pgInv E) tbEnrollments tbEnrollments_update enrID
      (\<lambda>x. x = e\<lparr>enrID := enrID x, enrStatus := enrStatus x, enrCreatedAt := enrCreatedAt x\<rparr>) s) s" if "enrID e = []"
    using that assms wf_others(2) [OF wf, of e']
    by (simp add: pgCreateEnrollment_def pgInsert_def wp_simps ok_defs pgInv_def Let_def e'_def hasKey_def)
  define r' where "r' = r\<lparr>rsPublicID := idAt E ''sig'' (svTick s), rsStatus := ReservationReserved, rsCreatedAt := teNow E (Suc (svTick s))\<rparr>"
  show "wp (pgCreateReservation E r)
      (createOK (pgInv E) tbReservations tbReservations_update rsPublicID
        (\<lambda>x. x = r\<lparr>rsPublicID := rsPublicID x, rsStatus := ReservationReserved, rsCreatedAt := rsCreatedAt x\<rparr>) s) s"
    if "rsPublicID r = []" "rsStatus r = []"
    using that assms wf_others(4) [OF wf, of r'] idAt_slash [of "''sig''" E "svTick s"]
    by (simp add: pgCreateReservation_def pgInsert_def wp_simps ok_defs pgInv_def Let_def r'_def hasKey_def)
  define c' where "c' = c\<lparr>ceID := idAt E ''cert'' (svTick s)\<rparr>"
  show "wp (pgCreateCertificate E c)
      (createOK (pgInv E) tbCertificates tbCertificates_update ceID (\<lambda>x. x = c\<lparr>ceID := ceID x\<rparr>) s) s"
    if "ceID c = []" "ceStatus c = CertActive" "ceRevokedAt c = zeroTime" "ceRevReason c = []"
    using that assms wf_others(3) [OF wf, of c']
    by (cases c) (simp add: pgCreateCertificate_def pgInsert_def wp_simps ok_defs pgInv_def Let_def c'_def hasKey_def certificateConstraints_def CertActive_def)
  show "wp (pgCreateSignature E g) (createOK (pgInv E) tbSignatures tbSignatures_update sgPublicID
        (\<lambda>x. x = g\<lparr>sgCreatedAt := sgCreatedAt x\<rparr>) s) s"
    using assms wf_others(5) [OF wf, of "g\<lparr>sgCreatedAt := teNow E (svTick s)\<rparr>"]
    by (simp add: pgCreateSignature_def pgInsert_def wp_simps ok_defs Let_def pgInv_def signatureConstraints_def hasKey_def)
qed

lemma pgDeleteAccount_OK:
  assumes "pgInv E s"
  shows "wp (pgDeleteAccount E i) (\<lambda>e s'. pgInv E s' \<and> frame s s' \<and> deletedAccount i (svTables s) e (svTables s')) s"
proof -
  have "tables_wf (tbSuper_update (AList.delete i) (svTables s))"
    "tables_wf (tbAccounts_update (AList.delete i) (tbSuper_update (AList.delete i) (svTables s)))"
    using assms wf_others(7) wf_accounts_delete unfolding pgInv_def by blast+
  then show ?thesis
    using assms by (simp add: pgDeleteAccount_def pgInsert_def frame_def wp_simps pgInv_def deletedAccount_cases)
qed

lemma pgQueries_OK:
  assumes "pgInv E s"
  shows "wp (pgAccountByEmail E email) (readOK (pgInv E) s (\<lambda>xe t.
      if snd xe = None then map_of (tbAccounts t) (acID (fst xe)) = Some (fst xe) \<and> acEmail (fst xe) = email
      else noFaults E \<longrightarrow> (\<forall>i a. map_of (tbAccounts t) i = Some a \<longrightarrow> acEmail a \<noteq> email))) s"
    and "wp (pgListAccounts E) (readOK (pgInv E) s (\<lambda>xs t. noFaults E \<longrightarrow> set xs = snd ` set (tbAccounts t))) s"
    and "wp (pgDevicesByAccount E i) (readOK (pgInv E) s (\<lambda>xs t.
      (\<forall>d \<in> set xs. dvAccountID d = i \<and> map_of (tbDevices t) (dvID d) = Some d) \<and>
      (noFaults E \<longrightarrow> (\<forall>k d. map_of (tbDevices t) k = Some d \<longrightarrow> dvAccountID d = i \<longrightarrow> d \<in> set xs)))) s"
    and "wp (pgCertificateByDevice E dev) (readOK (pgInv E) s (\<lambda>xe t.
      if snd xe = None then map_of (tbCertificates t) (ceID (fst xe)) = Some (fst xe) \<and> ceDeviceID (fst xe) = dev
      else noFaults E \<longrightarrow> (\<forall>k c. map_of (tbCertificates t) k = Some c \<longrightarrow> ceDeviceID c \<noteq> dev))) s"
    and "wp (pgCertificateBySerial E serial) (readOK (pgInv E) s (\<lambda>xe t.
      if snd xe = None then map_of (tbCertificates t) (ceID (fst xe)) = Some (fst xe) \<and> ceSerial (fst xe) = serial
      else noFaults E \<longrightarrow> (\<forall>k c. map_of (tbCertificates t) k = Some c \<longrightarrow> ceSerial c \<noteq> serial))) s"
    and "wp (pgCertificatesByAccount E i) (readOK (pgInv E) s (\<lambda>xs t.
      (\<forall>c \<in> set xs. ceAccountID c = i \<and> map_of (tbCertificates t) (ceID c) = Some c) \<and>
      (noFaults E \<longrightarrow> (\<forall>k c. map_of (tbCertificates t) k = Some c \<longrightarrow> ceAccountID c = i \<longrightarrow> c \<in> set xs)))) s"
proof -
  have wf: "iterates E" "tables_wf (svTables s)" using assms by (simp_all add: pgInv_def)
  note range = mem_rangeOf [OF wf] and key = wf_keyed [OF wf(2)]
  have acc: "keyed acID (tbAccounts (svTables s))" using wf(2) by (simp add: tables_wf_def)
  show "wp (pgAccountByEmail E email) (readOK (pgInv E) s (\<lambda>xe t.
      if snd xe = None then map_of (tbAccounts t) (acID (fst xe)) = Some (fst xe) \<and> acEmail (fst xe) = email
      else noFaults E \<longrightarrow> (\<forall>i a. map_of (tbAccounts t) i = Some a \<longrightarrow> acEmail a \<noteq> email))) s"
    unfolding pgAccountByEmail_def
  proof (rule pgFind_OK [OF assms])
    fix x assume "find (\<lambda>a. acEmail a = email) (map snd (tbAccounts (svTables s))) = Some x"
    then have "x \<in> snd ` set (tbAccounts (svTables s))" "acEmail x = email" by (auto dest!: find_range(2))
    then show "map_of (tbAccounts (svTables s)) (acID x) = Some x \<and> acEmail x = email" using keyed_set [OF acc] key(1) by force
  next
    assume "find (\<lambda>a. acEmail a = email) (map snd (tbAccounts (svTables s))) = None"
    then show "\<forall>i a. map_of (tbAccounts (svTables s)) i = Some a \<longrightarrow> acEmail a \<noteq> email"
      by (auto simp: find_range(1) dest!: map_of_SomeD)
  qed
  show "wp (pgListAccounts E) (readOK (pgInv E) s (\<lambda>xs t. noFaults E \<longrightarrow> set xs = snd ` set (tbAccounts t))) s"
    unfolding pgListAccounts_def using rangeOf_set [OF wf(1)] acc by (intro pgList_OK [OF assms]) (auto simp: keyed_def)
  show "wp (pgDevicesByAccount E i) (readOK (pgInv E) s (\<lambda>xs t.
      (\<forall>d \<in> set xs. dvAccountID d = i \<and> map_of (tbDevices t) (dvID d) = Some d) \<and>
      (noFaults E \<longrightarrow> (\<forall>k d. map_of (tbDevices t) k = Some d \<longrightarrow> dvAccountID d = i \<longrightarrow> d \<in> set xs)))) s"
    unfolding pgDevicesByAccount_def using range(2) key(2) by (intro pgList_OK [OF assms]) auto
  show "wp (pgCertificateByDevice E dev) (readOK (pgInv E) s (\<lambda>xe t.
      if snd xe = None then map_of (tbCertificates t) (ceID (fst xe)) = Some (fst xe) \<and> ceDeviceID (fst xe) = dev
      else noFaults E \<longrightarrow> (\<forall>k c. map_of (tbCertificates t) k = Some c \<longrightarrow> ceDeviceID c \<noteq> dev))) s"
    unfolding pgCertificateByDevice_def using range(3) key(4)
    by (intro pgFind_OK [OF assms]) (auto simp: latestOf_None filter_empty_conv dest!: latestOf_in)
  show "wp (pgCertificateBySerial E serial) (readOK (pgInv E) s (\<lambda>xe t.
      if snd xe = None then map_of (tbCertificates t) (ceID (fst xe)) = Some (fst xe) \<and> ceSerial (fst xe) = serial
      else noFaults E \<longrightarrow> (\<forall>k c. map_of (tbCertificates t) k = Some c \<longrightarrow> ceSerial c \<noteq> serial))) s"
    unfolding pgCertificateBySerial_def using range(3) key(4)
    by (intro pgFind_OK [OF assms]) (auto simp: find_range(1) dest!: find_range(2))
  show "wp (pgCertificatesByAccount E i) (readOK (pgInv E) s (\<lambda>xs t.
      (\<forall>c \<in> set xs. ceAccountID c = i \<and> map_of (tbCertificates t) (ceID c) = Some c) \<and>
      (noFaults E \<longrightarrow> (\<forall>k c. map_of (tbCertificates t) k = Some c \<longrightarrow> ceAccountID c = i \<longrightarrow> c \<in> set xs)))) s"
    unfolding pgCertificatesByAccount_def using range(3) key(4) by (intro pgList_OK [OF assms]) auto
qed

lemma pgChanges_OK:
  assumes "pgInv E s"
  shows "wp (pgSetAccountStatus E i st)
      (changeOK (pgInv E) (noFaults E) tbAccounts tbAccounts_update i (\<lambda>a b. b = a\<lparr>acStatus := st\<rparr>) s) s"
    and "wp (pgUpdateAccountProfile E i fn org)
      (changeOK (pgInv E) (noFaults E) tbAccounts tbAccounts_update i (\<lambda>a b. b = a\<lparr>acFullName := fn, acOrganization := org\<rparr>) s) s"
    and "wp (pgSetAccountPassword E i h)
      (changeOK (pgInv E) (noFaults E) tbAccounts tbAccounts_update i (\<lambda>a b. b = a\<lparr>acPasswordHash := h\<rparr>) s) s"
    and "wp (pgSetDeviceStatus E i st)
      (changeOK (pgInv E) (noFaults E) tbDevices tbDevices_update i (\<lambda>a b. b = a\<lparr>dvStatus := st\<rparr>) s) s"
    and "wp (pgSetEnrollmentStatus E i st)
      (changeOK (pgInv E) (noFaults E) tbEnrollments tbEnrollments_update i (\<lambda>a b. b = a\<lparr>enrStatus := st\<rparr>) s) s"
    and "wp (pgSetReservationStatus E i st)
      (changeOK (pgInv E) (noFaults E) tbReservations tbReservations_update i (\<lambda>a b. b = a\<lparr>rsStatus := st\<rparr>) s) s"
    and "wp (pgRevokeCertificate E i reason) (changeOK (pgInv E) (noFaults E) tbCertificates tbCertificates_update i
      (\<lambda>a b. b = a\<lparr>ceStatus := CertRevoked, ceRevokedAt := ceRevokedAt b, ceRevReason := reason\<rparr>) s) s"
proof -
  have wf: "tables_wf (svTables s)" using assms by (simp add: pgInv_def)
  note acct = wf_accounts_change [OF wf] and rest = wf_others [OF wf] and key = wf_keyed [OF wf] and slash = wf_reservation_id [OF wf]
  show "wp (pgSetAccountStatus E i st)
      (changeOK (pgInv E) (noFaults E) tbAccounts tbAccounts_update i (\<lambda>a b. b = a\<lparr>acStatus := st\<rparr>) s) s"
    unfolding pgSetAccountStatus_def by (rule pgUpdate_OK [OF assms]) (auto intro: acct)
  show "wp (pgUpdateAccountProfile E i fn org)
      (changeOK (pgInv E) (noFaults E) tbAccounts tbAccounts_update i (\<lambda>a b. b = a\<lparr>acFullName := fn, acOrganization := org\<rparr>) s) s"
    unfolding pgUpdateAccountProfile_def by (rule pgUpdate_OK [OF assms]) (auto intro: acct)
  show "wp (pgSetAccountPassword E i h)
      (changeOK (pgInv E) (noFaults E) tbAccounts tbAccounts_update i (\<lambda>a b. b = a\<lparr>acPasswordHash := h\<rparr>) s) s"
    unfolding pgSetAccountPassword_def by (rule pgUpdate_OK [OF assms]) (auto intro: acct)
  show "wp (pgSetDeviceStatus E i st)
      (changeOK (pgInv E) (noFaults E) tbDevices tbDevices_update i (\<lambda>a b. b = a\<lparr>dvStatus := st\<rparr>) s) s"
    unfolding pgSetDeviceStatus_def by (rule pgUpdate_OK [OF assms]) (auto intro!: rest simp: key dest: slash)
  show "wp (pgSetEnrollmentStatus E i st)
      (changeOK (pgInv E) (noFaults E) tbEnrollments tbEnrollments_update i (\<lambda>a b. b = a\<lparr>enrStatus := st\<rparr>) s) s"
    unfolding pgSetEnrollmentStatus_def by (rule pgUpdate_OK [OF assms]) (auto intro!: rest simp: key dest: slash)
  show "wp (pgSetReservationStatus E i st)
      (changeOK (pgInv E) (noFaults E) tbReservations tbReservations_update i (\<lambda>a b. b = a\<lparr>rsStatus := st\<rparr>) s) s"
    unfolding pgSetReservationStatus_def by (rule pgUpdate_OK [OF assms]) (auto intro!: rest simp: key dest: slash)
  show "wp (pgRevokeCertificate E i reason) (changeOK (pgInv E) (noFaults E) tbCertificates tbCertificates_update i
      (\<lambda>a b. b = a\<lparr>ceStatus := CertRevoked, ceRevokedAt := ceRevokedAt b, ceRevReason := reason\<rparr>) s) s"
  proof (cases "map_of (tbCertificates (svTables s)) i")
    case (Some c)
    let ?c = "c\<lparr>ceStatus := CertRevoked, ceRevokedAt := teNow E (svTick s), ceRevReason := reason\<rparr>"
    have "\<exists>b. b = c\<lparr>ceStatus := CertRevoked, ceRevokedAt := ceRevokedAt b, ceRevReason := reason\<rparr> \<and>
        tbCertificates_update (AList.update i ?c) (svTables s) = tbCertificates_update (AList.update i b) (svTables s)"
      by (rule exI [of _ ?c]) simp
    then show ?thesis
      using Some assms rest(3) [of ?c i] key(4) [OF Some]
      by (auto simp: pgRevokeCertificate_def pgUpdate_def memChange_def wp_simps ok_defs pgInv_def noFaults_def)
  qed (use assms in \<open>simp add: pgRevokeCertificate_def pgUpdate_def memChange_def wp_simps ok_defs pgInv_def\<close>)
qed

interpretation pg: ttd_store "postgresStore E" "pgInv E" "noFaults E" for E
proof (unfold_locales, goal_cases)
  case (1 s) then show ?case by (simp add: pgInv_def)
next
  case (2 s s') then show ?case by (simp add: pgInv_def)
next
  case 3 then show ?case by (simp add: postgresStore_def pgCreateAccount_OK)
next
  case 4 then show ?case using pgQueries_OK(1) by (simp add: postgresStore_def)
next
  case (5 s i) then show ?case
    using wp_mono [OF pgQuery_OK [OF 5, of zeroAccount "\<lambda>t. map_of (tbAccounts t) i"]] by (simp add: postgresStore_def pgAccount_def readOK_def)
next
  case 6 then show ?case using pgQueries_OK(2) by (simp add: postgresStore_def)
next
  case 7 then show ?case using pgChanges_OK(1) by (simp add: postgresStore_def)
next
  case 8 then show ?case using pgChanges_OK(2) by (simp add: postgresStore_def)
next
  case 9 then show ?case using pgChanges_OK(3) by (simp add: postgresStore_def)
next
  case 10 then show ?case using pgDeleteAccount_OK by (simp add: postgresStore_def)
next
  case 11 then show ?case using pgQuery_OK by (simp add: postgresStore_def pgSuperSecurity_def)
next
  case (12 s x)
  have "tables_wf (tbSuper_update (AList.update (ssAccountID x) x) (svTables s))" using 12 wf_others(6) by (simp add: pgInv_def)
  then show ?case using 12 by (simp add: postgresStore_def pgPutSuperSecurity_def pgInsert_def wp_simps ok_defs pgInv_def)
next
  case 13 then show ?case using pgCreates_OK(1) by (simp add: postgresStore_def)
next
  case (14 s i) then show ?case
    using wp_mono [OF pgQuery_OK [OF 14, of zeroDevice "\<lambda>t. map_of (tbDevices t) i"]] by (simp add: postgresStore_def pgDevice_def readOK_def)
next
  case 15 then show ?case using pgChanges_OK(4) by (simp add: postgresStore_def)
next
  case 16 then show ?case using pgQueries_OK(3) by (simp add: postgresStore_def)
next
  case 17 then show ?case using pgCreates_OK(2) by (simp add: postgresStore_def)
next
  case (18 s i) then show ?case
    using wp_mono [OF pgQuery_OK [OF 18, of zeroEnrollment "\<lambda>t. map_of (tbEnrollments t) i"]] by (simp add: postgresStore_def pgEnrollment_def readOK_def)
next
  case 19 then show ?case by (simp add: postgresStore_def pgListEnrollments_def pgList_OK)
next
  case 20 then show ?case using pgChanges_OK(5) by (simp add: postgresStore_def)
next
  case 21 then show ?case using pgCreates_OK(3) by (simp add: postgresStore_def)
next
  case (22 s i) then show ?case
    using wp_mono [OF pgQuery_OK [OF 22, of zeroCertificate "\<lambda>t. map_of (tbCertificates t) i"]] by (simp add: postgresStore_def pgCertificate_def readOK_def)
next
  case 23 then show ?case using pgQueries_OK(4) by (simp add: postgresStore_def)
next
  case 24 then show ?case using pgQueries_OK(5) by (simp add: postgresStore_def)
next
  case 25 then show ?case using pgQueries_OK(6) by (simp add: postgresStore_def)
next
  case 26 then show ?case using pgChanges_OK(7) by (simp add: postgresStore_def)
next
  case 27 then show ?case using pgCreates_OK(4) by (simp add: postgresStore_def)
next
  case (28 s i) then show ?case
    using wp_mono [OF pgQuery_OK [OF 28, of zeroReservation "\<lambda>t. map_of (tbReservations t) i"]] by (simp add: postgresStore_def pgReservation_def readOK_def)
next
  case 29 then show ?case using pgChanges_OK(6) by (simp add: postgresStore_def)
next
  case 30 then show ?case using pgCreates_OK(5) by (simp add: postgresStore_def)
next
  case (31 s i) then show ?case
    using wp_mono [OF pgQuery_OK [OF 31, of zeroSignature "\<lambda>t. map_of (tbSignatures t) i"]] by (simp add: postgresStore_def pgSignature_def readOK_def)
next
  case 32 then show ?case by (simp add: postgresStore_def pgSignaturesByAccount_def pgList_OK)
next
  case (33 s k b) then show ?case using wf_others(8) [of "svTables s" k b]
    by (simp add: postgresStore_def dbPutObject_def pgInsert_def wp_simps ok_defs pgInv_def)
next
  case (34 s k) then show ?case
    using wp_mono [OF pgQuery_OK [OF 34, of "[]" "\<lambda>t. map_of (tbObjects t) k"]] by (simp add: postgresStore_def dbGetObject_def readOK_def)
next
  case (35 s k rd sz) then show ?case using wf_others(8) [of "svTables s" k "the rd"]
    by (cases rd) (simp_all add: postgresStore_def dbPutObjectFrom_def dbPutObject_def pgInsert_def wp_simps ok_defs pgInv_def)
next
  case (36 s ev)
  have "\<exists>l. tbAudit_update f t = t\<lparr>tbAudit := l\<rparr>" for f and t :: tables by (rule exI [of _ "f (tbAudit t)"]) (cases t, simp)
  moreover have "\<exists>l. t = t\<lparr>tbAudit := l\<rparr>" for t :: tables by (rule exI [of _ "tbAudit t"]) simp
  ultimately show ?case
    using 36 wf_others(9) [of "svTables s"] by (simp add: postgresStore_def pgAppend_def pgInsert_def wp_simps frame_def pgInv_def)
next
  case 37 then show ?case by (simp add: postgresStore_def pgAuditEvents_def pgList_OK)
qed

end
