(* ===== verification/TTD_Reach.thy ===== *)
theory TTD_Reach
  imports TTD_Backing TTD_Memory TTD_Postgres
begin

text \<open>
  Start-up, and the invariants of every state the TTD server can reach, first for any store that keeps its promises and then for
  the two stores of the code.
\<close>

section \<open>Start-up\<close>

lemma withDefaults_roots [simp]:
  "cfgRootCAPEM (withDefaults tmp cfg) = cfgRootCAPEM cfg" "cfgCAChainPEM (withDefaults tmp cfg) = cfgCAChainPEM cfg"
  by (simp_all add: withDefaults_def Let_def)

lemma backed_withDefaults [simp]: "backed lib (withDefaults tmp cfg) t = backed lib cfg t"
  by (simp add: backed_def backedBy_def strictlyVerified_def)

context ttd_store
begin

lemma same_tokens: "invar s \<Longrightarrow> wp (hashPassword T pw) (same s (\<lambda>_. True)) s" "invar s \<Longrightarrow> wp (randToken T n) (same s (\<lambda>_. True)) s"
  unfolding hashPassword_def randToken_def randRead_def
  by (auto simp: wp_simps same_def split: option.splits intro: inv_frame)

lemma createSuperAdmin_quiet:
  assumes T: "ttStore T = S" and s: "invar s" "superAdmins (svTables s) = {}"
  shows "wp (createSuperAdmin T u hash) (\<lambda>_ s'. invar s' \<and> quiet (svTables s) (svTables s')) s"
  unfolding createSuperAdmin_def T
proof (subst wp_bind, rule wp_mono [OF create_account [OF s(1)]])
  let ?a = "zeroAccount\<lparr>acEmail := u, acDisplayName := u, acRole := RoleSuperAdmin, acStatus := AccountActive, acPasswordHash := hash\<rparr>"
  show "newAccount ?a (svTables s)" using s(2) by (simp add: newAccount_def zeroAccount_def status_defs)
  fix y s1 assume c: "createOK invar tbAccounts tbAccounts_update acID (\<lambda>x. x = ?a\<lparr>acID := acID x, acCreatedAt := acCreatedAt x\<rparr>) s y s1"
  have q: "quiet (svTables s) (svTables s1)" "invar s1"
    using c by (auto simp: createOK_def quiet_def grows_refl grows_tables split: if_splits)
  have "runs invar quiet (case y of (acc, e) \<Rightarrow> if e \<noteq> None then ret ()
      else do { e' \<leftarrow> stPutSuperSecurity S (zeroSecurity\<lparr>ssAccountID := acID acc, ssMustChange := True\<rparr>); ret () })"
    by (intro runs_intros)
  from runsD [OF this q(2)] show "wp (case y of (acc, e) \<Rightarrow> if e \<noteq> None then ret ()
      else do { e' \<leftarrow> stPutSuperSecurity S (zeroSecurity\<lparr>ssAccountID := acID acc, ssMustChange := True\<rparr>); ret () })
      (\<lambda>_ s'. invar s' \<and> quiet (svTables s) (svTables s')) s1"
    by (rule wp_mono) (use q(1) quiet_trans in blast)
qed

lemma ensureSuperAdmin_quiet:
  assumes rel: reliable and T: "ttStore T = S"
  shows "runs invar quiet (ensureSuperAdmin T)"
proof -
  have create: "wp (do { hash \<leftarrow> hashPassword T pw; (case hash of None \<Rightarrow> ret () | Some hash \<Rightarrow> createSuperAdmin T u hash) })
      (\<lambda>_ s'. invar s' \<and> quiet t (svTables s')) s" if "invar s" "superAdmins t = {}" "svTables s = t" for s t pw u
    using that
    by (subst wp_bind, intro wp_mono [OF same_tokens(1)])
      (auto simp: same_def wp_return quiet.rel_refl split: option.split intro!: wp_mono [OF createSuperAdmin_quiet [OF T]])
  have "superAdmins t = {}" if "\<not> list_ex (\<lambda>a. acRole a = RoleSuperAdmin) xs" "set xs = snd ` set (tbAccounts t)" for t and xs :: "Account list"
    using that by (fastforce simp: superAdmins_def list_ex_iff dest: map_of_SomeD)
  then show ?thesis
    unfolding ensureSuperAdmin_def T Let_def runs_def
    using create
    by (auto simp: wp_return wp_bind readOK_def same_def rel quiet.rel_refl intro!: wp_mono [OF list_accounts] wp_mono [OF same_tokens(2)])
qed

lemma New_quiet:
  assumes rel: reliable and s: "invar s"
  shows "wp (New S E lib cfg) (\<lambda>r s'. invar s' \<and> quiet (svTables s) (svTables s') \<and>
    (\<forall>T. r = Inr T \<longrightarrow> T = \<lparr>ttStore = S, ttEnv = E, ttCfg = withDefaults (tlTempRoot lib) cfg, ttLib = lib\<rparr>)) s"
proof -
  let ?T = "\<lparr>ttStore = S, ttEnv = E, ttCfg = withDefaults (tlTempRoot lib) cfg, ttLib = lib\<rparr>"
  let ?s = "s\<lparr>svCRL := cfgCRLPEM cfg, svUploads := []\<rparr>"
  have boot: "runs invar quiet (ensureBootstrapAdmin ?T)"
    unfolding ensureBootstrapAdmin_def Let_def
    by (simp only: ttd.simps) (intro runs_intros; simp add: newAccount_def zeroAccount_def role_defs status_defs)
  have "runs invar quiet (do { ensureSuperAdmin ?T; ensureBootstrapAdmin ?T })"
    by (intro runs_intros ensureSuperAdmin_quiet [OF rel] boot) simp
  then have "wp (do { ensureSuperAdmin ?T; ensureBootstrapAdmin ?T }) (\<lambda>_ s'. invar s' \<and> quiet (svTables s) (svTables s')) ?s"
    using runsD [of invar quiet _ ?s] inv_frame [OF s, of ?s] by simp
  then have "wp (do { ensureSuperAdmin ?T; ensureBootstrapAdmin ?T; ret (Inr ?T :: string + ttd) })
      (\<lambda>r s'. invar s' \<and> quiet (svTables s) (svTables s') \<and> (\<forall>T. r = Inr T \<longrightarrow> T = ?T)) ?s"
    unfolding wp_bind wp_return by simp
  then show ?thesis
    using s unfolding New_def Let_def by (simp only: wp_if wp_return wp_bind [of "modify _"] wp_modify) (simp add: quiet.rel_refl)
qed

lemma New_backed:
  assumes rel: reliable and s: "records_backed lib cfg s"
  shows "wp (New S E lib cfg) (\<lambda>r s'. records_backed lib cfg s' \<and>
    (\<forall>T. r = Inr T \<longrightarrow> T = \<lparr>ttStore = S, ttEnv = E, ttCfg = withDefaults (tlTempRoot lib) cfg, ttLib = lib\<rparr>)) s"
  using s by (intro wp_mono [OF New_quiet [OF rel]]) (auto intro: backed_quiet)

lemma reach_backed:
  assumes rel: reliable and s0: "records_backed lib cfg s0" and r: "ttdReach S E lib cfg s0 T s"
  shows "records_backed lib cfg s \<and> T = \<lparr>ttStore = S, ttEnv = E, ttCfg = withDefaults (tlTempRoot lib) cfg, ttLib = lib\<rparr>"
  using r
proof induction
  case (ttd_start T s)
  then show ?case using wp_run [OF New_backed [OF rel s0]] by auto
next
  case (ttd_restart T s T' s')
  then show ?case using wp_run [OF New_backed [OF rel]] by blast
next
  case (ttd_serve T s r rep s')
  then show ?case using wp_run [OF serve_backed [OF rel, of T s r], of rep s'] by simp
next
  case (ttd_reap T s u s')
  then show ?case using wp_run [OF keeps_backed [OF quiet.keeps_uploads(7), of s lib cfg T], of u s'] by simp
qed

end

section \<open>The two stores\<close>

text \<open>
  The store of the code behind a server, in a state that satisfies its invariant; the database one without statement errors.
\<close>

definition storeOK :: "tenv \<Rightarrow> Store \<Rightarrow> server \<Rightarrow> bool" where
  "storeOK E st s \<longleftrightarrow> st = memoryStore E \<and> memInv E s \<or> st = postgresStore E \<and> noFaults E \<and> pgInv E s"

definition serverOf :: "tenv \<Rightarrow> Store \<Rightarrow> tlib \<Rightarrow> Config \<Rightarrow> ttd" where
  "serverOf E st lib cfg = \<lparr>ttStore = st, ttEnv = E, ttCfg = withDefaults (tlTempRoot lib) cfg, ttLib = lib\<rparr>"

lemma storeOK_wf: "storeOK E st s \<Longrightarrow> tables_wf (svTables s)"
  unfolding storeOK_def by (auto dest: mem.inv_wf pg.inv_wf)

lemma tables_wf_empty: "tables_wf emptyTables"
  by (simp add: tables_wf_def emptyTables_def keyed_def accounts_wf_def)

lemma storeOK_empty:
  assumes "iterates E" "st = memoryStore E \<and> uniqueIDs E \<or> st = postgresStore E \<and> noFaults E"
  shows "storeOK E st emptyServer"
  using assms tables_wf_empty
  by (auto simp: storeOK_def memInv_def pgInv_def emptyServer_def emailIndex_def minted_def emptyTables_def)

lemma backed_empty: "backed lib cfg emptyTables"
  by (simp add: backed_def emptyTables_def)

lemma storeOK_reach:
  assumes "storeOK E st s0" "backed lib cfg (svTables s0)" "ttdReach st E lib cfg s0 T s"
  shows "storeOK E st s \<and> backed lib cfg (svTables s) \<and> T = serverOf E st lib cfg"
  using assms mem.reach_backed [where E = E and lib = lib and cfg = cfg and T = T] pg.reach_backed [where E = E and lib = lib and cfg = cfg and T = T]
  unfolding storeOK_def serverOf_def by blast

end
