(* ===== verification/TTD_Disable.thy ===== *)
theory TTD_Disable
  imports TTD_Reach
begin

text \<open>
  Disabling an account on a reliable store: every certificate behind its signatures is revoked, and stays so however the server
  goes on, so that the public record of those signatures reads "revoked" from then on.
\<close>

section \<open>What happens later\<close>

inductive ttdLater :: "ttd \<Rightarrow> server \<Rightarrow> server \<Rightarrow> bool" for T where
  later_refl: "ttdLater T s s"
| later_serve: "ttdLater T s s' \<Longrightarrow> run_state (serve T r) s' = (rep, s'') \<Longrightarrow> ttdLater T s s''"
| later_reap: "ttdLater T s s' \<Longrightarrow> run_state (reaper T) s' = (u, s'') \<Longrightarrow> ttdLater T s s''"
| later_restart: "ttdLater T s s' \<Longrightarrow> run_state (New (ttStore T) (ttEnv T) (ttLib T) cfg) s' = (Inr T, s'') \<Longrightarrow> ttdLater T s s''"

definition revoked :: "tables \<Rightarrow> string \<Rightarrow> bool" where
  "revoked t i \<longleftrightarrow> (\<exists>c. map_of (tbCertificates t) i = Some c \<and> ceStatus c = CertRevoked)"

definition uniqueSerials :: "tables \<Rightarrow> bool" where
  "uniqueSerials t \<longleftrightarrow>
     (\<forall>i j c d. map_of (tbCertificates t) i = Some c \<longrightarrow> map_of (tbCertificates t) j = Some d \<longrightarrow> ceSerial c = ceSerial d \<longrightarrow> c = d)"

definition jmember :: "string \<Rightarrow> jval \<Rightarrow> jval option" where
  "jmember k v = (case v of JObj fs \<Rightarrow> map_of fs k | _ \<Rightarrow> None)"

lemma revoked_grows: "grows t t' \<Longrightarrow> revoked t i \<Longrightarrow> revoked t' i"
  unfolding revoked_def grows_def using sameCert_fields by blast

lemma quiet_grows: "quiet t t' \<Longrightarrow> grows t t'"
  by (simp add: quiet_def)

context ttd_store
begin

lemma later_grows:
  assumes rel: reliable and T: "ttStore T = S" and l: "ttdLater T s s'" and s: "invar s"
  shows "invar s' \<and> grows (svTables s) (svTables s')"
  using l s
proof induction
  case later_refl
  then show ?case by (simp add: grows_refl)
next
  case (later_serve s s' r rep s'')
  then show ?case using runs_run [OF grow.keeps_any [OF T], of s' r rep s''] grows_trans by blast
next
  case (later_reap s s' u s'')
  then show ?case using runs_run [OF grow.keeps_uploads(7), of s' T u s''] grows_trans by blast
next
  case (later_restart s s' cfg s'')
  then show ?case using wp_run [OF New_quiet [OF rel, of s' "ttEnv T" "ttLib T" cfg]] quiet_grows grows_trans unfolding T by blast
qed

section \<open>The cascade\<close>

lemma revoke_one:
  assumes rel: reliable and T: "ttStore T = S" and s: "invar s" "grows t (svTables s)" "map_of (tbCertificates t) (ceID c) = Some c"
  shows "wp (cascadeOne T i reason c) (\<lambda>_ s'. invar s' \<and> grows t (svTables s') \<and>
    (ceStatus c = CertActive \<longrightarrow> revoked (svTables s') (ceID c))) s"
proof (cases "ceStatus c = CertActive")
  case True
  define rest where "rest = do {
        _ \<leftarrow> revokeViaCA T (ceSerial c) ''cessationOfOperation'';
        ds \<leftarrow> stDevicesByAccount (ttStore T) i;
        _ \<leftarrow> mapA (loseDevice T c) ds;
        stAppend (ttStore T) (auditEventOf ''certificate.revoke'' i (ceDeviceID c) ''ok'' (ceSerial c @ '' '' @ reason));
        ret True }"
  have rest: "runs invar grows rest" unfolding rest_def loseDevice_def T by (intro runs_intros)
  have c: "cascadeOne T i reason c = do { _ \<leftarrow> stRevokeCertificate S (ceID c) reason; rest }"
    using True by (simp add: cascadeOne_def rest_def T)
  show ?thesis
    unfolding c
  proof (subst wp_bind, rule wp_mono [OF revoke_certificate [OF s(1)]])
    fix e s1
    assume w: "changeOK invar reliable tbCertificates tbCertificates_update (ceID c)
      (\<lambda>a b. b = a\<lparr>ceStatus := CertRevoked, ceRevokedAt := ceRevokedAt b, ceRevReason := reason\<rparr>) s e s1"
    obtain c' where "map_of (tbCertificates (svTables s)) (ceID c) = Some c'" using s(2,3) unfolding grows_def by blast
    then obtain b where b: "svTables s1 = tbCertificates_update (AList.update (ceID c) b) (svTables s)" "invar s1"
        "b = c'\<lparr>ceStatus := CertRevoked, ceRevokedAt := ceRevokedAt b, ceRevReason := reason\<rparr>"
      using w rel by (auto simp: changeOK_def split: if_splits)
    have "grows (svTables s) (svTables s1)"
      unfolding b(1) using grows_revoke [OF \<open>_ = Some c'\<close>, where ra = "ceRevokedAt b" and rr = reason] b(3) by simp
    moreover have "revoked (svTables s1) (ceID c)"
      unfolding revoked_def b(1) using arg_cong [OF b(3), of ceStatus] by (simp add: AList.update_conv')
    ultimately show "wp rest (\<lambda>_ s'. invar s' \<and> grows t (svTables s') \<and> (ceStatus c = CertActive \<longrightarrow> revoked (svTables s') (ceID c))) s1"
      using s(2) by (intro wp_mono [OF runsD [OF rest b(2)]]) (blast intro: grows_trans revoked_grows)
  qed
qed (use s in \<open>simp add: cascadeOne_def wp_return\<close>)

lemma revoke_all:
  assumes rel: reliable and T: "ttStore T = S"
  shows "invar s \<Longrightarrow> grows t (svTables s) \<Longrightarrow> \<forall>c \<in> set cs. map_of (tbCertificates t) (ceID c) = Some c \<Longrightarrow>
    wp (mapA (cascadeOne T i reason) cs) (\<lambda>_ s'. invar s' \<and> grows t (svTables s') \<and>
      (\<forall>c \<in> set cs. ceStatus c = CertActive \<longrightarrow> revoked (svTables s') (ceID c))) s"
proof (induction cs arbitrary: s)
  case (Cons c cs)
  let ?rev = "\<lambda>c s'. ceStatus c = CertActive \<longrightarrow> revoked (svTables s') (ceID c)"
  have "wp (do { ys \<leftarrow> mapA (cascadeOne T i reason) cs; ret (y # ys) })
      (\<lambda>_ s'. invar s' \<and> grows t (svTables s') \<and> (\<forall>x \<in> set (c # cs). ?rev x s')) s1"
    if s1: "invar s1" "grows t (svTables s1)" "?rev c s1" for s1 y
  proof -
    have "runs invar grows (mapA (cascadeOne T i reason) cs)"
      unfolding cascadeOne_def loseDevice_def T by (intro runs_intros)
    then have "wp (mapA (cascadeOne T i reason) cs) (\<lambda>_ s'. (invar s' \<and> grows (svTables s1) (svTables s')) \<and>
        invar s' \<and> grows t (svTables s') \<and> (\<forall>c \<in> set cs. ?rev c s')) s1"
      using Cons s1 by (subst wp_conj) (simp add: runsD)
    then show ?thesis
      unfolding wp_bind by (rule wp_mono) (use s1(3) revoked_grows in \<open>auto simp: wp_return\<close>)
  qed
  then show ?case
    using Cons.prems unfolding mapA.simps
    by (subst wp_bind, intro wp_mono [OF revoke_one [OF rel T, of s t c]]) simp_all
qed (simp add: wp_return)

lemma cascade_revokes:
  assumes rel: reliable and T: "ttStore T = S" and s: "invar s"
  shows "wp (disableCascade T i reason) (\<lambda>_ s'. invar s' \<and> grows (svTables s) (svTables s') \<and>
    (\<forall>k c. map_of (tbCertificates (svTables s)) k = Some c \<longrightarrow> ceAccountID c = i \<longrightarrow> ceStatus c = CertActive \<longrightarrow> revoked (svTables s') k)) s"
    (is "wp _ ?post s")
  unfolding disableCascade_def T
proof (subst wp_bind, rule wp_mono [OF certificates_by_account [OF s]])
  fix cs s1
  assume w: "readOK invar s (\<lambda>xs t. (\<forall>c \<in> set xs. ceAccountID c = i \<and> map_of (tbCertificates t) (ceID c) = Some c) \<and>
    (reliable \<longrightarrow> (\<forall>k c. map_of (tbCertificates t) k = Some c \<longrightarrow> ceAccountID c = i \<longrightarrow> c \<in> set xs))) cs s1"
  have s1: "invar s1" "grows (svTables s) (svTables s1)" "\<forall>c \<in> set cs. map_of (tbCertificates (svTables s)) (ceID c) = Some c"
    using w by (auto simp: readOK_def grows_refl)
  have all: "revoked t' k" if r: "\<forall>c \<in> set cs. ceStatus c = CertActive \<longrightarrow> revoked t' (ceID c)"
    and c: "map_of (tbCertificates (svTables s)) k = Some c" "ceAccountID c = i" "ceStatus c = CertActive" for t' k c
    using w r c rel wf_keyed(4) [OF inv_wf [OF s] c(1)] by (auto simp: readOK_def)
  have pub: "runs invar grows (let n = length (filter id turns) in do { (if n > 0 then swapCRL T i else ret ()); ret n })" for turns
    unfolding swapCRL_def T by (intro runs_intros grow.keeps_modify) simp
  show "wp (do { turns \<leftarrow> mapA (cascadeOne T i reason) cs;
      (let n = length (filter id turns) in do { (if n > 0 then swapCRL T i else ret ()); ret n }) }) ?post s1"
  proof (subst wp_bind, rule wp_mono [OF revoke_all [OF rel T s1]])
    fix turns s2 assume a: "invar s2 \<and> grows (svTables s) (svTables s2) \<and> (\<forall>c \<in> set cs. ceStatus c = CertActive \<longrightarrow> revoked (svTables s2) (ceID c))"
    then have b: "\<forall>k c. map_of (tbCertificates (svTables s)) k = Some c \<longrightarrow> ceAccountID c = i \<longrightarrow> ceStatus c = CertActive \<longrightarrow>
        revoked (svTables s2) k" using all by blast
    show "wp (let n = length (filter id turns) in do { (if n > 0 then swapCRL T i else ret ()); ret n }) ?post s2"
      using a b by (intro wp_mono [OF runsD [OF pub]]) (blast intro: grows_trans revoked_grows)+
  qed
qed

lemma disable_revokes:
  assumes rel: reliable and T: "ttStore T = S" and s: "invar s"
    and a: "map_of (tbAccounts (svTables s)) i = Some a" "acRole a = RoleUser"
  shows "wp (hDisableAccount T i) (\<lambda>_ s'. invar s' \<and> quiet (svTables s) (svTables s') \<and>
    (\<forall>k c. map_of (tbCertificates (svTables s)) k = Some c \<longrightarrow> ceAccountID c = i \<longrightarrow> ceStatus c = CertActive \<longrightarrow> revoked (svTables s') k)) s"
    (is "wp _ (\<lambda>_ s'. ?Q s' \<and> _ s' \<and> ?rev s') s")
proof -
  have i: "acID a = i" using wf_keyed(1) [OF inv_wf [OF s] a(1)] .
  have tail: "runs invar grows (do { stAppend S ev; ret rep })" for ev and rep :: reply by (intro runs_intros)
  have main: "wp (do { _ \<leftarrow> stSetAccountStatus S i AccountDisabled; revoked' \<leftarrow> disableCascade T i ''account disabled'';
      stAppend S (auditEventOf ''account.disable'' i [] ''ok'' []);
      ret (accountStatusReply i AccountDisabled [(''certificates_revoked'', jint (int revoked'))]) }) (\<lambda>_. ?rev) s1"
    if s1: "invar s1" "svTables s1 = svTables s" for s1
  proof (subst wp_bind, rule wp_mono [OF set_account_status [OF s1(1)]])
    fix e s2 assume w: "changeOK invar reliable tbAccounts tbAccounts_update i (\<lambda>a b. b = a\<lparr>acStatus := AccountDisabled\<rparr>) s1 e s2"
    then have s2: "invar s2" "tbCertificates (svTables s2) = tbCertificates (svTables s)"
      using s1 by (auto simp: changeOK_def split: if_splits)
    show "wp (do { revoked' \<leftarrow> disableCascade T i ''account disabled'';
        stAppend S (auditEventOf ''account.disable'' i [] ''ok'' []);
        ret (accountStatusReply i AccountDisabled [(''certificates_revoked'', jint (int revoked'))]) }) (\<lambda>_. ?rev) s2"
      using s2(2) by (subst wp_bind, intro wp_mono [OF cascade_revokes [OF rel T s2(1)]])
        (intro wp_mono [OF runsD [OF tail]], auto intro: revoked_grows)
  qed
  have "wp (hDisableAccount T i) (\<lambda>_. ?rev) s"
    unfolding hDisableAccount_def onClient_def clientTarget_def T
    using a rel i main
    by (subst wp_bind, subst wp_bind, intro wp_mono [OF account [OF s]]) (auto simp: readOK_def found_def wp_return split: if_splits)
  then show ?thesis using runsD [OF quiet.keeps_accounts(8) [OF T] s, of i] by (simp add: wp_conj)
qed

text \<open>The public record of an accepted signature whose certificate is revoked.\<close>

lemma record_revoked:
  assumes rel: reliable and T: "ttStore T = S" and s: "invar s" "uniqueSerials (svTables s)"
    and g: "map_of (tbSignatures (svTables s)) pid = Some g" "sgVerificationStatus g = VerificationAccepted"
    and c: "map_of (tbCertificates (svTables s)) k = Some c" "ceStatus c = CertRevoked" "ceSerial c = sgCertSerial g"
  shows "wp (hPublicRecord T pid) (\<lambda>rep _. \<exists>v. rep = Reply 200 v \<and> jmember ''certificate_status'' v = Some (JStr ''revoked'')) s"
proof -
  have st: "VerificationAccepted \<noteq> VerificationStoredOnly" by (simp add: VerificationAccepted_def VerificationStoredOnly_def)
  have cert: "wp (publicRecord T g a d) (\<lambda>v _. jmember ''certificate_status'' v = Some (JStr ''revoked'')) s1" if s1: "invar s1" "svTables s1 = svTables s" for a d s1
    unfolding publicRecord_def T
  proof (subst wp_bind, rule wp_mono [OF certificate_by_serial [OF s1(1)]])
    fix ce :: "Certificate \<times> err" and s2
    assume w: "readOK invar s1 (\<lambda>xe t. if snd xe = None then map_of (tbCertificates t) (ceID (fst xe)) = Some (fst xe) \<and> ceSerial (fst xe) = sgCertSerial g
      else reliable \<longrightarrow> (\<forall>k c. map_of (tbCertificates t) k = Some c \<longrightarrow> ceSerial c \<noteq> sgCertSerial g)) ce s2"
    then have "snd ce = None" using c rel s1 by (auto simp: readOK_def split: if_splits)
    moreover then have "fst ce = c" using w c s(2) s1 unfolding uniqueSerials_def readOK_def by (metis (no_types, lifting))
    ultimately have "certStatusOf g ce d = ''revoked''" using c g(2) st by (simp add: certStatusOf_def)
    then show "wp (ret (JObj [(''public_id'', JStr (sgPublicID g)), (''signer_name'', JStr (acDisplayName a)), (''position'', JStr (acPosition a)),
            (''nip'', JStr (acNIP a)), (''device_label'', JStr (dvLabel d)), (''certificate_serial'', JStr (sgCertSerial g)),
            (''certificate_fingerprint'', JStr (sgCertFingerprint g)), (''certificate_status'', JStr (certStatusOf g ce d)),
            (''verification_status'', JStr (sgVerificationStatus g)), (''signed_pdf_sha512'', JStr (sgSignedSHA512 g)),
            (''client_claimed_signing_time'', JStr (sgClientClaimedSigningTime g)),
            (''server_received_at'', JStr (fmtTime (sgServerReceivedAt g))),
            (''note'', JStr (if sgVerificationStatus g = VerificationStoredOnly then noteStored else noteMatch))]))
        (\<lambda>v _. jmember ''certificate_status'' v = Some (JStr ''revoked'')) s2"
      by (simp add: wp_return jmember_def)
  qed
  have rec: "wp (recordOf T g) (\<lambda>v _. jmember ''certificate_status'' v = Some (JStr ''revoked'')) s1" if "invar s1" "svTables s1 = svTables s" for s1
    unfolding recordOf_def T using that
    by (subst wp_bind, intro wp_mono [OF account]) (auto simp: readOK_def wp_bind intro!: wp_mono [OF device] cert)
  show ?thesis
    unfolding hPublicRecord_def T wp_bind using g(1) rel
    by (intro wp_mono [OF signature [OF s(1)]])
      (auto simp: readOK_def found_def wp_bind wp_return split: if_splits intro!: wp_mono [OF rec])
qed

lemma disabled_stays_revoked:
  assumes rel: reliable and T: "ttStore T = S" and s: "records_backed lib cfg s"
    and a: "map_of (tbAccounts (svTables s)) i = Some a" "acRole a = RoleUser"
    and d: "run_state (hDisableAccount T i) s = (rep, s1)"
    and g: "map_of (tbSignatures (svTables s1)) pid = Some g" "sgAccountID g = i" "sgVerificationStatus g = VerificationAccepted"
    and l: "ttdLater T s1 s2" and u: "uniqueSerials (svTables s2)" and r: "run_state (hPublicRecord T pid) s2 = (rep', s3)"
  shows "\<exists>v. rep' = Reply 200 v \<and> jmember ''certificate_status'' v = Some (JStr ''revoked'')"
proof -
  have s1: "invar s1" "quiet (svTables s) (svTables s1)"
    and rev: "\<And>k c. map_of (tbCertificates (svTables s)) k = Some c \<Longrightarrow> ceAccountID c = i \<Longrightarrow> ceStatus c = CertActive \<Longrightarrow> revoked (svTables s1) k"
    using wp_run [OF disable_revokes [OF rel T _ a] d] s by blast+
  have "map_of (tbSignatures (svTables s)) pid = Some g" using g(1) s1(2) by (simp add: quiet_def)
  then obtain res b where "backedBy lib cfg (svTables s) g res b" using s by (metis backedD)
  then obtain c where c: "map_of (tbCertificates (svTables s)) (sgCertificateID g) = Some c" "ceSerial c = sgCertSerial g"
      "ceStatus c \<in> {CertActive, CertRevoked}" "ceAccountID c = i"
    using g(2,3) unfolding backedBy_def strictlyVerified_def by auto
  have "revoked (svTables s1) (sgCertificateID g)"
    using rev [OF c(1,4)] c(1,3) revoked_grows [OF quiet_grows [OF s1(2)]] unfolding revoked_def by blast
  moreover have s2: "invar s2" "grows (svTables s1) (svTables s2)" using later_grows [OF rel T l s1(1)] by auto
  ultimately have "revoked (svTables s2) (sgCertificateID g)" using revoked_grows by blast
  moreover obtain c' where "map_of (tbCertificates (svTables s2)) (sgCertificateID g) = Some c'" "sameCert c c'"
    using c(1) grows_trans [OF quiet_grows [OF s1(2)] s2(2)] unfolding grows_def by blast
  moreover have "map_of (tbSignatures (svTables s2)) pid = Some g"
    using s2(2) g(1) unfolding grows_def by (metis domI map_le_def)
  ultimately show ?thesis
    using c(2) g(3) sameCert_fields [of c c'] unfolding revoked_def
    by (intro wp_run [OF record_revoked [OF rel T s2(1) u, of pid g "sgCertificateID g" c'] r]) auto
qed

end

end
