(* ===== verification/TTD_Office.thy ===== *)
theory TTD_Office
  imports TTD_Disable Office_Sync
begin

text \<open>
  The office service asking the TTD server: \<^verbatim>\<open>HTTPTTD\<close> of \<^verbatim>\<open>api/internal/httpapi/ttdclient.go\<close> over the internal routes of the TTD server,
  and what an approval that passes the office's check means in the TTD server's own records.

  The client puts the public id into the request path as it is.  An id that is one path segment is routed to the handler
  with its percent-escapes undone; where any other string leads is the argument \<open>other\<close>.  Both requests see the same state.  A reply is
  decoded from the value that was encoded, unless it exceeds the client's limit (\<open>fits\<close>).
\<close>

section \<open>The client\<close>

fun unescapeSegment :: "string \<Rightarrow> string option" where
  "unescapeSegment [] = Some []"
| "unescapeSegment (c # r) =
     (if c = CHR ''%'' then
        (case r of
           a # b # r' \<Rightarrow>
             (case (hexVal a, hexVal b) of
                (Some x, Some y) \<Rightarrow> map_option ((#) (char_of (16 * x + y))) (unescapeSegment r')
              | _ \<Rightarrow> None)
         | _ \<Rightarrow> None)
      else map_option ((#) c) (unescapeSegment r))"

definition pathSegment :: "string \<Rightarrow> string option" where
  "pathSegment p =
     (if p = [] \<or> p = ''.'' \<or> p = ''..'' \<or> list_ex (\<lambda>c. c \<in> {CHR ''/'', CHR ''?'', CHR ''#''} \<or> code c < 32 \<or> code c = 127) p then None
      else unescapeSegment p)"

definition textOf :: "jval \<Rightarrow> string \<Rightarrow> string" where
  "textOf v k = (case jmember k v of Some (JStr t) \<Rightarrow> t | _ \<Rightarrow> [])"

definition decodeRecord :: "jval \<Rightarrow> TTDRecord" where
  "decodeRecord v =
     \<lparr>ttdPublicID = textOf v ''public_id'', ttdAccountID = textOf v ''account_id'', ttdOriginalSHA512 = textOf v ''original_sha512'',
      ttdSignedSHA512 = textOf v ''signed_sha512'', ttdVerificationStatus = textOf v ''verification_status'',
      ttdVerificationURL = textOf v ''verification_url''\<rparr>"

definition httpRecord :: "(jval \<Rightarrow> bool) \<Rightarrow> ttd \<Rightarrow> string \<Rightarrow> server \<Rightarrow> string \<Rightarrow> TTDRecord option" where
  "httpRecord fits T secret s i =
     (case fst (run_state (serve T (OfficeSignature secret i)) s) of
        Reply st v \<Rightarrow> if st = 200 \<and> fits v then Some (decodeRecord v) else None
      | _ \<Rightarrow> None)"

definition httpSignedPDF :: "ttd \<Rightarrow> string \<Rightarrow> server \<Rightarrow> string \<Rightarrow> bytes option" where
  "httpSignedPDF T secret s i =
     (case fst (run_state (serve T (OfficeDocument secret i)) s) of
        Bytes _ b \<Rightarrow> if int (length b) > maxDocumentSize then None else Some b
      | _ \<Rightarrow> None)"

definition httpTTD :: "TTDVerifier \<Rightarrow> (jval \<Rightarrow> bool) \<Rightarrow> ttd \<Rightarrow> string \<Rightarrow> server \<Rightarrow> TTDVerifier" where
  "httpTTD other fits T secret s =
     \<lparr>ttdRecord = (\<lambda>p. case pathSegment p of None \<Rightarrow> ttdRecord other p | Some i \<Rightarrow> httpRecord fits T secret s i),
      ttdSignedPDF = (\<lambda>p. case pathSegment p of None \<Rightarrow> ttdSignedPDF other p | Some i \<Rightarrow> httpSignedPDF T secret s i)\<rparr>"

section \<open>What the replies say\<close>

context ttd_store
begin

lemma httpRecord_stored:
  assumes T: "ttStore T = S" and s: "invar s" and r: "httpRecord fits T secret s i = Some rc"
  shows "\<exists>g. map_of (tbSignatures (svTables s)) i = Some g \<and> ttdAccountID rc = sgAccountID g \<and> ttdOriginalSHA512 rc = sgOriginalSHA512 g \<and>
    ttdSignedSHA512 rc = sgSignedSHA512 g \<and> ttdVerificationStatus rc = sgVerificationStatus g"
proof -
  have "wp (serve T (OfficeSignature secret i)) (\<lambda>rep _. \<forall>v. rep = Reply 200 v \<longrightarrow> (\<exists>g. map_of (tbSignatures (svTables s)) i = Some g \<and>
      decodeRecord v = \<lparr>ttdPublicID = sgPublicID g, ttdAccountID = sgAccountID g, ttdOriginalSHA512 = sgOriginalSHA512 g,
        ttdSignedSHA512 = sgSignedSHA512 g, ttdVerificationStatus = sgVerificationStatus g, ttdVerificationURL = verifyURL T (sgPublicID g)\<rparr>)) s"
    unfolding serve.simps whenOffice_def officeSecret_def hOfficeSignature_def T wp_if wp_bind wp_return
    by (auto simp: notFound_def writeErr_def readOK_def found_def wp_return decodeRecord_def textOf_def jmember_def intro!: wp_mono [OF signature [OF s]] split: if_splits)
  then show ?thesis
    using r unfolding httpRecord_def wp_def by (auto split: reply.splits prod.splits if_splits)
qed

lemma httpSignedPDF_stored:
  assumes T: "ttStore T = S" and s: "invar s" and r: "httpSignedPDF T secret s i = Some b"
  shows "\<exists>g. map_of (tbSignatures (svTables s)) i = Some g \<and> map_of (tbObjects (svTables s)) (sgStorageObjectKey g) = Some b"
proof -
  have obj: "wp (stGetObject S key \<bind> (\<lambda>(b, err). ret (if err \<noteq> None then writeErr 404 w else Bytes ct b)))
      (\<lambda>rep _. \<forall>ct' b. rep = Bytes ct' b \<longrightarrow> map_of (tbObjects (svTables s1)) key = Some b) s1" if "invar s1" for s1 key w ct
    unfolding wp_bind
    by (auto simp: writeErr_def readOK_def found_def wp_return intro!: wp_mono [OF get_object [OF that]] split: if_splits)
  have "wp (serve T (OfficeDocument secret i)) (\<lambda>rep _. \<forall>ct b. rep = Bytes ct b \<longrightarrow>
      (\<exists>g. map_of (tbSignatures (svTables s)) i = Some g \<and> map_of (tbObjects (svTables s)) (sgStorageObjectKey g) = Some b)) s"
    unfolding serve.simps whenOffice_def officeSecret_def hOfficeSignatureDocument_def T
    by (auto simp del: not_None_eq simp: notFound_def writeErr_def readOK_def found_def wp_return wp_bind [of "stSignature S i"]
        split: if_splits intro!: wp_mono [OF signature [OF s]] wp_mono [OF obj])
  then show ?thesis
    using r unfolding httpSignedPDF_def wp_def by (auto split: reply.splits prod.splits if_splits)
qed

end

lemma verifyTTDApproval_stored:
  assumes "verifyTTDApproval en db objs i me pid = (objs', Inr (db', extra))" "enTTD en = Some ttd" "ttdSignedPDF ttd pid = Some signed"
  shows "\<exists>d. db' = db\<lparr>dbDocs := dbDocs db @ [d]\<rparr> \<and> drowKind d = ''signed'' \<and> drowOwnerID d = i \<and> objs' = objs(drowStorageKey d \<mapsto> signed)"
proof -
  obtain o1 res where st: "storeDocument en db objs i ''signed'' (''bertandatangan-'' @ pid @ ''.pdf'') (oiID me) signed = (o1, res)"
    by fastforce
  have "\<exists>docID. res = Inr (db', docID) \<and> o1 = objs'"
    using assms st by (cases res) (auto simp: verifyTTDApproval_def Let_def split: if_split_asm option.split_asm)
  then show ?thesis using st storeDocument_Inr [of en db objs i] by blast
qed

context ttd_store
begin

lemma approval_backed:
  assumes T: "ttStore T = S" and s: "records_backed lib cfg s" and en: "enTTD en = Some (httpTTD other fits T secret s)"
    and seg: "pathSegment pid = Some i" and v: "verifyTTDApproval en db objs txn me pid = (objs', Inr (db', extra))"
  shows "\<exists>g r c b d. map_of (tbSignatures (svTables s)) i = Some g \<and> sgAccountID g = oiID me \<and> sgVerificationStatus g = VerificationAccepted \<and>
    map_of (tbReservations (svTables s)) i = Some r \<and> map_of (tbCertificates (svTables s)) (sgCertificateID g) = Some c \<and>
    ceAccountID c = oiID me \<and> strictlyVerified lib cfg r c b \<and>
    db' = db\<lparr>dbDocs := dbDocs db @ [d]\<rparr> \<and> drowKind d = ''signed'' \<and> drowOwnerID d = txn \<and> objs' = objs(drowStorageKey d \<mapsto> b)"
proof -
  have inv: "invar s" using s by simp
  obtain rc signed where rc: "httpRecord fits T secret s i = Some rc" "ttdAccountID rc = oiID me" "ttdVerificationStatus rc = ''accepted''"
    and pdf: "httpSignedPDF T secret s i = Some signed"
    using verifyTTDApproval_Inr [OF v] en seg by (auto simp: httpTTD_def)
  obtain d where d: "db' = db\<lparr>dbDocs := dbDocs db @ [d]\<rparr>" "drowKind d = ''signed''" "drowOwnerID d = txn" "objs' = objs(drowStorageKey d \<mapsto> signed)"
    using verifyTTDApproval_stored [OF v en, of signed] pdf seg by (auto simp: httpTTD_def)
  obtain g where g: "map_of (tbSignatures (svTables s)) i = Some g" "sgAccountID g = oiID me" "sgVerificationStatus g = VerificationAccepted"
    using httpRecord_stored [OF T inv rc(1)] rc(2,3) by (auto simp: VerificationAccepted_def)
  have obj: "map_of (tbObjects (svTables s)) (sgStorageObjectKey g) = Some signed"
    using httpSignedPDF_stored [OF T inv pdf] g(1) by auto
  obtain r b where "map_of (tbReservations (svTables s)) i = Some r" "map_of (tbObjects (svTables s)) (sgStorageObjectKey g) = Some b"
    "backedBy lib cfg (svTables s) g r b" using s by (auto elim: backedD [OF _ g(1)])
  moreover then obtain c where "map_of (tbCertificates (svTables s)) (sgCertificateID g) = Some c" "strictlyVerified lib cfg r c signed"
    "ceAccountID c = sgAccountID g"
    using g(3) obj unfolding backedBy_def by (auto dest: strictlyVerified_account)
  ultimately show ?thesis using g d by metis
qed

end

section \<open>One signature, several ids\<close>

text \<open>
  The unique index of the office service is on the id the browser sent.  Two ids with the same segment lead to one and
  the same signature, so an id with a percent-escape is a second name for it.
\<close>

lemma httpTTD_alias:
  "pathSegment p = pathSegment q \<Longrightarrow> pathSegment p \<noteq> None \<Longrightarrow>
   ttdRecord (httpTTD other fits T secret s) p = ttdRecord (httpTTD other fits T secret s) q \<and>
   ttdSignedPDF (httpTTD other fits T secret s) p = ttdSignedPDF (httpTTD other fits T secret s) q"
  by (auto simp: httpTTD_def)

lemma pathSegment_alias: "pathSegment ''sig%5f1'' = Some ''sig_1'' \<and> pathSegment ''sig_1'' = Some ''sig_1''"
  by code_simp

end
