(* ===== verification/TTD_Sample.thy ===== *)
theory TTD_Sample
  imports TTD_Office
begin

text \<open>
  A small TTD server for the witnesses: one user with a device, a certificate and an open reservation on the database store, and
  the state after the user has submitted a document for it.
\<close>

section \<open>The server\<close>

definition smAuth :: auth_prims where
  "smAuth = \<lparr>argon = \<lambda>_ _ _ _ _ _. ''key'', hmacSHA256 = \<lambda>_ _. ''mac'', hmacSHA1 = \<lambda>_ _. ''sum''\<rparr>"

definition smE :: tenv where
  "smE = \<lparr>teNow = \<lambda>k. if k = 0 then 0 else zeroTime, teRand = \<lambda>_ n. replicate n (CHR ''r''), teRandFails = \<lambda>_. False, teFault = \<lambda>_. False,
     teIter = \<lambda>ks. ks, teAuth = smAuth\<rparr>"

definition smSig :: pdf_signature where
  "smSig = \<lparr>psValid = True, psAlgorithm = ''ML-DSA-65'', psTrustedChain = True, psRevoked = False, psPublicID = ''sig_1'',
     psCertificateSerial = ''01'', psCertificateFingerprint = ''fp'', psClaimedTime = ''t'', psErrors = []\<rparr>"

definition smLib :: tlib where
  "smLib = \<lparr>tlHKDF = \<lambda>_ i. i, tlSeal = \<lambda>_ _ b _. b, tlOpen = \<lambda>_ _ b _. Some b, tlSHA512 = \<lambda>b. take 2 b, tlRootOK = \<lambda>_. True,
     tlVerifyPDF = \<lambda>_ _ _ _ _. Inr \<lparr>prValid = True, prSignatures = [smSig], prErrors = []\<rparr>, tlResultJSON = \<lambda>_. JNull,
     tlStampQR = \<lambda>_ b _ _ _. Inr b, tlUpstreamOK = \<lambda>_. True, tlAllow = \<lambda>_ _ _. True, tlParseCert = \<lambda>_ _. Inl ''no'', tlChainOK = \<lambda>_ _ _ _. True,
     tlParseCSR = \<lambda>_. Inl ''no'', tlParseCRL = \<lambda>_. None, tlQR = \<lambda>_. None, tlTempRoot = ''/tmp'', tlTempDir = \<lambda>_. Inr ''/tmp/x'',
     tlCA = \<lambda>_ _ _ _. ([], True), tlCAFile = \<lambda>_. Inr [], tlLocalDate = \<lambda>_. (7, 11), tlLocalStamp = \<lambda>_. ''s'', tlTimeJSON = \<lambda>_. ''t'',
     tlEqualFold = (=), tlFileFault = \<lambda>_. None, tlWriteCut = \<lambda>_. None\<rparr>"

definition smCfg :: Config where
  "smCfg = \<lparr>cfgRootCAPEM = ''root'', cfgCAChainPEM = ''chain'', cfgCRLPEM = [], cfgJWTSecret = ''0123456789abcdef'', cfgPublicBaseURL = [],
     cfgMaxUploadBytes = 20, cfgMaxStampBytes = 0, cfgMaxVerifyBytes = 0, cfgUploadDir = [], cfgAccessTTL = 0, cfgIssuer = [],
     cfgSuperAdminUsername = [], cfgSuperAdminPassword = [], cfgSuperAdminSessionTTL = 0, cfgBootstrapAdminEmail = [],
     cfgBootstrapAdminPassword = [], cfgLabIssuer = None, cfgOfficeUpstream = ''http://o'', cfgServerName = [],
     cfgOfficeSecret = ''0123456789abcdef''\<rparr>"

definition smT :: ttd where
  "smT = \<lparr>ttStore = postgresStore smE, ttEnv = smE, ttCfg = withDefaults (tlTempRoot smLib) smCfg, ttLib = smLib\<rparr>"

definition smUser :: Account where
  "smUser = zeroAccount\<lparr>acID := ''acct_1'', acEmail := ''u'', acRole := RoleUser, acStatus := AccountActive\<rparr>"

definition smDevice :: Device where
  "smDevice = zeroDevice\<lparr>dvID := ''dev_1'', dvAccountID := ''acct_1'', dvStatus := DeviceActive\<rparr>"

definition smCert :: Certificate where
  "smCert = zeroCertificate\<lparr>ceID := ''cert_1'', ceAccountID := ''acct_1'', ceDeviceID := ''dev_1'', ceSerial := ''01'',
     ceFingerprint := ''fp'', ceStatus := CertActive\<rparr>"

definition smReservation :: Reservation where
  "smReservation = zeroReservation\<lparr>rsPublicID := ''sig_1'', rsAccountID := ''acct_1'', rsDeviceID := ''dev_1'', rsOriginalSHA512 := ''2550'',
     rsStatus := ReservationReserved\<rparr>"

definition smStart :: server where
  "smStart = emptyServer\<lparr>svTables := emptyTables\<lparr>tbAccounts := [(''acct_1'', smUser)], tbDevices := [(''dev_1'', smDevice)],
     tbCertificates := [(''cert_1'', smCert)], tbReservations := [(''sig_1'', smReservation)]\<rparr>\<rparr>"

section \<open>Requests\<close>

definition smClaims :: Claims where
  "smClaims = \<lparr>Sub = ''acct_1'', Role = RoleUser, Exp = 900, Iat = 0\<rparr>"

definition smBearer :: string where
  "smBearer = ''Bearer '' @ Issue smAuth (signer smT) 0 ''acct_1'' RoleUser"

definition smSubmit :: request where
  "smSubmit = User smBearer (SubmitDocument ''sig_1'' [] (Some ''%PDF-1''))"

definition smSigned :: server where
  "smSigned = snd (run_state (limit smT ''submit'' ''acct_1'' (hSubmitDocument smT smClaims ''sig_1'' [] (Some ''%PDF-1'')))
     (smStart\<lparr>svTick := 1\<rparr>))"

definition smRegister :: request where
  "smRegister = Public ''ip'' (Register (Some \<lparr>rgEmail = ''u'', rgPassword = ''password'', rgDisplayName = ''n'', rgFullName = [],
     rgOrganization = [], rgPosition = [], rgNIP = []\<rparr>))"

definition smRegistered :: server where
  "smRegistered = snd (run_state (serve smT smRegister) emptyServer)"

lemma smT_serverOf: "smT = serverOf smE (postgresStore smE) smLib smCfg"
  by (simp add: smT_def serverOf_def)

lemma smE_facts [simp]: "iterates smE" "noFaults smE" "teAuth smE = smAuth" "teNow smE 0 = 0"
  by (simp_all add: smE_def iterates_def noFaults_def)

lemma smT_facts [simp]: "ttEnv smT = smE" "ttStore smT = postgresStore smE" "ttLib smT = smLib" "sgTTL (signer smT) = 15 * minute"
  by (simp_all add: smT_def signer_def NewSigner_def withDefaults_def smCfg_def Let_def minute_def second_def)

text \<open>The session of the user is accepted by the guard.\<close>

lemma smPlain: "list_all plainJSON ''acct_1''" "list_all plainJSON RoleUser"
  by (simp_all add: plainJSON_def code_def quot_def bsl_def RoleUser_def)

lemma smParse: "Parse smAuth (signer smT) 0 (Issue smAuth (signer smT) 0 ''acct_1'' RoleUser) = Some smClaims"
  by (subst Parse_Issue, rule smPlain, rule smPlain) (simp_all add: smClaims_def unix_def minute_def second_def)

lemma Issue_nonempty: "Issue P sg t a b \<noteq> []"
  by (simp add: Issue_def Let_def)

lemma smAuthed: "svTick s = 0 \<Longrightarrow> run_state (authed smT RoleUser smBearer h) s = run_state (h smClaims) (s\<lparr>svTick := 1\<rparr>)"
  by (simp add: authed_def Let_def smBearer_def trimBearer_def Issue_nonempty parseToken_def now_def draw_def smParse smClaims_def)

lemma smNew: "run_state (New (postgresStore smE) smE smLib smCfg) s = (Inr smT, s\<lparr>svCRL := [], svUploads := []\<rparr>)"
  by (simp add: New_def smT_def Let_def ensureSuperAdmin_def ensureBootstrapAdmin_def smCfg_def smLib_def withDefaults_def
      State_Monad.update_def)

end
