(* ===== verification/TTD_Properties.thy ===== *)
theory TTD_Properties
  imports TTD_Sample Office_Sample
begin

text \<open>
  The main results about the TTD server, over its route table and on both of its stores, each with a concrete run that
  satisfies its hypotheses.
\<close>

section \<open>Runs of the sample server\<close>

lemma smE_postgres: "pgInv smE s \<Longrightarrow> storeOK smE (postgresStore smE) s"
  by (simp add: storeOK_def)

lemma smStart_ok: "storeOK smE (postgresStore smE) smStart" "tbSignatures (svTables smStart) = []"
  by (auto intro!: smE_postgres simp: pgInv_def smStart_def emptyTables_def tables_wf_def keyed_def accounts_wf_def smUser_def smDevice_def
      smCert_def smReservation_def zeroAccount_def zeroDevice_def zeroCertificate_def zeroReservation_def)

lemma smReach_signed: "ttdReach (postgresStore smE) smE smLib smCfg smStart smT smSigned"
proof -
  have "ttdReach (postgresStore smE) smE smLib smCfg smStart smT smStart"
    using smNew by (intro ttd_start) (simp add: smStart_def emptyServer_def)
  moreover have "run_state (serve smT smSubmit) smStart = (fst (run_state (limit smT ''submit'' ''acct_1''
      (hSubmitDocument smT smClaims ''sig_1'' [] (Some ''%PDF-1''))) (smStart\<lparr>svTick := 1\<rparr>)), smSigned)"
    by (simp add: smSubmit_def smAuthed smStart_def emptyServer_def smSigned_def smClaims_def)
  ultimately show ?thesis by (rule ttd_serve)
qed


lemma smReach_registered: "ttdReach (postgresStore smE) smE smLib smCfg emptyServer smT smRegistered"
proof -
  have "ttdReach (postgresStore smE) smE smLib smCfg emptyServer smT emptyServer"
    using smNew by (intro ttd_start) (simp add: emptyServer_def)
  then show ?thesis by (rule ttd_serve [where r = smRegister]) (simp add: smRegistered_def prod_eq_iff)
qed

lemma smRegistered_account: "length (tbAccounts (svTables smRegistered)) = 1"
proof -
  have hash: "\<exists>h. run_state (hashPassword smT ''password'') s = (Some h, s\<lparr>svTick := Suc (svTick s)\<rparr>)" for s
    by (simp add: hashPassword_def randRead_def draw_def HashPassword_def MaxPasswordLength_def smE_def)
  obtain h where h: "run_state (hashPassword smT ''password'') (emptyServer\<lparr>svTick := 1\<rparr>) = (Some h, emptyServer\<lparr>svTick := 2\<rparr>)"
    using hash [of "emptyServer\<lparr>svTick := 1\<rparr>"] by (auto simp: numeral_2_eq_2)
  have allow: "tlAllow smLib k ls key" for k ls key by (simp add: smLib_def)
  show ?thesis
    using h by (simp add: smRegistered_def smRegister_def limit_def draw_def allow hRegister_def MaxPasswordLength_def emptyServer_def
        postgresStore_def pgCreateAccount_def newID_def now_def pgInsert_def pgAppend_def readTables_def onTables_def accountConstraints_def
        hasKey_def emptyTables_def Let_def smE_def role_defs AccountPending_def zeroAccount_def State_Monad.update_def)
qed

definition smSignature :: Signature where
  "smSignature = \<lparr>sgPublicID = ''sig_1'', sgAccountID = ''acct_1'', sgDeviceID = ''dev_1'', sgCertificateID = ''cert_1'', sgCertSerial = ''01'',
     sgCertFingerprint = ''fp'', sgAlgorithm = ''ML-DSA-65'', sgPDFProfile = ''PAdES_B'', sgOriginalSHA512 = ''2550'', sgSignedSHA512 = ''2550'',
     sgClientClaimedSigningTime = ''t'', sgServerReceivedAt = zeroTime, sgStorageObjectKey = ''documents/7/11/sig_1/signed.pdf'',
     sgSignedSize = 6, sgVerificationStatus = VerificationAccepted, sgCreatedAt = zeroTime\<rparr>"


lemma smSigned_record: "map_of (tbSignatures (svTables smSigned)) ''sig_1'' = Some smSignature"
  by code_simp




text \<open>An office service in front of the sample server, with the attachment of one transaction.\<close>

definition smOffice :: env where
  "smOffice = (sampleEnv ''9'')\<lparr>enSha512 := (\<lambda>b. take 2 b),
     enTTD := Some (httpTTD sampleTTD (\<lambda>_. True) smT ''0123456789abcdef'' smSigned)\<rparr>"

definition smOfficeDB :: api_db where
  "smOfficeDB = (fst sample1)\<lparr>dbDocs := map (\<lambda>d. d\<lparr>drowSHA512 := ''2550''\<rparr>) (dbDocs (fst sample1))\<rparr>"

lemma smOffice_ttd: "enTTD smOffice = Some (httpTTD sampleTTD (\<lambda>_. True) smT ''0123456789abcdef'' smSigned)"
  by (simp add: smOffice_def)

lemma smOffice_record: "ttdRecord (httpTTD sampleTTD (\<lambda>_. True) smT ''0123456789abcdef'' smSigned) ''sig%5f1'' =
    Some \<lparr>ttdPublicID = ''sig_1'', ttdAccountID = ''acct_1'', ttdOriginalSHA512 = ''2550'', ttdSignedSHA512 = ''2550'',
      ttdVerificationStatus = ''accepted'', ttdVerificationURL = ''http://localhost:8443/v/sig_1''\<rparr>"
  by code_simp

lemma smOffice_document: "ttdSignedPDF (httpTTD sampleTTD (\<lambda>_. True) smT ''0123456789abcdef'' smSigned) ''sig%5f1'' = Some ''%PDF-1''"
  by code_simp

lemma smOffice_accepts: "\<not> isl (snd (verifyTTDApproval smOffice smOfficeDB Map.empty sampleTxn (person ''acct_1'' ''approver'') ''sig%5f1''))"
proof -
  have hex: "hexEncode ''%P'' = ''2550''" by code_simp
  show ?thesis
    unfolding verifyTTDApproval_def smOffice_ttd option.case smOffice_record smOffice_document smOfficeDB_def sample1_def sampleTxn_def
    by (simp add: smOffice_def sample_eval hex equalFold_def)
qed

section \<open>The properties\<close>


lemma reach_recorded:
  assumes "storeOK E st s0" "tbSignatures (svTables s0) = []" "ttdReach st E lib cfg s0 T s"
  shows "storeOK E st s \<and> backed lib cfg (svTables s) \<and> T = serverOf E st lib cfg"
  using assms by (intro storeOK_reach [of E st s0]) (simp_all add: backed_def)

text \<open>
  C26. Whatever requests a TTD server started on an empty store has served, on the in-memory store and on a database that executes its statements,
  its tables are well formed: every row is filed under its own id and no id twice, no two accounts share an e-mail address, there is at most
  one super admin, every account has one of the three roles, and no public id of a reservation contains a slash.
\<close>

theorem ttd_tables_well_formed:
  assumes "iterates E" "st = memoryStore E \<and> uniqueIDs E \<or> st = postgresStore E \<and> noFaults E"
    and "ttdReach st E lib cfg emptyServer T s"
  shows "tables_wf (svTables s)"
  using storeOK_reach [OF storeOK_empty [OF assms(1,2)] _ assms(3)] by (auto simp: emptyServer_def backed_empty dest: storeOK_wf)

theorem ttd_tables_well_formed_witness:
  "ttdReach (postgresStore smE) smE smLib smCfg emptyServer smT smRegistered \<and> length (tbAccounts (svTables smRegistered)) = 1 \<and>
   tables_wf (svTables smRegistered)"
  using ttd_tables_well_formed [OF _ _ smReach_registered] smReach_registered smRegistered_account by simp





text \<open>
  C3. An approval that passes the office service's check is a signature the TTD server itself verified.  When the office service asks a TTD server in a
  reachable state over its internal routes and accepts the id the approver sent, the TTD server holds a signature under that id with
  status accepted, owned by the approver, reserved for and made with a certificate of the approver, and the document the office service
  stores as the signed copy of the transaction is byte for byte the one that passed the strict verification.
\<close>

theorem office_approval_strictly_verified:
  assumes "storeOK E st s0" "tbSignatures (svTables s0) = []" "ttdReach st E lib cfg s0 T s"
    and "enTTD en = Some (httpTTD other fits T secret s)" "pathSegment pid = Some i"
    and "verifyTTDApproval en db objs txn me pid = (objs', Inr (db', extra))"
  shows "\<exists>g r c b d. map_of (tbSignatures (svTables s)) i = Some g \<and> sgAccountID g = oiID me \<and> sgVerificationStatus g = VerificationAccepted \<and>
    map_of (tbReservations (svTables s)) i = Some r \<and> map_of (tbCertificates (svTables s)) (sgCertificateID g) = Some c \<and>
    ceAccountID c = oiID me \<and> strictlyVerified lib cfg r c b \<and>
    db' = db\<lparr>dbDocs := dbDocs db @ [d]\<rparr> \<and> drowKind d = ''signed'' \<and> drowOwnerID d = txn \<and> objs' = objs(drowStorageKey d \<mapsto> b)"
proof -
  note r = reach_recorded [OF assms(1-3)]
  then have T: "ttStore T = st" by (simp add: serverOf_def)
  show ?thesis
    using r T mem.approval_backed [OF _ _ assms(4-6)] pg.approval_backed [OF _ _ assms(4-6)] unfolding storeOK_def by blast
qed

theorem office_approval_strictly_verified_witness:
  "ttdReach (postgresStore smE) smE smLib smCfg smStart smT smSigned \<and>
   (\<exists>r c b (d :: doc_row). map_of (tbReservations (svTables smSigned)) ''sig_1'' = Some r \<and> map_of (tbCertificates (svTables smSigned)) ''cert_1'' = Some c \<and>
      strictlyVerified smLib smCfg r c b \<and> drowOwnerID d = sampleTxn \<and>
      fst (verifyTTDApproval smOffice smOfficeDB Map.empty sampleTxn (person ''acct_1'' ''approver'') ''sig%5f1'') = [drowStorageKey d \<mapsto> b])"
proof -
  obtain objs db extra where v: "verifyTTDApproval smOffice smOfficeDB Map.empty sampleTxn (person ''acct_1'' ''approver'') ''sig%5f1'' =
      (objs, Inr (db, extra))"
    using smOffice_accepts by (metis prod.collapse sum.collapse(2))
  have seg: "pathSegment ''sig%5f1'' = Some ''sig_1''" by code_simp
  obtain g r c b and d :: doc_row where "map_of (tbSignatures (svTables smSigned)) ''sig_1'' = Some g"
    and r: "map_of (tbReservations (svTables smSigned)) ''sig_1'' = Some r"
    and c: "map_of (tbCertificates (svTables smSigned)) (sgCertificateID g) = Some c" "strictlyVerified smLib smCfg r c b"
    and d: "drowOwnerID d = sampleTxn" "objs = [drowStorageKey d \<mapsto> b]"
    using office_approval_strictly_verified [OF smStart_ok smReach_signed smOffice_ttd seg v] by blast
  moreover then have "sgCertificateID g = ''cert_1''" using smSigned_record by (auto simp: smSignature_def)
  ultimately show ?thesis
    using smReach_signed v by (intro conjI exI [of _ r] exI [of _ c] exI [of _ b] exI [of _ d]) simp_all
qed

end
