(* ===== verification/Core_Certificates.thy ===== *)
theory Core_Certificates
  imports TTD_Server
begin

text \<open>
  Certificates, revocation lists and signing requests: \<^verbatim>\<open>ttd/core/certutil/certutil.go\<close>, the validation of
  \<^verbatim>\<open>ttd/core/enrollment/csr.go\<close> and the parsing and fingerprints of \<^verbatim>\<open>ttd/core/keys/keys.go\<close>.

  Go's \<^verbatim>\<open>crypto/x509\<close>, \<^verbatim>\<open>crypto/mldsa\<close> and \<^verbatim>\<open>encoding/pem\<close> are the fields of \<open>xlib\<close>; their parsed structures are records of the
  fields the code reads.  An ML-DSA public key is its encoding, \<open>xKeyParams\<close> its parameter set; \<open>None\<close> is a key of another kind.
  Subjects and issuers are the strings they print as.  A pool of roots is the PEM text it was read from.
\<close>

section \<open>What the libraries return\<close>

record x509_cert =
  xcRaw :: bytes
  xcSubject :: string
  xcIssuer :: string
  xcSerial :: int
  xcPublicKeyAlgorithm :: string
  xcSignatureAlgorithm :: string
  xcNotBefore :: int
  xcNotAfter :: int
  xcIsCA :: bool
  xcUnknownExtKeyUsage :: "nat list list"
  xcMLDSA :: "bytes option"

record x509_csr =
  xrSubject :: string
  xrPublicKeyAlgorithm :: string
  xrMLDSA :: "bytes option"

record crl_entry =
  xeSerial :: int
  xeTime :: int
  xeReason :: int

record x509_crl =
  xlNumber :: int
  xlThisUpdate :: int
  xlNextUpdate :: int
  xlEntries :: "crl_entry list"

record pem_block =
  pbType :: string
  pbBytes :: bytes

text \<open>
  Errors are their texts.  \<open>xPool\<close> says whether a PEM text holds a certificate for a pool; \<open>xVerify\<close> (the leaf, the intermediates, the
  roots, the time) counts the chains; \<open>xCheckCRL\<close> is the error of a revocation list's signature under an issuer.
\<close>

record xlib =
  xPemDecode :: "bytes \<Rightarrow> (pem_block \<times> bytes) option"
  xPemEncode :: "pem_block \<Rightarrow> bytes"
  xParseCertificate :: "bytes \<Rightarrow> string + x509_cert"
  xParseCSR :: "bytes \<Rightarrow> string + x509_csr"
  xCheckCSR :: "x509_csr \<Rightarrow> string option"
  xParseCRL :: "bytes \<Rightarrow> string + x509_crl"
  xCheckCRL :: "x509_crl \<Rightarrow> x509_cert \<Rightarrow> string option"
  xPool :: "bytes \<Rightarrow> bool"
  xVerify :: "x509_cert \<Rightarrow> x509_cert list \<Rightarrow> bytes \<Rightarrow> int \<Rightarrow> string + nat"
  xKeyParams :: "bytes \<Rightarrow> string"
  xMarshalPKIX :: "bytes \<Rightarrow> string + bytes"
  xSHA256 :: "bytes \<Rightarrow> bytes"
  xTime :: "int \<Rightarrow> string"

section \<open>Hexadecimal numbers\<close>

text \<open>\<^verbatim>\<open>%x\<close> of a \<^verbatim>\<open>*big.Int\<close>, and \<^verbatim>\<open>SetString\<close> with base 16: an optional sign and at least one digit.\<close>

fun hexNat :: "nat \<Rightarrow> string" where
  "hexNat n = (if n < 16 then [hexDigit n] else hexNat (n div 16) @ [hexDigit (n mod 16)])"

declare hexNat.simps [simp del]

definition hexInt :: "int \<Rightarrow> string" where
  "hexInt n = (if n < 0 then ''-'' @ hexNat (nat (- n)) else hexNat (nat n))"

definition readHexNat :: "string \<Rightarrow> nat option" where
  "readHexNat s =
     (if s = [] then None
      else foldl (\<lambda>a c. case (a, hexVal c) of (Some n, Some d) \<Rightarrow> Some (16 * n + d) | _ \<Rightarrow> None) (Some 0) s)"

definition readHexInt :: "string \<Rightarrow> int option" where
  "readHexInt s =
     (case s of
        c # r \<Rightarrow>
          if c = CHR ''-'' then map_option (\<lambda>n. - int n) (readHexNat r)
          else if c = CHR ''+'' then map_option int (readHexNat r)
          else map_option int (readHexNat s)
      | [] \<Rightarrow> None)"

section \<open>Certificates\<close>

definition OIDDocumentSigningEKU :: "nat list" where
  "OIDDocumentSigningEKU = [1, 3, 6, 1, 5, 5, 7, 3, 36]"

record CertInfo =
  cnSubject :: string
  cnIssuer :: string
  cnSerialNumber :: string
  cnFingerprintSHA256 :: string
  cnPublicKeyAlgorithm :: string
  cnSignatureAlgorithm :: string
  cnNotBefore :: int
  cnNotAfter :: int
  cnIsCA :: bool
  cnHasDocumentSigning :: bool

text \<open>
  The PEM blocks of a text in order.  Decoding leaves less than it was given, so the length of the text is
  fuel enough (lemma \<open>pemBlocks_fuel\<close>).
\<close>

fun pemBlocks :: "xlib \<Rightarrow> nat \<Rightarrow> bytes \<Rightarrow> pem_block list" where
  "pemBlocks X 0 b = []"
| "pemBlocks X (Suc n) b =
     (case xPemDecode X b of
        None \<Rightarrow> []
      | Some (blk, rest) \<Rightarrow> blk # pemBlocks X n rest)"

definition ParseCertificatePEM :: "xlib \<Rightarrow> bytes \<Rightarrow> string + x509_cert" where
  "ParseCertificatePEM X b =
     (case find (\<lambda>blk. pbType blk = ''CERTIFICATE'') (pemBlocks X (length b) b) of
        None \<Rightarrow> Inl ''certutil: no CERTIFICATE block found''
      | Some blk \<Rightarrow> xParseCertificate X (pbBytes blk))"

fun parseCertificates :: "xlib \<Rightarrow> pem_block list \<Rightarrow> string + x509_cert list" where
  "parseCertificates X [] = Inr []"
| "parseCertificates X (blk # r) =
     (if pbType blk \<noteq> ''CERTIFICATE'' then parseCertificates X r
      else bindE (mapErr (\<lambda>e. ''certutil: parse certificate: '' @ e) (xParseCertificate X (pbBytes blk))) (\<lambda>c.
           bindE (parseCertificates X r) (\<lambda>cs. Inr (c # cs))))"

definition ParseChainPEM :: "xlib \<Rightarrow> bytes \<Rightarrow> string + x509_cert list" where
  "ParseChainPEM X b =
     bindE (parseCertificates X (pemBlocks X (length b) b)) (\<lambda>cs.
       if cs = [] then Inl ''certutil: chain contains no certificates'' else Inr cs)"

definition FingerprintSHA256 :: "xlib \<Rightarrow> x509_cert \<Rightarrow> string" where
  "FingerprintSHA256 X c = hexEncode (xSHA256 X (xcRaw c))"

definition HasDocumentSigningEKU :: "x509_cert \<Rightarrow> bool" where
  "HasDocumentSigningEKU c \<longleftrightarrow> list_ex (\<lambda>oid. oid = OIDDocumentSigningEKU) (xcUnknownExtKeyUsage c)"

definition Describe :: "xlib \<Rightarrow> x509_cert \<Rightarrow> CertInfo" where
  "Describe X c =
     \<lparr>cnSubject = xcSubject c, cnIssuer = xcIssuer c, cnSerialNumber = hexInt (xcSerial c),
      cnFingerprintSHA256 = FingerprintSHA256 X c, cnPublicKeyAlgorithm = xcPublicKeyAlgorithm c,
      cnSignatureAlgorithm = xcSignatureAlgorithm c, cnNotBefore = xcNotBefore c, cnNotAfter = xcNotAfter c,
      cnIsCA = xcIsCA c, cnHasDocumentSigning = HasDocumentSigningEKU c\<rparr>"

definition IsMLDSA :: "x509_cert \<Rightarrow> bool" where
  "IsMLDSA c \<longleftrightarrow> xcMLDSA c \<noteq> None"

definition ParseAndValidateCertificate :: "xlib \<Rightarrow> bytes \<Rightarrow> int \<Rightarrow> string + x509_cert \<times> CertInfo" where
  "ParseAndValidateCertificate X b at =
     bindE (ParseCertificatePEM X b) (\<lambda>c.
       if \<not> IsMLDSA c then Inl (''certutil: device certificate must be ML-DSA, got '' @ xcPublicKeyAlgorithm c)
       else if at < xcNotBefore c \<or> at > xcNotAfter c
         then Inl (''certutil: certificate not valid at '' @ xTime X at @ '' (validity '' @ xTime X (xcNotBefore c) @ ''..'' @
                   xTime X (xcNotAfter c) @ '')'')
       else if xcIsCA c then Inl ''certutil: device certificate must not be a CA''
       else if \<not> HasDocumentSigningEKU c
         then Inl ''certutil: device certificate is missing id-kp-documentSigning EKU (1.3.6.1.5.5.7.3.36)''
       else Inr (c, Describe X c))"

text \<open>The chains found, or the error.\<close>

definition ValidateCertificateChain :: "xlib \<Rightarrow> x509_cert \<Rightarrow> x509_cert list \<Rightarrow> bytes \<Rightarrow> int \<Rightarrow> string + nat" where
  "ValidateCertificateChain X leaf intermediates rootPEM at =
     (if \<not> xPool X rootPEM then Inl ''certutil: no valid certificates in root PEM''
      else xVerify X leaf (filter (\<lambda>c. xcRaw c \<noteq> xcRaw leaf) intermediates) rootPEM at)"

section \<open>Revocation lists\<close>

record CRLStatus =
  csChecked :: bool
  csRevoked :: bool
  csRevokedAt :: int
  csThisUpdate :: int
  csNextUpdate :: int
  csStale :: bool
  csSignatureOK :: bool

definition firstPEM :: "xlib \<Rightarrow> bytes \<Rightarrow> bytes" where
  "firstPEM X b = (case xPemDecode X b of Some (blk, _) \<Rightarrow> pbBytes blk | None \<Rightarrow> b)"

definition ValidateCRL :: "xlib \<Rightarrow> bytes \<Rightarrow> x509_cert option \<Rightarrow> x509_cert \<Rightarrow> int \<Rightarrow> string + CRLStatus" where
  "ValidateCRL X crlBytes issuer target t =
     bindE (mapErr (\<lambda>e. ''certutil: parse CRL: '' @ e) (xParseCRL X (firstPEM X crlBytes))) (\<lambda>crl.
       let stale = (xlNextUpdate crl \<noteq> zeroTime \<and> t > xlNextUpdate crl);
           hit = find (\<lambda>e. xeSerial e = xcSerial target) (xlEntries crl);
           st = \<lparr>csChecked = True, csRevoked = (hit \<noteq> None), csRevokedAt = (case hit of None \<Rightarrow> zeroTime | Some e \<Rightarrow> xeTime e),
                 csThisUpdate = xlThisUpdate crl, csNextUpdate = xlNextUpdate crl, csStale = stale, csSignatureOK = (issuer \<noteq> None)\<rparr>
       in (case issuer of
             None \<Rightarrow> Inr st
           | Some ca \<Rightarrow>
               (case xCheckCRL X crl ca of
                  Some e \<Rightarrow> Inl (''certutil: CRL not signed by expected issuer: '' @ e)
                | None \<Rightarrow> Inr st)))"

section \<open>Signing requests and keys\<close>

definition Algorithm :: string where "Algorithm = ''ML-DSA-65''"

definition PublicKeyFingerprint :: "xlib \<Rightarrow> bytes \<Rightarrow> string + string" where
  "PublicKeyFingerprint X pub =
     bindE (mapErr (\<lambda>e. ''keys: fingerprint: '' @ e) (xMarshalPKIX X pub)) (\<lambda>der. Inr (hexEncode (xSHA256 X der)))"

record CSRInfo =
  crSubject :: string
  crPublicKeyAlgorithm :: string
  crPublicKeyFP :: string
  crProofOfPossession :: bool

definition ParseAndValidateCSR :: "xlib \<Rightarrow> bytes \<Rightarrow> string + x509_csr \<times> CSRInfo" where
  "ParseAndValidateCSR X b =
     bindE (mapErr (\<lambda>e. ''enrollment: parse CSR: '' @ e) (xParseCSR X (firstPEM X b))) (\<lambda>csr.
       case xCheckCSR X csr of
         Some e \<Rightarrow> Inl (''enrollment: CSR proof-of-possession failed: '' @ e)
       | None \<Rightarrow>
           (case xrMLDSA csr of
              None \<Rightarrow> Inl (''enrollment: CSR public key must be ML-DSA, got '' @ xrPublicKeyAlgorithm csr)
            | Some pub \<Rightarrow>
                if xKeyParams X pub \<noteq> Algorithm then Inl (''enrollment: CSR public key must be ML-DSA-65, got '' @ xKeyParams X pub)
                else bindE (PublicKeyFingerprint X pub) (\<lambda>fp.
                  Inr (csr, \<lparr>crSubject = xrSubject csr, crPublicKeyAlgorithm = Algorithm, crPublicKeyFP = fp, crProofOfPossession = True\<rparr>))))"

section \<open>Lemmas\<close>

definition pemShrinks :: "xlib \<Rightarrow> bool" where
  "pemShrinks X \<longleftrightarrow> (\<forall>b blk rest. xPemDecode X b = Some (blk, rest) \<longrightarrow> length rest < length b)"

lemma pemBlocks_fuel: "pemShrinks X \<Longrightarrow> length b \<le> n \<Longrightarrow> pemBlocks X n b = pemBlocks X (length b) b"
proof (induction "length b" arbitrary: b n rule: less_induct)
  case less
  show ?case
  proof (cases "xPemDecode X b")
    case None
    then have "pemBlocks X m b = []" for m by (cases m) simp_all
    then show ?thesis by simp
  next
    case (Some r)
    obtain blk rest where r: "xPemDecode X b = Some (blk, rest)" using Some by (cases r) simp
    then have "length rest < length b" using less.prems(1) unfolding pemShrinks_def by blast
    moreover then obtain m k where "n = Suc m" "length b = Suc k" using less.prems(2) by (metis Suc_le_D less_imp_Suc_add)
    ultimately show ?thesis
      using less.prems r less.hyps [of rest m] less.hyps [of rest k] by simp
  qed
qed

lemma foldl_hex_None: "foldl (\<lambda>a c. case (a, hexVal c) of (Some n, Some d) \<Rightarrow> Some (16 * n + d) | _ \<Rightarrow> None) None s = None"
  by (induction s) simp_all

lemma hexVal_hexDigit: "n < 16 \<Longrightarrow> hexVal (hexDigit n) = Some n"
  by (auto simp: hexVal_def hexDigit_def inRange_def code_def)

lemma hexNat_nonempty [simp]: "hexNat n \<noteq> []"
  by (subst hexNat.simps) simp

lemma readHexNat_hexNat: "readHexNat (hexNat n) = Some n"
proof (induction n rule: hexNat.induct)
  case (1 n)
  show ?case
  proof (cases "n < 16")
    case True
    then show ?thesis by (subst hexNat.simps) (simp add: readHexNat_def hexVal_hexDigit)
  next
    case False
    then have "readHexNat (hexNat (n div 16)) = Some (n div 16)" using 1 by simp
    then show ?thesis
      using False by (subst hexNat.simps) (simp add: readHexNat_def hexVal_hexDigit)
  qed
qed

lemma hexDigit_plain: "n < 16 \<Longrightarrow> hexDigit n \<noteq> CHR ''-'' \<and> hexDigit n \<noteq> CHR ''+''"
  using hexVal_hexDigit [of n] by (auto simp: hexVal_def inRange_def code_def)

lemma hexNat_first: "hexNat n = c # r \<Longrightarrow> c \<noteq> CHR ''-'' \<and> c \<noteq> CHR ''+''"
proof (induction n arbitrary: c r rule: hexNat.induct)
  case (1 n)
  show ?case
  proof (cases "n < 16")
    case True
    then show ?thesis using "1.prems" hexDigit_plain [of n] by (subst (asm) hexNat.simps) auto
  next
    case False
    obtain c' r' where "hexNat (n div 16) = c' # r'" by (cases "hexNat (n div 16)") simp_all
    then show ?thesis using "1.prems" "1.IH" False by (subst (asm) hexNat.simps) auto
  qed
qed

lemma readHexInt_hexInt [simp]: "readHexInt (hexInt n) = Some n"
proof (cases "n < 0")
  case True
  then show ?thesis by (simp add: hexInt_def readHexInt_def readHexNat_hexNat)
next
  case False
  obtain c r where c: "hexNat (nat n) = c # r" by (cases "hexNat (nat n)") simp_all
  then have "readHexNat (c # r) = Some (nat n)" using readHexNat_hexNat [of "nat n"] by simp
  then show ?thesis using False c hexNat_first [OF c] by (simp add: hexInt_def readHexInt_def)
qed

lemma hexInt_inject [simp]: "hexInt m = hexInt n \<longleftrightarrow> m = n"
  by (metis option.inject readHexInt_hexInt)

text \<open>What a certificate accepted for a device is, and what an accepted signing request proves.\<close>

lemma ParseAndValidateCertificate_Inr:
  assumes "ParseAndValidateCertificate X b at = Inr (c, info)"
  shows "ParseCertificatePEM X b = Inr c \<and> IsMLDSA c \<and> xcNotBefore c \<le> at \<and> at \<le> xcNotAfter c \<and> \<not> xcIsCA c \<and>
    HasDocumentSigningEKU c \<and> info = Describe X c"
  using assms unfolding ParseAndValidateCertificate_def by (auto simp: bind_simps)

lemma ParseAndValidateCSR_Inr:
  assumes "ParseAndValidateCSR X b = Inr (csr, info)"
  shows "xParseCSR X (firstPEM X b) = Inr csr \<and> xCheckCSR X csr = None \<and> (\<exists>pub. xrMLDSA csr = Some pub \<and> xKeyParams X pub = Algorithm \<and>
    PublicKeyFingerprint X pub = Inr (crPublicKeyFP info)) \<and> crProofOfPossession info"
  using assms unfolding ParseAndValidateCSR_def by (auto simp: bind_simps split: option.splits)

lemma ValidateCRL_revoked:
  assumes "ValidateCRL X b issuer c t = Inr st"
  shows "\<exists>crl. xParseCRL X (firstPEM X b) = Inr crl \<and> (csRevoked st \<longleftrightarrow> xcSerial c \<in> xeSerial ` set (xlEntries crl)) \<and>
    (\<forall>ca. issuer = Some ca \<longrightarrow> xCheckCRL X crl ca = None)"
proof -
  obtain crl where crl: "xParseCRL X (firstPEM X b) = Inr crl"
    using assms unfolding ValidateCRL_def by (auto simp: bind_simps)
  have "csRevoked st \<longleftrightarrow> find (\<lambda>e. xeSerial e = xcSerial c) (xlEntries crl) \<noteq> None"
    and "issuer = Some ca \<Longrightarrow> xCheckCRL X crl ca = None" for ca
    using assms crl unfolding ValidateCRL_def by (auto simp: bind_simps mapErr_def Let_def split: option.splits)
  then show ?thesis using crl by (auto simp: find_None_iff image_iff simp del: not_None_eq) metis
qed

end
