(* ===== verification/CA_Store.thy ===== *)
theory CA_Store
  imports Core_Certificates
begin

text \<open>
  The CA directory of the offline tool: \<^verbatim>\<open>ttd/tools/ca-admin/castore.go\<close>, the encrypted key files of \<^verbatim>\<open>keyfile.go\<close>, and issuing in
  \<^verbatim>\<open>ttd/core/labpki/labpki.go\<close> with the private keys of \<^verbatim>\<open>keys.go\<close>.

  The world is the CA directory, its files by the path relative to it, and the files outside by their path.  Every file operation
  can fail; a write that fails may have written a part.  The clock, the random source and the failures are functions of the count of
  draws.  JSON texts are made and read by fields of \<open>calib\<close>, as are keys, certificates and seals.
\<close>

section \<open>The world\<close>

record Revocation =
  rvSerial :: string
  rvReason :: string
  rvReasonCode :: int
  rvRevokedAt :: int

record Ledger =
  ldCRLNumber :: int
  ldRevocations :: "Revocation list"

record CeremonyEntry =
  cyAt :: int
  cyAction :: string
  cyOperator :: string
  cyEncrypted :: bool
  cyArtifacts :: "(string \<times> string) list"
  cyNote :: string

record IssuedRecord =
  irSerial :: string
  irSubject :: string
  irAccount :: string
  irDeviceLabel :: string
  irFingerprint :: string
  irNotAfter :: int
  irIssuedAt :: int
  irCSRFP :: string

record encBlob =
  ebVersion :: int
  ebKDF :: string
  ebTime :: nat
  ebMemKiB :: nat
  ebThreads :: nat
  ebSalt :: bytes
  ebNonce :: bytes
  ebCT :: bytes

record pkix_name =
  pnCommonName :: string
  pnOrganization :: "string list"
  pnOrganizationalUnit :: "string list"

record cert_template =
  tpSerialNumber :: int
  tpSubject :: pkix_name
  tpNotBefore :: int
  tpNotAfter :: int
  tpKeyUsage :: "string list"
  tpUnknownExtKeyUsage :: "nat list list"
  tpIsCA :: bool
  tpMaxPathLen :: nat
  tpMaxPathLenZero :: bool
  tpCRLDistributionPoints :: "string list"

text \<open>
  \<open>cbCreateCert\<close> signs a template (self-signed without a parent) for a public key with a private key; \<open>cbParsePKCS8\<close> also returns
  the name of another kind of key; \<open>cbWrite\<close> is the error of a write and how much of it got through, unless the file
  was not opened; \<open>cbMkdir\<close> the error of making a directory and whether its parent was made.
\<close>

record calib =
  cbX :: xlib
  cbNow :: "nat \<Rightarrow> int"
  cbWrite :: "nat \<Rightarrow> (string \<times> nat option) option"
  cbRead :: "nat \<Rightarrow> string option"
  cbMkdir :: "nat \<Rightarrow> (string \<times> bool) option"
  cbRand :: "nat \<Rightarrow> nat \<Rightarrow> string + bytes"
  cbSerial :: "nat \<Rightarrow> string + int"
  cbGenKey :: "nat \<Rightarrow> string + bytes"
  cbPublic :: "bytes \<Rightarrow> bytes"
  cbMarshalPKCS8 :: "bytes \<Rightarrow> string + bytes"
  cbParsePKCS8 :: "bytes \<Rightarrow> string + (string + bytes)"
  cbCreateCert :: "nat \<Rightarrow> cert_template \<Rightarrow> x509_cert option \<Rightarrow> bytes \<Rightarrow> bytes \<Rightarrow> string + bytes"
  cbCreateCRL :: "nat \<Rightarrow> x509_crl \<Rightarrow> x509_cert \<Rightarrow> bytes \<Rightarrow> string + bytes"
  cbArgon :: "string \<Rightarrow> bytes \<Rightarrow> nat \<Rightarrow> nat \<Rightarrow> nat \<Rightarrow> nat \<Rightarrow> bytes"
  cbSeal :: "bytes \<Rightarrow> bytes \<Rightarrow> bytes \<Rightarrow> bytes"
  cbOpen :: "bytes \<Rightarrow> bytes \<Rightarrow> bytes \<Rightarrow> bytes option"
  cbLedgerJSON :: "Ledger \<Rightarrow> bytes"
  cbReadLedger :: "bytes \<Rightarrow> string + Ledger"
  cbIssuedJSON :: "IssuedRecord \<Rightarrow> bytes"
  cbCeremonyJSON :: "CeremonyEntry \<Rightarrow> bytes"
  cbBlobJSON :: "encBlob \<Rightarrow> bytes"
  cbReadBlob :: "bytes \<Rightarrow> string + encBlob"

record ca_world =
  cwTick :: nat
  cwExists :: bool
  cwCA :: "string \<rightharpoonup> bytes"
  cwFiles :: "string \<rightharpoonup> bytes"

type_synonym 'a cmd = "(ca_world, string + 'a) state"

definition drawC :: "(nat \<Rightarrow> 'a) \<Rightarrow> (ca_world, 'a) state" where
  "drawC f = State (\<lambda>w. (f (cwTick w), w\<lparr>cwTick := Suc (cwTick w)\<rparr>))"

text \<open>The next step, unless there was an error; and a step whose error is ignored.\<close>

definition andThen :: "('s, 'e + 'a) state \<Rightarrow> ('a \<Rightarrow> ('s, 'e + 'b) state) \<Rightarrow> ('s, 'e + 'b) state" where
  "andThen m f = do { r \<leftarrow> m; (case r of Inl e \<Rightarrow> ret (Inl e) | Inr x \<Rightarrow> f x) }"

abbreviation ok :: "'a \<Rightarrow> ('s, 'e + 'a) state" where "ok x \<equiv> ret (Inr x)"
abbreviation fail :: "'e \<Rightarrow> ('s, 'e + 'a) state" where "fail e \<equiv> ret (Inl e)"

definition writeOf :: "(string \<times> nat option) option \<Rightarrow> bytes \<Rightarrow> bytes option \<Rightarrow> bytes option" where
  "writeOf fault b old =
     (case fault of None \<Rightarrow> Some b | Some (_, None) \<Rightarrow> old | Some (_, Some n) \<Rightarrow> Some (take n b))"

definition writeResult :: "(string \<times> nat option) option \<Rightarrow> string + unit" where
  "writeResult fault = (case fault of None \<Rightarrow> Inr () | Some (e, _) \<Rightarrow> Inl e)"

text \<open>Without the CA directory no file of it can be opened.\<close>

definition caFault :: "ca_world \<Rightarrow> (string \<times> nat option) option \<Rightarrow> (string \<times> nat option) option" where
  "caFault w fault = (if cwExists w then fault else Some (''no such file or directory'', None))"

definition writeCAFile :: "calib \<Rightarrow> string \<Rightarrow> bytes \<Rightarrow> unit cmd" where
  "writeCAFile C rel b =
     do { fault \<leftarrow> drawC (cbWrite C);
          w \<leftarrow> getS;
          modify (\<lambda>w. w\<lparr>cwCA := (cwCA w)(rel := writeOf (caFault w fault) b (cwCA w rel))\<rparr>);
          ret (writeResult (caFault w fault)) }"

definition appendCAFile :: "calib \<Rightarrow> string \<Rightarrow> bytes \<Rightarrow> unit cmd" where
  "appendCAFile C rel line =
     do { fault \<leftarrow> drawC (cbWrite C);
          w \<leftarrow> getS;
          modify (\<lambda>w. w\<lparr>cwCA := (cwCA w)(rel :=
            (case writeOf (caFault w fault) line None of
               None \<Rightarrow> cwCA w rel
             | Some b \<Rightarrow> Some ((case cwCA w rel of None \<Rightarrow> [] | Some old \<Rightarrow> old) @ b)))\<rparr>);
          ret (writeResult (caFault w fault)) }"

definition readCAFile :: "calib \<Rightarrow> string \<Rightarrow> bytes cmd" where
  "readCAFile C rel =
     do { fault \<leftarrow> drawC (cbRead C);
          w \<leftarrow> getS;
          ret (case fault of
                 Some e \<Rightarrow> Inl e
               | None \<Rightarrow> orErr (''open '' @ rel @ '': no such file or directory'') (cwCA w rel)) }"

definition writeOut :: "calib \<Rightarrow> string \<Rightarrow> bytes \<Rightarrow> unit cmd" where
  "writeOut C p b =
     do { fault \<leftarrow> drawC (cbWrite C);
          modify (\<lambda>w. w\<lparr>cwFiles := (cwFiles w)(p := writeOf fault b (cwFiles w p))\<rparr>);
          ret (writeResult fault) }"

definition readOut :: "calib \<Rightarrow> string \<Rightarrow> bytes cmd" where
  "readOut C p =
     do { fault \<leftarrow> drawC (cbRead C);
          w \<leftarrow> getS;
          ret (case fault of Some e \<Rightarrow> Inl e | None \<Rightarrow> orErr (''open '' @ p @ '': no such file or directory'') (cwFiles w p)) }"

section \<open>Private keys\<close>

definition PEMTypePrivateKey :: string where "PEMTypePrivateKey = ''PRIVATE KEY''"

definition MarshalPKCS8PEM :: "calib \<Rightarrow> bytes \<Rightarrow> string + bytes" where
  "MarshalPKCS8PEM C sk =
     bindE (mapErr (\<lambda>e. ''keys: marshal PKCS#8: '' @ e) (cbMarshalPKCS8 C sk)) (\<lambda>der.
       Inr (xPemEncode (cbX C) \<lparr>pbType = PEMTypePrivateKey, pbBytes = der\<rparr>))"

definition ParsePKCS8 :: "calib \<Rightarrow> bytes \<Rightarrow> string + bytes" where
  "ParsePKCS8 C data =
     bindE (mapErr (\<lambda>e. ''keys: parse PKCS#8: '' @ e) (cbParsePKCS8 C (firstPEM (cbX C) data))) (\<lambda>key.
       case key of
         Inl kind \<Rightarrow> Inl (''keys: expected ML-DSA private key, got '' @ kind)
       | Inr sk \<Rightarrow>
           if xKeyParams (cbX C) (cbPublic C sk) \<noteq> Algorithm
             then Inl (''keys: expected ML-DSA-65 parameter set, got '' @ xKeyParams (cbX C) (cbPublic C sk))
           else Inr sk)"

definition encVersion :: int where "encVersion = 1"
definition caArgonTime :: nat where "caArgonTime = 3"
definition caArgonMemKiB :: nat where "caArgonMemKiB = 262144"
definition caArgonThreads :: nat where "caArgonThreads = 4"
definition caKeyLen :: nat where "caKeyLen = 32"
definition caSaltLen :: nat where "caSaltLen = 16"

definition deriveKeyCA :: "calib \<Rightarrow> string \<Rightarrow> bytes \<Rightarrow> nat \<Rightarrow> nat \<Rightarrow> nat \<Rightarrow> bytes" where
  "deriveKeyCA C pass salt t m p = cbArgon C pass salt t m p caKeyLen"

definition sealKeyPEM :: "calib \<Rightarrow> bytes \<Rightarrow> string \<Rightarrow> bytes cmd" where
  "sealKeyPEM C pemBytes passphrase =
     (if passphrase = [] then fail ''ca-admin: empty passphrase''
      else
        andThen (drawC (\<lambda>k. cbRand C k caSaltLen)) (\<lambda>salt.
        let dk = deriveKeyCA C passphrase salt caArgonTime caArgonMemKiB caArgonThreads in
        andThen (drawC (\<lambda>k. cbRand C k 12)) (\<lambda>nonce.
          ok (cbBlobJSON C \<lparr>ebVersion = encVersion, ebKDF = ''argon2id'', ebTime = caArgonTime, ebMemKiB = caArgonMemKiB,
             ebThreads = caArgonThreads, ebSalt = salt, ebNonce = nonce, ebCT = cbSeal C dk nonce pemBytes\<rparr>))))"

definition openKeyPEM :: "calib \<Rightarrow> bytes \<Rightarrow> string \<Rightarrow> string + bytes" where
  "openKeyPEM C blob passphrase =
     bindE (mapErr (\<lambda>e. ''ca-admin: parse encrypted key: '' @ e) (cbReadBlob C blob)) (\<lambda>b.
       if ebVersion b \<noteq> encVersion \<or> ebKDF b \<noteq> ''argon2id'' then Inl ''ca-admin: unsupported encrypted key format''
       else if passphrase = [] then Inl ''ca-admin: this CA key is encrypted; set PQC_CA_PASSPHRASE''
       else orErr ''ca-admin: wrong passphrase or corrupted CA key''
              (cbOpen C (deriveKeyCA C passphrase (ebSalt b) (ebTime b) (ebMemKiB b) (ebThreads b)) (ebNonce b) (ebCT b)))"

section \<open>Issuing\<close>

record CA =
  caKey :: bytes
  caCert :: x509_cert

definition hour :: int where "hour = 3600 * second"

text \<open>A duration is a signed 64-bit number of nanoseconds, so a product of days and hours wraps around.\<close>

definition int64 :: "int \<Rightarrow> int" where "int64 n = (n + 2 ^ 63) mod 2 ^ 64 - 2 ^ 63"

definition GenerateMLDSA65Key :: "calib \<Rightarrow> bytes cmd" where
  "GenerateMLDSA65Key C = drawC (\<lambda>k. mapErr (\<lambda>e. ''keys: generate ML-DSA-65: '' @ e) (cbGenKey C k))"

definition randSerial :: "calib \<Rightarrow> int cmd" where
  "randSerial C = drawC (cbSerial C)"

definition nowC :: "calib \<Rightarrow> (ca_world, int) state" where
  "nowC C = drawC (cbNow C)"

text \<open>Signing a template and reading the certificate back.\<close>

definition signCert :: "calib \<Rightarrow> string \<Rightarrow> cert_template \<Rightarrow> x509_cert option \<Rightarrow> bytes \<Rightarrow> bytes \<Rightarrow> x509_cert cmd" where
  "signCert C what tmpl parent pub sk =
     andThen (drawC (\<lambda>k. mapErr (\<lambda>e. what @ e) (cbCreateCert C k tmpl parent pub sk))) (\<lambda>der. ret (xParseCertificate (cbX C) der))"

definition NewRootCA :: "calib \<Rightarrow> string \<Rightarrow> int \<Rightarrow> CA cmd" where
  "NewRootCA C commonName validity =
     andThen (GenerateMLDSA65Key C) (\<lambda>key.
     andThen (randSerial C) (\<lambda>serial.
       do { t \<leftarrow> nowC C;
            andThen (signCert C ''labpki: self-sign: ''
                \<lparr>tpSerialNumber = serial,
                 tpSubject = \<lparr>pnCommonName = commonName, pnOrganization = [], pnOrganizationalUnit = [''PQC Root CA'']\<rparr>,
                 tpNotBefore = t - hour, tpNotAfter = t + validity, tpKeyUsage = [''CertSign'', ''CRLSign''],
                 tpUnknownExtKeyUsage = [], tpIsCA = True, tpMaxPathLen = 1, tpMaxPathLenZero = False, tpCRLDistributionPoints = []\<rparr>
                None (cbPublic C key) key) (\<lambda>cert.
              ok \<lparr>caKey = key, caCert = cert\<rparr>) }))"

definition NewIntermediateCA :: "calib \<Rightarrow> CA \<Rightarrow> string \<Rightarrow> int \<Rightarrow> CA cmd" where
  "NewIntermediateCA C parent commonName validity =
     andThen (GenerateMLDSA65Key C) (\<lambda>key.
     andThen (randSerial C) (\<lambda>serial.
       do { t \<leftarrow> nowC C;
            andThen (signCert C ''labpki: create intermediate: ''
                \<lparr>tpSerialNumber = serial,
                 tpSubject = \<lparr>pnCommonName = commonName, pnOrganization = [], pnOrganizationalUnit = [''PQC Device Signing CA'']\<rparr>,
                 tpNotBefore = t - hour, tpNotAfter = t + validity, tpKeyUsage = [''CertSign'', ''CRLSign''],
                 tpUnknownExtKeyUsage = [], tpIsCA = True, tpMaxPathLen = 0, tpMaxPathLenZero = True, tpCRLDistributionPoints = []\<rparr>
                (Some (caCert parent)) (cbPublic C key) (caKey parent)) (\<lambda>cert.
              ok \<lparr>caKey = key, caCert = cert\<rparr>) }))"

record DeviceCertOptions =
  doSubject :: pkix_name
  doValidity :: int
  doCRLURL :: string
  doNotBefore :: int

definition IssueDeviceCert :: "calib \<Rightarrow> CA \<Rightarrow> x509_csr \<Rightarrow> DeviceCertOptions \<Rightarrow> x509_cert cmd" where
  "IssueDeviceCert C ca csr opts =
     (case xrMLDSA csr of
        None \<Rightarrow> fail (''labpki: CSR public key must be ML-DSA, got '' @ xrPublicKeyAlgorithm csr)
      | Some pub \<Rightarrow>
          let validity = (if doValidity opts = 0 then 365 * 24 * hour else doValidity opts) in
          do { nb \<leftarrow> (if doNotBefore opts = zeroTime then do { t \<leftarrow> nowC C; ret (t - hour) } else ret (doNotBefore opts));
               andThen (randSerial C) (\<lambda>serial.
                 signCert C ''labpki: issue device cert: ''
                   \<lparr>tpSerialNumber = serial, tpSubject = doSubject opts, tpNotBefore = nb, tpNotAfter = nb + validity,
                    tpKeyUsage = [''DigitalSignature''], tpUnknownExtKeyUsage = [OIDDocumentSigningEKU], tpIsCA = False, tpMaxPathLen = 0,
                    tpMaxPathLenZero = False, tpCRLDistributionPoints = (if doCRLURL opts = [] then [] else [doCRLURL opts])\<rparr>
                   (Some (caCert ca)) pub (caKey ca)) })"

text \<open>The entries of a list; a serial that is no number is a nil pointer, which \<^verbatim>\<open>CreateRevocationList\<close> refuses.\<close>

definition revokedEntries :: "int \<Rightarrow> (int option \<times> int \<times> int) list \<Rightarrow> crl_entry list option" where
  "revokedEntries t es =
     those (map (\<lambda>(n, reason, at). map_option (\<lambda>n. \<lparr>xeSerial = n, xeTime = (if at = zeroTime then t else at), xeReason = reason\<rparr>) n) es)"

definition NewCRLDetailed :: "calib \<Rightarrow> CA \<Rightarrow> (int option \<times> int \<times> int) list \<Rightarrow> int \<Rightarrow> int \<Rightarrow> bytes cmd" where
  "NewCRLDetailed C ca entries number validity =
     (let validity = (if validity = 0 then 7 * 24 * hour else validity) in
      do { t \<leftarrow> nowC C;
           andThen (drawC (\<lambda>k. mapErr (\<lambda>e. ''labpki: create CRL: '' @ e)
             (case revokedEntries t entries of
                None \<Rightarrow> Inl ''x509: template contains nil SerialNumber field''
              | Some es \<Rightarrow>
                  cbCreateCRL C k \<lparr>xlNumber = number, xlThisUpdate = t, xlNextUpdate = t + validity, xlEntries = es\<rparr> (caCert ca) (caKey ca))))
             (\<lambda>der. ok (xPemEncode (cbX C) \<lparr>pbType = ''X509 CRL'', pbBytes = der\<rparr>)) })"

definition CertPEM :: "calib \<Rightarrow> x509_cert \<Rightarrow> bytes" where
  "CertPEM C c = xPemEncode (cbX C) \<lparr>pbType = ''CERTIFICATE'', pbBytes = xcRaw c\<rparr>"

definition ChainPEM :: "calib \<Rightarrow> x509_cert list \<Rightarrow> bytes" where
  "ChainPEM C cs = concat (map (CertPEM C) cs)"

end
