(* ===== verification/CA_Admin.thy ===== *)
theory CA_Admin
  imports CA_Store "HOL-Library.Multiset"
begin

text \<open>
  The commands of the offline CA: the store of \<^verbatim>\<open>castore.go\<close> and \<^verbatim>\<open>main.go\<close> of \<^verbatim>\<open>ttd/tools/ca-admin\<close>.  A command takes the values its
  flags were parsed to and returns the error it prints, if any; what it prints otherwise is left out.  \<open>quoted\<close> is \<^verbatim>\<open>%q\<close> of a text without
  characters to escape.
\<close>

definition quoted :: "string \<Rightarrow> string" where "quoted s = quot # s @ [quot]"

section \<open>The store\<close>

record castore =
  csPassphrase :: string
  csOperator :: string

definition caExists :: "(ca_world, bool) state" where
  "caExists = do { w \<leftarrow> getS; ret (cwCA w ''intermediate/cert.pem'' \<noteq> None) }"

definition caEncrypted :: "(ca_world, bool) state" where
  "caEncrypted = do { w \<leftarrow> getS; ret (cwCA w ''intermediate/key.pem.enc'' \<noteq> None) }"

definition writeCA :: "calib \<Rightarrow> castore \<Rightarrow> string \<Rightarrow> CA \<Rightarrow> unit cmd" where
  "writeCA C s name ca =
     andThen (ret (MarshalPKCS8PEM C (caKey ca))) (\<lambda>keyPEM.
     andThen (if csPassphrase s \<noteq> []
              then andThen (sealKeyPEM C keyPEM (csPassphrase s)) (\<lambda>sealed. writeCAFile C (name @ ''/key.pem.enc'') sealed)
              else writeCAFile C (name @ ''/key.pem'') keyPEM) (\<lambda>_.
       writeCAFile C (name @ ''/cert.pem'') (CertPEM C (caCert ca))))"

definition loadCA :: "calib \<Rightarrow> castore \<Rightarrow> string \<Rightarrow> CA cmd" where
  "loadCA C s name =
     do { enc \<leftarrow> readCAFile C (name @ ''/key.pem.enc'');
          andThen (case enc of
                     Inr enc \<Rightarrow> ret (openKeyPEM C enc (csPassphrase s))
                   | Inl _ \<Rightarrow> do { r \<leftarrow> readCAFile C (name @ ''/key.pem'');
                                 ret (mapErr (\<lambda>e. ''ca-admin: no CA key for '' @ quoted name @ '': '' @ e) r) }) (\<lambda>keyPEM.
          andThen (ret (ParsePKCS8 C keyPEM)) (\<lambda>sk.
          andThen (readCAFile C (name @ ''/cert.pem'')) (\<lambda>certRaw.
          andThen (ret (ParseCertificatePEM (cbX C) certRaw)) (\<lambda>cert.
            ok \<lparr>caKey = sk, caCert = cert\<rparr>)))) }"

definition Intermediate :: "calib \<Rightarrow> castore \<Rightarrow> CA cmd" where "Intermediate C s = loadCA C s ''intermediate''"
definition Root :: "calib \<Rightarrow> castore \<Rightarrow> CA cmd" where "Root C s = loadCA C s ''root''"

definition loadLedger :: "calib \<Rightarrow> Ledger cmd" where
  "loadLedger C = andThen (readCAFile C ''ledger.json'') (\<lambda>raw. ret (cbReadLedger C raw))"

definition saveLedger :: "calib \<Rightarrow> Ledger \<Rightarrow> unit cmd" where
  "saveLedger C l = writeCAFile C ''ledger.json'' (cbLedgerJSON C l)"

definition appendIssued :: "calib \<Rightarrow> IssuedRecord \<Rightarrow> unit cmd" where
  "appendIssued C r = appendCAFile C ''issued.jsonl'' (cbIssuedJSON C r @ [CHR 0x0A])"

text \<open>The writes of a map happen in any order, the first error ends them.\<close>

fun writeAll :: "calib \<Rightarrow> (string \<times> bytes) list \<Rightarrow> unit cmd" where
  "writeAll C [] = ok ()"
| "writeAll C ((name, b) # r) = andThen (writeCAFile C (''public/'' @ name) b) (\<lambda>_. writeAll C r)"

definition publish :: "calib \<Rightarrow> castore \<Rightarrow> ((string \<times> bytes) list \<Rightarrow> (string \<times> bytes) list) \<Rightarrow> CA \<Rightarrow> bytes option \<Rightarrow> unit cmd" where
  "publish C s ord ca crlPEM =
     andThen (Root C s) (\<lambda>root.
       writeAll C (ord ([(''root-ca.crt.pem'', CertPEM C (caCert root)), (''intermediate-ca.crt.pem'', CertPEM C (caCert ca)),
         (''ca-chain.pem'', ChainPEM C [caCert ca, caCert root])] @
         (case crlPEM of None \<Rightarrow> [] | Some crl \<Rightarrow> [(''crl.pem'', crl)]))))"

definition emptyLedger :: Ledger where "emptyLedger = \<lparr>ldCRLNumber = 0, ldRevocations = []\<rparr>"

fun makeDirs :: "calib \<Rightarrow> string list \<Rightarrow> unit cmd" where
  "makeDirs C [] = ok ()"
| "makeDirs C (d # r) =
     do { fault \<leftarrow> drawC (cbMkdir C);
          (case fault of
             Some (e, made) \<Rightarrow> do { modify (\<lambda>w. w\<lparr>cwExists := cwExists w \<or> made\<rparr>); fail e }
           | None \<Rightarrow> do { modify (\<lambda>w. w\<lparr>cwExists := True\<rparr>); makeDirs C r }) }"

definition Init :: "calib \<Rightarrow> castore \<Rightarrow> ((string \<times> bytes) list \<Rightarrow> (string \<times> bytes) list) \<Rightarrow> string \<Rightarrow> string \<Rightarrow> string \<Rightarrow> unit cmd" where
  "Init C s ord dir rootCN interCN =
     do { w \<leftarrow> getS;
          if cwExists w then fail (''ca-admin: '' @ dir @ '' already exists; refusing to overwrite'')
          else
            andThen (NewRootCA C rootCN (10 * 365 * 24 * hour)) (\<lambda>root.
            andThen (NewIntermediateCA C root interCN (5 * 365 * 24 * hour)) (\<lambda>ca.
            andThen (makeDirs C [''root'', ''intermediate'', ''public'']) (\<lambda>_.
            andThen (writeCA C s ''root'' root) (\<lambda>_.
            andThen (writeCA C s ''intermediate'' ca) (\<lambda>_.
            andThen (publish C s ord ca None) (\<lambda>_.
              saveLedger C emptyLedger)))))) }"

definition openStore :: "castore \<Rightarrow> castore cmd" where
  "openStore s =
     do { e \<leftarrow> caExists;
          if \<not> e then fail ''ca-admin: CA directory not initialised (run `ca-admin init` first)''
          else do {
            enc \<leftarrow> caEncrypted;
            if enc \<and> csPassphrase s = [] then fail ''ca-admin: CA keys are encrypted; set PQC_CA_PASSPHRASE''
            else ok s } }"

fun artifactSums :: "calib \<Rightarrow> string list \<Rightarrow> (ca_world, (string \<times> string) list) state" where
  "artifactSums C [] = ret []"
| "artifactSums C (a # r) =
     do { b \<leftarrow> readCAFile C a;
          rest \<leftarrow> artifactSums C r;
          ret (case b of Inl _ \<Rightarrow> rest | Inr b \<Rightarrow> (a, hexEncode (xSHA256 (cbX C) b)) # rest) }"

definition logCeremony :: "calib \<Rightarrow> castore \<Rightarrow> string \<Rightarrow> string \<Rightarrow> string list \<Rightarrow> unit cmd" where
  "logCeremony C s action note artifacts =
     do { t \<leftarrow> nowC C;
          enc \<leftarrow> caEncrypted;
          sums \<leftarrow> artifactSums C artifacts;
          appendCAFile C ''ceremony.jsonl'' (cbCeremonyJSON C \<lparr>cyAt = t, cyAction = action, cyOperator = csOperator s, cyEncrypted = enc,
            cyArtifacts = sums, cyNote = note\<rparr> @ [CHR 0x0A]) }"

section \<open>Commands\<close>

text \<open>\<^verbatim>\<open>init\<close> prints the certificates it reads back without looking at the errors: a nil pointer, and the tool panics.\<close>

definition nilPointer :: string where "nilPointer = ''runtime error: invalid memory address or nil pointer dereference''"

definition cmdInit :: "calib \<Rightarrow> castore \<Rightarrow> ((string \<times> bytes) list \<Rightarrow> (string \<times> bytes) list) \<Rightarrow> string \<Rightarrow> string \<Rightarrow> string \<Rightarrow> unit cmd" where
  "cmdInit C s ord dir rootCN interCN =
     andThen (Init C s ord dir rootCN interCN) (\<lambda>_.
       do { root \<leftarrow> Root C s;
            ca \<leftarrow> Intermediate C s;
            enc \<leftarrow> caEncrypted;
            _ \<leftarrow> logCeremony C s ''ca.init'' ''root+intermediate generated''
              ((if enc then [''root/key.pem.enc'', ''intermediate/key.pem.enc''] else [''root/key.pem'', ''intermediate/key.pem'']) @
               [''root/cert.pem'', ''intermediate/cert.pem'', ''public/root-ca.crt.pem'', ''public/intermediate-ca.crt.pem'', ''public/ca-chain.pem'']);
            ret (if isl root \<or> isl ca then Inl nilPointer else Inr ()) })"

definition cmdValidate :: "calib \<Rightarrow> string \<Rightarrow> CSRInfo cmd" where
  "cmdValidate C csrPath =
     (if csrPath = [] then fail ''-csr is required''
      else andThen (readOut C csrPath) (\<lambda>raw. ret (bindE (ParseAndValidateCSR (cbX C) raw) (\<lambda>(_, info). Inr info))))"

definition pkixName :: "string \<Rightarrow> string \<Rightarrow> pkix_name" where
  "pkixName cn org = \<lparr>pnCommonName = cn, pnOrganization = (if org = [] then [] else [org]), pnOrganizationalUnit = []\<rparr>"

record issue_flags =
  isCSR :: string
  isAccount :: string
  isDevice :: string
  isCN :: string
  isOrg :: string
  isDays :: int
  isCRLURL :: string
  isOut :: string

definition issueOne :: "calib \<Rightarrow> CA \<Rightarrow> bytes \<Rightarrow> issue_flags \<Rightarrow> IssuedRecord cmd" where
  "issueOne C ca csrPEM fl =
     andThen (ret (mapErr (\<lambda>e. ''CSR rejected: '' @ e) (ParseAndValidateCSR (cbX C) csrPEM))) (\<lambda>(csr, csrInfo).
     andThen (IssueDeviceCert C ca csr \<lparr>doSubject = pkixName (isCN fl) (isOrg fl), doValidity = int64 (isDays fl * 24 * hour),
                doCRLURL = isCRLURL fl, doNotBefore = zeroTime\<rparr>) (\<lambda>cert.
     andThen (writeOut C (isOut fl) (CertPEM C cert)) (\<lambda>_.
     andThen (writeOut C (isOut fl @ ''.fullchain.pem'') (ChainPEM C [cert, caCert ca])) (\<lambda>_.
       do { t \<leftarrow> nowC C;
            (let r = \<lparr>irSerial = hexInt (xcSerial cert), irSubject = xcSubject cert, irAccount = isAccount fl, irDeviceLabel = isDevice fl,
                      irFingerprint = FingerprintSHA256 (cbX C) cert, irNotAfter = xcNotAfter cert, irIssuedAt = t,
                      irCSRFP = crPublicKeyFP csrInfo\<rparr> in
             andThen (appendIssued C r) (\<lambda>_. ok r)) }))))"

definition cmdIssue :: "calib \<Rightarrow> castore \<Rightarrow> issue_flags \<Rightarrow> unit cmd" where
  "cmdIssue C s fl =
     (if isCSR fl = [] \<or> isAccount fl = [] \<or> isDevice fl = [] \<or> isCN fl = []
        then fail ''-csr, -account, -device and -cn are required''
      else
        andThen (openStore s) (\<lambda>s.
        andThen (Intermediate C s) (\<lambda>ca.
        andThen (readOut C (isCSR fl)) (\<lambda>raw.
        andThen (issueOne C ca raw fl) (\<lambda>_.
          do { _ \<leftarrow> logCeremony C s ''cert.issue'' ''1 certificate'' [''issued.jsonl'']; ok () })))))"

text \<open>
  The entries of the input directory, each with whether it is a directory; \<open>meta\<close> is what the text of a \<^verbatim>\<open>meta.json\<close> sets over the
  default account, device and common name.
\<close>

definition csrStem :: "string \<times> bool \<Rightarrow> string option" where
  "csrStem e =
     (let name = fst e; k = length name - length ''.csr.pem'' in
      if snd e \<or> length name < length ''.csr.pem'' \<or> drop k name \<noteq> ''.csr.pem'' then None else Some (take k name))"

type_synonym batch_meta = "bytes \<Rightarrow> string \<times> string \<times> string \<Rightarrow> string \<times> string \<times> string"

definition batchFlags :: "calib \<Rightarrow> issue_flags \<Rightarrow> batch_meta \<Rightarrow> string \<Rightarrow> string \<Rightarrow> string \<Rightarrow> (ca_world, issue_flags) state" where
  "batchFlags C fl meta inp out stem =
     (let m = (isAccount fl, stem, stem) in
      do { mb \<leftarrow> readOut C (joinPath inp (stem @ ''.meta.json''));
           (let (account, device, cn) = (case mb of Inl _ \<Rightarrow> m | Inr mb \<Rightarrow> meta mb m) in
            ret (fl\<lparr>isAccount := account, isDevice := device, isCN := cn, isOut := joinPath out (stem @ ''.crt.pem'')\<rparr>)) })"

fun issueBatch :: "calib \<Rightarrow> CA \<Rightarrow> issue_flags \<Rightarrow> batch_meta \<Rightarrow> string \<Rightarrow> string \<Rightarrow> (string \<times> bool) list \<Rightarrow> nat cmd" where
  "issueBatch C ca fl meta inp out [] = ok 0"
| "issueBatch C ca fl meta inp out (e # r) =
     (case csrStem e of
        None \<Rightarrow> issueBatch C ca fl meta inp out r
      | Some stem \<Rightarrow>
          do { m \<leftarrow> batchFlags C fl meta inp out stem;
               andThen (readOut C (joinPath inp (fst e))) (\<lambda>raw.
               andThen (do { x \<leftarrow> issueOne C ca raw m; ret (mapErr (\<lambda>err. fst e @ '': '' @ err) x) }) (\<lambda>_.
               andThen (issueBatch C ca fl meta inp out r) (\<lambda>n. ok (Suc n)))) })"

definition cmdBatchIssue ::
  "calib \<Rightarrow> castore \<Rightarrow> issue_flags \<Rightarrow> batch_meta \<Rightarrow> string \<Rightarrow> string \<Rightarrow> string + (string \<times> bool) list \<Rightarrow> unit cmd" where
  "cmdBatchIssue C s fl meta inp out entries =
     (if inp = [] then fail ''-in is required''
      else
        andThen (openStore s) (\<lambda>s.
        andThen (Intermediate C s) (\<lambda>ca.
        andThen (ret entries) (\<lambda>entries.
        andThen (drawC (\<lambda>k. case cbMkdir C k of Some (e, _) \<Rightarrow> Inl e | None \<Rightarrow> Inr ())) (\<lambda>_.
        andThen (issueBatch C ca fl meta inp out entries) (\<lambda>n.
          do { _ \<leftarrow> logCeremony C s ''cert.batch-issue'' (dec n @ '' certificates from '' @ inp) [''issued.jsonl'']; ok () }))))))"

definition reasonCodes :: "string \<Rightarrow> int option" where
  "reasonCodes =
     map_of [(''unspecified'', 0), (''keyCompromise'', 1), (''cACompromise'', 2), (''affiliationChanged'', 3), (''superseded'', 4),
             (''cessationOfOperation'', 5), (''certificateHold'', 6), (''privilegeWithdrawn'', 9)]"

definition recordRevocation :: "calib \<Rightarrow> castore \<Rightarrow> string \<Rightarrow> string \<Rightarrow> int \<Rightarrow> Ledger \<Rightarrow> unit cmd" where
  "recordRevocation C s serial reason rc l =
     (case find (\<lambda>r. rvSerial r = serial) (ldRevocations l) of
        Some r \<Rightarrow> fail (''serial '' @ serial @ '' is already revoked ('' @ xTime (cbX C) (rvRevokedAt r) @ '')'')
      | None \<Rightarrow>
          do { t \<leftarrow> nowC C;
               andThen (saveLedger C (l\<lparr>ldRevocations := ldRevocations l @
                   [\<lparr>rvSerial = serial, rvReason = reason, rvReasonCode = rc, rvRevokedAt = t\<rparr>]\<rparr>)) (\<lambda>_.
                 do { _ \<leftarrow> logCeremony C s ''cert.revoke'' (serial @ '' '' @ reason) [''ledger.json'']; ok () }) })"

definition cmdRevoke :: "calib \<Rightarrow> castore \<Rightarrow> string \<Rightarrow> string \<Rightarrow> unit cmd" where
  "cmdRevoke C s serial reason =
     (if serial = [] then fail ''-serial is required (hex, as printed by `issue` or `show`)''
      else if readHexInt serial = None then fail (''invalid hex serial '' @ quoted serial)
      else (case reasonCodes reason of
          None \<Rightarrow> fail (''unknown reason '' @ quoted reason)
        | Some rc \<Rightarrow>
            andThen (openStore s) (\<lambda>s.
            andThen (loadLedger C) (recordRevocation C s serial reason rc))))"

definition publishNextCRL :: "calib \<Rightarrow> castore \<Rightarrow> ((string \<times> bytes) list \<Rightarrow> (string \<times> bytes) list) \<Rightarrow> int \<Rightarrow> string \<Rightarrow> Ledger \<Rightarrow> CA \<Rightarrow> unit cmd" where
  "publishNextCRL C s ord days out l ca =
     (let rl = map (\<lambda>r. (readHexInt (rvSerial r), rvReasonCode r, rvRevokedAt r)) (ldRevocations l);
          l = l\<lparr>ldCRLNumber := ldCRLNumber l + 1\<rparr> in
      andThen (NewCRLDetailed C ca rl (ldCRLNumber l) (int64 (days * 24 * hour))) (\<lambda>crlPEM.
      andThen (publish C s ord ca (Some crlPEM)) (\<lambda>_.
      andThen (saveLedger C l) (\<lambda>_.
      andThen (if out \<noteq> [] then writeOut C out crlPEM else ok ()) (\<lambda>_.
        do { _ \<leftarrow> logCeremony C s ''crl.publish'' (''CRL #'' @ fmt_d (ldCRLNumber l) @ '', '' @ dec (length rl) @ '' entries'')
                    [''public/crl.pem'', ''ledger.json''];
             ok () })))))"

definition cmdCRL :: "calib \<Rightarrow> castore \<Rightarrow> ((string \<times> bytes) list \<Rightarrow> (string \<times> bytes) list) \<Rightarrow> int \<Rightarrow> string \<Rightarrow> unit cmd" where
  "cmdCRL C s ord days out =
     andThen (openStore s) (\<lambda>s. andThen (loadLedger C) (\<lambda>l. andThen (Intermediate C s) (publishNextCRL C s ord days out l)))"

text \<open>The gate of \<^verbatim>\<open>status\<close>: no file of the public directory looks like a private key.\<close>

definition bytesContainsAny :: "bytes \<Rightarrow> string list \<Rightarrow> bool" where
  "bytesContainsAny b subs \<longleftrightarrow> list_ex (\<lambda>x. containsStr (map toUpperAscii b) (map toUpperAscii x)) subs"

definition privateMarks :: "string list" where
  "privateMarks = [''PRIVATE KEY'', ''BEGIN EC PRIVATE'', ''BEGIN RSA PRIVATE'']"

fun findLeak :: "calib \<Rightarrow> string list \<Rightarrow> (ca_world, string option) state" where
  "findLeak C [] = ret None"
| "findLeak C (name # r) =
     do { b \<leftarrow> readCAFile C (''public/'' @ name);
          (case b of
             Inl _ \<Rightarrow> findLeak C r
           | Inr b \<Rightarrow> if bytesContainsAny b privateMarks then ret (Some name) else findLeak C r) }"

definition cmdStatus :: "calib \<Rightarrow> castore \<Rightarrow> string \<Rightarrow> string list \<Rightarrow> unit cmd" where
  "cmdStatus C s dir names =
     andThen (openStore s) (\<lambda>s.
     andThen (Root C s) (\<lambda>_.
     andThen (Intermediate C s) (\<lambda>_.
       do { _ \<leftarrow> loadLedger C;
            _ \<leftarrow> readCAFile C ''issued.jsonl'';
            leak \<leftarrow> findLeak C names;
            (case leak of
               Some name \<Rightarrow> fail (''GATE FAIL: '' @ dir @ ''/public/'' @ name @ '' contains private key material'')
             | None \<Rightarrow> ok ()) })))"

section \<open>The tool\<close>

text \<open>The switch of \<^verbatim>\<open>main\<close> over the commands that work on a CA directory, with their flags.\<close>

datatype ca_command =
    DoInit string string string
  | DoValidate string
  | DoIssue issue_flags
  | DoBatchIssue issue_flags batch_meta string string "string + (string \<times> bool) list"
  | DoRevoke string string
  | DoCRL int string
  | DoStatus string "string list"

fun caMain :: "calib \<Rightarrow> castore \<Rightarrow> ((string \<times> bytes) list \<Rightarrow> (string \<times> bytes) list) \<Rightarrow> ca_command \<Rightarrow> unit cmd" where
  "caMain C s ord (DoInit dir rootCN interCN) = cmdInit C s ord dir rootCN interCN"
| "caMain C s ord (DoValidate p) = andThen (cmdValidate C p) (\<lambda>_. ok ())"
| "caMain C s ord (DoIssue fl) = cmdIssue C s fl"
| "caMain C s ord (DoBatchIssue fl meta inp out entries) = cmdBatchIssue C s fl meta inp out entries"
| "caMain C s ord (DoRevoke serial reason) = cmdRevoke C s serial reason"
| "caMain C s ord (DoCRL days out) = cmdCRL C s ord days out"
| "caMain C s ord (DoStatus dir names) = cmdStatus C s dir names"

text \<open>Any number of commands, by any operator; a map is written out in any order.\<close>

definition anyOrder :: "((string \<times> bytes) list \<Rightarrow> (string \<times> bytes) list) \<Rightarrow> bool" where
  "anyOrder ord \<longleftrightarrow> (\<forall>xs. mset (ord xs) = mset xs)"

inductive caRuns :: "calib \<Rightarrow> ca_world \<Rightarrow> ca_world \<Rightarrow> bool" for C where
  runs_none: "caRuns C w w"
| runs_command: "caRuns C w w' \<Longrightarrow> anyOrder ord \<Longrightarrow> run_state (caMain C s ord c) w' = (r, w'') \<Longrightarrow> caRuns C w w''"

definition noCA :: ca_world where
  "noCA = \<lparr>cwTick = 0, cwExists = False, cwCA = Map.empty, cwFiles = Map.empty\<rparr>"

end
