(* ===== verification/CA_Runs.thy ===== *)
theory CA_Runs
  imports CA_Admin "HOL-Library.Sublist"
begin

text \<open>
  What every run of the CA tool keeps, with any failures: a locale for relations between worlds that respect the files a command may write,
  with one lemma per operation, and its two instances, the revocation ledger that only grows and the public directory that never holds a
  private key.
\<close>

section \<open>Steps\<close>

lemma wp_drawC [wp_simps]: "wp (drawC f) Q w = Q (f (cwTick w)) (w\<lparr>cwTick := Suc (cwTick w)\<rparr>)"
  by (simp add: drawC_def wp_def)

lemma wp_andThen [wp_simps]: "wp (andThen m f) Q w = wp m (\<lambda>r w'. case r of Inl e \<Rightarrow> Q (Inl e) w' | Inr x \<Rightarrow> wp (f x) Q w') w"
  unfolding andThen_def wp_bind by (rule arg_cong [where f = "\<lambda>Q. wp m Q w"]) (auto simp: wp_return fun_eq_iff split: sum.splits)

lemma cwExists_or: "w\<lparr>cwExists := cwExists w \<or> b\<rparr> = (if b then w\<lparr>cwExists := True\<rparr> else w)"
  by simp

locale ca_relation =
  fixes C :: calib and R :: "ca_world \<Rightarrow> ca_world \<Rightarrow> bool" and allowed :: "string \<Rightarrow> bytes \<Rightarrow> bool"
  assumes R_refl: "R w w"
    and R_trans: "R w w' \<Longrightarrow> R w' w'' \<Longrightarrow> R w w''"
    and R_tick: "R w (w\<lparr>cwTick := k\<rparr>)"
    and R_out: "R w (w\<lparr>cwFiles := f\<rparr>)"
    and R_made: "R w (w\<lparr>cwExists := True\<rparr>)"
    and R_write: "allowed rel b \<Longrightarrow> cwExists w \<Longrightarrow> R w (w\<lparr>cwCA := (cwCA w)(rel := writeOf (cbWrite C k) b (cwCA w rel))\<rparr>)"
    and R_log: "rel \<in> {''issued.jsonl'', ''ceremony.jsonl''} \<Longrightarrow> cwExists w \<Longrightarrow> R w (w\<lparr>cwCA := (cwCA w)(rel := v)\<rparr>)"
begin

definition keepsC :: "(ca_world, 'a) state \<Rightarrow> bool" where
  "keepsC m \<longleftrightarrow> (\<forall>w. wp m (\<lambda>_. R w) w)"

lemma keepsC_ret: "keepsC (ret x)"
  by (simp add: keepsC_def wp_simps R_refl)

lemma keepsC_get: "keepsC getS"
  by (simp add: keepsC_def wp_simps R_refl)

lemma keepsC_draw: "keepsC (drawC f)"
  by (simp add: keepsC_def wp_simps R_tick)

lemma keepsC_bind: "keepsC m \<Longrightarrow> (\<And>x. keepsC (f x)) \<Longrightarrow> keepsC (State_Monad.bind m f)"
  unfolding keepsC_def wp_bind by (blast intro: wp_mono R_trans)

lemma keepsC_andThen: "keepsC m \<Longrightarrow> (\<And>x. keepsC (f x)) \<Longrightarrow> keepsC (andThen m f)"
  unfolding andThen_def by (intro keepsC_bind) (auto split: sum.splits intro: keepsC_ret)

lemma keepsC_cases:
  "keepsC m \<Longrightarrow> keepsC m' \<Longrightarrow> keepsC (if b then m else m')"
  "keepsC m \<Longrightarrow> (\<And>y. keepsC (f y)) \<Longrightarrow> keepsC (case z of None \<Rightarrow> m | Some y \<Rightarrow> f y)"
  "(\<And>a. keepsC (h a)) \<Longrightarrow> (\<And>b. keepsC (g b)) \<Longrightarrow> keepsC (case v of Inl a \<Rightarrow> h a | Inr b \<Rightarrow> g b)"
  "(\<And>a b. keepsC (k a b)) \<Longrightarrow> keepsC (case p of (a, b) \<Rightarrow> k a b)"
  by (auto split: option.splits sum.splits prod.splits)

lemma keepsC_let: "keepsC (f x) \<Longrightarrow> keepsC (let y = x in f y)"
  by simp

lemma keepsC_write: "allowed rel b \<Longrightarrow> keepsC (writeCAFile C rel b)"
  unfolding keepsC_def writeCAFile_def wp_simps
  using R_trans [OF R_tick R_write] R_tick by (auto simp: wp_simps caFault_def writeOf_def)

lemma keepsC_append: "rel \<in> {''issued.jsonl'', ''ceremony.jsonl''} \<Longrightarrow> keepsC (appendCAFile C rel b)"
  unfolding keepsC_def appendCAFile_def wp_simps
  using R_trans [OF R_tick R_log] R_tick by (auto simp: wp_simps caFault_def writeOf_def)

lemma keepsC_writeOut: "keepsC (writeOut C p b)"
  unfolding keepsC_def writeOut_def wp_simps
  using R_trans [OF R_tick R_out] by (auto simp: wp_simps)

lemmas keepsC_basic = keepsC_ret keepsC_get keepsC_draw keepsC_bind keepsC_andThen keepsC_cases keepsC_let keepsC_writeOut

lemma keepsC_read: "keepsC (readCAFile C rel)" "keepsC (readOut C p)" "keepsC (nowC C)" "keepsC caExists" "keepsC caEncrypted"
  unfolding readCAFile_def readOut_def nowC_def caExists_def caEncrypted_def by (intro keepsC_basic)+

lemma keepsC_load: "keepsC (loadCA C s name)" "keepsC (Intermediate C s)" "keepsC (Root C s)" "keepsC (loadLedger C)" "keepsC (openStore s)"
  unfolding Intermediate_def Root_def loadCA_def loadLedger_def openStore_def by (intro keepsC_basic keepsC_read)+

lemma keepsC_sums: "keepsC (artifactSums C as)"
  by (induction as) (auto intro!: keepsC_basic keepsC_read)

lemma keepsC_log: "keepsC (logCeremony C s action note as)"
  unfolding logCeremony_def by (intro keepsC_basic keepsC_read keepsC_sums keepsC_append) simp

lemma keepsC_sign: "keepsC (signCert C what tmpl parent pub sk)" "keepsC (GenerateMLDSA65Key C)" "keepsC (randSerial C)"
  unfolding signCert_def GenerateMLDSA65Key_def randSerial_def by (intro keepsC_basic)+

lemma keepsC_issueOne: "keepsC (issueOne C ca raw fl)"
  unfolding issueOne_def IssueDeviceCert_def appendIssued_def
  by (intro keepsC_basic keepsC_read keepsC_sign keepsC_append) simp

lemma keepsC_batch: "keepsC (issueBatch C ca fl meta inp out es)"
  by (induction es) (auto simp: batchFlags_def intro!: keepsC_basic keepsC_read keepsC_issueOne)

lemma keepsC_leak: "keepsC (findLeak C names)"
  by (induction names) (auto intro!: keepsC_basic keepsC_read)

lemma keepsC_CRL: "keepsC (NewCRLDetailed C ca es n v)"
  unfolding NewCRLDetailed_def by (intro keepsC_basic keepsC_read)

lemma keepsC_reading:
  "keepsC (cmdValidate C p)" "keepsC (cmdIssue C s fl)" "keepsC (cmdBatchIssue C s fl meta inp out es)" "keepsC (cmdStatus C s dir names)"
  unfolding cmdValidate_def cmdIssue_def cmdBatchIssue_def cmdStatus_def
  by (intro keepsC_basic keepsC_read keepsC_load keepsC_issueOne keepsC_batch keepsC_log keepsC_leak)+

lemma keepsC_writeAll: "(\<And>name b. (name, b) \<in> set xs \<Longrightarrow> allowed (''public/'' @ name) b) \<Longrightarrow> keepsC (writeAll C xs)"
  by (induction xs) (auto intro!: keepsC_basic keepsC_write)

lemma keepsC_dirs: "keepsC (makeDirs C ds)"
proof (induction ds)
  case Nil
  show ?case by (simp add: keepsC_ret)
next
  case (Cons d ds)
  have "keepsC (modify (\<lambda>w. w\<lparr>cwExists := cwExists w \<or> made\<rparr>))" for made
    unfolding keepsC_def wp_simps using R_made R_refl by (auto simp: cwExists_or)
  moreover have "keepsC (modify (\<lambda>w. w\<lparr>cwExists := True\<rparr>))"
    unfolding keepsC_def wp_simps using R_made by simp
  ultimately show ?case using Cons by (auto intro!: keepsC_basic)
qed

lemma keepsC_runs:
  assumes "\<And>s ord c. anyOrder ord \<Longrightarrow> keepsC (caMain C s ord c)" "caRuns C w w'"
  shows "R w w'"
  using assms(2)
proof (induction rule: caRuns.induct)
  case (runs_command w w' ord s c r w'')
  then have "R w' w''" using assms(1) [of ord s c] unfolding keepsC_def by (blast dest: wp_run)
  then show ?case using runs_command.IH by (rule R_trans [rotated])
qed (rule R_refl)

lemma keepsC_andThen_result:
  assumes m: "keepsC m" "\<And>w. wp m (\<lambda>r _. \<forall>x. r = Inr x \<longrightarrow> P x) w" and f: "\<And>x. P x \<Longrightarrow> keepsC (f x)"
  shows "keepsC (andThen m f)"
  unfolding keepsC_def
proof (intro allI)
  fix w
  have "wp m (\<lambda>r w'. (\<forall>x. r = Inr x \<longrightarrow> P x) \<and> R w w') w" using m unfolding keepsC_def wp_conj by blast
  then show "wp (andThen m f) (\<lambda>_. R w) w"
    unfolding wp_andThen
  proof (rule wp_mono)
    fix r w' assume "(\<forall>x. r = Inr x \<longrightarrow> P x) \<and> R w w'"
    then show "case r of Inl e \<Rightarrow> R w w' | Inr x \<Rightarrow> wp (f x) (\<lambda>_. R w) w'"
      using f unfolding keepsC_def by (cases r) (auto intro: wp_mono R_trans)
  qed
qed

lemma keepsC_publish_to:
  assumes "anyOrder ord" "\<And>ca root. allowed ''public/root-ca.crt.pem'' (CertPEM C root) \<and> allowed ''public/intermediate-ca.crt.pem'' (CertPEM C ca) \<and>
    allowed ''public/ca-chain.pem'' (ChainPEM C [ca, root])" "\<And>b. crl = Some b \<Longrightarrow> allowed ''public/crl.pem'' b"
  shows "keepsC (publish C s ord ca crl)"
  unfolding publish_def
proof (intro keepsC_andThen keepsC_load keepsC_writeAll)
  fix root name b
  let ?xs = "[(''root-ca.crt.pem'', CertPEM C (caCert root)), (''intermediate-ca.crt.pem'', CertPEM C (caCert ca)),
      (''ca-chain.pem'', ChainPEM C [caCert ca, caCert root])] @ (case crl of None \<Rightarrow> [] | Some crl \<Rightarrow> [(''crl.pem'', crl)])"
  assume "(name, b) \<in> set (ord ?xs)"
  moreover have "mset (ord ?xs) = mset ?xs" using assms(1) unfolding anyOrder_def by blast
  ultimately have "(name, b) \<in> set ?xs" by (metis set_mset_mset)
  then show "allowed (''public/'' @ name) b" using assms(2,3) by (auto split: option.splits)
qed

lemma keepsC_key: "(\<And>b. allowed (name @ ''/key.pem.enc'') b) \<Longrightarrow> (\<And>b. allowed (name @ ''/key.pem'') b) \<Longrightarrow>
    (\<And>b. allowed (name @ ''/cert.pem'') b) \<Longrightarrow> keepsC (writeCA C s name ca)"
  unfolding writeCA_def sealKeyPEM_def by (intro keepsC_basic keepsC_write) simp_all

lemma keepsC_newCA: "keepsC (NewRootCA C cn v)" "keepsC (NewIntermediateCA C ca cn v)"
  unfolding NewRootCA_def NewIntermediateCA_def by (intro keepsC_basic keepsC_read keepsC_sign)+

end

text \<open>The public part of the directory: certificates and revocation lists in PEM.\<close>

definition publicTypes :: "string set" where "publicTypes = {''CERTIFICATE'', ''X509 CRL''}"

definition publicPEM :: "calib \<Rightarrow> bytes \<Rightarrow> bool" where
  "publicPEM C b \<longleftrightarrow> (\<exists>blks. b = concat (map (xPemEncode (cbX C)) blks) \<and> pbType ` set blks \<subseteq> publicTypes)"

lemma publicPEM_cert: "publicPEM C (CertPEM C c)"
  unfolding publicPEM_def by (intro exI [of _ "[\<lparr>pbType = ''CERTIFICATE'', pbBytes = xcRaw c\<rparr>]"]) (simp add: CertPEM_def publicTypes_def)

lemma publicPEM_chain: "publicPEM C (ChainPEM C cs)"
  unfolding publicPEM_def
  by (intro exI [of _ "map (\<lambda>c. \<lparr>pbType = ''CERTIFICATE'', pbBytes = xcRaw c\<rparr>) cs"])
     (auto simp: ChainPEM_def CertPEM_def [abs_def] publicTypes_def comp_def)

lemma publicPEM_crl: "publicPEM C (xPemEncode (cbX C) \<lparr>pbType = ''X509 CRL'', pbBytes = der\<rparr>)"
  unfolding publicPEM_def by (intro exI [of _ "[\<lparr>pbType = ''X509 CRL'', pbBytes = der\<rparr>]"]) (simp add: publicTypes_def)

lemma NewCRLDetailed_public: "wp (NewCRLDetailed C ca es n v) (\<lambda>r _. \<forall>b. r = Inr b \<longrightarrow> publicPEM C b) w"
  unfolding NewCRLDetailed_def Let_def nowC_def by (auto simp: wp_simps publicPEM_crl split: sum.splits)

text \<open>A relation that allows the ledger and the public files, so all commands but \<^verbatim>\<open>init\<close> keep it.\<close>

locale ca_publishing = ca_relation +
  assumes allowed_ledger: "allowed ''ledger.json'' b"
    and allowed_public: "publicPEM C b \<Longrightarrow> allowed (''public/'' @ name) b"
begin

lemma keepsC_ledger: "keepsC (saveLedger C l)"
  unfolding saveLedger_def by (intro keepsC_write allowed_ledger)

lemma keepsC_publish: "anyOrder ord \<Longrightarrow> (\<And>b. crl = Some b \<Longrightarrow> publicPEM C b) \<Longrightarrow> keepsC (publish C s ord ca crl)"
  using allowed_public [of _ "''root-ca.crt.pem''"] allowed_public [of _ "''intermediate-ca.crt.pem''"]
    allowed_public [of _ "''ca-chain.pem''"] allowed_public [of _ "''crl.pem''"] publicPEM_cert publicPEM_chain
  by (intro keepsC_publish_to) simp_all

lemma keepsC_revocation: "keepsC (cmdRevoke C s serial reason)" "anyOrder ord \<Longrightarrow> keepsC (cmdCRL C s ord days out)"
  unfolding cmdRevoke_def recordRevocation_def cmdCRL_def publishNextCRL_def
  by (intro keepsC_basic keepsC_andThen_result [OF keepsC_CRL NewCRLDetailed_public] keepsC_load keepsC_read keepsC_log keepsC_ledger
        keepsC_publish; simp)+

lemma keepsC_main_but_init: "anyOrder ord \<Longrightarrow> (\<And>dir r i. c \<noteq> DoInit dir r i) \<Longrightarrow> keepsC (caMain C s ord c)"
  by (cases c) (auto intro!: keepsC_revocation keepsC_reading keepsC_andThen keepsC_ret)

end

text \<open>A relation that allows every file of the directory its own kind of content.\<close>

locale ca_invariant = ca_publishing +
  assumes allowed_private: "name \<in> {''root'', ''intermediate''} \<Longrightarrow> rel \<in> {''/key.pem'', ''/key.pem.enc'', ''/cert.pem''} \<Longrightarrow> allowed (name @ rel) b"
begin

lemma keepsC_Init: "anyOrder ord \<Longrightarrow> keepsC (Init C s ord dir r i)"
  unfolding Init_def
  by (intro keepsC_basic keepsC_newCA keepsC_dirs keepsC_key keepsC_publish keepsC_ledger allowed_private) simp_all

lemma keepsC_cmdInit: "anyOrder ord \<Longrightarrow> keepsC (cmdInit C s ord dir r i)"
  unfolding cmdInit_def by (intro keepsC_basic keepsC_Init keepsC_load keepsC_read keepsC_log)

lemma keepsC_main: "anyOrder ord \<Longrightarrow> keepsC (caMain C s ord c)"
  using keepsC_main_but_init [of ord c s] keepsC_cmdInit by (cases "\<exists>dir r i. c = DoInit dir r i") auto

lemma runs_related: "caRuns C w w' \<Longrightarrow> R w w'"
  using keepsC_main by (rule keepsC_runs)

end

section \<open>A directory that is not there has no files\<close>

definition caDirOK :: "ca_world \<Rightarrow> bool" where
  "caDirOK w \<longleftrightarrow> (cwExists w \<or> cwCA w = Map.empty)"

interpretation dir: ca_invariant C "\<lambda>w w'. (caDirOK w \<longrightarrow> caDirOK w') \<and> (cwExists w \<longrightarrow> cwExists w')" "\<lambda>_ _. True" for C
  by unfold_locales (auto simp: caDirOK_def)

section \<open>The public directory\<close>

text \<open>\<^verbatim>\<open>pem.Encode\<close>: base 64 in lines of 64 characters between the two marks.\<close>

fun pemLines :: "string \<Rightarrow> string" where
  "pemLines s = (if s = [] then [] else take 64 s @ [CHR 0x0A] @ pemLines (drop 64 s))"

declare pemLines.simps [simp del]

definition pemText :: "pem_block \<Rightarrow> bytes" where
  "pemText b = ''-----BEGIN '' @ pbType b @ ''-----'' @ [CHR 0x0A] @ pemLines (b64encode (pbBytes b)) @ ''-----END '' @ pbType b @ ''-----'' @ [CHR 0x0A]"

text \<open>
  Every space of a text follows an N, a D or a 9, as in the marks of public blocks; the texts that \<^verbatim>\<open>status\<close> looks for have a space after
  another letter.
\<close>

fun spaced :: "char \<Rightarrow> string \<Rightarrow> bool" where
  "spaced p [] \<longleftrightarrow> True"
| "spaced p (c # s) \<longleftrightarrow> (c = CHR '' '' \<longrightarrow> p \<in> {CHR ''N'', CHR ''D'', CHR ''9''}) \<and> spaced c s"

abbreviation spacedText :: "string \<Rightarrow> bool" where "spacedText \<equiv> spaced (CHR 0x0A)"

lemma spaced_any: "spacedText b \<Longrightarrow> spaced p b"
  by (cases b) auto

lemma spaced_append: "spaced p a \<Longrightarrow> spacedText b \<Longrightarrow> spaced p (a @ b)"
  by (induction a arbitrary: p) (auto intro: spaced_any)

lemma spaced_take: "spaced p b \<Longrightarrow> spaced p (take n b)"
  by (induction b arbitrary: p n) (auto simp: take_Cons split: nat.splits)

lemma spaced_drop: "spaced p (a @ b) \<Longrightarrow> \<exists>q. spaced q b"
  by (induction a arbitrary: p) auto

lemma spaced_none: "CHR '' '' \<notin> set b \<Longrightarrow> spaced p b"
  by (induction b arbitrary: p) auto

lemma spaced_concat: "(\<And>b. b \<in> set bs \<Longrightarrow> spacedText b) \<Longrightarrow> spacedText (concat bs)"
  by (induction bs) (auto intro: spaced_append)

lemma pemLines_set: "set (pemLines s) \<subseteq> insert (CHR 0x0A) (set s)"
  by (induction s rule: pemLines.induct) (subst pemLines.simps, auto dest: in_set_takeD in_set_dropD)

lemma toUpperAscii_space: "toUpperAscii c = CHR '' '' \<longleftrightarrow> c = CHR '' ''"
proof (cases "97 \<le> code c \<and> code c \<le> 122")
  case True
  have "code c - 32 < 256" using True by linarith
  then have "code (toUpperAscii c) = code c - 32" using True unfolding toUpperAscii_def by (simp only: code_char_of_small if_True simp_thms)
  moreover have "code (CHR '' '') = 32" by (simp add: code_def)
  ultimately show ?thesis using True by fastforce
qed (auto simp: toUpperAscii_def)

lemma spaced_upper: "spaced p b \<Longrightarrow> spaced (toUpperAscii p) (map toUpperAscii b)"
  by (induction b arbitrary: p) (auto simp: toUpperAscii_space, auto simp: toUpperAscii_def code_def)

lemma b64char_marks: "b64char n \<noteq> CHR '' ''" "b64char n \<noteq> CHR ''-''"
proof -
  have "code (b64char n) \<noteq> 32" "code (b64char n) \<noteq> 45" by (auto simp: b64char_def code_char_of_small) (auto simp: code_def)
  then show "b64char n \<noteq> CHR '' ''" "b64char n \<noteq> CHR ''-''" by (auto simp: code_def)
qed

lemma b64encode_no_space: "CHR '' '' \<notin> set (b64encode b)" "CHR ''-'' \<notin> set (b64encode b)"
  by (induction b rule: b64encode.induct) (auto simp: Let_def b64char_marks [symmetric])

lemma pemText_spaced: "pbType b \<in> publicTypes \<Longrightarrow> spacedText (pemText b)"
proof -
  assume t: "pbType b \<in> publicTypes"
  have "CHR '' '' \<notin> set (pemLines (b64encode (pbBytes b)))" using pemLines_set b64encode_no_space(1) by fastforce
  then have "spacedText (pemLines (b64encode (pbBytes b)))" by (rule spaced_none)
  moreover have "spacedText (''-----BEGIN '' @ pbType b @ ''-----'' @ [CHR 0x0A])" "spacedText (''-----END '' @ pbType b @ ''-----'' @ [CHR 0x0A])"
    using t unfolding publicTypes_def by auto
  ultimately have "spacedText ((''-----BEGIN '' @ pbType b @ ''-----'' @ [CHR 0x0A]) @ pemLines (b64encode (pbBytes b)) @
      ''-----END '' @ pbType b @ ''-----'' @ [CHR 0x0A])" by (intro spaced_append [of _ "''-----BEGIN '' @ _"] spaced_append [of _ "pemLines _"])
  then show ?thesis by (simp add: pemText_def)
qed

lemma containsStr_split: "containsStr b x \<Longrightarrow> \<exists>a n. x = take n (drop a b)"
proof (induction b)
  case (Cons c b)
  show ?case
  proof (cases "hasPrefix (c # b) x")
    case True
    then have "x = take (length x) (drop 0 (c # b))" by (auto simp: hasPrefix_append)
    then show ?thesis by blast
  next
    case False
    then obtain a n where "x = take n (drop a b)" using Cons by auto
    then show ?thesis by (intro exI [of _ "Suc a"] exI [of _ n]) simp
  qed
qed simp

lemma containsStr_spaced: "containsStr b x \<Longrightarrow> spaced p b \<Longrightarrow> \<exists>q. spaced q x"
  using spaced_drop [of p "take a b" "drop a b" for a] by (metis append_take_drop_id containsStr_split spaced_take)

lemma spaced_no_marks: "spacedText b \<Longrightarrow> \<not> bytesContainsAny b privateMarks"
proof
  assume b: "spacedText b" "bytesContainsAny b privateMarks"
  then obtain x where x: "x \<in> set privateMarks" "containsStr (map toUpperAscii b) (map toUpperAscii x)"
    unfolding bytesContainsAny_def list_ex_iff by blast
  obtain q where "spaced q (map toUpperAscii x)" using containsStr_spaced [OF x(2) spaced_upper [OF b(1)]] by blast
  then show False using x(1) by (auto simp: privateMarks_def toUpperAscii_def code_def)
qed

definition inPublic :: "string \<Rightarrow> bool" where
  "inPublic rel \<longleftrightarrow> take 7 rel = ''public/''"

lemma inPublic_simps [simp]: "inPublic (''public/'' @ name)" "\<not> inPublic ''ledger.json''" "\<not> inPublic ''issued.jsonl''" "\<not> inPublic ''ceremony.jsonl''"
  "\<not> inPublic (''root'' @ rel)" "\<not> inPublic (''intermediate'' @ rel)"
  by (simp_all add: inPublic_def)

definition publicOK :: "ca_world \<Rightarrow> bool" where
  "publicOK w \<longleftrightarrow> (\<forall>rel b. inPublic rel \<longrightarrow> cwCA w rel = Some b \<longrightarrow> spacedText b)"

text \<open>The tool with the PEM encoding of the standard library.\<close>

definition withPEM :: "calib \<Rightarrow> calib" where
  "withPEM C = C\<lparr>cbX := (cbX C)\<lparr>xPemEncode := pemText\<rparr>\<rparr>"

lemma publicPEM_spaced: "publicPEM (withPEM C) b \<Longrightarrow> spacedText b"
proof -
  assume "publicPEM (withPEM C) b"
  then obtain blks where "b = concat (map pemText blks)" "pbType ` set blks \<subseteq> publicTypes"
    unfolding publicPEM_def withPEM_def by auto
  then show ?thesis by (auto intro!: spaced_concat pemText_spaced simp: image_subset_iff)
qed

lemma writeOf_spaced: "writeOf fault b old = Some v \<Longrightarrow> spacedText b \<Longrightarrow> old = Some v \<or> spacedText v"
  by (auto simp: writeOf_def spaced_take split: option.splits prod.splits)

interpretation public: ca_invariant "withPEM C" "\<lambda>w w'. publicOK w \<longrightarrow> publicOK w'" "\<lambda>rel b. inPublic rel \<longrightarrow> spacedText b" for C
proof
  show "publicOK w \<longrightarrow> publicOK (w\<lparr>cwCA := (cwCA w)(rel := writeOf (cbWrite (withPEM C) k) b (cwCA w rel))\<rparr>)"
    if "inPublic rel \<longrightarrow> spacedText b" for rel b w k
    using that unfolding publicOK_def by (auto dest!: writeOf_spaced)
  show "inPublic (''public/'' @ name) \<longrightarrow> spacedText b" if "publicPEM (withPEM C) b" for b name
    using publicPEM_spaced [OF that] by simp
  show "inPublic (name @ rel) \<longrightarrow> spacedText b" if "name \<in> {''root'', ''intermediate''}" for name rel b
    using that by (auto simp only: insert_iff empty_iff inPublic_simps simp_thms)
  show "publicOK w \<longrightarrow> publicOK (w\<lparr>cwCA := (cwCA w)(rel := v)\<rparr>)" if "rel \<in> {''issued.jsonl'', ''ceremony.jsonl''}" for rel v w
    using that unfolding publicOK_def by auto
qed (simp_all add: publicOK_def)

lemma public_no_marks: "caRuns (withPEM C) noCA w \<Longrightarrow> cwCA w (''public/'' @ name) = Some b \<Longrightarrow> \<not> bytesContainsAny b privateMarks"
proof (rule spaced_no_marks)
  assume "caRuns (withPEM C) noCA w" and b: "cwCA w (''public/'' @ name) = Some b"
  then have "publicOK w" using public.runs_related [of C noCA w] by (simp add: noCA_def publicOK_def)
  then show "spacedText b" using b inPublic_simps(1) unfolding publicOK_def by blast
qed

lemma wp_readCAFile: "wp (readCAFile C rel) Q w \<longleftrightarrow>
   Q (case cbRead C (cwTick w) of Some e \<Rightarrow> Inl e | None \<Rightarrow> orErr (''open '' @ rel @ '': no such file or directory'') (cwCA w rel))
     (w\<lparr>cwTick := Suc (cwTick w)\<rparr>)"
  by (cases "cbRead C (cwTick w)") (simp_all add: readCAFile_def wp_simps)

lemma orErr_Inr: "orErr e x = Inr y \<longleftrightarrow> x = Some y"
  by (cases x) (auto simp: orErr_def)

lemma findLeak_none:
  assumes "\<And>name b. cwCA w (''public/'' @ name) = Some b \<Longrightarrow> \<not> bytesContainsAny b privateMarks"
  shows "wp (findLeak C names) (\<lambda>r _. r = None) w"
  using assms
proof (induction names arbitrary: w)
  case (Cons n names)
  have "wp (findLeak C names) (\<lambda>r _. r = None) (w\<lparr>cwTick := Suc (cwTick w)\<rparr>)"
    using Cons.prems by (intro Cons.IH) (simp del: append.simps)
  then show ?case using Cons.prems unfolding findLeak.simps wp_bind wp_readCAFile
    by (auto simp: wp_simps orErr_Inr split: sum.splits option.splits)
qed (simp add: wp_simps)

end
