(* ===== verification/CA_Ledger.thy ===== *)
theory CA_Ledger
  imports CA_Runs
begin

text \<open>
  What the files of the CA directory say after any commands: the revocation ledger only grows, and the key and the certificate
  of a CA stay the pair that \<^verbatim>\<open>init\<close> made.  The laws of the libraries that this rests on are collected in \<open>caLaws\<close>.
\<close>

section \<open>Laws\<close>

definition wholeWrites :: "calib \<Rightarrow> bool" where
  "wholeWrites C \<longleftrightarrow> (\<forall>k e n. cbWrite C k \<noteq> Some (e, Some n))"

definition ledgerLaw :: "calib \<Rightarrow> bool" where
  "ledgerLaw C \<longleftrightarrow> (\<forall>l. cbReadLedger C (cbLedgerJSON C l) = Inr l)"

definition pemLaw :: "xlib \<Rightarrow> bool" where
  "pemLaw X \<longleftrightarrow> pemShrinks X \<and>
     (\<forall>blk rest. pbType blk \<in> {''CERTIFICATE'', ''X509 CRL'', ''PRIVATE KEY''} \<longrightarrow> xPemDecode X (xPemEncode X blk @ rest) = Some (blk, rest)) \<and>
     xPemDecode X [] = None"

definition keyLaw :: "calib \<Rightarrow> bool" where
  "keyLaw C \<longleftrightarrow>
     (\<forall>k sk. cbGenKey C k = Inr sk \<longrightarrow> xKeyParams (cbX C) (cbPublic C sk) = Algorithm) \<and>
     (\<forall>sk der. cbMarshalPKCS8 C sk = Inr der \<longrightarrow> cbParsePKCS8 C der = Inr (Inr sk))"

definition sealLaw :: "calib \<Rightarrow> bool" where
  "sealLaw C \<longleftrightarrow> (\<forall>b. cbReadBlob C (cbBlobJSON C b) = Inr b) \<and> (\<forall>k n p. cbOpen C k n (cbSeal C k n p) = Some p) \<and>
     (\<forall>k n k' n' p q. cbOpen C k' n' (cbSeal C k n p) = Some q \<longrightarrow> q = p)"

definition certLaw :: "calib \<Rightarrow> bool" where
  "certLaw C \<longleftrightarrow> (\<forall>der c. xParseCertificate (cbX C) der = Inr c \<longrightarrow> xcRaw c = der) \<and>
     (\<forall>k tmpl par pub sk der c. cbCreateCert C k tmpl par pub sk = Inr der \<longrightarrow> xParseCertificate (cbX C) der = Inr c \<longrightarrow> xcMLDSA c = Some pub)"

definition crlLaw :: "calib \<Rightarrow> bool" where
  "crlLaw C \<longleftrightarrow>
     (\<forall>k tmpl ca sk der. cbCreateCRL C k tmpl ca sk = Inr der \<longrightarrow> xcMLDSA ca = Some (cbPublic C sk) \<longrightarrow>
        (\<exists>crl. xParseCRL (cbX C) der = Inr crl \<and> xeSerial ` set (xlEntries crl) = xeSerial ` set (xlEntries tmpl) \<and>
           xCheckCRL (cbX C) crl ca = None))"

definition caLaws :: "calib \<Rightarrow> bool" where
  "caLaws C \<longleftrightarrow> wholeWrites C \<and> ledgerLaw C \<and> pemLaw (cbX C) \<and> keyLaw C \<and> sealLaw C \<and> certLaw C \<and> crlLaw C"

section \<open>Files that stay\<close>

definition sameFiles :: "string set \<Rightarrow> ca_world \<Rightarrow> ca_world \<Rightarrow> bool" where
  "sameFiles F w w' \<longleftrightarrow> (\<forall>rel\<in>F. rel \<notin> {''issued.jsonl'', ''ceremony.jsonl''} \<longrightarrow> cwCA w' rel = cwCA w rel)"

interpretation frame: ca_relation C "sameFiles F" "\<lambda>rel _. rel \<notin> F" for C F
  by unfold_locales (auto simp: sameFiles_def)

section \<open>The ledger\<close>

definition ledgerOf :: "calib \<Rightarrow> ca_world \<Rightarrow> Ledger option" where
  "ledgerOf C w =
     (case cwCA w ''ledger.json'' of
        None \<Rightarrow> None
      | Some b \<Rightarrow> (case cbReadLedger C b of Inl _ \<Rightarrow> None | Inr l \<Rightarrow> Some l))"

definition ledgerGrows :: "calib \<Rightarrow> ca_world \<Rightarrow> ca_world \<Rightarrow> bool" where
  "ledgerGrows C w w' \<longleftrightarrow>
     (\<forall>l. ledgerOf C w = Some l \<longrightarrow>
        (\<exists>l' rs. ledgerOf C w' = Some l' \<and> ldRevocations l' = ldRevocations l @ rs \<and> list_all (\<lambda>r. readHexInt (rvSerial r) \<noteq> None) rs \<and>
           ldCRLNumber l \<le> ldCRLNumber l'))"

lemma ledgerGrows_trans: "ledgerGrows C w w' \<Longrightarrow> ledgerGrows C w' w'' \<Longrightarrow> ledgerGrows C w w''"
  unfolding ledgerGrows_def by (metis (no_types, lifting) append.assoc list_all_append order_trans)

lemma sameFiles_ledger: "sameFiles F w w' \<Longrightarrow> ''ledger.json'' \<in> F \<Longrightarrow> ledgerOf C w' = ledgerOf C w"
  by (simp add: sameFiles_def ledgerOf_def)

lemma sameFiles_grows: "sameFiles F w w' \<Longrightarrow> ''ledger.json'' \<in> F \<Longrightarrow> ledgerGrows C w w'"
  by (auto simp: ledgerGrows_def sameFiles_ledger)

lemma loadLedger_result: "wp (loadLedger C) (\<lambda>r w'. sameFiles UNIV w w' \<and> (\<forall>l. r = Inr l \<longrightarrow> ledgerOf C w = Some l)) w"
  unfolding loadLedger_def
  by (auto simp: wp_simps wp_readCAFile orErr_Inr ledgerOf_def sameFiles_def split: sum.splits option.splits)

lemma saveLedger_result:
  assumes "ledgerLaw C" "wholeWrites C"
  shows "wp (saveLedger C l) (\<lambda>r w'. ledgerOf C w' = Some l \<or> r \<noteq> Inr () \<and> ledgerOf C w' = ledgerOf C w) w"
  using assms unfolding saveLedger_def writeCAFile_def ledgerLaw_def wholeWrites_def
  by (auto simp: wp_simps ledgerOf_def caFault_def writeOf_def writeResult_def split: option.splits prod.splits)

lemma wp_andThenI:
  assumes "wp m P w" "\<And>e w'. P (Inl e) w' \<Longrightarrow> Q (Inl e) w'" "\<And>x w'. P (Inr x) w' \<Longrightarrow> wp (f x) Q w'"
  shows "wp (andThen m f) Q w"
  unfolding wp_andThen using assms(1) by (rule wp_mono) (auto split: sum.splits intro: assms(2,3))

lemma wp_bindI: "wp m P w \<Longrightarrow> (\<And>x w'. P x w' \<Longrightarrow> wp (f x) Q w') \<Longrightarrow> wp (State_Monad.bind m f) Q w"
  unfolding wp_bind by (rule wp_mono)

lemma frame_wp: "ca_relation.keepsC (sameFiles F) m \<Longrightarrow> wp m (\<lambda>_. sameFiles F w) w"
  by (simp add: frame.keepsC_def)

lemma sameFiles_trans: "sameFiles F w w' \<Longrightarrow> sameFiles F w' w'' \<Longrightarrow> sameFiles F w w''"
  by (rule frame.R_trans)

lemma sameFiles_mono: "sameFiles G w w' \<Longrightarrow> F \<subseteq> G \<Longrightarrow> sameFiles F w w'"
  by (auto simp: sameFiles_def)

lemmas frame_load = frame.keepsC_load [THEN frame_wp] frame.keepsC_read [THEN frame_wp] frame.keepsC_log [THEN frame_wp]

text \<open>A command that ends by writing to its log, whose error it ignores.\<close>

lemma logged:
  assumes "\<And>w'. sameFiles UNIV w w' \<Longrightarrow> Q (Inr ()) w'"
  shows "wp (do { _ \<leftarrow> logCeremony C s action note as; ok () }) Q w"
  by (rule wp_bindI [OF frame_load(11) [where F = UNIV]]) (simp add: wp_return assms)

definition revokedSerial :: "calib \<Rightarrow> ca_world \<Rightarrow> string \<Rightarrow> bool" where
  "revokedSerial C w serial \<longleftrightarrow> (\<exists>l. ledgerOf C w = Some l \<and> serial \<in> rvSerial ` set (ldRevocations l))"

lemma revokedSerial_grows: "revokedSerial C w serial \<Longrightarrow> ledgerGrows C w w' \<Longrightarrow> revokedSerial C w' serial"
  unfolding revokedSerial_def ledgerGrows_def by fastforce

lemma revoke_result:
  assumes "ledgerLaw C" "wholeWrites C"
  shows "wp (cmdRevoke C s serial reason) (\<lambda>r w'. ledgerGrows C w w' \<and> (r = Inr () \<longrightarrow> revokedSerial C w' serial)) w"
    (is "wp _ ?Q w")
proof (cases "serial = [] \<or> readHexInt serial = None \<or> reasonCodes reason = None")
  case True
  then show ?thesis by (auto simp: cmdRevoke_def wp_simps ledgerGrows_def split: option.splits)
next
  case False
  then obtain rc where rc: "reasonCodes reason = Some rc" by auto
  have hex: "readHexInt serial \<noteq> None" using False by simp
  have fail: "?Q (Inl e) w'" if "sameFiles UNIV w w'" for e w' using sameFiles_grows [OF that] by simp
  have save: "wp (andThen (saveLedger C l') (\<lambda>_. do { _ \<leftarrow> logCeremony C s a n as; ok () })) ?Q w'"
    if "sameFiles UNIV w w'" and l: "ledgerOf C w = Some l"
      and l': "l' = l\<lparr>ldRevocations := ldRevocations l @ [rv]\<rparr>" "rvSerial rv = serial" for s l l' rv a n as w'
  proof (rule wp_andThenI [OF saveLedger_result [OF assms]])
    have same: "ledgerOf C w' = Some l" using sameFiles_ledger [OF that(1)] l by simp
    show "?Q (Inl e) w''" if "ledgerOf C w'' = Some l' \<or> Inl e \<noteq> Inr () \<and> ledgerOf C w'' = ledgerOf C w'" for e w''
      using that same l l' hex by (auto simp: ledgerGrows_def)
    fix x w'' assume "ledgerOf C w'' = Some l' \<or> Inr x \<noteq> Inr () \<and> ledgerOf C w'' = ledgerOf C w'"
    then have w'': "ledgerOf C w'' = Some l'" by simp
    show "wp (do { _ \<leftarrow> logCeremony C s a n as; ok () }) ?Q w''"
      using w'' l l' hex by (intro logged) (auto simp: ledgerGrows_def revokedSerial_def sameFiles_ledger)
  qed
  have body: "wp (recordRevocation C s serial reason rc l) ?Q w'" if "sameFiles UNIV w w'" "ledgerOf C w = Some l" for s l w'
    using that fail [OF that(1)] unfolding recordRevocation_def
    by (auto simp: wp_return split: option.splits intro!: wp_bindI [OF frame_load(8) [where F = UNIV]] save elim: sameFiles_trans)
  have "cmdRevoke C s serial reason = andThen (openStore s) (\<lambda>s. andThen (loadLedger C) (recordRevocation C s serial reason rc))"
    using False by (auto simp: cmdRevoke_def rc)
  moreover have "wp (andThen (loadLedger C) (recordRevocation C s serial reason rc)) ?Q w'" if "sameFiles UNIV w w'" for s w'
    using sameFiles_trans [OF that] sameFiles_ledger [OF that, of C] by (intro wp_andThenI [OF loadLedger_result] fail body) auto
  ultimately show ?thesis by (simp only:) (intro wp_andThenI [OF frame_load(5) [where F = UNIV]] fail)
qed

section \<open>The published revocation list\<close>

definition storedCA :: "calib \<Rightarrow> ca_world \<Rightarrow> string \<Rightarrow> CA \<Rightarrow> bool" where
  "storedCA C w name ca \<longleftrightarrow>
     (\<exists>keyPEM. ((\<exists>enc pass. cwCA w (name @ ''/key.pem.enc'') = Some enc \<and> openKeyPEM C enc pass = Inr keyPEM) \<or>
        cwCA w (name @ ''/key.pem'') = Some keyPEM) \<and> ParsePKCS8 C keyPEM = Inr (caKey ca)) \<and>
     (\<exists>certPEM. cwCA w (name @ ''/cert.pem'') = Some certPEM \<and> ParseCertificatePEM (cbX C) certPEM = Inr (caCert ca))"

lemma loadCA_result: "wp (loadCA C s name) (\<lambda>r w'. sameFiles UNIV w w' \<and> (\<forall>ca. r = Inr ca \<longrightarrow> storedCA C w name ca)) w"
  unfolding loadCA_def
  by (simp add: wp_simps wp_readCAFile)
     (auto simp: orErr_Inr storedCA_def sameFiles_def mapErr_eq_Inr wp_simps wp_readCAFile split: sum.splits option.splits)

lemma writeAll_result:
  assumes "distinct (map fst xs)"
  shows "wp (writeAll C xs) (\<lambda>r w'. (r = Inr () \<longrightarrow> (\<forall>(n, b) \<in> set xs. cwCA w' (''public/'' @ n) = Some b)) \<and>
    (\<forall>rel. rel \<notin> (\<lambda>x. ''public/'' @ fst x) ` set xs \<longrightarrow> cwCA w' rel = cwCA w rel)) w"
  using assms
proof (induction xs arbitrary: w)
  case (Cons x xs)
  obtain n b where x: "x = (n, b)" by (cases x)
  let ?P = "\<lambda>r w'. (r = Inr () \<longrightarrow> cwCA w' (''public/'' @ n) = Some b) \<and> (\<forall>rel. rel \<noteq> ''public/'' @ n \<longrightarrow> cwCA w' rel = cwCA w rel)"
  have "wp (writeCAFile C (''public/'' @ n) b) ?P w"
    unfolding writeCAFile_def by (auto simp: wp_simps caFault_def writeOf_def writeResult_def split: option.splits prod.splits)
  then show ?case unfolding x writeAll.simps
  proof (rule wp_andThenI)
    fix u and w' :: ca_world assume "?P (Inr u) w'"
    moreover have "''public/'' @ n \<notin> (\<lambda>x. ''public/'' @ fst x) ` set xs" "distinct (map fst xs)" using Cons.prems x by auto
    ultimately show "wp (writeAll C xs) (\<lambda>r w'. (r = Inr () \<longrightarrow> (\<forall>(n, b) \<in> set ((n, b) # xs). cwCA w' (''public/'' @ n) = Some b)) \<and>
        (\<forall>rel. rel \<notin> (\<lambda>x. ''public/'' @ fst x) ` set ((n, b) # xs) \<longrightarrow> cwCA w' rel = cwCA w rel)) w'"
      by (intro wp_mono [OF Cons.IH]) (auto simp del: append.simps)
  qed (auto simp del: append.simps)
qed (simp add: wp_simps)

lemma not_public: "\<not> inPublic rel \<Longrightarrow> rel \<notin> (\<lambda>x. ''public/'' @ fst x) ` A"
  using inPublic_simps(1) by blast

lemma publish_result:
  assumes "anyOrder ord"
  shows "wp (publish C s ord ca (Some crl)) (\<lambda>r w'. sameFiles {rel. \<not> inPublic rel} w w' \<and>
    (r = Inr () \<longrightarrow> cwCA w' ''public/crl.pem'' = Some crl \<and>
      (\<exists>root. storedCA C w ''root'' root \<and> cwCA w' ''public/ca-chain.pem'' = Some (ChainPEM C [caCert ca, caCert root])))) w"
  unfolding publish_def Root_def
proof (rule wp_andThenI [OF loadCA_result])
  fix root w1 assume w1: "sameFiles UNIV w w1 \<and> (\<forall>ca. Inr root = Inr ca \<longrightarrow> storedCA C w ''root'' ca)"
  let ?xs = "[(''root-ca.crt.pem'', CertPEM C (caCert root)), (''intermediate-ca.crt.pem'', CertPEM C (caCert ca)),
      (''ca-chain.pem'', ChainPEM C [caCert ca, caCert root])] @ (case Some crl of None \<Rightarrow> [] | Some crl \<Rightarrow> [(''crl.pem'', crl)])"
  have m: "mset (ord ?xs) = mset ?xs" using assms unfolding anyOrder_def by blast
  then have "mset (map fst (ord ?xs)) = mset (map fst ?xs)" by (simp only: mset_map)
  then have "distinct (map fst (ord ?xs))" by (rule mset_eq_imp_distinct_iff [THEN iffD2]) simp
  note w = writeAll_result [OF this, of C w1]
  have set: "set (ord ?xs) = set ?xs" using m by (metis set_mset_mset)
  show "wp (writeAll C (ord ?xs)) (\<lambda>r w'. sameFiles {rel. \<not> inPublic rel} w w' \<and>
    (r = Inr () \<longrightarrow> cwCA w' ''public/crl.pem'' = Some crl \<and>
      (\<exists>root. storedCA C w ''root'' root \<and> cwCA w' ''public/ca-chain.pem'' = Some (ChainPEM C [caCert ca, caCert root])))) w1"
    using w
  proof (rule wp_mono)
    fix r and w' :: ca_world
    assume a: "(r = Inr () \<longrightarrow> (\<forall>(n, b) \<in> set (ord ?xs). cwCA w' (''public/'' @ n) = Some b)) \<and>
      (\<forall>rel. rel \<notin> (\<lambda>x. ''public/'' @ fst x) ` set (ord ?xs) \<longrightarrow> cwCA w' rel = cwCA w1 rel)"
    then have "cwCA w' rel = cwCA w1 rel" if "\<not> inPublic rel" for rel using not_public [OF that] by blast
    then have "sameFiles {rel. \<not> inPublic rel} w w'" using w1 unfolding sameFiles_def by simp
    moreover have "cwCA w' ''public/crl.pem'' = Some crl \<and> cwCA w' ''public/ca-chain.pem'' = Some (ChainPEM C [caCert ca, caCert root])" if "r = Inr ()"
      using a that unfolding set by simp
    ultimately show "sameFiles {rel. \<not> inPublic rel} w w' \<and> (r = Inr () \<longrightarrow> cwCA w' ''public/crl.pem'' = Some crl \<and>
        (\<exists>root. storedCA C w ''root'' root \<and> cwCA w' ''public/ca-chain.pem'' = Some (ChainPEM C [caCert ca, caCert root])))"
      using w1 by auto
  qed
qed (auto elim: sameFiles_mono)

lemma revokedEntries_serials: "revokedEntries t es = Some xs \<Longrightarrow> those (map fst es) = Some (map xeSerial xs)"
proof (induction es arbitrary: xs)
  case (Cons e es)
  then show ?case by (cases e) (auto simp: revokedEntries_def split: option.splits)
qed (simp add: revokedEntries_def)

lemma NewCRLDetailed_result:
  "wp (NewCRLDetailed C ca es n v) (\<lambda>r w'. sameFiles UNIV w w' \<and> (\<forall>b. r = Inr b \<longrightarrow>
     (\<exists>k tmpl der. cbCreateCRL C k tmpl (caCert ca) (caKey ca) = Inr der \<and> those (map fst es) = Some (map xeSerial (xlEntries tmpl)) \<and>
        b = xPemEncode (cbX C) \<lparr>pbType = ''X509 CRL'', pbBytes = der\<rparr>))) w"
  unfolding NewCRLDetailed_def Let_def nowC_def
  by (auto simp: wp_simps sameFiles_def mapErr_eq_Inr split: sum.splits option.splits dest!: revokedEntries_serials split del: if_split)
     (intro exI conjI, assumption, simp, simp)

definition publishedCRL :: "calib \<Rightarrow> ca_world \<Rightarrow> ca_world \<Rightarrow> bool" where
  "publishedCRL C w w' \<longleftrightarrow>
     (\<exists>l ca root k tmpl der. ledgerOf C w = Some l \<and> storedCA C w ''intermediate'' ca \<and> storedCA C w ''root'' root \<and>
        cbCreateCRL C k tmpl (caCert ca) (caKey ca) = Inr der \<and>
        those (map (\<lambda>r. readHexInt (rvSerial r)) (ldRevocations l)) = Some (map xeSerial (xlEntries tmpl)) \<and>
        cwCA w' ''public/crl.pem'' = Some (xPemEncode (cbX C) \<lparr>pbType = ''X509 CRL'', pbBytes = der\<rparr>) \<and>
        cwCA w' ''public/ca-chain.pem'' = Some (ChainPEM C [caCert ca, caCert root]))"

lemma publishedCRL_same: "publishedCRL C w w1 \<Longrightarrow> sameFiles {rel. inPublic rel} w1 w2 \<Longrightarrow> publishedCRL C w w2"
  unfolding publishedCRL_def sameFiles_def inPublic_def by simp

lemma saveLedger_frame: "wp (saveLedger C l) (\<lambda>_. sameFiles {rel. inPublic rel} w) w"
  by (rule frame_wp) (simp add: saveLedger_def frame.keepsC_write)

text \<open>Saving the ledger with its new number, the copy of the list and the log entry, after publishing.\<close>

lemma crl_saved:
  assumes laws: "ledgerLaw C" "wholeWrites C" and l: "ledgerOf C w = Some l" "ledgerOf C w1 = Some l" and pub: "publishedCRL C w w1"
    and l': "l' = l\<lparr>ldCRLNumber := ldCRLNumber l + 1\<rparr>"
  shows "wp (andThen (saveLedger C l') (\<lambda>_. andThen (if out \<noteq> [] then writeOut C out b else ok ()) (\<lambda>_.
      do { _ \<leftarrow> logCeremony C s action note as; ok () })))
    (\<lambda>r w'. ledgerGrows C w w' \<and> (r = Inr () \<longrightarrow> publishedCRL C w w')) w1"
    (is "wp _ ?Q w1")
proof (rule wp_andThenI)
  show "wp (saveLedger C l') (\<lambda>r w'. (ledgerOf C w' = Some l' \<or> r \<noteq> Inr () \<and> ledgerOf C w' = ledgerOf C w1) \<and> sameFiles {rel. inPublic rel} w1 w') w1"
    unfolding wp_conj using saveLedger_result [OF laws] saveLedger_frame by blast
  fix x w2 assume "(ledgerOf C w2 = Some l' \<or> Inr x \<noteq> Inr () \<and> ledgerOf C w2 = ledgerOf C w1) \<and> sameFiles {rel. inPublic rel} w1 w2"
  then have w2: "ledgerOf C w2 = Some l'" "publishedCRL C w w2" using publishedCRL_same [OF pub] by auto
  have end_ok: "?Q r w3" if "sameFiles UNIV w2 w3" for r :: "string + unit" and w3
    using w2 l l' sameFiles_ledger [OF that, of C] publishedCRL_same [OF w2(2) sameFiles_mono [OF that]] by (auto simp: ledgerGrows_def)
  have "wp (if out \<noteq> [] then writeOut C out b else ok ()) (\<lambda>_. sameFiles UNIV w2) w2"
    by (rule frame_wp) (auto intro!: frame.keepsC_basic)
  then show "wp (andThen (if out \<noteq> [] then writeOut C out b else ok ()) (\<lambda>_. do { _ \<leftarrow> logCeremony C s action note as; ok () })) ?Q w2"
    by (rule wp_andThenI) (rule end_ok, assumption, rule logged, rule end_ok, erule (1) sameFiles_trans)
qed (use l l' in \<open>auto simp: ledgerGrows_def\<close>)

lemma storedCA_same: "sameFiles F w w' \<Longrightarrow> {name @ ''/key.pem'', name @ ''/key.pem.enc'', name @ ''/cert.pem''} \<subseteq> F \<Longrightarrow>
    name \<in> {''root'', ''intermediate''} \<Longrightarrow> storedCA C w' name ca \<longleftrightarrow> storedCA C w name ca"
  unfolding storedCA_def sameFiles_def by auto

lemma crl_published:
  assumes laws: "ledgerLaw C" "wholeWrites C" and ord: "anyOrder ord" and l: "ledgerOf C w = Some l" and ca: "storedCA C w ''intermediate'' ca"
    and crl: "cbCreateCRL C k tmpl (caCert ca) (caKey ca) = Inr der"
      "those (map (\<lambda>r. readHexInt (rvSerial r)) (ldRevocations l)) = Some (map xeSerial (xlEntries tmpl))"
    and b: "b = xPemEncode (cbX C) \<lparr>pbType = ''X509 CRL'', pbBytes = der\<rparr>"
    and w1: "sameFiles UNIV w w1"
  shows "wp (andThen (publish C s ord ca (Some b)) (\<lambda>_. andThen (saveLedger C (l\<lparr>ldCRLNumber := ldCRLNumber l + 1\<rparr>)) (\<lambda>_.
      andThen (if out \<noteq> [] then writeOut C out b else ok ()) (\<lambda>_. do { _ \<leftarrow> logCeremony C s action note as; ok () }))))
    (\<lambda>r w'. ledgerGrows C w w' \<and> (r = Inr () \<longrightarrow> publishedCRL C w w')) w1"
    (is "wp _ ?Q w1")
proof (rule wp_andThenI [OF publish_result [OF ord]], goal_cases)
  case (1 e w')
  then have "sameFiles {rel. \<not> inPublic rel} w w'" using w1 by (blast intro: sameFiles_trans sameFiles_mono)
  then show ?case using sameFiles_grows by simp
next
  case (2 x w2)
  then have "sameFiles {rel. \<not> inPublic rel} w w2" using w1 by (blast intro: sameFiles_trans sameFiles_mono)
  then have "ledgerOf C w2 = Some l" using sameFiles_ledger l by simp
  moreover have "publishedCRL C w w2"
  proof -
    obtain root where root: "storedCA C w ''root'' root" "cwCA w2 ''public/crl.pem'' = Some b" "cwCA w2 ''public/ca-chain.pem'' = Some (ChainPEM C [caCert ca, caCert root])"
      using 2 storedCA_same [OF w1, of "''root''"] by auto
    then show ?thesis
      unfolding publishedCRL_def by (intro exI conjI) (rule l, rule ca, rule root, rule crl, rule crl, simp add: b, assumption)
  qed
  ultimately show ?case by (intro crl_saved [OF laws l]) simp_all
qed

lemma publishNextCRL_result:
  assumes laws: "ledgerLaw C" "wholeWrites C" and ord: "anyOrder ord" and w1: "sameFiles UNIV w w1"
    and l: "ledgerOf C w = Some l" and ca: "storedCA C w ''intermediate'' ca"
  shows "wp (publishNextCRL C s ord days out l ca) (\<lambda>r w'. ledgerGrows C w w' \<and> (r = Inr () \<longrightarrow> publishedCRL C w w')) w1"
  unfolding publishNextCRL_def Let_def
proof (intro wp_andThenI [OF NewCRLDetailed_result], goal_cases)
  case (1 e w2)
  then show ?case using sameFiles_grows [OF sameFiles_trans [OF w1]] by simp
next
  case (2 b w2)
  then obtain k tmpl der where "cbCreateCRL C k tmpl (caCert ca) (caKey ca) = Inr der"
      "those (map (\<lambda>r. readHexInt (rvSerial r)) (ldRevocations l)) = Some (map xeSerial (xlEntries tmpl))"
      "b = xPemEncode (cbX C) \<lparr>pbType = ''X509 CRL'', pbBytes = der\<rparr>"
    by (auto simp: comp_def)
  then show ?case using 2 l ca w1 by (intro crl_published [OF laws ord]) (auto intro: sameFiles_trans)
qed

lemma crl_result:
  assumes laws: "ledgerLaw C" "wholeWrites C" and ord: "anyOrder ord"
  shows "wp (cmdCRL C s ord days out) (\<lambda>r w'. ledgerGrows C w w' \<and> (r = Inr () \<longrightarrow> publishedCRL C w w')) w"
    (is "wp _ ?Q w")
proof -
  have fail: "?Q (Inl e) w'" if "sameFiles UNIV w w'" for e w' using sameFiles_grows [OF that] by simp
  have ca: "wp (andThen (loadCA C s ''intermediate'') (publishNextCRL C s ord days out l)) ?Q w'"
    if "sameFiles UNIV w w'" "ledgerOf C w = Some l" for s l w'
    using sameFiles_trans [OF that(1)] storedCA_same [OF that(1), of "''intermediate''"] that(2)
    by (intro wp_andThenI [OF loadCA_result] fail publishNextCRL_result [OF laws ord]) auto
  have led: "wp (andThen (loadLedger C) (\<lambda>l. andThen (loadCA C s ''intermediate'') (publishNextCRL C s ord days out l))) ?Q w'"
    if "sameFiles UNIV w w'" for s w'
    using sameFiles_trans [OF that] sameFiles_ledger [OF that, of C] by (intro wp_andThenI [OF loadLedger_result] fail ca) auto
  show ?thesis
    unfolding cmdCRL_def Intermediate_def by (intro wp_andThenI [OF frame_load(5) [where F = UNIV]] fail led)
qed

section \<open>Any commands\<close>

lemma init_grows: "caDirOK w \<Longrightarrow> wp (cmdInit C s ord dir r i) (\<lambda>_. ledgerGrows C w) w"
proof (cases "cwExists w")
  case True
  then show ?thesis by (simp add: cmdInit_def Init_def wp_simps ledgerGrows_def)
next
  case False
  assume "caDirOK w"
  then have "ledgerGrows C w w'" for w' using False by (simp add: caDirOK_def ledgerGrows_def ledgerOf_def)
  then show ?thesis by (simp add: wp_def split: prod.splits)
qed

lemma main_grows:
  assumes laws: "ledgerLaw C" "wholeWrites C" and "anyOrder ord" "caDirOK w"
  shows "wp (caMain C s ord c) (\<lambda>_. ledgerGrows C w) w"
proof (cases c)
  case (DoInit dir r i)
  then show ?thesis using init_grows assms(4) by simp
next
  case (DoRevoke serial reason)
  then show ?thesis using wp_mono [OF revoke_result [OF laws]] by simp
next
  case (DoCRL days out)
  then show ?thesis using wp_mono [OF crl_result [OF laws assms(3)]] by simp
qed (auto intro!: wp_mono [OF frame_wp [where F = "{''ledger.json''}"]] frame.keepsC_reading frame.keepsC_andThen frame.keepsC_ret sameFiles_grows)

lemma runs_grow:
  assumes laws: "ledgerLaw C" "wholeWrites C" and "caRuns C w w'" "caDirOK w"
  shows "ledgerGrows C w w'"
  using assms(3,4)
proof (induction rule: caRuns.induct)
  case (runs_command w w' ord s c r w'')
  have "caDirOK w'" using dir.runs_related [OF runs_command.hyps(1)] runs_command.prems by simp
  then have "ledgerGrows C w' w''"
    using main_grows [OF laws runs_command.hyps(2)] runs_command.hyps(3) by (blast dest: wp_run)
  then show ?case using runs_command by (blast intro: ledgerGrows_trans)
qed (simp add: ledgerGrows_def)

end
