(* ===== verification/CA_Keys.thy ===== *)
theory CA_Keys
  imports CA_Ledger
begin

text \<open>
  The key pairs of the CA: what \<^verbatim>\<open>init\<close> writes, sealed or not, is what every later command loads, and the certificate stays the one
  of the key.
\<close>

section \<open>PEM\<close>

lemma pemLaw_simps:
  assumes "pemLaw X" "pbType blk \<in> {''CERTIFICATE'', ''X509 CRL'', ''PRIVATE KEY''}"
  shows "xPemDecode X (xPemEncode X blk @ rest) = Some (blk, rest)" "firstPEM X (xPemEncode X blk) = pbBytes blk" "xPemEncode X blk \<noteq> []"
proof -
  show d: "xPemDecode X (xPemEncode X blk @ rest) = Some (blk, rest)" for rest using assms unfolding pemLaw_def by blast
  show "firstPEM X (xPemEncode X blk) = pbBytes blk" using d [of "[]"] by (simp add: firstPEM_def)
  show "xPemEncode X blk \<noteq> []" using d [of "[]"] assms(1) unfolding pemLaw_def by auto
qed

lemma pemBlocks_encoded:
  assumes "pemLaw X" "pbType ` set blks \<subseteq> {''CERTIFICATE'', ''X509 CRL'', ''PRIVATE KEY''}"
  shows "pemBlocks X (length (concat (map (xPemEncode X) blks))) (concat (map (xPemEncode X) blks)) = blks"
  using assms(2)
proof (induction blks)
  case (Cons blk blks)
  let ?r = "concat (map (xPemEncode X) blks)"
  have t: "pbType blk \<in> {''CERTIFICATE'', ''X509 CRL'', ''PRIVATE KEY''}" using Cons.prems by simp
  obtain n where n: "length (xPemEncode X blk) = Suc n" using pemLaw_simps(3) [OF assms(1) t] by (cases "xPemEncode X blk") auto
  have "pemShrinks X" using assms(1) by (simp add: pemLaw_def)
  then have "pemBlocks X (n + length ?r) ?r = blks" using pemBlocks_fuel [of X ?r "n + length ?r"] Cons by simp
  then show ?case using n pemLaw_simps(1) [OF assms(1) t, of ?r] by simp
qed simp

lemma ParseCertificatePEM_CertPEM: "pemLaw (cbX C) \<Longrightarrow> ParseCertificatePEM (cbX C) (CertPEM C c) = xParseCertificate (cbX C) (xcRaw c)"
  using pemBlocks_encoded [of "cbX C" "[\<lparr>pbType = ''CERTIFICATE'', pbBytes = xcRaw c\<rparr>]"] by (simp add: ParseCertificatePEM_def CertPEM_def)

lemma ParseChainPEM_ChainPEM:
  assumes "pemLaw (cbX C)" "\<And>c. c \<in> set cs \<Longrightarrow> xParseCertificate (cbX C) (xcRaw c) = Inr c" "cs \<noteq> []"
  shows "ParseChainPEM (cbX C) (ChainPEM C cs) = Inr cs"
proof -
  let ?blk = "\<lambda>c. \<lparr>pbType = ''CERTIFICATE'', pbBytes = xcRaw c\<rparr>"
  have "ChainPEM C cs = concat (map (xPemEncode (cbX C)) (map ?blk cs))" by (simp add: ChainPEM_def CertPEM_def [abs_def] comp_def)
  moreover have "pbType ` set (map ?blk cs) \<subseteq> {''CERTIFICATE'', ''X509 CRL'', ''PRIVATE KEY''}" by auto
  ultimately have "pemBlocks (cbX C) (length (ChainPEM C cs)) (ChainPEM C cs) = map ?blk cs"
    using pemBlocks_encoded [OF assms(1)] by metis
  moreover have "parseCertificates (cbX C) (map ?blk cs) = Inr cs" using assms(2) by (induction cs) (auto simp: bind_simps)
  ultimately show ?thesis using assms(3) by (simp add: ParseChainPEM_def bind_simps)
qed

section \<open>What the files of a CA hold\<close>

definition goodCA :: "calib \<Rightarrow> CA \<Rightarrow> bool" where
  "goodCA C ca \<longleftrightarrow> xcMLDSA (caCert ca) = Some (cbPublic C (caKey ca)) \<and> xParseCertificate (cbX C) (xcRaw (caCert ca)) = Inr (caCert ca) \<and>
     xKeyParams (cbX C) (cbPublic C (caKey ca)) = Algorithm"

definition sealedKey :: "calib \<Rightarrow> string \<Rightarrow> bytes \<Rightarrow> bytes \<Rightarrow> bool" where
  "sealedKey C pass keyPEM enc \<longleftrightarrow> pass \<noteq> [] \<and>
     (\<exists>salt nonce. enc = cbBlobJSON C \<lparr>ebVersion = encVersion, ebKDF = ''argon2id'', ebTime = caArgonTime, ebMemKiB = caArgonMemKiB,
        ebThreads = caArgonThreads, ebSalt = salt, ebNonce = nonce,
        ebCT = cbSeal C (deriveKeyCA C pass salt caArgonTime caArgonMemKiB caArgonThreads) nonce keyPEM\<rparr>)"

definition holdsCA :: "calib \<Rightarrow> ca_world \<Rightarrow> string \<Rightarrow> string \<Rightarrow> CA \<Rightarrow> bool" where
  "holdsCA C w pass name ca \<longleftrightarrow> goodCA C ca \<and> cwCA w (name @ ''/cert.pem'') = Some (CertPEM C (caCert ca)) \<and>
     (\<exists>keyPEM. MarshalPKCS8PEM C (caKey ca) = Inr keyPEM \<and>
        (pass = [] \<and> cwCA w (name @ ''/key.pem.enc'') = None \<and> cwCA w (name @ ''/key.pem'') = Some keyPEM \<or>
         cwCA w (name @ ''/key.pem'') = None \<and> (\<exists>enc. cwCA w (name @ ''/key.pem.enc'') = Some enc \<and> sealedKey C pass keyPEM enc)))"

lemma openKeyPEM_sealed:
  assumes "sealLaw C" "sealedKey C pass keyPEM enc"
  shows "openKeyPEM C enc pass = Inr keyPEM" "openKeyPEM C enc pass' = Inr k \<Longrightarrow> k = keyPEM"
  using assms unfolding sealLaw_def sealedKey_def openKeyPEM_def by (auto simp: bind_simps orErr_Inr split: if_splits)

lemma ParsePKCS8_marshalled:
  assumes "pemLaw (cbX C)" "keyLaw C" "MarshalPKCS8PEM C sk = Inr keyPEM"
  shows "ParsePKCS8 C keyPEM = Inr sk' \<Longrightarrow> sk' = sk" "xKeyParams (cbX C) (cbPublic C sk) = Algorithm \<Longrightarrow> ParsePKCS8 C keyPEM = Inr sk"
proof -
  obtain der where der: "cbMarshalPKCS8 C sk = Inr der" "keyPEM = xPemEncode (cbX C) \<lparr>pbType = PEMTypePrivateKey, pbBytes = der\<rparr>"
    using assms(3) unfolding MarshalPKCS8PEM_def by (auto simp: bind_simps)
  have "firstPEM (cbX C) keyPEM = der" using pemLaw_simps(2) [OF assms(1)] der(2) by (simp add: PEMTypePrivateKey_def)
  moreover have "cbParsePKCS8 C der = Inr (Inr sk)" using assms(2) der(1) unfolding keyLaw_def by blast
  ultimately show "ParsePKCS8 C keyPEM = Inr sk' \<Longrightarrow> sk' = sk"
    "xKeyParams (cbX C) (cbPublic C sk) = Algorithm \<Longrightarrow> ParsePKCS8 C keyPEM = Inr sk"
    unfolding ParsePKCS8_def by (auto simp: bind_simps split: if_splits)
qed

lemma holdsCA_stored:
  assumes "pemLaw (cbX C)" "keyLaw C" "sealLaw C" "holdsCA C w pass name ca" "storedCA C w name ca'"
  shows "ca' = (ca :: CA)"
proof (rule CA.equality)
  obtain keyPEM where k: "MarshalPKCS8PEM C (caKey ca) = Inr keyPEM" "ParsePKCS8 C keyPEM = Inr (caKey ca')"
    using assms(3-5) unfolding holdsCA_def storedCA_def by (auto dest: openKeyPEM_sealed(2))
  then show "caKey ca' = caKey ca" using ParsePKCS8_marshalled(1) [OF assms(1,2)] by blast
  show "caCert ca' = caCert ca"
    using assms(4,5) ParseCertificatePEM_CertPEM [OF assms(1)] unfolding holdsCA_def storedCA_def goodCA_def by auto
qed simp

lemma holdsCA_same: "sameFiles F w w' \<Longrightarrow> {name @ ''/key.pem'', name @ ''/key.pem.enc'', name @ ''/cert.pem''} \<subseteq> F \<Longrightarrow>
    name \<in> {''root'', ''intermediate''} \<Longrightarrow> holdsCA C w' pass name ca \<longleftrightarrow> holdsCA C w pass name ca"
  unfolding holdsCA_def sameFiles_def by auto

section \<open>Making a CA\<close>

lemma newCA_result:
  assumes "keyLaw C" "certLaw C"
  shows "wp (NewRootCA C cn v) (\<lambda>r w'. sameFiles UNIV w w' \<and> (\<forall>ca. r = Inr ca \<longrightarrow> goodCA C ca)) w"
    "wp (NewIntermediateCA C parent cn v) (\<lambda>r w'. sameFiles UNIV w w' \<and> (\<forall>ca. r = Inr ca \<longrightarrow> goodCA C ca)) w"
  using assms unfolding NewRootCA_def NewIntermediateCA_def GenerateMLDSA65Key_def randSerial_def nowC_def signCert_def keyLaw_def certLaw_def goodCA_def
  by (auto simp: wp_simps sameFiles_def mapErr_eq_Inr split: sum.splits)

definition caFiles :: "string \<Rightarrow> string set" where
  "caFiles name = {name @ ''/key.pem'', name @ ''/key.pem.enc'', name @ ''/cert.pem''}"

lemma writeCAFile_result:
  assumes "wholeWrites C"
  shows "wp (writeCAFile C rel b) (\<lambda>r w'. cwCA w' = (if r = Inr () then (cwCA w)(rel \<mapsto> b) else cwCA w)) w"
  using assms unfolding writeCAFile_def wholeWrites_def
  by (auto simp: wp_simps caFault_def writeOf_def writeResult_def split: option.splits prod.splits)

lemma sealKeyPEM_result:
  "wp (sealKeyPEM C keyPEM pass) (\<lambda>r w'. cwCA w' = cwCA w \<and> (\<forall>enc. r = Inr enc \<longrightarrow> sealedKey C pass keyPEM enc)) w"
  unfolding sealKeyPEM_def Let_def sealedKey_def by (auto simp: wp_simps split: sum.splits)

lemma andThen_ok: "andThen (ok x) f = f x"
  by (simp add: andThen_def)

lemma writeCA_result:
  assumes w: "wholeWrites C" and ca: "goodCA C ca" and new: "\<And>rel. rel \<in> caFiles name \<Longrightarrow> cwCA w rel = None"
  shows "wp (writeCA C s name ca) (\<lambda>r w'. (r = Inr () \<longrightarrow> holdsCA C w' (csPassphrase s) name ca) \<and> (r \<noteq> Inr () \<longrightarrow> cwCA w' (name @ ''/cert.pem'') = None) \<and>
    (\<forall>rel. rel \<notin> caFiles name \<longrightarrow> cwCA w' rel = cwCA w rel)) w"
    (is "wp _ ?Q w")
proof (cases "MarshalPKCS8PEM C (caKey ca)")
  case (Inl e)
  then show ?thesis using new by (simp add: writeCA_def wp_simps caFiles_def)
next
  case (Inr keyPEM)
  let ?key = "\<lambda>w'. (if csPassphrase s \<noteq> [] then \<exists>enc. cwCA w' = (cwCA w)(name @ ''/key.pem.enc'' \<mapsto> enc) \<and> sealedKey C (csPassphrase s) keyPEM enc
      else cwCA w' = (cwCA w)(name @ ''/key.pem'' \<mapsto> keyPEM))"
  have key: "wp (if csPassphrase s \<noteq> []
              then andThen (sealKeyPEM C keyPEM (csPassphrase s)) (\<lambda>sealed. writeCAFile C (name @ ''/key.pem.enc'') sealed)
              else writeCAFile C (name @ ''/key.pem'') keyPEM) (\<lambda>r w'. if r = Inr () then ?key w' else cwCA w' = cwCA w) w"
  proof (cases "csPassphrase s = []")
    case False
    have "wp (andThen (sealKeyPEM C keyPEM (csPassphrase s)) (\<lambda>sealed. writeCAFile C (name @ ''/key.pem.enc'') sealed))
        (\<lambda>r w'. if r = Inr () then ?key w' else cwCA w' = cwCA w) w"
      by (rule wp_andThenI [OF sealKeyPEM_result]) (use False in \<open>auto intro!: wp_mono [OF writeCAFile_result [OF w]]\<close>)
    then show ?thesis using False by simp
  qed (auto intro!: wp_mono [OF writeCAFile_result [OF w]])
  have written: "wp (writeCAFile C (name @ ''/cert.pem'') (CertPEM C (caCert ca))) ?Q w1" if "?key w1" for w1
    using that Inr ca new
    by (intro wp_mono [OF writeCAFile_result [OF w]]) (auto simp: holdsCA_def caFiles_def split: if_splits)
  have w: "writeCA C s name ca = andThen (if csPassphrase s \<noteq> []
              then andThen (sealKeyPEM C keyPEM (csPassphrase s)) (\<lambda>sealed. writeCAFile C (name @ ''/key.pem.enc'') sealed)
              else writeCAFile C (name @ ''/key.pem'') keyPEM) (\<lambda>_. writeCAFile C (name @ ''/cert.pem'') (CertPEM C (caCert ca)))"
    unfolding writeCA_def Inr andThen_ok ..
  show ?thesis unfolding w
  proof (rule wp_andThenI [OF key])
    show "?Q (Inl e) w'" if "if Inl e = Inr () then ?key w' else cwCA w' = cwCA w" for e w'
      using that new by (simp add: caFiles_def)
    show "wp (writeCAFile C (name @ ''/cert.pem'') (CertPEM C (caCert ca))) ?Q w'" if "if Inr x = Inr () then ?key w' else cwCA w' = cwCA w" for x w'
      using that by (intro written) simp
  qed
qed

definition keyFiles :: "string set" where
  "keyFiles = caFiles ''root'' \<union> caFiles ''intermediate''"

lemma keyFiles_no_logs: "rel \<in> keyFiles \<Longrightarrow> rel \<notin> {''issued.jsonl'', ''ceremony.jsonl''}"
  unfolding keyFiles_def caFiles_def by auto

interpretation kept: ca_publishing C "sameFiles keyFiles" "\<lambda>rel _. rel \<notin> keyFiles" for C
  by (intro ca_publishing.intro frame.ca_relation_axioms ca_publishing_axioms.intro) (simp_all add: keyFiles_def caFiles_def)

lemma holdsCA_kept: "sameFiles keyFiles w w' \<Longrightarrow> name \<in> {''root'', ''intermediate''} \<Longrightarrow> holdsCA C w' pass name ca \<longleftrightarrow> holdsCA C w pass name ca"
  by (rule holdsCA_same) (auto simp: keyFiles_def caFiles_def)

definition caPair :: "calib \<Rightarrow> ca_world \<Rightarrow> bool" where
  "caPair C w \<longleftrightarrow> cwCA w ''intermediate/cert.pem'' = None \<or> (\<exists>pass ca. holdsCA C w pass ''intermediate'' ca)"

lemma caPair_kept: "sameFiles keyFiles w w' \<Longrightarrow> caPair C w \<Longrightarrow> caPair C w'"
  using holdsCA_kept [of w w' "''intermediate''"] unfolding caPair_def by (auto simp: sameFiles_def keyFiles_def caFiles_def)

definition bothCAs :: "calib \<Rightarrow> ca_world \<Rightarrow> string \<Rightarrow> bool" where
  "bothCAs C w pass \<longleftrightarrow> (\<exists>root ca. holdsCA C w pass ''root'' root \<and> holdsCA C w pass ''intermediate'' ca)"

lemma bothCAs_kept: "sameFiles keyFiles w w' \<Longrightarrow> bothCAs C w pass \<Longrightarrow> bothCAs C w' pass"
  unfolding bothCAs_def by (simp add: holdsCA_kept)

lemma bothCAs_pair: "bothCAs C w pass \<Longrightarrow> caPair C w"
  unfolding bothCAs_def caPair_def by blast

lemma caFiles_disjoint: "rel \<in> caFiles ''root'' \<Longrightarrow> rel \<notin> caFiles ''intermediate''"
  by (auto simp: caFiles_def)

lemma writeCAs_result:
  assumes w: "wholeWrites C" and ca: "goodCA C root" "goodCA C ca" and new: "\<And>rel. rel \<in> keyFiles \<Longrightarrow> cwCA w rel = None"
  shows "wp (andThen (writeCA C s ''root'' root) (\<lambda>_. writeCA C s ''intermediate'' ca))
    (\<lambda>r w'. caPair C w' \<and> (r = Inr () \<longrightarrow> bothCAs C w' (csPassphrase s))) w"
    (is "wp _ ?Q w")
proof (rule wp_andThenI [OF writeCA_result [OF w ca(1)]])
  let ?P = "\<lambda>r w'. (r = Inr () \<longrightarrow> holdsCA C w' (csPassphrase s) ''root'' root) \<and> (r \<noteq> Inr () \<longrightarrow> cwCA w' (''root'' @ ''/cert.pem'') = None) \<and>
    (\<forall>rel. rel \<notin> caFiles ''root'' \<longrightarrow> cwCA w' rel = cwCA w rel)"
  show "cwCA w rel = None" if "rel \<in> caFiles ''root''" for rel using that new by (simp add: keyFiles_def)
  have none: "cwCA w' rel = None" if "?P r w'" "rel \<in> caFiles ''intermediate''" for r :: "string + unit" and w' rel
  proof -
    have "rel \<notin> caFiles ''root''" "rel \<in> keyFiles" using that(2) caFiles_disjoint unfolding keyFiles_def by blast+
    then show ?thesis using that(1) new by simp
  qed
  show "?Q (Inl e) w'" if "?P (Inl e) w'" for e and w' :: ca_world
    using none [OF that, of "''intermediate/cert.pem''"] by (simp add: caPair_def caFiles_def)
  fix x and w1 :: ca_world assume P: "?P (Inr x :: string + unit) w1"
  have root: "holdsCA C w2 (csPassphrase s) ''root'' root" if "\<forall>rel. rel \<notin> caFiles ''intermediate'' \<longrightarrow> cwCA w2 rel = cwCA w1 rel" for w2 :: ca_world
    using P that caFiles_disjoint by (subst holdsCA_same [of "caFiles ''root''" w1]) (auto simp: sameFiles_def caFiles_def)
  show "wp (writeCA C s ''intermediate'' ca) ?Q w1"
    by (rule wp_mono [OF writeCA_result [OF w ca(2) none [OF P]]])
       (use root in \<open>auto simp: bothCAs_def caPair_def\<close>)
qed

lemma wp_andThen_assoc: "wp (andThen (andThen m f) g) Q w \<longleftrightarrow> wp (andThen m (\<lambda>x. andThen (f x) g)) Q w"
  unfolding wp_andThen by (rule arg_cong [where f = "\<lambda>Q. wp m Q w"]) (auto simp: fun_eq_iff split: sum.splits)

lemma Init_result:
  assumes laws: "caLaws C" and ord: "anyOrder ord" and dir: "caDirOK w" and new: "\<not> cwExists w"
  shows "wp (Init C s ord d rootCN interCN) (\<lambda>r w'. caPair C w' \<and> (r = Inr () \<longrightarrow> bothCAs C w' (csPassphrase s))) w"
    (is "wp _ ?Q w")
proof -
  note l = laws [unfolded caLaws_def]
  have none: "cwCA w' rel = None" if "sameFiles UNIV w w'" "rel \<in> keyFiles" for w' rel
    using that dir new keyFiles_no_logs [OF that(2)] by (simp add: sameFiles_def caDirOK_def)
  have failed: "caPair C w'" if "sameFiles UNIV w w'" for w'
    using none [OF that, of "''intermediate/cert.pem''"] by (simp add: caPair_def keyFiles_def caFiles_def)
  then have fail: "?Q (Inl e) w'" if "sameFiles UNIV w w'" for e w' using that by simp
  have rest: "wp (andThen (publish C s ord ca None) (\<lambda>_. saveLedger C emptyLedger)) ?Q w'"
    if "bothCAs C w' (csPassphrase s)" for ca w'
  proof -
    have "wp (andThen (publish C s ord ca None) (\<lambda>_. saveLedger C emptyLedger)) (\<lambda>_. sameFiles keyFiles w') w'"
      by (rule frame_wp) (intro frame.keepsC_andThen kept.keepsC_publish kept.keepsC_ledger ord, simp)
    then show ?thesis by (rule wp_mono) (use that bothCAs_kept bothCAs_pair in blast)
  qed
  have writes: "wp (andThen (writeCA C s ''root'' root) (\<lambda>_. andThen (writeCA C s ''intermediate'' ca) (\<lambda>_.
      andThen (publish C s ord ca None) (\<lambda>_. saveLedger C emptyLedger)))) ?Q w'"
    if "goodCA C root" "goodCA C ca" "sameFiles UNIV w w'" for root ca w'
    by (rule wp_andThen_assoc [THEN iffD1], rule wp_andThenI [OF writeCAs_result]) (use l that none rest in auto)
  have "wp (andThen (NewRootCA C rootCN (10 * 365 * 24 * hour)) (\<lambda>root.
            andThen (NewIntermediateCA C root interCN (5 * 365 * 24 * hour)) (\<lambda>ca.
            andThen (makeDirs C [''root'', ''intermediate'', ''public'']) (\<lambda>_.
            andThen (writeCA C s ''root'' root) (\<lambda>_.
            andThen (writeCA C s ''intermediate'' ca) (\<lambda>_.
            andThen (publish C s ord ca None) (\<lambda>_.
              saveLedger C emptyLedger))))))) ?Q w"
  proof (rule wp_andThenI [OF newCA_result(1)], goal_cases)
    case (4 root w1)
    note root = this
    show ?case
    proof (rule wp_andThenI [OF newCA_result(2)], goal_cases)
      case (4 ca w2)
      then have ca: "goodCA C root" "goodCA C ca" "sameFiles UNIV w w2" using root by (auto intro: sameFiles_trans)
      show ?case
        by (rule wp_andThenI [OF frame_wp [OF frame.keepsC_dirs, where F = UNIV]]) (rule fail, erule sameFiles_trans [OF ca(3)], rule writes [OF ca(1,2)], erule sameFiles_trans [OF ca(3)])
    qed (use l root in \<open>blast intro: failed sameFiles_trans\<close>)+
  qed (use l failed in blast)+
  then show ?thesis using new by (simp add: Init_def wp_bind wp_get)
qed

section \<open>Any commands\<close>

lemma cmdInit_after:
  assumes "wp (Init C s ord d rootCN interCN) P w" "\<And>e w'. P (Inl e) w' \<Longrightarrow> Q (Inl e) w'"
    "\<And>w' w'' r. P (Inr ()) w' \<Longrightarrow> sameFiles UNIV w' w'' \<Longrightarrow> r \<in> {Inl nilPointer, Inr ()} \<Longrightarrow> Q r w''"
  shows "wp (cmdInit C s ord d rootCN interCN) Q w"
  unfolding cmdInit_def
proof (rule wp_andThenI [OF assms(1)])
  fix x w' assume P: "P (Inr x) w'"
  have "wp (logCeremony C s a n as) (\<lambda>_. sameFiles UNIV w1) w1" for a n as w1 by (rule frame_load)
  note tail = frame_load(2,3,10) [where F = UNIV] this
  show "wp (do { root \<leftarrow> Root C s; ca \<leftarrow> Intermediate C s; enc \<leftarrow> caEncrypted;
      _ \<leftarrow> logCeremony C s ''ca.init'' ''root+intermediate generated''
        ((if enc then [''root/key.pem.enc'', ''intermediate/key.pem.enc''] else [''root/key.pem'', ''intermediate/key.pem'']) @
         [''root/cert.pem'', ''intermediate/cert.pem'', ''public/root-ca.crt.pem'', ''public/intermediate-ca.crt.pem'', ''public/ca-chain.pem'']);
      ret (if isl root \<or> isl ca then Inl nilPointer else Inr ()) }) Q w'"
    using P by (intro wp_bindI [OF tail(1)] wp_bindI [OF tail(2)] wp_bindI [OF tail(3)] wp_bindI [OF tail(4)])
      (auto simp: wp_return intro!: assms(3), (meson sameFiles_trans)+)
qed (rule assms(2))

lemma main_pair:
  assumes laws: "caLaws C" and ord: "anyOrder ord" and dir: "caDirOK w" and pair: "caPair C w"
  shows "wp (caMain C s ord c) (\<lambda>_ w'. caPair C w') w"
proof (cases "\<exists>d r i. c = DoInit d r i")
  case False
  then have "wp (caMain C s ord c) (\<lambda>_. sameFiles keyFiles w) w" by (intro frame_wp kept.keepsC_main_but_init ord) blast
  then show ?thesis by (rule wp_mono) (rule caPair_kept [OF _ pair])
next
  case True
  then obtain d r i where c: "c = DoInit d r i" by blast
  show ?thesis
  proof (cases "cwExists w")
    case True
    then show ?thesis using pair by (simp add: c cmdInit_def Init_def wp_simps)
  next
    case False
    show ?thesis
      unfolding c caMain.simps by (rule cmdInit_after [OF Init_result [OF laws ord dir False]]) (auto intro: caPair_kept sameFiles_mono)
  qed
qed

lemma runs_pair:
  assumes laws: "caLaws C" and "caRuns C w w'" "caDirOK w" "caPair C w"
  shows "caPair C w'"
  using assms(2-)
proof (induction rule: caRuns.induct)
  case (runs_command w w' ord s c r w'')
  have "caDirOK w'" using dir.runs_related [OF runs_command.hyps(1)] runs_command.prems by simp
  then show ?case
    using wp_run [OF main_pair [OF laws runs_command.hyps(2), of w'] runs_command.hyps(3)] runs_command.IH runs_command.prems by blast
qed

lemma runs_kept:
  assumes "caRuns C w w'" "cwExists w"
  shows "sameFiles keyFiles w w'"
  using assms
proof (induction rule: caRuns.induct)
  case (runs_command w w' ord s c r w'')
  have ex: "cwExists w'" using dir.runs_related [OF runs_command.hyps(1)] runs_command.prems by simp
  have "wp (caMain C s ord c) (\<lambda>_. sameFiles keyFiles w') w'"
  proof (cases "\<exists>d r i. c = DoInit d r i")
    case True
    then show ?thesis using ex frame.R_refl by (auto simp: cmdInit_def Init_def wp_simps)
  qed (intro frame_wp kept.keepsC_main_but_init runs_command.hyps, blast)
  then show ?case using runs_command by (blast intro: sameFiles_trans dest: wp_run)
qed (rule frame.R_refl)

text \<open>A CA that is there loads, when its files can be read.\<close>

lemma loadCA_holds:
  assumes "pemLaw (cbX C)" "keyLaw C" "sealLaw C" "\<And>k. cbRead C k = None" "holdsCA C w (csPassphrase s) name ca"
  shows "fst (run_state (loadCA C s name) w) = Inr ca"
proof -
  obtain keyPEM where k: "MarshalPKCS8PEM C (caKey ca) = Inr keyPEM" "cwCA w (name @ ''/cert.pem'') = Some (CertPEM C (caCert ca))" "goodCA C ca"
      "cwCA w (name @ ''/key.pem.enc'') = None \<and> cwCA w (name @ ''/key.pem'') = Some keyPEM \<or>
       (\<exists>enc. cwCA w (name @ ''/key.pem.enc'') = Some enc \<and> openKeyPEM C enc (csPassphrase s) = Inr keyPEM)"
    using assms(5) openKeyPEM_sealed(1) [OF assms(3)] unfolding holdsCA_def by blast
  have p: "ParsePKCS8 C keyPEM = Inr (caKey ca)" "ParseCertificatePEM (cbX C) (CertPEM C (caCert ca)) = Inr (caCert ca)"
    using k(1,3) ParsePKCS8_marshalled(2) [OF assms(1,2)] ParseCertificatePEM_CertPEM [OF assms(1)] by (auto simp: goodCA_def)
  have "wp (loadCA C s name) (\<lambda>r _. r = Inr ca) w"
    using k(4) unfolding loadCA_def
    by (elim disjE exE conjE) (simp_all add: wp_simps wp_readCAFile assms(4) orErr_def k(2) p mapErr_def)
  then show ?thesis by (simp add: wp_def split: prod.splits)
qed

section \<open>A disk that works\<close>

definition workingDisk :: "calib \<Rightarrow> bool" where
  "workingDisk C \<longleftrightarrow> (\<forall>k. cbWrite C k = None \<and> cbRead C k = None \<and> cbMkdir C k = None)"

lemma wp_working:
  assumes "workingDisk C"
  shows "wp (readCAFile C rel) Q w \<longleftrightarrow> Q (orErr (''open '' @ rel @ '': no such file or directory'') (cwCA w rel)) (w\<lparr>cwTick := Suc (cwTick w)\<rparr>)"
    "cwExists w \<Longrightarrow> wp (writeCAFile C rel b) P w \<longleftrightarrow> P (Inr ()) (w\<lparr>cwTick := Suc (cwTick w), cwCA := (cwCA w)(rel \<mapsto> b)\<rparr>)"
    "wp (nowC C) R w \<longleftrightarrow> R (cbNow C (cwTick w)) (w\<lparr>cwTick := Suc (cwTick w)\<rparr>)"
  using assms unfolding workingDisk_def
  by (simp_all add: wp_readCAFile writeCAFile_def nowC_def wp_simps caFault_def writeOf_def writeResult_def)

lemma openStore_works:
  assumes "holdsCA C w (csPassphrase s) ''intermediate'' ca"
  shows "wp (openStore s) Q w \<longleftrightarrow> Q (Inr s) w"
  using assms unfolding openStore_def caExists_def caEncrypted_def holdsCA_def sealedKey_def by (auto simp: wp_simps)

lemma revoke_works:
  assumes disk: "workingDisk C" and ex: "cwExists w" and both: "bothCAs C w (csPassphrase s)" and led: "ledgerOf C w = Some l"
    and serial: "readHexInt serial \<noteq> None" "serial \<noteq> []" "reasonCodes reason \<noteq> None" "serial \<notin> rvSerial ` set (ldRevocations l)"
  shows "wp (cmdRevoke C s serial reason) (\<lambda>r _. r = Inr ()) w"
proof -
  obtain b ca where b: "cwCA w ''ledger.json'' = Some b" "cbReadLedger C b = Inr l" and ca: "holdsCA C w (csPassphrase s) ''intermediate'' ca"
    using led both unfolding ledgerOf_def bothCAs_def by (auto split: option.splits sum.splits)
  have f: "find (\<lambda>r. rvSerial r = serial) (ldRevocations l) = None" using serial(4) by (auto simp: find_None_iff)
  have log: "wp (do { _ \<leftarrow> logCeremony C s a n as; ok () }) (\<lambda>r _. r = Inr ()) w'" for a n as w' by (rule logged) simp
  obtain rc where rc: "reasonCodes reason = Some rc" using serial(3) by blast
  have "wp (andThen (loadLedger C) (recordRevocation C s serial reason rc)) (\<lambda>r _. r = Inr ()) w"
    using b ex by (simp add: loadLedger_def saveLedger_def recordRevocation_def f wp_andThen wp_bind wp_working [OF disk] wp_return orErr_def
        log [unfolded wp_bind])
  then show ?thesis using serial rc by (auto simp: cmdRevoke_def wp_andThen openStore_works [OF ca])
qed

lemma loadCA_works:
  assumes "pemLaw (cbX C)" "keyLaw C" "sealLaw C" "workingDisk C" "holdsCA C w (csPassphrase s) name ca"
  shows "wp (loadCA C s name) (\<lambda>r w'. r = Inr ca \<and> sameFiles UNIV w w' \<and> (cwExists w \<longrightarrow> cwExists w')) w"
proof -
  have "wp (loadCA C s name) (\<lambda>r w'. r = Inr ca) w"
    using loadCA_holds [OF assms(1-3) _ assms(5)] assms(4) by (auto simp: workingDisk_def wp_def split: prod.splits)
  moreover have "wp (loadCA C s name) (\<lambda>_. sameFiles UNIV w) w" by (rule frame_load)
  moreover have "wp (loadCA C s name) (\<lambda>_ w'. cwExists w \<longrightarrow> cwExists w') w"
    using dir.keepsC_load(1) [of C s name] unfolding dir.keepsC_def by (blast intro: wp_mono)
  ultimately show ?thesis by (simp add: wp_conj)
qed

lemma writeAll_works: "workingDisk C \<Longrightarrow> cwExists w \<Longrightarrow> wp (writeAll C xs) (\<lambda>r w'. r = Inr () \<and> cwExists w') w"
  by (induction xs arbitrary: w) (auto simp: wp_return wp_andThen wp_working simp del: append.simps)

lemma publish_works:
  assumes "pemLaw (cbX C)" "keyLaw C" "sealLaw C" "workingDisk C" "holdsCA C w (csPassphrase s) ''root'' root" "cwExists w"
  shows "wp (publish C s ord ca crl) (\<lambda>r w'. r = Inr () \<and> cwExists w') w"
  unfolding publish_def Root_def
  by (rule wp_andThenI [OF loadCA_works [OF assms(1-5)]]) (use assms(6) in \<open>auto intro!: writeAll_works assms(4)\<close>)

lemma revokedEntries_some:
  assumes "\<forall>r\<in>set rs. readHexInt (rvSerial r) \<noteq> None"
  shows "\<exists>xs. revokedEntries t (map (\<lambda>r. (readHexInt (rvSerial r), rvReasonCode r, rvRevokedAt r)) rs) = Some xs"
  using assms by (induction rs) (auto simp: revokedEntries_def)

lemma publishNextCRL_works:
  assumes laws: "caLaws C" and disk: "workingDisk C" and ex: "cwExists w" and root: "holdsCA C w (csPassphrase s) ''root'' root"
    and serials: "\<forall>r\<in>set (ldRevocations l). readHexInt (rvSerial r) \<noteq> None" and create: "\<And>k tmpl ca sk. \<exists>der. cbCreateCRL C k tmpl ca sk = Inr der"
  shows "wp (publishNextCRL C s ord days out l ca) (\<lambda>r _. r = Inr ()) w"
proof -
  let ?es = "map (\<lambda>r. (readHexInt (rvSerial r), rvReasonCode r, rvRevokedAt r)) (ldRevocations l)"
  obtain xs where "revokedEntries (cbNow C (cwTick w)) ?es = Some xs" using revokedEntries_some [OF serials] by blast
  then have list: "wp (NewCRLDetailed C ca ?es n v) (\<lambda>r w'. (\<exists>crl. r = Inr crl) \<and> sameFiles UNIV w w' \<and> cwExists w') w" for n v
    using create ex by (auto simp: NewCRLDetailed_def Let_def nowC_def wp_simps sameFiles_def mapErr_eq_Inl split: sum.splits)
      (metis Inl_Inr_False)+
  show ?thesis unfolding publishNextCRL_def Let_def
  proof (rule wp_andThenI [OF list], goal_cases)
  case (2 crl w1)
  then have w1: "holdsCA C w1 (csPassphrase s) ''root'' root" "cwExists w1" using root holdsCA_same [of UNIV w w1] by auto
  have out: "wp (if out \<noteq> [] then writeOut C out crl else ok ()) (\<lambda>r _. r = Inr ()) w2" for w2
    using disk by (simp add: writeOut_def workingDisk_def wp_simps writeResult_def)
  have log: "wp (do { _ \<leftarrow> logCeremony C s a n as; ok () }) (\<lambda>r _. r = Inr ()) w2" for a n as w2 by (rule logged) simp
  show ?case
  proof (rule wp_andThenI [OF publish_works [OF _ _ _ disk w1]], goal_cases)
    case (5 x w2)
    then show ?case
      unfolding saveLedger_def wp_andThen [of "writeCAFile _ _ _"] wp_working(2) [OF disk conjunct2 [OF 5]] sum.case
      by (intro wp_andThenI [OF out] log) auto
  qed (use laws [unfolded caLaws_def] in auto)
  qed simp
qed

lemma crl_works:
  assumes laws: "caLaws C" and disk: "workingDisk C" and ex: "cwExists w" and both: "bothCAs C w (csPassphrase s)" and led: "ledgerOf C w = Some l"
    and serials: "\<forall>r\<in>set (ldRevocations l). readHexInt (rvSerial r) \<noteq> None" and create: "\<And>k tmpl ca sk. \<exists>der. cbCreateCRL C k tmpl ca sk = Inr der"
  shows "wp (cmdCRL C s ord days out) (\<lambda>r _. r = Inr ()) w"
proof -
  obtain root ca where ca: "holdsCA C w (csPassphrase s) ''root'' root" "holdsCA C w (csPassphrase s) ''intermediate'' ca"
    using both unfolding bothCAs_def by blast
  obtain b where b: "cwCA w ''ledger.json'' = Some b" "cbReadLedger C b = Inr l"
    using led unfolding ledgerOf_def by (auto split: option.splits sum.splits)
  have same: "holdsCA C w' (csPassphrase s) ''root'' root" "holdsCA C w' (csPassphrase s) ''intermediate'' ca" if "sameFiles UNIV w w'" for w'
    using holdsCA_same [OF that] ca by auto
  have load: "wp (loadLedger C) (\<lambda>r w'. r = Inr l \<and> sameFiles UNIV w w' \<and> cwExists w') w"
    using b ex by (simp add: loadLedger_def wp_andThen wp_working [OF disk] wp_return orErr_def sameFiles_def)
  have "wp (andThen (loadCA C s ''intermediate'') (publishNextCRL C s ord days out l)) (\<lambda>r _. r = Inr ()) w1"
    if w1: "sameFiles UNIV w w1" "cwExists w1" for w1
  proof (rule wp_andThenI [OF loadCA_works [OF _ _ _ disk same(2) [OF w1(1)]]], goal_cases)
    case (5 x w2)
    then show ?case using w1 sameFiles_trans [OF w1(1)] by (intro publishNextCRL_works [OF laws disk _ same(1) serials create]) auto
  qed (use laws [unfolded caLaws_def] in auto)
  then have "wp (andThen (loadLedger C) (\<lambda>l. andThen (loadCA C s ''intermediate'') (publishNextCRL C s ord days out l))) (\<lambda>r _. r = Inr ()) w"
    by (intro wp_andThenI [OF load]) auto
  then show ?thesis unfolding cmdCRL_def Intermediate_def by (simp add: wp_andThen [of "openStore _"] openStore_works [OF ca(2)])
qed

definition workingLibrary :: "calib \<Rightarrow> bool" where
  "workingLibrary C \<longleftrightarrow> (\<forall>k. \<exists>sk. cbGenKey C k = Inr sk) \<and> (\<forall>k. \<exists>n. cbSerial C k = Inr n) \<and> (\<forall>k n. \<exists>b. cbRand C k n = Inr b) \<and>
     (\<forall>sk. \<exists>der. cbMarshalPKCS8 C sk = Inr der) \<and>
     (\<forall>k t parent pub sk. \<exists>der c. cbCreateCert C k t parent pub sk = Inr der \<and> xParseCertificate (cbX C) der = Inr c) \<and>
     (\<forall>k tmpl ca sk. \<exists>der. cbCreateCRL C k tmpl ca sk = Inr der)"

lemma wp_true: "wp m (\<lambda>_ _. True) w"
  by (simp add: wp_def split: prod.splits)

definition worksC :: "'a cmd \<Rightarrow> bool" where
  "worksC m \<longleftrightarrow> (\<forall>w. wp m (\<lambda>r _. \<exists>x. r = Inr x) w)"

lemma worksC_intros:
  "(\<And>k. \<exists>x. f k = Inr x) \<Longrightarrow> worksC (drawC f)" "worksC m \<Longrightarrow> (\<And>x. worksC (g x)) \<Longrightarrow> worksC (andThen m g)" "worksC (ok x)"
  "(\<And>x. worksC (h x)) \<Longrightarrow> worksC (State_Monad.bind n h)"
proof -
  show "worksC (drawC f)" if "\<And>k. \<exists>x. f k = Inr x" using that by (simp add: worksC_def wp_simps)
  show "worksC (andThen m g)" if "worksC m" "\<And>x. worksC (g x)" using that unfolding worksC_def by (blast intro: wp_andThenI)
  show "worksC (ok x)" by (simp add: worksC_def wp_simps)
  show "worksC (State_Monad.bind n h)" if "\<And>x. worksC (h x)" using that unfolding worksC_def
    by (blast intro: wp_bindI [where P = "\<lambda>_ _. True"] wp_true)
qed

lemma newCA_works:
  assumes lib: "workingLibrary C"
  shows "worksC (NewRootCA C cn v)" "worksC (NewIntermediateCA C parent cn v)"
proof -
  have sign: "worksC (signCert C what t p pub sk)" for what t p pub sk
  proof -
    have "\<exists>c. xParseCertificate (cbX C) der = Inr c" if "cbCreateCert C k t p pub sk = Inr der" for k der
      using lib that unfolding workingLibrary_def by (metis sum.inject(2))
    moreover have "\<exists>der. cbCreateCert C k t p pub sk = Inr der" for k using lib unfolding workingLibrary_def by blast
    ultimately show ?thesis unfolding worksC_def signCert_def by (auto simp: wp_simps mapErr_eq_Inl mapErr_eq_Inr split: sum.splits) (metis Inl_Inr_False)
  qed
  have "worksC (GenerateMLDSA65Key C)" "worksC (randSerial C)"
    unfolding GenerateMLDSA65Key_def randSerial_def using lib unfolding workingLibrary_def mapErr_def by (auto intro!: worksC_intros) (metis map_sum.simps(2))
  note w = this sign
  show "worksC (NewRootCA C cn v)" "worksC (NewIntermediateCA C parent cn v)"
    unfolding NewRootCA_def NewIntermediateCA_def by (intro worksC_intros(2-) w)+
qed

lemma writeCA_works:
  assumes "workingLibrary C" "workingDisk C" "cwExists w"
  shows "wp (writeCA C s name ca) (\<lambda>r w'. r = Inr () \<and> cwExists w') w"
proof -
  obtain d where "cbMarshalPKCS8 C (caKey ca) = Inr d" using assms(1) unfolding workingLibrary_def by blast
  then obtain k where k: "MarshalPKCS8PEM C (caKey ca) = Inr k" unfolding MarshalPKCS8PEM_def by (simp add: mapErr_def)
  have "wp (sealKeyPEM C k (csPassphrase s)) (\<lambda>r w'. (\<exists>enc. r = Inr enc) \<and> cwExists w') w" if "csPassphrase s \<noteq> []"
    using assms(1,3) that unfolding workingLibrary_def sealKeyPEM_def Let_def by (auto simp: wp_simps split: sum.splits) (metis Inl_Inr_False)+
  then have "wp (if csPassphrase s \<noteq> []
              then andThen (sealKeyPEM C k (csPassphrase s)) (\<lambda>sealed. writeCAFile C (name @ ''/key.pem.enc'') sealed)
              else writeCAFile C (name @ ''/key.pem'') k) (\<lambda>r w'. r = Inr () \<and> cwExists w') w"
    using assms(2,3) by (auto simp: wp_working intro!: wp_andThenI)
  then show ?thesis unfolding writeCA_def k andThen_ok
    by (rule wp_andThenI) (auto simp: wp_working [OF assms(2)])
qed

lemma makeDirs_works: "workingDisk C \<Longrightarrow> wp (makeDirs C (d # ds)) (\<lambda>r w'. r = Inr () \<and> cwExists w') w"
proof -
  assume disk: "workingDisk C"
  have "wp (makeDirs C ds) (\<lambda>r w'. r = Inr () \<and> cwExists w') w" if "cwExists w" for w
    using that disk by (induction ds arbitrary: w) (auto simp: wp_simps workingDisk_def)
  then show ?thesis using disk by (simp add: wp_simps workingDisk_def)
qed

lemma writeCAs_works:
  assumes laws: "caLaws C" and lib: "workingLibrary C" and disk: "workingDisk C" and ca: "goodCA C root" "goodCA C ca"
    and w: "cwExists w" "\<And>rel. rel \<in> keyFiles \<Longrightarrow> cwCA w rel = None"
  shows "wp (andThen (writeCA C s ''root'' root) (\<lambda>_. andThen (writeCA C s ''intermediate'' ca) (\<lambda>_.
      andThen (publish C s ord ca None) (\<lambda>_. saveLedger C emptyLedger))))
    (\<lambda>r w'. r = Inr () \<and> cwExists w' \<and> ledgerOf C w' = Some emptyLedger) w"
proof (rule wp_andThen_assoc [THEN iffD1], rule wp_andThenI)
  note l = laws [unfolded caLaws_def]
  have "wp (andThen (writeCA C s ''root'' root) (\<lambda>_. writeCA C s ''intermediate'' ca)) (\<lambda>r w'. r = Inr () \<and> cwExists w') w"
    by (rule wp_andThenI [OF writeCA_works [OF lib disk w(1)]]) (auto intro!: writeCA_works [OF lib disk])
  moreover have "wp (andThen (writeCA C s ''root'' root) (\<lambda>_. writeCA C s ''intermediate'' ca))
      (\<lambda>r w'. caPair C w' \<and> (r = Inr () \<longrightarrow> bothCAs C w' (csPassphrase s))) w"
    using l w(2) by (intro writeCAs_result ca) auto
  ultimately show "wp (andThen (writeCA C s ''root'' root) (\<lambda>_. writeCA C s ''intermediate'' ca))
      (\<lambda>r w'. r = Inr () \<and> cwExists w' \<and> bothCAs C w' (csPassphrase s)) w"
    by (rule wp_conj [THEN iffD2, OF conjI, THEN wp_mono]) blast
  fix x w1 assume w1: "Inr x = Inr () \<and> cwExists w1 \<and> bothCAs C w1 (csPassphrase s)"
  then obtain r where "holdsCA C w1 (csPassphrase s) ''root'' r" unfolding bothCAs_def by blast
  then have pub: "wp (publish C s ord ca None) (\<lambda>r w'. r = Inr () \<and> cwExists w') w1" using l w1 by (intro publish_works [OF _ _ _ disk]) auto
  have "ledgerLaw C" using l by blast
  then show "wp (andThen (publish C s ord ca None) (\<lambda>_. saveLedger C emptyLedger)) (\<lambda>r w'. r = Inr () \<and> cwExists w' \<and> ledgerOf C w' = Some emptyLedger) w1"
    by (intro wp_andThenI [OF pub]) (auto simp: saveLedger_def wp_working [OF disk] ledgerOf_def ledgerLaw_def)
qed simp

lemma Init_works:
  assumes laws: "caLaws C" and lib: "workingLibrary C" and disk: "workingDisk C" and new: "caDirOK w" "\<not> cwExists w"
  shows "wp (Init C s ord d rootCN interCN) (\<lambda>r w'. r = Inr () \<and> cwExists w' \<and> ledgerOf C w' = Some emptyLedger) w"
    (is "wp _ ?Q w")
proof -
  note l = laws [unfolded caLaws_def]
  have root: "wp (NewRootCA C cn v) (\<lambda>r w'. (\<exists>ca. r = Inr ca \<and> goodCA C ca) \<and> sameFiles UNIV w1 w') w1" for cn v w1
    by (rule wp_conj [THEN iffD2, OF conjI, THEN wp_mono, OF newCA_works(1) [OF lib, unfolded worksC_def, rule_format] newCA_result(1)]) (use l in auto)
  have inter: "wp (NewIntermediateCA C p cn v) (\<lambda>r w'. (\<exists>ca. r = Inr ca \<and> goodCA C ca) \<and> sameFiles UNIV w1 w') w1" for p cn v w1
    by (rule wp_conj [THEN iffD2, OF conjI, THEN wp_mono, OF newCA_works(2) [OF lib, unfolded worksC_def, rule_format] newCA_result(2)]) (use l in auto)
  have dirs: "wp (makeDirs C [''root'', ''intermediate'', ''public'']) (\<lambda>r w'. (r = Inr () \<and> cwExists w') \<and> sameFiles UNIV w1 w') w1" for w1
    unfolding wp_conj [of _ "\<lambda>r w'. r = Inr () \<and> cwExists w'"] by (intro conjI makeDirs_works [OF disk] frame_wp frame.keepsC_dirs)
  have none: "cwCA w' rel = None" if "sameFiles UNIV w w'" "rel \<in> keyFiles" for w' rel
    using that new keyFiles_no_logs [OF that(2)] by (simp add: sameFiles_def caDirOK_def)
  have rest: "wp (andThen (makeDirs C [''root'', ''intermediate'', ''public'']) (\<lambda>_.
            andThen (writeCA C s ''root'' root) (\<lambda>_. andThen (writeCA C s ''intermediate'' ca) (\<lambda>_.
            andThen (publish C s ord ca None) (\<lambda>_. saveLedger C emptyLedger))))) ?Q w2"
    if "goodCA C root" "goodCA C ca" "sameFiles UNIV w w2" for root ca w2
    by (rule wp_andThenI [OF dirs]) (use that in \<open>auto intro!: writeCAs_works [OF laws lib disk] none elim: sameFiles_trans\<close>)
  show ?thesis
    unfolding Init_def wp_bind wp_get if_not_P [OF new(2)]
  proof (rule wp_andThenI [OF root], blast, rule wp_andThenI [OF inter], blast)
    fix r w1 ca w2
    assume "(\<exists>ca. Inr r = Inr ca \<and> goodCA C ca) \<and> sameFiles UNIV w w1" "(\<exists>x. Inr ca = Inr x \<and> goodCA C x) \<and> sameFiles UNIV w1 w2"
    then show "wp (andThen (makeDirs C [''root'', ''intermediate'', ''public'']) (\<lambda>_.
            andThen (writeCA C s ''root'' r) (\<lambda>_. andThen (writeCA C s ''intermediate'' ca) (\<lambda>_.
            andThen (publish C s ord ca None) (\<lambda>_. saveLedger C emptyLedger))))) ?Q w2"
      by (intro rest) (auto intro: sameFiles_trans)
  qed
qed

end
