(* ===== verification/Core_Verification.thy ===== *)
theory Core_Verification
  imports Core_Certificates TTD_Signing
begin

text \<open>
  The PDF verifier, \<^verbatim>\<open>ttd/core/verification/verify.go\<close>, and the TTD server's use of it and of \<open>Core_Certificates\<close>: \<open>coreLib\<close>.

  The third-party package \<^verbatim>\<open>pdfsign\<close> is the record \<open>pdflib\<close>.  \<open>pvOpen\<close> is its error on opening a PDF and \<open>pvCheck\<close> what its
  verification reports (the PDF, the roots, the time, whether only ML-DSA is allowed, whether it may use the network): an error of the whole
  run or the signatures.  A parse may panic or outlast the deadline; both, and the clock, depend on the draw.
\<close>

section \<open>The package the verifier calls\<close>

record pdfsign_signature =
  sgnValid :: bool
  sgnTrustedChain :: bool
  sgnRevoked :: bool
  sgnTimestampValid :: bool
  sgnReason :: string
  sgnContact :: string
  sgnSigningTime :: int
  sgnCertificate :: "x509_cert option"
  sgnWarnings :: "string list"
  sgnErrors :: "string list"

record pdflib =
  pvOpen :: "bytes \<Rightarrow> string option"
  pvCheck :: "bytes \<Rightarrow> bytes \<Rightarrow> int \<Rightarrow> bool \<Rightarrow> bool \<Rightarrow> string + pdfsign_signature list"
  pvPanic :: "nat \<Rightarrow> bytes \<Rightarrow> string option"
  pvLate :: "nat \<Rightarrow> bytes \<Rightarrow> int \<Rightarrow> bool"
  pvNow :: "nat \<Rightarrow> int"
  pvDuration :: "int \<Rightarrow> string"

section \<open>Results\<close>

record Options =
  opRootPEM :: bytes
  opIntermediatePEM :: bytes
  opCRLPEM :: bytes
  opRequireMLDSAOnly :: bool
  opAt :: int
  opAllowExternalRevocation :: bool
  opTimeout :: int

definition MaxPDFBytes :: int where "MaxPDFBytes = 67108864"

record SignatureResult =
  srValid :: bool
  srAlgorithm :: string
  srCertificateSerial :: string
  srCertificateFingerprint :: string
  srSubject :: string
  srTrustedChain :: bool
  srRevoked :: bool
  srClientClaimedSigningTime :: string
  srTimestampValid :: bool
  srWarnings :: "string list"
  srErrors :: "string list"
  srReason :: string
  srContact :: string

record Result =
  reValid :: bool
  reDocumentSHA512 :: string
  reSignatures :: "SignatureResult list"
  reErrors :: "string list"

definition PublicIDPrefix :: string where "PublicIDPrefix = ''pqc-public-id:''"

definition PublicID :: "SignatureResult \<Rightarrow> string" where
  "PublicID s =
     (if length (srContact s) > length PublicIDPrefix \<and> take (length PublicIDPrefix) (srContact s) = PublicIDPrefix
      then drop (length PublicIDPrefix) (srContact s) else [])"

section \<open>One signature\<close>

definition algorithmName :: "x509_cert \<Rightarrow> string" where
  "algorithmName c = (if IsMLDSA c then ''ML-DSA-65'' else xcPublicKeyAlgorithm c)"

definition crlIssuerFor :: "x509_cert \<Rightarrow> x509_cert list \<Rightarrow> x509_cert option" where
  "crlIssuerFor leaf intermediates = find (\<lambda>c. xcSubject c = xcIssuer leaf) intermediates"

text \<open>The offline check against the revocation list.\<close>

definition checkCRL :: "xlib \<Rightarrow> Options \<Rightarrow> int \<Rightarrow> x509_cert list \<Rightarrow> x509_cert \<Rightarrow> SignatureResult \<Rightarrow> SignatureResult" where
  "checkCRL X opt at extraInter c sr =
     (if opCRLPEM opt = [] then sr
      else (case ValidateCRL X (opCRLPEM opt) (crlIssuerFor c extraInter) c at of
          Inl e \<Rightarrow> sr\<lparr>srWarnings := srWarnings sr @ [''CRL check failed: '' @ e]\<rparr>
        | Inr st \<Rightarrow>
            if csRevoked st
              then sr\<lparr>srRevoked := True, srValid := False, srErrors := srErrors sr @ [''signer certificate is revoked (CRL)'']\<rparr>
            else if csStale st
              then sr\<lparr>srWarnings := srWarnings sr @ [''CRL is stale (past nextUpdate '' @ xTime X (csNextUpdate st) @ '')'']\<rparr>
            else sr))"

definition signatureResult :: "xlib \<Rightarrow> Options \<Rightarrow> int \<Rightarrow> x509_cert list \<Rightarrow> pdfsign_signature \<Rightarrow> SignatureResult" where
  "signatureResult X opt at extraInter s =
     (let sr = \<lparr>srValid = sgnValid s, srAlgorithm = [], srCertificateSerial = [], srCertificateFingerprint = [], srSubject = [],
                srTrustedChain = sgnTrustedChain s, srRevoked = sgnRevoked s,
                srClientClaimedSigningTime = (if sgnSigningTime s = zeroTime then [] else xTime X (sgnSigningTime s)),
                srTimestampValid = sgnTimestampValid s, srWarnings = sgnWarnings s, srErrors = sgnErrors s,
                srReason = sgnReason s, srContact = sgnContact s\<rparr> in
      case sgnCertificate s of
        None \<Rightarrow> sr\<lparr>srValid := False, srErrors := srErrors sr @ [''no signer certificate in signature'']\<rparr>
      | Some c \<Rightarrow>
          let sr = sr\<lparr>srSubject := xcSubject c, srCertificateSerial := hexInt (xcSerial c),
                      srCertificateFingerprint := FingerprintSHA256 X c, srAlgorithm := algorithmName c\<rparr>;
              sr = (if opRequireMLDSAOnly opt \<and> \<not> IsMLDSA c
                    then sr\<lparr>srValid := False, srErrors := srErrors sr @ [''signer certificate is not ML-DSA (PQC-only profile)'']\<rparr>
                    else sr)
          in checkCRL X opt at extraInter c sr)"

section \<open>The document\<close>

definition verifyDocument :: "xlib \<Rightarrow> pdflib \<Rightarrow> (bytes \<Rightarrow> bytes) \<Rightarrow> nat \<Rightarrow> bytes \<Rightarrow> Options \<Rightarrow> string + Result" where
  "verifyDocument X V sha k pdf opt =
     (if pdf = [] then Inl ''verification: empty PDF input''
      else if opRootPEM opt = [] then Inl ''verification: RootPEM (explicit trust anchor) is required''
      else
        let at = (if opAt opt = zeroTime then pvNow V k else opAt opt) in
        if \<not> xPool X (opRootPEM opt) then Inl ''verification: no valid certificates in RootPEM''
        else (case pvOpen V pdf of
            Some e \<Rightarrow> Inl (''verification: open PDF: '' @ e)
          | None \<Rightarrow>
              let res = \<lparr>reValid = False, reDocumentSHA512 = hexEncode (sha pdf), reSignatures = [], reErrors = []\<rparr> in
              (case pvCheck V pdf (opRootPEM opt) at (opRequireMLDSAOnly opt) (opAllowExternalRevocation opt) of
                 Inl e \<Rightarrow> Inr (res\<lparr>reErrors := [e]\<rparr>)
               | Inr sigs \<Rightarrow>
                   if sigs = [] then Inr (res\<lparr>reErrors := [''no processable signatures found'']\<rparr>)
                   else
                     let extraInter = (if opIntermediatePEM opt = [] then []
                                       else case ParseChainPEM X (opIntermediatePEM opt) of Inl _ \<Rightarrow> [] | Inr cs \<Rightarrow> cs);
                         srs = map (signatureResult X opt at extraInter) sigs
                     in Inr (res\<lparr>reSignatures := srs, reValid := list_all srValid srs\<rparr>))))"

text \<open>The hard limit, the panic guard and the deadline; a result that is in time wins.\<close>

definition VerifyPDF :: "xlib \<Rightarrow> pdflib \<Rightarrow> (bytes \<Rightarrow> bytes) \<Rightarrow> nat \<Rightarrow> bytes \<Rightarrow> Options \<Rightarrow> string + Result" where
  "VerifyPDF X V sha k pdf opt =
     (if int (length pdf) > MaxPDFBytes
        then Inl (''verification: PDF is '' @ dec (length pdf) @ '' bytes, over the '' @ fmt_d MaxPDFBytes @ ''-byte limit'')
      else if opTimeout opt > 0 \<and> pvLate V k pdf (opTimeout opt)
        then Inl (''verification: gave up after '' @ pvDuration V (opTimeout opt) @ '' (malformed PDF?)'')
      else (case pvPanic V k pdf of
          Some e \<Rightarrow> Inl (''verification: recovered from panic parsing PDF: '' @ e)
        | None \<Rightarrow> verifyDocument X V sha k pdf opt))"

section \<open>The server's libraries\<close>

definition toSignature :: "SignatureResult \<Rightarrow> pdf_signature" where
  "toSignature s =
     \<lparr>psValid = srValid s, psAlgorithm = srAlgorithm s, psTrustedChain = srTrustedChain s, psRevoked = srRevoked s,
      psPublicID = PublicID s, psCertificateSerial = srCertificateSerial s, psCertificateFingerprint = srCertificateFingerprint s,
      psClaimedTime = srClientClaimedSigningTime s, psErrors = srErrors s\<rparr>"

definition toResult :: "Result \<Rightarrow> pdf_result" where
  "toResult r = \<lparr>prValid = reValid r, prSignatures = map toSignature (reSignatures r), prErrors = reErrors r\<rparr>"

definition serverOptions :: "bytes \<Rightarrow> bytes \<Rightarrow> bytes \<Rightarrow> Options" where
  "serverOptions root chain crl =
     \<lparr>opRootPEM = root, opIntermediatePEM = chain, opCRLPEM = crl, opRequireMLDSAOnly = True, opAt = zeroTime,
      opAllowExternalRevocation = False, opTimeout = 15 * second\<rparr>"

definition leafChain :: "xlib \<Rightarrow> bytes \<Rightarrow> bytes \<Rightarrow> bytes \<Rightarrow> int \<Rightarrow> bool" where
  "leafChain X leafPEM chainPEM rootPEM t =
     (case ParseCertificatePEM X leafPEM of
        Inl _ \<Rightarrow> False
      | Inr leaf \<Rightarrow>
          (case ValidateCertificateChain X leaf (case ParseChainPEM X chainPEM of Inl _ \<Rightarrow> [] | Inr cs \<Rightarrow> cs) rootPEM t of
             Inl _ \<Rightarrow> False
           | Inr n \<Rightarrow> n > 0))"

definition parseCRLBytes :: "xlib \<Rightarrow> bytes \<Rightarrow> string option" where
  "parseCRLBytes X b = (case xParseCRL X (firstPEM X b) of Inl e \<Rightarrow> Some e | Inr _ \<Rightarrow> None)"

definition coreLib :: "xlib \<Rightarrow> pdflib \<Rightarrow> tlib \<Rightarrow> tlib" where
  "coreLib X V lib =
     lib\<lparr>tlVerifyPDF := (\<lambda>k pdf root chain crl. map_sum id toResult (VerifyPDF X V (tlSHA512 lib) k pdf (serverOptions root chain crl))),
         tlRootOK := xPool X,
         tlParseCert := (\<lambda>b t. map_sum id (\<lambda>(c, info). \<lparr>ciSerial = cnSerialNumber info, ciFingerprint = cnFingerprintSHA256 info,
            ciNotBefore = xcNotBefore c, ciNotAfter = xcNotAfter c, ciKey = xcMLDSA c\<rparr>) (ParseAndValidateCertificate X b t)),
         tlChainOK := leafChain X,
         tlParseCSR := (\<lambda>b. map_sum id (\<lambda>(csr, info). \<lparr>csKeyFP = crPublicKeyFP info, csKey = xrMLDSA csr\<rparr>) (ParseAndValidateCSR X b)),
         tlParseCRL := parseCRLBytes X\<rparr>"

section \<open>What a passed verification means\<close>

definition interOf :: "xlib \<Rightarrow> bytes \<Rightarrow> x509_cert list" where
  "interOf X b = (if b = [] then [] else case ParseChainPEM X b of Inl _ \<Rightarrow> [] | Inr cs \<Rightarrow> cs)"

text \<open>
  A signature as the third-party package reported it, good enough for a submission: valid, trusted, unrevoked, made with an ML-DSA
  certificate, and not on the revocation list that was in force when that list could be checked.
\<close>

definition soundSignature :: "xlib \<Rightarrow> pdflib \<Rightarrow> bytes \<Rightarrow> bytes \<Rightarrow> bytes \<Rightarrow> bytes \<Rightarrow> pdfsign_signature \<Rightarrow> x509_cert \<Rightarrow> bool" where
  "soundSignature X V pdf root chain crl s c \<longleftrightarrow>
     (\<exists>at. pvOpen V pdf = None \<and> pvCheck V pdf root at True False = Inr [s] \<and> sgnValid s \<and> sgnTrustedChain s \<and> \<not> sgnRevoked s \<and>
        sgnCertificate s = Some c \<and> IsMLDSA c \<and>
        (\<forall>st. crl \<noteq> [] \<longrightarrow> ValidateCRL X crl (crlIssuerFor c (interOf X chain)) c at = Inr st \<longrightarrow> \<not> csRevoked st))"

lemma checkCRL_keeps:
  "srValid (checkCRL X opt at ics c sr) \<Longrightarrow> srValid sr \<and>
     (\<forall>st. opCRLPEM opt \<noteq> [] \<longrightarrow> ValidateCRL X (opCRLPEM opt) (crlIssuerFor c ics) c at = Inr st \<longrightarrow> \<not> csRevoked st)"
  "srAlgorithm (checkCRL X opt at ics c sr) = srAlgorithm sr" "srTrustedChain (checkCRL X opt at ics c sr) = srTrustedChain sr"
  "srContact (checkCRL X opt at ics c sr) = srContact sr" "srCertificateSerial (checkCRL X opt at ics c sr) = srCertificateSerial sr"
  "srCertificateFingerprint (checkCRL X opt at ics c sr) = srCertificateFingerprint sr"
  "\<not> srRevoked (checkCRL X opt at ics c sr) \<Longrightarrow> \<not> srRevoked sr"
  by (auto simp: checkCRL_def split: sum.splits if_splits)

lemma signatureResult_valid:
  assumes "srValid (signatureResult X opt at ics s)" "opRequireMLDSAOnly opt"
  shows "\<exists>c. sgnCertificate s = Some c \<and> IsMLDSA c \<and> sgnValid s \<and>
    srCertificateSerial (signatureResult X opt at ics s) = hexInt (xcSerial c) \<and>
    srCertificateFingerprint (signatureResult X opt at ics s) = FingerprintSHA256 X c \<and>
    srTrustedChain (signatureResult X opt at ics s) = sgnTrustedChain s \<and> srContact (signatureResult X opt at ics s) = sgnContact s \<and>
    (\<not> srRevoked (signatureResult X opt at ics s) \<longrightarrow> \<not> sgnRevoked s) \<and>
    (\<forall>st. opCRLPEM opt \<noteq> [] \<longrightarrow> ValidateCRL X (opCRLPEM opt) (crlIssuerFor c ics) c at = Inr st \<longrightarrow> \<not> csRevoked st)"
  using assms
  by (cases "sgnCertificate s") (auto simp: signatureResult_def Let_def checkCRL_keeps(2-6) dest!: checkCRL_keeps(1) checkCRL_keeps(7) split: if_splits)

lemma PublicID_contact: "PublicID s = i \<Longrightarrow> i \<noteq> [] \<Longrightarrow> srContact s = PublicIDPrefix @ i"
  by (auto simp: PublicID_def split: if_splits) (metis append_take_drop_id)

lemma VerifyPDF_checked:
  assumes v: "VerifyPDF X V sha k pdf (serverOptions root chain crl) = Inr r" and c: "checkResult res (toResult r) = Inr sig"
  shows "\<exists>s c. soundSignature X V pdf root chain crl s c \<and> psCertificateSerial sig = hexInt (xcSerial c) \<and>
    psCertificateFingerprint sig = FingerprintSHA256 X c \<and> (rsPublicID res \<noteq> [] \<longrightarrow> sgnContact s = PublicIDPrefix @ rsPublicID res)"
proof -
  let ?opt = "serverOptions root chain crl"
  have d: "verifyDocument X V sha k pdf ?opt = Inr r" using v by (auto simp: VerifyPDF_def split: if_splits option.splits)
  obtain x where r: "reSignatures r = [x]" "sig = toSignature x" "srValid x" "srTrustedChain x" "\<not> srRevoked x" "PublicID x = rsPublicID res"
    using c by (auto simp: checkResult_def toResult_def toSignature_def split: list.splits if_splits)
  obtain at s where s: "pvOpen V pdf = None" "pvCheck V pdf root at True False = Inr [s]" "x = signatureResult X ?opt at (interOf X chain) s"
    using d r(1)
    by (auto simp: verifyDocument_def Let_def serverOptions_def interOf_def map_eq_Cons_conv split: if_splits option.splits sum.splits)
  have o: "opRequireMLDSAOnly ?opt" "opCRLPEM ?opt = crl" by (simp_all add: serverOptions_def)
  obtain c where c: "sgnCertificate s = Some c" "IsMLDSA c" "sgnValid s" "srCertificateSerial x = hexInt (xcSerial c)"
      "srCertificateFingerprint x = FingerprintSHA256 X c" "sgnTrustedChain s" "srContact x = sgnContact s" "\<not> sgnRevoked s"
      "\<forall>st. crl \<noteq> [] \<longrightarrow> ValidateCRL X crl (crlIssuerFor c (interOf X chain)) c at = Inr st \<longrightarrow> \<not> csRevoked st"
    using signatureResult_valid [OF _ o(1), of X at "interOf X chain" s] s(3) r(3-5) o(2) by auto
  then have "soundSignature X V pdf root chain crl s c" using s(1,2) unfolding soundSignature_def by blast
  then show ?thesis using c PublicID_contact [OF r(6)] r(2) by (auto simp: toSignature_def)
qed

lemma VerifyPDF_limit: "int (length pdf) > MaxPDFBytes \<Longrightarrow> \<exists>e. VerifyPDF X V sha k pdf opt = Inl e"
  by (simp add: VerifyPDF_def)

end
