(* ===== verification/CA_Sample.thy ===== *)
theory CA_Sample
  imports CA_Keys Core_Verification
begin

text \<open>
  A library for the CA tool that satisfies \<open>caLaws\<close>, small enough to compute with: every structure is a row of packed strings, a key is its
  own public half, a seal is the key, the nonce and the text.  A run of the tool on it: a CA is made, a serial revoked, a list published.
\<close>

section \<open>Packed strings\<close>

definition pack :: "string \<Rightarrow> bytes" where
  "pack s = concat (map (\<lambda>c. [CHR 0x01, c]) s) @ [CHR 0x02]"

fun unpack :: "bytes \<Rightarrow> (string \<times> bytes) option" where
  "unpack [] = None"
| "unpack [t] = (if t = CHR 0x02 then Some ([], []) else None)"
| "unpack (t # c # r) = (if t = CHR 0x02 then Some ([], c # r) else map_option (\<lambda>(s, rest). (c # s, rest)) (unpack r))"

lemma unpack_pack [simp]: "unpack (pack s @ rest) = Some (s, rest)"
proof (induction s)
  case Nil
  show ?case by (cases rest) (simp_all add: pack_def)
qed (simp add: pack_def)

lemma unpack_shrinks: "unpack b = Some (s, r) \<Longrightarrow> length r < length b"
  by (induction b arbitrary: s r rule: unpack.induct) (fastforce split: if_splits)+

lemma pack_nonempty [simp]: "pack s \<noteq> []"
  by (simp add: pack_def)

definition then_unpack :: "bytes \<Rightarrow> (string \<Rightarrow> bytes \<Rightarrow> 'a option) \<Rightarrow> 'a option" where
  "then_unpack b f = (case unpack b of None \<Rightarrow> None | Some (s, r) \<Rightarrow> f s r)"

lemma then_unpack_pack [simp]: "then_unpack (pack s @ r) f = f s r" "then_unpack (pack s) f = f s []"
  using unpack_pack [of s "[]"] by (simp_all add: then_unpack_def)

definition packInt :: "int \<Rightarrow> bytes" where "packInt n = pack (hexInt n)"

definition then_int :: "bytes \<Rightarrow> (int \<Rightarrow> bytes \<Rightarrow> 'a option) \<Rightarrow> 'a option" where
  "then_int b f = then_unpack b (\<lambda>s r. case readHexInt s of None \<Rightarrow> None | Some n \<Rightarrow> f n r)"

lemma then_int_pack [simp]: "then_int (packInt n @ r) f = f n r" "then_int (packInt n) f = f n []"
  by (simp_all add: then_int_def packInt_def)

section \<open>Ledgers, seals and certificates\<close>

definition packRev :: "Revocation \<Rightarrow> bytes" where
  "packRev r = pack (rvSerial r) @ pack (rvReason r) @ packInt (rvReasonCode r) @ packInt (rvRevokedAt r)"

fun readRevs :: "nat \<Rightarrow> bytes \<Rightarrow> Revocation list option" where
  "readRevs 0 b = (if b = [] then Some [] else None)"
| "readRevs (Suc n) b =
     (if b = [] then Some []
      else then_unpack b (\<lambda>serial b. then_unpack b (\<lambda>reason b. then_int b (\<lambda>rc b. then_int b (\<lambda>at b.
        map_option (\<lambda>rs. \<lparr>rvSerial = serial, rvReason = reason, rvReasonCode = rc, rvRevokedAt = at\<rparr> # rs) (readRevs n b))))))"

definition packLedger :: "Ledger \<Rightarrow> bytes" where
  "packLedger l = packInt (ldCRLNumber l) @ concat (map packRev (ldRevocations l))"

definition readLedger :: "bytes \<Rightarrow> string + Ledger" where
  "readLedger b =
     orErr ''unexpected end of JSON input''
       (then_int b (\<lambda>n r. map_option (\<lambda>rs. \<lparr>ldCRLNumber = n, ldRevocations = rs\<rparr>) (readRevs (length r) r)))"

lemma readRevs_packed: "length rs \<le> n \<Longrightarrow> readRevs n (concat (map packRev rs)) = Some rs"
proof (induction rs arbitrary: n)
  case Nil
  show ?case by (cases n) simp_all
next
  case (Cons r rs)
  then obtain m where "n = Suc m" "length rs \<le> m" by (cases n) auto
  then show ?case using Cons.IH by (simp add: packRev_def)
qed

lemma readLedger_packed [simp]: "readLedger (packLedger l) = Inr l"
proof -
  have "packRev r \<noteq> []" for r by (simp add: packRev_def)
  then have "length rs \<le> length (concat (map packRev rs))" for rs :: "Revocation list"
    by (induction rs) (simp_all, metis One_nat_def Suc_leI add_mono_thms_linordered_semiring(1) length_greater_0_conv plus_1_eq_Suc)
  then show ?thesis by (simp add: readLedger_def packLedger_def readRevs_packed orErr_def)
qed

definition packBlob :: "encBlob \<Rightarrow> bytes" where
  "packBlob b = packInt (ebVersion b) @ pack (ebKDF b) @ packInt (int (ebTime b)) @ packInt (int (ebMemKiB b)) @ packInt (int (ebThreads b)) @
     pack (ebSalt b) @ pack (ebNonce b) @ pack (ebCT b)"

definition readBlob :: "bytes \<Rightarrow> string + encBlob" where
  "readBlob b =
     orErr ''unexpected end of JSON input''
       (then_int b (\<lambda>v b. then_unpack b (\<lambda>kdf b. then_int b (\<lambda>t b. then_int b (\<lambda>m b. then_int b (\<lambda>p b. then_unpack b (\<lambda>salt b. then_unpack b (\<lambda>nonce b.
          then_unpack b (\<lambda>ct b. Some \<lparr>ebVersion = v, ebKDF = kdf, ebTime = nat t, ebMemKiB = nat m, ebThreads = nat p, ebSalt = salt,
            ebNonce = nonce, ebCT = ct\<rparr>)))))))))"

lemma readBlob_packed [simp]: "readBlob (packBlob b) = Inr b"
  by (simp add: readBlob_def packBlob_def orErr_def)

definition packSeal :: "bytes \<Rightarrow> bytes \<Rightarrow> bytes \<Rightarrow> bytes" where
  "packSeal k n p = pack k @ pack n @ pack p"

definition openSeal :: "bytes \<Rightarrow> bytes \<Rightarrow> bytes \<Rightarrow> bytes option" where
  "openSeal k n ct = then_unpack ct (\<lambda>k' b. then_unpack b (\<lambda>n' b. then_unpack b (\<lambda>p b. if k' = k \<and> n' = n then Some p else None)))"

definition packCert :: "cert_template \<Rightarrow> x509_cert option \<Rightarrow> bytes \<Rightarrow> bytes" where
  "packCert t parent pub =
     pack (pnCommonName (tpSubject t)) @ pack (case parent of None \<Rightarrow> pnCommonName (tpSubject t) | Some p \<Rightarrow> xcSubject p) @
     packInt (tpSerialNumber t) @ pub"

definition readCert :: "bytes \<Rightarrow> string + x509_cert" where
  "readCert der =
     orErr ''x509: malformed certificate''
       (then_unpack der (\<lambda>subj b. then_unpack b (\<lambda>iss b. then_int b (\<lambda>n b.
          Some \<lparr>xcRaw = der, xcSubject = subj, xcIssuer = iss, xcSerial = n, xcPublicKeyAlgorithm = Algorithm, xcSignatureAlgorithm = Algorithm,
            xcNotBefore = 0, xcNotAfter = 1000, xcIsCA = False, xcUnknownExtKeyUsage = [OIDDocumentSigningEKU], xcMLDSA = Some b\<rparr>))))"

definition packCRL :: "x509_crl \<Rightarrow> bytes" where
  "packCRL c = packLedger \<lparr>ldCRLNumber = xlNumber c,
     ldRevocations = map (\<lambda>e. \<lparr>rvSerial = hexInt (xeSerial e), rvReason = [], rvReasonCode = xeReason e, rvRevokedAt = xeTime e\<rparr>) (xlEntries c)\<rparr>"

definition readCRL :: "bytes \<Rightarrow> string + x509_crl" where
  "readCRL der =
     bindE (readLedger der) (\<lambda>l. orErr ''x509: malformed CRL'' (map_option (\<lambda>es. \<lparr>xlNumber = ldCRLNumber l, xlThisUpdate = 0, xlNextUpdate = 1000, xlEntries = es\<rparr>)
       (those (map (\<lambda>r. map_option (\<lambda>n. \<lparr>xeSerial = n, xeTime = rvRevokedAt r, xeReason = rvReasonCode r\<rparr>) (readHexInt (rvSerial r))) (ldRevocations l)))))"

lemma readCRL_packed: "readCRL (packCRL c) = Inr \<lparr>xlNumber = xlNumber c, xlThisUpdate = 0, xlNextUpdate = 1000, xlEntries = xlEntries c\<rparr>"
proof -
  have "those (map (\<lambda>r. map_option (\<lambda>n. \<lparr>xeSerial = n, xeTime = rvRevokedAt r, xeReason = rvReasonCode r\<rparr>) (readHexInt (rvSerial r)))
    (map (\<lambda>e. \<lparr>rvSerial = hexInt (xeSerial e), rvReason = [], rvReasonCode = xeReason e, rvRevokedAt = xeTime e\<rparr>) es)) = Some es" for es :: "crl_entry list"
    by (induction es) simp_all
  then show ?thesis by (simp add: readCRL_def packCRL_def bind_simps orErr_def)
qed

section \<open>PEM\<close>

text \<open>A decoder of the texts that \<open>pemText\<close> makes: the type up to the next dash, the base 64 up to the one after, and the rest after the end mark.\<close>

definition pemDecode :: "bytes \<Rightarrow> (pem_block \<times> bytes) option" where
  "pemDecode b =
     (if take 11 b \<noteq> ''-----BEGIN '' then None
      else
        let t = takeWhile (\<lambda>c. c \<noteq> CHR ''-'') (drop 11 b);
            r = drop (16 + length t) b;
            body = takeWhile (\<lambda>c. c \<noteq> CHR ''-'') r
        in map_option (\<lambda>d. (\<lparr>pbType = t, pbBytes = d\<rparr>, drop (length body + 15 + length t) r)) (b64decode body))"

lemma pemLines_filter: "filter (\<lambda>c. c \<noteq> CHR 0x0A \<and> c \<noteq> CHR 0x0D) (pemLines s) = filter (\<lambda>c. c \<noteq> CHR 0x0A \<and> c \<noteq> CHR 0x0D) s"
proof (induction s rule: pemLines.induct)
  case (1 s)
  show ?case
  proof (cases "s = []")
    case False
    then have "filter (\<lambda>c. c \<noteq> CHR 0x0A \<and> c \<noteq> CHR 0x0D) (pemLines s) =
        filter (\<lambda>c. c \<noteq> CHR 0x0A \<and> c \<noteq> CHR 0x0D) (take 64 s @ drop 64 s)"
      using 1 by (subst pemLines.simps) (simp del: append_take_drop_id)
    then show ?thesis by simp
  qed (simp add: pemLines.simps)
qed

lemma takeWhile_upto: "CHR ''-'' \<notin> set x \<Longrightarrow> takeWhile (\<lambda>c. c \<noteq> CHR ''-'') (x @ CHR ''-'' # y) = x"
  by (induction x) auto

lemma drop_exact: "length x = n \<Longrightarrow> drop n (x @ y) = y"
  by simp

lemma pemDecode_pemText: "CHR ''-'' \<notin> set (pbType blk) \<Longrightarrow> pemDecode (pemText blk @ rest) = Some (blk, rest)"
proof -
  assume t: "CHR ''-'' \<notin> set (pbType blk)"
  let ?L = "pemLines (b64encode (pbBytes blk))"
  have L: "CHR ''-'' \<notin> set (CHR 0x0A # ?L)" using pemLines_set [of "b64encode (pbBytes blk)"] b64encode_no_space(2) by auto
  have dec: "b64decode (CHR 0x0A # ?L) = Some (pbBytes blk)"
    by (simp add: b64decode_def pemLines_filter b64encode_plain b64quads_encode)
  have b: "pemText blk @ rest = ''-----BEGIN '' @ pbType blk @ ''-----'' @ (CHR 0x0A # ?L) @ ''-----END '' @ pbType blk @ ''-----'' @ [CHR 0x0A] @ rest"
    by (simp add: pemText_def)
  have "takeWhile (\<lambda>c. c \<noteq> CHR ''-'') (drop 11 (pemText blk @ rest)) = pbType blk"
    unfolding b using takeWhile_upto [OF t] by simp
  moreover have r: "drop (16 + length (pbType blk)) (pemText blk @ rest) = (CHR 0x0A # ?L) @ ''-----END '' @ pbType blk @ ''-----'' @ [CHR 0x0A] @ rest"
    using drop_exact [of "''-----BEGIN '' @ pbType blk @ ''-----''" "16 + length (pbType blk)"] b by simp
  moreover have "drop (length (CHR 0x0A # ?L) + 15 + length (pbType blk)) ((CHR 0x0A # ?L) @ ''-----END '' @ pbType blk @ ''-----'' @ [CHR 0x0A] @ rest) = rest"
    using drop_exact [of "(CHR 0x0A # ?L) @ ''-----END '' @ pbType blk @ ''-----'' @ [CHR 0x0A]" "length (CHR 0x0A # ?L) + 15 + length (pbType blk)" rest] by simp
  moreover have "takeWhile (\<lambda>c. c \<noteq> CHR ''-'') ((CHR 0x0A # ?L) @ ''-----END '' @ pbType blk @ ''-----'' @ [CHR 0x0A] @ rest) = CHR 0x0A # ?L"
    using takeWhile_upto [OF L] by simp
  moreover have "take 11 (pemText blk @ rest) = ''-----BEGIN ''" unfolding b by simp
  ultimately show ?thesis unfolding pemDecode_def by (simp only: Let_def dec option.map) simp
qed

lemma pemDecode_shrinks: "pemDecode b = Some (blk, rest) \<Longrightarrow> length rest < length b"
proof -
  assume d: "pemDecode b = Some (blk, rest)"
  then have "take 11 b = ''-----BEGIN ''" by (simp add: pemDecode_def split: if_splits)
  then have "length (take 11 b) = length ''-----BEGIN ''" by (rule arg_cong)
  then have "11 \<le> length b" by simp
  then show ?thesis using d by (auto simp: pemDecode_def Let_def split: if_splits)
qed

section \<open>The library\<close>

definition sampleX :: xlib where
  "sampleX =
     \<lparr>xPemDecode = pemDecode,
      xPemEncode = pemText,
      xParseCertificate = readCert,
      xParseCSR = (\<lambda>b. Inr \<lparr>xrSubject = b, xrPublicKeyAlgorithm = Algorithm, xrMLDSA = Some b\<rparr>),
      xCheckCSR = (\<lambda>_. None),
      xParseCRL = readCRL,
      xCheckCRL = (\<lambda>_ _. None),
      xPool = (\<lambda>_. True),
      xVerify = (\<lambda>_ _ _ _. Inr 1),
      xKeyParams = (\<lambda>_. Algorithm),
      xMarshalPKIX = Inr,
      xSHA256 = id,
      xTime = hexInt\<rparr>"

definition sampleCA :: calib where
  "sampleCA =
     \<lparr>cbX = sampleX, cbNow = int, cbWrite = (\<lambda>_. None), cbRead = (\<lambda>_. None), cbMkdir = (\<lambda>_. None),
      cbRand = (\<lambda>k n. Inr (replicate n (CHR ''r''))), cbSerial = (\<lambda>k. Inr (int k)), cbGenKey = (\<lambda>k. Inr [CHR ''k'', char_of k]), cbPublic = id,
      cbMarshalPKCS8 = Inr, cbParsePKCS8 = (\<lambda>der. Inr (Inr der)),
      cbCreateCert = (\<lambda>k t parent pub sk. Inr (packCert t parent pub)),
      cbCreateCRL = (\<lambda>k crl ca sk. Inr (packCRL crl)),
      cbArgon = (\<lambda>pass salt t m p n. pass @ salt), cbSeal = packSeal, cbOpen = openSeal,
      cbLedgerJSON = packLedger, cbReadLedger = readLedger, cbIssuedJSON = irSerial, cbCeremonyJSON = cyAction, cbBlobJSON = packBlob, cbReadBlob = readBlob\<rparr>"

lemma sample_pem: "pemLaw sampleX"
proof -
  have "pemShrinks sampleX" using pemDecode_shrinks by (auto simp: pemShrinks_def sampleX_def)
  moreover have "CHR ''-'' \<notin> set t" if "t \<in> {''CERTIFICATE'', ''X509 CRL'', ''PRIVATE KEY''}" for t using that by auto
  ultimately show ?thesis by (simp add: pemLaw_def sampleX_def pemDecode_pemText) (simp add: pemDecode_def)
qed

lemma sample_cert: "certLaw sampleCA"
  unfolding certLaw_def sampleCA_def sampleX_def readCert_def
  by (auto simp: then_unpack_def then_int_def packCert_def orErr_def split: option.splits prod.splits) (simp_all add: packInt_def)

lemma sample_laws: "caLaws sampleCA"
  using sample_pem sample_cert
  by (auto simp: caLaws_def wholeWrites_def ledgerLaw_def keyLaw_def sealLaw_def crlLaw_def)
     (auto simp: sampleCA_def sampleX_def packSeal_def openSeal_def readCRL_packed split: if_splits)

section \<open>A run\<close>

definition officer :: castore where "officer = \<lparr>csPassphrase = ''pw'', csOperator = ''ani''\<rparr>"

lemma id_anyOrder: "anyOrder id"
  by (simp add: anyOrder_def)

lemma sample_simps [simp]:
  "cbX sampleCA = sampleX" "cbWrite sampleCA k = None" "cbRead sampleCA k = None" "cbMkdir sampleCA k = None" "cbNow sampleCA = int"
  "cbRand sampleCA k n = Inr (replicate n (CHR ''r''))" "cbSerial sampleCA k = Inr (int k)" "cbGenKey sampleCA k = Inr [CHR ''k'', char_of k]"
  "cbPublic sampleCA = id" "cbMarshalPKCS8 sampleCA = Inr" "cbParsePKCS8 sampleCA der = Inr (Inr der)"
  "cbCreateCert sampleCA k t parent pub sk = Inr (packCert t parent pub)" "cbCreateCRL sampleCA k crl ca sk = Inr (packCRL crl)"
  "cbLedgerJSON sampleCA = packLedger" "cbReadLedger sampleCA = readLedger" "xParseCertificate sampleX = readCert" "xKeyParams sampleX pub = Algorithm"
  by (simp_all add: sampleCA_def sampleX_def)

lemma readCert_packed [simp]:
  "readCert (packCert t parent pub) = Inr \<lparr>xcRaw = packCert t parent pub, xcSubject = pnCommonName (tpSubject t),
     xcIssuer = (case parent of None \<Rightarrow> pnCommonName (tpSubject t) | Some p \<Rightarrow> xcSubject p), xcSerial = tpSerialNumber t,
     xcPublicKeyAlgorithm = Algorithm, xcSignatureAlgorithm = Algorithm,
     xcNotBefore = 0, xcNotAfter = 1000, xcIsCA = False, xcUnknownExtKeyUsage = [OIDDocumentSigningEKU], xcMLDSA = Some pub\<rparr>"
  by (simp add: readCert_def packCert_def orErr_def)

lemma sample_works: "workingDisk sampleCA" "workingLibrary sampleCA" "withPEM sampleCA = sampleCA"
  by (simp_all add: workingDisk_def workingLibrary_def withPEM_def) (simp add: sampleCA_def sampleX_def)

text \<open>A document with one signature, made with serial 2a by a certificate of an issuer; the package itself finds no fault with it.\<close>

definition revokedPDF :: "string \<Rightarrow> pdflib" where
  "revokedPDF iss =
     \<lparr>pvOpen = (\<lambda>_. None),
      pvCheck = (\<lambda>_ _ _ _ _. Inr [\<lparr>sgnValid = True, sgnTrustedChain = True, sgnRevoked = False, sgnTimestampValid = False, sgnReason = [],
        sgnContact = ''pqc-public-id:p'', sgnSigningTime = 5,
        sgnCertificate = Some \<lparr>xcRaw = ''c'', xcSubject = ''d'', xcIssuer = iss, xcSerial = 42, xcPublicKeyAlgorithm = Algorithm,
          xcSignatureAlgorithm = Algorithm, xcNotBefore = 0, xcNotAfter = 1000, xcIsCA = False, xcUnknownExtKeyUsage = [OIDDocumentSigningEKU],
          xcMLDSA = Some ''k''\<rparr>,
        sgnWarnings = [], sgnErrors = []\<rparr>]),
      pvPanic = (\<lambda>_ _. None), pvLate = (\<lambda>_ _ _. False), pvNow = (\<lambda>_. 6), pvDuration = hexInt\<rparr>"

end
