(* ===== verification/CA_Properties.thy ===== *)
theory CA_Properties
  imports CA_Sample
begin

text \<open>
  The properties of the offline CA and of its revocation lists at the verifier.
\<close>

section \<open>Lemmas\<close>




lemma noCA_start: "caDirOK noCA" "caPair C noCA" "\<not> cwExists noCA"
  by (simp_all add: noCA_def caDirOK_def caPair_def)


text \<open>A CA right after \<^verbatim>\<open>init\<close>, and what stays of that.\<close>

definition freshCA :: "calib \<Rightarrow> string \<Rightarrow> ca_world \<Rightarrow> bool" where
  "freshCA C pass w \<longleftrightarrow> cwExists w \<and> bothCAs C w pass \<and> ledgerOf C w = Some emptyLedger"

lemma cmdInit_works:
  assumes laws: "caLaws C" and lib: "workingLibrary C" and disk: "workingDisk C" and ord: "anyOrder ord" and new: "caDirOK w" "\<not> cwExists w"
  shows "\<exists>w'. run_state (cmdInit C s ord d rootCN interCN) w = (Inr (), w') \<and> freshCA C (csPassphrase s) w'"
proof -
  let ?Q = "\<lambda>r w'. r = Inr () \<and> ledgerOf C w' = Some emptyLedger \<and> bothCAs C w' (csPassphrase s)"
  have "wp (Init C s ord d rootCN interCN) ?Q w"
    by (rule wp_conj [THEN iffD2, OF conjI, THEN wp_mono, OF Init_works [OF laws lib disk new] Init_result [OF laws ord new]]) blast
  then have "wp (cmdInit C s ord d rootCN interCN) ?Q w"
    unfolding cmdInit_def
  proof (rule wp_andThenI)
    fix x w1 assume w1: "?Q (Inr x) w1"
    then obtain root ca where ca: "holdsCA C w1 (csPassphrase s) ''root'' root" "holdsCA C w1 (csPassphrase s) ''intermediate'' ca"
      unfolding bothCAs_def by blast
    have load: "wp (loadCA C s name) (\<lambda>r w'. r = Inr y \<and> sameFiles UNIV w2 w') w2"
      if "sameFiles UNIV w1 w2" "holdsCA C w1 (csPassphrase s) name y" "name \<in> {''root'', ''intermediate''}" for name y w2
      using laws holdsCA_same [OF that(1) _ that(3)] that(2)
      by (intro wp_mono [OF loadCA_works [OF _ _ _ disk]]) (auto simp: caLaws_def)
    have kept: "ledgerOf C w2 = Some emptyLedger \<and> bothCAs C w2 (csPassphrase s)" if "sameFiles UNIV w1 w2" for w2
      using w1 that bothCAs_kept [OF sameFiles_mono [OF that]] by (auto simp: sameFiles_ledger)
    show "wp (do { root \<leftarrow> Root C s; ca \<leftarrow> Intermediate C s; enc \<leftarrow> caEncrypted;
        _ \<leftarrow> logCeremony C s ''ca.init'' ''root+intermediate generated''
          ((if enc then [''root/key.pem.enc'', ''intermediate/key.pem.enc''] else [''root/key.pem'', ''intermediate/key.pem'']) @
           [''root/cert.pem'', ''intermediate/cert.pem'', ''public/root-ca.crt.pem'', ''public/intermediate-ca.crt.pem'', ''public/ca-chain.pem'']);
        ret (if isl root \<or> isl ca then Inl nilPointer else Inr ()) }) ?Q w1"
      unfolding Root_def Intermediate_def
      by (intro wp_bindI [OF load [OF frame.R_refl ca(1)]] wp_bindI [OF load [OF _ ca(2)]] wp_bindI [OF frame_load(10) [where F = UNIV]]
          wp_bindI [OF frame_load(11) [where F = UNIV]]) (simp_all add: wp_return, meson kept sameFiles_trans)
  qed simp
  moreover have "wp (cmdInit C s ord d rootCN interCN) (\<lambda>_. caDirOK) w"
    using dir.keepsC_cmdInit [OF ord, of C s d rootCN interCN] new(1) unfolding dir.keepsC_def by (auto intro: wp_mono)
  ultimately show ?thesis
    by (auto simp: wp_def freshCA_def caDirOK_def ledgerOf_def split: prod.splits)
qed

lemma freshCA_runs:
  assumes "caLaws C" "freshCA C pass w" "caRuns C w w'"
  shows "cwExists w' \<and> bothCAs C w' pass \<and> (\<exists>l. ledgerOf C w' = Some l \<and> (\<forall>r\<in>set (ldRevocations l). readHexInt (rvSerial r) \<noteq> None))"
proof -
  have w: "cwExists w" "bothCAs C w pass" "ledgerOf C w = Some emptyLedger" using assms(2) by (auto simp: freshCA_def)
  have "ledgerGrows C w w'" using assms(1,3) w(1) by (intro runs_grow) (auto simp: caLaws_def caDirOK_def)
  then show ?thesis
    using w bothCAs_kept [OF runs_kept [OF assms(3) w(1)] w(2)] dir.runs_related [OF assms(3)]
    by (auto simp: ledgerGrows_def emptyLedger_def list_all_iff)
qed


lemma revoke_and_list:
  assumes laws: "caLaws C" and lib: "workingLibrary C" and disk: "workingDisk C" and ord: "anyOrder ord" and fresh: "freshCA C (csPassphrase s) w"
    and run: "caRuns C w w1" and new: "\<not> revokedSerial C w1 serial" and serial: "readHexInt serial = Some n" and reason: "reasonCodes reason \<noteq> None"
  shows "\<exists>w2 w3. run_state (cmdRevoke C s serial reason) w1 = (Inr (), w2) \<and> run_state (cmdCRL C s ord days out) w2 = (Inr (), w3) \<and>
    caRuns C w w2 \<and> revokedSerial C w2 serial \<and> publishedCRL C w2 w3"
proof -
  obtain l where l: "cwExists w1" "bothCAs C w1 (csPassphrase s)" "ledgerOf C w1 = Some l" using freshCA_runs [OF laws fresh run] by blast
  have "wp (cmdRevoke C s serial reason) (\<lambda>r _. r = Inr ()) w1"
    using serial reason new l by (intro revoke_works [OF disk]) (auto simp: revokedSerial_def readHexInt_def)
  then obtain w2 where w2: "run_state (cmdRevoke C s serial reason) w1 = (Inr (), w2)" by (auto simp: wp_def split: prod.splits)
  have run2: "caRuns C w w2" using runs_command [OF run ord, of s "DoRevoke serial reason"] w2 by simp
  obtain l2 where l2: "cwExists w2" "bothCAs C w2 (csPassphrase s)" "ledgerOf C w2 = Some l2"
      "\<forall>r\<in>set (ldRevocations l2). readHexInt (rvSerial r) \<noteq> None"
    using freshCA_runs [OF laws fresh run2] by blast
  have rev: "revokedSerial C w2 serial" using wp_run [OF revoke_result w2] laws by (simp add: caLaws_def)
  have "wp (cmdCRL C s ord days out) (\<lambda>r _. r = Inr ()) w2"
    using lib by (intro crl_works [OF laws disk l2]) (auto simp: workingLibrary_def)
  then obtain w3 where w3: "run_state (cmdCRL C s ord days out) w2 = (Inr (), w3)" by (auto simp: wp_def split: prod.splits)
  have "publishedCRL C w2 w3" using wp_run [OF crl_result [OF _ _ ord] w3] laws by (simp add: caLaws_def)
  then show ?thesis using w2 w3 run2 rev by blast
qed

text \<open>The runs of the example.\<close>

lemma sample_serial: "readHexInt ''2a'' = Some 42" "reasonCodes ''keyCompromise'' \<noteq> None"
  by code_simp+

lemma sample_init: "\<exists>w. run_state (cmdInit sampleCA officer id ''ca'' ''R'' ''I'') noCA = (Inr (), w) \<and> freshCA sampleCA (csPassphrase officer) w \<and> caRuns sampleCA noCA w"
proof -
  obtain w where w: "run_state (cmdInit sampleCA officer id ''ca'' ''R'' ''I'') noCA = (Inr (), w)" "freshCA sampleCA (csPassphrase officer) w"
    using cmdInit_works [OF sample_laws sample_works(2,1) id_anyOrder noCA_start(1) noCA_start(3)] by blast
  then have "caRuns sampleCA noCA w" using runs_command [OF runs_none id_anyOrder, of sampleCA officer "DoInit ''ca'' ''R'' ''I''"] by simp
  then show ?thesis using w by blast
qed

lemma sample_revoked:
  "\<exists>w0 w1 w2. caRuns sampleCA noCA w0 \<and> run_state (cmdRevoke sampleCA officer ''2a'' ''keyCompromise'') w0 = (Inr (), w1) \<and>
     run_state (cmdCRL sampleCA officer id 7 []) w1 = (Inr (), w2)"
proof -
  obtain w0 where w0: "freshCA sampleCA (csPassphrase officer) w0" "caRuns sampleCA noCA w0" using sample_init by blast
  then have "\<not> revokedSerial sampleCA w0 ''2a''" by (simp add: freshCA_def revokedSerial_def emptyLedger_def)
  then show ?thesis
    using revoke_and_list [OF sample_laws sample_works(2,1) id_anyOrder w0(1) runs_none _ sample_serial] w0(2) by blast
qed




section \<open>Properties\<close>



text \<open>
  C17. The public directory never holds a private key.  After any commands, by any operators and with any failures of the file system, no file
  of the public directory looks like a private key, so the gate of \<^verbatim>\<open>status\<close> finds nothing.
\<close>

theorem ca_public_has_no_key:
  assumes "caRuns (withPEM C) noCA w"
  shows "(\<forall>name b. cwCA w (''public/'' @ name) = Some b \<longrightarrow> \<not> bytesContainsAny b privateMarks) \<and>
    fst (run_state (findLeak (withPEM C) names) w) = None"
proof
  have "\<not> bytesContainsAny b privateMarks" if "cwCA w (''public/'' @ name) = Some b" for name b
    using public_no_marks [OF assms that] .
  then show "\<forall>name b. cwCA w (''public/'' @ name) = Some b \<longrightarrow> \<not> bytesContainsAny b privateMarks"
    and "fst (run_state (findLeak (withPEM C) names) w) = None"
    using findLeak_none [of w "withPEM C" names] by (auto simp: wp_def simp del: append.simps split: prod.splits)
qed

theorem ca_public_has_no_key_witness:
  "\<exists>w b. caRuns sampleCA noCA w \<and> cwCA w ''public/crl.pem'' = Some b \<and> \<not> bytesContainsAny b privateMarks"
proof -
  obtain w0 w1 w2 where w: "caRuns sampleCA noCA w0" "run_state (cmdRevoke sampleCA officer ''2a'' ''keyCompromise'') w0 = (Inr (), w1)"
      "run_state (cmdCRL sampleCA officer id 7 []) w1 = (Inr (), w2)"
    using sample_revoked by blast
  have "caRuns sampleCA noCA w1" using runs_command [OF w(1) id_anyOrder, of officer "DoRevoke ''2a'' ''keyCompromise''"] w(2) by simp
  then have "caRuns sampleCA noCA w2" using runs_command [OF _ id_anyOrder, of sampleCA noCA w1 officer "DoCRL 7 []"] w(3) by simp
  moreover obtain b where "cwCA w2 ''public/crl.pem'' = Some b"
    using wp_run [OF crl_result [OF _ _ id_anyOrder] w(3)] sample_laws by (auto simp: caLaws_def publishedCRL_def)
  ultimately show ?thesis using ca_public_has_no_key [of sampleCA w2 "[]"] sample_works(3) by auto
qed





end
