(* ===== verification/TTD_Core.thy ===== *)
theory TTD_Core
  imports TTD_Properties CA_Properties
begin

text \<open>
  The TTD server with the verifier of \<open>Core_Verification\<close> as its library: what an accepted signature is, down to what the PDF package
  reported of the stored bytes.
\<close>

section \<open>A server on the sample certificates\<close>

text \<open>The package reports one good signature, by a certificate with serial 2a.\<close>

definition cmPDF :: pdflib where
  "cmPDF = (revokedPDF ''I'')\<lparr>pvCheck := (\<lambda>pdf root at a b. case pvCheck (revokedPDF ''I'') pdf root at a b of
      Inl e \<Rightarrow> Inl e | Inr sigs \<Rightarrow> Inr (map (\<lambda>g. g\<lparr>sgnContact := ''pqc-public-id:sig_1''\<rparr>) sigs))\<rparr>"

definition cmLib :: tlib where "cmLib = coreLib sampleX cmPDF smLib"

definition cmT :: ttd where "cmT = serverOf smE (postgresStore smE) cmLib smCfg"




lemma cmT_facts [simp]: "ttEnv cmT = smE" "ttStore cmT = postgresStore smE" "ttLib cmT = cmLib" "signer cmT = signer smT"
  by (simp_all add: cmT_def serverOf_def signer_def smT_def cmLib_def coreLib_def)





section \<open>The property\<close>



end
