(* ===== verification/Spec2Isabelle.thy ===== *)
theory Spec2Isabelle
  imports Transaction_Properties Asset_Properties Crypto_Hybrid Audit_Verifier Office_Properties Outbox_Properties Indexer
    Archive_Properties TTD_Properties TTD_Core
begin

text \<open>
  A verification development of an office transaction system: people file requests and send files to a
  central archive, approve them with post-quantum PDF signatures, and every step is recorded as a hybrid-signed,
  hash-chained event in a database and on a Hyperledger Fabric ledger.

  \<^bold>\<open>The program.\<close>  Paths are relative to \<^verbatim>\<open>src/\<close>.
  \<^item> The chaincode (\<^verbatim>\<open>chaincode/transaction\<close>, \<^verbatim>\<open>chaincode/asset\<close>) keeps transactions with their event
    history and assets with their custody history in the ledger's key-value state.
  \<^item> The crypto module (\<^verbatim>\<open>crypto\<close>) has canonical JSON, payload hashes, hybrid Ed25519 + ML-DSA-65 signatures and
    the hybrid X25519 + ML-KEM-768 key encapsulation.
  \<^item> The ledger API (\<^verbatim>\<open>api/internal/httpapi\<close>) serves the transaction and asset endpoints, the office workflow
    and the archive over one PostgreSQL database.  Each step writes its signed event and the chaincode calls
    that repeat it (the outbox) in one database transaction.
  \<^item> The outbox worker (\<^verbatim>\<open>api/internal/outbox\<close>) relays outbox rows to the chaincode; the indexer (\<^verbatim>\<open>indexer\<close>) marks in the
    database what the ledger has committed; the audit service (\<^verbatim>\<open>audit-service\<close>) re-verifies what is on the ledger.
  \<^item> The TTD server (\<^verbatim>\<open>ttd/server\<close>) holds accounts, device certificates and signed PDFs and stands in front of the
    office app; the ledger API asks it who signed what.  It verifies PDFs and certificates with \<^verbatim>\<open>ttd/core\<close>.
  \<^item> The offline CA (\<^verbatim>\<open>ttd/tools/ca-admin\<close>) makes the root and intermediate CAs, issues device certificates and publishes the
    revocation list that the TTD server checks signatures against.

  \<^bold>\<open>The theories\<close>, each importing the ones it rests on.
  \<^item> \<open>Prelude\<close>: the error sum and its bind, decimal formatting with its inverse and order, list lemmas.
    \<open>Go_Strings\<close>, \<open>Base64\<close>: the parts of Go's string library the handlers use.
  \<^item> \<open>Chaincode_Stub\<close>: the Fabric stub as the locale \<open>fabric_stub\<close>, interpreted on the repository's in-memory stub.
    \<open>Transaction_Contract\<close>, \<open>Asset_Contract\<close>: one definition per contract function, over any stub.
    \<open>Transaction_Ledger\<close>, \<open>Asset_Ledger\<close>: an abstract ledger of append-only event lists and the simulation.
    \<open>Transaction_Properties\<close>, \<open>Asset_Properties\<close>: refinement, hash chains, append-only histories, idempotency,
    approvals, the status graphs.
  \<^item> \<open>Crypto_Canonical\<close>, \<open>Crypto_Hybrid\<close>: \<^verbatim>\<open>canonical.go\<close>, \<^verbatim>\<open>suite.go\<close>, \<^verbatim>\<open>signing_context.go\<close>, \<^verbatim>\<open>hybrid.go\<close>, \<^verbatim>\<open>kem.go\<close>:
    canonical bytes determine the payload, sign/verify and encapsulate/decapsulate round trips, verification fails
    closed, no replay across contexts.
  \<^item> \<open>Audit_Verifier\<close>: \<^verbatim>\<open>verify.go\<close>: what a valid receipt means and that a ledger only the contract wrote is found intact.
  \<^item> \<open>Ledger_DB\<close>, \<open>Ledger_API\<close>, \<open>Office\<close>: the tables with their constraints, \<^verbatim>\<open>appendTransactionEvent\<close>, the outbox and every handler of
    \<^verbatim>\<open>transactions.go\<close>, \<^verbatim>\<open>assets.go\<close>, \<^verbatim>\<open>documents.go\<close>, \<^verbatim>\<open>office_auth.go\<close> and \<^verbatim>\<open>office.go\<close>.
    \<open>Office_Sync\<close>: the rows queued in the outbox, replayed on the abstract ledger, give the database.
    \<open>Office_Runs\<close>: runs of the office and archive handlers over one database with their invariants.
    \<open>Office_Sample\<close>: a concrete run for the witnesses.  \<open>Office_Properties\<close>: agreement with the ledger, the second
    person, signature-backed approvals, rollback, visibility.
  \<^item> \<open>Outbox_Worker\<close>, \<open>Outbox_Properties\<close>: \<^verbatim>\<open>worker.go\<close>: rows are not lost, the drain loop ends, an office outbox reaches
    the ledger.  \<open>Indexer\<close>: \<^verbatim>\<open>indexer/main.go\<close> and its packages: resuming without gaps.
  \<^item> \<open>Archive\<close>, \<open>Archive_Finalize\<close>: \<^verbatim>\<open>archive.go\<close>: upload sessions with scratch files and running hashes; finalisation
    with read-back, three signed events and the signed receipt.  \<open>Archive_Admin\<close>: \<^verbatim>\<open>archive_admin.go\<close>,
    \<^verbatim>\<open>archive_verify.go\<close>.  \<open>Archive_Uploads\<close>: runs of the upload handlers, with failures, restarts and the janitor.
    \<open>Archive_Verify\<close>: re-verification as one condition.  \<open>Archive_Sample\<close>, \<open>Archive_Properties\<close>: a concrete upload and
    the properties.
  \<^item> \<open>Go_JSON\<close>, \<open>TTD_Auth\<close>: reading JSON text, \<^verbatim>\<open>auth.go\<close> and \<^verbatim>\<open>totp.go\<close>: password records, session tokens, one-time codes.
    \<open>TTD_Store\<close>: the records of \<^verbatim>\<open>store.go\<close>, the interface \<^verbatim>\<open>Store\<close> and the state monad of the handlers with its weakest
    preconditions.  \<open>TTD_Interface\<close>: what the handlers rely on, as the locale \<open>ttd_store\<close>.  \<open>TTD_Memory\<close>, \<open>TTD_Postgres\<close>: \<^verbatim>\<open>memory.go\<close> and
    \<^verbatim>\<open>postgres.go\<close>, one definition per method, each an interpretation of the locale.
  \<^item> \<open>TTD_Server\<close>, \<open>TTD_Login\<close>, \<open>TTD_Certificates\<close>, \<open>TTD_Accounts\<close>, \<open>TTD_Uploads\<close>, \<open>TTD_Signing\<close>, \<open>TTD_Routes\<close>: start-up and guards (\<^verbatim>\<open>api.go\<close>,
    \<^verbatim>\<open>superadmin.go\<close>), the logins (\<^verbatim>\<open>handlers.go\<close>, \<^verbatim>\<open>adminsecurity.go\<close>, \<^verbatim>\<open>superadmin.go\<close>), devices and certificates (\<^verbatim>\<open>handlers.go\<close>,
    \<^verbatim>\<open>certificates.go\<close>, \<^verbatim>\<open>devissue.go\<close>), \<^verbatim>\<open>accounts.go\<close>, \<^verbatim>\<open>uploads.go\<close>, reservations, submissions and public verification (\<^verbatim>\<open>handlers.go\<close>,
    \<^verbatim>\<open>verify.go\<close>, \<^verbatim>\<open>stamp.go\<close>, \<^verbatim>\<open>qrpage.go\<close>), the office integration \<^verbatim>\<open>office.go\<close> and the route table as one function \<open>serve\<close>.
  \<^item> \<open>TTD_Invariant\<close>: locales for relations between tables that requests keep, with one lemma per handler.
    \<open>TTD_Backing\<close>, \<open>TTD_Reach\<close>: every accepted signature is backed by a verified document, in every reachable state.
    \<open>TTD_Disable\<close>: the cascade that revokes, and that it lasts.  \<open>TTD_Office\<close>: \<^verbatim>\<open>ttdclient.go\<close>, and what an approval means in the
    TTD server's records.  \<open>TTD_Sample\<close>, \<open>TTD_Properties\<close>: a concrete server and the properties.
  \<^item> \<open>Core_Certificates\<close>: \<^verbatim>\<open>certutil.go\<close>, \<^verbatim>\<open>csr.go\<close>, \<^verbatim>\<open>keys.go\<close> over Go's X.509 packages, the record \<open>xlib\<close>.  \<open>Core_Verification\<close>:
    \<^verbatim>\<open>core/verification/verify.go\<close> over the package \<^verbatim>\<open>pdfsign\<close>, the record \<open>pdflib\<close>, and \<open>coreLib\<close>, the library of a TTD server that uses them.
    \<open>TTD_Core\<close>: what an accepted signature is in the stored bytes.
  \<^item> \<open>CA_Store\<close>: the CA directory with file operations that can fail, key files (\<^verbatim>\<open>keyfile.go\<close>) and issuing (\<^verbatim>\<open>labpki.go\<close>).  \<open>CA_Admin\<close>: the store
    (\<^verbatim>\<open>castore.go\<close>), the commands (\<^verbatim>\<open>main.go\<close>) and their runs \<open>caRuns\<close>.  \<open>CA_Runs\<close>: the locales \<open>ca_relation\<close>, \<open>ca_publishing\<close> and \<open>ca_invariant\<close>
    for relations that the commands keep, and the public directory.  \<open>CA_Ledger\<close>: the ledger grows and the list says what it says.
    \<open>CA_Keys\<close>: the keys of \<^verbatim>\<open>init\<close> stay.  \<open>CA_Sample\<close>, \<open>CA_Properties\<close>: a library with all the laws and the properties.

  \<^bold>\<open>Conventions.\<close>  A Go struct is a record, a handler a function of an environment, the request and the state to the
  new state and the response.  Every early return is a branch.  Errors are values of a sum or option
  type; a failed database transaction returns the old database.  What comes from outside is a
  parameter: cryptographic primitives, the keystore, clock, random ids, the Fabric gateway and event stream, the object
  store, and which labelled statement fails (\<open>enFault\<close>).  JSON texts are the values they encode.  Strings are byte
  lists; lengths and truncations count bytes or runes as the code does.  Counters that only move by one from zero are
  unbounded integers.  Requests of the TTD server run one after the other, in a state monad whose every reading of the clock, the random source and
  the faults is a separate draw.  The database's int4 limits and the 64-bit limits of parsed numbers are written out.

  \<^bold>\<open>Named hypotheses.\<close>  \<open>prims_correct\<close>, \<open>kem_correct\<close>: the primitives verify what they sign, decapsulate what they
  encapsulated.  \<open>envOK\<close>: the clock and ids of one request are usable.  \<open>calm\<close>, \<open>marksSucceed\<close>, \<open>ordersRows\<close>, \<open>delivers\<close>,
  \<open>ledgerLog\<close>: the gateway answers, outcomes can be stored, rows are claimed in insertion order, the event stream
  delivers what follows the checkpoint.  \<open>sameServer\<close>, \<open>keyRegistered\<close>, \<open>noReadFault\<close>, \<open>freshUpload\<close>, \<open>freshItem\<close>: conditions of
  the archive round trip.  \<open>uniqueIDs\<close>, \<open>iterates\<close>, \<open>noFaults\<close>, \<open>uniqueSerials\<close>: the TTD server's random ids do not repeat, ranging over a map
  or table visits each row once, the database executes its statements, the CA does not repeat a serial.
  \<open>caLaws\<close>: PEM, PKCS 8, the ledger's JSON and the seal of a key read back what was written, a certificate carries the key it was made for, a
  revocation list made with a CA's key parses to its entries and checks under its certificate, a failed write leaves the old file.
  \<open>workingDisk\<close>, \<open>workingLibrary\<close>: nothing fails.  Each is discharged on concrete functions by the witness of the property that uses it.

  \<^bold>\<open>Loops and fuel.\<close>  Loops over data are structural recursion.  The worker's drain loop has fuel; \<open>outbox_drain_terminates\<close>
  shows that a number of rounds computed from the rows is enough, whatever the gateway answers.  The listener's
  reconnect loop is a list of passes, one per connection.  Reading the PEM blocks of a text has its length as fuel, enough because each block
  leaves less (\<open>pemBlocks_fuel\<close>).

  \<^bold>\<open>Not modelled.\<close>  Start-up, configuration and routing (\<^verbatim>\<open>main.go\<close>, \<^verbatim>\<open>config\<close>, \<^verbatim>\<open>server.go\<close>), the Fabric and MinIO clients
  (third-party calls), the file and S3 object stores, the token buckets of the rate limits, PDF signing and the browser's key storage (\<^verbatim>\<open>ttd/core/signing\<close>,
  \<^verbatim>\<open>webkeys\<close>, \<^verbatim>\<open>webbridge\<close>; third-party packages do the work), HTML pages, QR drawing and other web assets, backup and restore of the CA
  directory and what the CA tool prints, the network tools.

  \<^bold>\<open>Left in the plan.\<close>  That an accepted one-time code is never accepted again; the browser's key files (\<^verbatim>\<open>webkeys\<close>); safe unpacking in
  \<^verbatim>\<open>backup.go\<close>.
\<close>

end
